(* ===== verification/Prelude.thy ===== *)
theory Prelude
  imports Main "HOL-Library.Word" "HOL-Library.State_Monad"
begin

text \<open>
  Shared vocabulary of the development.

  The services of the power manager are written as stateful C++ methods that call one another and
  call out to the display, window, sensor and driver services.  They are modelled in the state monad
  of HOL-Library.  This theory provides

    \<^item> the combinators the component theories are written in (\<open>gets\<close>, \<open>modify\<close>, \<open>whenM\<close>,
      \<open>for_each\<close>);
    \<^item> \<open>wp\<close>, the weakest precondition of a computation, with simplification rules
      that compute it through every combinator (collection \<open>wp_simps\<close>);
    \<^item> \<open>keeps\<close>, the frame calculus: \<open>keeps f m\<close> says that running \<open>m\<close> never changes the
      observation \<open>f\<close> of the state (collection \<open>keeps_intros\<close>);
    \<^item> \<open>holds_after\<close>, a result that every run of a computation establishes;
    \<^item> generic lemmas on lists and words that several components use.
\<close>

named_theorems wp_simps
named_theorems keeps_intros
named_theorems enum_simps

section \<open>Combinators\<close>

definition gets :: "('s \<Rightarrow> 'a) \<Rightarrow> ('s, 'a) state" where
  "gets f = State (\<lambda>s. (f s, s))"

definition modify :: "('s \<Rightarrow> 's) \<Rightarrow> ('s, unit) state" where
  "modify f = State (\<lambda>s. ((), f s))"

definition skip :: "('s, unit) state" where
  "skip = State_Monad.return ()"

definition whenM :: "bool \<Rightarrow> ('s, unit) state \<Rightarrow> ('s, unit) state" where
  "whenM b m = (if b then m else skip)"

primrec for_each :: "('a \<Rightarrow> ('s, unit) state) \<Rightarrow> 'a list \<Rightarrow> ('s, unit) state" where
  "for_each f [] = skip"
| "for_each f (x # xs) = do { f x; for_each f xs }"

definition exec :: "('s, 'a) state \<Rightarrow> 's \<Rightarrow> 's" where
  "exec m s = snd (run_state m s)"

definition result :: "('s, 'a) state \<Rightarrow> 's \<Rightarrow> 'a" where
  "result m s = fst (run_state m s)"

lemma run_gets [simp]: "run_state (gets f) s = (f s, s)"
  by (simp add: gets_def)

lemma run_modify [simp]: "run_state (modify f) s = ((), f s)"
  by (simp add: modify_def)

lemma run_skip [simp]: "run_state skip s = ((), s)"
  by (simp add: skip_def)

lemma run_when [simp]: "run_state (whenM b m) s = (if b then run_state m s else ((), s))"
  by (simp add: whenM_def)

lemma run_result_exec: "run_state m s = (result m s, exec m s)"
  by (simp add: result_def exec_def)

lemma exec_simps [simp]:
  "exec (State_Monad.return a) s = s"
  "exec (gets f) s = s"
  "exec (modify g) s = g s"
  "exec skip s = s"
  "exec (whenM b n) s = (if b then exec n s else s)"
  "exec (if c then m else m') s = (if c then exec m s else exec m' s)"
  by (simp_all add: exec_def)

lemma result_simps [simp]:
  "result (State_Monad.return a) s = a"
  "result (gets f) s = f s"
  "result (if c then m else m') s = (if c then result m s else result m' s)"
  by (simp_all add: result_def)

lemma exec_bind [simp]: "exec (State_Monad.bind m f) s = exec (f (result m s)) (exec m s)"
  by (simp add: exec_def result_def split: prod.splits)

lemma result_bind [simp]: "result (State_Monad.bind m f) s = result (f (result m s)) (exec m s)"
  by (simp add: exec_def result_def split: prod.splits)

lemma exec_for_each_append:
  "exec (for_each f (xs @ ys)) s = exec (for_each f ys) (exec (for_each f xs) s)"
  by (induction xs arbitrary: s) simp_all

section \<open>Weakest preconditions\<close>

definition wp :: "('s, 'a) state \<Rightarrow> ('a \<Rightarrow> 's \<Rightarrow> bool) \<Rightarrow> 's \<Rightarrow> bool" where
  "wp m Q s = Q (result m s) (exec m s)"

lemma wp_return [wp_simps]: "wp (State_Monad.return a) Q s = Q a s"
  by (simp add: wp_def)

lemma wp_bind [wp_simps]: "wp (State_Monad.bind m f) Q s = wp m (\<lambda>x. wp (f x) Q) s"
  by (simp add: wp_def)

lemma wp_gets [wp_simps]: "wp (gets f) Q s = Q (f s) s"
  by (simp add: wp_def)

lemma wp_modify [wp_simps]: "wp (modify f) Q s = Q () (f s)"
  by (simp add: wp_def)

lemma wp_skip [wp_simps]: "wp skip Q s = Q () s"
  by (simp add: wp_def)

lemma wp_when [wp_simps]: "wp (whenM b m) Q s = (if b then wp m Q s else Q () s)"
  by (simp add: wp_def result_def)

lemma wp_if [wp_simps]: "wp (if c then m else n) Q s = (if c then wp m Q s else wp n Q s)"
  by simp

lemma wp_weaken:
  assumes "wp m Q s" and "\<And>x t. Q x t \<Longrightarrow> R x t"
  shows "wp m R s"
  using assms by (simp add: wp_def)

lemma wpD: "wp m Q s \<Longrightarrow> run_state m s = (x, t) \<Longrightarrow> Q x t"
  by (simp add: wp_def result_def exec_def)

section \<open>Frames\<close>

text \<open>
  \<open>keeps f m\<close>: no run of \<open>m\<close> changes \<open>f\<close>.  The rules follow the structure of a computation, so a
  frame fact about a method is proved by unfolding its definition and applying the collection.
\<close>

definition keeps :: "('s \<Rightarrow> 'b) \<Rightarrow> ('s, 'a) state \<Rightarrow> bool" where
  "keeps f m = (\<forall>s. f (exec m s) = f s)"

lemma keepsI: "(\<And>s. f (exec m s) = f s) \<Longrightarrow> keeps f m"
  by (simp add: keeps_def)

lemma keepsD: "keeps f m \<Longrightarrow> f (exec m s) = f s"
  by (simp add: keeps_def)

lemma keeps_return [keeps_intros]: "keeps f (State_Monad.return a)"
  by (simp add: keeps_def)

lemma keeps_gets [keeps_intros]: "keeps f (gets g)"
  by (simp add: keeps_def)

lemma keeps_skip [keeps_intros]: "keeps f skip"
  by (simp add: keeps_def)

lemma keeps_bind [keeps_intros]:
  "keeps f m \<Longrightarrow> (\<And>x. keeps f (g x)) \<Longrightarrow> keeps f (State_Monad.bind m g)"
  by (simp add: keeps_def)

lemma keeps_when [keeps_intros]: "(b \<Longrightarrow> keeps f m) \<Longrightarrow> keeps f (whenM b m)"
  by (simp add: keeps_def)

lemma keeps_if [keeps_intros]:
  "(c \<Longrightarrow> keeps f m) \<Longrightarrow> (\<not> c \<Longrightarrow> keeps f n) \<Longrightarrow> keeps f (if c then m else n)"
  by simp

lemma keeps_for_each [keeps_intros]: "(\<And>x. keeps f (g x)) \<Longrightarrow> keeps f (for_each g xs)"
  by (induction xs) (auto intro!: keeps_intros)

lemma keeps_case_option [keeps_intros]:
  "keeps f m \<Longrightarrow> (\<And>x. keeps f (g x)) \<Longrightarrow> keeps f (case z of None \<Rightarrow> m | Some x \<Rightarrow> g x)"
  by (simp split: option.split)

lemma keeps_case_prod [keeps_intros]:
  "(\<And>x y. keeps f (g x y)) \<Longrightarrow> keeps f (case z of (x, y) \<Rightarrow> g x y)"
  by (simp split: prod.split)

lemma keeps_let [keeps_intros]: "keeps f (g x) \<Longrightarrow> keeps f (Let x g)"
  by simp

lemma keeps_modify: "(\<And>s. f (h s) = f s) \<Longrightarrow> keeps f (modify h)"
  by (simp add: keeps_def)

lemma keeps_comp: "keeps f m \<Longrightarrow> keeps (\<lambda>s. g (f s)) m"
  by (simp add: keeps_def)

section \<open>Preserved predicates\<close>

definition preserves :: "('s \<Rightarrow> bool) \<Rightarrow> ('s, 'a) state \<Rightarrow> bool" where
  "preserves I m = (\<forall>s. I s \<longrightarrow> I (exec m s))"

lemma preservesI: "(\<And>s. I s \<Longrightarrow> I (exec m s)) \<Longrightarrow> preserves I m"
  by (simp add: preserves_def)

lemma preservesD: "preserves I m \<Longrightarrow> I s \<Longrightarrow> I (exec m s)"
  by (simp add: preserves_def)

lemma preserves_bind:
  "preserves I m \<Longrightarrow> (\<And>x. preserves I (g x)) \<Longrightarrow> preserves I (State_Monad.bind m g)"
  by (simp add: preserves_def)

lemma preserves_if:
  "(c \<Longrightarrow> preserves I m) \<Longrightarrow> (\<not> c \<Longrightarrow> preserves I n) \<Longrightarrow> preserves I (if c then m else n)"
  by simp

lemma preserves_when: "(b \<Longrightarrow> preserves I m) \<Longrightarrow> preserves I (whenM b m)"
  by (simp add: preserves_def)

lemma preserves_for_each: "(\<And>x. preserves I (g x)) \<Longrightarrow> preserves I (for_each g xs)"
  by (induction xs) (auto simp: preserves_def)

lemma preserves_modify: "(\<And>s. I s \<Longrightarrow> I (h s)) \<Longrightarrow> preserves I (modify h)"
  by (simp add: preserves_def)

lemma keeps_preserves:
  "keeps f m \<Longrightarrow> (\<And>s t. f s = f t \<Longrightarrow> I s \<Longrightarrow> I t) \<Longrightarrow> preserves I m"
  by (metis keeps_def preserves_def)

lemma preserves_pure:
  "preserves I (State_Monad.return a)" "preserves I (gets g)" "preserves I skip"
  by (simp_all add: preserves_def)

lemmas preserves_intros =
  preserves_pure preserves_bind preserves_if preserves_when preserves_for_each

section \<open>Words\<close>

type_synonym uint32 = "32 word"

lemma uint32_pred_zero: "(0 :: uint32) - 1 = 2 ^ 32 - 1"
  by simp

lemma unat_plus_one_word:
  "w \<noteq> (- 1 :: uint32) \<Longrightarrow> unat (w + 1) = Suc (unat w)"
  by (metis add.commute add_eq_0_iff unatSuc)

lemma unat_minus_one_word:
  "w \<noteq> (0 :: uint32) \<Longrightarrow> unat (w - 1) = unat w - 1"
  by (simp add: unat_minus_one)

definition wrap32 :: "int \<Rightarrow> int" where
  "wrap32 n = (n + 2 ^ 31) mod 2 ^ 32 - 2 ^ 31"

definition int32 :: "int \<Rightarrow> bool" where
  "int32 n = (- (2 ^ 31) \<le> n \<and> n < 2 ^ 31)"

lemma wrap32_id: "int32 n \<Longrightarrow> wrap32 n = n"
  by (simp add: wrap32_def int32_def)

lemma int32_wrap32: "int32 (wrap32 n)"
proof -
  have "0 \<le> (n + 2 ^ 31) mod 2 ^ 32" "(n + 2 ^ 31) mod 2 ^ 32 < 2 ^ 32" by simp_all
  then show ?thesis by (simp add: wrap32_def int32_def)
qed

text \<open>A signed 64-bit result: the value reduced into the range of \<open>int64_t\<close>.\<close>

definition wrap64 :: "int \<Rightarrow> int" where
  "wrap64 n = (n + 2 ^ 63) mod 2 ^ 64 - 2 ^ 63"

definition int64 :: "int \<Rightarrow> bool" where
  "int64 n = (- (2 ^ 63) \<le> n \<and> n < 2 ^ 63)"

lemma wrap64_id: "int64 n \<Longrightarrow> wrap64 n = n"
  by (simp add: wrap64_def int64_def)

lemma int64_wrap64: "int64 (wrap64 n)"
proof -
  have "0 \<le> (n + 2 ^ 63) mod 2 ^ 64" "(n + 2 ^ 63) mod 2 ^ 64 < 2 ^ 64" by simp_all
  then show ?thesis by (simp add: wrap64_def int64_def)
qed

lemma wrap64_overflow:
  assumes "int64 n" "0 \<le> d" "d < 2 ^ 63" "\<not> int64 (n + d)"
  shows "wrap64 (n + d) < n"
proof -
  have "n + d + 2 ^ 63 - 2 ^ 64 \<ge> 0" "n + d + 2 ^ 63 - 2 ^ 64 < 2 ^ 64"
    using assms by (auto simp: int64_def)
  then have "(n + d + 2 ^ 63) mod 2 ^ 64 = n + d + 2 ^ 63 - 2 ^ 64"
    by (metis minus_mod_self2 mod_pos_pos_trivial)
  then show ?thesis
    using assms by (simp add: wrap64_def int64_def)
qed

end
