(* ===== verification/Power_Info.thy ===== *)
theory Power_Info
  imports Prelude
begin

text \<open>
  Data of the public interface and the conversions of \<open>power_utils.cpp\<close>.

  The enumerations of \<open>power_state_machine_info.h\<close> and \<open>running_lock_info.h\<close> become datatypes
  with the constructors of the source; \<open>X_val\<close> is the numeric value of an enumerator.  Values that
  arrive over IPC as a bare integer can lie outside an enumeration: for the four types that are read
  from a client a constructor \<open>_RAW n\<close> stands for the values past the last enumerator.
  Enumerators that are aliases (\<open>USER_ACTIVITY_TYPE_MAX\<close>, \<open>SUSPEND_DEVICE_REASON_MIN\<close>)
  are the constructor they alias.
\<close>

section \<open>Enumerations\<close>

datatype PowerState =
    AWAKE
  | FREEZE
  | INACTIVE
  | STAND_BY
  | DOZE
  | SLEEP
  | HIBERNATE
  | SHUTDOWN
  | DIM
  | UNKNOWN

datatype DisplayState =
    DISPLAY_OFF
  | DISPLAY_DIM
  | DISPLAY_ON
  | DISPLAY_SUSPEND
  | DISPLAY_DOZE
  | DISPLAY_DOZE_SUSPEND
  | DISPLAY_UNKNOWN

datatype (plugins only: code size) StateChangeReason =
    STATE_CHANGE_REASON_INIT
  | STATE_CHANGE_REASON_TIMEOUT
  | STATE_CHANGE_REASON_RUNNING_LOCK
  | STATE_CHANGE_REASON_BATTERY
  | STATE_CHANGE_REASON_THERMAL
  | STATE_CHANGE_REASON_WORK
  | STATE_CHANGE_REASON_SYSTEM
  | STATE_CHANGE_REASON_APPLICATION
  | STATE_CHANGE_REASON_SETTINGS
  | STATE_CHANGE_REASON_HARD_KEY
  | STATE_CHANGE_REASON_TOUCH
  | STATE_CHANGE_REASON_CABLE
  | STATE_CHANGE_REASON_SENSOR
  | STATE_CHANGE_REASON_LID
  | STATE_CHANGE_REASON_CAMERA
  | STATE_CHANGE_REASON_ACCESSIBILITY
  | STATE_CHANGE_REASON_RESET
  | STATE_CHANGE_REASON_POWER_KEY
  | STATE_CHANGE_REASON_KEYBOARD
  | STATE_CHANGE_REASON_MOUSE
  | STATE_CHANGE_REASON_DOUBLE_CLICK
  | STATE_CHANGE_REASON_SWITCH
  | STATE_CHANGE_REASON_PRE_BRIGHT
  | STATE_CHANGE_REASON_PRE_BRIGHT_AUTH_SUCCESS
  | STATE_CHANGE_REASON_PRE_BRIGHT_AUTH_FAIL_SCREEN_ON
  | STATE_CHANGE_REASON_PRE_BRIGHT_AUTH_FAIL_SCREEN_OFF
  | STATE_CHANGE_REASON_REFRESH
  | STATE_CHANGE_REASON_COORDINATION
  | STATE_CHANGE_REASON_PROXIMITY
  | STATE_CHANGE_REASON_INCOMING_CALL
  | STATE_CHANGE_REASON_SHELL
  | STATE_CHANGE_REASON_PICKUP
  | STATE_CHANGE_REASON_AOD_SLIDING
  | STATE_CHANGE_REASON_PEN
  | STATE_CHANGE_REASON_SHUT_DOWN
  | STATE_CHANGE_REASON_SCREEN_CONNECT
  | STATE_CHANGE_REASON_SWITCHING_DOZE_MODE
  | STATE_CHANGE_REASON_HIBERNATE
  | STATE_CHANGE_REASON_EX_SCREEN_INIT
  | STATE_CHANGE_REASON_ABNORMAL_SCREEN_CONNECT
  | STATE_CHANGE_REASON_ROLLBACK_HIBERNATE
  | STATE_CHANGE_REASON_TENT_MODE
  | STATE_CHANGE_REASON_START_DREAM
  | STATE_CHANGE_REASON_END_DREAM
  | STATE_CHANGE_REASON_BLUETOOTH_INCOMING_CALL
  | STATE_CHANGE_REASON_WAKEUP_FROM_ULSR
  | STATE_CHANGE_REASON_MESSAGE_NOTIFICATION
  | STATE_CHANGE_REASON_WIRED_APPCAST
  | STATE_CHANGE_REASON_REMOTE
  | STATE_CHANGE_REASON_TIMEOUT_NO_SCREEN_LOCK
  | STATE_CHANGE_REASON_EXIT_SYSTEM_STR
  | STATE_CHANGE_REASON_TP_TOUCH
  | STATE_CHANGE_REASON_TP_COVER
  | STATE_CHANGE_REASON_SWITCH_SENSORHUB
  | STATE_CHANGE_REASON_PLUG_CHANGE
  | STATE_CHANGE_REASON_PEOPLE_LEAVING
  | STATE_CHANGE_REASON_UNKNOWN

datatype UserActivityType =
    USER_ACTIVITY_TYPE_OTHER
  | USER_ACTIVITY_TYPE_BUTTON
  | USER_ACTIVITY_TYPE_TOUCH
  | USER_ACTIVITY_TYPE_ACCESSIBILITY
  | USER_ACTIVITY_TYPE_ATTENTION
  | USER_ACTIVITY_TYPE_SOFTWARE
  | USER_ACTIVITY_TYPE_SWITCH
  | USER_ACTIVITY_TYPE_CABLE
  | USER_ACTIVITY_TYPE_APPLICATION
  | USER_ACTIVITY_TYPE_RAW nat

datatype (plugins only: code size) WakeupDeviceType =
    WAKEUP_DEVICE_UNKNOWN
  | WAKEUP_DEVICE_POWER_BUTTON
  | WAKEUP_DEVICE_APPLICATION
  | WAKEUP_DEVICE_PLUGGED_IN
  | WAKEUP_DEVICE_GESTURE
  | WAKEUP_DEVICE_CAMERA_LAUNCH
  | WAKEUP_DEVICE_WAKE_KEY
  | WAKEUP_DEVICE_WAKE_MOTION
  | WAKEUP_DEVICE_HDMI
  | WAKEUP_DEVICE_LID
  | WAKEUP_DEVICE_DOUBLE_CLICK
  | WAKEUP_DEVICE_KEYBOARD
  | WAKEUP_DEVICE_MOUSE
  | WAKEUP_DEVICE_TOUCHPAD
  | WAKEUP_DEVICE_PEN
  | WAKEUP_DEVICE_TOUCH_SCREEN
  | WAKEUP_DEVICE_SWITCH
  | WAKEUP_DEVICE_SINGLE_CLICK
  | WAKEUP_DEVICE_PRE_BRIGHT
  | WAKEUP_DEVICE_PRE_BRIGHT_AUTH_SUCCESS
  | WAKEUP_DEVICE_PRE_BRIGHT_AUTH_FAIL_SCREEN_ON
  | WAKEUP_DEVICE_PRE_BRIGHT_AUTH_FAIL_SCREEN_OFF
  | WAKEUP_DEVICE_AOD_SLIDING
  | WAKEUP_DEVICE_INCOMING_CALL
  | WAKEUP_DEVICE_SHELL
  | WAKEUP_DEVICE_PICKUP
  | WAKEUP_DEVICE_EXIT_SYSTEM_STR
  | WAKEUP_DEVICE_SCREEN_CONNECT
  | WAKEUP_DEVICE_TP_TOUCH
  | WAKEUP_DEVICE_EX_SCREEN_INIT
  | WAKEUP_DEVICE_ABNORMAL_SCREEN_CONNECT
  | WAKEUP_DEVICE_PLUG_CHANGE
  | WAKEUP_DEVICE_TENT_MODE_CHANGE
  | WAKEUP_DEVICE_END_DREAM
  | WAKEUP_DEVICE_BLUETOOTH_INCOMING_CALL
  | WAKEUP_DEVICE_FROM_ULSR
  | WAKEUP_DEVICE_MESSAGE_NOTIFICATION
  | WAKEUP_DEVICE_MAX
  | WAKEUP_DEVICE_RAW nat

datatype SuspendDeviceType =
    SUSPEND_DEVICE_REASON_APPLICATION
  | SUSPEND_DEVICE_REASON_DEVICE_ADMIN
  | SUSPEND_DEVICE_REASON_TIMEOUT
  | SUSPEND_DEVICE_REASON_LID
  | SUSPEND_DEVICE_REASON_POWER_KEY
  | SUSPEND_DEVICE_REASON_HDMI
  | SUSPEND_DEVICE_REASON_SLEEP_KEY
  | SUSPEND_DEVICE_REASON_ACCESSIBILITY
  | SUSPEND_DEVICE_REASON_FORCE_SUSPEND
  | SUSPEND_DEVICE_REASON_STR
  | SUSPEND_DEVICE_REASON_SWITCH
  | SUSPEND_DEVICE_LOW_CAPACITY
  | SUSPEND_DEVICE_REASON_TP_COVER
  | SUSPEND_DEVICE_REASON_EX_SCREEN_INIT
  | SUSPEND_DEVICE_SWITCH_SENSORHUB
  | SUSPEND_DEVICE_ROLLBACK_HIBERNATE
  | SUSPEND_DEVICE_START_DREAM
  | SUSPEND_DEVICE_REASON_PEOPLE_LEAVING
  | SUSPEND_DEVICE_REASON_MAX
  | SUSPEND_DEVICE_RAW nat

datatype RunningLockType =
    RUNNINGLOCK_SCREEN
  | RUNNINGLOCK_BACKGROUND
  | RUNNINGLOCK_PROXIMITY_SCREEN_CONTROL
  | RUNNINGLOCK_COORDINATION
  | RUNNINGLOCK_BACKGROUND_PHONE
  | RUNNINGLOCK_BACKGROUND_NOTIFICATION
  | RUNNINGLOCK_BACKGROUND_AUDIO
  | RUNNINGLOCK_BACKGROUND_SPORT
  | RUNNINGLOCK_BACKGROUND_NAVIGATION
  | RUNNINGLOCK_BACKGROUND_TASK
  | RUNNINGLOCK_BACKGROUND_USER_IDLE
  | RUNNINGLOCK_BUTT
  | RUNNINGLOCK_RAW nat

text \<open>
  Reasons of the window manager (\<open>Rosen::PowerStateChangeReason\<close>).  The enumeration belongs to
  another repository; its numeric values are the parameter \<open>rosen_code\<close>.
\<close>

datatype RosenReason =
    DMS_PRE_BRIGHT
  | DMS_PRE_BRIGHT_AUTH_SUCCESS
  | DMS_PRE_BRIGHT_AUTH_FAIL_SCREEN_ON
  | DMS_PRE_BRIGHT_AUTH_FAIL_SCREEN_OFF
  | DMS_POWER_KEY
  | DMS_COLLABORATION
  | DMS_SWITCH
  | DMS_SCREEN_CONNECT
  | DMS_EX_SCREEN_INIT
  | DMS_HIBERNATE
  | DMS_ABNORMAL_SCREEN_CONNECT
  | DMS_ROLLBACK_HIBERNATE
  | DMS_START_DREAM
  | DMS_END_DREAM
  | DMS_UNKNOWN
  | DMS_HARD_KEY

section \<open>Numeric values\<close>

primrec PowerState_val :: "PowerState \<Rightarrow> nat" where
    "PowerState_val AWAKE = 0"
  | "PowerState_val FREEZE = 1"
  | "PowerState_val INACTIVE = 2"
  | "PowerState_val STAND_BY = 3"
  | "PowerState_val DOZE = 4"
  | "PowerState_val SLEEP = 5"
  | "PowerState_val HIBERNATE = 6"
  | "PowerState_val SHUTDOWN = 7"
  | "PowerState_val DIM = 8"
  | "PowerState_val UNKNOWN = 9"

primrec StateChangeReason_val :: "StateChangeReason \<Rightarrow> nat" where
    "StateChangeReason_val STATE_CHANGE_REASON_INIT = 0"
  | "StateChangeReason_val STATE_CHANGE_REASON_TIMEOUT = 1"
  | "StateChangeReason_val STATE_CHANGE_REASON_RUNNING_LOCK = 2"
  | "StateChangeReason_val STATE_CHANGE_REASON_BATTERY = 3"
  | "StateChangeReason_val STATE_CHANGE_REASON_THERMAL = 4"
  | "StateChangeReason_val STATE_CHANGE_REASON_WORK = 5"
  | "StateChangeReason_val STATE_CHANGE_REASON_SYSTEM = 6"
  | "StateChangeReason_val STATE_CHANGE_REASON_APPLICATION = 10"
  | "StateChangeReason_val STATE_CHANGE_REASON_SETTINGS = 11"
  | "StateChangeReason_val STATE_CHANGE_REASON_HARD_KEY = 12"
  | "StateChangeReason_val STATE_CHANGE_REASON_TOUCH = 13"
  | "StateChangeReason_val STATE_CHANGE_REASON_CABLE = 14"
  | "StateChangeReason_val STATE_CHANGE_REASON_SENSOR = 15"
  | "StateChangeReason_val STATE_CHANGE_REASON_LID = 16"
  | "StateChangeReason_val STATE_CHANGE_REASON_CAMERA = 17"
  | "StateChangeReason_val STATE_CHANGE_REASON_ACCESSIBILITY = 18"
  | "StateChangeReason_val STATE_CHANGE_REASON_RESET = 19"
  | "StateChangeReason_val STATE_CHANGE_REASON_POWER_KEY = 20"
  | "StateChangeReason_val STATE_CHANGE_REASON_KEYBOARD = 21"
  | "StateChangeReason_val STATE_CHANGE_REASON_MOUSE = 22"
  | "StateChangeReason_val STATE_CHANGE_REASON_DOUBLE_CLICK = 23"
  | "StateChangeReason_val STATE_CHANGE_REASON_SWITCH = 25"
  | "StateChangeReason_val STATE_CHANGE_REASON_PRE_BRIGHT = 26"
  | "StateChangeReason_val STATE_CHANGE_REASON_PRE_BRIGHT_AUTH_SUCCESS = 27"
  | "StateChangeReason_val STATE_CHANGE_REASON_PRE_BRIGHT_AUTH_FAIL_SCREEN_ON = 28"
  | "StateChangeReason_val STATE_CHANGE_REASON_PRE_BRIGHT_AUTH_FAIL_SCREEN_OFF = 29"
  | "StateChangeReason_val STATE_CHANGE_REASON_REFRESH = 30"
  | "StateChangeReason_val STATE_CHANGE_REASON_COORDINATION = 31"
  | "StateChangeReason_val STATE_CHANGE_REASON_PROXIMITY = 32"
  | "StateChangeReason_val STATE_CHANGE_REASON_INCOMING_CALL = 33"
  | "StateChangeReason_val STATE_CHANGE_REASON_SHELL = 34"
  | "StateChangeReason_val STATE_CHANGE_REASON_PICKUP = 35"
  | "StateChangeReason_val STATE_CHANGE_REASON_AOD_SLIDING = 40"
  | "StateChangeReason_val STATE_CHANGE_REASON_PEN = 41"
  | "StateChangeReason_val STATE_CHANGE_REASON_SHUT_DOWN = 42"
  | "StateChangeReason_val STATE_CHANGE_REASON_SCREEN_CONNECT = 43"
  | "StateChangeReason_val STATE_CHANGE_REASON_SWITCHING_DOZE_MODE = 44"
  | "StateChangeReason_val STATE_CHANGE_REASON_HIBERNATE = 45"
  | "StateChangeReason_val STATE_CHANGE_REASON_EX_SCREEN_INIT = 46"
  | "StateChangeReason_val STATE_CHANGE_REASON_ABNORMAL_SCREEN_CONNECT = 47"
  | "StateChangeReason_val STATE_CHANGE_REASON_ROLLBACK_HIBERNATE = 48"
  | "StateChangeReason_val STATE_CHANGE_REASON_TENT_MODE = 49"
  | "StateChangeReason_val STATE_CHANGE_REASON_START_DREAM = 50"
  | "StateChangeReason_val STATE_CHANGE_REASON_END_DREAM = 51"
  | "StateChangeReason_val STATE_CHANGE_REASON_BLUETOOTH_INCOMING_CALL = 52"
  | "StateChangeReason_val STATE_CHANGE_REASON_WAKEUP_FROM_ULSR = 53"
  | "StateChangeReason_val STATE_CHANGE_REASON_MESSAGE_NOTIFICATION = 54"
  | "StateChangeReason_val STATE_CHANGE_REASON_WIRED_APPCAST = 55"
  | "StateChangeReason_val STATE_CHANGE_REASON_REMOTE = 100"
  | "StateChangeReason_val STATE_CHANGE_REASON_TIMEOUT_NO_SCREEN_LOCK = 101"
  | "StateChangeReason_val STATE_CHANGE_REASON_EXIT_SYSTEM_STR = 102"
  | "StateChangeReason_val STATE_CHANGE_REASON_TP_TOUCH = 103"
  | "StateChangeReason_val STATE_CHANGE_REASON_TP_COVER = 104"
  | "StateChangeReason_val STATE_CHANGE_REASON_SWITCH_SENSORHUB = 105"
  | "StateChangeReason_val STATE_CHANGE_REASON_PLUG_CHANGE = 106"
  | "StateChangeReason_val STATE_CHANGE_REASON_PEOPLE_LEAVING = 107"
  | "StateChangeReason_val STATE_CHANGE_REASON_UNKNOWN = 1000"

primrec UserActivityType_val :: "UserActivityType \<Rightarrow> nat" where
    "UserActivityType_val USER_ACTIVITY_TYPE_OTHER = 0"
  | "UserActivityType_val USER_ACTIVITY_TYPE_BUTTON = 1"
  | "UserActivityType_val USER_ACTIVITY_TYPE_TOUCH = 2"
  | "UserActivityType_val USER_ACTIVITY_TYPE_ACCESSIBILITY = 3"
  | "UserActivityType_val USER_ACTIVITY_TYPE_ATTENTION = 4"
  | "UserActivityType_val USER_ACTIVITY_TYPE_SOFTWARE = 5"
  | "UserActivityType_val USER_ACTIVITY_TYPE_SWITCH = 6"
  | "UserActivityType_val USER_ACTIVITY_TYPE_CABLE = 7"
  | "UserActivityType_val USER_ACTIVITY_TYPE_APPLICATION = 8"
  | "UserActivityType_val (USER_ACTIVITY_TYPE_RAW n) = 9 + n"

primrec WakeupDeviceType_val :: "WakeupDeviceType \<Rightarrow> nat" where
    "WakeupDeviceType_val WAKEUP_DEVICE_UNKNOWN = 0"
  | "WakeupDeviceType_val WAKEUP_DEVICE_POWER_BUTTON = 1"
  | "WakeupDeviceType_val WAKEUP_DEVICE_APPLICATION = 2"
  | "WakeupDeviceType_val WAKEUP_DEVICE_PLUGGED_IN = 3"
  | "WakeupDeviceType_val WAKEUP_DEVICE_GESTURE = 4"
  | "WakeupDeviceType_val WAKEUP_DEVICE_CAMERA_LAUNCH = 5"
  | "WakeupDeviceType_val WAKEUP_DEVICE_WAKE_KEY = 6"
  | "WakeupDeviceType_val WAKEUP_DEVICE_WAKE_MOTION = 7"
  | "WakeupDeviceType_val WAKEUP_DEVICE_HDMI = 8"
  | "WakeupDeviceType_val WAKEUP_DEVICE_LID = 9"
  | "WakeupDeviceType_val WAKEUP_DEVICE_DOUBLE_CLICK = 10"
  | "WakeupDeviceType_val WAKEUP_DEVICE_KEYBOARD = 11"
  | "WakeupDeviceType_val WAKEUP_DEVICE_MOUSE = 12"
  | "WakeupDeviceType_val WAKEUP_DEVICE_TOUCHPAD = 13"
  | "WakeupDeviceType_val WAKEUP_DEVICE_PEN = 14"
  | "WakeupDeviceType_val WAKEUP_DEVICE_TOUCH_SCREEN = 15"
  | "WakeupDeviceType_val WAKEUP_DEVICE_SWITCH = 16"
  | "WakeupDeviceType_val WAKEUP_DEVICE_SINGLE_CLICK = 17"
  | "WakeupDeviceType_val WAKEUP_DEVICE_PRE_BRIGHT = 18"
  | "WakeupDeviceType_val WAKEUP_DEVICE_PRE_BRIGHT_AUTH_SUCCESS = 19"
  | "WakeupDeviceType_val WAKEUP_DEVICE_PRE_BRIGHT_AUTH_FAIL_SCREEN_ON = 20"
  | "WakeupDeviceType_val WAKEUP_DEVICE_PRE_BRIGHT_AUTH_FAIL_SCREEN_OFF = 21"
  | "WakeupDeviceType_val WAKEUP_DEVICE_AOD_SLIDING = 22"
  | "WakeupDeviceType_val WAKEUP_DEVICE_INCOMING_CALL = 23"
  | "WakeupDeviceType_val WAKEUP_DEVICE_SHELL = 24"
  | "WakeupDeviceType_val WAKEUP_DEVICE_PICKUP = 25"
  | "WakeupDeviceType_val WAKEUP_DEVICE_EXIT_SYSTEM_STR = 26"
  | "WakeupDeviceType_val WAKEUP_DEVICE_SCREEN_CONNECT = 27"
  | "WakeupDeviceType_val WAKEUP_DEVICE_TP_TOUCH = 28"
  | "WakeupDeviceType_val WAKEUP_DEVICE_EX_SCREEN_INIT = 29"
  | "WakeupDeviceType_val WAKEUP_DEVICE_ABNORMAL_SCREEN_CONNECT = 30"
  | "WakeupDeviceType_val WAKEUP_DEVICE_PLUG_CHANGE = 31"
  | "WakeupDeviceType_val WAKEUP_DEVICE_TENT_MODE_CHANGE = 32"
  | "WakeupDeviceType_val WAKEUP_DEVICE_END_DREAM = 33"
  | "WakeupDeviceType_val WAKEUP_DEVICE_BLUETOOTH_INCOMING_CALL = 34"
  | "WakeupDeviceType_val WAKEUP_DEVICE_FROM_ULSR = 35"
  | "WakeupDeviceType_val WAKEUP_DEVICE_MESSAGE_NOTIFICATION = 36"
  | "WakeupDeviceType_val WAKEUP_DEVICE_MAX = 37"
  | "WakeupDeviceType_val (WAKEUP_DEVICE_RAW n) = 38 + n"

primrec SuspendDeviceType_val :: "SuspendDeviceType \<Rightarrow> nat" where
    "SuspendDeviceType_val SUSPEND_DEVICE_REASON_APPLICATION = 0"
  | "SuspendDeviceType_val SUSPEND_DEVICE_REASON_DEVICE_ADMIN = 1"
  | "SuspendDeviceType_val SUSPEND_DEVICE_REASON_TIMEOUT = 2"
  | "SuspendDeviceType_val SUSPEND_DEVICE_REASON_LID = 3"
  | "SuspendDeviceType_val SUSPEND_DEVICE_REASON_POWER_KEY = 4"
  | "SuspendDeviceType_val SUSPEND_DEVICE_REASON_HDMI = 5"
  | "SuspendDeviceType_val SUSPEND_DEVICE_REASON_SLEEP_KEY = 6"
  | "SuspendDeviceType_val SUSPEND_DEVICE_REASON_ACCESSIBILITY = 7"
  | "SuspendDeviceType_val SUSPEND_DEVICE_REASON_FORCE_SUSPEND = 8"
  | "SuspendDeviceType_val SUSPEND_DEVICE_REASON_STR = 9"
  | "SuspendDeviceType_val SUSPEND_DEVICE_REASON_SWITCH = 10"
  | "SuspendDeviceType_val SUSPEND_DEVICE_LOW_CAPACITY = 11"
  | "SuspendDeviceType_val SUSPEND_DEVICE_REASON_TP_COVER = 12"
  | "SuspendDeviceType_val SUSPEND_DEVICE_REASON_EX_SCREEN_INIT = 13"
  | "SuspendDeviceType_val SUSPEND_DEVICE_SWITCH_SENSORHUB = 14"
  | "SuspendDeviceType_val SUSPEND_DEVICE_ROLLBACK_HIBERNATE = 15"
  | "SuspendDeviceType_val SUSPEND_DEVICE_START_DREAM = 16"
  | "SuspendDeviceType_val SUSPEND_DEVICE_REASON_PEOPLE_LEAVING = 17"
  | "SuspendDeviceType_val SUSPEND_DEVICE_REASON_MAX = 18"
  | "SuspendDeviceType_val (SUSPEND_DEVICE_RAW n) = 19 + n"

section \<open>Names\<close>

definition GetReasonTypeString :: "StateChangeReason \<Rightarrow> string" where
  "GetReasonTypeString type = (case type of
      STATE_CHANGE_REASON_INIT \<Rightarrow> ''INIT''
    | STATE_CHANGE_REASON_TIMEOUT \<Rightarrow> ''TIMEOUT''
    | STATE_CHANGE_REASON_RUNNING_LOCK \<Rightarrow> ''RUNNING_LOCK''
    | STATE_CHANGE_REASON_BATTERY \<Rightarrow> ''BATTERY''
    | STATE_CHANGE_REASON_THERMAL \<Rightarrow> ''THERMAL''
    | STATE_CHANGE_REASON_WORK \<Rightarrow> ''WORK''
    | STATE_CHANGE_REASON_SYSTEM \<Rightarrow> ''SYSTEM''
    | STATE_CHANGE_REASON_APPLICATION \<Rightarrow> ''APPLICATION''
    | STATE_CHANGE_REASON_SETTINGS \<Rightarrow> ''SETTINGS''
    | STATE_CHANGE_REASON_HARD_KEY \<Rightarrow> ''HARD_KEY''
    | STATE_CHANGE_REASON_TOUCH \<Rightarrow> ''TOUCH''
    | STATE_CHANGE_REASON_CABLE \<Rightarrow> ''CABLE''
    | STATE_CHANGE_REASON_SENSOR \<Rightarrow> ''SENSOR''
    | STATE_CHANGE_REASON_LID \<Rightarrow> ''LID''
    | STATE_CHANGE_REASON_CAMERA \<Rightarrow> ''CAMERA''
    | STATE_CHANGE_REASON_ACCESSIBILITY \<Rightarrow> ''ACCESS''
    | STATE_CHANGE_REASON_RESET \<Rightarrow> ''RESET''
    | STATE_CHANGE_REASON_POWER_KEY \<Rightarrow> ''POWER_KEY''
    | STATE_CHANGE_REASON_KEYBOARD \<Rightarrow> ''KEYBOARD''
    | STATE_CHANGE_REASON_MOUSE \<Rightarrow> ''MOUSE''
    | STATE_CHANGE_REASON_DOUBLE_CLICK \<Rightarrow> ''DOUBLE_CLICK''
    | STATE_CHANGE_REASON_PEN \<Rightarrow> ''PEN''
    | STATE_CHANGE_REASON_SWITCH \<Rightarrow> ''SWITCH''
    | STATE_CHANGE_REASON_PRE_BRIGHT \<Rightarrow> ''PRE_BRIGHT''
    | STATE_CHANGE_REASON_PRE_BRIGHT_AUTH_SUCCESS \<Rightarrow> ''PRE_BRIGHT_ATUH_SUCCESS''
    | STATE_CHANGE_REASON_PRE_BRIGHT_AUTH_FAIL_SCREEN_ON \<Rightarrow> ''PRE_BRIGHT_ATUH_FAIL_SCREEN_ON''
    | STATE_CHANGE_REASON_PRE_BRIGHT_AUTH_FAIL_SCREEN_OFF \<Rightarrow> ''PRE_BRIGHT_ATUH_FAIL_SCREEN_OFF''
    | STATE_CHANGE_REASON_AOD_SLIDING \<Rightarrow> ''AOD_SLIDING''
    | STATE_CHANGE_REASON_REMOTE \<Rightarrow> ''REMOTE''
    | STATE_CHANGE_REASON_REFRESH \<Rightarrow> ''REFRESH''
    | STATE_CHANGE_REASON_COORDINATION \<Rightarrow> ''COORDINATION_OVERRIDE''
    | STATE_CHANGE_REASON_PROXIMITY \<Rightarrow> ''PROXIMITY''
    | STATE_CHANGE_REASON_INCOMING_CALL \<Rightarrow> ''INCOMING_CALL''
    | STATE_CHANGE_REASON_SHELL \<Rightarrow> ''SHELL''
    | STATE_CHANGE_REASON_TIMEOUT_NO_SCREEN_LOCK \<Rightarrow> ''TIMEOUT_NO_SCREEN_LOCK''
    | STATE_CHANGE_REASON_PICKUP \<Rightarrow> ''PICKUP''
    | STATE_CHANGE_REASON_SCREEN_CONNECT \<Rightarrow> ''SCREEN_CONNECT''
    | STATE_CHANGE_REASON_EXIT_SYSTEM_STR \<Rightarrow> ''EXIT_SYSTEM_STR''
    | STATE_CHANGE_REASON_TP_TOUCH \<Rightarrow> ''TP_TOUCH''
    | STATE_CHANGE_REASON_TP_COVER \<Rightarrow> ''TP_COVER''
    | STATE_CHANGE_REASON_EX_SCREEN_INIT \<Rightarrow> ''EX_SCREEN_INIT''
    | STATE_CHANGE_REASON_ABNORMAL_SCREEN_CONNECT \<Rightarrow> ''ABNORMAL_SCREEN_CONNECT''
    | STATE_CHANGE_REASON_ROLLBACK_HIBERNATE \<Rightarrow> ''ROLLBACK_HIBERNATE''
    | STATE_CHANGE_REASON_PLUG_CHANGE \<Rightarrow> ''PLUG_CHANGE''
    | STATE_CHANGE_REASON_UNKNOWN \<Rightarrow> ''UNKNOWN''
    | STATE_CHANGE_REASON_BLUETOOTH_INCOMING_CALL \<Rightarrow> ''BLUETOOTH_INCOMING_CALL''
    | STATE_CHANGE_REASON_WAKEUP_FROM_ULSR \<Rightarrow> ''WAKEUP_ULSR''
    | STATE_CHANGE_REASON_MESSAGE_NOTIFICATION \<Rightarrow> ''MESSAGE_NOTIFICATION''
    | STATE_CHANGE_REASON_PEOPLE_LEAVING \<Rightarrow> ''PEOPLE_LEAVING''
    | _ \<Rightarrow> ''UNKNOWN'')"

definition GetPowerStateString :: "PowerState \<Rightarrow> string" where
  "GetPowerStateString type = (case type of
      AWAKE \<Rightarrow> ''AWAKE''
    | FREEZE \<Rightarrow> ''FREEZE''
    | INACTIVE \<Rightarrow> ''INACTIVE''
    | STAND_BY \<Rightarrow> ''STAND_BY''
    | DOZE \<Rightarrow> ''DOZE''
    | SLEEP \<Rightarrow> ''SLEEP''
    | HIBERNATE \<Rightarrow> ''HIBERNATE''
    | SHUTDOWN \<Rightarrow> ''SHUTDOWN''
    | DIM \<Rightarrow> ''DIM''
    | UNKNOWN \<Rightarrow> ''UNKNOWN'')"

definition GetDisplayStateString :: "DisplayState \<Rightarrow> string" where
  "GetDisplayStateString type = (case type of
      DISPLAY_OFF \<Rightarrow> ''DISPLAY_OFF''
    | DISPLAY_DIM \<Rightarrow> ''DISPLAY_DIM''
    | DISPLAY_ON \<Rightarrow> ''DISPLAY_ON''
    | DISPLAY_SUSPEND \<Rightarrow> ''DISPLAY_SUSPEND''
    | DISPLAY_UNKNOWN \<Rightarrow> ''DISPLAY_UNKNOWN''
    | _ \<Rightarrow> ''DISPLAY_UNKNOWN'')"

definition GetRunningLockTypeString :: "RunningLockType \<Rightarrow> string" where
  "GetRunningLockTypeString type = (case type of
      RUNNINGLOCK_SCREEN \<Rightarrow> ''SCREEN''
    | RUNNINGLOCK_BACKGROUND \<Rightarrow> ''BACKGROUND''
    | RUNNINGLOCK_PROXIMITY_SCREEN_CONTROL \<Rightarrow> ''PROXIMITY_SCREEN_CONTROL''
    | RUNNINGLOCK_COORDINATION \<Rightarrow> ''RUNNINGLOCK_COORDINATION''
    | RUNNINGLOCK_BACKGROUND_PHONE \<Rightarrow> ''BACKGROUND_PHONE''
    | RUNNINGLOCK_BACKGROUND_NOTIFICATION \<Rightarrow> ''BACKGROUND_NOTIFICATION''
    | RUNNINGLOCK_BACKGROUND_AUDIO \<Rightarrow> ''BACKGROUND_AUDIO''
    | RUNNINGLOCK_BACKGROUND_SPORT \<Rightarrow> ''BACKGROUND_SPORT''
    | RUNNINGLOCK_BACKGROUND_NAVIGATION \<Rightarrow> ''BACKGROUND_NAVIGATION''
    | RUNNINGLOCK_BACKGROUND_TASK \<Rightarrow> ''BACKGROUND_TASK''
    | RUNNINGLOCK_BACKGROUND_USER_IDLE \<Rightarrow> ''BACKGROUND_USER_IDLE''
    | RUNNINGLOCK_BUTT \<Rightarrow> ''BUTT''
    | _ \<Rightarrow> ''UNKNOWN'')"

section \<open>Reason conversions\<close>

definition GetDmsReasonByPowerReason :: "(RosenReason \<Rightarrow> nat) \<Rightarrow> StateChangeReason \<Rightarrow> nat" where
  "GetDmsReasonByPowerReason rosen_code reason = (case reason of
      STATE_CHANGE_REASON_PRE_BRIGHT \<Rightarrow> rosen_code DMS_PRE_BRIGHT
    | STATE_CHANGE_REASON_PRE_BRIGHT_AUTH_SUCCESS \<Rightarrow> rosen_code DMS_PRE_BRIGHT_AUTH_SUCCESS
    | STATE_CHANGE_REASON_PRE_BRIGHT_AUTH_FAIL_SCREEN_ON \<Rightarrow> rosen_code DMS_PRE_BRIGHT_AUTH_FAIL_SCREEN_ON
    | STATE_CHANGE_REASON_PRE_BRIGHT_AUTH_FAIL_SCREEN_OFF \<Rightarrow> rosen_code DMS_PRE_BRIGHT_AUTH_FAIL_SCREEN_OFF
    | STATE_CHANGE_REASON_POWER_KEY \<Rightarrow> rosen_code DMS_POWER_KEY
    | STATE_CHANGE_REASON_TIMEOUT_NO_SCREEN_LOCK \<Rightarrow> rosen_code DMS_COLLABORATION
    | STATE_CHANGE_REASON_SWITCH \<Rightarrow> rosen_code DMS_SWITCH
    | STATE_CHANGE_REASON_SCREEN_CONNECT \<Rightarrow> rosen_code DMS_SCREEN_CONNECT
    | STATE_CHANGE_REASON_EX_SCREEN_INIT \<Rightarrow> rosen_code DMS_EX_SCREEN_INIT
    | STATE_CHANGE_REASON_HIBERNATE \<Rightarrow> rosen_code DMS_HIBERNATE
    | STATE_CHANGE_REASON_ABNORMAL_SCREEN_CONNECT \<Rightarrow> rosen_code DMS_ABNORMAL_SCREEN_CONNECT
    | STATE_CHANGE_REASON_ROLLBACK_HIBERNATE \<Rightarrow> rosen_code DMS_ROLLBACK_HIBERNATE
    | STATE_CHANGE_REASON_START_DREAM \<Rightarrow> rosen_code DMS_START_DREAM
    | STATE_CHANGE_REASON_END_DREAM \<Rightarrow> rosen_code DMS_END_DREAM
    | STATE_CHANGE_REASON_PEOPLE_LEAVING \<Rightarrow> rosen_code DMS_UNKNOWN
    | _ \<Rightarrow> StateChangeReason_val reason)"

definition GetReasonByUserActivity :: "UserActivityType \<Rightarrow> StateChangeReason" where
  "GetReasonByUserActivity type = (case type of
      USER_ACTIVITY_TYPE_BUTTON \<Rightarrow> STATE_CHANGE_REASON_HARD_KEY
    | USER_ACTIVITY_TYPE_TOUCH \<Rightarrow> STATE_CHANGE_REASON_TOUCH
    | USER_ACTIVITY_TYPE_ACCESSIBILITY \<Rightarrow> STATE_CHANGE_REASON_ACCESSIBILITY
    | USER_ACTIVITY_TYPE_SOFTWARE \<Rightarrow> STATE_CHANGE_REASON_APPLICATION
    | USER_ACTIVITY_TYPE_SWITCH \<Rightarrow> STATE_CHANGE_REASON_SWITCH
    | USER_ACTIVITY_TYPE_CABLE \<Rightarrow> STATE_CHANGE_REASON_CABLE
    | _ \<Rightarrow> STATE_CHANGE_REASON_UNKNOWN)"

text \<open>\<open>strcmp\<close> on \<open>std::string::c_str()\<close> sees the characters before the first NUL.\<close>

definition c_str :: "string \<Rightarrow> string" where
  "c_str s = takeWhile (\<lambda>c. c \<noteq> CHR 0x00) s"

definition ParseWakeupDeviceType :: "string \<Rightarrow> WakeupDeviceType" where
  "ParseWakeupDeviceType details =
    (if c_str details = ''pre_bright'' then WAKEUP_DEVICE_PRE_BRIGHT
     else if c_str details = ''pre_bright_auth_success'' then WAKEUP_DEVICE_PRE_BRIGHT_AUTH_SUCCESS
     else if c_str details = ''pre_bright_auth_fail_screen_on''
       then WAKEUP_DEVICE_PRE_BRIGHT_AUTH_FAIL_SCREEN_ON
     else if c_str details = ''pre_bright_auth_fail_screen_off''
       then WAKEUP_DEVICE_PRE_BRIGHT_AUTH_FAIL_SCREEN_OFF
     else if c_str details = ''incoming call'' then WAKEUP_DEVICE_INCOMING_CALL
     else if c_str details = ''fake_str_check_unlock'' then WAKEUP_DEVICE_EXIT_SYSTEM_STR
     else if c_str details = ''shell'' then WAKEUP_DEVICE_SHELL
     else if c_str details = ''end_dream'' then WAKEUP_DEVICE_END_DREAM
     else if c_str details = ''wake up screen:receive bluetooth call''
       then WAKEUP_DEVICE_BLUETOOTH_INCOMING_CALL
     else if c_str details = ''wake up screen:wake screen switch on and receive notification''
       then WAKEUP_DEVICE_MESSAGE_NOTIFICATION
     else WAKEUP_DEVICE_APPLICATION)"

definition JsonToSimpleStr :: "string \<Rightarrow> string" where
  "JsonToSimpleStr json = [ch \<leftarrow> json. ch \<noteq> CHR '' '' \<and> ch \<noteq> CHR 0x0A]"

text \<open>
  \<open>std::getline\<close> yields the text up to each delimiter and then the rest, unless the rest is empty.
\<close>

function getlines :: "char \<Rightarrow> string \<Rightarrow> string list" where
  "getlines d s =
    (let rest = dropWhile (\<lambda>x. x \<noteq> d) s in
     if s = [] then []
     else if rest = [] then [s]
     else takeWhile (\<lambda>x. x \<noteq> d) s # getlines d (tl rest))"
  by pat_completeness auto
termination
proof (relation "measure (\<lambda>(d, s). length s)", simp)
  fix d :: char and s rest
  assume rest: "rest = dropWhile (\<lambda>x. x \<noteq> d) s" and "s \<noteq> []" "rest \<noteq> []"
  then have "length (tl rest) < length rest" by (cases rest) auto
  moreover have "length rest \<le> length s"
    unfolding rest by (rule length_dropWhile_le)
  ultimately show "((d, tl rest), d, s) \<in> measure (\<lambda>(d, s). length s)"
    by (simp del: length_tl)
qed

declare getlines.simps [simp del]

definition Split :: "string \<Rightarrow> char \<Rightarrow> string set" where
  "Split str delimiter = set (getlines delimiter str)"

end
