(* ===== verification/Containers.thy ===== *)
theory Containers
  imports Prelude "HOL-Library.List_Lexorder" "HOL-Library.Char_ord"
begin

text \<open>
  \<open>std::set\<close>, \<open>std::map\<close> and \<open>std::to_string\<close>.

  The service iterates over its containers and calls out for every element, so their order is
  observable.  A set is the ascending list of its elements, a map the list of its entries in ascending
  key order.  The locales \<open>ordered_set\<close> and \<open>ordered_map\<close> state what the clients use of them and are
  interpreted on the list implementations.
\<close>

section \<open>Sets\<close>

fun oset_insert :: "'a :: linorder \<Rightarrow> 'a list \<Rightarrow> 'a list" where
  "oset_insert x [] = [x]"
| "oset_insert x (y # ys) =
    (if x < y then x # y # ys else if x = y then y # ys else y # oset_insert x ys)"

definition oset_erase :: "'a \<Rightarrow> 'a list \<Rightarrow> 'a list" where
  "oset_erase x ys = filter (\<lambda>y. y \<noteq> x) ys"

definition oset_inv :: "'a :: linorder list \<Rightarrow> bool" where
  "oset_inv xs = sorted_wrt (<) xs"

lemma set_oset_insert [simp]: "set (oset_insert x ys) = insert x (set ys)"
  by (induction ys) auto

lemma set_oset_erase [simp]: "set (oset_erase x ys) = set ys - {x}"
  by (auto simp: oset_erase_def)

lemma oset_inv_insert: "oset_inv ys \<Longrightarrow> oset_inv (oset_insert x ys)"
  unfolding oset_inv_def by (induction ys) auto

lemma oset_inv_erase: "oset_inv ys \<Longrightarrow> oset_inv (oset_erase x ys)"
  unfolding oset_inv_def oset_erase_def by (induction ys) auto

lemma oset_inv_distinct: "oset_inv xs \<Longrightarrow> distinct xs"
  unfolding oset_inv_def by (simp add: strict_sorted_iff)

lemma oset_insert_absorb: "oset_inv ys \<Longrightarrow> x \<in> set ys \<Longrightarrow> oset_insert x ys = ys"
  unfolding oset_inv_def by (induction ys) force+

lemma oset_erase_insert: "oset_inv ys \<Longrightarrow> x \<notin> set ys \<Longrightarrow> oset_erase x (oset_insert x ys) = ys"
  unfolding oset_inv_def oset_erase_def by (induction ys) (auto simp: filter_id_conv)

lemma filter_eq_distinct: "distinct xs \<Longrightarrow> x \<in> set xs \<Longrightarrow> filter (\<lambda>y. y = x) xs = [x]"
  by (induction xs) (auto simp: filter_empty_conv)

locale ordered_set =
  fixes ins :: "'a \<Rightarrow> 's \<Rightarrow> 's" and del :: "'a \<Rightarrow> 's \<Rightarrow> 's"
    and elems :: "'s \<Rightarrow> 'a list" and wf :: "'s \<Rightarrow> bool"
  assumes elems_ins: "set (elems (ins x s)) = insert x (set (elems s))"
    and elems_del: "set (elems (del x s)) = set (elems s) - {x}"
    and wf_ins: "wf s \<Longrightarrow> wf (ins x s)"
    and wf_del: "wf s \<Longrightarrow> wf (del x s)"
    and wf_distinct: "wf s \<Longrightarrow> distinct (elems s)"
begin

lemma mem_ins: "x \<in> set (elems (ins x s))"
  by (simp add: elems_ins)

lemma not_mem_del: "x \<notin> set (elems (del x s))"
  by (simp add: elems_del)

lemma once_after_ins: "wf s \<Longrightarrow> filter (\<lambda>y. y = x) (elems (ins x s)) = [x]"
  using wf_distinct [OF wf_ins, of s x] mem_ins [of x s] by (rule filter_eq_distinct)

end

section \<open>Maps\<close>

fun omap_set :: "'k :: linorder \<Rightarrow> 'v \<Rightarrow> ('k \<times> 'v) list \<Rightarrow> ('k \<times> 'v) list" where
  "omap_set k v [] = [(k, v)]"
| "omap_set k v ((k', v') # m) =
    (if k < k' then (k, v) # (k', v') # m
     else if k = k' then (k, v) # m
     else (k', v') # omap_set k v m)"

definition omap_emplace :: "'k :: linorder \<Rightarrow> 'v \<Rightarrow> ('k \<times> 'v) list \<Rightarrow> ('k \<times> 'v) list" where
  "omap_emplace k v m = (case map_of m k of None \<Rightarrow> omap_set k v m | Some _ \<Rightarrow> m)"

definition omap_erase :: "'k \<Rightarrow> ('k \<times> 'v) list \<Rightarrow> ('k \<times> 'v) list" where
  "omap_erase k m = filter (\<lambda>e. fst e \<noteq> k) m"

definition omap_inv :: "('k :: linorder \<times> 'v) list \<Rightarrow> bool" where
  "omap_inv m = sorted_wrt (<) (map fst m)"

lemma map_of_omap_set [simp]: "map_of (omap_set k v m) = (map_of m)(k \<mapsto> v)"
  by (induction k v m rule: omap_set.induct) (auto simp: fun_eq_iff)

lemma map_of_omap_erase [simp]: "map_of (omap_erase k m) = (map_of m)(k := None)"
  unfolding omap_erase_def by (induction m) (auto simp: fun_eq_iff)

lemma map_of_omap_emplace:
  "map_of (omap_emplace k v m) =
    (case map_of m k of None \<Rightarrow> (map_of m)(k \<mapsto> v) | Some _ \<Rightarrow> map_of m)"
  by (simp add: omap_emplace_def split: option.split)

lemma keys_omap_set [simp]: "fst ` set (omap_set k v m) = insert k (fst ` set m)"
  by (induction k v m rule: omap_set.induct) auto

lemma omap_inv_set: "omap_inv m \<Longrightarrow> omap_inv (omap_set k v m)"
proof (induction k v m rule: omap_set.induct)
  case (2 k v k' v' m)
  have "\<forall>x \<in> fst ` set (omap_set k v m). k' < x" if "k' < k"
    using 2 that by (auto simp: omap_inv_def)
  then show ?case
    using 2 by (auto simp: omap_inv_def)
qed (simp add: omap_inv_def)

lemma omap_inv_emplace: "omap_inv m \<Longrightarrow> omap_inv (omap_emplace k v m)"
  by (simp add: omap_emplace_def omap_inv_set split: option.split)

lemma omap_inv_erase: "omap_inv m \<Longrightarrow> omap_inv (omap_erase k m)"
  unfolding omap_inv_def omap_erase_def by (induction m) auto

lemma omap_inv_distinct: "omap_inv m \<Longrightarrow> distinct (map fst m)"
  unfolding omap_inv_def by (simp add: strict_sorted_iff)

lemma omap_inv_Nil [simp]: "omap_inv []"
  by (simp add: omap_inv_def)

lemma omap_map_values: "omap_inv (map (\<lambda>(k, v). (k, f k v)) m) = omap_inv m"
  by (simp add: omap_inv_def comp_def case_prod_unfold)

locale ordered_map =
  fixes put :: "'k \<Rightarrow> 'v \<Rightarrow> 'm \<Rightarrow> 'm" and emplace :: "'k \<Rightarrow> 'v \<Rightarrow> 'm \<Rightarrow> 'm"
    and erase :: "'k \<Rightarrow> 'm \<Rightarrow> 'm" and find :: "'m \<Rightarrow> 'k \<Rightarrow> 'v option" and wf :: "'m \<Rightarrow> bool"
  assumes find_put: "find (put k v m) = (find m)(k \<mapsto> v)"
    and find_emplace: "find (emplace k v m) = (if find m k = None then (find m)(k \<mapsto> v) else find m)"
    and find_erase: "find (erase k m) = (find m)(k := None)"
    and wf_put: "wf m \<Longrightarrow> wf (put k v m)"
    and wf_emplace: "wf m \<Longrightarrow> wf (emplace k v m)"
    and wf_erase: "wf m \<Longrightarrow> wf (erase k m)"
begin

lemma emplace_keeps: "find m k = Some v \<Longrightarrow> find (emplace k v' m) k = Some v"
  by (simp add: find_emplace)

lemma emplace_fresh: "find m k = None \<Longrightarrow> find (emplace k v m) k = Some v"
  by (simp add: find_emplace)

lemma erase_emplace: "find m k = None \<Longrightarrow> find (erase k (emplace k v m)) = find m"
  by (auto simp: find_erase find_emplace fun_eq_iff)

lemma put_other: "k' \<noteq> k \<Longrightarrow> find (put k v m) k' = find m k'"
  by (simp add: find_put)

end

interpretation std_set: ordered_set oset_insert oset_erase "\<lambda>s. s" oset_inv
  by unfold_locales (auto simp: oset_inv_insert oset_inv_erase oset_inv_distinct)

interpretation std_map: ordered_map omap_set omap_emplace omap_erase map_of omap_inv
  by unfold_locales
    (auto simp: map_of_omap_emplace omap_inv_set omap_inv_emplace omap_inv_erase split: option.split)

section \<open>Numbers as text\<close>

function digits :: "nat \<Rightarrow> string" where
  "digits n =
    (if n < 10 then [char_of (48 + n)] else digits (n div 10) @ [char_of (48 + n mod 10)])"
  by pat_completeness auto
termination by (relation "measure id") auto

declare digits.simps [simp del]

definition to_string :: "int \<Rightarrow> string" where
  "to_string n = (if n < 0 then CHR ''-'' # digits (nat (- n)) else digits (nat n))"

fun undigits :: "string \<Rightarrow> nat" where
  "undigits s = foldl (\<lambda>a c. a * 10 + (of_char c - 48)) 0 s"

lemma undigits_digits: "undigits (digits n) = n"
proof (induction n rule: digits.induct)
  case (1 n)
  show ?case
  proof (cases "n < 10")
    case True
    then show ?thesis by (simp add: digits.simps [of n])
  next
    case False
    have "n mod 10 < 10" by simp
    with False 1 show ?thesis by (simp add: digits.simps [of n])
  qed
qed

lemma digits_inject: "digits m = digits n \<Longrightarrow> m = n"
  by (metis undigits_digits)

lemma digits_chars: "c \<in> set (digits n) \<Longrightarrow> 48 \<le> (of_char c :: nat) \<and> (of_char c :: nat) < 58"
proof (induction n rule: digits.induct)
  case (1 n)
  show ?case
  proof (cases "n < 10")
    case True
    then show ?thesis using "1.prems" by (simp add: digits.simps [of n])
  next
    case False
    have "n mod 10 < 10" by simp
    with False show ?thesis using 1 by (auto simp: digits.simps [of n])
  qed
qed

lemma digits_not_special: "CHR ''-'' \<notin> set (digits n)" "CHR ''_'' \<notin> set (digits n)"
  using digits_chars [of "CHR ''-''" n] digits_chars [of "CHR ''_''" n] by auto

lemma to_string_inject: "to_string m = to_string n \<Longrightarrow> m = n"
proof -
  assume eq: "to_string m = to_string n"
  have no_minus: "digits k \<noteq> CHR ''-'' # s" for k s
    using digits_not_special(1) [of k] by auto
  have "nat (- m) = nat (- n)" if "m < 0" "n < 0"
    using eq that by (auto simp: to_string_def dest: digits_inject)
  moreover have "nat m = nat n" if "\<not> m < 0" "\<not> n < 0"
    using eq that by (auto simp: to_string_def dest: digits_inject)
  moreover have "(m < 0) = (n < 0)"
    using eq no_minus no_minus [symmetric] by (auto simp: to_string_def split: if_splits)
  ultimately show "m = n" by linarith
qed

lemma to_string_no_underscore: "CHR ''_'' \<notin> set (to_string n)"
  using digits_not_special(2) by (auto simp: to_string_def)

end
