(* ===== verification/Multi_Invoker.thy ===== *)
theory Multi_Invoker
  imports Prelude
begin

text \<open>
  \<open>MultiInvokerHelper\<close> (\<open>services/native/src/multi_invoker_helper/multi_invoker_helper.cpp\<close>): several
  processes, each on behalf of several applications, ask for a vector of switches; the service follows
  the deviation from the default that at least one of them asks for.  The code does not recompute the
  disjunction: it keeps one counter per switch and invoker, and one per switch over the invokers.

  The maps are \<open>std::unordered_map\<close>s whose order is only visible in a dump, so they are HOL maps.  A
  \<open>std::bitset<8>\<close> is an \<open>8 word\<close>, a counter a \<open>64 word\<close>.  The last section states what the helper
  promises as a set of requests and shows that the counters implement it.
\<close>

unbundle bit_operations_syntax

type_synonym bitset = "8 word"
type_synonym uint64 = "64 word"

definition MAX_PARAM_NUMBER :: nat where "MAX_PARAM_NUMBER = 8"

record Invoker =
  invSum :: "uint64 list"
  invPid :: int
  invEntries :: "int \<rightharpoonup> bitset"
  invResult :: bitset

record MultiInvokerHelper =
  invokers :: "string \<rightharpoonup> Invoker"
  helperResult :: bitset
  paramCount :: nat
  helperSum :: "uint64 list"
  defaultParam :: bitset

datatype DeathRegistration = KeepDeathRecipient | AddRecipient | RemoveRecipient

section \<open>Operations\<close>

definition new_helper :: "nat \<Rightarrow> bitset \<Rightarrow> MultiInvokerHelper" where
  "new_helper count defaults =
    (let n = (if count > MAX_PARAM_NUMBER then MAX_PARAM_NUMBER else count) in
     \<lparr>invokers = Map.empty, helperResult = 0, paramCount = n, helperSum = replicate n 0,
      defaultParam = defaults\<rparr>)"

definition new_invoker :: "nat \<Rightarrow> int \<Rightarrow> Invoker" where
  "new_invoker n pid =
    \<lparr>invSum = replicate n 0, invPid = pid, invEntries = Map.empty, invResult = 0\<rparr>"

definition put_bit :: "nat \<Rightarrow> bool \<Rightarrow> bitset \<Rightarrow> bitset" where
  "put_bit i b w = (if b then set_bit i w else unset_bit i w)"

text \<open>One round of the loop that both \<open>Invoker::SetValue\<close> and \<open>MultiInvokerHelper::Set\<close> run.\<close>

definition CountChange :: "bitset \<Rightarrow> bitset \<Rightarrow> nat \<Rightarrow> uint64 list \<times> bitset \<Rightarrow> uint64 list \<times> bitset" where
  "CountChange previous input index st = (case st of (sums, res) \<Rightarrow>
     if bit previous index \<and> \<not> bit input index
     then (sums[index := sums ! index - 1], put_bit index (sums ! index - 1 \<noteq> 0) res)
     else if \<not> bit previous index \<and> bit input index
     then (sums[index := sums ! index + 1], put_bit index (sums ! index + 1 \<noteq> 0) res)
     else (sums, res))"

definition CountChanges :: "nat \<Rightarrow> bitset \<Rightarrow> bitset \<Rightarrow> uint64 list \<times> bitset \<Rightarrow> uint64 list \<times> bitset" where
  "CountChanges n previous input st = fold (CountChange previous input) [0..<n] st"

definition SetValue :: "nat \<Rightarrow> int \<Rightarrow> bitset \<Rightarrow> Invoker \<Rightarrow> Invoker" where
  "SetValue n appid input v =
    (let previous = (case invEntries v appid of None \<Rightarrow> 0 | Some b \<Rightarrow> b);
         (sums, res) = CountChanges n previous input (invSum v, invResult v)
     in v\<lparr>invSum := sums, invResult := res,
          invEntries := (if input \<noteq> 0 then (invEntries v)(appid \<mapsto> input)
                         else (invEntries v)(appid := None))\<rparr>)"

definition helper_output :: "MultiInvokerHelper \<Rightarrow> bitset" where
  "helper_output h = helperResult h XOR defaultParam h"

text \<open>
  \<open>Set\<close> and \<open>RemoveInvoker\<close> end with \<open>OnChange\<close>, which hands \<open>helper_output\<close> to the callback of the
  service.  \<open>Set\<close> also says what happens to the death recipient of the calling object.
\<close>

definition helper_Set ::
  "string \<Rightarrow> int \<Rightarrow> int \<Rightarrow> bitset \<Rightarrow> MultiInvokerHelper \<Rightarrow> MultiInvokerHelper \<times> DeathRegistration" where
  "helper_Set desc invokerPid appid input h =
    (let deltaInput = input XOR defaultParam h;
         v = (case invokers h desc of None \<Rightarrow> new_invoker (paramCount h) invokerPid | Some v \<Rightarrow> v);
         previous = invResult v;
         inputKey = (if appid \<noteq> -1 then appid else invokerPid);
         v' = SetValue (paramCount h) inputKey deltaInput v;
         res = invResult v';
         (sums, hres) = CountChanges (paramCount h) previous res (helperSum h, helperResult h)
     in (h\<lparr>helperSum := sums, helperResult := hres,
           invokers := (if res = 0 then (invokers h)(desc := None) else (invokers h)(desc \<mapsto> v'))\<rparr>,
         if previous = 0 \<and> res \<noteq> 0 then AddRecipient
         else if previous \<noteq> 0 \<and> res = 0 then RemoveRecipient
         else KeepDeathRecipient))"

definition SubResult :: "bitset \<Rightarrow> nat \<Rightarrow> uint64 list \<times> bitset \<Rightarrow> uint64 list \<times> bitset" where
  "SubResult removed index st = (case st of (sums, res) \<Rightarrow>
     (sums[index := sums ! index - of_bool (bit removed index)],
      put_bit index (sums ! index - of_bool (bit removed index) \<noteq> 0) res))"

definition RemoveInvoker :: "string \<Rightarrow> MultiInvokerHelper \<Rightarrow> MultiInvokerHelper \<times> bool" where
  "RemoveInvoker desc h = (case invokers h desc of
     None \<Rightarrow> (h, False)
   | Some v \<Rightarrow>
       (let (sums, res) = fold (SubResult (invResult v)) [0..<paramCount h] (helperSum h, helperResult h)
        in (h\<lparr>helperSum := sums, helperResult := res, invokers := (invokers h)(desc := None)\<rparr>, True)))"

text \<open>\<open>ToBitset\<close> of three Booleans: the first one ends up in the highest position.\<close>

definition ToBitset3 :: "bool \<Rightarrow> bool \<Rightarrow> bool \<Rightarrow> bitset" where
  "ToBitset3 a b c = put_bit 2 a (put_bit 1 b (put_bit 0 c 0))"

section \<open>Counting\<close>

definition opt_vote :: "('v \<Rightarrow> bool) \<Rightarrow> 'v option \<Rightarrow> nat" where
  "opt_vote P x = (case x of None \<Rightarrow> 0 | Some v \<Rightarrow> of_bool (P v))"

definition votes :: "('v \<Rightarrow> bool) \<Rightarrow> ('k \<rightharpoonup> 'v) \<Rightarrow> nat" where
  "votes P m = card {k. \<exists>v. m k = Some v \<and> P v}"

lemma finite_voters: "finite (dom m) \<Longrightarrow> finite {k. \<exists>v. m k = Some v \<and> P v}"
  by (rule finite_subset [of _ "dom m"]) auto

lemma votes_update:
  assumes "finite (dom m)"
  shows "votes P (m(k := x)) + opt_vote P (m k) = votes P m + opt_vote P x"
proof -
  let ?V = "\<lambda>m. {k. \<exists>v. m k = Some v \<and> P v}"
  let ?W = "?V m - {k}"
  have fin: "finite ?W" using finite_voters [OF assms] by simp
  have split: "votes P m' = card ?W + opt_vote P (m' k)" if "\<forall>j. j \<noteq> k \<longrightarrow> m' j = m j" for m'
  proof (cases "k \<in> ?V m'")
    case True
    moreover have "?V m' - {k} = ?W" using that by auto
    ultimately have "card (?V m') = Suc (card ?W)"
      using fin by (metis (no_types, lifting) card_Suc_Diff1 finite_Diff2 finite.emptyI finite.insertI)
    then show ?thesis using True by (auto simp: votes_def opt_vote_def)
  next
    case False
    then have "?V m' = ?W" using that by auto
    then show ?thesis using False by (auto simp: votes_def opt_vote_def split: option.splits)
  qed
  have "votes P m = card ?W + opt_vote P (m k)" by (rule split) simp
  moreover have "votes P (m(k := x)) = card ?W + opt_vote P x"
    using split [of "m(k := x)"] by simp
  ultimately show ?thesis by simp
qed

lemma votes_pos: "finite (dom m) \<Longrightarrow> 0 < votes P m \<longleftrightarrow> (\<exists>k v. m k = Some v \<and> P v)"
  by (auto simp: votes_def card_gt_0_iff finite_voters)

lemma votes_le: "finite (dom m) \<Longrightarrow> votes P m \<le> card (dom m)"
  unfolding votes_def by (rule card_mono) auto

lemma bit_put_bit: "i < 8 \<Longrightarrow> bit (put_bit i b w) j = (if j = i then b else bit w j)"
  by (auto simp: put_bit_def bit_set_bit_iff bit_unset_bit_iff)

text \<open>\<open>counted n f (sums, res)\<close>: the counters hold \<open>f\<close>, and the result is the non-zero ones.\<close>

definition counted :: "nat \<Rightarrow> (nat \<Rightarrow> nat) \<Rightarrow> uint64 list \<times> bitset \<Rightarrow> bool" where
  "counted n f st = (length (fst st) = n \<and> n \<le> 8 \<and>
     (\<forall>i<n. fst st ! i = of_nat (f i) \<and> bit (snd st) i = (fst st ! i \<noteq> 0)) \<and>
     (\<forall>i\<ge>n. \<not> bit (snd st) i))"

definition new_count :: "bitset \<Rightarrow> bitset \<Rightarrow> nat \<Rightarrow> nat \<Rightarrow> nat" where
  "new_count previous input i c =
    (if bit previous i \<and> \<not> bit input i then c - 1
     else if \<not> bit previous i \<and> bit input i then c + 1 else c)"

lemma CountChange_counted:
  assumes "counted n f st" "i < n" "bit previous i \<longrightarrow> 0 < f i"
  shows "counted n (f(i := new_count previous input i (f i))) (CountChange previous input i st)"
  using assms
  by (cases st) (auto simp: counted_def CountChange_def new_count_def nth_list_update bit_put_bit
      of_nat_diff)

lemma counted_cong: "counted n f st \<Longrightarrow> (\<And>i. i < n \<Longrightarrow> f i = g i) \<Longrightarrow> counted n g st"
  by (simp add: counted_def)

lemma CountChanges_upto:
  assumes "counted n f st" "\<forall>i<n. bit previous i \<longrightarrow> 0 < f i" "m \<le> n"
  shows "counted n (\<lambda>i. if i < m then new_count previous input i (f i) else f i)
    (fold (CountChange previous input) [0..<m] st)"
  using assms(3)
proof (induction m)
  case 0
  then show ?case using assms(1) by simp
next
  case (Suc m)
  then have "counted n (\<lambda>i. if i < m then new_count previous input i (f i) else f i)
      (fold (CountChange previous input) [0..<m] st)" by simp
  from CountChange_counted [OF this, of m previous input] Suc.prems assms(2)
  show ?case by (auto elim!: counted_cong)
qed

lemma CountChanges_counted:
  assumes "counted n f st" "\<forall>i<n. bit previous i \<longrightarrow> 0 < f i"
  shows "counted n (\<lambda>i. new_count previous input i (f i)) (CountChanges n previous input st)"
  unfolding CountChanges_def
  using CountChanges_upto [OF assms order_refl, of input] by (rule counted_cong) simp

lemma SubResult_upto:
  assumes "counted n f st" "\<forall>i<n. bit removed i \<longrightarrow> 0 < f i" "m \<le> n"
  shows "counted n (\<lambda>i. if i < m then f i - of_bool (bit removed i) else f i)
    (fold (SubResult removed) [0..<m] st)"
  using assms(3)
proof (induction m)
  case 0
  then show ?case using assms(1) by simp
next
  case (Suc m)
  let ?st = "fold (SubResult removed) [0..<m] st"
  have "counted n (\<lambda>i. if i < m then f i - of_bool (bit removed i) else f i) ?st" using Suc by simp
  moreover have "of_nat (f m) - (1 :: uint64) = of_nat (f m - Suc 0)" if "bit removed m"
  proof -
    have "0 < f m" using that Suc.prems assms(2) by simp
    then show ?thesis by (cases "f m") auto
  qed
  ultimately have "counted n ((\<lambda>i. if i < m then f i - of_bool (bit removed i) else f i)
      (m := f m - of_bool (bit removed m))) (SubResult removed m ?st)"
    using Suc.prems assms(2)
    by (cases ?st) (auto simp: counted_def SubResult_def nth_list_update bit_put_bit of_nat_diff)
  then show ?case by (auto elim!: counted_cong)
qed

section \<open>What the helper promises\<close>

text \<open>
  The requests in force: process, application and switch.  A call of \<open>Set\<close> replaces the requests of
  one application, the death of a process withdraws all of its requests.
\<close>

type_synonym requests = "(string \<times> int \<times> nat) set"

definition request :: "nat \<Rightarrow> string \<Rightarrow> int \<Rightarrow> bitset \<Rightarrow> requests \<Rightarrow> requests" where
  "request n d a delta R = {r \<in> R. (fst r, fst (snd r)) \<noteq> (d, a)} \<union> {(d, a, i) |i. i < n \<and> bit delta i}"

definition withdraw :: "string \<Rightarrow> requests \<Rightarrow> requests" where
  "withdraw d R = {r \<in> R. fst r \<noteq> d}"

definition requests_of :: "MultiInvokerHelper \<Rightarrow> requests" where
  "requests_of h = {(d, a, i) |d a i. i < paramCount h \<and>
     (\<exists>v b. invokers h d = Some v \<and> invEntries v a = Some b \<and> bit b i)}"

text \<open>The counters are right, and there are at most \<open>k\<close> applications per process and \<open>k\<close> processes.\<close>

definition invoker_ok :: "nat \<Rightarrow> nat \<Rightarrow> Invoker \<Rightarrow> bool" where
  "invoker_ok n k v = (finite (dom (invEntries v)) \<and> card (dom (invEntries v)) \<le> k \<and>
     counted n (\<lambda>i. votes (\<lambda>b. bit b i) (invEntries v)) (invSum v, invResult v))"

definition helper_ok :: "nat \<Rightarrow> MultiInvokerHelper \<Rightarrow> bool" where
  "helper_ok k h = (finite (dom (invokers h)) \<and> card (dom (invokers h)) \<le> k \<and> k < 2 ^ 64 \<and>
     (\<forall>v \<in> ran (invokers h). invoker_ok (paramCount h) k v) \<and>
     counted (paramCount h) (\<lambda>i. votes (\<lambda>v. bit (invResult v) i) (invokers h))
       (helperSum h, helperResult h))"

lemma of_nat_uint64_0: "c < 2 ^ 64 \<Longrightarrow> (of_nat c :: uint64) = 0 \<longleftrightarrow> c = 0"
  by (auto simp: word_of_nat_eq_0_iff dest: nat_dvd_not_less)

lemma counted_votes:
  assumes "counted n (\<lambda>i. votes (P i) m) st" "finite (dom m)" "card (dom m) < 2 ^ 64"
  shows "bit (snd st) i \<longleftrightarrow> i < n \<and> (\<exists>k v. m k = Some v \<and> P i v)"
proof (cases "i < n")
  case True
  have "votes (P i) m < 2 ^ 64" using votes_le [OF assms(2), of "P i"] assms(3) by linarith
  then have "(of_nat (votes (P i) m) :: uint64) = 0 \<longleftrightarrow> \<not> 0 < votes (P i) m"
    using of_nat_uint64_0 by simp
  then show ?thesis using True assms(1) votes_pos [OF assms(2), of "P i"]
    by (auto simp: counted_def)
next
  case False
  then show ?thesis using assms(1) by (simp add: counted_def)
qed

lemma invoker_result:
  "invoker_ok n k v \<Longrightarrow> k < 2 ^ 64 \<Longrightarrow>
    bit (invResult v) i \<longleftrightarrow> i < n \<and> (\<exists>a b. invEntries v a = Some b \<and> bit b i)"
  using counted_votes [of n "\<lambda>i b. bit b i" "invEntries v" "(invSum v, invResult v)" i]
  by (simp add: invoker_ok_def)

lemma helper_result:
  assumes "helper_ok k h"
  shows "bit (helperResult h) i \<longleftrightarrow> (\<exists>d a. (d, a, i) \<in> requests_of h)"
proof -
  have res: "bit (invResult v) i \<longleftrightarrow> i < paramCount h \<and> (\<exists>a b. invEntries v a = Some b \<and> bit b i)"
    if "invokers h d = Some v" for d v
    using assms that by (intro invoker_result) (auto simp: helper_ok_def intro: ranI)
  have "bit (helperResult h) i \<longleftrightarrow>
      i < paramCount h \<and> (\<exists>d v. invokers h d = Some v \<and> bit (invResult v) i)"
    using counted_votes [of "paramCount h" "\<lambda>i v. bit (invResult v) i" "invokers h"
        "(helperSum h, helperResult h)" i] assms by (simp add: helper_ok_def)
  also have "\<dots> \<longleftrightarrow> (\<exists>d a. (d, a, i) \<in> requests_of h)"
    using res unfolding requests_of_def by fastforce
  finally show ?thesis .
qed

lemma new_helper_ok: "helper_ok 0 (new_helper n d)" "requests_of (new_helper n d) = {}"
  by (auto simp: helper_ok_def new_helper_def counted_def votes_def requests_of_def Let_def
      MAX_PARAM_NUMBER_def)

lemma new_invoker_ok: "n \<le> 8 \<Longrightarrow> invoker_ok n k (new_invoker n pid)"
  by (auto simp: invoker_ok_def new_invoker_def counted_def votes_def)

lemma entry_votes:
  fixes m :: "int \<rightharpoonup> bitset"
  assumes "finite (dom m)"
  shows "votes (\<lambda>b. bit b i) (m(a := (if input \<noteq> 0 then Some input else None))) =
    new_count (case m a of None \<Rightarrow> 0 | Some b \<Rightarrow> b) input i (votes (\<lambda>b. bit b i) m)"
  using votes_update [OF assms, of "\<lambda>b. bit b i" a "if input \<noteq> 0 then Some input else None"]
  by (auto simp: opt_vote_def new_count_def split: option.splits if_splits)

lemma entry_positive:
  fixes m :: "int \<rightharpoonup> bitset"
  assumes "finite (dom m)" "bit (case m a of None \<Rightarrow> 0 | Some b \<Rightarrow> b) i"
  shows "0 < votes (\<lambda>b. bit b i) m"
  using assms(2) votes_pos [OF assms(1), of "\<lambda>b. bit b i"] by (auto split: option.splits)

lemma card_dom_update: "finite (dom m) \<Longrightarrow> card (dom m) \<le> k \<Longrightarrow> card (dom (m(a := x))) \<le> Suc k"
  by (cases x) (auto simp: card_insert_if intro: le_SucI order_trans [OF card_Diff1_le])

lemma SetValue_ok:
  assumes "invoker_ok n k v"
  shows "invoker_ok n (Suc k) (SetValue n a input v)"
proof -
  let ?E = "invEntries v" and ?p = "case invEntries v a of None \<Rightarrow> 0 | Some b \<Rightarrow> b"
  let ?st = "CountChanges n ?p input (invSum v, invResult v)"
  let ?x = "if input \<noteq> 0 then Some input else None"
  have fin: "finite (dom ?E)" and card: "card (dom ?E) \<le> k"
    and c: "counted n (\<lambda>i. votes (\<lambda>b. bit b i) ?E) (invSum v, invResult v)"
    using assms by (simp_all add: invoker_ok_def)
  have "counted n (\<lambda>i. votes (\<lambda>b. bit b i) (?E(a := ?x))) ?st"
    using CountChanges_counted [OF c, of ?p input] entry_positive [OF fin] entry_votes [OF fin]
    by (simp del: fun_upd_apply)
  moreover have "SetValue n a input v = v\<lparr>invSum := fst ?st, invResult := snd ?st, invEntries := ?E(a := ?x)\<rparr>"
    by (auto simp: SetValue_def Let_def split: prod.split)
  ultimately show ?thesis
    using fin card card_dom_update [OF fin card] by (simp add: invoker_ok_def del: fun_upd_apply)
qed

lemma SetValue_entries:
  "invEntries (SetValue n a input v) = (invEntries v)(a := (if input \<noteq> 0 then Some input else None))"
  by (auto simp: SetValue_def Let_def split: prod.split)

section \<open>The helper implements its promise\<close>

definition invoker_of :: "MultiInvokerHelper \<Rightarrow> string \<Rightarrow> int \<Rightarrow> Invoker" where
  "invoker_of h d pid = (case invokers h d of None \<Rightarrow> new_invoker (paramCount h) pid | Some v \<Rightarrow> v)"

lemma invoker_of_ok: "helper_ok k h \<Longrightarrow> invoker_ok (paramCount h) k (invoker_of h d pid)"
  by (auto simp: invoker_of_def helper_ok_def counted_def intro: new_invoker_ok ranI split: option.split)

lemma invoker_ok_mono: "invoker_ok n k v \<Longrightarrow> k \<le> k' \<Longrightarrow> invoker_ok n k' v"
  by (simp add: invoker_ok_def)

lemma invoker_votes:
  assumes "finite (dom m)" and "\<And>v. m d = Some v \<Longrightarrow> previous = invResult v" "m d = None \<Longrightarrow> previous = 0"
  shows "votes (\<lambda>v. bit (invResult v) i) (m(d := (if invResult v' = 0 then None else Some v'))) =
    new_count previous (invResult v') i (votes (\<lambda>v. bit (invResult v) i) m)"
    and "bit previous i \<Longrightarrow> 0 < votes (\<lambda>v. bit (invResult v) i) m"
  using votes_update [OF assms(1), of "\<lambda>v. bit (invResult v) i" d "if invResult v' = 0 then None else Some v'"]
    votes_pos [OF assms(1), of "\<lambda>v. bit (invResult v) i"] assms(2,3)
  by (auto simp: opt_vote_def new_count_def split: option.splits if_splits)

lemma helper_Set_unfold:
  fixes h d pid a input
  defines "v \<equiv> invoker_of h d pid" and "n \<equiv> paramCount h"
  defines "v' \<equiv> SetValue n (if a \<noteq> -1 then a else pid) (input XOR defaultParam h) v"
  defines "st \<equiv> CountChanges n (invResult v) (invResult v') (helperSum h, helperResult h)"
  shows "fst (helper_Set d pid a input h) = h\<lparr>helperSum := fst st, helperResult := snd st,
    invokers := (invokers h)(d := (if invResult v' = 0 then None else Some v'))\<rparr>"
  by (auto simp: helper_Set_def Let_def v_def v'_def st_def n_def invoker_of_def split: prod.split)

lemma helper_Set_ok:
  assumes "helper_ok k h" "Suc k < 2 ^ 64"
  shows "helper_ok (Suc k) (fst (helper_Set d pid a input h))"
proof -
  let ?n = "paramCount h" and ?v = "invoker_of h d pid"
  let ?v' = "SetValue ?n (if a \<noteq> -1 then a else pid) (input XOR defaultParam h) ?v"
  let ?x = "if invResult ?v' = 0 then None else Some ?v'"
  let ?st = "CountChanges ?n (invResult ?v) (invResult ?v') (helperSum h, helperResult h)"
  have fin: "finite (dom (invokers h))" and card: "card (dom (invokers h)) \<le> k"
    and c: "counted ?n (\<lambda>i. votes (\<lambda>v. bit (invResult v) i) (invokers h)) (helperSum h, helperResult h)"
    using assms by (simp_all add: helper_ok_def)
  have prev: "invokers h d = Some u \<Longrightarrow> invResult ?v = invResult u"
    "invokers h d = None \<Longrightarrow> invResult ?v = 0" for u
    by (simp_all add: invoker_of_def new_invoker_def)
  have "counted ?n (\<lambda>i. votes (\<lambda>v. bit (invResult v) i) ((invokers h)(d := ?x))) ?st"
    using CountChanges_counted [OF c, of "invResult ?v" "invResult ?v'"]
      invoker_votes(1) [OF fin prev, where v' = ?v'] invoker_votes(2) [OF fin prev]
    by (simp del: fun_upd_apply)
  moreover have "invoker_ok ?n (Suc k) u" if "u \<in> ran ((invokers h)(d := ?x))" for u
  proof -
    have "u = ?v' \<or> u \<in> ran (invokers h)" using that by (auto simp: ran_def split: if_splits)
    then show ?thesis
      using SetValue_ok [OF invoker_of_ok [OF assms(1)]] assms(1)
      by (auto simp: helper_ok_def intro: invoker_ok_mono [OF _ le_SucI])
  qed
  ultimately show ?thesis
    using fin card_dom_update [OF fin card] assms(2)
    by (simp add: helper_ok_def helper_Set_unfold del: fun_upd_apply)
qed

lemma helper_Set_requests:
  assumes "helper_ok k h" "Suc k < 2 ^ 64"
  shows "requests_of (fst (helper_Set d pid a input h)) =
    request (paramCount h) d (if a \<noteq> -1 then a else pid) (input XOR defaultParam h) (requests_of h)"
proof -
  let ?n = "paramCount h" and ?v = "invoker_of h d pid" and ?a = "if a \<noteq> -1 then a else pid"
  let ?delta = "input XOR defaultParam h"
  let ?v' = "SetValue ?n ?a ?delta ?v"
  let ?h' = "fst (helper_Set d pid a input h)"
  have "bit (invResult ?v') i \<longleftrightarrow> i < ?n \<and> (\<exists>a b. invEntries ?v' a = Some b \<and> bit b i)" for i
    using SetValue_ok [OF invoker_of_ok [OF assms(1)]] assms(2) by (rule invoker_result)
  then have zero: "invResult ?v' = 0 \<Longrightarrow> i < ?n \<Longrightarrow> invEntries ?v' e = Some b \<Longrightarrow> \<not> bit b i" for i e b
    by auto
  have old: "(d, e, i) \<in> requests_of h \<longleftrightarrow> i < ?n \<and> (\<exists>b. invEntries ?v e = Some b \<and> bit b i)" for e i
    by (auto simp: requests_of_def invoker_of_def new_invoker_def split: option.splits)
  have "(d, e, i) \<in> requests_of ?h' \<longleftrightarrow> i < ?n \<and> (\<exists>b. invEntries ?v' e = Some b \<and> bit b i)" for e i
    using zero by (auto simp: requests_of_def helper_Set_unfold)
  then have this_one: "(d, e, i) \<in> requests_of ?h' \<longleftrightarrow>
      (if e = ?a then i < ?n \<and> bit ?delta i else (d, e, i) \<in> requests_of h)" for e i
    unfolding old by (auto simp: SetValue_entries)
  have "(d', e, i) \<in> requests_of ?h' \<longleftrightarrow> (d', e, i) \<in> requests_of h" if "d' \<noteq> d" for d' e i
    using that by (auto simp: requests_of_def helper_Set_unfold)
  with this_one have "(d', e, i) \<in> requests_of ?h' \<longleftrightarrow>
      (d', e, i) \<in> request ?n d ?a ?delta (requests_of h)" for d' e i
    by (cases "d' = d") (auto simp: request_def split: if_splits)
  then show ?thesis by auto
qed

lemma RemoveInvoker_ok:
  assumes "helper_ok k h"
  shows "helper_ok k (fst (RemoveInvoker d h)) \<and>
    requests_of (fst (RemoveInvoker d h)) = withdraw d (requests_of h)"
proof (cases "invokers h d")
  case None
  then show ?thesis using assms by (auto simp: RemoveInvoker_def withdraw_def requests_of_def)
next
  case (Some v)
  let ?n = "paramCount h" and ?m = "invokers h"
  let ?st = "fold (SubResult (invResult v)) [0..<?n] (helperSum h, helperResult h)"
  have fin: "finite (dom ?m)"
    and c: "counted ?n (\<lambda>i. votes (\<lambda>v. bit (invResult v) i) ?m) (helperSum h, helperResult h)"
    using assms by (simp_all add: helper_ok_def)
  have less: "votes (\<lambda>v. bit (invResult v) i) (?m(d := None)) =
      votes (\<lambda>v. bit (invResult v) i) ?m - of_bool (bit (invResult v) i)"
    and pos: "bit (invResult v) i \<Longrightarrow> 0 < votes (\<lambda>v. bit (invResult v) i) ?m" for i
    using votes_update [OF fin, of "\<lambda>v. bit (invResult v) i" d None]
      votes_pos [OF fin, of "\<lambda>v. bit (invResult v) i"] Some by (auto simp: opt_vote_def)
  have "counted ?n (\<lambda>i. votes (\<lambda>v. bit (invResult v) i) (?m(d := None))) ?st"
    using SubResult_upto [OF c _ order_refl, of "invResult v"] pos
    by (auto simp: less elim!: counted_cong simp del: fun_upd_apply)
  moreover have "fst (RemoveInvoker d h) =
      h\<lparr>helperSum := fst ?st, helperResult := snd ?st, invokers := ?m(d := None)\<rparr>"
    using Some by (simp add: RemoveInvoker_def split: prod.split)
  moreover have "card (dom (?m(d := None))) \<le> k"
    using assms by (auto simp: helper_ok_def intro: order_trans [OF card_Diff1_le])
  ultimately show ?thesis
    using assms fin by (auto simp: helper_ok_def requests_of_def withdraw_def ran_def)
qed

section \<open>Sequences of calls\<close>

text \<open>
  A concrete structure that implements an abstract one as long as fewer than \<open>limit\<close> operations were
  performed (the bound that keeps a machine counter from wrapping around).
\<close>

locale bounded_refinement =
  fixes inv :: "nat \<Rightarrow> 'c \<Rightarrow> bool" and abs :: "'c \<Rightarrow> 'a"
    and cstep :: "'op \<Rightarrow> 'c \<Rightarrow> 'c" and astep :: "'op \<Rightarrow> 'a \<Rightarrow> 'a" and limit :: nat
  assumes step_inv: "inv k c \<Longrightarrow> Suc k < limit \<Longrightarrow> inv (Suc k) (cstep x c)"
    and step_abs: "inv k c \<Longrightarrow> Suc k < limit \<Longrightarrow> abs (cstep x c) = astep x (abs c)"
begin

lemma run_refines:
  assumes "inv k c" "k + length xs < limit"
  shows "inv (k + length xs) (fold cstep xs c) \<and> abs (fold cstep xs c) = fold astep xs (abs c)"
  using assms
proof (induction xs arbitrary: k c)
  case (Cons x xs)
  then have "inv (Suc k) (cstep x c)" "abs (cstep x c) = astep x (abs c)"
    by (simp_all add: step_inv step_abs)
  with Cons.IH [of "Suc k" "cstep x c"] Cons.prems show ?case by simp
qed simp

end

datatype helper_call = InvokerSets string int int bitset | InvokerDies string

primrec helper_step :: "helper_call \<Rightarrow> MultiInvokerHelper \<Rightarrow> MultiInvokerHelper" where
  "helper_step (InvokerSets d pid appid input) h = fst (helper_Set d pid appid input h)"
| "helper_step (InvokerDies d) h = fst (RemoveInvoker d h)"

primrec request_step :: "nat \<Rightarrow> bitset \<Rightarrow> helper_call \<Rightarrow> requests \<Rightarrow> requests" where
  "request_step n dflt (InvokerSets d pid appid input) R =
    request n d (if appid \<noteq> -1 then appid else pid) (input XOR dflt) R"
| "request_step n dflt (InvokerDies d) R = withdraw d R"

lemma helper_ok_mono: "helper_ok k h \<Longrightarrow> Suc k < 2 ^ 64 \<Longrightarrow> helper_ok (Suc k) h"
  by (auto simp: helper_ok_def intro: invoker_ok_mono [OF _ le_SucI])

lemma helper_step_params:
  "paramCount (helper_step x h) = paramCount h" "defaultParam (helper_step x h) = defaultParam h"
  by (cases x; auto simp: helper_Set_unfold RemoveInvoker_def split: option.split prod.split)+

interpretation helper: bounded_refinement
  "\<lambda>k h. helper_ok k h \<and> paramCount h = n \<and> defaultParam h = dflt" requests_of helper_step
  "request_step n dflt" "2 ^ 64" for n dflt
proof
  fix k h x
  assume h: "helper_ok k h \<and> paramCount h = n \<and> defaultParam h = dflt" and k: "Suc k < 2 ^ 64"
  then show "helper_ok (Suc k) (helper_step x h) \<and> paramCount (helper_step x h) = n \<and>
      defaultParam (helper_step x h) = dflt"
    using helper_Set_ok [of k h] RemoveInvoker_ok [of k h] helper_ok_mono
    by (cases x) (simp_all add: helper_step_params helper_step_params [of "InvokerSets _ _ _ _", simplified]
        helper_step_params [of "InvokerDies _", simplified])
  show "requests_of (helper_step x h) = request_step n dflt x (requests_of h)"
    using h k helper_Set_requests [of k h] RemoveInvoker_ok [of k h] by (cases x) auto
qed

text \<open>
  C4: After any sequence of \<open>Set\<close> calls and deaths of clients (fewer than \<open>2 ^ 64\<close> of them, so that no
  counter wraps around), a switch that \<open>MultiInvokerHelper\<close> hands to the service deviates from its
  default exactly if some application of some living client last asked for the other value: the
  counters compute the disjunction over the requests in force.
\<close>

theorem multi_invoker_follows_requests:
  assumes "length calls < 2 ^ 64"
  shows "bit (helper_output (fold helper_step calls (new_helper count dflt))) i \<longleftrightarrow>
    bit dflt i \<noteq> (\<exists>d a. (d, a, i) \<in> fold (request_step (min count MAX_PARAM_NUMBER) dflt) calls {})"
proof -
  let ?h = "new_helper count dflt" and ?n = "min count MAX_PARAM_NUMBER"
  have "paramCount ?h = ?n" "defaultParam ?h = dflt"
    by (simp_all add: new_helper_def Let_def min_def)
  with helper.run_refines [of 0 ?h ?n dflt calls] assms new_helper_ok [of count dflt]
  have "helper_ok (length calls) (fold helper_step calls ?h)"
    "requests_of (fold helper_step calls ?h) = fold (request_step ?n dflt) calls {}"
    "defaultParam (fold helper_step calls ?h) = dflt" by auto
  then show ?thesis by (auto simp: helper_output_def bit_xor_iff helper_result)
qed

theorem multi_invoker_follows_requests_witness:
  "\<not> bit (helper_output (fold helper_step
     [InvokerSets ''a'' 1 (-1) 0b000, InvokerSets ''b'' 2 5 0b101, InvokerDies ''a'',
      InvokerSets ''b'' 2 5 0b001] (new_helper 3 0b101))) 2"
  using multi_invoker_follows_requests [of "[InvokerSets ''a'' 1 (-1) 0b000, InvokerSets ''b'' 2 5 0b101,
      InvokerDies ''a'', InvokerSets ''b'' 2 5 0b001]" 3 "0b101" 2]
  by (simp add: request_def withdraw_def MAX_PARAM_NUMBER_def)

end
