(* ===== verification/Screen_Lock_Callbacks.thy ===== *)
theory Screen_Lock_Callbacks
  imports Containers
begin

text \<open>
  \<open>RunningLockCallbackManager\<close> (\<open>services/native/src/runninglock/running_lock_callback_manager.cpp\<close>):
  system applications that want to hear when a screen is kept on by a running lock, each for one
  display or for all displays, and the counters that say when a display becomes locked or unlocked.

  \<open>callbacks_\<close> is a \<open>std::multimap\<close>: an association list sorted by the address of the callback object,
  equal keys in the order of insertion.  A value is the triple of process, user and display.
  A counter is a \<open>uint32_t\<close>.  \<open>HandleScreenLockNotify\<close> is split where the code leaves the scope of its
  locks: \<open>CountScreenLock\<close> is what happens under them, the calls to the clients are made by the
  computation of theory \<open>Running_Lock\<close>.
\<close>

definition RUNNINGLOCK_DISPLAY_ID_ALL :: nat where "RUNNINGLOCK_DISPLAY_ID_ALL = 2 ^ 64 - 1"

type_synonym ChangedCallback = "nat \<times> (int \<times> int \<times> nat)"

record RunningLockCallbackManager =
  lockCallbacks :: "ChangedCallback list"
  screenLockCountPerDisplayId :: "nat \<rightharpoonup> uint32"

abbreviation callbackDisplayId :: "ChangedCallback \<Rightarrow> nat" where
  "callbackDisplayId e \<equiv> snd (snd (snd e))"

section \<open>Registration\<close>

definition CbMgr_Register ::
  "nat option \<Rightarrow> int \<Rightarrow> int \<Rightarrow> nat \<Rightarrow> RunningLockCallbackManager \<Rightarrow> RunningLockCallbackManager" where
  "CbMgr_Register callback pid uid display m = (case callback of
     None \<Rightarrow> m
   | Some c \<Rightarrow>
       if list_ex (\<lambda>e. fst e = c \<and> callbackDisplayId e = display) (lockCallbacks m) then m
       else m\<lparr>lockCallbacks := takeWhile (\<lambda>e. fst e \<le> c) (lockCallbacks m) @
              (c, (pid, uid, display)) # dropWhile (\<lambda>e. fst e \<le> c) (lockCallbacks m)\<rparr>)"

text \<open>The first entry of the callback for the display is erased.\<close>

fun erase_first :: "nat \<Rightarrow> nat \<Rightarrow> ChangedCallback list \<Rightarrow> ChangedCallback list" where
  "erase_first c display [] = []"
| "erase_first c display (e # es) =
    (if fst e = c \<and> callbackDisplayId e = display then es else e # erase_first c display es)"

definition CbMgr_UnRegister ::
  "nat option \<Rightarrow> nat \<Rightarrow> RunningLockCallbackManager \<Rightarrow> RunningLockCallbackManager" where
  "CbMgr_UnRegister callback display m = (case callback of
     None \<Rightarrow> m
   | Some c \<Rightarrow> m\<lparr>lockCallbacks := erase_first c display (lockCallbacks m)\<rparr>)"

definition CbMgr_RemoveAll :: "nat option \<Rightarrow> RunningLockCallbackManager \<Rightarrow> RunningLockCallbackManager" where
  "CbMgr_RemoveAll callback m = (case callback of
     None \<Rightarrow> m
   | Some c \<Rightarrow> m\<lparr>lockCallbacks := filter (\<lambda>e. fst e \<noteq> c) (lockCallbacks m)\<rparr>)"

definition CbMgr_HasCallbacks :: "nat option \<Rightarrow> RunningLockCallbackManager \<Rightarrow> bool" where
  "CbMgr_HasCallbacks callback m = (case callback of
     None \<Rightarrow> False
   | Some c \<Rightarrow> list_ex (\<lambda>e. fst e = c) (lockCallbacks m))"

definition CbMgr_GetCallbackCount :: "RunningLockCallbackManager \<Rightarrow> nat" where
  "CbMgr_GetCallbackCount m = length (lockCallbacks m)"

section \<open>Counting the locks of a display\<close>

text \<open>\<open>std::set<uint64_t>\<close> is traversed in ascending order.\<close>

definition GetRegisteredDisplayIds :: "RunningLockCallbackManager \<Rightarrow> nat list" where
  "GetRegisteredDisplayIds m = fold (\<lambda>e s. oset_insert (callbackDisplayId e) s) (lockCallbacks m) []"

definition GetScreenLockCountInternal :: "nat \<Rightarrow> RunningLockCallbackManager \<Rightarrow> uint32" where
  "GetScreenLockCountInternal display m =
    (let count = (case screenLockCountPerDisplayId m display of None \<Rightarrow> 0 | Some n \<Rightarrow> n)
     in if display \<noteq> RUNNINGLOCK_DISPLAY_ID_ALL
        then (case screenLockCountPerDisplayId m RUNNINGLOCK_DISPLAY_ID_ALL of
                None \<Rightarrow> count | Some n \<Rightarrow> count + n)
        else count)"

definition UpdateScreenLockCount ::
  "bool \<Rightarrow> nat \<Rightarrow> RunningLockCallbackManager \<Rightarrow> RunningLockCallbackManager" where
  "UpdateScreenLockCount active display m =
    (let cs = screenLockCountPerDisplayId m in
     m\<lparr>screenLockCountPerDisplayId :=
       (if active then cs(display \<mapsto> (case cs display of None \<Rightarrow> 0 | Some n \<Rightarrow> n) + 1)
        else case cs display of
          None \<Rightarrow> cs
        | Some n \<Rightarrow> if n > 0 then (if n - 1 = 0 then cs(display := None) else cs(display \<mapsto> n - 1)) else cs)\<rparr>)"

definition CollectNotifications ::
  "bool \<Rightarrow> nat \<Rightarrow> RunningLockCallbackManager \<Rightarrow> (bool \<times> nat) list \<Rightarrow> (bool \<times> nat) list" where
  "CollectNotifications active display m notifications =
    (let countAfter = GetScreenLockCountInternal display m;
         countBefore = countAfter + (if active then 0 else 1) - (if active then 1 else 0)
     in if active \<and> countBefore = 0 \<and> countAfter = 1 then notifications @ [(active, display)]
        else if \<not> active \<and> countBefore = 1 \<and> countAfter = 0 then notifications @ [(active, display)]
        else notifications)"

definition CountScreenLock ::
  "bool \<Rightarrow> nat \<Rightarrow> RunningLockCallbackManager \<Rightarrow> (bool \<times> nat) list \<times> RunningLockCallbackManager" where
  "CountScreenLock active display m =
    (let m' = UpdateScreenLockCount active display m;
         others = (if display = RUNNINGLOCK_DISPLAY_ID_ALL
                   then oset_erase RUNNINGLOCK_DISPLAY_ID_ALL (GetRegisteredDisplayIds m) else []);
         notifications = fold (\<lambda>d ns. CollectNotifications active d m' ns) others []
     in (CollectNotifications active display m' notifications, m'))"

end
