(* ===== verification/World.thy ===== *)
theory World
  imports Power_Info Containers Multi_Invoker Screen_Lock_Callbacks
begin

text \<open>
  The state of the service and its surroundings.

  The program runs in one process: \<open>PowerStateMachine\<close>, \<open>SuspendController\<close>, \<open>RunningLockMgr\<close> and
  \<open>PowerMgrService\<close> are objects that call one another.  Their fields are the records \<open>psm_state\<close>,
  \<open>susp_state\<close>, \<open>rlm_state\<close> and \<open>svc_state\<close>, collected in \<open>world\<close>; the methods are computations over
  it.  A pointer that the code tests for \<open>nullptr\<close> is a flag of \<open>ptrs_state\<close>; a dereference that
  the code does not guard is taken to succeed.

  Code outside the repository (display power manager, window manager, power driver, task queue,
  sensors, settings, IPC callbacks) is not defined here.  Every call to it is recorded in \<open>trace\<close>,
  most recent first, and what it answers is an arbitrary function of the call and of everything that
  was called before, fields of the record \<open>env\<close>.  A theorem about every \<open>env\<close> therefore holds
  whatever those services do.  The preprocessor switches of the build are Boolean fields of \<open>env\<close>.
\<close>

section \<open>Enumerations of the service\<close>

datatype TransitResult =
    SUCCESS
  | ALREADY_IN_STATE
  | LOCKING
  | HDI_ERR
  | DISPLAY_ON_ERR
  | DISPLAY_OFF_ERR
  | FORBID_TRANSIT
  | PRE_BRIGHT_ERR
  | TAKEN_OVER
  | OTHER_ERR

datatype ActionResult = ACTION_SUCCESS | ACTION_FAILED

datatype PreBrightState = PRE_BRIGHT_UNSTART | PRE_BRIGHT_STARTED | PRE_BRIGHT_FINISHED

datatype ScreenOffBlockType = BLOCK_NONE | BLOCK_POWER_KEY | BLOCK_LID | BLOCK_SUSPEND_DEVICE_INTERFACE

datatype SwitchActionKind = SWITCH_ACTION_NULL | SWITCH_ACTION_DEFAULT | SWITCH_ACTION_DUAL_SCREEN

datatype RunningLockState =
    RUNNINGLOCK_STATE_DISABLE
  | RUNNINGLOCK_STATE_ENABLE
  | RUNNINGLOCK_STATE_PROXIED
  | RUNNINGLOCK_STATE_UNPROXIED_RESTORE

datatype RunningLockStatus =
    RUNNINGLOCK_SUCCESS
  | RUNNINGLOCK_FAILURE
  | RUNNINGLOCK_NOT_SUPPORT
  | RUNNINGLOCK_INVALID_PARAM

datatype FFRTTimerId =
    TIMER_ID_SLEEP
  | TIMER_ID_USER_ACTIVITY_OFF
  | TIMER_ID_USER_ACTIVITY_TIMEOUT
  | TIMER_ID_SCREEN_TIMEOUT_CHECK
  | TIMER_ID_PRE_BRIGHT_AUTH
  | TIMER_ID_PROXIMITY_SCREEN_OFF
  | TIMER_ID_PROXIMITY_SCREEN_SWITCH_TO_SUB
  | TIMER_ID_AUTO_SLEEP
  | TIMER_ID_FORCE_RELEASE_LOCK
  | TIMER_ID_ULSR

datatype PowerErrors =
    ERR_OK
  | ERR_FAILURE
  | ERR_PERMISSION_DENIED
  | ERR_SYSTEM_API_DENIED
  | ERR_PARAM_INVALID
  | ERR_SCREEN_OFF_BLOCKED
  | ERR_CAPABILITY_NOT_SUPPORTED
  | ERR_SKIP_FUNCTION_CALL
  | ERR_FREQUENT_FUNCTION_CALL
  | ERR_ENTERPRISE_POLICIES_DENIED
  | ERR_POWER_MODE_TRANSIT_FAILED
  | ERR_READ_OPERATION_FAILED
  | ERR_WRITE_OPERATION_FAILED
  | ERR_CONNECTION_FAIL
  | ERR_USER_PARAM_INVALID

text \<open>
  The actions of a suspend source (\<open>SuspendAction\<close>, a \<open>uint32_t\<close> in the configuration, so any value
  can occur).
\<close>

definition ACTION_NONE :: uint32 where "ACTION_NONE = 0"
definition ACTION_AUTO_SUSPEND :: uint32 where "ACTION_AUTO_SUSPEND = 1"
definition ACTION_FORCE_SUSPEND :: uint32 where "ACTION_FORCE_SUSPEND = 2"
definition ACTION_HIBERNATE :: uint32 where "ACTION_HIBERNATE = 3"
definition ACTION_SHUTDOWN :: uint32 where "ACTION_SHUTDOWN = 4"

lemmas suspend_action_defs [enum_simps] =
  ACTION_NONE_def ACTION_AUTO_SUSPEND_def ACTION_FORCE_SUSPEND_def ACTION_HIBERNATE_def
  ACTION_SHUTDOWN_def

section \<open>Identifiers and tasks\<close>

type_synonym obj = nat  \<comment> \<open>a remote object or callback, by address\<close>
type_synonym handle = nat  \<comment> \<open>a task handle of the task queue\<close>

datatype TimerInstance = POWER_TIMER | RUNNING_LOCK_TIMER | SCREEN_OFF_PRE_QUEUE | SCREEN_SAVER_QUEUE
  | SHUTDOWN_DIALOG_QUEUE | HDI_QUEUE

text \<open>The closures the service hands to the task queue.\<close>

datatype task =
    TaskActivityTimeout
  | TaskActivityOff
  | TaskProximityScreenOff
  | TaskProximitySwitchToSub
  | TaskPreBrightAuth
  | TaskUlsr
  | TaskSleep SuspendDeviceType uint32
  | TaskAutoSleep SuspendDeviceType
  | TaskForceSleep
  | TaskForceReleaseLock
  | TaskProximityUnlockAwake
  | TaskAsyncWakeup
  | TaskUnRegisterCallback obj
  | TaskSuspendMonitor SuspendDeviceType
  | TaskPowerkeyScreenOff SuspendDeviceType uint32 uint32
  | TaskWakeupMonitor WakeupDeviceType
  | TaskUlsrWakeup
  | TaskForceSuspendCallbacks string
  | TaskForceSuspendWakeup string
  | TaskEyeDetect
  | TaskScreenSaver
  | TaskKeyMonitorInit
  | TaskShowDialog obj
  | TaskHdiStatusListener
  | TaskPowerHdiCallback

record RunningLockParam =
  lockid :: nat
  lockName :: string
  bundleName :: string
  lockType :: RunningLockType
  timeoutMs :: int
  lockPid :: int
  lockUid :: int
  displayId :: nat
  typeHdi :: RunningLockType

section \<open>Calls to code outside the repository\<close>

datatype display_call =
    DpmGetDisplayState
  | DpmSetDisplayState DisplayState StateChangeReason
  | DpmRegisterCallback
  | DpmSetCoordinated bool
  | DpmSetScreenOnBrightness
  | DpmSetBrightness int

datatype window_call =
    DmsWakeUpBegin nat
  | DmsSuspendBegin nat
  | DmsTryToCancelScreenOff
  | DmsGetFoldDisplayMode
  | DmsSetFoldDisplayMode int
  | DmsSetScreenPowerById DisplayState nat
  | DmsSetScreenPowerForAll DisplayState nat
  | DmsSetScreenSwitchState bool bool
  | DmsSyncScreenPowerState bool
  | DmsAnyScreenPowered
  | PhysicalScreensStatus
  | PhysicalScreensCount
  | ScreenInfo nat
  | ScreenVirtual nat
  | RegisterScreenListener
  | UnregisterScreenListener
  | RegisterAbnormalScreenListener
  | UnregisterAbnormalScreenListener

datatype driver_call =
    HdiGetInterface
  | HdiStartSuspend
  | HdiForceSuspend
  | HdiForceSuspendEx string string
  | HdiCastV1_4
  | HdiStopSuspend
  | HdiHibernate
  | HdiSetSuspendTag string
  | HdiHoldRunningLock RunningLockParam
  | HdiUnholdRunningLock RunningLockParam
  | HdiGetPowerConfig string
  | HdiSetPowerConfig string string
  | HdiServiceManager
  | HdiStatusListener
  | HdiRegisterCallback bool

datatype queue_call =
    QueueSubmit TimerInstance task uint32
  | QueueCancel TimerInstance handle
  | SubmitTask task

datatype event_call =
    PublishScreenOn int string
  | PublishScreenOff int string
  | PublishEnterForceSleep int
  | PublishExitForceSleep int
  | PublishEnterHibernate int bool
  | PublishExitHibernate int bool
  | PublishRefresh
  | PublishScreenLockEvent bool
  | CustomizedScreenEvent PowerState
  | TouchAfterScreenOn
  | OperateAfterScreenOn
  | SetScreenOnRules StateChangeReason
  | PublishPowerMode nat "int option"
  | PublishStartDream
  | SubscribeCommonEvent "string list"
  | UnSubscribeCommonEvent

datatype callback_call =
    CastScreenOffPre obj
  | OnScreenStateChanged obj nat
  | OnAsyncPowerStateChanged obj PowerState
  | OnPowerStateChanged obj PowerState
  | AddDeathRecipient obj
  | RemoveDeathRecipient obj
  | OnSyncSleep obj bool
  | OnSyncWakeup obj bool
  | OnTakeOverSuspend obj SuspendDeviceType
  | OnSyncUlsr obj
  | OnUlsrWakeup obj bool
  | UlsrSyncTimedOut
  | RunningLockMessage obj RunningLockParam string
  | CastLockCallback obj
  | ScreenLockChanged obj bool nat
  | CastPowerModeCallback obj
  | OnPowerModeChanged obj nat

datatype settings_call =
    DataShareHelperCreate string
  | DataShareQuery string string
  | DataShareRowCount string string
  | DataShareGetString string string
  | DataShareUpdate string string string
  | DataShareInsert string string string
  | DataShareNotifyChange string
  | DataShareRegisterObserver string string
  | DataShareUnregisterObserver string string
  | DataShareRelease
  | ObserverThread string
  | ActiveAccountsStatus
  | ActiveAccountsEmpty
  | ActiveAccountFirst
  | UninitialisedInt
  | ConfigFile string
  | FileReadable string
  | FileContents string
  | BatteryPluggedType
  | ReportSchedMode int string
  | SetStopService bool

datatype hibernate_call =
    AccountDeactivateAll
  | AccountGetDefault
  | AccountActivate int
  | OnSyncHibernate obj
  | OnHibernateWakeup obj bool
  | OnHibernateEnd bool
  | PrepareTimedOut

datatype service_call =
    RequestSetSuspendTag string
  | InputManagerPresent
  | InputUnsubscribeActive int
  | InputSubscribeActive bool
  | HookExecute string
  | PermissionIsSystem
  | PermissionIsHap
  | PermissionGranted string
  | CallerApiVersion
  | CallerPid
  | CallerUid
  | NewToken string
  | BundleNameForUid int
  | AccountOfUid int
  | AccountDisplay int
  | WakeupReason
  | InputKeyUnsubscribe int
  | InputKeySubscribe string
  | WallClock
  | ObjectDescriptor obj
  | IsProxyObject obj
  | UserScreenOn int
  | AnyUserScreenOn
  | UlsrResultParam
  | WatchUlsrResult
  | UnwatchUlsrResult
  | TimerRegister obj int
  | TimerUnregister uint32
  | ExtLibrary
  | ExtSymbol string
  | ExtFunction string bool
  | InputMonitorAdd
  | InputMonitorRemove int
  | SwitchSubscribe
  | SwitchUnsubscribe int
  | ExtCall string
  | LongPressSubscribe int
  | DialogLibrary
  | DialogSymbol
  | PowerConnectAbility string string
  | DialogRequest obj string string string
  | StartVibrator string
  | ModuleScan
  | ModuleDestroy
  | ExtWrapperInit
  | ExtWrapperDeInit
  | AddAbilityListener string
  | RemoveAbilityListener string
  | PublishAbility
  | RegisterBootCompleted
  | DeviceInStandby

datatype shutdown_call =
    OnTakeOverShutdown obj string bool
  | OnTakeOverHibernate obj string bool
  | SetShutStage
  | SetParameter string string
  | PublishShutdown
  | RealTime
  | OnSyncShutdown obj
  | OnSyncShutdownOrReboot obj bool
  | OnAsyncShutdown obj
  | OnAsyncShutdownOrReboot obj bool
  | SyncCallbacksTimedOut
  | AsyncCallbacksTimedOut
  | TurnOffScreens nat
  | DetachThread string bool
  | DeviceReboot string
  | DeviceShutdown string

datatype sensor_call =
    SensorList
  | SensorSubscribe
  | SensorActivate
  | SensorDeactivate
  | SensorUnsubscribe
  | VoiceAppForeground
  | MovementState
  | AllSensors
  | AllSensorsCount
  | SensorTypeAt int
  | HallSubscribe
  | HallSetBatch
  | HallActivate
  | HallDeactivate
  | HallUnsubscribe

datatype ext_call =
    GetTick
  | Display display_call
  | Window window_call
  | Driver driver_call
  | Queue queue_call
  | Event event_call
  | Callback callback_call
  | Settings settings_call
  | Hibernation hibernate_call
  | Service service_call
  | Sensor sensor_call
  | Shutdown shutdown_call
  | ConcurrentRefresh
  | StateMutexBusy

text \<open>
  A document as \<open>cJSON\<close> presents it: an object is the list of its members in order, a number its
  \<open>valueint\<close>.
\<close>

datatype Json =
    JNull
  | JBool bool
  | JNumber int
  | JString string
  | JArray "Json list"
  | JObject "(string \<times> Json) list"

record env =
  \<comment> \<open>preprocessor switches of the build\<close>
  F_S4 :: bool
  F_SCREEN_DECOUPLING :: bool
  F_EXTERNAL_SCREEN :: bool
  F_SENSORS :: bool
  F_MSDP_MOVEMENT :: bool
  F_TAKEOVER_SUSPEND :: bool
  F_FORCE_SLEEP_BROADCAST :: bool
  F_SUSPEND_WITH_TAG :: bool
  F_CHARGING_TYPE :: bool
  F_LONG_TIME_DIM :: bool
  F_SCREEN_SAVER :: bool
  F_TV_DREAMING :: bool
  F_WATCH_RULES :: bool
  F_FILTER_PROXIMITY :: bool
  F_MONITOR_LOCK_CHANGE :: bool
  F_LOCK_MULTI_SCREEN :: bool
  F_AUDIO_LOCK_UNPROXY :: bool
  F_MULTIMODAL_INPUT :: bool
  F_WAKEUP_ACTION :: bool
  F_WATCH_BOOT :: bool
  F_FORCE_SUSPEND_EX :: bool
  F_ULSR_PLUGIN :: bool
  F_USER_IDLE_PERMISSIVE :: bool
  F_MULTI_USER_SCREEN :: bool
  F_JUDGE_TAKEOVER :: bool
  F_MOUSE_DEBOUNCE :: bool
  F_LID_FOLD :: bool
  F_DISABLE_AUTO_DISPLAYOFF :: bool
  F_RESOURCE_SCHEDULE :: bool
  F_DISPLAY_MANAGER :: bool
  F_WATCH_UPDATE_ADAPT :: bool
  F_DOUBLECLICK :: bool
  F_PICKUP :: bool
  F_POWER_DIALOG :: bool
  F_BLOCK_LONG_PRESS :: bool
  F_FACTORY_MODE :: bool
  F_DEVICE_STANDBY :: bool
  F_VIBRATOR_MODE :: bool
  \<comment> \<open>answers of code outside the repository\<close>
  extBool :: "ext_call \<Rightarrow> ext_call list \<Rightarrow> bool"
  extInt :: "ext_call \<Rightarrow> ext_call list \<Rightarrow> int"
  extDisplay :: "ext_call list \<Rightarrow> DisplayState"
  extString :: "ext_call \<Rightarrow> ext_call list \<Rightarrow> string"
  extHandle :: "task \<Rightarrow> ext_call list \<Rightarrow> handle option"
  rosenCode :: "RosenReason \<Rightarrow> nat"
  foldSub :: int
  foldMain :: int
  startUserId :: int
  maxUserId :: int
  shutDownReasonCode :: nat
  constant_of :: "string \<Rightarrow> int"
  shutdownFastReason :: string
  baseAppUid :: int
  hashPtr :: "obj \<Rightarrow> nat"
  intParameter :: "string \<Rightarrow> int \<Rightarrow> int"
  boolParameter :: "string \<Rightarrow> bool \<Rightarrow> bool"
  strParameter :: "string \<Rightarrow> string \<Rightarrow> string"
  cjsonParse :: "string \<Rightarrow> Json option"
  cjsonPrint :: "Json \<Rightarrow> string option"

section \<open>State of the components\<close>

record FFRTTimer =
  handleMap :: "FFRTTimerId \<Rightarrow> handle option"
  taskId :: "FFRTTimerId \<Rightarrow> uint32"

record StateController =
  lastReason :: StateChangeReason
  lastTime :: int
  failFrom :: PowerState
  failTrigger :: StateChangeReason
  failReason :: string
  failTime :: int

record DevicePowerState =
  screenDisplayState :: DisplayState
  lastOnTime :: int
  lastOffTime :: int
  lastWakeupEventTime :: int
  lastRefreshActivityTime :: int
  lastWakeupDeviceTime :: int
  lastSuspendDeviceTime :: int

record psm_state =
  currentState :: PowerState
  mDeviceState :: DevicePowerState
  controllerMap :: "PowerState \<Rightarrow> StateController option"
  syncPowerStateListeners :: "obj list"
  asyncPowerStateListeners :: "obj list"
  cachedRegister :: "obj \<Rightarrow> (int \<times> int) option"
  displayOffTime :: int
  psmSleepTime :: int
  enableDisplaySuspend :: bool
  isScreenOffTimeOverride :: bool
  beforeOverrideTime :: int
  switchActionValue :: uint32
  switchOpen :: bool
  switchAction :: SwitchActionKind
  hibernating :: bool
  forceTimingOut :: bool
  enabledTimingOutLockScreen :: bool
  enabledTimingOutLockScreenCheckLock :: bool
  enabledScreenOffEvent :: bool
  settingStateFlag :: int
  settingOnStateFlag :: bool
  settingOffStateFlag :: bool
  isAwakeNotified :: bool
  preBrightState :: PreBrightState
  proximityScreenOffTimerStarted :: bool
  isDozeEnabled :: bool
  externalScreenNumber :: int
  isDuringCall :: bool
  isProximityCloseEventFiltered :: bool
  screenOffBlockMap :: "ScreenOffBlockType \<Rightarrow> (obj option) option"
  preHibernateStart :: int
  prepareResult :: bool

text \<open>\<open>DeviceStateAction\<close> and \<open>SystemSuspendController\<close>.\<close>

record action_state =
  isRegister :: bool
  coordinated :: bool
  screenOffStarted :: bool
  cancelScreenOffCvUnblocked :: bool
  interruptingScreenOff :: bool
  screenOffInterrupted :: bool
  allowSleepTask :: bool
  powerInterface :: bool

record SuspendMonitor =
  monReason :: SuspendDeviceType
  monAction :: uint32
  monDelayMs :: uint32
  monKeyId :: int

record susp_state =
  monitorMap :: "SuspendDeviceType \<Rightarrow> SuspendMonitor option"
  sleepDuration :: uint32
  sleepTime :: int
  sleepReason :: SuspendDeviceType
  sleepAction :: uint32
  sleepType :: uint32
  powerkeyDownWhenScreenOff :: bool
  lastPowerkeyUpTime :: int
  forceSleeping :: bool
  onForceSleep :: bool
  highPriorityCallbacks :: "obj list"
  defaultPriorityCallbacks :: "obj list"
  lowPriorityCallbacks :: "obj list"
  sleepCachedRegister :: "obj \<Rightarrow> (int \<times> int) option"
  highTakeOverCallbacks :: "obj list"
  defaultTakeOverCallbacks :: "obj list"
  lowTakeOverCallbacks :: "obj list"
  suspendPowerStateCallback :: "obj option"
  isWakeupReasonConfigMatched :: bool
  powerkeyScreenOff :: bool
  powerkeyReleaseIdCache :: int
  lastForceSuspendStartTime :: int
  mouseDebounceTimeAfterSuspend :: int
  forceSuspendCallbackPending :: bool
  forceSuspendCallbackFinished :: bool
  forceSuspendSkipHdi :: bool
  forceSuspendTag :: string

datatype UlsrPriority = ULSR_LOW | ULSR_DEFAULT | ULSR_HIGH | ULSR_RAW nat

datatype UlsrCallbackStage = STAGE_DONE | STAGE_ENTER

record UlsrCallbackRecord =
  ulsrCallback :: obj
  ulsrRecordPriority :: UlsrPriority
  ulsrPidUid :: "int \<times> int"
  durationMs :: int

record ulsr_state =
  ulsrCallbackHolder :: bool
  callbackState :: UlsrCallbackStage
  ulsrHighCallbacks :: "UlsrCallbackRecord list"
  ulsrDefaultCallbacks :: "UlsrCallbackRecord list"
  ulsrLowCallbacks :: "UlsrCallbackRecord list"
  ulsrResultWaitTaskStart :: bool

record RunningLockInner =
  runningLockParam :: RunningLockParam
  lockState :: RunningLockState
  lockTimeMs :: int

record RunningLockInfo =
  infoName :: string
  infoType :: RunningLockType
  infoBundleName :: string
  infoPid :: int
  infoUid :: int
  infoDisplayId :: nat

type_synonym WksMap = "(int \<times> (string \<times> bool)) list"
type_synonym TokenWorkSourceMap = "(obj \<times> (WksMap \<times> int)) list"

record rlm_state =
  runningLocks :: "(obj \<times> RunningLockInner) list"
  lockCounters :: "RunningLockType \<Rightarrow> uint32 option"
  unSceneLockLists :: "(string \<times> RunningLockInfo) list"
  proxyMap :: "(string \<times> TokenWorkSourceMap) list"
  runningLockCallback :: "obj option"
  runninglockTimerMap :: "(obj \<times> uint32) list"
  handlerTimer :: bool
  proximityEnabled :: bool
  proximityClose :: bool
  proximitySupported :: bool
  callbackManager :: RunningLockCallbackManager

record hib_state =
  hibPrepared :: bool
  hibHighCallbacks :: "obj list"
  hibDefaultCallbacks :: "obj list"
  hibLowCallbacks :: "obj list"
  hibCachedRegister :: "obj \<Rightarrow> (int \<times> int) option"

record ShutdownCallbackHolder =
  highestShutdownCallbacks :: "obj list"
  highShutdownCallbacks :: "obj list"
  defaultShutdownCallbacks :: "obj list"
  lowShutdownCallbacks :: "obj list"
  lowestShutdownCallbacks :: "obj list"
  shutdownCachedRegister :: "obj \<Rightarrow> (int \<times> int) option"

record shut_state =
  takeoverHolder :: ShutdownCallbackHolder
  asyncHolder :: ShutdownCallbackHolder
  syncHolder :: ShutdownCallbackHolder

record WakeupMonitor =
  wmReason :: WakeupDeviceType
  wmKeyId :: int

record wake_state =
  wakeMonitorMap :: "WakeupDeviceType \<Rightarrow> WakeupMonitor option"
  eventHandleMap :: "WakeupDeviceType \<Rightarrow> int option"
  powerkeyShortPressIdCache :: int
  wakeupActionSources :: "string \<Rightarrow> (string \<times> uint32) option"

text \<open>
  The statics of \<open>SettingProvider\<close> and \<open>SettingHelper\<close>, with the observers that the controllers keep in
  globals; an observer is either registered or a null pointer.
\<close>

record stg_state =
  currentUserId :: int
  needMultiUserStrMap :: "(string \<times> string) list"
  doubleClickObserver :: bool
  pickUpObserver :: bool
  powerModeObserver :: bool
  lidObserver :: bool
  duringCallObserver :: bool
  suspendSourcesKeyObserver :: bool
  suspendSourcesKeyAcObserver :: bool
  suspendSourcesKeyDcObserver :: bool
  wakeupSourcesKeyObserver :: bool
  displayOffTimeObserver :: bool
  displayOffTimeAcObserver :: bool
  displayOffTimeDcObserver :: bool
  isFirstSettingUpdated :: bool

text \<open>\<open>PowerModeModule\<close>, \<open>PowerModePolicy\<close> and the configuration that \<open>PowerSaveMode\<close> read.\<close>

record ModePolicy =
  policyId :: nat
  policyValue :: int
  recoverFlag :: int

record pmode_state =
  powerMode :: nat
  powerSubMode :: int
  lastMode :: nat
  modeStarted :: bool
  observerRegisted :: bool
  modeReady :: bool
  autoAdjustBrightnessObserver :: bool
  autoWindowRotationObserver :: bool
  vibratorsStateObserver :: bool
  intellVoiceObserver :: bool
  modeCallbacks :: "obj list"
  modeCachedRegister :: "obj \<Rightarrow> (int \<times> int) option"
  modeSubscriber :: bool
  switchMap :: "(nat \<times> int) list"
  recoverMap :: "(nat \<times> int) list"
  backupMap :: "(nat \<times> int) list"
  policyCache :: "(int \<times> ModePolicy list) list"

text \<open>\<open>ScreenOffPreController\<close> and the screen saver.\<close>

record pre_state =
  preRemainTime :: int
  preRegistered :: bool
  preCallbacks :: "obj list"
  eyeDetectHandle :: "handle option"
  preQueue :: bool

record saver_state =
  saverManager :: bool
  plugStatus :: int
  screenSaverHandle :: "handle option"
  currentSettingTime :: int
  acScreenSaverTimeObserver :: bool
  dcScreenSaverTimeObserver :: bool

text \<open>
  \<open>ShutdownDialog\<close> with the globals of its file; the flag \<open>g_longPressShow\<close>, which the service reads, is
  \<open>longPressFlag\<close> of the service.  \<open>VibratorSource\<close> is a scene of \<open>PowerVibrator\<close>.
\<close>

record VibratorSource =
  vibScene :: string
  vibEnable :: bool
  vibType :: string

record dialog_state =
  longPressId :: int
  isDialogShow :: bool
  dialogRetryCount :: int
  dialogRemote :: "obj option"
  dialogBundle :: string
  dialogAbility :: string
  uiExtensionType :: string
  systemBundle :: string
  systemAbility :: string

text \<open>\<open>shuttingDown\<close> is \<open>started_\<close> of the shutdown controller.\<close>

record svc_state =
  bootCompleted :: bool
  hibernateEnable :: bool
  isInLidMode :: bool
  lidCheckEnable :: bool
  duringCallStateEnable :: bool
  longPressFlag :: bool
  shuttingDown :: bool
  powerConnectStatus :: int
  powerkeyBlockedFoldMode :: int
  monitorState :: PowerState
  monitorId :: int
  shutdownDialogForbid :: bool
  lockScreenHelper :: MultiInvokerHelper
  forceTimingOutInvoker :: "obj option"
  inputMonitorId :: int
  pickUpOpen :: bool
  keepOnToken :: "obj option"
  externalScreenListener :: bool
  abnormalExScreenListener :: bool
  isExternalScreenWakeup :: bool
  commonEventSubscriber :: bool
  lockEventSubscriber :: bool
  switchSubscriberId :: int
  serviceReady :: bool
  needReInit :: bool
  displayManagerServiceCrash :: bool
  hdiRemoved :: bool
  foldScreen :: bool
  dialog :: dialog_state
  vibratorSources :: "VibratorSource list"
  clientDeathRecipientMap :: "obj \<Rightarrow> (string \<times> (int \<times> int)) list option"

record ptrs_state =
  pms :: bool
  pmsWeak :: bool
  psmTimer :: bool
  suspTimer :: bool
  lockTimer :: bool
  stateAction :: bool
  suspendController :: bool
  wakeupController :: bool
  runningLockMgr :: bool
  powerMgrNotify :: bool
  screenCommonEventController :: bool
  customizedEventController :: bool
  suspStateMachine :: bool
  screenOffPreController :: bool
  powerScreenSaver :: bool
  hibernateController :: bool
  shutdownController :: bool
  powerModePolicy :: bool
  devicePowerAction :: bool
  wakeupActionController :: bool

record world =
  psm :: psm_state
  act :: action_state
  susp :: susp_state
  rlm :: rlm_state
  hib :: hib_state
  shut :: shut_state
  wake :: wake_state
  ulsr :: ulsr_state
  stg :: stg_state
  pmode :: pmode_state
  pre :: pre_state
  saver :: saver_state
  svc :: svc_state
  ptrs :: ptrs_state
  timers :: "TimerInstance \<Rightarrow> FFRTTimer"
  curTask :: "handle option"
  trace :: "ext_call list"

type_synonym 'a M = "(world, 'a) state"

section \<open>Access to the components\<close>

definition log_call :: "ext_call \<Rightarrow> unit M" where
  "log_call c = modify (\<lambda>w. w\<lparr>trace := c # trace w\<rparr>)"

definition ask_bool :: "env \<Rightarrow> ext_call \<Rightarrow> bool M" where
  "ask_bool E c = do { r \<leftarrow> gets (\<lambda>w. extBool E c (trace w)); log_call c; State_Monad.return r }"

definition ask_int :: "env \<Rightarrow> ext_call \<Rightarrow> int M" where
  "ask_int E c = do { r \<leftarrow> gets (\<lambda>w. extInt E c (trace w)); log_call c; State_Monad.return r }"

definition ask_string :: "env \<Rightarrow> ext_call \<Rightarrow> string M" where
  "ask_string E c = do { r \<leftarrow> gets (\<lambda>w. extString E c (trace w)); log_call c; State_Monad.return r }"

definition GetTickCount :: "env \<Rightarrow> int M" where
  "GetTickCount E = ask_int E GetTick"

definition mod_psm :: "(psm_state \<Rightarrow> psm_state) \<Rightarrow> unit M" where
  "mod_psm f = modify (\<lambda>w. w\<lparr>psm := f (psm w)\<rparr>)"

definition mod_act :: "(action_state \<Rightarrow> action_state) \<Rightarrow> unit M" where
  "mod_act f = modify (\<lambda>w. w\<lparr>act := f (act w)\<rparr>)"

definition mod_susp :: "(susp_state \<Rightarrow> susp_state) \<Rightarrow> unit M" where
  "mod_susp f = modify (\<lambda>w. w\<lparr>susp := f (susp w)\<rparr>)"

definition mod_rlm :: "(rlm_state \<Rightarrow> rlm_state) \<Rightarrow> unit M" where
  "mod_rlm f = modify (\<lambda>w. w\<lparr>rlm := f (rlm w)\<rparr>)"

definition mod_hib :: "(hib_state \<Rightarrow> hib_state) \<Rightarrow> unit M" where
  "mod_hib f = modify (\<lambda>w. w\<lparr>hib := f (hib w)\<rparr>)"

definition mod_shut :: "(shut_state \<Rightarrow> shut_state) \<Rightarrow> unit M" where
  "mod_shut f = modify (\<lambda>w. w\<lparr>shut := f (shut w)\<rparr>)"

definition mod_wake :: "(wake_state \<Rightarrow> wake_state) \<Rightarrow> unit M" where
  "mod_wake f = modify (\<lambda>w. w\<lparr>wake := f (wake w)\<rparr>)"

definition mod_ulsr :: "(ulsr_state \<Rightarrow> ulsr_state) \<Rightarrow> unit M" where
  "mod_ulsr f = modify (\<lambda>w. w\<lparr>ulsr := f (ulsr w)\<rparr>)"

definition mod_stg :: "(stg_state \<Rightarrow> stg_state) \<Rightarrow> unit M" where
  "mod_stg f = modify (\<lambda>w. w\<lparr>stg := f (stg w)\<rparr>)"

definition mod_pre :: "(pre_state \<Rightarrow> pre_state) \<Rightarrow> unit M" where
  "mod_pre f = modify (\<lambda>w. w\<lparr>pre := f (pre w)\<rparr>)"

definition mod_saver :: "(saver_state \<Rightarrow> saver_state) \<Rightarrow> unit M" where
  "mod_saver f = modify (\<lambda>w. w\<lparr>saver := f (saver w)\<rparr>)"

definition mod_pmode :: "(pmode_state \<Rightarrow> pmode_state) \<Rightarrow> unit M" where
  "mod_pmode f = modify (\<lambda>w. w\<lparr>pmode := f (pmode w)\<rparr>)"

definition mod_svc :: "(svc_state \<Rightarrow> svc_state) \<Rightarrow> unit M" where
  "mod_svc f = modify (\<lambda>w. w\<lparr>svc := f (svc w)\<rparr>)"

definition mod_timer :: "TimerInstance \<Rightarrow> (FFRTTimer \<Rightarrow> FFRTTimer) \<Rightarrow> unit M" where
  "mod_timer i f = modify (\<lambda>w. w\<lparr>timers := (timers w)(i := f (timers w i))\<rparr>)"

definition mod_ptrs :: "(ptrs_state \<Rightarrow> ptrs_state) \<Rightarrow> unit M" where
  "mod_ptrs f = modify (\<lambda>w. w\<lparr>ptrs := f (ptrs w)\<rparr>)"

lemmas access_defs =
  log_call_def ask_bool_def ask_int_def ask_string_def GetTickCount_def
  mod_psm_def mod_act_def mod_susp_def mod_rlm_def mod_hib_def mod_shut_def mod_wake_def mod_ulsr_def mod_stg_def mod_pmode_def mod_pre_def mod_saver_def mod_svc_def mod_timer_def mod_ptrs_def

lemma wp_log_call [wp_simps]: "wp (log_call c) Q w = Q () (w\<lparr>trace := c # trace w\<rparr>)"
  by (simp add: log_call_def wp_simps)

lemma wp_ask_bool [wp_simps]:
  "wp (ask_bool E c) Q w = Q (extBool E c (trace w)) (w\<lparr>trace := c # trace w\<rparr>)"
  by (simp add: ask_bool_def wp_simps)

lemma wp_ask_int [wp_simps]:
  "wp (ask_int E c) Q w = Q (extInt E c (trace w)) (w\<lparr>trace := c # trace w\<rparr>)"
  by (simp add: ask_int_def wp_simps)

lemma wp_GetTickCount [wp_simps]:
  "wp (GetTickCount E) Q w = Q (extInt E GetTick (trace w)) (w\<lparr>trace := GetTick # trace w\<rparr>)"
  by (simp add: GetTickCount_def wp_simps)

lemma wp_mod [wp_simps]:
  "wp (mod_psm f1) Q w = Q () (w\<lparr>psm := f1 (psm w)\<rparr>)"
  "wp (mod_act f2) Q w = Q () (w\<lparr>act := f2 (act w)\<rparr>)"
  "wp (mod_susp f3) Q w = Q () (w\<lparr>susp := f3 (susp w)\<rparr>)"
  "wp (mod_rlm f4) Q w = Q () (w\<lparr>rlm := f4 (rlm w)\<rparr>)"
  "wp (mod_svc f5) Q w = Q () (w\<lparr>svc := f5 (svc w)\<rparr>)"
  "wp (mod_hib f8) Q w = Q () (w\<lparr>hib := f8 (hib w)\<rparr>)"
  "wp (mod_shut f9) Q w = Q () (w\<lparr>shut := f9 (shut w)\<rparr>)"
  "wp (mod_wake f10) Q w = Q () (w\<lparr>wake := f10 (wake w)\<rparr>)"
  "wp (mod_ulsr f11) Q w = Q () (w\<lparr>ulsr := f11 (ulsr w)\<rparr>)"
  "wp (mod_ptrs f6) Q w = Q () (w\<lparr>ptrs := f6 (ptrs w)\<rparr>)"
  "wp (mod_timer i f7) Q w = Q () (w\<lparr>timers := (timers w)(i := f7 (timers w i))\<rparr>)"
  by (simp_all add: access_defs wp_simps)

section \<open>Frames of the components\<close>

text \<open>
  \<open>ig_c f\<close>: the observation \<open>f\<close> does not depend on component \<open>c\<close>.  A method that writes only
  some components keeps every observation that ignores them.
\<close>

definition ig_psm :: "(world \<Rightarrow> 'b) \<Rightarrow> bool" where
  "ig_psm f = (\<forall>w x. f (w\<lparr>psm := x\<rparr>) = f w)"

definition ig_act :: "(world \<Rightarrow> 'b) \<Rightarrow> bool" where
  "ig_act f = (\<forall>w x. f (w\<lparr>act := x\<rparr>) = f w)"

text \<open>
  For the suspend controller: the fields of the pending sleep and the force-sleep flags, and the ULSR
  state that its wakeup callbacks touch.
\<close>

definition ig_susp :: "(world \<Rightarrow> 'b) \<Rightarrow> bool" where
  "ig_susp f = ((\<forall>w x. f (w\<lparr>susp := (susp w)\<lparr>sleepTime := x\<rparr>\<rparr>) = f w) \<and>
    (\<forall>w x. f (w\<lparr>susp := (susp w)\<lparr>sleepAction := x\<rparr>\<rparr>) = f w) \<and>
    (\<forall>w x. f (w\<lparr>susp := (susp w)\<lparr>onForceSleep := x\<rparr>\<rparr>) = f w) \<and>
    (\<forall>w x. f (w\<lparr>susp := (susp w)\<lparr>forceSleeping := x\<rparr>\<rparr>) = f w) \<and>
    (\<forall>w a b c d e. f (w\<lparr>susp := (susp w)\<lparr>sleepTime := a, sleepReason := b, sleepAction := c,
       sleepDuration := d, sleepType := e\<rparr>\<rparr>) = f w) \<and>
    (\<forall>w x. f (w\<lparr>ulsr := x\<rparr>) = f w))"

definition ig_susp_all :: "(world \<Rightarrow> 'b) \<Rightarrow> bool" where
  "ig_susp_all f = (\<forall>w x. f (w\<lparr>susp := x\<rparr>) = f w)"

definition ig_rlm :: "(world \<Rightarrow> 'b) \<Rightarrow> bool" where
  "ig_rlm f = (\<forall>w x. f (w\<lparr>rlm := x\<rparr>) = f w)"

definition ig_hib :: "(world \<Rightarrow> 'b) \<Rightarrow> bool" where
  "ig_hib f = (\<forall>w x. f (w\<lparr>hib := x\<rparr>) = f w)"

definition ig_shut :: "(world \<Rightarrow> 'b) \<Rightarrow> bool" where
  "ig_shut f = (\<forall>w x. f (w\<lparr>shut := x\<rparr>) = f w)"

definition ig_wake :: "(world \<Rightarrow> 'b) \<Rightarrow> bool" where
  "ig_wake f = (\<forall>w x. f (w\<lparr>wake := x\<rparr>) = f w)"

definition ig_svc :: "(world \<Rightarrow> 'b) \<Rightarrow> bool" where
  "ig_svc f = (\<forall>w x. f (w\<lparr>svc := x\<rparr>) = f w)"

definition ig_ptrs :: "(world \<Rightarrow> 'b) \<Rightarrow> bool" where
  "ig_ptrs f = (\<forall>w x. f (w\<lparr>ptrs := x\<rparr>) = f w)"

text \<open>The screen-off warning keeps the handle of its own timer.\<close>

definition ig_timers :: "(world \<Rightarrow> 'b) \<Rightarrow> bool" where
  "ig_timers f = ((\<forall>w x. f (w\<lparr>timers := x\<rparr>) = f w) \<and> (\<forall>w x. f (w\<lparr>pre := x\<rparr>) = f w))"

definition ig_trace :: "(world \<Rightarrow> 'b) \<Rightarrow> bool" where
  "ig_trace f = (\<forall>w x. f (w\<lparr>trace := x\<rparr>) = f w)"

lemmas ig_defs = ig_psm_def ig_act_def ig_susp_def ig_rlm_def ig_hib_def ig_shut_def ig_wake_def
  ig_svc_def ig_ptrs_def ig_timers_def ig_trace_def

lemma keeps_mod_psm [keeps_intros]: "(\<And>w. f (w\<lparr>psm := g (psm w)\<rparr>) = f w) \<Longrightarrow> keeps f (mod_psm g)"
  by (simp add: mod_psm_def keeps_def)

lemma keeps_mod_act [keeps_intros]: "(\<And>w. f (w\<lparr>act := g (act w)\<rparr>) = f w) \<Longrightarrow> keeps f (mod_act g)"
  by (simp add: mod_act_def keeps_def)

lemma keeps_mod_susp [keeps_intros]: "(\<And>w. f (w\<lparr>susp := g (susp w)\<rparr>) = f w) \<Longrightarrow> keeps f (mod_susp g)"
  by (simp add: mod_susp_def keeps_def)

lemma keeps_mod_rlm [keeps_intros]: "(\<And>w. f (w\<lparr>rlm := g (rlm w)\<rparr>) = f w) \<Longrightarrow> keeps f (mod_rlm g)"
  by (simp add: mod_rlm_def keeps_def)

lemma keeps_mod_hib [keeps_intros]: "(\<And>w. f (w\<lparr>hib := g (hib w)\<rparr>) = f w) \<Longrightarrow> keeps f (mod_hib g)"
  by (simp add: mod_hib_def keeps_def)

lemma keeps_mod_shut [keeps_intros]: "(\<And>w. f (w\<lparr>shut := g (shut w)\<rparr>) = f w) \<Longrightarrow> keeps f (mod_shut g)"
  by (simp add: mod_shut_def keeps_def)

lemma keeps_mod_wake [keeps_intros]: "(\<And>w. f (w\<lparr>wake := g (wake w)\<rparr>) = f w) \<Longrightarrow> keeps f (mod_wake g)"
  by (simp add: mod_wake_def keeps_def)

lemma keeps_mod_ulsr [keeps_intros]: "(\<And>w. f (w\<lparr>ulsr := g (ulsr w)\<rparr>) = f w) \<Longrightarrow> keeps f (mod_ulsr g)"
  by (simp add: mod_ulsr_def keeps_def)

lemma keeps_mod_stg [keeps_intros]: "(\<And>w. f (w\<lparr>stg := g (stg w)\<rparr>) = f w) \<Longrightarrow> keeps f (mod_stg g)"
  by (simp add: mod_stg_def keeps_def)

lemma keeps_mod_pmode [keeps_intros]: "(\<And>w. f (w\<lparr>pmode := g (pmode w)\<rparr>) = f w) \<Longrightarrow> keeps f (mod_pmode g)"
  by (simp add: mod_pmode_def keeps_def)

lemma keeps_mod_pre [keeps_intros]: "(\<And>w. f (w\<lparr>pre := g (pre w)\<rparr>) = f w) \<Longrightarrow> keeps f (mod_pre g)"
  by (simp add: mod_pre_def keeps_def)

lemma keeps_mod_saver [keeps_intros]: "(\<And>w. f (w\<lparr>saver := g (saver w)\<rparr>) = f w) \<Longrightarrow> keeps f (mod_saver g)"
  by (simp add: mod_saver_def keeps_def)

lemma keeps_mod_svc [keeps_intros]: "(\<And>w. f (w\<lparr>svc := g (svc w)\<rparr>) = f w) \<Longrightarrow> keeps f (mod_svc g)"
  by (simp add: mod_svc_def keeps_def)

lemma keeps_mod_ptrs [keeps_intros]: "(\<And>w. f (w\<lparr>ptrs := g (ptrs w)\<rparr>) = f w) \<Longrightarrow> keeps f (mod_ptrs g)"
  by (simp add: mod_ptrs_def keeps_def)

lemma keeps_mod_timer [keeps_intros]: "ig_timers f \<Longrightarrow> keeps f (mod_timer i g)"
  by (simp add: mod_timer_def keeps_def ig_defs)

text \<open>
  The calls that change what the user or the hardware sees: switching the display and suspending or
  hibernating the system.  \<open>ig_quiet f\<close>: the observation \<open>f\<close> may look at those calls, but at no other
  part of the trace.
\<close>

fun is_effect :: "ext_call \<Rightarrow> bool" where
  "is_effect (Display (DpmSetDisplayState _ _)) = True"
| "is_effect (Driver HdiStartSuspend) = True"
| "is_effect (Driver HdiForceSuspend) = True"
| "is_effect (Driver (HdiForceSuspendEx _ _)) = True"
| "is_effect (Driver HdiHibernate) = True"
| "is_effect _ = False"

definition effects :: "world \<Rightarrow> ext_call list" where
  "effects w = filter is_effect (trace w)"

definition ig_quiet :: "(world \<Rightarrow> 'b) \<Rightarrow> bool" where
  "ig_quiet f = (\<forall>w c. \<not> is_effect c \<longrightarrow> f (w\<lparr>trace := c # trace w\<rparr>) = f w)"

lemma ig_trace_app: "ig_trace f \<Longrightarrow> f (w\<lparr>trace := x\<rparr>) = f w"
  by (simp add: ig_defs)

lemma ig_quiet_app: "ig_quiet f \<Longrightarrow> \<not> is_effect c \<Longrightarrow> f (w\<lparr>trace := c # trace w\<rparr>) = f w"
  by (simp add: ig_quiet_def)

lemma ig_trace_quiet: "ig_trace f \<Longrightarrow> ig_quiet f"
  by (simp add: ig_defs ig_quiet_def)

lemma ig_quiet_effects: "ig_quiet effects"
  by (simp add: ig_quiet_def effects_def)

lemma ig_effects: "ig_psm effects" "ig_act effects" "ig_susp effects" "ig_rlm effects"
  "ig_hib effects" "ig_shut effects" "ig_wake effects" "ig_svc effects" "ig_ptrs effects" "ig_timers effects"
  by (simp_all add: ig_defs effects_def)

lemmas trace_app = ig_trace_app ig_quiet_app ig_trace_quiet

lemma keeps_log_call [keeps_intros]:
  "(\<And>w. f (w\<lparr>trace := c # trace w\<rparr>) = f w) \<Longrightarrow> keeps f (log_call c)"
  by (simp add: log_call_def keeps_def)

lemma keeps_ask_bool [keeps_intros]:
  "(\<And>w. f (w\<lparr>trace := c # trace w\<rparr>) = f w) \<Longrightarrow> keeps f (ask_bool E c)"
  by (auto simp: ask_bool_def intro!: keeps_intros)

lemma keeps_ask_int [keeps_intros]:
  "(\<And>w. f (w\<lparr>trace := c # trace w\<rparr>) = f w) \<Longrightarrow> keeps f (ask_int E c)"
  by (auto simp: ask_int_def intro!: keeps_intros)

lemma keeps_ask_string [keeps_intros]:
  "(\<And>w. f (w\<lparr>trace := c # trace w\<rparr>) = f w) \<Longrightarrow> keeps f (ask_string E c)"
  by (auto simp: ask_string_def intro!: keeps_intros)

lemma keeps_GetTickCount [keeps_intros]: "ig_quiet f \<Longrightarrow> keeps f (GetTickCount E)"
  by (auto simp: GetTickCount_def trace_app intro!: keeps_intros)

end
