(* ===== verification/Ffrt_Timer.thy ===== *)
theory Ffrt_Timer
  imports World
begin

text \<open>
  \<open>FFRTTimer\<close> of \<open>utils/ffrt/src/ffrt_utils.cpp\<close>: named one-shot timers over a task queue.  For each
  timer id the object keeps the handle of the task it submitted last (\<open>nullptr\<close>, here \<open>None\<close>, when
  there is none) and a counter of submissions.  The queue is outside the repository: submission
  answers with a handle, cancellation is recorded in the trace.

  The contract the rest of the service relies on is the locale \<open>one_shot_timer\<close>: after
  \<open>SetTimer\<close> exactly the new task is current for its id, after \<open>CancelTimer\<close> none is, and no other
  id is affected.
\<close>

section \<open>Operations\<close>

definition CancelTask :: "TimerInstance \<Rightarrow> handle \<Rightarrow> unit M" where
  "CancelTask i h = log_call (Queue (QueueCancel i h))"

definition SubmitDelayTask :: "env \<Rightarrow> TimerInstance \<Rightarrow> task \<Rightarrow> uint32 \<Rightarrow> handle option M" where
  "SubmitDelayTask E i task delayMs = do {
     h \<leftarrow> gets (\<lambda>w. extHandle E task (trace w));
     log_call (Queue (QueueSubmit i task delayMs));
     State_Monad.return h }"

definition CancelTimerInner :: "TimerInstance \<Rightarrow> FFRTTimerId \<Rightarrow> unit M" where
  "CancelTimerInner i timerId = do {
     h \<leftarrow> gets (\<lambda>w. handleMap (timers w i) timerId);
     case h of
       None \<Rightarrow> skip
     | Some x \<Rightarrow> do {
         CancelTask i x;
         mod_timer i (\<lambda>t. t\<lparr>handleMap := (handleMap t)(timerId := None)\<rparr>) } }"

definition all_timer_ids :: "FFRTTimerId list" where
  "all_timer_ids =
    [TIMER_ID_SLEEP, TIMER_ID_USER_ACTIVITY_OFF, TIMER_ID_USER_ACTIVITY_TIMEOUT,
     TIMER_ID_SCREEN_TIMEOUT_CHECK, TIMER_ID_PRE_BRIGHT_AUTH, TIMER_ID_PROXIMITY_SCREEN_OFF,
     TIMER_ID_PROXIMITY_SCREEN_SWITCH_TO_SUB, TIMER_ID_AUTO_SLEEP, TIMER_ID_FORCE_RELEASE_LOCK,
     TIMER_ID_ULSR]"

definition CancelAllTimerInner :: "TimerInstance \<Rightarrow> unit M" where
  "CancelAllTimerInner i = for_each (CancelTimerInner i) all_timer_ids"

definition Clear :: "TimerInstance \<Rightarrow> unit M" where
  "Clear i = do {
     CancelAllTimerInner i;
     mod_timer i (\<lambda>t. t\<lparr>handleMap := (\<lambda>_. None)\<rparr>);
     mod_timer i (\<lambda>t. t\<lparr>taskId := (\<lambda>_. 0)\<rparr>) }"

definition CancelAllTimer :: "TimerInstance \<Rightarrow> unit M" where
  "CancelAllTimer i = CancelAllTimerInner i"

definition CancelTimer :: "TimerInstance \<Rightarrow> FFRTTimerId \<Rightarrow> unit M" where
  "CancelTimer i timerId = CancelTimerInner i timerId"

definition SetTimer :: "env \<Rightarrow> TimerInstance \<Rightarrow> FFRTTimerId \<Rightarrow> task \<Rightarrow> uint32 \<Rightarrow> unit M" where
  "SetTimer E i timerId task delayMs = do {
     CancelTimerInner i timerId;
     mod_timer i (\<lambda>t. t\<lparr>taskId := (taskId t)(timerId := taskId t timerId + 1)\<rparr>);
     h \<leftarrow> SubmitDelayTask E i task delayMs;
     mod_timer i (\<lambda>t. t\<lparr>handleMap := (handleMap t)(timerId := h)\<rparr>) }"

definition GetTaskId :: "TimerInstance \<Rightarrow> FFRTTimerId \<Rightarrow> uint32 M" where
  "GetTaskId i timerId = gets (\<lambda>w. taskId (timers w i) timerId)"

definition GetTaskHandlePtr :: "TimerInstance \<Rightarrow> FFRTTimerId \<Rightarrow> handle option M" where
  "GetTaskHandlePtr i timerId = gets (\<lambda>w. handleMap (timers w i) timerId)"

section \<open>Frames\<close>

lemma keeps_CancelTimerInner [keeps_intros]:
  "ig_timers f \<Longrightarrow> ig_quiet f \<Longrightarrow> keeps f (CancelTimerInner i t)"
  by (auto simp: CancelTimerInner_def CancelTask_def trace_app intro!: keeps_intros)

lemma keeps_CancelTimer [keeps_intros]:
  "ig_timers f \<Longrightarrow> ig_quiet f \<Longrightarrow> keeps f (CancelTimer i t)"
  by (auto simp: CancelTimer_def intro!: keeps_intros)

lemma keeps_SetTimer [keeps_intros]:
  "ig_timers f \<Longrightarrow> ig_quiet f \<Longrightarrow> keeps f (SetTimer E i t task d)"
  by (auto simp: SetTimer_def SubmitDelayTask_def trace_app intro!: keeps_intros)

lemma keeps_CancelAllTimer [keeps_intros]:
  "ig_timers f \<Longrightarrow> ig_quiet f \<Longrightarrow> keeps f (CancelAllTimer i)"
  by (auto simp: CancelAllTimer_def CancelAllTimerInner_def intro!: keeps_intros)

lemma keeps_Clear [keeps_intros]:
  "ig_timers f \<Longrightarrow> ig_quiet f \<Longrightarrow> keeps f (Clear i)"
  by (auto simp: Clear_def CancelAllTimerInner_def intro!: keeps_intros)

section \<open>Effect on the handles\<close>

lemma exec_CancelTimerInner:
  "exec (CancelTimerInner i t) w =
    (case handleMap (timers w i) t of
       None \<Rightarrow> w
     | Some h \<Rightarrow> w\<lparr>timers := (timers w)(i := (timers w i)\<lparr>handleMap := (handleMap (timers w i))(t := None)\<rparr>),
                   trace := Queue (QueueCancel i h) # trace w\<rparr>)"
  by (simp add: CancelTimerInner_def CancelTask_def access_defs split: option.split)

lemma CancelTimer_handle [simp]:
  "handleMap (timers (exec (CancelTimer i t) w) j) u =
    (if j = i \<and> u = t then None else handleMap (timers w j) u)"
  by (auto simp: CancelTimer_def exec_CancelTimerInner split: option.split)

lemma result_SubmitDelayTask [simp]:
  "result (SubmitDelayTask E i task d) w = extHandle E task (trace w)"
  by (simp add: SubmitDelayTask_def access_defs)

lemma SetTimer_handle_other [simp]:
  "\<not> (j = i \<and> u = t) \<Longrightarrow>
    handleMap (timers (exec (SetTimer E i t task d) w) j) u = handleMap (timers w j) u"
  by (auto simp: SetTimer_def SubmitDelayTask_def access_defs exec_CancelTimerInner split: option.split)

lemma SetTimer_handle_self [simp]:
  "handleMap (timers (exec (SetTimer E i t task d) w) i) t =
    extHandle E task
      (case handleMap (timers w i) t of None \<Rightarrow> trace w | Some h \<Rightarrow> Queue (QueueCancel i h) # trace w)"
  by (auto simp: SetTimer_def SubmitDelayTask_def access_defs exec_CancelTimerInner split: option.split)

lemma SetTimer_taskId [simp]:
  "taskId (timers (exec (SetTimer E i t task d) w) j) u =
    taskId (timers w j) u + (if j = i \<and> u = t then 1 else 0)"
  by (auto simp: SetTimer_def SubmitDelayTask_def access_defs exec_CancelTimerInner split: option.split)

lemma SetTimer_trace:
  "trace (exec (SetTimer E i t task d) w) =
    Queue (QueueSubmit i task d) #
      (case handleMap (timers w i) t of None \<Rightarrow> trace w | Some h \<Rightarrow> Queue (QueueCancel i h) # trace w)"
  by (auto simp: SetTimer_def SubmitDelayTask_def access_defs exec_CancelTimerInner split: option.split)

lemma for_each_CancelTimerInner_handle:
  "handleMap (timers (exec (for_each (CancelTimerInner i) ts) w) j) u =
    (if j = i \<and> u \<in> set ts then None else handleMap (timers w j) u)"
proof (induction ts arbitrary: w)
  case (Cons t ts)
  then show ?case
    using CancelTimer_handle [of i t w] by (auto simp: CancelTimer_def)
qed simp

lemma all_timer_ids_complete: "t \<in> set all_timer_ids"
  by (cases t) (simp_all add: all_timer_ids_def)

lemma CancelAllTimer_handle [simp]:
  "handleMap (timers (exec (CancelAllTimer i) w) j) u =
    (if j = i then None else handleMap (timers w j) u)"
  by (simp add: CancelAllTimer_def CancelAllTimerInner_def for_each_CancelTimerInner_handle
      all_timer_ids_complete)

lemma Clear_state:
  "timers (exec (Clear i) w) i = \<lparr>handleMap = (\<lambda>_. None), taskId = (\<lambda>_. 0)\<rparr>"
  by (simp add: Clear_def access_defs)

section \<open>The contract\<close>

locale one_shot_timer =
  fixes set_timer :: "'id \<Rightarrow> 'task \<Rightarrow> 's \<Rightarrow> 's"
    and cancel_timer :: "'id \<Rightarrow> 's \<Rightarrow> 's"
    and pending :: "'s \<Rightarrow> 'id \<Rightarrow> 'h option"
    and issue :: "'task \<Rightarrow> 'id \<Rightarrow> 's \<Rightarrow> 'h option"
  assumes pending_set: "pending (set_timer t k s) t = issue k t s"
    and pending_set_other: "u \<noteq> t \<Longrightarrow> pending (set_timer t k s) u = pending s u"
    and pending_cancel: "pending (cancel_timer t s) t = None"
    and pending_cancel_other: "u \<noteq> t \<Longrightarrow> pending (cancel_timer t s) u = pending s u"
begin

definition live :: "'s \<Rightarrow> 'h \<Rightarrow> 'id \<Rightarrow> bool" where
  "live s h t = (pending s t = Some h)"

lemma live_unique: "live s h t \<Longrightarrow> live s h' t \<Longrightarrow> h = h'"
  by (simp add: live_def)

lemma cancelled_not_live: "\<not> live (cancel_timer t s) h t"
  by (simp add: live_def pending_cancel)

lemma replaced_not_live: "live (set_timer t k s) h t \<Longrightarrow> issue k t s = Some h"
  by (simp add: live_def pending_set)

lemma set_after_cancel_live:
  "u \<noteq> t \<Longrightarrow> live (set_timer t k (cancel_timer u s)) h u \<Longrightarrow> False"
  by (simp add: live_def pending_set_other pending_cancel)

lemma cancel_all_none_live:
  "t \<in> set ts \<Longrightarrow> \<not> live (fold cancel_timer ts s) h t"
proof (induction ts arbitrary: s)
  case (Cons u ts)
  have stays: "pending s' t = None \<Longrightarrow> pending (fold cancel_timer us s') t = None" for us s'
    by (induction us arbitrary: s') (simp, metis fold_simps(2) pending_cancel pending_cancel_other)
  show ?case
    using Cons stays by (cases "t = u") (auto simp: live_def pending_cancel)
qed simp

end

definition issued_handle :: "env \<Rightarrow> TimerInstance \<Rightarrow> (task \<times> uint32) \<Rightarrow> FFRTTimerId \<Rightarrow> world \<Rightarrow> handle option" where
  "issued_handle E i k t w =
    extHandle E (fst k)
      (case handleMap (timers w i) t of None \<Rightarrow> trace w | Some h \<Rightarrow> Queue (QueueCancel i h) # trace w)"

interpretation ffrt: one_shot_timer
  "\<lambda>t k. exec (SetTimer E i t (fst k) (snd k))" "\<lambda>t. exec (CancelTimer i t)"
  "\<lambda>w. handleMap (timers w i)" "issued_handle E i" for E i
  by unfold_locales (auto simp: issued_handle_def)

end
