(* ===== verification/Ulsr.thy ===== *)
theory Ulsr
  imports Ffrt_Timer
begin

text \<open>
  The callbacks around an ultra-low-power suspend (ULSR): \<open>UlsrCallbackHolder\<close>
  (\<open>services/native/src/ulsr/ulsr_callback_holder.cpp\<close>) and the functions of \<open>power_mgr_service.cpp\<close>
  that trigger it.  Clients are told when the device is about to enter ULSR and, later, that it has
  left it; the holder's stage sees to it that the two kinds of notification alternate.

  The three unordered maps are lists of records, a new record at the end.  \<open>SyncUlsrNotify\<close> waits at
  most thirty seconds for a thread that calls the clients; when it gives up, the clients called so
  far are a first part of them, and as the thread has then used up its own thirty seconds it calls no further one.
\<close>

section \<open>The holder\<close>

definition all_records :: "ulsr_state \<Rightarrow> UlsrCallbackRecord list" where
  "all_records u = ulsrHighCallbacks u @ ulsrDefaultCallbacks u @ ulsrLowCallbacks u"

definition map_containers ::
  "(UlsrCallbackRecord list \<Rightarrow> UlsrCallbackRecord list) \<Rightarrow> ulsr_state \<Rightarrow> ulsr_state" where
  "map_containers f u = u\<lparr>ulsrHighCallbacks := f (ulsrHighCallbacks u),
     ulsrDefaultCallbacks := f (ulsrDefaultCallbacks u), ulsrLowCallbacks := f (ulsrLowCallbacks u)\<rparr>"

definition Ulsr_AddCallback :: "obj option \<Rightarrow> int \<times> int \<Rightarrow> UlsrPriority \<Rightarrow> unit M" where
  "Ulsr_AddCallback callback pidUid priority = (case callback of
     None \<Rightarrow> skip
   | Some c \<Rightarrow> do {
       u \<leftarrow> gets ulsr;
       let record = \<lparr>ulsrCallback = c, ulsrRecordPriority = priority, ulsrPidUid = pidUid, durationMs = -1\<rparr> in
       if c \<in> ulsrCallback ` set (all_records u) then skip
       else (case priority of
           ULSR_HIGH \<Rightarrow> do {
             mod_ulsr (\<lambda>u. u\<lparr>ulsrHighCallbacks := ulsrHighCallbacks u @ [record]\<rparr>);
             log_call (Callback (AddDeathRecipient c)) }
         | ULSR_DEFAULT \<Rightarrow> do {
             mod_ulsr (\<lambda>u. u\<lparr>ulsrDefaultCallbacks := ulsrDefaultCallbacks u @ [record]\<rparr>);
             log_call (Callback (AddDeathRecipient c)) }
         | ULSR_LOW \<Rightarrow> do {
             mod_ulsr (\<lambda>u. u\<lparr>ulsrLowCallbacks := ulsrLowCallbacks u @ [record]\<rparr>);
             log_call (Callback (AddDeathRecipient c)) }
         | ULSR_RAW _ \<Rightarrow> skip) })"

definition Ulsr_RemoveCallback :: "obj option \<Rightarrow> unit M" where
  "Ulsr_RemoveCallback callback = (case callback of
     None \<Rightarrow> skip
   | Some c \<Rightarrow> do {
       mod_ulsr (map_containers (filter (\<lambda>r. ulsrCallback r \<noteq> c)));
       log_call (Callback (RemoveDeathRecipient c)) })"

definition Ulsr_OnRemoteDied :: "obj option \<Rightarrow> unit M" where
  "Ulsr_OnRemoteDied object = Ulsr_RemoveCallback object"

definition ULSR_SYNC_CALLBACK_TIMEOUT_MS :: int where "ULSR_SYNC_CALLBACK_TIMEOUT_MS = 30000"

text \<open>
  One pass over the records in order of priority.  The passes over the three containers are one,
  since a container is skipped under the same condition as a record.
\<close>

primrec SyncUlsrNotifyInner :: "env \<Rightarrow> obj list \<Rightarrow> int \<Rightarrow> int M" where
  "SyncUlsrNotifyInner E [] budget = State_Monad.return budget"
| "SyncUlsrNotifyInner E (c # cs) budget =
    (if budget \<le> 0 then State_Monad.return budget
     else do {
       cbBegin \<leftarrow> GetTickCount E;
       log_call (Callback (OnSyncUlsr c));
       cbEnd \<leftarrow> GetTickCount E;
       mod_ulsr (map_containers (map (\<lambda>r. if ulsrCallback r = c
         then r\<lparr>durationMs := sint (word_of_int (cbEnd - cbBegin) :: 32 word)\<rparr> else r)));
       SyncUlsrNotifyInner E cs (wrap64 (budget - wrap64 (cbEnd - cbBegin))) })"

definition SyncUlsrNotify :: "env \<Rightarrow> bool M" where
  "SyncUlsrNotify E = do {
     u \<leftarrow> gets ulsr;
     if callbackState u \<noteq> STAGE_DONE then State_Monad.return False
     else do {
       mod_ulsr (\<lambda>u. u\<lparr>callbackState := STAGE_ENTER\<rparr>);
       mod_ulsr (map_containers (map (\<lambda>r. r\<lparr>durationMs := -1\<rparr>)));
       log_call GetTick;
       isTimeout \<leftarrow> gets (\<lambda>w. extBool E (Callback UlsrSyncTimedOut) (trace w));
       done \<leftarrow> ask_int E (Callback UlsrSyncTimedOut);
       let callbacks = map ulsrCallback (all_records u) in do {
         _ \<leftarrow> SyncUlsrNotifyInner E (if isTimeout then take (nat done) callbacks else callbacks)
                ULSR_SYNC_CALLBACK_TIMEOUT_MS;
         log_call GetTick;
         State_Monad.return (\<not> isTimeout) } } }"

definition WakeupNotify :: "bool \<Rightarrow> unit M" where
  "WakeupNotify ulsrResult = do {
     u \<leftarrow> gets ulsr;
     if callbackState u \<noteq> STAGE_ENTER then skip
     else do {
       mod_ulsr (\<lambda>u. u\<lparr>callbackState := STAGE_DONE\<rparr>);
       for_each (\<lambda>r. log_call (Callback (OnUlsrWakeup (ulsrCallback r) ulsrResult))) (all_records u) } }"

section \<open>The service\<close>

definition RegisterUlsrCallback :: "env \<Rightarrow> obj option \<Rightarrow> UlsrPriority \<Rightarrow> PowerErrors M" where
  "RegisterUlsrCallback E callback priority = do {
     system \<leftarrow> ask_bool E (Service PermissionIsSystem);
     if \<not> system then State_Monad.return ERR_SYSTEM_API_DENIED
     else if \<not> F_SUSPEND_WITH_TAG E then State_Monad.return ERR_PARAM_INVALID
     else do {
       pid \<leftarrow> ask_int E (Service CallerPid);
       uid \<leftarrow> ask_int E (Service CallerUid);
       mod_ulsr (\<lambda>u. u\<lparr>ulsrCallbackHolder := True\<rparr>);
       Ulsr_AddCallback callback (pid, uid) priority;
       State_Monad.return ERR_OK } }"

definition UnRegisterUlsrCallback :: "env \<Rightarrow> obj option \<Rightarrow> PowerErrors M" where
  "UnRegisterUlsrCallback E callback = do {
     system \<leftarrow> ask_bool E (Service PermissionIsSystem);
     if \<not> system then State_Monad.return ERR_SYSTEM_API_DENIED
     else if \<not> F_SUSPEND_WITH_TAG E then State_Monad.return ERR_PARAM_INVALID
     else do {
       log_call (Service CallerPid);
       log_call (Service CallerUid);
       mod_ulsr (\<lambda>u. u\<lparr>ulsrCallbackHolder := True\<rparr>);
       Ulsr_RemoveCallback callback;
       State_Monad.return ERR_OK } }"

definition TriggerUlsrSyncCallback :: "env \<Rightarrow> bool M" where
  "TriggerUlsrSyncCallback E = do {
     u \<leftarrow> gets ulsr;
     if \<not> ulsrCallbackHolder u then State_Monad.return False else SyncUlsrNotify E }"

definition TriggerUlsrWakeupCallback :: "bool \<Rightarrow> unit M" where
  "TriggerUlsrWakeupCallback ulsrResult = do {
     u \<leftarrow> gets ulsr;
     whenM (ulsrCallbackHolder u) (WakeupNotify ulsrResult) }"

text \<open>The branch of \<open>PowerStateMachine::CancelDelayTimer\<close> for the ULSR timer.\<close>

definition cancel_ulsr_timer :: "unit M" where
  "cancel_ulsr_timer = do {
     timer \<leftarrow> gets (\<lambda>w. psmTimer (ptrs w));
     whenM timer (CancelTimer POWER_TIMER TIMER_ID_ULSR) }"

definition TriggerUlsrWakeupCallbackWithResult :: "unit M" where
  "TriggerUlsrWakeupCallbackWithResult = do {
     cancel_ulsr_timer;
     u \<leftarrow> gets ulsr;
     if ulsrResultWaitTaskStart u then skip
     else if \<not> ulsrCallbackHolder u then skip
     else if callbackState u \<noteq> STAGE_ENTER then skip
     else do {
       mod_ulsr (\<lambda>u. u\<lparr>ulsrResultWaitTaskStart := True\<rparr>);
       log_call (Queue (SubmitTask TaskUlsrWakeup)) } }"

definition IsUlsrSucceed :: "env \<Rightarrow> bool M" where
  "IsUlsrSucceed E = do {
     r \<leftarrow> gets (\<lambda>w. extString E (Service UlsrResultParam) (trace w));
     log_call (Service UlsrResultParam);
     State_Monad.return (r = ''success'') }"

text \<open>The task submitted above; the wait for the parameter to change has no effect of its own.\<close>

definition WaitAndTriggerUlsrWakeup :: "env \<Rightarrow> unit M" where
  "WaitAndTriggerUlsrWakeup E = do {
     mod_ulsr (\<lambda>u. u\<lparr>ulsrResultWaitTaskStart := True\<rparr>);
     r \<leftarrow> gets (\<lambda>w. extString E (Service UlsrResultParam) (trace w));
     log_call (Service UlsrResultParam);
     whenM (r = '''') (do {
       ret \<leftarrow> ask_int E (Service WatchUlsrResult);
       whenM (ret = 0 \<or> ret = 110) (log_call (Service UnwatchUlsrResult)) });
     ulsrResult \<leftarrow> IsUlsrSucceed E;
     TriggerUlsrWakeupCallback ulsrResult;
     mod_ulsr (\<lambda>u. u\<lparr>ulsrResultWaitTaskStart := False\<rparr>) }"

section \<open>Frames\<close>

lemma keeps_case_priority [keeps_intros]:
  "keeps f a \<Longrightarrow> keeps f b \<Longrightarrow> keeps f c \<Longrightarrow> (\<And>n. keeps f (d n)) \<Longrightarrow>
    keeps f (case p of ULSR_LOW \<Rightarrow> a | ULSR_DEFAULT \<Rightarrow> b | ULSR_HIGH \<Rightarrow> c | ULSR_RAW n \<Rightarrow> d n)"
  by (cases p) simp_all

lemma keeps_SyncUlsrNotifyInner [keeps_intros]:
  assumes "ig_quiet f" "\<And>w x. f (w\<lparr>ulsr := x\<rparr>) = f w"
  shows "keeps f (SyncUlsrNotifyInner E cs n)"
  using assms by (induction cs arbitrary: n) (auto simp: trace_app intro!: keeps_intros)

lemma keeps_ulsr [keeps_intros]:
  assumes "ig_quiet f" "\<And>w x. f (w\<lparr>ulsr := x\<rparr>) = f w"
  shows "keeps f (SyncUlsrNotify E)" "keeps f (WakeupNotify b)"
    "keeps f (TriggerUlsrSyncCallback E)" "keeps f (TriggerUlsrWakeupCallback b)" "keeps f (IsUlsrSucceed E)"
    "keeps f (WaitAndTriggerUlsrWakeup E)" "keeps f (RegisterUlsrCallback E c p)" "keeps f (UnRegisterUlsrCallback E c)"
  using assms
  by (auto simp: SyncUlsrNotify_def WakeupNotify_def TriggerUlsrSyncCallback_def TriggerUlsrWakeupCallback_def
      IsUlsrSucceed_def WaitAndTriggerUlsrWakeup_def RegisterUlsrCallback_def UnRegisterUlsrCallback_def
      Ulsr_AddCallback_def Ulsr_RemoveCallback_def Let_def trace_app intro!: keeps_intros)

lemma keeps_TriggerUlsrWakeupCallbackWithResult [keeps_intros]:
  assumes "ig_quiet f" "ig_timers f" "\<And>w x. f (w\<lparr>ulsr := x\<rparr>) = f w"
  shows "keeps f TriggerUlsrWakeupCallbackWithResult" "keeps f cancel_ulsr_timer"
  using assms
  by (auto simp: TriggerUlsrWakeupCallbackWithResult_def cancel_ulsr_timer_def trace_app intro!: keeps_intros)

end
