(* ===== verification/Device_Action.thy ===== *)
theory Device_Action
  imports World
begin

text \<open>
  The two objects through which the service reaches the hardware: \<open>SystemSuspendController\<close>
  (\<open>actions/default/system_suspend_controller.cpp\<close>, calls to the power driver) and the device state
  action (\<open>actions/default/display/device_state_action.cpp\<close>, calls to the display and window
  managers; \<open>decoupled_device_state_action.cpp\<close> when the screen is decoupled).
\<close>

section \<open>System suspend controller\<close>

definition GetPowerInterface :: "env \<Rightarrow> bool M" where
  "GetPowerInterface E = do {
     cached \<leftarrow> gets (\<lambda>w. powerInterface (act w));
     if cached then State_Monad.return True
     else do {
       got \<leftarrow> ask_bool E (Driver HdiGetInterface);
       mod_act (\<lambda>a. a\<lparr>powerInterface := got\<rparr>);
       State_Monad.return got } }"

definition ResetHandle :: "unit M" where
  "ResetHandle = mod_act (\<lambda>a. a\<lparr>powerInterface := False\<rparr>)"

definition SystemSetSuspendTag :: "env \<Rightarrow> string \<Rightarrow> unit M" where
  "SystemSetSuspendTag E tag = do {
     ok \<leftarrow> GetPowerInterface E;
     whenM ok (log_call (Driver (HdiSetSuspendTag tag))) }"

definition AllowAutoSleep :: "unit M" where
  "AllowAutoSleep = mod_act (\<lambda>a. a\<lparr>allowSleepTask := True\<rparr>)"

definition DisallowAutoSleep :: "unit M" where
  "DisallowAutoSleep = mod_act (\<lambda>a. a\<lparr>allowSleepTask := False\<rparr>)"

definition SystemSuspend :: "env \<Rightarrow> bool \<Rightarrow> unit M" where
  "SystemSuspend E force = do {
     ok \<leftarrow> GetPowerInterface E;
     if \<not> ok then skip
     else if force then log_call (Driver HdiForceSuspend)
     else do {
       allow \<leftarrow> gets (\<lambda>w. allowSleepTask (act w));
       whenM allow (log_call (Driver HdiStartSuspend)) } }"

definition SystemWakeup :: "env \<Rightarrow> unit M" where
  "SystemWakeup E = do {
     ok \<leftarrow> GetPowerInterface E;
     whenM ok (log_call (Driver HdiStopSuspend)) }"

text \<open>The driver answers 0 (\<open>HDF_SUCCESS\<close>) when it hibernated.\<close>

definition SystemHibernate :: "env \<Rightarrow> bool M" where
  "SystemHibernate E = do {
     ok \<leftarrow> GetPowerInterface E;
     if \<not> ok then State_Monad.return False
     else do {
       ret \<leftarrow> ask_int E (Driver HdiHibernate);
       State_Monad.return (ret = 0) } }"

definition status_of_int :: "int \<Rightarrow> RunningLockStatus" where
  "status_of_int n =
    (if n = 0 then RUNNINGLOCK_SUCCESS else if n = -2 then RUNNINGLOCK_NOT_SUPPORT
     else if n = -3 then RUNNINGLOCK_INVALID_PARAM else RUNNINGLOCK_FAILURE)"

definition AcquireRunningLock :: "env \<Rightarrow> RunningLockParam \<Rightarrow> RunningLockStatus M" where
  "AcquireRunningLock E param = do {
     ok \<leftarrow> GetPowerInterface E;
     if \<not> ok then State_Monad.return RUNNINGLOCK_FAILURE
     else do {
       status \<leftarrow> ask_int E (Driver (HdiHoldRunningLock param));
       State_Monad.return (status_of_int status) } }"

definition ReleaseRunningLock :: "env \<Rightarrow> RunningLockParam \<Rightarrow> RunningLockStatus M" where
  "ReleaseRunningLock E param = do {
     ok \<leftarrow> GetPowerInterface E;
     if \<not> ok then State_Monad.return RUNNINGLOCK_FAILURE
     else do {
       status \<leftarrow> ask_int E (Driver (HdiUnholdRunningLock param));
       State_Monad.return (status_of_int status) } }"

text \<open>
  \<open>GetPowerConfig\<close> returns a string; its only use in the modelled code converts the string to an
  integer, so the answer of the driver is the integer, and the Boolean answer to the same call says
  whether reading and converting it succeeded.
\<close>

definition GetPowerConfigInt :: "env \<Rightarrow> string \<Rightarrow> int option M" where
  "GetPowerConfigInt E sceneName = do {
     ok \<leftarrow> GetPowerInterface E;
     if \<not> ok then State_Monad.return None
     else do {
       valid \<leftarrow> gets (\<lambda>w. extBool E (Driver (HdiGetPowerConfig sceneName)) (trace w));
       num \<leftarrow> ask_int E (Driver (HdiGetPowerConfig sceneName));
       State_Monad.return (if valid then Some num else None) } }"

section \<open>Device state action\<close>

definition GetDisplayState :: "env \<Rightarrow> DisplayState M" where
  "GetDisplayState E =
    (if F_SCREEN_DECOUPLING E then State_Monad.return DISPLAY_UNKNOWN
     else do {
       state \<leftarrow> gets (\<lambda>w. extDisplay E (trace w));
       log_call (Display DpmGetDisplayState);
       State_Monad.return state })"

definition ActionWakeup :: "env \<Rightarrow> unit M" where
  "ActionWakeup E = SystemWakeup E"

definition GoToSleep :: "env \<Rightarrow> bool \<Rightarrow> ActionResult M" where
  "GoToSleep E force = do { SystemSuspend E force; State_Monad.return ACTION_SUCCESS }"

definition BeginPowerkeyScreenOff :: "env \<Rightarrow> unit M" where
  "BeginPowerkeyScreenOff E =
    whenM (\<not> F_SCREEN_DECOUPLING E)
      (mod_act (\<lambda>a. a\<lparr>screenOffStarted := True, cancelScreenOffCvUnblocked := False,
                        interruptingScreenOff := False, screenOffInterrupted := False\<rparr>))"

definition EndPowerkeyScreenOff :: "env \<Rightarrow> unit M" where
  "EndPowerkeyScreenOff E =
    whenM (\<not> F_SCREEN_DECOUPLING E)
      (mod_act (\<lambda>a. a\<lparr>screenOffStarted := False, cancelScreenOffCvUnblocked := True,
                        interruptingScreenOff := False, screenOffInterrupted := False\<rparr>))"

text \<open>
  \<open>TryToCancelScreenOff\<close> waits on a condition variable between two critical sections.  It is
  modelled as two computations: up to the wait (the result says whether it goes on to wait) and from
  the wait on.
\<close>

definition TryToCancelScreenOff_begin :: "env \<Rightarrow> bool M" where
  "TryToCancelScreenOff_begin E =
    (if F_SCREEN_DECOUPLING E then State_Monad.return False
     else do {
       started \<leftarrow> gets (\<lambda>w. screenOffStarted (act w));
       if \<not> started then State_Monad.return False
       else do {
         mod_act (\<lambda>a. a\<lparr>interruptingScreenOff := True\<rparr>);
         State_Monad.return True } })"

definition TryToCancelScreenOff_end :: "env \<Rightarrow> bool M" where
  "TryToCancelScreenOff_end E = do {
     interrupted \<leftarrow> gets (\<lambda>w. screenOffInterrupted (act w));
     if interrupted then State_Monad.return True
     else do {
       r \<leftarrow> ask_bool E (Window DmsTryToCancelScreenOff);
       mod_act (\<lambda>a. a\<lparr>screenOffInterrupted := r\<rparr>);
       State_Monad.return r } }"

definition IsInterruptingScreenOff :: "env \<Rightarrow> nat \<Rightarrow> bool M" where
  "IsInterruptingScreenOff E dispReason =
    (if dispReason = rosenCode E DMS_HARD_KEY then do {
       a \<leftarrow> gets act;
       if screenOffStarted a \<and> interruptingScreenOff a then do {
         mod_act (\<lambda>a. a\<lparr>screenOffInterrupted := True\<rparr>);
         mod_act (\<lambda>a. a\<lparr>cancelScreenOffCvUnblocked := True\<rparr>);
         State_Monad.return True }
       else do {
         log_call (Window (DmsSuspendBegin dispReason));
         mod_act (\<lambda>a. a\<lparr>cancelScreenOffCvUnblocked := True\<rparr>);
         State_Monad.return False } }
     else do {
       log_call (Window (DmsSuspendBegin dispReason));
       State_Monad.return False })"

definition IsOnState :: "DisplayState \<Rightarrow> bool" where
  "IsOnState state = (state = DISPLAY_ON \<or> state = DISPLAY_DIM)"

definition finishSetDisplayState :: "env \<Rightarrow> DisplayState \<Rightarrow> StateChangeReason \<Rightarrow> ActionResult M" where
  "finishSetDisplayState E state reason = do {
     ret \<leftarrow> ask_bool E (Display (DpmSetDisplayState state reason));
     State_Monad.return (if ret then ACTION_SUCCESS else ACTION_FAILED) }"

definition SetDisplayState :: "env \<Rightarrow> DisplayState \<Rightarrow> StateChangeReason \<Rightarrow> ActionResult M" where
  "SetDisplayState E state reason =
    (if F_SCREEN_DECOUPLING E then State_Monad.return ACTION_SUCCESS
     else do {
       currentState \<leftarrow> GetDisplayState E;
       if state = currentState \<and> reason \<noteq> STATE_CHANGE_REASON_PRE_BRIGHT_AUTH_FAIL_SCREEN_OFF
       then State_Monad.return ACTION_SUCCESS
       else do {
         registered \<leftarrow> gets (\<lambda>w. isRegister (act w));
         whenM (\<not> registered) (do {
           r \<leftarrow> ask_bool E (Display DpmRegisterCallback);
           mod_act (\<lambda>a. a\<lparr>isRegister := r\<rparr>) });
         if reason = STATE_CHANGE_REASON_PRE_BRIGHT_AUTH_FAIL_SCREEN_OFF \<and> IsOnState currentState
         then State_Monad.return ACTION_SUCCESS
         else let curState = (if reason = STATE_CHANGE_REASON_PRE_BRIGHT_AUTH_FAIL_SCREEN_OFF
                              then DISPLAY_ON else currentState);
                  dispReason = GetDmsReasonByPowerReason (rosenCode E) reason
         in if state = DISPLAY_ON then do {
              whenM (\<not> IsOnState curState) (log_call (Window (DmsWakeUpBegin dispReason)));
              finishSetDisplayState E state reason }
            else if state = DISPLAY_DOZE \<or> state = DISPLAY_OFF then
              (if IsOnState curState then do {
                 interrupting \<leftarrow> IsInterruptingScreenOff E dispReason;
                 if interrupting then State_Monad.return ACTION_FAILED
                 else finishSetDisplayState E state reason }
               else finishSetDisplayState E state reason)
            else finishSetDisplayState E state reason } })"

definition SetInternalScreenDisplayPower :: "env \<Rightarrow> DisplayState \<Rightarrow> StateChangeReason \<Rightarrow> unit M" where
  "SetInternalScreenDisplayPower E state reason =
    whenM (\<not> F_SCREEN_DECOUPLING E)
      (log_call (Window (DmsSetScreenPowerById state (GetDmsReasonByPowerReason (rosenCode E) reason))))"

definition SetInternalScreenBrightness :: "env \<Rightarrow> unit M" where
  "SetInternalScreenBrightness E =
    whenM (\<not> F_SCREEN_DECOUPLING E) (log_call (Display DpmSetScreenOnBrightness))"

definition SetCoordinated :: "env \<Rightarrow> bool \<Rightarrow> unit M" where
  "SetCoordinated E c =
    whenM (\<not> F_SCREEN_DECOUPLING E) (do {
      mod_act (\<lambda>a. a\<lparr>coordinated := c\<rparr>);
      log_call (Display (DpmSetCoordinated c)) })"

section \<open>Frames\<close>

lemma ig_act_app: "ig_act f \<Longrightarrow> f (w\<lparr>act := x\<rparr>) = f w"
  by (simp add: ig_defs)

lemmas device_action_defs =
  GetPowerInterface_def SystemSuspend_def SystemWakeup_def SystemSetSuspendTag_def SystemHibernate_def
  AcquireRunningLock_def ReleaseRunningLock_def GetPowerConfigInt_def AllowAutoSleep_def
  DisallowAutoSleep_def GetDisplayState_def ActionWakeup_def GoToSleep_def BeginPowerkeyScreenOff_def
  EndPowerkeyScreenOff_def TryToCancelScreenOff_begin_def TryToCancelScreenOff_end_def
  IsInterruptingScreenOff_def finishSetDisplayState_def SetInternalScreenDisplayPower_def
  SetInternalScreenBrightness_def SetCoordinated_def

lemma keeps_device_action [keeps_intros]:
  assumes "ig_act f" "ig_quiet f"
  shows "keeps f (GetPowerInterface E)" "keeps f (SystemWakeup E)" "keeps f (SystemSetSuspendTag E s)"
    "keeps f (AcquireRunningLock E p)" "keeps f (ReleaseRunningLock E p)"
    "keeps f (GetPowerConfigInt E s)" "keeps f AllowAutoSleep" "keeps f DisallowAutoSleep"
    "keeps f (GetDisplayState E)" "keeps f (ActionWakeup E)"
    "keeps f (BeginPowerkeyScreenOff E)" "keeps f (EndPowerkeyScreenOff E)"
    "keeps f (TryToCancelScreenOff_begin E)" "keeps f (TryToCancelScreenOff_end E)"
    "keeps f (IsInterruptingScreenOff E n)"
    "keeps f (SetInternalScreenDisplayPower E d r)" "keeps f (SetInternalScreenBrightness E)"
    "keeps f (SetCoordinated E b)"
  using assms by (auto simp: device_action_defs ig_act_app trace_app intro!: keeps_intros)

lemma keeps_device_effect [keeps_intros]:
  assumes "ig_act f" "ig_trace f"
  shows "keeps f (SystemSuspend E b)" "keeps f (SystemHibernate E)" "keeps f (GoToSleep E b)"
    "keeps f (finishSetDisplayState E d r)"
  using assms
  by (auto simp: SystemSuspend_def SystemHibernate_def GoToSleep_def finishSetDisplayState_def
      trace_app intro!: keeps_intros)

lemma keeps_SetDisplayState [keeps_intros]:
  assumes "ig_act f" "ig_trace f"
  shows "keeps f (SetDisplayState E d r)"
  using assms unfolding SetDisplayState_def Let_def
  by (auto simp: ig_act_app trace_app intro!: keeps_intros)

section \<open>Laws\<close>

lemma trace_GetDisplayState:
  "\<not> F_SCREEN_DECOUPLING E \<Longrightarrow>
    trace (exec (GetDisplayState E) w) = Display DpmGetDisplayState # trace w"
  by (simp add: GetDisplayState_def access_defs)


end
