(* ===== verification/Suspend_Base.thy ===== *)
theory Suspend_Base
  imports Ulsr Device_Action
begin

text \<open>
  The part of \<open>SuspendController\<close> (\<open>services/native/src/suspend/suspend_controller.cpp\<close>) that the
  state machine calls: the sleep timer, the screen-off timer, the callbacks that are told about sleep
  and wakeup, and the callbacks that may take a suspend over.  The handlers that call the state
  machine are in theory \<open>Suspend_Control\<close>.
\<close>

section \<open>Callback holders\<close>

datatype SleepPriority = PRIORITY_HIGH | PRIORITY_DEFAULT | PRIORITY_LOW | PRIORITY_RAW nat

text \<open>\<open>SleepCallbackHolder\<close>: three sets of callbacks and the process that registered each of them.\<close>

definition SleepHolder_AddCallback :: "obj \<Rightarrow> SleepPriority \<Rightarrow> int \<times> int \<Rightarrow> unit M" where
  "SleepHolder_AddCallback callback priority pidUid = do {
     (case priority of
        PRIORITY_LOW \<Rightarrow>
          mod_susp (\<lambda>s. s\<lparr>lowPriorityCallbacks := oset_insert callback (lowPriorityCallbacks s)\<rparr>)
      | PRIORITY_DEFAULT \<Rightarrow>
          mod_susp (\<lambda>s. s\<lparr>defaultPriorityCallbacks := oset_insert callback (defaultPriorityCallbacks s)\<rparr>)
      | PRIORITY_HIGH \<Rightarrow>
          mod_susp (\<lambda>s. s\<lparr>highPriorityCallbacks := oset_insert callback (highPriorityCallbacks s)\<rparr>)
      | PRIORITY_RAW _ \<Rightarrow> skip);
     mod_susp (\<lambda>s. s\<lparr>sleepCachedRegister :=
       (case sleepCachedRegister s callback of
          None \<Rightarrow> (sleepCachedRegister s)(callback \<mapsto> pidUid)
        | Some _ \<Rightarrow> sleepCachedRegister s)\<rparr>) }"

definition SleepHolder_RemoveCallback :: "obj \<Rightarrow> unit M" where
  "SleepHolder_RemoveCallback callback = do {
     mod_susp (\<lambda>s. s\<lparr>lowPriorityCallbacks := oset_erase callback (lowPriorityCallbacks s)\<rparr>);
     mod_susp (\<lambda>s. s\<lparr>defaultPriorityCallbacks := oset_erase callback (defaultPriorityCallbacks s)\<rparr>);
     mod_susp (\<lambda>s. s\<lparr>highPriorityCallbacks := oset_erase callback (highPriorityCallbacks s)\<rparr>);
     mod_susp (\<lambda>s. s\<lparr>sleepCachedRegister := (sleepCachedRegister s)(callback := None)\<rparr>) }"

definition FindCallbackPidUid :: "obj \<Rightarrow> (int \<times> int) M" where
  "FindCallbackPidUid callback =
    gets (\<lambda>w. case sleepCachedRegister (susp w) callback of None \<Rightarrow> (0, 0) | Some p \<Rightarrow> p)"

definition TakeOverHolder_AddCallback :: "obj \<Rightarrow> SleepPriority \<Rightarrow> unit M" where
  "TakeOverHolder_AddCallback callback priority =
     (case priority of
        PRIORITY_LOW \<Rightarrow>
          mod_susp (\<lambda>s. s\<lparr>lowTakeOverCallbacks := oset_insert callback (lowTakeOverCallbacks s)\<rparr>)
      | PRIORITY_DEFAULT \<Rightarrow>
          mod_susp (\<lambda>s. s\<lparr>defaultTakeOverCallbacks := oset_insert callback (defaultTakeOverCallbacks s)\<rparr>)
      | PRIORITY_HIGH \<Rightarrow>
          mod_susp (\<lambda>s. s\<lparr>highTakeOverCallbacks := oset_insert callback (highTakeOverCallbacks s)\<rparr>)
      | PRIORITY_RAW _ \<Rightarrow> skip)"

definition TakeOverHolder_RemoveCallback :: "obj \<Rightarrow> unit M" where
  "TakeOverHolder_RemoveCallback callback = do {
     mod_susp (\<lambda>s. s\<lparr>lowTakeOverCallbacks := oset_erase callback (lowTakeOverCallbacks s)\<rparr>);
     mod_susp (\<lambda>s. s\<lparr>defaultTakeOverCallbacks := oset_erase callback (defaultTakeOverCallbacks s)\<rparr>);
     mod_susp (\<lambda>s. s\<lparr>highTakeOverCallbacks := oset_erase callback (highTakeOverCallbacks s)\<rparr>) }"

section \<open>Sleep and wakeup callbacks\<close>

definition TriggerSyncSleepCallbackInner :: "obj list \<Rightarrow> bool \<Rightarrow> unit M" where
  "TriggerSyncSleepCallbackInner callbacks isWakeup =
    for_each (\<lambda>callback. do {
      force \<leftarrow> gets (\<lambda>w. onForceSleep (susp w));
      log_call GetTick;
      (if isWakeup then log_call (Callback (OnSyncWakeup callback force))
       else log_call (Callback (OnSyncSleep callback force)));
      log_call GetTick }) callbacks"

definition TriggerSyncSleepCallback :: "env \<Rightarrow> bool \<Rightarrow> unit M" where
  "TriggerSyncSleepCallback E isWakeup = do {
     highPriority \<leftarrow> gets (\<lambda>w. highPriorityCallbacks (susp w));
     TriggerSyncSleepCallbackInner highPriority isWakeup;
     defaultPriority \<leftarrow> gets (\<lambda>w. defaultPriorityCallbacks (susp w));
     TriggerSyncSleepCallbackInner defaultPriority isWakeup;
     lowPriority \<leftarrow> gets (\<lambda>w. lowPriorityCallbacks (susp w));
     TriggerSyncSleepCallbackInner lowPriority isWakeup;
     force \<leftarrow> gets (\<lambda>w. onForceSleep (susp w));
     whenM (isWakeup \<and> force) (mod_susp (\<lambda>s. s\<lparr>onForceSleep := False\<rparr>));
     whenM (F_SUSPEND_WITH_TAG E \<and> isWakeup) TriggerUlsrWakeupCallbackWithResult }"

fun TriggerTakeOverSuspendCallbackInner :: "env \<Rightarrow> obj list \<Rightarrow> SuspendDeviceType \<Rightarrow> bool \<Rightarrow> bool M" where
  "TriggerTakeOverSuspendCallbackInner E [] type isTakeover = State_Monad.return isTakeover"
| "TriggerTakeOverSuspendCallbackInner E (callback # callbacks) type isTakeover = do {
     log_call GetTick;
     taken \<leftarrow> (if isTakeover then State_Monad.return True
               else ask_bool E (Callback (OnTakeOverSuspend callback type)));
     log_call GetTick;
     TriggerTakeOverSuspendCallbackInner E callbacks type taken }"

definition TriggerTakeOverSuspendCallback :: "env \<Rightarrow> SuspendDeviceType \<Rightarrow> bool M" where
  "TriggerTakeOverSuspendCallback E type = do {
     highPriority \<leftarrow> gets (\<lambda>w. highTakeOverCallbacks (susp w));
     takenHigh \<leftarrow> TriggerTakeOverSuspendCallbackInner E highPriority type False;
     if takenHigh then State_Monad.return True
     else do {
       defaultPriority \<leftarrow> gets (\<lambda>w. defaultTakeOverCallbacks (susp w));
       takenDefault \<leftarrow> TriggerTakeOverSuspendCallbackInner E defaultPriority type False;
       if takenDefault then State_Monad.return True
       else do {
         lowPriority \<leftarrow> gets (\<lambda>w. lowTakeOverCallbacks (susp w));
         TriggerTakeOverSuspendCallbackInner E lowPriority type False } } }"

section \<open>Timers\<close>

definition StopSleep :: "env \<Rightarrow> unit M" where
  "StopSleep E = do {
     timer \<leftarrow> gets (\<lambda>w. suspTimer (ptrs w));
     whenM timer (do {
       CancelTimer POWER_TIMER TIMER_ID_SLEEP;
       whenM (F_CHARGING_TYPE E) (CancelTimer POWER_TIMER TIMER_ID_AUTO_SLEEP) });
     mod_susp (\<lambda>s. s\<lparr>sleepTime := -1\<rparr>);
     mod_susp (\<lambda>s. s\<lparr>sleepAction := ACTION_NONE\<rparr>) }"

text \<open>\<open>HandleEvent\<close> takes the delay as \<open>int64_t\<close> and passes it to a \<open>uint32_t\<close> parameter.\<close>

definition HandleEvent :: "env \<Rightarrow> int \<Rightarrow> unit M" where
  "HandleEvent E delayTime = do {
     timer \<leftarrow> gets (\<lambda>w. suspTimer (ptrs w));
     whenM timer
       (SetTimer E POWER_TIMER TIMER_ID_USER_ACTIVITY_OFF TaskActivityOff (word_of_int delayTime)) }"

definition CancelEvent :: "unit M" where
  "CancelEvent = do {
     timer \<leftarrow> gets (\<lambda>w. suspTimer (ptrs w));
     whenM timer (CancelTimer POWER_TIMER TIMER_ID_USER_ACTIVITY_OFF) }"

definition StartSleepTimer :: "env \<Rightarrow> SuspendDeviceType \<Rightarrow> uint32 \<Rightarrow> uint32 \<Rightarrow> unit M" where
  "StartSleepTimer E reason action delay = do {
     autoSleepTime \<leftarrow> gets (\<lambda>w. psmSleepTime (psm w));
     if action = ACTION_AUTO_SUSPEND \<and> autoSleepTime < 0 then skip
     else do {
       tick \<leftarrow> GetTickCount E;
       let timeout = wrap64 (tick + uint delay) in
       if timeout < tick then skip
       else do {
         pending \<leftarrow> gets (\<lambda>w. sleepTime (susp w));
         if timeout > pending \<and> pending \<noteq> -1 then skip
         else do {
           mod_susp (\<lambda>s. s\<lparr>sleepTime := timeout, sleepReason := reason, sleepAction := action,
                             sleepDuration := delay, sleepType := action\<rparr>);
           timer \<leftarrow> gets (\<lambda>w. suspTimer (ptrs w));
           whenM timer (SetTimer E POWER_TIMER TIMER_ID_SLEEP (TaskSleep reason action) delay) } } } }"

definition GetPowerkeyDownWhenScreenOff :: "bool M" where
  "GetPowerkeyDownWhenScreenOff = do {
     powerKeyDown \<leftarrow> gets (\<lambda>w. powerkeyDownWhenScreenOff (susp w));
     mod_susp (\<lambda>s. s\<lparr>powerkeyDownWhenScreenOff := False\<rparr>);
     State_Monad.return powerKeyDown }"

definition SetForceSleepingFlag :: "bool \<Rightarrow> unit M" where
  "SetForceSleepingFlag isForceSleeping = mod_susp (\<lambda>s. s\<lparr>forceSleeping := isForceSleeping\<rparr>)"

definition GetForceSleepingFlag :: "bool M" where
  "GetForceSleepingFlag = gets (\<lambda>w. forceSleeping (susp w))"

definition SuspReset :: "unit M" where
  "SuspReset = mod_ptrs (\<lambda>p. p\<lparr>suspTimer := False\<rparr>)"

section \<open>Frames\<close>

lemma ig_susp_app:
  assumes "ig_susp f"
  shows "f (w\<lparr>susp := (susp w)\<lparr>sleepTime := t\<rparr>\<rparr>) = f w" "f (w\<lparr>susp := (susp w)\<lparr>sleepAction := a\<rparr>\<rparr>) = f w"
    "f (w\<lparr>susp := (susp w)\<lparr>onForceSleep := o1\<rparr>\<rparr>) = f w" "f (w\<lparr>susp := (susp w)\<lparr>forceSleeping := o2\<rparr>\<rparr>) = f w"
    "f (w\<lparr>susp := (susp w)\<lparr>sleepTime := t, sleepReason := r, sleepAction := a, sleepDuration := d,
       sleepType := e\<rparr>\<rparr>) = f w" "f (w\<lparr>ulsr := u\<rparr>) = f w"
  using assms by (simp_all add: ig_defs)

lemma ig_susp_all_app: "ig_susp_all f \<Longrightarrow> f (w\<lparr>susp := x\<rparr>) = f w"
  by (simp add: ig_susp_all_def)

lemma keeps_TriggerSyncSleepCallbackInner [keeps_intros]:
  "ig_quiet f \<Longrightarrow> keeps f (TriggerSyncSleepCallbackInner cs b)"
  by (auto simp: TriggerSyncSleepCallbackInner_def trace_app intro!: keeps_intros)

lemma keeps_TriggerTakeOverSuspendCallbackInner [keeps_intros]:
  "ig_quiet f \<Longrightarrow> keeps f (TriggerTakeOverSuspendCallbackInner E cs t b)"
  by (induction cs arbitrary: b) (auto simp: trace_app intro!: keeps_intros)

lemma keeps_suspend_base [keeps_intros]:
  assumes "ig_susp f" "ig_timers f" "ig_quiet f"
  shows "keeps f (TriggerSyncSleepCallback E b)" "keeps f (TriggerTakeOverSuspendCallback E t)"
    "keeps f (StopSleep E)" "keeps f (HandleEvent E n)" "keeps f CancelEvent"
    "keeps f (StartSleepTimer E r a d)" "keeps f (SetForceSleepingFlag b)"
    "keeps f GetForceSleepingFlag"
  using assms
  by (auto simp: TriggerSyncSleepCallback_def TriggerTakeOverSuspendCallback_def StopSleep_def
      HandleEvent_def CancelEvent_def StartSleepTimer_def SetForceSleepingFlag_def
      GetForceSleepingFlag_def ig_susp_app trace_app intro!: keeps_intros)

lemma keeps_GetPowerkeyDownWhenScreenOff [keeps_intros]: "ig_susp_all f \<Longrightarrow> keeps f GetPowerkeyDownWhenScreenOff"
  by (auto simp: GetPowerkeyDownWhenScreenOff_def ig_susp_all_app intro!: keeps_intros)

lemma keeps_holders [keeps_intros]:
  assumes "ig_susp_all f"
  shows "keeps f (SleepHolder_AddCallback c p u)" "keeps f (SleepHolder_RemoveCallback c)"
    "keeps f (TakeOverHolder_AddCallback c p)" "keeps f (TakeOverHolder_RemoveCallback c)"
  using assms
  by (auto simp: SleepHolder_AddCallback_def SleepHolder_RemoveCallback_def
      TakeOverHolder_AddCallback_def TakeOverHolder_RemoveCallback_def ig_susp_all_app
      intro!: keeps_intros split: SleepPriority.split)

end
