(* ===== verification/Setting_Provider.thy ===== *)
theory Setting_Provider
  imports World
begin

text \<open>
  \<open>SettingProvider\<close> (\<open>utils/setting/src/setting_provider.cpp\<close>): the settings of the device are strings
  in a data share, a table of keywords and values behind a URI, one table for all users and
  one for each user.  The data share is outside the repository: every query and update is a call of
  \<open>settings_call\<close>.  The identity of the caller, which is reset around each access, is not modelled.

  A result is either an error or the value; where the code leaves its output parameter alone on an
  error, the caller's default stands.
\<close>

datatype SettingError = ERR_NO_INIT | ERR_INVALID_OPERATION | ERR_NAME_NOT_FOUND | ERR_INVALID_VALUE

section \<open>Numbers in strings\<close>

definition c_str :: "string \<Rightarrow> string" where
  "c_str s = takeWhile (\<lambda>c. c \<noteq> CHR 0x00) s"

definition is_space :: "char \<Rightarrow> bool" where
  "is_space c = (c \<in> {CHR '' '', CHR 0x09, CHR 0x0A, CHR 0x0B, CHR 0x0C, CHR 0x0D})"

definition is_digit :: "char \<Rightarrow> bool" where
  "is_digit c = (48 \<le> (of_char c :: nat) \<and> (of_char c :: nat) < 58)"

definition clamp64 :: "int \<Rightarrow> int" where
  "clamp64 n = (if n < - (2 ^ 63) then - (2 ^ 63) else if n \<ge> 2 ^ 63 then 2 ^ 63 - 1 else n)"

text \<open>
  \<open>strtoll(s, &endptr, 10)\<close>: the number and what \<open>endptr\<close> points to.  Without a digit the number is 0
  and \<open>endptr\<close> is the beginning of the string.
\<close>

definition strtoll :: "string \<Rightarrow> int \<times> string" where
  "strtoll s =
    (let s1 = dropWhile is_space s;
         negative = (case s1 of [] \<Rightarrow> False | c # _ \<Rightarrow> c = CHR ''-'');
         s2 = (case s1 of [] \<Rightarrow> [] | c # t \<Rightarrow> if c = CHR ''-'' \<or> c = CHR ''+'' then t else s1);
         ds = takeWhile is_digit s2
     in if ds = [] then (0, s)
        else (clamp64 (if negative then - int (undigits ds) else int (undigits ds)), dropWhile is_digit s2))"

section \<open>Where a setting lives\<close>

definition SETTING_URI_PROXY :: string where
  "SETTING_URI_PROXY = ''datashare:///com.ohos.settingsdata/entry/settingsdata/SETTINGSDATA?Proxy=true''"

definition SETTING_URI_PROXY_USER :: string where
  "SETTING_URI_PROXY_USER = ''datashare:///com.ohos.settingsdata/entry/settingsdata/''"

definition SETTING_URI_NORMAL :: string where
  "SETTING_URI_NORMAL = ''SETTINGSDATA?Proxy=true''"

definition SETTING_URI_USER_SECURE :: string where
  "SETTING_URI_USER_SECURE = ''USER_SETTINGSDATA_SECURE_##USERID##?Proxy=true''"

definition USERID_REPLACE :: string where "USERID_REPLACE = ''##USERID##''"

definition MULTI_USER_STR_VEC_SIZE_MAX :: nat where "MULTI_USER_STR_VEC_SIZE_MAX = 1000"

text \<open>\<open>std::regex_replace\<close> with a pattern that matches only itself.\<close>

function regex_replace :: "string \<Rightarrow> string \<Rightarrow> string \<Rightarrow> string" where
  "regex_replace pattern new s =
    (if s = [] \<or> pattern = [] then s
     else if take (length pattern) s = pattern then new @ regex_replace pattern new (drop (length pattern) s)
     else hd s # regex_replace pattern new (tl s))"
  by pat_completeness auto
termination by (relation "measure (\<lambda>(p, n, s). length s)") auto

declare regex_replace.simps [simp del]

definition IsNeedMultiUser :: "string \<Rightarrow> bool M" where
  "IsNeedMultiUser key = gets (\<lambda>w. map_of (needMultiUserStrMap (stg w)) key \<noteq> None)"

definition GetUriPrefix :: "int \<Rightarrow> string \<Rightarrow> string M" where
  "GetUriPrefix userId key = gets (\<lambda>w. case map_of (needMultiUserStrMap (stg w)) key of
     Some template \<Rightarrow> regex_replace USERID_REPLACE (to_string userId) template
   | None \<Rightarrow> SETTING_URI_NORMAL)"

definition AssembleUri :: "string \<Rightarrow> string M" where
  "AssembleUri key = do {
     userId \<leftarrow> gets (\<lambda>w. currentUserId (stg w));
     userSetting \<leftarrow> GetUriPrefix userId key;
     State_Monad.return (SETTING_URI_PROXY_USER @ userSetting @ ''&key='' @ key) }"

definition AddMultiUserKey :: "string \<Rightarrow> string \<Rightarrow> bool M" where
  "AddMultiUserKey key value = do {
     multi \<leftarrow> IsNeedMultiUser key;
     m \<leftarrow> gets (\<lambda>w. needMultiUserStrMap (stg w));
     if multi then State_Monad.return True
     else if length m \<ge> MULTI_USER_STR_VEC_SIZE_MAX then State_Monad.return False
     else do {
       mod_stg (\<lambda>s. s\<lparr>needMultiUserStrMap := (key, value) # needMultiUserStrMap s\<rparr>);
       State_Monad.return True } }"

definition UpdateCurrentUserId :: "env \<Rightarrow> unit M" where
  "UpdateCurrentUserId E = do {
     ret \<leftarrow> ask_int E (Settings ActiveAccountsStatus);
     if ret \<noteq> 0 then skip
     else do {
       none \<leftarrow> ask_bool E (Settings ActiveAccountsEmpty);
       if none then skip
       else do {
         first \<leftarrow> ask_int E (Settings ActiveAccountFirst);
         mod_stg (\<lambda>s. s\<lparr>currentUserId := first\<rparr>) } } }"

section \<open>Access to the data share\<close>

definition CreateDataShareHelper :: "env \<Rightarrow> string \<Rightarrow> bool M" where
  "CreateDataShareHelper E key = do {
     multi \<leftarrow> IsNeedMultiUser key;
     userId \<leftarrow> gets (\<lambda>w. currentUserId (stg w));
     ask_bool E (Settings (DataShareHelperCreate
       (if multi then SETTING_URI_PROXY_USER @ ''USER_SETTINGSDATA_SECURE_'' @ to_string userId @ ''?Proxy=true''
        else SETTING_URI_PROXY))) }"

text \<open>The query that \<open>GetStringValue\<close> and \<open>GetStringValueGlobal\<close> make once they have their helper.\<close>

definition query_value :: "env \<Rightarrow> string \<Rightarrow> string \<Rightarrow> (SettingError + string) M" where
  "query_value E uri key = do {
     resultSet \<leftarrow> ask_bool E (Settings (DataShareQuery uri key));
     log_call (Settings DataShareRelease);
     if \<not> resultSet then State_Monad.return (Inl ERR_INVALID_OPERATION)
     else do {
       count \<leftarrow> ask_int E (Settings (DataShareRowCount uri key));
       if count = 0 then State_Monad.return (Inl ERR_NAME_NOT_FOUND)
       else do {
         value \<leftarrow> gets (\<lambda>w. extString E (Settings (DataShareGetString uri key)) (trace w));
         ret \<leftarrow> ask_int E (Settings (DataShareGetString uri key));
         State_Monad.return (if ret \<noteq> 0 then Inl ERR_INVALID_VALUE else Inr value) } } }"

definition GetStringValue :: "env \<Rightarrow> string \<Rightarrow> (SettingError + string) M" where
  "GetStringValue E key = do {
     helper \<leftarrow> CreateDataShareHelper E key;
     if \<not> helper then State_Monad.return (Inl ERR_NO_INIT)
     else do { uri \<leftarrow> AssembleUri key; query_value E uri key } }"

definition GetStringValueGlobal :: "env \<Rightarrow> string \<Rightarrow> (SettingError + string) M" where
  "GetStringValueGlobal E key = do {
     helper \<leftarrow> ask_bool E (Settings (DataShareHelperCreate SETTING_URI_PROXY));
     if \<not> helper then State_Monad.return (Inl ERR_NO_INIT)
     else query_value E (SETTING_URI_PROXY @ ''&key='' @ key) key }"

definition PutStringValue :: "env \<Rightarrow> string \<Rightarrow> string \<Rightarrow> bool \<Rightarrow> SettingError option M" where
  "PutStringValue E key value needNotify = do {
     helper \<leftarrow> CreateDataShareHelper E key;
     if \<not> helper then State_Monad.return (Some ERR_NO_INIT)
     else do {
       uri \<leftarrow> AssembleUri key;
       rows \<leftarrow> ask_int E (Settings (DataShareUpdate uri key value));
       whenM (rows \<le> 0) (log_call (Settings (DataShareInsert uri key value)));
       whenM needNotify (do { uri' \<leftarrow> AssembleUri key; log_call (Settings (DataShareNotifyChange uri')) });
       log_call (Settings DataShareRelease);
       State_Monad.return None } }"

definition parse_long :: "string \<Rightarrow> SettingError + int" where
  "parse_long valueStr =
    (let (number, rest) = strtoll (c_str valueStr) in if rest \<noteq> [] then Inl ERR_INVALID_VALUE else Inr number)"

definition GetLongValue :: "env \<Rightarrow> string \<Rightarrow> (SettingError + int) M" where
  "GetLongValue E key = do {
     r \<leftarrow> GetStringValue E key;
     State_Monad.return (case r of Inl e \<Rightarrow> Inl e | Inr s \<Rightarrow> parse_long s) }"

definition GetIntValue :: "env \<Rightarrow> string \<Rightarrow> (SettingError + int) M" where
  "GetIntValue E key = do {
     r \<leftarrow> GetLongValue E key;
     State_Monad.return (case r of Inl e \<Rightarrow> Inl e | Inr n \<Rightarrow> Inr (wrap32 n)) }"

definition GetBoolValue :: "env \<Rightarrow> string \<Rightarrow> (SettingError + bool) M" where
  "GetBoolValue E key = do {
     r \<leftarrow> GetStringValue E key;
     State_Monad.return (case r of Inl e \<Rightarrow> Inl e | Inr s \<Rightarrow> Inr (s = ''true'')) }"

definition PutIntValue :: "env \<Rightarrow> string \<Rightarrow> int \<Rightarrow> bool \<Rightarrow> SettingError option M" where
  "PutIntValue E key value needNotify = PutStringValue E key (to_string value) needNotify"

definition PutLongValue :: "env \<Rightarrow> string \<Rightarrow> int \<Rightarrow> bool \<Rightarrow> SettingError option M" where
  "PutLongValue E key value needNotify = PutStringValue E key (to_string value) needNotify"

definition PutBoolValue :: "env \<Rightarrow> string \<Rightarrow> bool \<Rightarrow> bool \<Rightarrow> SettingError option M" where
  "PutBoolValue E key value needNotify =
    PutStringValue E key (if value then ''true'' else ''false'') needNotify"

definition valid_result :: "SettingError + string \<Rightarrow> bool" where
  "valid_result r = (case r of Inl _ \<Rightarrow> False | Inr s \<Rightarrow> s \<noteq> [])"

definition IsValidKey :: "env \<Rightarrow> string \<Rightarrow> bool M" where
  "IsValidKey E key = do { r \<leftarrow> GetStringValue E key; State_Monad.return (valid_result r) }"

definition IsValidKeyGlobal :: "env \<Rightarrow> string \<Rightarrow> bool M" where
  "IsValidKeyGlobal E key = do { r \<leftarrow> GetStringValueGlobal E key; State_Monad.return (valid_result r) }"

text \<open>Registration ends with a thread that runs the update function of the observer once.\<close>

definition RegisterObserver :: "env \<Rightarrow> string \<Rightarrow> SettingError option M" where
  "RegisterObserver E key = do {
     uri \<leftarrow> AssembleUri key;
     helper \<leftarrow> CreateDataShareHelper E key;
     if \<not> helper then State_Monad.return (Some ERR_NO_INIT)
     else do {
       log_call (Settings (DataShareRegisterObserver uri key));
       log_call (Settings (DataShareNotifyChange uri));
       log_call (Settings (ObserverThread key));
       log_call (Settings DataShareRelease);
       State_Monad.return None } }"

definition UnregisterObserver :: "env \<Rightarrow> string \<Rightarrow> SettingError option M" where
  "UnregisterObserver E key = do {
     uri \<leftarrow> AssembleUri key;
     helper \<leftarrow> CreateDataShareHelper E key;
     if \<not> helper then State_Monad.return (Some ERR_NO_INIT)
     else do {
       log_call (Settings (DataShareUnregisterObserver uri key));
       log_call (Settings DataShareRelease);
       State_Monad.return None } }"

section \<open>Migration to the table of the user\<close>

definition SETTING_POWER_WAKEUP_DOUBLE_KEY :: string where
  "SETTING_POWER_WAKEUP_DOUBLE_KEY = ''settings.power.wakeup_double_click''"

definition SETTING_POWER_WAKEUP_PICKUP_KEY :: string where
  "SETTING_POWER_WAKEUP_PICKUP_KEY = ''settings.power.wakeup_pick_up''"

definition SETTING_POWER_WAKEUP_SOURCES_KEY :: string where
  "SETTING_POWER_WAKEUP_SOURCES_KEY = ''settings.power.wakeup_sources''"

text \<open>\<open>&&\<close> asks for the second key only if the first one is valid.\<close>

definition only_global :: "env \<Rightarrow> string \<Rightarrow> bool M" where
  "only_global E key = do {
     global \<leftarrow> IsValidKeyGlobal E key;
     if \<not> global then State_Monad.return False
     else do { own \<leftarrow> IsValidKey E key; State_Monad.return (\<not> own) } }"

definition IsNeedDataMigrationCopy :: "env \<Rightarrow> bool M" where
  "IsNeedDataMigrationCopy E = do {
     a \<leftarrow> only_global E SETTING_POWER_WAKEUP_PICKUP_KEY;
     if \<not> a then State_Monad.return False
     else do {
       b \<leftarrow> only_global E SETTING_POWER_WAKEUP_DOUBLE_KEY;
       if \<not> b then State_Monad.return False
       else only_global E SETTING_POWER_WAKEUP_SOURCES_KEY } }"

definition copy_global :: "env \<Rightarrow> string \<Rightarrow> unit M" where
  "copy_global E key = do {
     r \<leftarrow> GetStringValueGlobal E key;
     case r of Inl _ \<Rightarrow> skip | Inr v \<Rightarrow> do { _ \<leftarrow> PutStringValue E key v True; skip } }"

definition DataMigrationCopy :: "env \<Rightarrow> unit M" where
  "DataMigrationCopy E = do {
     copy_global E SETTING_POWER_WAKEUP_DOUBLE_KEY;
     copy_global E SETTING_POWER_WAKEUP_PICKUP_KEY;
     copy_global E SETTING_POWER_WAKEUP_SOURCES_KEY }"

definition CopyDataForUpdateScene :: "env \<Rightarrow> unit M" where
  "CopyDataForUpdateScene E = do { need \<leftarrow> IsNeedDataMigrationCopy E; whenM need (DataMigrationCopy E) }"

section \<open>Frames\<close>

lemma keeps_case_sum [keeps_intros]:
  "(\<And>a. keeps f (g a)) \<Longrightarrow> (\<And>b. keeps f (h b)) \<Longrightarrow> keeps f (case r of Inl a \<Rightarrow> g a | Inr b \<Rightarrow> h b)"
  by (cases r) auto

text \<open>\<open>ig_settings f\<close>: the observation \<open>f\<close> does not look at calls to the data share.\<close>

definition ig_settings :: "(world \<Rightarrow> 'b) \<Rightarrow> bool" where
  "ig_settings f = (\<forall>w c. f (w\<lparr>trace := Settings c # trace w\<rparr>) = f w)"

lemma ig_quiet_settings: "ig_quiet f \<Longrightarrow> ig_settings f"
  by (simp add: ig_quiet_def ig_settings_def)

lemma keeps_provider_settings:
  assumes "ig_settings f"
  shows "keeps f (GetStringValue E key)" "keeps f (GetStringValueGlobal E key)" "keeps f (PutStringValue E key v n)"
    "keeps f (RegisterObserver E key)" "keeps f (UnregisterObserver E key)"
  using assms
  by (auto simp: GetStringValue_def GetStringValueGlobal_def PutStringValue_def RegisterObserver_def
      UnregisterObserver_def query_value_def CreateDataShareHelper_def AssembleUri_def GetUriPrefix_def
      IsNeedMultiUser_def ig_settings_def intro!: keeps_intros)

lemma keeps_provider_values_settings:
  assumes "ig_settings f"
  shows "keeps f (GetLongValue E key)" "keeps f (GetIntValue E key)" "keeps f (GetBoolValue E key)"
    "keeps f (PutIntValue E key i n)" "keeps f (PutLongValue E key i n)" "keeps f (PutBoolValue E key b n)"
    "keeps f (IsValidKey E key)" "keeps f (IsValidKeyGlobal E key)"
  using assms
  by (auto simp: GetLongValue_def GetIntValue_def GetBoolValue_def PutIntValue_def PutLongValue_def
      PutBoolValue_def IsValidKey_def IsValidKeyGlobal_def intro!: keeps_intros keeps_provider_settings)

lemmas keeps_provider [keeps_intros] = keeps_provider_settings [OF ig_quiet_settings]
lemmas keeps_provider_values [keeps_intros] = keeps_provider_values_settings [OF ig_quiet_settings]

end
