(* ===== verification/Setting_Helper.thy ===== *)
theory Setting_Helper
  imports Setting_Provider
begin

text \<open>
  \<open>SettingHelper\<close> (\<open>services/native/src/setting/setting_helper.cpp\<close>): the settings of the power service by
  name, with their defaults and ranges, and the observers it keeps.  An observer that
  \<open>RegisterSettingKeyObserver\<close> returns is its key, \<open>None\<close> when the registration failed.  The code that
  runs when a setting changes is an operation of the component that registered the observer.
\<close>

section \<open>Keys\<close>

definition SETTING_DISPLAY_AC_OFF_TIME_KEY :: string where
  "SETTING_DISPLAY_AC_OFF_TIME_KEY = ''settings.display.ac.screen_off_timeout''"
definition SETTING_DISPLAY_DC_OFF_TIME_KEY :: string where
  "SETTING_DISPLAY_DC_OFF_TIME_KEY = ''settings.display.dc.screen_off_timeout''"
definition SETTING_POWER_AC_SLEEP_TIME_KEY :: string where
  "SETTING_POWER_AC_SLEEP_TIME_KEY = ''settings.power.ac.sleep_timeout''"
definition SETTING_POWER_DC_SLEEP_TIME_KEY :: string where
  "SETTING_POWER_DC_SLEEP_TIME_KEY = ''settings.power.dc.sleep_timeout''"
definition SETTING_POWER_AC_SUSPEND_SOURCES_KEY :: string where
  "SETTING_POWER_AC_SUSPEND_SOURCES_KEY = ''settings.power.ac.suspend_sources''"
definition SETTING_POWER_DC_SUSPEND_SOURCES_KEY :: string where
  "SETTING_POWER_DC_SUSPEND_SOURCES_KEY = ''settings.power.dc.suspend_sources''"
definition SETTING_DISPLAY_OFF_TIME_KEY :: string where
  "SETTING_DISPLAY_OFF_TIME_KEY = ''settings.display.screen_off_timeout''"
definition SETTING_POWER_SUSPEND_SOURCES_KEY :: string where
  "SETTING_POWER_SUSPEND_SOURCES_KEY = ''settings.power.suspend_sources''"
definition SETTING_POWER_BLOCK_LONG_PRESS_KEY :: string where
  "SETTING_POWER_BLOCK_LONG_PRESS_KEY = ''settings.power.block_long_press''"
definition SETTING_AUTO_ADJUST_BRIGHTNESS_KEY :: string where
  "SETTING_AUTO_ADJUST_BRIGHTNESS_KEY = ''settings.display.auto_screen_brightness''"
definition SETTING_BRIGHTNESS_KEY :: string where
  "SETTING_BRIGHTNESS_KEY = ''settings.display.screen_brightness_status''"
definition SETTING_VIBRATION_KEY :: string where
  "SETTING_VIBRATION_KEY = ''physic_navi_haptic_feedback_enabled''"
definition SETTING_WINDOW_ROTATION_KEY :: string where
  "SETTING_WINDOW_ROTATION_KEY = ''settings.general.accelerometer_rotation_status''"
definition SETTING_INTELL_VOICE_KEY :: string where
  "SETTING_INTELL_VOICE_KEY = ''intell_voice_trigger_enabled''"
definition SETTING_POWER_MODE_KEY :: string where
  "SETTING_POWER_MODE_KEY = ''settings.power.smart_mode_status''"
definition SETTING_POWER_MODE_BACKUP_KEY :: string where
  "SETTING_POWER_MODE_BACKUP_KEY = ''settings.power.smart_mode_status.backup''"
definition SETTING_POWER_SUB_MODE_KEY :: string where
  "SETTING_POWER_SUB_MODE_KEY = ''settings.power.sub_mode_status''"
definition SETTING_POWER_WAKEUP_LID_KEY :: string where
  "SETTING_POWER_WAKEUP_LID_KEY = ''settings.power.wakeup_lid''"
definition SETTING_DURING_CALL_STATE_KEY :: string where
  "SETTING_DURING_CALL_STATE_KEY = ''during_call_state''"
definition SETTING_AC_SCREEN_SAVER_TIME_KEY :: string where
  "SETTING_AC_SCREEN_SAVER_TIME_KEY = ''settings.momentx.show_wait_time_with_charging''"
definition SETTING_DC_SCREEN_SAVER_TIME_KEY :: string where
  "SETTING_DC_SCREEN_SAVER_TIME_KEY = ''settings.momentx.show_wait_time_with_battery''"

definition WAKEUP_SOURCE_OPEN :: int where "WAKEUP_SOURCE_OPEN = 1"
definition WAKEUP_SOURCE_CLOSE :: int where "WAKEUP_SOURCE_CLOSE = 0"
definition MIN_DISPLAY_OFF_TIME_MS :: int where "MIN_DISPLAY_OFF_TIME_MS = 1000"

section \<open>Values of any kind\<close>

definition or_default :: "'a \<Rightarrow> SettingError + 'a \<Rightarrow> 'a" where
  "or_default d r = (case r of Inl _ \<Rightarrow> d | Inr v \<Rightarrow> v)"

definition GetSettingIntValue :: "env \<Rightarrow> string \<Rightarrow> int \<Rightarrow> int M" where
  "GetSettingIntValue E key defaultVal = do {
     r \<leftarrow> GetIntValue E key; State_Monad.return (or_default defaultVal r) }"

text \<open>At most \<open>retryTimes\<close> more attempts, as long as the data share cannot be queried.\<close>

primrec retry :: "nat \<Rightarrow> (SettingError + 'a) M \<Rightarrow> SettingError + 'a \<Rightarrow> (SettingError + 'a) M" where
  "retry 0 get r = State_Monad.return r"
| "retry (Suc retryTimes) get r =
    (if r = Inl ERR_INVALID_OPERATION then do { r' \<leftarrow> get; retry retryTimes get r' }
     else State_Monad.return r)"

definition RETRY_TIMES :: nat where "RETRY_TIMES = 20"

definition GetSettingIntValueWithRetry :: "env \<Rightarrow> string \<Rightarrow> int \<Rightarrow> int M" where
  "GetSettingIntValueWithRetry E key defaultVal = do {
     first \<leftarrow> GetIntValue E key;
     r \<leftarrow> retry RETRY_TIMES (GetIntValue E key) first;
     State_Monad.return (or_default defaultVal r) }"

definition SetSettingIntValue :: "env \<Rightarrow> string \<Rightarrow> int \<Rightarrow> unit M" where
  "SetSettingIntValue E key value = do { _ \<leftarrow> PutIntValue E key value True; skip }"

definition GetSettingLongValue :: "env \<Rightarrow> string \<Rightarrow> int \<Rightarrow> int M" where
  "GetSettingLongValue E key defaultVal = do {
     r \<leftarrow> GetLongValue E key; State_Monad.return (or_default defaultVal r) }"

definition SetSettingLongValue :: "env \<Rightarrow> string \<Rightarrow> int \<Rightarrow> unit M" where
  "SetSettingLongValue E key value = do { _ \<leftarrow> PutLongValue E key value True; skip }"

definition GetSettingStringValue :: "env \<Rightarrow> string \<Rightarrow> string M" where
  "GetSettingStringValue E key = do {
     r \<leftarrow> GetStringValue E key; State_Monad.return (or_default [] r) }"

definition GetSettingStringValueWithRetry :: "env \<Rightarrow> string \<Rightarrow> string \<Rightarrow> string M" where
  "GetSettingStringValueWithRetry E key defaultVal = do {
     first \<leftarrow> GetStringValue E key;
     r \<leftarrow> retry RETRY_TIMES (GetStringValue E key) first;
     State_Monad.return (or_default defaultVal r) }"

definition SetSettingJsonStringValue :: "env \<Rightarrow> string \<Rightarrow> string \<Rightarrow> unit M" where
  "SetSettingJsonStringValue E key jsonConfig = do { _ \<leftarrow> PutStringValue E key jsonConfig True; skip }"

definition RegisterSettingKeyObserver :: "env \<Rightarrow> string \<Rightarrow> bool M" where
  "RegisterSettingKeyObserver E key = do {
     r \<leftarrow> RegisterObserver E key; State_Monad.return (r = None) }"

definition UnregisterSettingObserver :: "env \<Rightarrow> string \<Rightarrow> bool \<Rightarrow> unit M" where
  "UnregisterSettingObserver E key observer =
    (if \<not> observer then skip else do { _ \<leftarrow> UnregisterObserver E key; skip })"

section \<open>Times\<close>

text \<open>Times from 0 to \<open>MIN_DISPLAY_OFF_TIME_MS\<close> are replaced by the default; negative ones mean never.\<close>

definition bounded_time :: "int \<Rightarrow> int \<Rightarrow> int" where
  "bounded_time defaultVal value =
    (if value \<ge> 0 \<and> value \<le> MIN_DISPLAY_OFF_TIME_MS then defaultVal else value)"

definition bounded_setting :: "env \<Rightarrow> string \<Rightarrow> int \<Rightarrow> int M" where
  "bounded_setting E key defaultVal = do {
     value \<leftarrow> GetSettingLongValue E key defaultVal;
     State_Monad.return (bounded_time defaultVal value) }"

definition GetSettingDisplayAcScreenOffTime :: "env \<Rightarrow> int \<Rightarrow> int M" where
  "GetSettingDisplayAcScreenOffTime E = bounded_setting E SETTING_DISPLAY_AC_OFF_TIME_KEY"

definition GetSettingDisplayDcScreenOffTime :: "env \<Rightarrow> int \<Rightarrow> int M" where
  "GetSettingDisplayDcScreenOffTime E = bounded_setting E SETTING_DISPLAY_DC_OFF_TIME_KEY"

definition GetSettingPowerAcSleepTime :: "env \<Rightarrow> int \<Rightarrow> int M" where
  "GetSettingPowerAcSleepTime E = bounded_setting E SETTING_POWER_AC_SLEEP_TIME_KEY"

definition GetSettingPowerDcSleepTime :: "env \<Rightarrow> int \<Rightarrow> int M" where
  "GetSettingPowerDcSleepTime E = bounded_setting E SETTING_POWER_DC_SLEEP_TIME_KEY"

definition GetSettingAcScreenSaverTime :: "env \<Rightarrow> int \<Rightarrow> int M" where
  "GetSettingAcScreenSaverTime E = bounded_setting E SETTING_AC_SCREEN_SAVER_TIME_KEY"

definition GetSettingDcScreenSaverTime :: "env \<Rightarrow> int \<Rightarrow> int M" where
  "GetSettingDcScreenSaverTime E = bounded_setting E SETTING_DC_SCREEN_SAVER_TIME_KEY"

definition HelperGetSettingDisplayOffTime :: "env \<Rightarrow> int \<Rightarrow> int M" where
  "HelperGetSettingDisplayOffTime E defaultVal = do {
     value \<leftarrow> GetSettingLongValue E SETTING_DISPLAY_OFF_TIME_KEY defaultVal;
     State_Monad.return
       (if F_DISABLE_AUTO_DISPLAYOFF E \<and> boolParameter E ''const.settings.screen_never_sleep'' False \<and> value < 0
        then value
        else if value \<le> MIN_DISPLAY_OFF_TIME_MS then defaultVal else value) }"

definition SetSettingDisplayAcScreenOffTime :: "env \<Rightarrow> int \<Rightarrow> unit M" where
  "SetSettingDisplayAcScreenOffTime E = SetSettingLongValue E SETTING_DISPLAY_AC_OFF_TIME_KEY"

definition SetSettingDisplayDcScreenOffTime :: "env \<Rightarrow> int \<Rightarrow> unit M" where
  "SetSettingDisplayDcScreenOffTime E = SetSettingLongValue E SETTING_DISPLAY_DC_OFF_TIME_KEY"

definition SetSettingDisplayOffTime :: "env \<Rightarrow> int \<Rightarrow> unit M" where
  "SetSettingDisplayOffTime E = SetSettingLongValue E SETTING_DISPLAY_OFF_TIME_KEY"

definition IsSettingDisplayAcScreenOffTimeValid :: "env \<Rightarrow> bool M" where
  "IsSettingDisplayAcScreenOffTimeValid E = IsValidKey E SETTING_DISPLAY_AC_OFF_TIME_KEY"

definition IsSettingDisplayDcScreenOffTimeValid :: "env \<Rightarrow> bool M" where
  "IsSettingDisplayDcScreenOffTimeValid E = IsValidKey E SETTING_DISPLAY_DC_OFF_TIME_KEY"

definition both_valid :: "env \<Rightarrow> string \<Rightarrow> string \<Rightarrow> bool M" where
  "both_valid E key1 key2 = do {
     a \<leftarrow> IsValidKey E key1;
     if \<not> a then State_Monad.return False else IsValidKey E key2 }"

definition IsDisplayOffTimeSettingValid :: "env \<Rightarrow> bool M" where
  "IsDisplayOffTimeSettingValid E =
    (if F_CHARGING_TYPE E then both_valid E SETTING_DISPLAY_AC_OFF_TIME_KEY SETTING_DISPLAY_DC_OFF_TIME_KEY
     else IsValidKey E SETTING_DISPLAY_OFF_TIME_KEY)"

section \<open>Switches\<close>

definition IsAutoAdjustBrightnessSettingValid :: "env \<Rightarrow> bool M" where
  "IsAutoAdjustBrightnessSettingValid E = IsValidKey E SETTING_AUTO_ADJUST_BRIGHTNESS_KEY"
definition GetSettingAutoAdjustBrightness :: "env \<Rightarrow> int \<Rightarrow> int M" where
  "GetSettingAutoAdjustBrightness E = GetSettingIntValue E SETTING_AUTO_ADJUST_BRIGHTNESS_KEY"
definition SetSettingAutoAdjustBrightness :: "env \<Rightarrow> int \<Rightarrow> unit M" where
  "SetSettingAutoAdjustBrightness E = SetSettingIntValue E SETTING_AUTO_ADJUST_BRIGHTNESS_KEY"
definition RegisterSettingAutoAdjustBrightnessObserver :: "env \<Rightarrow> bool M" where
  "RegisterSettingAutoAdjustBrightnessObserver E = RegisterSettingKeyObserver E SETTING_AUTO_ADJUST_BRIGHTNESS_KEY"

definition IsBrightnessSettingValid :: "env \<Rightarrow> bool M" where
  "IsBrightnessSettingValid E = IsValidKey E SETTING_BRIGHTNESS_KEY"
definition SetSettingBrightness :: "env \<Rightarrow> int \<Rightarrow> unit M" where
  "SetSettingBrightness E = SetSettingIntValue E SETTING_BRIGHTNESS_KEY"

definition IsVibrationSettingValid :: "env \<Rightarrow> bool M" where
  "IsVibrationSettingValid E = IsValidKey E SETTING_VIBRATION_KEY"
definition GetSettingVibration :: "env \<Rightarrow> int \<Rightarrow> int M" where
  "GetSettingVibration E = GetSettingIntValue E SETTING_VIBRATION_KEY"
definition SetSettingVibration :: "env \<Rightarrow> int \<Rightarrow> unit M" where
  "SetSettingVibration E = SetSettingIntValue E SETTING_VIBRATION_KEY"
definition RegisterSettingVibrationObserver :: "env \<Rightarrow> bool M" where
  "RegisterSettingVibrationObserver E = RegisterSettingKeyObserver E SETTING_VIBRATION_KEY"

definition IsWindowRotationSettingValid :: "env \<Rightarrow> bool M" where
  "IsWindowRotationSettingValid E = IsValidKey E SETTING_WINDOW_ROTATION_KEY"
definition GetSettingWindowRotation :: "env \<Rightarrow> int \<Rightarrow> int M" where
  "GetSettingWindowRotation E = GetSettingIntValue E SETTING_WINDOW_ROTATION_KEY"
definition SetSettingWindowRotation :: "env \<Rightarrow> int \<Rightarrow> unit M" where
  "SetSettingWindowRotation E = SetSettingIntValue E SETTING_WINDOW_ROTATION_KEY"
definition RegisterSettingWindowRotationObserver :: "env \<Rightarrow> bool M" where
  "RegisterSettingWindowRotationObserver E = RegisterSettingKeyObserver E SETTING_WINDOW_ROTATION_KEY"

definition IsIntellVoiceSettingValid :: "env \<Rightarrow> bool M" where
  "IsIntellVoiceSettingValid E = IsValidKey E SETTING_INTELL_VOICE_KEY"
definition GetSettingIntellVoice :: "env \<Rightarrow> int \<Rightarrow> int M" where
  "GetSettingIntellVoice E = GetSettingIntValue E SETTING_INTELL_VOICE_KEY"
definition SetSettingIntellVoice :: "env \<Rightarrow> int \<Rightarrow> unit M" where
  "SetSettingIntellVoice E = SetSettingIntValue E SETTING_INTELL_VOICE_KEY"
definition RegisterSettingIntellVoiceObserver :: "env \<Rightarrow> bool M" where
  "RegisterSettingIntellVoiceObserver E = RegisterSettingKeyObserver E SETTING_INTELL_VOICE_KEY"

section \<open>Suspend and wakeup sources\<close>

definition IsSettingAcSuspendSourcesValid :: "env \<Rightarrow> bool M" where
  "IsSettingAcSuspendSourcesValid E = IsValidKey E SETTING_POWER_AC_SUSPEND_SOURCES_KEY"
definition GetSettingAcSuspendSources :: "env \<Rightarrow> string M" where
  "GetSettingAcSuspendSources E = GetSettingStringValue E SETTING_POWER_AC_SUSPEND_SOURCES_KEY"
definition SetSettingAcSuspendSources :: "env \<Rightarrow> string \<Rightarrow> unit M" where
  "SetSettingAcSuspendSources E = SetSettingJsonStringValue E SETTING_POWER_AC_SUSPEND_SOURCES_KEY"
definition IsSettingDcSuspendSourcesValid :: "env \<Rightarrow> bool M" where
  "IsSettingDcSuspendSourcesValid E = IsValidKey E SETTING_POWER_DC_SUSPEND_SOURCES_KEY"
definition GetSettingDcSuspendSources :: "env \<Rightarrow> string M" where
  "GetSettingDcSuspendSources E = GetSettingStringValue E SETTING_POWER_DC_SUSPEND_SOURCES_KEY"
definition SetSettingDcSuspendSources :: "env \<Rightarrow> string \<Rightarrow> unit M" where
  "SetSettingDcSuspendSources E = SetSettingJsonStringValue E SETTING_POWER_DC_SUSPEND_SOURCES_KEY"

definition IsSuspendSourcesSettingValid :: "env \<Rightarrow> bool M" where
  "IsSuspendSourcesSettingValid E =
    (if F_CHARGING_TYPE E then both_valid E SETTING_POWER_AC_SUSPEND_SOURCES_KEY SETTING_POWER_DC_SUSPEND_SOURCES_KEY
     else IsValidKey E SETTING_POWER_SUSPEND_SOURCES_KEY)"
definition GetSettingSuspendSources :: "env \<Rightarrow> string M" where
  "GetSettingSuspendSources E = GetSettingStringValue E SETTING_POWER_SUSPEND_SOURCES_KEY"
definition SetSettingSuspendSources :: "env \<Rightarrow> string \<Rightarrow> unit M" where
  "SetSettingSuspendSources E = SetSettingJsonStringValue E SETTING_POWER_SUSPEND_SOURCES_KEY"

definition IsWakeupSourcesSettingValid :: "env \<Rightarrow> bool M" where
  "IsWakeupSourcesSettingValid E = IsValidKey E SETTING_POWER_WAKEUP_SOURCES_KEY"
definition GetSettingWakeupSources :: "env \<Rightarrow> string M" where
  "GetSettingWakeupSources E = GetSettingStringValue E SETTING_POWER_WAKEUP_SOURCES_KEY"
definition SetSettingWakeupSources :: "env \<Rightarrow> string \<Rightarrow> unit M" where
  "SetSettingWakeupSources E = SetSettingJsonStringValue E SETTING_POWER_WAKEUP_SOURCES_KEY"

section \<open>Gestures, lid and calls\<close>

definition enable_value :: "bool \<Rightarrow> int" where
  "enable_value enable = (if enable then WAKEUP_SOURCE_OPEN else WAKEUP_SOURCE_CLOSE)"

definition IsWakeupPickupSettingValid :: "env \<Rightarrow> bool M" where
  "IsWakeupPickupSettingValid E = IsValidKey E SETTING_POWER_WAKEUP_PICKUP_KEY"

definition GetSettingWakeupPickup :: "env \<Rightarrow> string \<Rightarrow> bool M" where
  "GetSettingWakeupPickup E key = do {
     r \<leftarrow> GetIntValue E key; State_Monad.return (or_default 0 r = WAKEUP_SOURCE_OPEN) }"

definition SetSettingWakeupPickup :: "env \<Rightarrow> bool \<Rightarrow> unit M" where
  "SetSettingWakeupPickup E enable = SetSettingIntValue E SETTING_POWER_WAKEUP_PICKUP_KEY (enable_value enable)"

definition IsWakeupDoubleSettingValid :: "env \<Rightarrow> bool M" where
  "IsWakeupDoubleSettingValid E = IsValidKey E SETTING_POWER_WAKEUP_DOUBLE_KEY"

text \<open>Here the local variable has no initial value: on an error any number is compared.\<close>

definition GetSettingWakeupDouble :: "env \<Rightarrow> string \<Rightarrow> bool M" where
  "GetSettingWakeupDouble E key = do {
     garbage \<leftarrow> ask_int E (Settings UninitialisedInt);
     r \<leftarrow> GetIntValue E key;
     State_Monad.return (or_default garbage r = WAKEUP_SOURCE_OPEN) }"

definition SetSettingWakeupDouble :: "env \<Rightarrow> bool \<Rightarrow> unit M" where
  "SetSettingWakeupDouble E enable = SetSettingIntValue E SETTING_POWER_WAKEUP_DOUBLE_KEY (enable_value enable)"

definition IsWakeupLidSettingValid :: "env \<Rightarrow> bool M" where
  "IsWakeupLidSettingValid E = IsValidKey E SETTING_POWER_WAKEUP_LID_KEY"

definition GetSettingWakeupLid :: "env \<Rightarrow> bool M" where
  "GetSettingWakeupLid E = do {
     valid \<leftarrow> IsWakeupLidSettingValid E;
     if \<not> valid then State_Monad.return False
     else do {
       r \<leftarrow> GetIntValue E SETTING_POWER_WAKEUP_LID_KEY;
       State_Monad.return (or_default 0 r = WAKEUP_SOURCE_OPEN) } }"

definition SetSettingWakeupLid :: "env \<Rightarrow> bool \<Rightarrow> unit M" where
  "SetSettingWakeupLid E enable = SetSettingIntValue E SETTING_POWER_WAKEUP_LID_KEY (enable_value enable)"

definition GetSettingDuringCallState :: "env \<Rightarrow> string \<Rightarrow> bool M" where
  "GetSettingDuringCallState E key = do {
     r \<leftarrow> GetBoolValue E key; State_Monad.return (or_default False r) }"

definition GetBlockLongPress :: "env \<Rightarrow> string M" where
  "GetBlockLongPress E = do {
     r \<leftarrow> GetStringValue E SETTING_POWER_BLOCK_LONG_PRESS_KEY; State_Monad.return (or_default [] r) }"

section \<open>Observers the helper keeps\<close>

definition RegisterSettingWakeupPickupObserver :: "env \<Rightarrow> unit M" where
  "RegisterSettingWakeupPickupObserver E = do {
     s \<leftarrow> gets stg;
     if pickUpObserver s then skip
     else do {
       ok \<leftarrow> RegisterSettingKeyObserver E SETTING_POWER_WAKEUP_PICKUP_KEY;
       mod_stg (\<lambda>s. s\<lparr>pickUpObserver := ok\<rparr>) } }"

definition UnregisterSettingWakeupPickupObserver :: "env \<Rightarrow> unit M" where
  "UnregisterSettingWakeupPickupObserver E = do {
     s \<leftarrow> gets stg;
     whenM (pickUpObserver s) (do {
       UnregisterSettingObserver E SETTING_POWER_WAKEUP_PICKUP_KEY True;
       mod_stg (\<lambda>s. s\<lparr>pickUpObserver := False\<rparr>) }) }"

definition RegisterSettingWakeupDoubleObserver :: "env \<Rightarrow> unit M" where
  "RegisterSettingWakeupDoubleObserver E = do {
     s \<leftarrow> gets stg;
     if doubleClickObserver s then skip
     else do {
       ok \<leftarrow> RegisterSettingKeyObserver E SETTING_POWER_WAKEUP_DOUBLE_KEY;
       mod_stg (\<lambda>s. s\<lparr>doubleClickObserver := ok\<rparr>) } }"

definition UnregisterSettingWakeupDoubleObserver :: "env \<Rightarrow> unit M" where
  "UnregisterSettingWakeupDoubleObserver E = do {
     s \<leftarrow> gets stg;
     whenM (doubleClickObserver s) (do {
       UnregisterSettingObserver E SETTING_POWER_WAKEUP_DOUBLE_KEY True;
       mod_stg (\<lambda>s. s\<lparr>doubleClickObserver := False\<rparr>) }) }"

definition RegisterSettingPowerModeObserver :: "env \<Rightarrow> unit M" where
  "RegisterSettingPowerModeObserver E = do {
     s \<leftarrow> gets stg;
     if powerModeObserver s then skip
     else do {
       ok \<leftarrow> RegisterSettingKeyObserver E SETTING_POWER_MODE_KEY;
       mod_stg (\<lambda>s. s\<lparr>powerModeObserver := ok\<rparr>) } }"

definition UnRegisterSettingPowerModeObserver :: "env \<Rightarrow> unit M" where
  "UnRegisterSettingPowerModeObserver E = do {
     s \<leftarrow> gets stg;
     whenM (powerModeObserver s) (do {
       _ \<leftarrow> UnregisterObserver E SETTING_POWER_MODE_KEY;
       mod_stg (\<lambda>s. s\<lparr>powerModeObserver := False\<rparr>) }) }"

definition RegisterSettingDuringCallObserver :: "env \<Rightarrow> unit M" where
  "RegisterSettingDuringCallObserver E = do {
     s \<leftarrow> gets stg;
     if duringCallObserver s then skip
     else do {
       ok \<leftarrow> RegisterSettingKeyObserver E SETTING_DURING_CALL_STATE_KEY;
       mod_stg (\<lambda>s. s\<lparr>duringCallObserver := ok\<rparr>) } }"

definition UnRegisterSettingDuringCallObserver :: "env \<Rightarrow> unit M" where
  "UnRegisterSettingDuringCallObserver E = do {
     s \<leftarrow> gets stg;
     whenM (duringCallObserver s) (do {
       _ \<leftarrow> UnregisterObserver E SETTING_DURING_CALL_STATE_KEY;
       mod_stg (\<lambda>s. s\<lparr>duringCallObserver := False\<rparr>) }) }"

definition RegisterSettingWakeupLidObserver :: "env \<Rightarrow> unit M" where
  "RegisterSettingWakeupLidObserver E = do {
     valid \<leftarrow> IsWakeupLidSettingValid E;
     whenM valid (do {
       ok \<leftarrow> RegisterSettingKeyObserver E SETTING_POWER_WAKEUP_LID_KEY;
       mod_stg (\<lambda>s. s\<lparr>lidObserver := ok\<rparr>) }) }"

definition UnRegisterSettingWakeupLidObserver :: "env \<Rightarrow> unit M" where
  "UnRegisterSettingWakeupLidObserver E = do {
     s \<leftarrow> gets stg;
     if \<not> lidObserver s then skip
     else do {
       valid \<leftarrow> IsWakeupLidSettingValid E;
       whenM valid (do {
         _ \<leftarrow> UnregisterObserver E SETTING_POWER_WAKEUP_LID_KEY;
         mod_stg (\<lambda>s. s\<lparr>lidObserver := False\<rparr>) }) } }"

section \<open>Power mode\<close>

definition SaveCurrentMode :: "env \<Rightarrow> int \<Rightarrow> unit M" where
  "SaveCurrentMode E = SetSettingIntValue E SETTING_POWER_MODE_KEY"
definition ReadCurrentMode :: "env \<Rightarrow> int \<Rightarrow> int M" where
  "ReadCurrentMode E = GetSettingIntValueWithRetry E SETTING_POWER_MODE_KEY"
definition SaveCurrentSubMode :: "env \<Rightarrow> int \<Rightarrow> unit M" where
  "SaveCurrentSubMode E = SetSettingIntValue E SETTING_POWER_SUB_MODE_KEY"
definition ReadCurrentSubMode :: "env \<Rightarrow> int \<Rightarrow> int M" where
  "ReadCurrentSubMode E = GetSettingIntValueWithRetry E SETTING_POWER_SUB_MODE_KEY"
definition ReadPowerModeRecoverMap :: "env \<Rightarrow> string M" where
  "ReadPowerModeRecoverMap E = GetSettingStringValueWithRetry E SETTING_POWER_MODE_BACKUP_KEY []"
definition HelperSavePowerModeRecoverMap :: "env \<Rightarrow> string \<Rightarrow> unit M" where
  "HelperSavePowerModeRecoverMap E = SetSettingJsonStringValue E SETTING_POWER_MODE_BACKUP_KEY"

section \<open>Observers that the caller keeps\<close>

definition RegisterSettingDisplayOffTimeObserver :: "env \<Rightarrow> bool M" where
  "RegisterSettingDisplayOffTimeObserver E = RegisterSettingKeyObserver E SETTING_DISPLAY_OFF_TIME_KEY"
definition RegisterSettingDisplayAcScreenOffTimeObserver :: "env \<Rightarrow> bool M" where
  "RegisterSettingDisplayAcScreenOffTimeObserver E = RegisterSettingKeyObserver E SETTING_DISPLAY_AC_OFF_TIME_KEY"
definition RegisterSettingDisplayDcScreenOffTimeObserver :: "env \<Rightarrow> bool M" where
  "RegisterSettingDisplayDcScreenOffTimeObserver E = RegisterSettingKeyObserver E SETTING_DISPLAY_DC_OFF_TIME_KEY"
definition RegisterSettingSuspendSourcesObserver :: "env \<Rightarrow> bool M" where
  "RegisterSettingSuspendSourcesObserver E = RegisterSettingKeyObserver E SETTING_POWER_SUSPEND_SOURCES_KEY"
definition RegisterSettingAcSuspendSourcesObserver :: "env \<Rightarrow> bool M" where
  "RegisterSettingAcSuspendSourcesObserver E = RegisterSettingKeyObserver E SETTING_POWER_AC_SUSPEND_SOURCES_KEY"
definition RegisterSettingDcSuspendSourcesObserver :: "env \<Rightarrow> bool M" where
  "RegisterSettingDcSuspendSourcesObserver E = RegisterSettingKeyObserver E SETTING_POWER_DC_SUSPEND_SOURCES_KEY"
definition RegisterSettingWakeupSourcesObserver :: "env \<Rightarrow> bool M" where
  "RegisterSettingWakeupSourcesObserver E = RegisterSettingKeyObserver E SETTING_POWER_WAKEUP_SOURCES_KEY"
definition RegisterSettingAcScreenSaverTimeObserver :: "env \<Rightarrow> bool M" where
  "RegisterSettingAcScreenSaverTimeObserver E = RegisterSettingKeyObserver E SETTING_AC_SCREEN_SAVER_TIME_KEY"
definition RegisterSettingDcScreenSaverTimeObserver :: "env \<Rightarrow> bool M" where
  "RegisterSettingDcScreenSaverTimeObserver E = RegisterSettingKeyObserver E SETTING_DC_SCREEN_SAVER_TIME_KEY"

section \<open>Frames\<close>

lemma keeps_retry: "keeps f get \<Longrightarrow> keeps f (retry n get r)"
  by (induction n arbitrary: r) (auto intro!: keeps_intros)

lemma keeps_setting_values_settings:
  assumes "ig_settings f"
  shows "keeps f (GetSettingIntValue E key d)" "keeps f (GetSettingIntValueWithRetry E key d)"
    "keeps f (SetSettingIntValue E key i)" "keeps f (GetSettingLongValue E key d)"
    "keeps f (SetSettingLongValue E key i)" "keeps f (GetSettingStringValue E key)"
    "keeps f (GetSettingStringValueWithRetry E key s)" "keeps f (SetSettingJsonStringValue E key s)"
    "keeps f (RegisterSettingKeyObserver E key)" "keeps f (UnregisterSettingObserver E key b)"
    "keeps f (bounded_setting E key d)"
  using assms
  by (auto simp: GetSettingIntValue_def GetSettingIntValueWithRetry_def SetSettingIntValue_def
      GetSettingLongValue_def SetSettingLongValue_def GetSettingStringValue_def GetSettingStringValueWithRetry_def
      SetSettingJsonStringValue_def RegisterSettingKeyObserver_def UnregisterSettingObserver_def bounded_setting_def
      intro!: keeps_intros keeps_retry keeps_provider_settings keeps_provider_values_settings)

lemma keeps_setting_times_settings:
  assumes "ig_settings f"
  shows "keeps f (HelperGetSettingDisplayOffTime E d)" "keeps f (SetSettingDisplayOffTime E d)"
    "keeps f (GetSettingDisplayAcScreenOffTime E d)" "keeps f (GetSettingDisplayDcScreenOffTime E d)"
    "keeps f (SetSettingDisplayAcScreenOffTime E d)" "keeps f (SetSettingDisplayDcScreenOffTime E d)"
    "keeps f (GetSettingPowerAcSleepTime E d)" "keeps f (GetSettingPowerDcSleepTime E d)"
    "keeps f (GetSettingAcScreenSaverTime E d)" "keeps f (GetSettingDcScreenSaverTime E d)"
  using assms
  by (auto simp: HelperGetSettingDisplayOffTime_def SetSettingDisplayOffTime_def
      GetSettingDisplayAcScreenOffTime_def GetSettingDisplayDcScreenOffTime_def
      SetSettingDisplayAcScreenOffTime_def SetSettingDisplayDcScreenOffTime_def
      GetSettingPowerAcSleepTime_def GetSettingPowerDcSleepTime_def GetSettingAcScreenSaverTime_def
      GetSettingDcScreenSaverTime_def intro!: keeps_intros keeps_setting_values_settings)

lemmas keeps_setting_values [keeps_intros] = keeps_setting_values_settings [OF ig_quiet_settings]
lemmas keeps_setting_times [keeps_intros] = keeps_setting_times_settings [OF ig_quiet_settings]

end
