(* ===== verification/Mode_Policy.thy ===== *)
theory Mode_Policy
  imports Setting_Helper
begin

text \<open>
  \<open>PowerModePolicy\<close> (\<open>services/native/src/power_mode_policy.cpp\<close>) and \<open>PowerSaveMode\<close>
  (\<open>services/native/src/power_save_mode.cpp\<close>): the values that a power mode gives to the settings of the
  device, and the values to go back to.  \<open>switchMap\<close> holds what the current mode wants, \<open>recoverMap\<close> the
  values that the user had and \<open>backupMap\<close> the ones found on entering the mode.  The maps are
  \<open>std::map\<close>s, sorted association lists; keys are \<open>uint32_t\<close>, naturals below \<open>2 ^ 32\<close>.

  The configuration file is parsed by \<open>libxml2\<close>; its result, the policy of every mode, is
  the field \<open>policyCache\<close>.  \<open>cJSON\<close> is a parameter of the model, in both directions.
\<close>

section \<open>Kinds of settings\<close>

definition DISPLAY_OFFTIME :: nat where "DISPLAY_OFFTIME = 101"
definition SLEEPTIME :: nat where "SLEEPTIME = 102"
definition AUTO_ADJUST_BRIGHTNESS :: nat where "AUTO_ADJUST_BRIGHTNESS = 103"
definition INTELL_VOICE :: nat where "INTELL_VOICE = 105"
definition AUTO_WINDOWN_RORATION :: nat where "AUTO_WINDOWN_RORATION = 107"
definition LCD_BRIGHTNESS :: nat where "LCD_BRIGHTNESS = 115"
definition VIBRATORS_STATE :: nat where "VIBRATORS_STATE = 120"
definition SOC_PERF :: nat where "SOC_PERF = 121"

lemmas service_types = DISPLAY_OFFTIME_def SLEEPTIME_def AUTO_ADJUST_BRIGHTNESS_def INTELL_VOICE_def
  AUTO_WINDOWN_RORATION_def LCD_BRIGHTNESS_def VIBRATORS_STATE_def SOC_PERF_def

definition INIT_VALUE_FALSE :: int where "INIT_VALUE_FALSE = -2"
definition RETURN_FLAG_FALSE :: int where "RETURN_FLAG_FALSE = -1"
definition RECOVER :: int where "RECOVER = 1"

section \<open>Maps as the code uses them\<close>

text \<open>\<open>m[k]\<close> creates the entry with value 0 when it is missing.\<close>

definition omap_touch :: "nat \<Rightarrow> (nat \<times> int) list \<Rightarrow> (nat \<times> int) list" where
  "omap_touch k m = omap_emplace k 0 m"

section \<open>The values to go back to\<close>

definition recover_json :: "(nat \<times> int) list \<Rightarrow> Json" where
  "recover_json m = JObject (map (\<lambda>(k, v). (to_string (int k), JNumber v)) m)"

definition SavePowerModeRecoverMap :: "env \<Rightarrow> unit M" where
  "SavePowerModeRecoverMap E = do {
     m \<leftarrow> gets (\<lambda>w. recoverMap (pmode w));
     case cjsonPrint E (recover_json m) of
       None \<Rightarrow> skip
     | Some jsonConfig \<Rightarrow> HelperSavePowerModeRecoverMap E jsonConfig }"

definition RemoveBackupMapSettingSwitch :: "env \<Rightarrow> nat \<Rightarrow> unit M" where
  "RemoveBackupMapSettingSwitch E switchId = do {
     m \<leftarrow> gets (\<lambda>w. recoverMap (pmode w));
     whenM (map_of m switchId \<noteq> None) (do {
       mod_pmode (\<lambda>s. s\<lparr>recoverMap := omap_erase switchId (recoverMap s)\<rparr>);
       SavePowerModeRecoverMap E }) }"

text \<open>
  One member of the document.  The key is read by \<open>strtol\<close>, a \<open>long\<close> of 64 bits, and cut to 32; a
  number out of the range of \<open>long\<close> is cut to \<open>-1\<close> or \<open>0\<close>, so that the test for \<open>INT_MAX\<close> and \<open>INT_MIN\<close>
  never succeeds.  The index of \<open>recoverMap_\<close> is unsigned.
\<close>

definition recover_key :: "string \<Rightarrow> int option" where
  "recover_key keyStr =
    (let (number, rest) = strtoll keyStr; key = wrap32 number;
         erange = (number = 2 ^ 63 - 1 \<or> number = - (2 ^ 63))
     in if rest = keyStr then None
        else if erange \<and> (key = 2 ^ 31 - 1 \<or> key = - (2 ^ 31)) then None
        else if rest \<noteq> [] then None
        else Some key)"

definition recover_item :: "string \<times> Json \<Rightarrow> (nat \<times> int) list \<Rightarrow> (nat \<times> int) list" where
  "recover_item item m = (case item of (keyStr, v) \<Rightarrow>
     (case v of JNumber value \<Rightarrow>
        (case recover_key keyStr of
           None \<Rightarrow> m
         | Some key \<Rightarrow> omap_set (nat (key mod 2 ^ 32)) value m)
      | _ \<Rightarrow> m))"

text \<open>The elements of an array have no key and are passed over.\<close>

definition ParseRecoverJson :: "env \<Rightarrow> string \<Rightarrow> bool M" where
  "ParseRecoverJson E jsonStr = (case cjsonParse E (c_str jsonStr) of
     None \<Rightarrow> State_Monad.return False
   | Some (JObject items) \<Rightarrow> do {
       mod_pmode (\<lambda>s. s\<lparr>recoverMap := fold recover_item items (recoverMap s)\<rparr>);
       State_Monad.return True }
   | Some (JArray _) \<Rightarrow> State_Monad.return True
   | Some _ \<Rightarrow> State_Monad.return False)"

definition InitRecoverMap :: "env \<Rightarrow> bool M" where
  "InitRecoverMap E = do { jsonStr \<leftarrow> ReadPowerModeRecoverMap E; ParseRecoverJson E jsonStr }"

section \<open>The values of a mode\<close>

text \<open>
  The loop over \<open>recoverMap_\<close>: a value to go back to that the new mode overrides stays to be gone back
  to, one that the new mode says nothing about becomes what the mode wants.
\<close>

definition compare_step :: "nat \<times> int \<Rightarrow> pmode_state \<Rightarrow> pmode_state" where
  "compare_step e s = (case e of (i, v) \<Rightarrow>
     (if map_of (switchMap s) i \<noteq> None then s\<lparr>backupMap := omap_set i v (backupMap s)\<rparr> else s)
       \<lparr>switchMap := omap_emplace i v (switchMap s)\<rparr>)"

definition compare_maps :: "pmode_state \<Rightarrow> pmode_state" where
  "compare_maps s = (let s' = fold compare_step (recoverMap s) s in s'\<lparr>recoverMap := backupMap s'\<rparr>)"

definition ComparePowerModePolicy :: "env \<Rightarrow> unit M" where
  "ComparePowerModePolicy E = do { mod_pmode compare_maps; SavePowerModeRecoverMap E }"

definition GetPolicyFromMap :: "nat \<Rightarrow> int M" where
  "GetPolicyFromMap type = gets (\<lambda>w.
     case map_of (switchMap (pmode w)) type of None \<Rightarrow> INIT_VALUE_FALSE | Some v \<Rightarrow> v)"

text \<open>\<open>policyCache_[mode]\<close> creates an empty policy when there is none for the mode.\<close>

definition PowerSaveMode_GetSleepTime :: "int \<Rightarrow> int M" where
  "PowerSaveMode_GetSleepTime mode = do {
     cache \<leftarrow> gets (\<lambda>w. policyCache (pmode w));
     if cache = [] then State_Monad.return RETURN_FLAG_FALSE
     else do {
       mod_pmode (\<lambda>s. s\<lparr>policyCache := omap_emplace mode [] (policyCache s)\<rparr>);
       list \<leftarrow> gets (\<lambda>w. case map_of (policyCache (pmode w)) mode of None \<Rightarrow> [] | Some l \<Rightarrow> l);
       State_Monad.return (case filter (\<lambda>p. policyId p = SLEEPTIME) list of
         [] \<Rightarrow> RETURN_FLAG_FALSE | p # _ \<Rightarrow> policyValue p) } }"

section \<open>Frames\<close>

lemma keeps_RemoveBackup [keeps_intros]:
  assumes "ig_quiet f" "\<And>w x. f (w\<lparr>pmode := x\<rparr>) = f w"
  shows "keeps f (RemoveBackupMapSettingSwitch E i)"
  using assms
  by (auto simp: RemoveBackupMapSettingSwitch_def SavePowerModeRecoverMap_def HelperSavePowerModeRecoverMap_def
      intro!: keeps_intros)

end
