(* ===== verification/Screen_Off_Pre.thy ===== *)
theory Screen_Off_Pre
  imports Ffrt_Timer
begin

text \<open>
  \<open>ScreenOffPreController\<close> (\<open>services/native/src/screenoffpre/screen_off_pre_controller.cpp\<close>): clients that
  want a warning some time before the screen goes dark.  One delayed task is pending at a time; it
  is moved whenever the state machine restarts its own timer.  The part that needs the state machine, the
  registration, is in theory \<open>Service_Events\<close>.
\<close>

definition SCREEN_OFF_PRE_STATE :: nat where "SCREEN_OFF_PRE_STATE = 1"

definition PreMgr_AddCallback :: "obj option \<Rightarrow> unit M" where
  "PreMgr_AddCallback callback = (case callback of
     None \<Rightarrow> skip
   | Some c \<Rightarrow> do {
       cs \<leftarrow> gets (\<lambda>w. preCallbacks (pre w));
       mod_pre (\<lambda>s. s\<lparr>preCallbacks := oset_insert c (preCallbacks s)\<rparr>);
       whenM (c \<notin> set cs) (log_call (Callback (AddDeathRecipient c))) })"

definition PreMgr_RemoveCallback :: "obj option \<Rightarrow> unit M" where
  "PreMgr_RemoveCallback callback = (case callback of
     None \<Rightarrow> skip
   | Some c \<Rightarrow> do {
       cs \<leftarrow> gets (\<lambda>w. preCallbacks (pre w));
       whenM (c \<in> set cs) (do {
         mod_pre (\<lambda>s. s\<lparr>preCallbacks := oset_erase c (preCallbacks s)\<rparr>);
         log_call (Callback (RemoveDeathRecipient c)) }) })"

definition PreMgr_OnRemoteDied :: "obj option \<Rightarrow> unit M" where
  "PreMgr_OnRemoteDied remote = PreMgr_RemoveCallback remote"

definition PreMgr_Notify :: "env \<Rightarrow> unit M" where
  "PreMgr_Notify E = do {
     cs \<leftarrow> gets (\<lambda>w. preCallbacks (pre w));
     for_each (\<lambda>c. do {
       castable \<leftarrow> ask_bool E (Callback (CastScreenOffPre c));
       whenM castable (log_call (Callback (OnScreenStateChanged c SCREEN_OFF_PRE_STATE))) }) cs }"

definition TriggerCallback :: "env \<Rightarrow> unit M" where
  "TriggerCallback E = PreMgr_Notify E"

definition IsRegistered :: "bool M" where
  "IsRegistered = gets (\<lambda>w. preRegistered (pre w))"

definition DelScreenStateCallback :: "obj option \<Rightarrow> unit M" where
  "DelScreenStateCallback callback = do {
     PreMgr_RemoveCallback callback;
     mod_pre (\<lambda>s. s\<lparr>preRegistered := False\<rparr>) }"

definition Pre_Reset :: "unit M" where
  "Pre_Reset = mod_pre (\<lambda>s. s\<lparr>preQueue := False\<rparr>)"

definition NeedEyeDetectLocked :: "int \<Rightarrow> bool" where
  "NeedEyeDetectLocked nextEyeDetectTime = (\<not> nextEyeDetectTime < 0)"

definition CancelEyeDetectTimeout :: "unit M" where
  "CancelEyeDetectTimeout = do {
     s \<leftarrow> gets pre;
     whenM (preQueue s) (case eyeDetectHandle s of
       None \<Rightarrow> skip | Some h \<Rightarrow> CancelTask SCREEN_OFF_PRE_QUEUE h) }"

text \<open>The delay is an \<open>int64_t\<close> that the queue takes as \<open>uint32_t\<close>.\<close>

definition HandleEyeDetectTimeout :: "env \<Rightarrow> int \<Rightarrow> unit M" where
  "HandleEyeDetectTimeout E delayTime = do {
     s \<leftarrow> gets pre;
     whenM (preQueue s) (do {
       h \<leftarrow> SubmitDelayTask E SCREEN_OFF_PRE_QUEUE TaskEyeDetect (word_of_int delayTime);
       mod_pre (\<lambda>s. s\<lparr>eyeDetectHandle := h\<rparr>) }) }"

definition SchedulEyeDetectTimeout :: "env \<Rightarrow> int \<Rightarrow> int \<Rightarrow> unit M" where
  "SchedulEyeDetectTimeout E nextTimeOut now = do {
     s \<leftarrow> gets pre;
     if preRemainTime s \<le> 0 then skip
     else let nextEyeDetectTime = wrap64 (wrap64 (nextTimeOut - preRemainTime s) - now) in
       whenM (NeedEyeDetectLocked nextEyeDetectTime) (do {
         CancelEyeDetectTimeout;
         HandleEyeDetectTimeout E nextEyeDetectTime }) }"

section \<open>Frames\<close>

lemma keeps_IsRegistered [keeps_intros]: "keeps f IsRegistered"
  by (simp add: IsRegistered_def keeps_gets)

lemma keeps_SchedulEyeDetectTimeout [keeps_intros]:
  "ig_timers f \<Longrightarrow> ig_quiet f \<Longrightarrow> keeps f (SchedulEyeDetectTimeout E t now)"
  unfolding SchedulEyeDetectTimeout_def CancelEyeDetectTimeout_def HandleEyeDetectTimeout_def
    SubmitDelayTask_def CancelTask_def Let_def
  by (auto simp: trace_app ig_timers_def intro!: keeps_intros)

end
