(* ===== verification/State_Base.thy ===== *)
theory State_Base
  imports Suspend_Base Mode_Policy Screen_Off_Pre
begin

text \<open>
  \<open>PowerStateMachine\<close> (\<open>services/native/src/power_state_machine.cpp\<close>): its tables, queries, timers and
  small setters, everything that does not go through \<open>SetState\<close>.
\<close>

section \<open>Tables\<close>

definition DEFAULT_DISPLAY_OFF_TIME_MS :: "env \<Rightarrow> int" where
  "DEFAULT_DISPLAY_OFF_TIME_MS E = (if F_CHARGING_TYPE E then 300000 else 30000)"

definition DEFAULT_SLEEP_TIME_MS :: int where "DEFAULT_SLEEP_TIME_MS = 5000"
definition OFF_TIMEOUT_FACTOR :: int where "OFF_TIMEOUT_FACTOR = 5"
definition MAX_DIM_TIME_MS :: int where "MAX_DIM_TIME_MS = 7500"
definition COORDINATED_STATE_SCREEN_OFF_TIME_MS :: int where
  "COORDINATED_STATE_SCREEN_OFF_TIME_MS = 10000"
definition PRE_BRIGHT_AUTH_TIMER_DELAY_MS :: uint32 where
  "PRE_BRIGHT_AUTH_TIMER_DELAY_MS = 3000"

text \<open>Values of \<open>settingStateFlag_\<close> that are no power state.\<close>

definition FLAG_NONE :: int where "FLAG_NONE = -1"
definition SETTING_DIM_INTERRUPTED :: int where "SETTING_DIM_INTERRUPTED = -2"
definition FORCE_SETTING_DIM :: int where "FORCE_SETTING_DIM = -3"

lemmas flag_defs = FLAG_NONE_def SETTING_DIM_INTERRUPTED_def FORCE_SETTING_DIM_def

text \<open>\<open>lockMap_\<close>: the running locks that block a transition into a state.\<close>

definition lockMap :: "PowerState \<Rightarrow> RunningLockType list option" where
  "lockMap state = (case state of
      AWAKE \<Rightarrow> Some []
    | FREEZE \<Rightarrow> Some []
    | INACTIVE \<Rightarrow> Some [RUNNINGLOCK_SCREEN]
    | STAND_BY \<Rightarrow> Some []
    | DOZE \<Rightarrow> Some []
    | SLEEP \<Rightarrow> Some [RUNNINGLOCK_COORDINATION]
    | HIBERNATE \<Rightarrow> Some []
    | SHUTDOWN \<Rightarrow> Some []
    | DIM \<Rightarrow> None
    | UNKNOWN \<Rightarrow> None)"

text \<open>\<open>forbidMap_\<close> (\<open>InitTransitMap\<close>): the states that must not be entered from a state.\<close>

definition forbidMap :: "env \<Rightarrow> PowerState \<Rightarrow> PowerState list option" where
  "forbidMap E state = (case state of
      AWAKE \<Rightarrow> Some ((if F_S4 E then [SLEEP] else [SLEEP, HIBERNATE]) @
                      (if F_SCREEN_DECOUPLING E then [DIM] else []))
    | INACTIVE \<Rightarrow> Some [DIM]
    | DIM \<Rightarrow> Some [SLEEP]
    | SLEEP \<Rightarrow> Some [DIM]
    | HIBERNATE \<Rightarrow> (if F_S4 E then Some [SLEEP] else None)
    | _ \<Rightarrow> None)"

text \<open>\<open>allowMapByReason_\<close>: for some reasons, the only transitions that are allowed.\<close>

definition allowMapByReason :: "StateChangeReason \<Rightarrow> (PowerState \<Rightarrow> PowerState list option) option" where
  "allowMapByReason reason = (case reason of
      STATE_CHANGE_REASON_REFRESH \<Rightarrow> Some (\<lambda>s. case s of
          DIM \<Rightarrow> Some [AWAKE] | AWAKE \<Rightarrow> Some [AWAKE] | _ \<Rightarrow> None)
    | STATE_CHANGE_REASON_TIMEOUT \<Rightarrow> Some (\<lambda>s. case s of
          AWAKE \<Rightarrow> Some [DIM, INACTIVE] | DIM \<Rightarrow> Some [INACTIVE] | INACTIVE \<Rightarrow> Some [SLEEP] | _ \<Rightarrow> None)
    | STATE_CHANGE_REASON_TIMEOUT_NO_SCREEN_LOCK \<Rightarrow> Some (\<lambda>s. case s of
          DIM \<Rightarrow> Some [INACTIVE] | AWAKE \<Rightarrow> Some [INACTIVE] | _ \<Rightarrow> None)
    | STATE_CHANGE_REASON_ROLLBACK_HIBERNATE \<Rightarrow> Some (\<lambda>s. case s of
          AWAKE \<Rightarrow> Some [INACTIVE] | INACTIVE \<Rightarrow> Some [SLEEP] | HIBERNATE \<Rightarrow> Some [INACTIVE] | _ \<Rightarrow> None)
    | _ \<Rightarrow> None)"

definition is_forbidden :: "env \<Rightarrow> PowerState \<Rightarrow> PowerState \<Rightarrow> bool" where
  "is_forbidden E from to = (case forbidMap E from of None \<Rightarrow> False | Some tos \<Rightarrow> to \<in> set tos)"

definition is_allowed :: "StateChangeReason \<Rightarrow> PowerState \<Rightarrow> PowerState \<Rightarrow> bool" where
  "is_allowed reason from to =
    (case allowMapByReason reason of
       None \<Rightarrow> True
     | Some m \<Rightarrow> (case m from of None \<Rightarrow> False | Some tos \<Rightarrow> to \<in> set tos))"

section \<open>Reasons\<close>

definition IsTimeoutReason :: "StateChangeReason \<Rightarrow> bool" where
  "IsTimeoutReason reason =
    (reason = STATE_CHANGE_REASON_TIMEOUT_NO_SCREEN_LOCK \<or> reason = STATE_CHANGE_REASON_TIMEOUT)"

definition IsPreBrightAuthReason :: "StateChangeReason \<Rightarrow> bool" where
  "IsPreBrightAuthReason reason = (case reason of
      STATE_CHANGE_REASON_PRE_BRIGHT_AUTH_SUCCESS \<Rightarrow> True
    | STATE_CHANGE_REASON_PRE_BRIGHT_AUTH_FAIL_SCREEN_ON \<Rightarrow> True
    | STATE_CHANGE_REASON_PRE_BRIGHT_AUTH_FAIL_SCREEN_OFF \<Rightarrow> True
    | _ \<Rightarrow> False)"

definition IsPreBrightWakeUp :: "WakeupDeviceType \<Rightarrow> bool" where
  "IsPreBrightWakeUp type = (case type of
      WAKEUP_DEVICE_PRE_BRIGHT \<Rightarrow> True
    | WAKEUP_DEVICE_PRE_BRIGHT_AUTH_SUCCESS \<Rightarrow> True
    | WAKEUP_DEVICE_PRE_BRIGHT_AUTH_FAIL_SCREEN_ON \<Rightarrow> True
    | WAKEUP_DEVICE_PRE_BRIGHT_AUTH_FAIL_SCREEN_OFF \<Rightarrow> True
    | _ \<Rightarrow> False)"

definition GetReasonByWakeType :: "WakeupDeviceType \<Rightarrow> StateChangeReason" where
  "GetReasonByWakeType type = (case type of
      WAKEUP_DEVICE_POWER_BUTTON \<Rightarrow> STATE_CHANGE_REASON_POWER_KEY
    | WAKEUP_DEVICE_WAKE_KEY \<Rightarrow> STATE_CHANGE_REASON_HARD_KEY
    | WAKEUP_DEVICE_APPLICATION \<Rightarrow> STATE_CHANGE_REASON_APPLICATION
    | WAKEUP_DEVICE_PLUGGED_IN \<Rightarrow> STATE_CHANGE_REASON_CABLE
    | WAKEUP_DEVICE_HDMI \<Rightarrow> STATE_CHANGE_REASON_CABLE
    | WAKEUP_DEVICE_GESTURE \<Rightarrow> STATE_CHANGE_REASON_TOUCH
    | WAKEUP_DEVICE_CAMERA_LAUNCH \<Rightarrow> STATE_CHANGE_REASON_CAMERA
    | WAKEUP_DEVICE_WAKE_MOTION \<Rightarrow> STATE_CHANGE_REASON_SENSOR
    | WAKEUP_DEVICE_LID \<Rightarrow> STATE_CHANGE_REASON_LID
    | WAKEUP_DEVICE_DOUBLE_CLICK \<Rightarrow> STATE_CHANGE_REASON_DOUBLE_CLICK
    | WAKEUP_DEVICE_PEN \<Rightarrow> STATE_CHANGE_REASON_PEN
    | WAKEUP_DEVICE_KEYBOARD \<Rightarrow> STATE_CHANGE_REASON_KEYBOARD
    | WAKEUP_DEVICE_MOUSE \<Rightarrow> STATE_CHANGE_REASON_MOUSE
    | WAKEUP_DEVICE_SWITCH \<Rightarrow> STATE_CHANGE_REASON_SWITCH
    | WAKEUP_DEVICE_PRE_BRIGHT \<Rightarrow> STATE_CHANGE_REASON_PRE_BRIGHT
    | WAKEUP_DEVICE_PRE_BRIGHT_AUTH_SUCCESS \<Rightarrow> STATE_CHANGE_REASON_PRE_BRIGHT_AUTH_SUCCESS
    | WAKEUP_DEVICE_PRE_BRIGHT_AUTH_FAIL_SCREEN_ON \<Rightarrow> STATE_CHANGE_REASON_PRE_BRIGHT_AUTH_FAIL_SCREEN_ON
    | WAKEUP_DEVICE_PRE_BRIGHT_AUTH_FAIL_SCREEN_OFF \<Rightarrow> STATE_CHANGE_REASON_PRE_BRIGHT_AUTH_FAIL_SCREEN_OFF
    | WAKEUP_DEVICE_AOD_SLIDING \<Rightarrow> STATE_CHANGE_REASON_AOD_SLIDING
    | WAKEUP_DEVICE_INCOMING_CALL \<Rightarrow> STATE_CHANGE_REASON_INCOMING_CALL
    | WAKEUP_DEVICE_SHELL \<Rightarrow> STATE_CHANGE_REASON_SHELL
    | WAKEUP_DEVICE_PICKUP \<Rightarrow> STATE_CHANGE_REASON_PICKUP
    | WAKEUP_DEVICE_EXIT_SYSTEM_STR \<Rightarrow> STATE_CHANGE_REASON_EXIT_SYSTEM_STR
    | WAKEUP_DEVICE_SCREEN_CONNECT \<Rightarrow> STATE_CHANGE_REASON_SCREEN_CONNECT
    | WAKEUP_DEVICE_TP_TOUCH \<Rightarrow> STATE_CHANGE_REASON_TP_TOUCH
    | WAKEUP_DEVICE_EX_SCREEN_INIT \<Rightarrow> STATE_CHANGE_REASON_EX_SCREEN_INIT
    | WAKEUP_DEVICE_ABNORMAL_SCREEN_CONNECT \<Rightarrow> STATE_CHANGE_REASON_ABNORMAL_SCREEN_CONNECT
    | WAKEUP_DEVICE_PLUG_CHANGE \<Rightarrow> STATE_CHANGE_REASON_PLUG_CHANGE
    | WAKEUP_DEVICE_TENT_MODE_CHANGE \<Rightarrow> STATE_CHANGE_REASON_TENT_MODE
    | WAKEUP_DEVICE_END_DREAM \<Rightarrow> STATE_CHANGE_REASON_END_DREAM
    | WAKEUP_DEVICE_BLUETOOTH_INCOMING_CALL \<Rightarrow> STATE_CHANGE_REASON_BLUETOOTH_INCOMING_CALL
    | WAKEUP_DEVICE_FROM_ULSR \<Rightarrow> STATE_CHANGE_REASON_WAKEUP_FROM_ULSR
    | WAKEUP_DEVICE_MESSAGE_NOTIFICATION \<Rightarrow> STATE_CHANGE_REASON_MESSAGE_NOTIFICATION
    | _ \<Rightarrow> STATE_CHANGE_REASON_UNKNOWN)"

definition GetSuspendTypeByReason :: "StateChangeReason \<Rightarrow> SuspendDeviceType" where
  "GetSuspendTypeByReason reason = (case reason of
      STATE_CHANGE_REASON_TIMEOUT \<Rightarrow> SUSPEND_DEVICE_REASON_TIMEOUT
    | STATE_CHANGE_REASON_TIMEOUT_NO_SCREEN_LOCK \<Rightarrow> SUSPEND_DEVICE_REASON_TIMEOUT
    | STATE_CHANGE_REASON_HARD_KEY \<Rightarrow> SUSPEND_DEVICE_REASON_POWER_KEY
    | STATE_CHANGE_REASON_SYSTEM \<Rightarrow> SUSPEND_DEVICE_REASON_FORCE_SUSPEND
    | STATE_CHANGE_REASON_PEOPLE_LEAVING \<Rightarrow> SUSPEND_DEVICE_REASON_PEOPLE_LEAVING
    | _ \<Rightarrow> SUSPEND_DEVICE_REASON_APPLICATION)"

definition MapReasonToBlockType :: "SuspendDeviceType \<Rightarrow> ScreenOffBlockType" where
  "MapReasonToBlockType reason = (case reason of
      SUSPEND_DEVICE_REASON_POWER_KEY \<Rightarrow> BLOCK_POWER_KEY
    | SUSPEND_DEVICE_REASON_LID \<Rightarrow> BLOCK_LID
    | _ \<Rightarrow> BLOCK_NONE)"

definition GetTransitResultString :: "TransitResult \<Rightarrow> string" where
  "GetTransitResultString r = (case r of
      ALREADY_IN_STATE \<Rightarrow> ''Already in the state''
    | LOCKING \<Rightarrow> ''Blocked by running lock''
    | HDI_ERR \<Rightarrow> ''Power HDI error''
    | DISPLAY_ON_ERR \<Rightarrow> ''SetDisplayState(ON) error''
    | DISPLAY_OFF_ERR \<Rightarrow> ''SetDisplayState(OFF) error''
    | FORBID_TRANSIT \<Rightarrow> ''Forbid transit''
    | OTHER_ERR \<Rightarrow> ''Other error''
    | _ \<Rightarrow> ''Unknown error'')"

section \<open>Running locks, as seen by the state machine\<close>

definition GetValidRunningLockNum :: "env \<Rightarrow> RunningLockType \<Rightarrow> nat \<Rightarrow> uint32 M" where
  "GetValidRunningLockNum E type dispId = gets (\<lambda>w.
     if F_LOCK_MULTI_SCREEN E \<and> type = RUNNINGLOCK_SCREEN then
       of_nat (length (filter (\<lambda>e. infoDisplayId (snd e) = dispId \<or>
                                   infoDisplayId (snd e) = RUNNINGLOCK_DISPLAY_ID_ALL)
                              (unSceneLockLists (rlm w))))
     else (case lockCounters (rlm w) type of None \<Rightarrow> 0 | Some c \<Rightarrow> c))"

definition IsProximityClose :: "bool M" where
  "IsProximityClose = gets (\<lambda>w.
     if \<not> pmsWeak (ptrs w) then False
     else if \<not> runningLockMgr (ptrs w) then False
     else proximityClose (rlm w))"

fun anyLockHeld :: "env \<Rightarrow> RunningLockType list \<Rightarrow> bool M" where
  "anyLockHeld E [] = State_Monad.return False"
| "anyLockHeld E (t # ts) = do {
     count \<leftarrow> GetValidRunningLockNum E t RUNNINGLOCK_DISPLAY_ID_ALL;
     if count > 0 then State_Monad.return True else anyLockHeld E ts }"

definition CheckRunningLock :: "env \<Rightarrow> PowerState \<Rightarrow> bool M" where
  "CheckRunningLock E state = do {
     p \<leftarrow> gets ptrs;
     if \<not> pmsWeak p then State_Monad.return False
     else if \<not> runningLockMgr p then State_Monad.return False
     else (case lockMap (if state = DIM then INACTIVE else state) of
         None \<Rightarrow> State_Monad.return True
       | Some locks \<Rightarrow> do {
           held \<leftarrow> anyLockHeld E locks;
           State_Monad.return (\<not> held) }) }"

definition IsRunningLockEnabled :: "env \<Rightarrow> RunningLockType \<Rightarrow> bool M" where
  "IsRunningLockEnabled E type = do {
     p \<leftarrow> gets ptrs;
     if \<not> pmsWeak p then State_Monad.return False
     else if \<not> runningLockMgr p then State_Monad.return False
     else do {
       n \<leftarrow> GetValidRunningLockNum E type RUNNINGLOCK_DISPLAY_ID_ALL;
       State_Monad.return (n > 0) } }"

definition GetReasonBySuspendType :: "env \<Rightarrow> SuspendDeviceType \<Rightarrow> StateChangeReason M" where
  "GetReasonBySuspendType E type = (case type of
      SUSPEND_DEVICE_REASON_APPLICATION \<Rightarrow> State_Monad.return STATE_CHANGE_REASON_APPLICATION
    | SUSPEND_DEVICE_REASON_DEVICE_ADMIN \<Rightarrow> State_Monad.return STATE_CHANGE_REASON_REMOTE
    | SUSPEND_DEVICE_REASON_TIMEOUT \<Rightarrow> do {
        p \<leftarrow> gets psm;
        if enabledTimingOutLockScreen p then
          (if \<not> enabledTimingOutLockScreenCheckLock p
           then State_Monad.return STATE_CHANGE_REASON_TIMEOUT
           else do {
             unlocked \<leftarrow> CheckRunningLock E INACTIVE;
             State_Monad.return (if unlocked then STATE_CHANGE_REASON_TIMEOUT
                                 else STATE_CHANGE_REASON_TIMEOUT_NO_SCREEN_LOCK) })
        else State_Monad.return STATE_CHANGE_REASON_TIMEOUT_NO_SCREEN_LOCK }
    | SUSPEND_DEVICE_REASON_LID \<Rightarrow> State_Monad.return STATE_CHANGE_REASON_LID
    | SUSPEND_DEVICE_REASON_SWITCH \<Rightarrow> State_Monad.return STATE_CHANGE_REASON_SWITCH
    | SUSPEND_DEVICE_REASON_POWER_KEY \<Rightarrow> State_Monad.return STATE_CHANGE_REASON_HARD_KEY
    | SUSPEND_DEVICE_REASON_SLEEP_KEY \<Rightarrow> State_Monad.return STATE_CHANGE_REASON_HARD_KEY
    | SUSPEND_DEVICE_REASON_HDMI \<Rightarrow> State_Monad.return STATE_CHANGE_REASON_CABLE
    | SUSPEND_DEVICE_REASON_ACCESSIBILITY \<Rightarrow> State_Monad.return STATE_CHANGE_REASON_ACCESSIBILITY
    | SUSPEND_DEVICE_REASON_FORCE_SUSPEND \<Rightarrow> State_Monad.return STATE_CHANGE_REASON_SYSTEM
    | SUSPEND_DEVICE_REASON_TP_COVER \<Rightarrow> State_Monad.return STATE_CHANGE_REASON_TP_COVER
    | SUSPEND_DEVICE_REASON_EX_SCREEN_INIT \<Rightarrow> State_Monad.return STATE_CHANGE_REASON_EX_SCREEN_INIT
    | SUSPEND_DEVICE_SWITCH_SENSORHUB \<Rightarrow> State_Monad.return STATE_CHANGE_REASON_SWITCH_SENSORHUB
    | SUSPEND_DEVICE_ROLLBACK_HIBERNATE \<Rightarrow> State_Monad.return STATE_CHANGE_REASON_ROLLBACK_HIBERNATE
    | SUSPEND_DEVICE_START_DREAM \<Rightarrow> State_Monad.return STATE_CHANGE_REASON_START_DREAM
    | SUSPEND_DEVICE_REASON_PEOPLE_LEAVING \<Rightarrow> State_Monad.return STATE_CHANGE_REASON_PEOPLE_LEAVING
    | _ \<Rightarrow> State_Monad.return STATE_CHANGE_REASON_UNKNOWN)"

section \<open>Switch action\<close>

datatype SwitchActionRet = SWITCH_RET_DEFAULT | SWITCH_RET_HANDLED | SWITCH_RET_IS_SCREEN_ON

text \<open>
  \<open>HandleSwitchAction\<close> dispatches to virtual methods.  The base class answers \<open>DEFAULT\<close> for every
  action.  The cases of \<open>DualScreenSwitchAction\<close> that call back into the service are in theory
  \<open>Suspend_Control\<close>; the two that the state machine uses are here.
\<close>

definition DoWakeupInClosedState :: "SwitchActionKind \<Rightarrow> SwitchActionRet" where
  "DoWakeupInClosedState k =
    (if k = SWITCH_ACTION_DUAL_SCREEN then SWITCH_RET_HANDLED else SWITCH_RET_DEFAULT)"

definition DoIsScreenOn :: "env \<Rightarrow> SwitchActionKind \<Rightarrow> SwitchActionRet M" where
  "DoIsScreenOn E k =
    (if k = SWITCH_ACTION_DUAL_SCREEN then do {
       on \<leftarrow> ask_bool E (Window DmsAnyScreenPowered);
       State_Monad.return (if on then SWITCH_RET_IS_SCREEN_ON else SWITCH_RET_HANDLED) }
     else State_Monad.return SWITCH_RET_DEFAULT)"

definition GetExternalScreenNumber :: "int M" where
  "GetExternalScreenNumber = gets (\<lambda>w. let p = psm w in
     if switchAction p \<noteq> SWITCH_ACTION_NULL \<and>
        DoWakeupInClosedState (switchAction p) \<noteq> SWITCH_RET_DEFAULT
     then (if externalScreenNumber p \<le> 0 then 0 else externalScreenNumber p - 1)
     else externalScreenNumber p)"

definition IsOnlySecondDisplayModeSupported :: "env \<Rightarrow> bool" where
  "IsOnlySecondDisplayModeSupported E =
    (and (intParameter E ''const.product.support_display_mode'' 0) 8 > 0)"

definition IsLidEventUsed :: "env \<Rightarrow> bool" where
  "IsLidEventUsed E = (intParameter E ''const.power.lid_type_for_only_external_screen'' 0 = 1)"

section \<open>Queries\<close>

definition GetState :: "PowerState M" where
  "GetState = gets (\<lambda>w. currentState (psm w))"

definition IsSwitchOpen :: "bool M" where
  "IsSwitchOpen = gets (\<lambda>w. switchOpen (psm w))"

definition IsHibernating :: "bool M" where
  "IsHibernating = gets (\<lambda>w. hibernating (psm w))"

definition GetSleepTime :: "int M" where
  "GetSleepTime = gets (\<lambda>w. psmSleepTime (psm w))"

definition GetDisplayOffTime :: "int M" where
  "GetDisplayOffTime = gets (\<lambda>w. displayOffTime (psm w))"

definition IsScreenOn :: "env \<Rightarrow> bool M" where
  "IsScreenOn E =
    (if F_SCREEN_DECOUPLING E then do {
       s \<leftarrow> GetState;
       State_Monad.return (s = AWAKE) }
     else if F_EXTERNAL_SCREEN E then do {
       n \<leftarrow> GetExternalScreenNumber;
       if n > 0 then do {
         powerState \<leftarrow> GetState;
         State_Monad.return (powerState = AWAKE \<or> powerState = DIM) }
       else do {
         displayState \<leftarrow> GetDisplayState E;
         State_Monad.return (displayState = DISPLAY_ON \<or> displayState = DISPLAY_DIM) } }
     else do {
       state \<leftarrow> GetDisplayState E;
       State_Monad.return (state = DISPLAY_ON \<or> state = DISPLAY_DIM) })"

definition IsScreenOnAcqLock :: "env \<Rightarrow> bool M" where
  "IsScreenOnAcqLock E = do {
     state \<leftarrow> GetDisplayState E;
     State_Monad.return (state = DISPLAY_ON \<or> state = DISPLAY_DIM) }"

definition IsStateTurningAwake :: "bool M" where
  "IsStateTurningAwake = gets (\<lambda>w. settingOnStateFlag (psm w))"

definition IsFoldScreenOn :: "env \<Rightarrow> bool M" where
  "IsFoldScreenOn E = do {
     p \<leftarrow> gets psm;
     if settingOnStateFlag p then State_Monad.return True
     else if settingOffStateFlag p then State_Monad.return False
     else do {
       state \<leftarrow> GetDisplayState E;
       State_Monad.return (state = DISPLAY_ON \<or> state = DISPLAY_DIM) } }"

definition IsCollaborationScreenOn :: "bool M" where
  "IsCollaborationScreenOn = gets (\<lambda>w. isAwakeNotified (psm w))"

definition IsSettingState :: "PowerState \<Rightarrow> bool M" where
  "IsSettingState state = gets (\<lambda>w. let flag = settingStateFlag (psm w) in
     if flag = int (PowerState_val state) then True
     else state = DIM \<and> flag = FORCE_SETTING_DIM)"

definition IsSwitchOpenByPath :: "env \<Rightarrow> bool M" where
  "IsSwitchOpenByPath E = do {
     r \<leftarrow> GetPowerConfigInt E ''lid_status'';
     case r of None \<Rightarrow> IsSwitchOpen | Some num \<Rightarrow> State_Monad.return (num \<noteq> 0) }"

definition IsMovementStateOn :: "env \<Rightarrow> bool M" where
  "IsMovementStateOn E = ask_bool E (Sensor MovementState)"

definition IsLidOrSwitchOpen :: "env \<Rightarrow> bool M" where
  "IsLidOrSwitchOpen E =
    (if IsLidEventUsed E then gets (\<lambda>w. \<not> isInLidMode (svc w)) else IsSwitchOpen)"

definition IsWakeupDeviceSkip :: "env \<Rightarrow> bool M" where
  "IsWakeupDeviceSkip E = gets (\<lambda>w.
     let closed = \<not> switchOpen (psm w) \<or> (F_S4 E \<and> hibernating (psm w)) \<or>
                  (pms (ptrs w) \<and> lidCheckEnable (svc w) \<and> isInLidMode (svc w))
     in if closed \<and> switchAction (psm w) \<noteq> SWITCH_ACTION_NULL
        then DoWakeupInClosedState (switchAction (psm w)) = SWITCH_RET_DEFAULT
        else closed)"

definition NeedShowScreenLocks :: "PowerState \<Rightarrow> bool" where
  "NeedShowScreenLocks state = (state = AWAKE \<or> state = INACTIVE \<or> state = DIM)"

text \<open>C++ division of a signed number by a positive one rounds toward zero.\<close>

definition cdiv :: "int \<Rightarrow> int \<Rightarrow> int" where
  "cdiv a b = (if a < 0 then - ((- a) div b) else a div b)"

definition clamp :: "int \<Rightarrow> int \<Rightarrow> int \<Rightarrow> int" where
  "clamp v lo hi = (if v < lo then lo else if hi < v then hi else v)"

definition IsNeverSleepDimEnabled :: "env \<Rightarrow> bool" where
  "IsNeverSleepDimEnabled E = boolParameter E ''const.power.never_sleep_dim_enabled'' False"

definition GetActiveTimeBeforeLongTimeDim :: "env \<Rightarrow> int" where
  "GetActiveTimeBeforeLongTimeDim E = intParameter E ''const.power.active_time_before_long_time_dim'' (-1)"

definition GetDimTime :: "env \<Rightarrow> int \<Rightarrow> int" where
  "GetDimTime E offTime =
    (let dimTime = cdiv offTime OFF_TIMEOUT_FACTOR;
         maxActiveTime = GetActiveTimeBeforeLongTimeDim E
     in if F_LONG_TIME_DIM E \<and> offTime > 0 \<and> maxActiveTime \<ge> 600000 \<and> offTime > maxActiveTime
        then clamp (offTime - maxActiveTime) 0 offTime
        else clamp dimTime 0 MAX_DIM_TIME_MS)"

section \<open>Timers\<close>

datatype DelayEvent =
    CHECK_USER_ACTIVITY_TIMEOUT_MSG
  | CHECK_USER_ACTIVITY_OFF_TIMEOUT_MSG
  | CHECK_PRE_BRIGHT_AUTH_TIMEOUT_MSG
  | CHECK_PROXIMITY_SCREEN_OFF_MSG
  | SWITCH_TRIGGER_WAKEUP_OR_SUSPEND_MSG
  | CHECK_PROXIMITY_SCREEN_SWITCH_TO_SUB_MSG
  | CHECK_ULSR_SYNC_CALLBACK_TIMEOUT_MSG

primrec DelayEvent_val :: "DelayEvent \<Rightarrow> nat" where
  "DelayEvent_val CHECK_USER_ACTIVITY_TIMEOUT_MSG = 0"
| "DelayEvent_val CHECK_USER_ACTIVITY_OFF_TIMEOUT_MSG = 1"
| "DelayEvent_val CHECK_PRE_BRIGHT_AUTH_TIMEOUT_MSG = 2"
| "DelayEvent_val CHECK_PROXIMITY_SCREEN_OFF_MSG = 3"
| "DelayEvent_val SWITCH_TRIGGER_WAKEUP_OR_SUSPEND_MSG = 4"
| "DelayEvent_val CHECK_PROXIMITY_SCREEN_SWITCH_TO_SUB_MSG = 5"
| "DelayEvent_val CHECK_ULSR_SYNC_CALLBACK_TIMEOUT_MSG = 6"

primrec FFRTTimerId_val :: "FFRTTimerId \<Rightarrow> nat" where
  "FFRTTimerId_val TIMER_ID_SLEEP = 0"
| "FFRTTimerId_val TIMER_ID_USER_ACTIVITY_OFF = 1"
| "FFRTTimerId_val TIMER_ID_USER_ACTIVITY_TIMEOUT = 2"
| "FFRTTimerId_val TIMER_ID_SCREEN_TIMEOUT_CHECK = 3"
| "FFRTTimerId_val TIMER_ID_PRE_BRIGHT_AUTH = 4"
| "FFRTTimerId_val TIMER_ID_PROXIMITY_SCREEN_OFF = 5"
| "FFRTTimerId_val TIMER_ID_PROXIMITY_SCREEN_SWITCH_TO_SUB = 6"
| "FFRTTimerId_val TIMER_ID_AUTO_SLEEP = 7"
| "FFRTTimerId_val TIMER_ID_FORCE_RELEASE_LOCK = 8"
| "FFRTTimerId_val TIMER_ID_ULSR = 9"

definition SetDelayTimer :: "env \<Rightarrow> int \<Rightarrow> DelayEvent \<Rightarrow> unit M" where
  "SetDelayTimer E delayTime event = do {
     p \<leftarrow> gets ptrs;
     if \<not> psmTimer p then skip
     else (case event of
         CHECK_USER_ACTIVITY_TIMEOUT_MSG \<Rightarrow>
           SetTimer E POWER_TIMER TIMER_ID_USER_ACTIVITY_TIMEOUT TaskActivityTimeout (word_of_int delayTime)
       | CHECK_USER_ACTIVITY_OFF_TIMEOUT_MSG \<Rightarrow>
           whenM (suspendController p) (HandleEvent E delayTime)
       | CHECK_PROXIMITY_SCREEN_OFF_MSG \<Rightarrow> do {
           SetTimer E POWER_TIMER TIMER_ID_PROXIMITY_SCREEN_OFF TaskProximityScreenOff
             (word_of_int delayTime);
           mod_psm (\<lambda>s. s\<lparr>proximityScreenOffTimerStarted := True\<rparr>) }
       | CHECK_ULSR_SYNC_CALLBACK_TIMEOUT_MSG \<Rightarrow>
           whenM (F_SUSPEND_WITH_TAG E)
             (SetTimer E POWER_TIMER TIMER_ID_ULSR TaskUlsr (word_of_int delayTime))
       | _ \<Rightarrow> skip) }"

text \<open>The overload with a task passes its event number to the timer as a timer id.\<close>

definition SetDelayTimerTask :: "env \<Rightarrow> int \<Rightarrow> nat \<Rightarrow> task \<Rightarrow> unit M" where
  "SetDelayTimerTask E delayTime event task = do {
     p \<leftarrow> gets ptrs;
     if \<not> psmTimer p then skip
     else (case find (\<lambda>t. FFRTTimerId_val t = event) all_timer_ids of
         None \<Rightarrow> skip
       | Some timerId \<Rightarrow> SetTimer E POWER_TIMER timerId task (word_of_int delayTime)) }"

definition CancelDelayTimer :: "env \<Rightarrow> DelayEvent \<Rightarrow> unit M" where
  "CancelDelayTimer E event = do {
     p \<leftarrow> gets ptrs;
     if \<not> psmTimer p then skip
     else (case event of
         CHECK_USER_ACTIVITY_TIMEOUT_MSG \<Rightarrow> CancelTimer POWER_TIMER TIMER_ID_USER_ACTIVITY_TIMEOUT
       | CHECK_USER_ACTIVITY_OFF_TIMEOUT_MSG \<Rightarrow> whenM (suspendController p) CancelEvent
       | CHECK_PRE_BRIGHT_AUTH_TIMEOUT_MSG \<Rightarrow> CancelTimer POWER_TIMER TIMER_ID_PRE_BRIGHT_AUTH
       | CHECK_PROXIMITY_SCREEN_OFF_MSG \<Rightarrow> do {
           CancelTimer POWER_TIMER TIMER_ID_PROXIMITY_SCREEN_OFF;
           mod_psm (\<lambda>s. s\<lparr>proximityScreenOffTimerStarted := False\<rparr>) }
       | CHECK_PROXIMITY_SCREEN_SWITCH_TO_SUB_MSG \<Rightarrow>
           CancelTimer POWER_TIMER TIMER_ID_PROXIMITY_SCREEN_SWITCH_TO_SUB
       | CHECK_ULSR_SYNC_CALLBACK_TIMEOUT_MSG \<Rightarrow>
           whenM (F_SUSPEND_WITH_TAG E) (CancelTimer POWER_TIMER TIMER_ID_ULSR)
       | _ \<Rightarrow> skip) }"

definition PublishRefreshEvent :: "env \<Rightarrow> unit M" where
  "PublishRefreshEvent E = whenM (F_SCREEN_SAVER E) (do {
     p \<leftarrow> gets ptrs;
     whenM (pms p \<and> powerMgrNotify p) (log_call (Event PublishRefresh)) })"

definition ResetScreenOffPreTimeForSwing :: "env \<Rightarrow> int \<Rightarrow> unit M" where
  "ResetScreenOffPreTimeForSwing E offTime = do {
     now \<leftarrow> GetTickCount E;
     p \<leftarrow> gets ptrs;
     registered \<leftarrow> IsRegistered;
     whenM (screenOffPreController p \<and> registered)
       (SchedulEyeDetectTimeout E (now + offTime - GetDimTime E offTime) now) }"

definition ResetInactiveTimer :: "env \<Rightarrow> unit M" where
  "ResetInactiveTimer E = whenM (\<not> F_SCREEN_DECOUPLING E) (do {
     mod_psm (\<lambda>s. if settingStateFlag s = int (PowerState_val DIM)
                  then s\<lparr>settingStateFlag := SETTING_DIM_INTERRUPTED\<rparr> else s);
     CancelDelayTimer E CHECK_USER_ACTIVITY_TIMEOUT_MSG;
     CancelDelayTimer E CHECK_USER_ACTIVITY_OFF_TIMEOUT_MSG;
     PublishRefreshEvent E;
     offTime \<leftarrow> GetDisplayOffTime;
     if offTime < 0 then
       whenM (IsNeverSleepDimEnabled E) (
         let activeTime = (if GetActiveTimeBeforeLongTimeDim E = -1 then 600000
                           else GetActiveTimeBeforeLongTimeDim E)
         in SetDelayTimer E activeTime CHECK_USER_ACTIVITY_TIMEOUT_MSG)
     else do {
       ResetScreenOffPreTimeForSwing E offTime;
       SetDelayTimer E (offTime - GetDimTime E offTime) CHECK_USER_ACTIVITY_TIMEOUT_MSG } })"

definition ResetSleepTimer :: "env \<Rightarrow> unit M" where
  "ResetSleepTimer E = do {
     CancelDelayTimer E CHECK_USER_ACTIVITY_TIMEOUT_MSG;
     CancelDelayTimer E CHECK_USER_ACTIVITY_OFF_TIMEOUT_MSG }"

definition SetAutoSuspend :: "env \<Rightarrow> SuspendDeviceType \<Rightarrow> uint32 \<Rightarrow> unit M" where
  "SetAutoSuspend E type delay = do {
     p \<leftarrow> gets ptrs;
     whenM (pms p \<and> suspendController p) (StartSleepTimer E type ACTION_AUTO_SUSPEND delay) }"

definition PsmStartSleepTimer :: "env \<Rightarrow> PowerState \<Rightarrow> unit M" where
  "PsmStartSleepTimer E from =
    whenM (from = SLEEP) (SetAutoSuspend E SUSPEND_DEVICE_REASON_APPLICATION 0)"

definition PsmReset :: "unit M" where
  "PsmReset = mod_ptrs (\<lambda>p. p\<lparr>psmTimer := False\<rparr>)"

section \<open>Setters\<close>

definition SetSwitchState :: "bool \<Rightarrow> unit M" where
  "SetSwitchState b = mod_psm (\<lambda>s. s\<lparr>switchOpen := b\<rparr>)"

definition SetSwitchAction :: "uint32 \<Rightarrow> unit M" where
  "SetSwitchAction v = mod_psm (\<lambda>s. s\<lparr>switchActionValue := v\<rparr>)"

definition SetExternalScreenNumber :: "int \<Rightarrow> unit M" where
  "SetExternalScreenNumber n = mod_psm (\<lambda>s. s\<lparr>externalScreenNumber := n\<rparr>)"

definition SetDuringCallState :: "bool \<Rightarrow> unit M" where
  "SetDuringCallState b = mod_psm (\<lambda>s. s\<lparr>isDuringCall := b\<rparr>)"

definition SetEnableDoze :: "bool \<Rightarrow> unit M" where
  "SetEnableDoze enable = mod_psm (\<lambda>s. s\<lparr>isDozeEnabled := enable\<rparr>)"

definition SetSleepTime :: "int \<Rightarrow> unit M" where
  "SetSleepTime t = mod_psm (\<lambda>s. s\<lparr>psmSleepTime := t\<rparr>)"

definition SetProxFilteringStrategy :: "env \<Rightarrow> bool \<Rightarrow> unit M" where
  "SetProxFilteringStrategy E filteringClose =
    whenM (F_FILTER_PROXIMITY E)
      (mod_psm (\<lambda>s. s\<lparr>isProximityCloseEventFiltered := filteringClose\<rparr>))"

definition FilterProximityCloseEvent :: "env \<Rightarrow> bool M" where
  "FilterProximityCloseEvent E =
    gets (\<lambda>w. F_FILTER_PROXIMITY E \<and> isProximityCloseEventFiltered (psm w))"

definition LockScreenAfterTimingOut :: "bool \<Rightarrow> bool \<Rightarrow> bool \<Rightarrow> unit M" where
  "LockScreenAfterTimingOut enabled checkScreenOnLock sendScreenOffEvent =
    mod_psm (\<lambda>s. s\<lparr>enabledTimingOutLockScreen := enabled,
                     enabledTimingOutLockScreenCheckLock := checkScreenOnLock,
                     enabledScreenOffEvent := sendScreenOffEvent\<rparr>)"

text \<open>
  \<open>screenOffBlockMap_\<close>: the token of the caller that blocks a kind of screen-off.  A null token
  (\<open>Some None\<close>) does not block.
\<close>

definition IsScreenOffBlocked :: "ScreenOffBlockType \<Rightarrow> bool M" where
  "IsScreenOffBlocked type = gets (\<lambda>w.
     case screenOffBlockMap (psm w) type of None \<Rightarrow> False | Some token \<Rightarrow> token \<noteq> None)"

definition UpdateScreenOffBlock :: "ScreenOffBlockType \<Rightarrow> obj option \<Rightarrow> unit M" where
  "UpdateScreenOffBlock type token =
    mod_psm (\<lambda>s. s\<lparr>screenOffBlockMap := (screenOffBlockMap s)(type := Some token)\<rparr>)"

definition RemoveScreenOffBlock :: "ScreenOffBlockType \<Rightarrow> unit M" where
  "RemoveScreenOffBlock type =
    mod_psm (\<lambda>s. s\<lparr>screenOffBlockMap := (screenOffBlockMap s)(type := None)\<rparr>)"

definition CheckRefreshTime :: "env \<Rightarrow> bool M" where
  "CheckRefreshTime E = do {
     now \<leftarrow> GetTickCount E;
     p \<leftarrow> gets psm;
     if lastRefreshActivityTime (mDeviceState p) + 100 > now then State_Monad.return True
     else do {
       mod_psm (\<lambda>s. s\<lparr>mDeviceState := (mDeviceState s)\<lparr>lastRefreshActivityTime := now\<rparr>\<rparr>);
       State_Monad.return False } }"

definition SetDisplayOffTime :: "env \<Rightarrow> int \<Rightarrow> bool \<Rightarrow> unit M" where
  "SetDisplayOffTime E t needUpdateSetting = do {
     mod_psm (\<lambda>s. s\<lparr>displayOffTime := t\<rparr>);
     s \<leftarrow> GetState;
     whenM (s = AWAKE) (ResetInactiveTimer E);
     whenM needUpdateSetting (do {
       offTime \<leftarrow> GetDisplayOffTime;
       if F_CHARGING_TYPE E then do {
         SetSettingDisplayAcScreenOffTime E offTime;
         SetSettingDisplayDcScreenOffTime E offTime }
       else SetSettingDisplayOffTime E offTime }) }"

definition OverrideScreenOffTimeInner :: "env \<Rightarrow> int \<Rightarrow> bool M" where
  "OverrideScreenOffTimeInner E timeout = do {
     p \<leftarrow> gets psm;
     whenM (\<not> isScreenOffTimeOverride p) (do {
       before \<leftarrow> GetDisplayOffTime;
       mod_psm (\<lambda>s. s\<lparr>isScreenOffTimeOverride := True\<rparr>);
       mod_psm (\<lambda>s. s\<lparr>beforeOverrideTime := before\<rparr>) });
     SetDisplayOffTime E timeout False;
     State_Monad.return True }"

definition RestoreScreenOffTimeInner :: "env \<Rightarrow> bool M" where
  "RestoreScreenOffTimeInner E = do {
     p \<leftarrow> gets psm;
     if \<not> isScreenOffTimeOverride p then State_Monad.return False
     else do {
       SetDisplayOffTime E (beforeOverrideTime p) False;
       mod_psm (\<lambda>s. s\<lparr>isScreenOffTimeOverride := False\<rparr>);
       State_Monad.return True } }"

text \<open>The power supply as \<open>PowerMgrService\<close> knows it: \<open>-1\<close> not known, \<open>0\<close> battery, \<open>1\<close> charger.\<close>

definition PowerConnectStatusInit :: "env \<Rightarrow> unit M" where
  "PowerConnectStatusInit E = do {
     pluggedType \<leftarrow> ask_int E (Settings BatteryPluggedType);
     mod_svc (\<lambda>s. s\<lparr>powerConnectStatus :=
       (if pluggedType = constant_of E ''PLUGGED_TYPE_BUTT'' then -1
        else if pluggedType = constant_of E ''PLUGGED_TYPE_AC'' \<or> pluggedType = constant_of E ''PLUGGED_TYPE_USB'' \<or>
                pluggedType = constant_of E ''PLUGGED_TYPE_WIRELESS'' then 1
        else 0)\<rparr>) }"

definition IsPowerConnected :: "env \<Rightarrow> bool M" where
  "IsPowerConnected E = do {
     status \<leftarrow> gets (\<lambda>w. powerConnectStatus (svc w));
     whenM (status = -1) (PowerConnectStatusInit E);
     gets (\<lambda>w. powerConnectStatus (svc w) = 1) }"

definition GetSettingDisplayOffTime :: "env \<Rightarrow> int \<Rightarrow> int M" where
  "GetSettingDisplayOffTime E defaultTime =
    (if \<not> F_CHARGING_TYPE E then HelperGetSettingDisplayOffTime E defaultTime
     else do {
       p \<leftarrow> gets ptrs;
       if \<not> pms p then State_Monad.return defaultTime
       else do {
         charging \<leftarrow> IsPowerConnected E;
         if charging then GetSettingDisplayAcScreenOffTime E defaultTime
         else GetSettingDisplayDcScreenOffTime E defaultTime } })"

definition DisplayOffTimeUpdateFunc :: "env \<Rightarrow> unit M" where
  "DisplayOffTimeUpdateFunc E = do {
     p \<leftarrow> gets ptrs;
     if \<not> pms p then skip
     else do {
       systemTime \<leftarrow> GetDisplayOffTime;
       settingTime \<leftarrow> GetSettingDisplayOffTime E systemTime;
       q \<leftarrow> gets psm;
       if F_CHARGING_TYPE E \<and> isScreenOffTimeOverride q
       then mod_psm (\<lambda>s. s\<lparr>beforeOverrideTime := settingTime\<rparr>)
       else if settingTime = systemTime then skip
       else do {
         mod_psm (\<lambda>s. s\<lparr>beforeOverrideTime := settingTime\<rparr>);
         if \<not> powerModePolicy p then skip
         else do {
           RemoveBackupMapSettingSwitch E DISPLAY_OFFTIME;
           SetDisplayOffTime E settingTime False } } } }"

definition RegisterDisplayOffTimeObserver :: "env \<Rightarrow> unit M" where
  "RegisterDisplayOffTimeObserver E = do {
     s \<leftarrow> gets stg;
     if F_CHARGING_TYPE E then
       (if displayOffTimeAcObserver s \<and> displayOffTimeDcObserver s then skip
        else do {
          DisplayOffTimeUpdateFunc E;
          whenM (\<not> displayOffTimeAcObserver s) (do {
            ok \<leftarrow> RegisterSettingDisplayAcScreenOffTimeObserver E;
            mod_stg (\<lambda>s. s\<lparr>displayOffTimeAcObserver := ok\<rparr>) });
          whenM (\<not> displayOffTimeDcObserver s) (do {
            ok \<leftarrow> RegisterSettingDisplayDcScreenOffTimeObserver E;
            mod_stg (\<lambda>s. s\<lparr>displayOffTimeDcObserver := ok\<rparr>) }) })
     else if displayOffTimeObserver s then skip
     else do {
       DisplayOffTimeUpdateFunc E;
       ok \<leftarrow> RegisterSettingDisplayOffTimeObserver E;
       mod_stg (\<lambda>s. s\<lparr>displayOffTimeObserver := ok\<rparr>) } }"

definition UnregisterDisplayOffTimeObserver :: "env \<Rightarrow> unit M" where
  "UnregisterDisplayOffTimeObserver E = do {
     s \<leftarrow> gets stg;
     if F_CHARGING_TYPE E then do {
       UnregisterSettingObserver E SETTING_DISPLAY_AC_OFF_TIME_KEY (displayOffTimeAcObserver s);
       UnregisterSettingObserver E SETTING_DISPLAY_DC_OFF_TIME_KEY (displayOffTimeDcObserver s);
       mod_stg (\<lambda>s. s\<lparr>displayOffTimeAcObserver := False, displayOffTimeDcObserver := False\<rparr>) }
     else do {
       UnregisterSettingObserver E SETTING_DISPLAY_OFF_TIME_KEY (displayOffTimeObserver s);
       mod_stg (\<lambda>s. s\<lparr>displayOffTimeObserver := False\<rparr>) } }"

definition SetInternalScreenDisplayState :: "env \<Rightarrow> DisplayState \<Rightarrow> StateChangeReason \<Rightarrow> unit M" where
  "SetInternalScreenDisplayState E state reason =
    (if state = DISPLAY_ON then do {
       h \<leftarrow> IsHibernating;
       if F_S4 E \<and> h then skip
       else do {
         isOpen \<leftarrow> IsLidOrSwitchOpen E;
         if \<not> isOpen then skip
         else do {
           SetInternalScreenDisplayPower E state reason;
           SetInternalScreenBrightness E } } }
     else if state = DISPLAY_OFF then SetInternalScreenDisplayPower E state reason
     else skip)"

definition HandleOnlySecondScreenWhenCoverOpen :: "env \<Rightarrow> StateChangeReason \<Rightarrow> unit M" where
  "HandleOnlySecondScreenWhenCoverOpen E reason =
    (if \<not> IsOnlySecondDisplayModeSupported E then skip
     else if IsLidEventUsed E then do {
       lid \<leftarrow> gets (\<lambda>w. isInLidMode (svc w));
       whenM (reason = STATE_CHANGE_REASON_LID \<and> \<not> lid)
         (SetInternalScreenDisplayState E DISPLAY_ON reason) }
     else do {
       isOpen \<leftarrow> IsSwitchOpen;
       whenM (reason = STATE_CHANGE_REASON_SWITCH \<and> isOpen)
         (SetInternalScreenDisplayState E DISPLAY_ON reason) })"

definition HandleDuringCall :: "env \<Rightarrow> bool \<Rightarrow> bool M" where
  "HandleDuringCall E isClose = do {
     p \<leftarrow> gets psm;
     if \<not> isDuringCall p then State_Monad.return False
     else do {
       screenOn \<leftarrow> IsScreenOn E;
       if \<not> screenOn then State_Monad.return False
       else do {
         mode \<leftarrow> ask_int E (Window DmsGetFoldDisplayMode);
         held \<leftarrow> IsRunningLockEnabled E RUNNINGLOCK_PROXIMITY_SCREEN_CONTROL;
         (if mode = foldMain E \<and> isClose \<and> held
          then log_call (Window (DmsSetFoldDisplayMode (foldSub E)))
          else whenM (mode = foldSub E \<and> \<not> isClose)
            (log_call (Window (DmsSetFoldDisplayMode (foldMain E)))));
         State_Monad.return True } } }"

definition SetDozeMode :: "env \<Rightarrow> DisplayState \<Rightarrow> bool M" where
  "SetDozeMode E state = do {
     screenOn \<leftarrow> IsScreenOn E;
     if screenOn then State_Monad.return False
     else do {
       ret \<leftarrow> SetDisplayState E state STATE_CHANGE_REASON_SWITCHING_DOZE_MODE;
       State_Monad.return (ret = ACTION_SUCCESS) } }"

definition SetDisplaySuspend :: "env \<Rightarrow> bool \<Rightarrow> unit M" where
  "SetDisplaySuspend E enable = do {
     mod_psm (\<lambda>s. s\<lparr>enableDisplaySuspend := enable\<rparr>);
     s \<leftarrow> GetState;
     whenM (s = INACTIVE)
       (do { _ \<leftarrow> SetDisplayState E (if enable then DISPLAY_SUSPEND else DISPLAY_OFF)
               STATE_CHANGE_REASON_APPLICATION;
             skip }) }"

section \<open>State listeners\<close>

definition RegisterPowerStateCallback :: "obj \<Rightarrow> bool \<Rightarrow> int \<times> int \<Rightarrow> unit M" where
  "RegisterPowerStateCallback callback isSync pidUid = do {
     p \<leftarrow> gets psm;
     (if isSync then do {
        mod_psm (\<lambda>s. s\<lparr>syncPowerStateListeners := oset_insert callback (syncPowerStateListeners s)\<rparr>);
        whenM (callback \<notin> set (syncPowerStateListeners p))
          (log_call (Callback (AddDeathRecipient callback))) }
      else do {
        mod_psm (\<lambda>s. s\<lparr>asyncPowerStateListeners := oset_insert callback (asyncPowerStateListeners s)\<rparr>);
        whenM (callback \<notin> set (asyncPowerStateListeners p))
          (log_call (Callback (AddDeathRecipient callback))) });
     mod_psm (\<lambda>s. s\<lparr>cachedRegister :=
       (case cachedRegister s callback of
          None \<Rightarrow> (cachedRegister s)(callback \<mapsto> pidUid) | Some _ \<Rightarrow> cachedRegister s)\<rparr>) }"

definition UnRegisterPowerStateCallback :: "obj \<Rightarrow> unit M" where
  "UnRegisterPowerStateCallback callback = do {
     p \<leftarrow> gets psm;
     (if callback \<in> set (syncPowerStateListeners p) then do {
        mod_psm (\<lambda>s. s\<lparr>syncPowerStateListeners := oset_erase callback (syncPowerStateListeners s)\<rparr>);
        log_call (Callback (RemoveDeathRecipient callback)) }
      else do {
        mod_psm (\<lambda>s. s\<lparr>asyncPowerStateListeners := oset_erase callback (asyncPowerStateListeners s)\<rparr>);
        whenM (callback \<in> set (asyncPowerStateListeners p))
          (log_call (Callback (RemoveDeathRecipient callback))) });
     mod_psm (\<lambda>s. s\<lparr>cachedRegister := (cachedRegister s)(callback := None)\<rparr>) }"

definition SendCustomizedScreenEvent :: "env \<Rightarrow> PowerState \<Rightarrow> int \<Rightarrow> string \<Rightarrow> unit M" where
  "SendCustomizedScreenEvent E state callTime reason =
    (if F_WATCH_RULES E then do {
       c \<leftarrow> gets (\<lambda>w. customizedEventController (ptrs w));
       whenM c (log_call (Event (CustomizedScreenEvent state))) }
     else do {
       whenM (state = AWAKE) (log_call (Event (PublishScreenOn callTime reason)));
       whenM (state = INACTIVE) (log_call (Event (PublishScreenOff callTime reason))) })"

definition SendEventToPowerMgrNotify :: "env \<Rightarrow> PowerState \<Rightarrow> int \<Rightarrow> string \<Rightarrow> unit M" where
  "SendEventToPowerMgrNotify E state callTime reason = do {
     p \<leftarrow> gets ptrs;
     if \<not> pms p \<or> \<not> powerMgrNotify p \<or> \<not> screenCommonEventController p then skip
     else (case state of
         AWAKE \<Rightarrow> do {
           SendCustomizedScreenEvent E AWAKE callTime reason;
           mod_psm (\<lambda>s. s\<lparr>isAwakeNotified := True\<rparr>);
           flag \<leftarrow> GetForceSleepingFlag;
           whenM (F_FORCE_SLEEP_BROADCAST E \<and> suspendController p \<and> flag) (do {
             log_call (Event (PublishExitForceSleep callTime));
             SetForceSleepingFlag False }) }
       | INACTIVE \<Rightarrow> do {
           SendCustomizedScreenEvent E INACTIVE callTime reason;
           mod_psm (\<lambda>s. s\<lparr>isAwakeNotified := False\<rparr>) }
       | SLEEP \<Rightarrow> do {
           flag \<leftarrow> GetForceSleepingFlag;
           whenM (F_FORCE_SLEEP_BROADCAST E \<and> suspendController p \<and> flag)
             (log_call (Event (PublishEnterForceSleep callTime))) }
       | _ \<Rightarrow> skip) }"

text \<open>
  A synchronous listener is an IPC object, except for the one that \<open>SuspendController::Init\<close> registers:
  \<open>SuspendPowerStateCallback::OnPowerStateChanged\<close> stops the sleep timer when the device turns awake.
\<close>

definition NotifySyncListener :: "env \<Rightarrow> PowerState \<Rightarrow> obj \<Rightarrow> unit M" where
  "NotifySyncListener E state listener = do {
     own \<leftarrow> gets (\<lambda>w. suspendPowerStateCallback (susp w));
     if own = Some listener then do {
       p \<leftarrow> gets ptrs;
       whenM (suspendController p \<and> state = AWAKE) (StopSleep E) }
     else log_call (Callback (OnPowerStateChanged listener state)) }"

definition NotifyPowerStateChanged :: "env \<Rightarrow> PowerState \<Rightarrow> StateChangeReason \<Rightarrow> unit M" where
  "NotifyPowerStateChanged E state reason = do {
     p \<leftarrow> gets psm;
     if currentState p = INACTIVE \<and> \<not> enabledScreenOffEvent p \<and>
        reason = STATE_CHANGE_REASON_TIMEOUT_NO_SCREEN_LOCK
     then skip
     else do {
       now \<leftarrow> GetTickCount E;
       SendEventToPowerMgrNotify E state now (GetReasonTypeString reason);
       for_each (\<lambda>listener. log_call (Callback (OnAsyncPowerStateChanged listener state)))
         (asyncPowerStateListeners p);
       for_each (NotifySyncListener E state) (syncPowerStateListeners p) } }"

definition ReceiveScreenEvent :: "env \<Rightarrow> bool \<Rightarrow> unit M" where
  "ReceiveScreenEvent E isScreenOn = do {
     prestate \<leftarrow> gets (\<lambda>w. screenDisplayState (mDeviceState (psm w)));
     t \<leftarrow> GetTickCount E;
     (if isScreenOn then mod_psm (\<lambda>s. s\<lparr>mDeviceState := (mDeviceState s)\<lparr>lastOnTime := t\<rparr>\<rparr>)
      else mod_psm (\<lambda>s. s\<lparr>mDeviceState := (mDeviceState s)\<lparr>lastOffTime := t\<rparr>\<rparr>));
     poststate \<leftarrow> gets (\<lambda>w. screenDisplayState (mDeviceState (psm w)));
     whenM (prestate \<noteq> poststate)
       (NotifyPowerStateChanged E (if isScreenOn then AWAKE else INACTIVE)
         STATE_CHANGE_REASON_APPLICATION) }"

end
