(* ===== verification/State_Transit.thy ===== *)
theory State_Transit
  imports State_Base
begin

text \<open>
  State transitions of \<open>PowerStateMachine\<close>: \<open>SetState\<close>, the state controllers with their actions
  (\<open>Emplace...\<close>), the checks a transition has to pass and the pre-bright protocol.  Logging and
  HiSysEvent reporting (\<open>ShowCurrentScreenLocks\<close>, \<open>ScreenChangeCheck\<close>, \<open>WriteHiSysEvent\<close>) is left out.
\<close>

section \<open>Checks\<close>

text \<open>
  The middle part of \<open>CanTransitTo\<close>: a double click, a pickup or a plug event must not light up the
  screen while the proximity sensor is covered, the lid is closed or the user is moving.
\<close>

definition LightUpBlocked :: "env \<Rightarrow> PowerState \<Rightarrow> PowerState \<Rightarrow> StateChangeReason \<Rightarrow> bool M" where
  "LightUpBlocked E from to reason =
    (if (reason = STATE_CHANGE_REASON_DOUBLE_CLICK \<or> reason = STATE_CHANGE_REASON_PICKUP \<or>
         reason = STATE_CHANGE_REASON_PLUG_CHANGE) \<and> to = AWAKE
     then do {
       close \<leftarrow> IsProximityClose;
       lid \<leftarrow> gets (\<lambda>w. isInLidMode (svc w));
       if F_SENSORS E \<and> close then do { PsmStartSleepTimer E from; State_Monad.return True }
       else if F_SENSORS E \<and> lid \<and> reason = STATE_CHANGE_REASON_PICKUP
       then do { PsmStartSleepTimer E from; State_Monad.return True }
       else if F_MSDP_MOVEMENT E then do {
         moving \<leftarrow> IsMovementStateOn E;
         if moving \<and> (reason = STATE_CHANGE_REASON_DOUBLE_CLICK \<or>
                       reason = STATE_CHANGE_REASON_PICKUP)
         then do { PsmStartSleepTimer E from; State_Monad.return True }
         else State_Monad.return False }
       else State_Monad.return False }
     else State_Monad.return False)"

definition CanTransitTo :: "env \<Rightarrow> PowerState \<Rightarrow> PowerState \<Rightarrow> StateChangeReason \<Rightarrow> bool M" where
  "CanTransitTo E from to reason = do {
     cur \<leftarrow> GetState;
     if is_forbidden E cur to then State_Monad.return False
     else do {
       blocked \<leftarrow> LightUpBlocked E from to reason;
       if blocked then State_Monad.return False
       else do {
         held \<leftarrow> IsRunningLockEnabled E RUNNINGLOCK_PROXIMITY_SCREEN_CONTROL;
         if reason = STATE_CHANGE_REASON_PROXIMITY \<and> to = INACTIVE \<and> \<not> held
         then State_Monad.return False
         else do {
           now \<leftarrow> GetState;
           State_Monad.return (is_allowed reason now to) } } } }"

definition CheckFFRTTaskAvailability :: "env \<Rightarrow> PowerState \<Rightarrow> StateChangeReason \<Rightarrow> bool M" where
  "CheckFFRTTaskAvailability E state reason =
    (if \<not> IsTimeoutReason reason then State_Monad.return True
     else do {
       cur \<leftarrow> gets curTask;
       timer \<leftarrow> gets (\<lambda>w. psmTimer (ptrs w));
       auto \<leftarrow> GetTaskHandlePtr POWER_TIMER TIMER_ID_AUTO_SLEEP;
       if cur = None then State_Monad.return True
       else if \<not> timer then State_Monad.return False
       else if F_CHARGING_TYPE E \<and> cur = auto then State_Monad.return True
       else do {
         pendingTask \<leftarrow> GetTaskHandlePtr POWER_TIMER
           (if state = DIM then TIMER_ID_USER_ACTIVITY_TIMEOUT
            else if state = INACTIVE then TIMER_ID_USER_ACTIVITY_OFF
            else TIMER_ID_SLEEP);
         State_Monad.return (cur = pendingTask) } })"

definition HandleProximityScreenOffTimer :: "env \<Rightarrow> PowerState \<Rightarrow> StateChangeReason \<Rightarrow> unit M" where
  "HandleProximityScreenOffTimer E state reason = whenM (F_SENSORS E) (do {
     started \<leftarrow> gets (\<lambda>w. proximityScreenOffTimerStarted (psm w));
     close \<leftarrow> IsProximityClose;
     if \<not> started then skip
     else if (reason = STATE_CHANGE_REASON_DOUBLE_CLICK \<or> reason = STATE_CHANGE_REASON_PICKUP) \<and>
             close \<and> state = AWAKE then skip
     else if reason \<noteq> STATE_CHANGE_REASON_PROXIMITY
     then CancelDelayTimer E CHECK_PROXIMITY_SCREEN_OFF_MSG
     else whenM (state = AWAKE) (CancelDelayTimer E CHECK_PROXIMITY_SCREEN_OFF_MSG) })"

definition HandlePreBrightState :: "env \<Rightarrow> PowerState \<Rightarrow> StateChangeReason \<Rightarrow> bool M" where
  "HandlePreBrightState E targetState reason = do {
     curState \<leftarrow> gets (\<lambda>w. preBrightState (psm w));
     timer \<leftarrow> gets (\<lambda>w. psmTimer (ptrs w));
     if reason = STATE_CHANGE_REASON_PRE_BRIGHT then
       (if timer then do {
          whenM (curState = PRE_BRIGHT_STARTED) (CancelDelayTimer E CHECK_PRE_BRIGHT_AUTH_TIMEOUT_MSG);
          SetTimer E POWER_TIMER TIMER_ID_PRE_BRIGHT_AUTH TaskPreBrightAuth PRE_BRIGHT_AUTH_TIMER_DELAY_MS;
          mod_psm (\<lambda>s. s\<lparr>preBrightState := PRE_BRIGHT_STARTED\<rparr>);
          State_Monad.return True }
        else State_Monad.return False)
     else if IsPreBrightAuthReason reason then
       (if curState = PRE_BRIGHT_STARTED then do {
          mod_psm (\<lambda>s. s\<lparr>preBrightState := PRE_BRIGHT_FINISHED\<rparr>);
          State_Monad.return True }
        else do {
          SetAutoSuspend E SUSPEND_DEVICE_REASON_APPLICATION 0;
          State_Monad.return False })
     else do {
       whenM (targetState \<noteq> SLEEP \<and> curState = PRE_BRIGHT_STARTED)
         (CancelDelayTimer E CHECK_PRE_BRIGHT_AUTH_TIMEOUT_MSG);
       whenM (targetState \<noteq> SLEEP) (mod_psm (\<lambda>s. s\<lparr>preBrightState := PRE_BRIGHT_UNSTART\<rparr>));
       State_Monad.return True } }"

definition TakeOverSuspendAction :: "env \<Rightarrow> StateChangeReason \<Rightarrow> TransitResult M" where
  "TakeOverSuspendAction E reason = do {
     p \<leftarrow> gets ptrs;
     if \<not> pms p then State_Monad.return OTHER_ERR
     else if \<not> suspendController p then State_Monad.return OTHER_ERR
     else do {
       isTakenOver \<leftarrow> TriggerTakeOverSuspendCallback E (GetSuspendTypeByReason reason);
       State_Monad.return (if isTakenOver then TAKEN_OVER else SUCCESS) } }"

section \<open>Actions of the state controllers\<close>

definition action_AWAKE :: "env \<Rightarrow> StateChangeReason \<Rightarrow> TransitResult M" where
  "action_AWAKE E reason = do {
     t \<leftarrow> GetTickCount E;
     mod_psm (\<lambda>s. s\<lparr>mDeviceState := (mDeviceState s)\<lparr>lastOnTime := t\<rparr>\<rparr>);
     doze \<leftarrow> gets (\<lambda>w. isDozeEnabled (psm w));
     let targetState =
       (if reason = STATE_CHANGE_REASON_PRE_BRIGHT_AUTH_FAIL_SCREEN_OFF
        then (if doze then DISPLAY_DOZE else DISPLAY_OFF) else DISPLAY_ON) in do {
     ret \<leftarrow> SetDisplayState E targetState reason;
     if ret \<noteq> ACTION_SUCCESS then State_Monad.return DISPLAY_ON_ERR
     else do {
       whenM (F_EXTERNAL_SCREEN E) (HandleOnlySecondScreenWhenCoverOpen E reason);
       whenM (reason \<noteq> STATE_CHANGE_REASON_PRE_BRIGHT) (ResetInactiveTimer E);
       DisallowAutoSleep;
       SystemWakeup E;
       State_Monad.return SUCCESS } } }"

definition action_INACTIVE :: "env \<Rightarrow> StateChangeReason \<Rightarrow> TransitResult M" where
  "action_INACTIVE E reason = do {
     takeover \<leftarrow> (if F_TAKEOVER_SUSPEND E then TakeOverSuspendAction E reason
                   else State_Monad.return SUCCESS);
     if takeover \<noteq> SUCCESS then State_Monad.return takeover
     else do {
       t \<leftarrow> GetTickCount E;
       mod_psm (\<lambda>s. s\<lparr>mDeviceState := (mDeviceState s)\<lparr>lastOffTime := t\<rparr>\<rparr>);
       doze \<leftarrow> gets (\<lambda>w. isDozeEnabled (psm w));
       ret \<leftarrow> SetDisplayState E
         (if reason \<noteq> STATE_CHANGE_REASON_SWITCH_SENSORHUB \<and> doze then DISPLAY_DOZE else DISPLAY_OFF)
         reason;
       if ret \<noteq> ACTION_SUCCESS then State_Monad.return DISPLAY_OFF_ERR
       else do {
         CancelDelayTimer E CHECK_USER_ACTIVITY_TIMEOUT_MSG;
         CancelDelayTimer E CHECK_USER_ACTIVITY_OFF_TIMEOUT_MSG;
         State_Monad.return SUCCESS } } }"

definition action_off_time :: "env \<Rightarrow> TransitResult M" where
  "action_off_time E = do {
     t \<leftarrow> GetTickCount E;
     mod_psm (\<lambda>s. s\<lparr>mDeviceState := (mDeviceState s)\<lparr>lastOffTime := t\<rparr>\<rparr>);
     State_Monad.return SUCCESS }"

definition action_SLEEP :: "TransitResult M" where
  "action_SLEEP = do { AllowAutoSleep; State_Monad.return SUCCESS }"

text \<open>
  Dimming tells the display first and starts the screen-off timer afterwards.  Another thread can
  reset the inactivity timer in between (\<open>ResetInactiveTimer\<close> takes no lock); whether one does is an
  answer of the environment.
\<close>

definition action_DIM :: "env \<Rightarrow> StateChangeReason \<Rightarrow> TransitResult M" where
  "action_DIM E reason = do {
     offTime \<leftarrow> GetDisplayOffTime;
     if \<not> IsNeverSleepDimEnabled E \<and> offTime < 0 then State_Monad.return OTHER_ERR
     else let dimTime = (if reason = STATE_CHANGE_REASON_COORDINATION
                         then COORDINATED_STATE_SCREEN_OFF_TIME_MS else GetDimTime E offTime) in do {
       ret \<leftarrow> SetDisplayState E DISPLAY_DIM reason;
       concurrent \<leftarrow> ask_bool E ConcurrentRefresh;
       whenM concurrent (ResetInactiveTimer E);
       CancelDelayTimer E CHECK_USER_ACTIVITY_TIMEOUT_MSG;
       CancelDelayTimer E CHECK_USER_ACTIVITY_OFF_TIMEOUT_MSG;
       nowOffTime \<leftarrow> GetDisplayOffTime;
       whenM (\<not> nowOffTime < 0) (SetDelayTimer E dimTime CHECK_USER_ACTIVITY_OFF_TIMEOUT_MSG);
       flag \<leftarrow> gets (\<lambda>w. settingStateFlag (psm w));
       if flag = SETTING_DIM_INTERRUPTED then do {
         _ \<leftarrow> SetDisplayState E DISPLAY_ON STATE_CHANGE_REASON_REFRESH;
         ResetInactiveTimer E;
         State_Monad.return OTHER_ERR }
       else State_Monad.return (if ret = ACTION_SUCCESS then SUCCESS else OTHER_ERR) } }"

definition controller_action :: "env \<Rightarrow> PowerState \<Rightarrow> StateChangeReason \<Rightarrow> TransitResult M" where
  "controller_action E state reason = (case state of
      AWAKE \<Rightarrow> action_AWAKE E reason
    | FREEZE \<Rightarrow> State_Monad.return SUCCESS
    | INACTIVE \<Rightarrow> action_INACTIVE E reason
    | STAND_BY \<Rightarrow> action_off_time E
    | DOZE \<Rightarrow> action_off_time E
    | SLEEP \<Rightarrow> action_SLEEP
    | HIBERNATE \<Rightarrow> State_Monad.return SUCCESS
    | SHUTDOWN \<Rightarrow> State_Monad.return SUCCESS
    | DIM \<Rightarrow> action_DIM E reason
    | UNKNOWN \<Rightarrow> State_Monad.return OTHER_ERR)"

definition InitStateMap :: "StateController \<Rightarrow> unit M" where
  "InitStateMap c = mod_psm (\<lambda>s. s\<lparr>controllerMap :=
     (\<lambda>st. if st = UNKNOWN then controllerMap s st
           else (case controllerMap s st of None \<Rightarrow> Some c | Some d \<Rightarrow> Some d))\<rparr>)"

section \<open>State controllers\<close>

definition NeedNotify :: "env \<Rightarrow> PowerState \<Rightarrow> PowerState \<Rightarrow> bool M" where
  "NeedNotify E target cur = do {
     p \<leftarrow> gets ptrs;
     flag \<leftarrow> GetForceSleepingFlag;
     State_Monad.return
       (if F_FORCE_SLEEP_BROADCAST E \<and> cur = SLEEP \<and> target = SLEEP \<and> pms p \<and> suspendController p \<and> flag
        then True
        else if cur = target then False
        else if cur = DIM \<and> target = AWAKE then False
        else True) }"

definition IsReallyFailed :: "StateChangeReason \<Rightarrow> bool" where
  "IsReallyFailed reason =
    (\<not> (reason = STATE_CHANGE_REASON_PRE_BRIGHT \<or>
        reason = STATE_CHANGE_REASON_PRE_BRIGHT_AUTH_FAIL_SCREEN_OFF))"

definition update_controller :: "PowerState \<Rightarrow> (StateController \<Rightarrow> StateController) \<Rightarrow> unit M" where
  "update_controller st f =
    mod_psm (\<lambda>s. s\<lparr>controllerMap := (controllerMap s)(st := map_option f (controllerMap s st))\<rparr>)"

definition RecordFailure ::
    "env \<Rightarrow> PowerState \<Rightarrow> PowerState \<Rightarrow> StateChangeReason \<Rightarrow> TransitResult \<Rightarrow> unit M" where
  "RecordFailure E st from trigger failR = do {
     t \<leftarrow> GetTickCount E;
     update_controller st (\<lambda>c. c\<lparr>failFrom := from, failTrigger := trigger, failTime := t,
                                  failReason := GetTransitResultString failR\<rparr>) }"

definition CheckState :: "env \<Rightarrow> PowerState \<Rightarrow> bool M" where
  "CheckState E state = do {
     cur \<leftarrow> GetState;
     State_Monad.return
       (if state = DIM \<or> (F_FORCE_SLEEP_BROADCAST E \<and> state = SLEEP) \<or> state = AWAKE
        then True else state \<noteq> cur) }"

text \<open>The state that the display shows, when it contradicts the recorded one.\<close>

definition matched_state :: "PowerState \<Rightarrow> PowerState \<Rightarrow> DisplayState \<Rightarrow> PowerState" where
  "matched_state target cur display =
    (if target \<in> {SLEEP, HIBERNATE, SHUTDOWN} \<or> cur \<in> {SLEEP, HIBERNATE, SHUTDOWN} then cur
     else (case display of
         DISPLAY_OFF \<Rightarrow> if cur = AWAKE \<or> cur = FREEZE then INACTIVE else cur
       | DISPLAY_DIM \<Rightarrow> if cur = INACTIVE \<or> cur = STAND_BY \<or> cur = DOZE then DIM else cur
       | DISPLAY_ON \<Rightarrow> if cur = INACTIVE \<or> cur = STAND_BY \<or> cur = DOZE then AWAKE else cur
       | _ \<Rightarrow> cur))"

definition MatchState :: "PowerState \<Rightarrow> DisplayState \<Rightarrow> unit M" where
  "MatchState target display =
    mod_psm (\<lambda>s. s\<lparr>currentState := matched_state target (currentState s) display\<rparr>)"

definition TransitTo :: "env \<Rightarrow> PowerState \<Rightarrow> StateChangeReason \<Rightarrow> bool \<Rightarrow> TransitResult M" where
  "TransitTo E state reason ignoreLock = do {
     display \<leftarrow> GetDisplayState E;
     MatchState state display;
     cur \<leftarrow> GetState;
     proceed \<leftarrow> CheckState E state;
     if \<not> proceed then do {
       RecordFailure E state cur reason ALREADY_IN_STATE;
       State_Monad.return ALREADY_IN_STATE }
     else do {
       can \<leftarrow> (if reason \<noteq> STATE_CHANGE_REASON_INIT then CanTransitTo E cur state reason
               else State_Monad.return True);
       if \<not> can then do {
         RecordFailure E state cur reason FORBID_TRANSIT;
         State_Monad.return FORBID_TRANSIT }
       else do {
         unlocked \<leftarrow> (if ignoreLock then State_Monad.return True else CheckRunningLock E state);
         if \<not> unlocked then do {
           RecordFailure E state cur reason LOCKING;
           State_Monad.return LOCKING }
         else do {
           preBright \<leftarrow> HandlePreBrightState E state reason;
           if \<not> preBright then State_Monad.return PRE_BRIGHT_ERR
           else do {
             ret \<leftarrow> controller_action E state reason;
             (if ret = SUCCESS then do {
                before \<leftarrow> GetState;
                needNotify \<leftarrow> NeedNotify E state before;
                t \<leftarrow> GetTickCount E;
                update_controller state (\<lambda>c. c\<lparr>lastReason := reason, lastTime := t\<rparr>);
                mod_psm (\<lambda>s. s\<lparr>currentState := state\<rparr>);
                whenM needNotify (NotifyPowerStateChanged E state reason) }
              else whenM (IsReallyFailed reason \<and> ret \<noteq> TAKEN_OVER) (do {
                before \<leftarrow> GetState;
                RecordFailure E state before reason ret }));
             State_Monad.return ret } } } } }"

section \<open>SetState\<close>

definition UpdateSettingStateFlag :: "PowerState \<Rightarrow> StateChangeReason \<Rightarrow> unit M" where
  "UpdateSettingStateFlag state reason = do {
     cur \<leftarrow> GetState;
     if (reason = STATE_CHANGE_REASON_PRE_BRIGHT \<or>
         reason = STATE_CHANGE_REASON_PRE_BRIGHT_AUTH_FAIL_SCREEN_OFF) \<and> cur \<noteq> AWAKE
     then mod_psm (\<lambda>s. s\<lparr>settingOnStateFlag := False, settingOffStateFlag := True\<rparr>)
     else mod_psm (\<lambda>s. s\<lparr>settingOnStateFlag := (state = AWAKE), settingOffStateFlag := (state = INACTIVE)\<rparr>) }"

definition RestoreSettingStateFlag :: "unit M" where
  "RestoreSettingStateFlag =
    mod_psm (\<lambda>s. s\<lparr>settingOnStateFlag := False, settingOffStateFlag := False\<rparr>)"

definition SetScreenCommonEventRules :: "env \<Rightarrow> StateChangeReason \<Rightarrow> bool M" where
  "SetScreenCommonEventRules E reason = do {
     p \<leftarrow> gets ptrs;
     if \<not> screenCommonEventController p then State_Monad.return False
     else do {
       ready \<leftarrow> (if customizedEventController p then State_Monad.return True
         else do {
           ok \<leftarrow> ask_bool E (Service (HookExecute ''POWER_SCREEN_COMMON_EVENT_CUSTOMIZED_CONTROLLER_INIT''));
           mod_ptrs (\<lambda>p. p\<lparr>customizedEventController := ok\<rparr>);
           State_Monad.return ok });
       whenM ready (log_call (Event (SetScreenOnRules reason)));
       State_Monad.return True } }"

text \<open>\<open>WakeupController::RegisterMonitor\<close>.\<close>

definition RegisterMonitor :: "env \<Rightarrow> PowerState \<Rightarrow> unit M" where
  "RegisterMonitor E state = whenM (F_MULTIMODAL_INPUT E) (do {
     s \<leftarrow> gets svc;
     if state \<noteq> AWAKE \<and> state \<noteq> INACTIVE then skip
     else if monitorState s = state then skip
     else do {
       present \<leftarrow> ask_bool E (Service InputManagerPresent);
       if \<not> present then skip
       else do {
         whenM (monitorId s \<ge> 0) (log_call (Service (InputUnsubscribeActive (monitorId s))));
         n \<leftarrow> ask_int E (Service (InputSubscribeActive (state = AWAKE)));
         mod_svc (\<lambda>s. s\<lparr>monitorId := n, monitorState := state\<rparr>) } } })"

definition SettingStateFlag_begin :: "PowerState \<Rightarrow> StateChangeReason \<Rightarrow> unit M" where
  "SettingStateFlag_begin state reason = mod_psm (\<lambda>s. s\<lparr>settingStateFlag :=
     (if state = DIM \<and> reason = STATE_CHANGE_REASON_COORDINATION then FORCE_SETTING_DIM
      else int (PowerState_val state))\<rparr>)"

definition SettingStateFlag_end :: "unit M" where
  "SettingStateFlag_end = mod_psm (\<lambda>s. s\<lparr>settingStateFlag := FLAG_NONE\<rparr>)"

text \<open>The part of \<open>SetState\<close> that runs while the \<open>SettingStateFlag\<close> object is alive.\<close>

definition SetState_guarded :: "env \<Rightarrow> PowerState \<Rightarrow> StateChangeReason \<Rightarrow> bool \<Rightarrow> bool M" where
  "SetState_guarded E state reason force = do {
     HandleProximityScreenOffTimer E state reason;
     controller \<leftarrow> gets (\<lambda>w. controllerMap (psm w) state);
     if controller = None then State_Monad.return False
     else do {
       timingOut \<leftarrow> gets (\<lambda>w. forceTimingOut (psm w));
       UpdateSettingStateFlag state reason;
       rules \<leftarrow> (if F_WATCH_RULES E then SetScreenCommonEventRules E reason
                 else State_Monad.return True);
       if \<not> rules then State_Monad.return False
       else do {
         p \<leftarrow> gets ptrs;
         whenM (pmsWeak p \<and> wakeupController p \<and> state = INACTIVE) (RegisterMonitor E state);
         ret \<leftarrow> TransitTo E state reason (force \<or> (IsTimeoutReason reason \<and> timingOut));
         cur \<leftarrow> GetState;
         whenM (pmsWeak p \<and> wakeupController p) (RegisterMonitor E cur);
         RestoreSettingStateFlag;
         State_Monad.return (ret = SUCCESS \<or> ret = ALREADY_IN_STATE) } } }"

definition SetState :: "env \<Rightarrow> PowerState \<Rightarrow> StateChangeReason \<Rightarrow> bool \<Rightarrow> bool M" where
  "SetState E state reason force = do {
     available \<leftarrow> CheckFFRTTaskAvailability E state reason;
     if \<not> available then State_Monad.return False
     else do {
       SettingStateFlag_begin state reason;
       r \<leftarrow> SetState_guarded E state reason force;
       SettingStateFlag_end;
       State_Monad.return r } }"

end
