(* ===== verification/State_Frames.thy ===== *)
theory State_Frames
  imports State_Transit
begin

text \<open>
  What the helpers of the state machine leave alone.  An observation of the world is \<open>inert\<close> when it
  does not look at the timers, the suspend controller, the device action, or the fields of
  the state machine that its helpers write on the way to a transition.  The running locks, the
  configuration and, above all, the current power state are inert observations, so every helper keeps
  them; only \<open>TransitTo\<close> moves the current state.
\<close>

definition inert :: "(world \<Rightarrow> 'b) \<Rightarrow> bool" where
  "inert f = (ig_quiet f \<and> ig_timers f \<and> ig_susp f \<and> ig_act f \<and>
    (\<forall>w x. f (w\<lparr>psm := (psm w)\<lparr>settingStateFlag := x\<rparr>\<rparr>) = f w) \<and>
    (\<forall>w x. f (w\<lparr>psm := (psm w)\<lparr>mDeviceState := x\<rparr>\<rparr>) = f w) \<and>
    (\<forall>w x. f (w\<lparr>psm := (psm w)\<lparr>proximityScreenOffTimerStarted := x\<rparr>\<rparr>) = f w) \<and>
    (\<forall>w x. f (w\<lparr>psm := (psm w)\<lparr>isAwakeNotified := x\<rparr>\<rparr>) = f w) \<and>
    (\<forall>w x. f (w\<lparr>psm := (psm w)\<lparr>preBrightState := x\<rparr>\<rparr>) = f w) \<and>
    (\<forall>w x. f (w\<lparr>psm := (psm w)\<lparr>controllerMap := x\<rparr>\<rparr>) = f w))"

lemma inert_ig:
  assumes "inert f" shows "ig_quiet f" "ig_timers f" "ig_susp f" "ig_act f"
  using assms by (auto simp: inert_def)

lemma inert_effects: "inert effects"
  by (simp add: inert_def ig_quiet_effects ig_effects) (simp add: effects_def)

lemma inert_psm:
  assumes "inert f"
  shows "f (w\<lparr>psm := (psm w)\<lparr>settingStateFlag := x1\<rparr>\<rparr>) = f w"
    "f (w\<lparr>psm := (psm w)\<lparr>mDeviceState := x2\<rparr>\<rparr>) = f w"
    "f (w\<lparr>psm := (psm w)\<lparr>proximityScreenOffTimerStarted := x3\<rparr>\<rparr>) = f w"
    "f (w\<lparr>psm := (psm w)\<lparr>isAwakeNotified := x4\<rparr>\<rparr>) = f w"
    "f (w\<lparr>psm := (psm w)\<lparr>preBrightState := x5\<rparr>\<rparr>) = f w"
    "f (w\<lparr>psm := (psm w)\<lparr>controllerMap := x6\<rparr>\<rparr>) = f w"
  using assms by (auto simp: inert_def)

lemma inert_examples:
  "inert rlm" "inert curTask"
  "inert (\<lambda>w. currentState (psm w))"
  "inert (\<lambda>w. displayOffTime (psm w))"
  "inert (\<lambda>w. preHibernateStart (psm w))"
  by (simp_all add: inert_def ig_defs ig_quiet_def)

section \<open>Helpers of theory State\_Base\<close>


lemma keeps_CancelDelayTimer [keeps_intros]: "inert f \<Longrightarrow> keeps f (CancelDelayTimer E ev)"
  by (cases ev) (auto simp: CancelDelayTimer_def inert_ig inert_psm trace_app intro!: keeps_intros)

lemma keeps_SetDelayTimer [keeps_intros]: "inert f \<Longrightarrow> keeps f (SetDelayTimer E d ev)"
  by (cases ev) (auto simp: SetDelayTimer_def inert_ig inert_psm trace_app intro!: keeps_intros)

lemma keeps_ResetInactiveTimer [keeps_intros]: "inert f \<Longrightarrow> keeps f (ResetInactiveTimer E)"
  unfolding ResetInactiveTimer_def PublishRefreshEvent_def ResetScreenOffPreTimeForSwing_def
    GetDisplayOffTime_def Let_def
  by (auto simp: inert_ig inert_psm trace_app intro!: keeps_intros)

lemma keeps_SetAutoSuspend [keeps_intros]: "inert f \<Longrightarrow> keeps f (SetAutoSuspend E t d)"
  by (auto simp: SetAutoSuspend_def inert_ig trace_app intro!: keeps_intros)

lemma keeps_PsmStartSleepTimer [keeps_intros]: "inert f \<Longrightarrow> keeps f (PsmStartSleepTimer E s)"
  by (auto simp: PsmStartSleepTimer_def intro!: keeps_intros)

lemma keeps_queries [keeps_intros]:
  "keeps f GetState" "keeps f IsSwitchOpen" "keeps f IsHibernating" "keeps f GetDisplayOffTime"
  "keeps f IsProximityClose" "keeps f (GetValidRunningLockNum E t d)" "keeps f (IsLidOrSwitchOpen E)"
  "keeps f GetExternalScreenNumber" "keeps f (IsSettingState s)" "keeps f (GetTaskHandlePtr i u)"
  "keeps f (IsWakeupDeviceSkip E)" "keeps f (IsScreenOffBlocked b)"
  by (auto simp: GetState_def IsSwitchOpen_def IsHibernating_def GetDisplayOffTime_def
      IsProximityClose_def GetValidRunningLockNum_def IsLidOrSwitchOpen_def IsSettingState_def
      GetExternalScreenNumber_def GetTaskHandlePtr_def IsWakeupDeviceSkip_def IsScreenOffBlocked_def
      intro!: keeps_intros)

lemma keeps_anyLockHeld [keeps_intros]: "keeps f (anyLockHeld E ts)"
  by (induction ts) (auto intro!: keeps_intros)

lemma keeps_lock_queries [keeps_intros]:
  "keeps f (CheckRunningLock E s)" "keeps f (IsRunningLockEnabled E t)"
  by (auto simp: CheckRunningLock_def IsRunningLockEnabled_def intro!: keeps_intros)

lemma keeps_GetReasonBySuspendType [keeps_intros]: "keeps f (GetReasonBySuspendType E t)"
  by (cases t) (auto simp: GetReasonBySuspendType_def intro!: keeps_intros)

lemma keeps_IsScreenOn [keeps_intros]: "ig_act f \<Longrightarrow> ig_quiet f \<Longrightarrow> keeps f (IsScreenOn E)"
  by (auto simp: IsScreenOn_def intro!: keeps_intros)

lemma keeps_IsMovementStateOn [keeps_intros]: "ig_quiet f \<Longrightarrow> keeps f (IsMovementStateOn E)"
  by (auto simp: IsMovementStateOn_def trace_app intro!: keeps_intros)

lemma keeps_internal_screen [keeps_intros]:
  assumes "ig_act f" "ig_quiet f"
  shows "keeps f (SetInternalScreenDisplayState E d r)" "keeps f (HandleOnlySecondScreenWhenCoverOpen E r)"
  using assms
  by (auto simp: SetInternalScreenDisplayState_def HandleOnlySecondScreenWhenCoverOpen_def
      intro!: keeps_intros)

lemma keeps_SendCustomizedScreenEvent [keeps_intros]:
  "ig_quiet f \<Longrightarrow> keeps f (SendCustomizedScreenEvent E s t r)"
  by (auto simp: SendCustomizedScreenEvent_def trace_app intro!: keeps_intros)

lemma keeps_SendEventToPowerMgrNotify [keeps_intros]:
  "inert f \<Longrightarrow> keeps f (SendEventToPowerMgrNotify E s t r)"
  by (cases s) (auto simp: SendEventToPowerMgrNotify_def inert_ig inert_psm trace_app intro!: keeps_intros)

lemma keeps_NotifyPowerStateChanged [keeps_intros]:
  "inert f \<Longrightarrow> keeps f (NotifyPowerStateChanged E s r)"
  unfolding NotifyPowerStateChanged_def NotifySyncListener_def
  by (auto simp: inert_ig trace_app intro!: keeps_intros)

section \<open>Helpers of theory State\_Transit\<close>

lemma keeps_LightUpBlocked [keeps_intros]: "inert f \<Longrightarrow> keeps f (LightUpBlocked E a b r)"
  by (auto simp: LightUpBlocked_def inert_ig trace_app intro!: keeps_intros)

lemma keeps_checks [keeps_intros]:
  assumes "inert f"
  shows "keeps f (CanTransitTo E a b r)" "keeps f (CheckFFRTTaskAvailability E s r)"
    "keeps f (HandleProximityScreenOffTimer E s r)" "keeps f (HandlePreBrightState E s r)"
    "keeps f (TakeOverSuspendAction E r)" "keeps f (NeedNotify E a b)" "keeps f (CheckState E s)"
  using assms
  by (auto simp: CanTransitTo_def CheckFFRTTaskAvailability_def HandleProximityScreenOffTimer_def
      HandlePreBrightState_def TakeOverSuspendAction_def NeedNotify_def CheckState_def
      IsMovementStateOn_def inert_ig inert_psm trace_app intro!: keeps_intros)

lemma keeps_RecordFailure [keeps_intros]: "inert f \<Longrightarrow> keeps f (RecordFailure E s a r t)"
  by (auto simp: RecordFailure_def update_controller_def inert_ig inert_psm trace_app intro!: keeps_intros)

lemma keeps_update_controller [keeps_intros]: "inert f \<Longrightarrow> keeps f (update_controller s g)"
  by (auto simp: update_controller_def inert_ig inert_psm trace_app intro!: keeps_intros)

lemma keeps_actions:
  assumes "inert f" "ig_trace f"
  shows "keeps f (action_AWAKE E r)" "keeps f (action_INACTIVE E r)" "keeps f (action_off_time E)"
    "keeps f action_SLEEP" "keeps f (action_DIM E r)"
  using assms unfolding action_AWAKE_def action_INACTIVE_def action_off_time_def action_SLEEP_def
    action_DIM_def Let_def
  by (auto simp: inert_ig inert_psm trace_app intro!: keeps_intros)

lemma keeps_controller_action [keeps_intros]: "inert f \<Longrightarrow> ig_trace f \<Longrightarrow> keeps f (controller_action E s r)"
  by (cases s) (auto simp: controller_action_def keeps_actions intro!: keeps_intros)

section \<open>SetState\<close>

lemma ig_app: "ig_svc f \<Longrightarrow> f (w\<lparr>svc := x\<rparr>) = f w" "ig_ptrs f \<Longrightarrow> f (w\<lparr>ptrs := y\<rparr>) = f w"
  "ig_psm f \<Longrightarrow> f (w\<lparr>psm := z\<rparr>) = f w" "ig_rlm f \<Longrightarrow> f (w\<lparr>rlm := u\<rparr>) = f w"
  by (simp_all add: ig_defs)

text \<open>The two fields outside the state machine that \<open>SetState\<close> writes itself.\<close>

definition ig_monitor :: "(world \<Rightarrow> 'b) \<Rightarrow> bool" where
  "ig_monitor f = (\<forall>w x y. f (w\<lparr>svc := (svc w)\<lparr>monitorId := x, monitorState := y\<rparr>\<rparr>) = f w)"

definition ig_customized :: "(world \<Rightarrow> 'b) \<Rightarrow> bool" where
  "ig_customized f = (\<forall>w x. f (w\<lparr>ptrs := (ptrs w)\<lparr>customizedEventController := x\<rparr>\<rparr>) = f w)"

lemma keeps_RegisterMonitor [keeps_intros]:
  "ig_quiet f \<Longrightarrow> ig_monitor f \<Longrightarrow> keeps f (RegisterMonitor E s)"
  by (auto simp: RegisterMonitor_def trace_app ig_monitor_def intro!: keeps_intros)

lemma keeps_SetScreenCommonEventRules [keeps_intros]:
  "ig_quiet f \<Longrightarrow> ig_customized f \<Longrightarrow> keeps f (SetScreenCommonEventRules E r)"
  by (auto simp: SetScreenCommonEventRules_def trace_app ig_customized_def intro!: keeps_intros)

lemma keeps_flag_begin [keeps_intros]: "inert f \<Longrightarrow> keeps f (SettingStateFlag_begin s r)"
  and keeps_flag_end [keeps_intros]: "inert f \<Longrightarrow> keeps f SettingStateFlag_end"
  by (auto simp: SettingStateFlag_begin_def SettingStateFlag_end_def inert_psm intro!: keeps_intros)

text \<open>
  An observation is \<open>outer\<close> when it looks at nothing that \<open>SetState\<close> writes: the running locks, the
  configuration of the state machine, the listeners.
\<close>

definition outer :: "(world \<Rightarrow> 'b) \<Rightarrow> bool" where
  "outer f = (inert f \<and> ig_trace f \<and> ig_monitor f \<and> ig_customized f \<and>
    (\<forall>w x. f (w\<lparr>psm := (psm w)\<lparr>currentState := x\<rparr>\<rparr>) = f w) \<and>
    (\<forall>w x y. f (w\<lparr>psm := (psm w)\<lparr>settingOnStateFlag := x, settingOffStateFlag := y\<rparr>\<rparr>) = f w))"

lemma outer_ig:
  assumes "outer f"
  shows "inert f" "ig_trace f" "ig_monitor f" "ig_customized f" "ig_quiet f" "ig_timers f" "ig_susp f" "ig_act f"
  using assms by (auto simp: outer_def inert_ig)

lemma outer_psm:
  assumes "outer f"
  shows "f (w\<lparr>psm := (psm w)\<lparr>currentState := x\<rparr>\<rparr>) = f w"
    "f (w\<lparr>psm := (psm w)\<lparr>settingOnStateFlag := y, settingOffStateFlag := z\<rparr>\<rparr>) = f w"
  using assms by (auto simp: outer_def)

lemma outer_examples:
  "outer rlm" "outer curTask" "outer (\<lambda>w. displayOffTime (psm w))"
  "outer (\<lambda>w. hibernating (psm w))" "outer (\<lambda>w. switchOpen (psm w))"
  "outer (\<lambda>w. syncPowerStateListeners (psm w))" "outer (\<lambda>w. asyncPowerStateListeners (psm w))"
  by (simp_all add: outer_def inert_def ig_defs ig_quiet_def ig_monitor_def ig_customized_def)

lemma keeps_TransitTo [keeps_intros]: "outer f \<Longrightarrow> keeps f (TransitTo E s r b)"
  unfolding TransitTo_def MatchState_def
  by (auto simp: outer_ig outer_psm intro!: keeps_intros)

lemma keeps_SetState [keeps_intros]: "outer f \<Longrightarrow> keeps f (SetState E s r b)"
  unfolding SetState_def SetState_guarded_def UpdateSettingStateFlag_def RestoreSettingStateFlag_def
  by (auto simp: outer_ig outer_psm intro!: keeps_intros)

end
