(* ===== verification/State_Laws.thy ===== *)
theory State_Laws
  imports State_Frames
begin

text \<open>
  Correctness of state transitions: which transitions \<open>SetState\<close> can make, what blocks it, what it
  leaves behind, and that a task that was cancelled or replaced has no effect.
\<close>

section \<open>The current state through a transition\<close>

abbreviation cur :: "world \<Rightarrow> PowerState" where
  "cur w \<equiv> currentState (psm w)"

lemma cur_kept: "keeps cur m \<Longrightarrow> cur (exec m w) = cur w"
  by (rule keepsD)

lemma inert_cur: "inert cur"
  by (rule inert_examples)

text \<open>
  A helper that keeps the current state is replaced, in a weakest precondition, by an arbitrary result
  and an arbitrary world with the same current state.
\<close>

lemma wp_cur:
  assumes "keeps cur m" and "\<And>x t. cur t = cur w \<Longrightarrow> x = result m w \<Longrightarrow> Q x t"
  shows "wp m Q w"
  using assms by (simp add: wp_def keepsD [of cur])

lemma trace_cur: "ig_trace cur"
  by (simp add: ig_defs)

lemmas cur_ig = inert_ig [OF inert_cur]

lemmas cur_rules =
  wp_cur [OF keeps_LightUpBlocked [OF inert_cur]]
  wp_cur [OF keeps_lock_queries(1)] wp_cur [OF keeps_lock_queries(2)]
  wp_cur [OF keeps_device_action(9) [OF cur_ig(4) cur_ig(1)]]
  wp_cur [OF keeps_GetTickCount [OF cur_ig(1)]]
  wp_cur [OF keeps_RecordFailure [OF inert_cur]]
  wp_cur [OF keeps_update_controller [OF inert_cur]]
  wp_cur [OF keeps_NotifyPowerStateChanged [OF inert_cur]]
  wp_cur [OF keeps_controller_action [OF inert_cur trace_cur]]
  wp_cur [OF keeps_checks(1) [OF inert_cur]]
  wp_cur [OF keeps_checks(2) [OF inert_cur]]
  wp_cur [OF keeps_checks(3) [OF inert_cur]]
  wp_cur [OF keeps_checks(4) [OF inert_cur]]
  wp_cur [OF keeps_checks(6) [OF inert_cur]]

lemma run_GetState [simp]: "result GetState w = cur w" "exec GetState w = w"
  by (simp_all add: GetState_def)

lemma wp_GetState [wp_simps]: "wp GetState Q w = Q (cur w) w"
  by (simp add: GetState_def wp_simps)

lemma wp_MatchState [wp_simps]:
  "wp (MatchState s d) Q w = Q () (w\<lparr>psm := (psm w)\<lparr>currentState := matched_state s (cur w) d\<rparr>\<rparr>)"
  by (simp add: MatchState_def wp_simps)

lemma wp_CheckState [wp_simps]:
  "wp (CheckState E s) Q w =
    Q (s = DIM \<or> (F_FORCE_SLEEP_BROADCAST E \<and> s = SLEEP) \<or> s = AWAKE \<or> s \<noteq> cur w) w"
  by (auto simp: CheckState_def wp_simps)

text \<open>
  A transition from \<open>c\<close> to \<open>s\<close> for reason \<open>r\<close> is legal when the tables of the state machine permit it;
  the initial transition is not checked.
\<close>

definition legal_transit :: "env \<Rightarrow> StateChangeReason \<Rightarrow> PowerState \<Rightarrow> PowerState \<Rightarrow> bool" where
  "legal_transit E r c s = (if r = STATE_CHANGE_REASON_INIT then True
     else \<not> is_forbidden E c s \<and> is_allowed r c s)"

lemma CanTransitTo_sound:
  "wp (CanTransitTo E a s r) (\<lambda>ok t. cur t = cur w \<and>
     (ok \<longrightarrow> \<not> is_forbidden E (cur w) s \<and> is_allowed r (cur w) s)) w"
  unfolding CanTransitTo_def
  by (auto simp: wp_simps intro!: cur_rules split: if_splits)

lemma wp_CanTransitTo:
  assumes "\<And>ok t. cur t = cur w \<Longrightarrow>
    (ok \<Longrightarrow> \<not> is_forbidden E (cur w) s \<and> is_allowed r (cur w) s) \<Longrightarrow> Q ok t"
  shows "wp (CanTransitTo E a s r) Q w"
  by (rule wp_weaken [OF CanTransitTo_sound]) (use assms in blast)

lemma controller_action_result:
  "wp (controller_action E s r) (\<lambda>ret t. ret \<notin> {ALREADY_IN_STATE, LOCKING, FORBID_TRANSIT, PRE_BRIGHT_ERR}) w"
  by (cases s)
    (auto simp: controller_action_def action_AWAKE_def action_INACTIVE_def action_off_time_def
      action_SLEEP_def action_DIM_def TakeOverSuspendAction_def Let_def wp_def)

lemma wp_controller_action:
  assumes "\<And>ret t. cur t = cur w \<Longrightarrow> ret \<notin> {ALREADY_IN_STATE, LOCKING, FORBID_TRANSIT, PRE_BRIGHT_ERR} \<Longrightarrow> Q ret t"
  shows "wp (controller_action E s r) Q w"
  using assms controller_action_result [of E s r w]
    keepsD [OF keeps_controller_action [OF inert_cur trace_cur], of E s r w]
  by (simp add: wp_def)

lemmas cur_rules' = wp_CanTransitTo wp_controller_action
  wp_cur [OF keeps_lock_queries(1)]
  wp_cur [OF keeps_device_action(9) [OF cur_ig(4) cur_ig(1)]]
  wp_cur [OF keeps_GetTickCount [OF cur_ig(1)]]
  wp_cur [OF keeps_RecordFailure [OF inert_cur]]
  wp_cur [OF keeps_update_controller [OF inert_cur]]
  wp_cur [OF keeps_NotifyPowerStateChanged [OF inert_cur]]
  wp_cur [OF keeps_checks(4) [OF inert_cur]]
  wp_cur [OF keeps_checks(6) [OF inert_cur]]

text \<open>What \<open>TransitTo\<close> does to the current state, on every path.\<close>

definition transit_outcome ::
    "env \<Rightarrow> PowerState \<Rightarrow> StateChangeReason \<Rightarrow> PowerState \<Rightarrow> TransitResult \<Rightarrow> PowerState \<Rightarrow> bool" where
  "transit_outcome E s r c ret c' =
    (if ret = SUCCESS then c' = s \<and> legal_transit E r c s
     else if ret = ALREADY_IN_STATE then c' = c \<and> c = s
     else c' = c)"

lemma cur_TransitTo:
  "wp (TransitTo E s r ig) (\<lambda>ret t.
     transit_outcome E s r (matched_state s (cur w) (result (GetDisplayState E) w)) ret (cur t)) w"
  unfolding TransitTo_def
  by (auto simp: transit_outcome_def legal_transit_def wp_simps intro!: cur_rules' split: if_splits)

lemma wp_TransitTo:
  assumes "\<And>ret t d. transit_outcome E s r (matched_state s (cur w) d) ret (cur t) \<Longrightarrow> Q ret t"
  shows "wp (TransitTo E s r ig) Q w"
  by (rule wp_weaken [OF cur_TransitTo]) (use assms in blast)

section \<open>The current state through SetState\<close>

text \<open>
  What \<open>SetState\<close> promises: if it reports success the device is in the requested state; otherwise
  the state is the old one, possibly corrected to what the display shows; and a change into the
  requested state that is not such a correction is legal.
\<close>

definition set_state_outcome ::
    "env \<Rightarrow> PowerState \<Rightarrow> StateChangeReason \<Rightarrow> PowerState \<Rightarrow> bool \<Rightarrow> PowerState \<Rightarrow> bool" where
  "set_state_outcome E s r c ok c' =
    ((ok \<longrightarrow> c' = s) \<and>
     (\<exists>d. c' = matched_state s c d \<or> c' = s \<and> legal_transit E r (matched_state s c d) s))"

lemma matched_state_unknown [simp]: "matched_state s c DISPLAY_UNKNOWN = c"
  by (simp add: matched_state_def)

lemma set_state_outcome_same: "set_state_outcome E s r c False c"
  unfolding set_state_outcome_def by (metis matched_state_unknown)

lemma wp_cur_simple: "keeps cur m \<Longrightarrow> (\<And>x t. cur t = cur w \<Longrightarrow> Q x t) \<Longrightarrow> wp m Q w"
  by (rule wp_cur)

lemma ig_cur: "ig_monitor cur" "ig_customized cur"
  by (simp_all add: ig_monitor_def ig_customized_def)

lemmas set_state_rules =
  wp_TransitTo
  wp_cur_simple [OF keeps_checks(2) [OF inert_cur]]
  wp_cur_simple [OF keeps_checks(3) [OF inert_cur]]
  wp_cur_simple [OF keeps_SetScreenCommonEventRules [OF cur_ig(1) ig_cur(2)]]
  wp_cur_simple [OF keeps_RegisterMonitor [OF cur_ig(1) ig_cur(1)]]

lemma keeps_cur_flags:
  "keeps cur (UpdateSettingStateFlag s r)" "keeps cur RestoreSettingStateFlag"
  "keeps cur (SettingStateFlag_begin s r)" "keeps cur SettingStateFlag_end"
  by (auto simp: UpdateSettingStateFlag_def RestoreSettingStateFlag_def SettingStateFlag_begin_def
      SettingStateFlag_end_def intro!: keeps_intros)

lemmas flag_rules = keeps_cur_flags [THEN wp_cur_simple]

lemma transit_set_state_outcome:
  "transit_outcome E s r (matched_state s c d) ret c' \<Longrightarrow>
    set_state_outcome E s r c (ret = SUCCESS \<or> ret = ALREADY_IN_STATE) c'"
  unfolding set_state_outcome_def transit_outcome_def
  by (intro conjI exI [of _ d]) (auto split: if_splits)

lemma cur_SetState_guarded:
  "cur w = c \<Longrightarrow> wp (SetState_guarded E s r force) (\<lambda>ok t. set_state_outcome E s r c ok (cur t)) w"
  unfolding SetState_guarded_def
  by (auto simp: wp_simps set_state_outcome_same intro!: set_state_rules flag_rules,
      (erule transit_set_state_outcome)+)

lemma wp_SetState_guarded:
  "(\<And>ok t. set_state_outcome E s r (cur w) ok (cur t) \<Longrightarrow> Q ok t) \<Longrightarrow>
    wp (SetState_guarded E s r force) Q w"
  by (rule wp_weaken [OF cur_SetState_guarded [OF refl]])

lemma cur_SetState:
  "wp (SetState E s r force) (\<lambda>ok t. set_state_outcome E s r (cur w) ok (cur t)) w"
  unfolding SetState_def
  by (auto simp: wp_simps set_state_outcome_same intro!: set_state_rules flag_rules wp_SetState_guarded)

end
