(* ===== verification/Sample_World.thy ===== *)
theory Sample_World
  imports State_Transit
begin

text \<open>
  One concrete environment and one concrete world, in which the hypotheses of the theorems are
  satisfied: every optional feature of the build is off, every outside service answers favourably, the
  display shows \<open>DISPLAY_ON\<close>, the clock reads \<open>1000\<close>, task handles are numbered by the length of the
  trace.
\<close>

definition sample_env :: env where
  "sample_env =
    \<lparr>F_S4 = False, F_SCREEN_DECOUPLING = False, F_EXTERNAL_SCREEN = False, F_SENSORS = True,
     F_MSDP_MOVEMENT = False, F_TAKEOVER_SUSPEND = False, F_FORCE_SLEEP_BROADCAST = False,
     F_SUSPEND_WITH_TAG = False, F_CHARGING_TYPE = False, F_LONG_TIME_DIM = False,
     F_SCREEN_SAVER = False, F_TV_DREAMING = False, F_WATCH_RULES = False, F_FILTER_PROXIMITY = False,
     F_MONITOR_LOCK_CHANGE = False, F_LOCK_MULTI_SCREEN = False, F_AUDIO_LOCK_UNPROXY = False,
     F_MULTIMODAL_INPUT = False, F_WAKEUP_ACTION = False, F_WATCH_BOOT = False,
     F_FORCE_SUSPEND_EX = False, F_ULSR_PLUGIN = False, F_USER_IDLE_PERMISSIVE = False,
     F_MULTI_USER_SCREEN = False, F_JUDGE_TAKEOVER = False, F_MOUSE_DEBOUNCE = False, F_LID_FOLD = False,
     F_DISABLE_AUTO_DISPLAYOFF = False, F_RESOURCE_SCHEDULE = False, F_DISPLAY_MANAGER = False, F_WATCH_UPDATE_ADAPT = False, F_DOUBLECLICK = False, F_PICKUP = False,
     F_POWER_DIALOG = False, F_BLOCK_LONG_PRESS = False, F_FACTORY_MODE = False, F_DEVICE_STANDBY = False, F_VIBRATOR_MODE = False,
     extBool = (\<lambda>c tr. c \<noteq> ConcurrentRefresh \<and> c \<noteq> StateMutexBusy), extInt = (\<lambda>c tr. if c = GetTick then 1000 else 0),
     extDisplay = (\<lambda>tr. DISPLAY_ON), extString = (\<lambda>c tr. ''''),
     extHandle = (\<lambda>t tr. Some (Suc (length tr))),
     rosenCode = (\<lambda>r. case r of DMS_HARD_KEY \<Rightarrow> 12 | _ \<Rightarrow> 0), foldSub = 2, foldMain = 1, startUserId = 100, maxUserId = 10736,
     shutDownReasonCode = 30, constant_of = (\<lambda>name. int (length name)), shutdownFastReason = ''fast'', baseAppUid = 10000, hashPtr = (\<lambda>k. k),
     intParameter = (\<lambda>_ d. d), boolParameter = (\<lambda>_ d. d),
     strParameter = (\<lambda>_ d. d), cjsonParse = (\<lambda>_. None), cjsonPrint = (\<lambda>_. None)\<rparr>"

definition sample_controller :: StateController where
  "sample_controller =
    \<lparr>lastReason = STATE_CHANGE_REASON_UNKNOWN, lastTime = 0, failFrom = UNKNOWN,
     failTrigger = STATE_CHANGE_REASON_UNKNOWN, failReason = '''', failTime = 0\<rparr>"

definition sample_psm :: psm_state where
  "sample_psm =
    \<lparr>currentState = AWAKE,
     mDeviceState = \<lparr>screenDisplayState = DISPLAY_OFF, lastOnTime = 0, lastOffTime = 0,
       lastWakeupEventTime = 0, lastRefreshActivityTime = 0, lastWakeupDeviceTime = 0,
       lastSuspendDeviceTime = 0\<rparr>,
     controllerMap = (\<lambda>s. if s = UNKNOWN then None else Some sample_controller),
     syncPowerStateListeners = [7], asyncPowerStateListeners = [8], cachedRegister = (\<lambda>_. None),
     displayOffTime = 30000, psmSleepTime = 5000, enableDisplaySuspend = False,
     isScreenOffTimeOverride = False, beforeOverrideTime = -1, switchActionValue = 2,
     switchOpen = True, switchAction = SWITCH_ACTION_DEFAULT, hibernating = False,
     forceTimingOut = False, enabledTimingOutLockScreen = True,
     enabledTimingOutLockScreenCheckLock = False, enabledScreenOffEvent = True,
     settingStateFlag = -1, settingOnStateFlag = False, settingOffStateFlag = False,
     isAwakeNotified = True, preBrightState = PRE_BRIGHT_UNSTART,
     proximityScreenOffTimerStarted = False, isDozeEnabled = False, externalScreenNumber = 0,
     isDuringCall = False, isProximityCloseEventFiltered = False, screenOffBlockMap = (\<lambda>_. None),
     preHibernateStart = 0, prepareResult = True\<rparr>"

definition no_callbacks :: ShutdownCallbackHolder where
  "no_callbacks = \<lparr>highestShutdownCallbacks = [], highShutdownCallbacks = [],
     defaultShutdownCallbacks = [], lowShutdownCallbacks = [], lowestShutdownCallbacks = [],
     shutdownCachedRegister = (\<lambda>_. None)\<rparr>"

definition sample_world :: world where
  "sample_world =
    \<lparr>psm = sample_psm,
     act = \<lparr>isRegister = True, coordinated = False, screenOffStarted = False,
       cancelScreenOffCvUnblocked = False, interruptingScreenOff = False, screenOffInterrupted = False,
       allowSleepTask = False, powerInterface = True\<rparr>,
     susp = \<lparr>monitorMap = (\<lambda>_. None), sleepDuration = 0, sleepTime = -1,
       sleepReason = SUSPEND_DEVICE_REASON_APPLICATION, sleepAction = 0, sleepType = 0,
       powerkeyDownWhenScreenOff = False, lastPowerkeyUpTime = 0, forceSleeping = False,
       onForceSleep = False, highPriorityCallbacks = [3], defaultPriorityCallbacks = [1],
       lowPriorityCallbacks = [2], sleepCachedRegister = (\<lambda>_. None), highTakeOverCallbacks = [],
       defaultTakeOverCallbacks = [], lowTakeOverCallbacks = [], suspendPowerStateCallback = Some 7,
       isWakeupReasonConfigMatched = False, powerkeyScreenOff = False,
       powerkeyReleaseIdCache = 3301, lastForceSuspendStartTime = 0, mouseDebounceTimeAfterSuspend = 1000, forceSuspendCallbackPending = False,
       forceSuspendCallbackFinished = False, forceSuspendSkipHdi = False, forceSuspendTag = ''''\<rparr>,
     rlm = \<lparr>runningLocks = [], lockCounters = (\<lambda>t. Some 0), unSceneLockLists = [], proxyMap = [],
       runningLockCallback = None, runninglockTimerMap = [], handlerTimer = False, proximityEnabled = False, proximityClose = False,
       proximitySupported = True,
       callbackManager = \<lparr>lockCallbacks = [], screenLockCountPerDisplayId = Map.empty\<rparr>\<rparr>,
     hib = \<lparr>hibPrepared = False, hibHighCallbacks = [5], hibDefaultCallbacks = [4],
       hibLowCallbacks = [6], hibCachedRegister = (\<lambda>_. None)\<rparr>,
     shut = \<lparr>takeoverHolder = no_callbacks, asyncHolder = no_callbacks\<lparr>highShutdownCallbacks := [9]\<rparr>,
       syncHolder = no_callbacks\<lparr>lowestShutdownCallbacks := [3], highestShutdownCallbacks := [4]\<rparr>\<rparr>,
     wake = \<lparr>wakeMonitorMap = (\<lambda>_. None), eventHandleMap = (\<lambda>_. None),
       powerkeyShortPressIdCache = 3301, wakeupActionSources = (\<lambda>_. None)\<rparr>,
     ulsr = \<lparr>ulsrCallbackHolder = False, callbackState = STAGE_DONE, ulsrHighCallbacks = [],
       ulsrDefaultCallbacks = [], ulsrLowCallbacks = [], ulsrResultWaitTaskStart = False\<rparr>,
     stg = \<lparr>currentUserId = 100, needMultiUserStrMap = [], doubleClickObserver = False, pickUpObserver = False,
       powerModeObserver = False, lidObserver = False, duringCallObserver = False,
       suspendSourcesKeyObserver = False, suspendSourcesKeyAcObserver = False, suspendSourcesKeyDcObserver = False,
       wakeupSourcesKeyObserver = False, displayOffTimeObserver = False, displayOffTimeAcObserver = False,
       displayOffTimeDcObserver = False, isFirstSettingUpdated = True\<rparr>,
     pmode = \<lparr>powerMode = 600, powerSubMode = -1, lastMode = 0, modeStarted = False, observerRegisted = False,
       modeReady = False, autoAdjustBrightnessObserver = False, autoWindowRotationObserver = False,
       vibratorsStateObserver = False, intellVoiceObserver = False, modeCallbacks = [],
       modeCachedRegister = (\<lambda>_. None), modeSubscriber = False, switchMap = [], recoverMap = [], backupMap = [],
       policyCache = []\<rparr>,
     pre = \<lparr>preRemainTime = 0, preRegistered = False, preCallbacks = [], eyeDetectHandle = None, preQueue = True\<rparr>,
     saver = \<lparr>saverManager = False, plugStatus = -1, screenSaverHandle = None, currentSettingTime = 0,
       acScreenSaverTimeObserver = False, dcScreenSaverTimeObserver = False\<rparr>,
     svc = \<lparr>bootCompleted = True, hibernateEnable = True, isInLidMode = False, lidCheckEnable = False, duringCallStateEnable = False,
       longPressFlag = False, shuttingDown = False, powerConnectStatus = 0,
       powerkeyBlockedFoldMode = -1, monitorState = UNKNOWN, monitorId = -1, shutdownDialogForbid = False,
       lockScreenHelper = new_helper 3 5, forceTimingOutInvoker = None, inputMonitorId = -1, pickUpOpen = False,
       keepOnToken = None, externalScreenListener = False, abnormalExScreenListener = False,
       isExternalScreenWakeup = True, commonEventSubscriber = False,
       lockEventSubscriber = False, switchSubscriberId = -1, serviceReady = True, needReInit = False,
       displayManagerServiceCrash = False, hdiRemoved = False, foldScreen = False,
       dialog = \<lparr>longPressId = 0, isDialogShow = False, dialogRetryCount = 1, dialogRemote = None,
         dialogBundle = ''com.ohos.powerdialog'', dialogAbility = ''PowerUiExtensionAbility'',
         uiExtensionType = ''sysDialog/power'', systemBundle = ''com.ohos.systemui'',
         systemAbility = ''com.ohos.systemui.dialog''\<rparr>, vibratorSources = [],
       clientDeathRecipientMap = (\<lambda>_. None)\<rparr>,
     ptrs = \<lparr>pms = True, pmsWeak = True, psmTimer = True, suspTimer = True, lockTimer = True,
       stateAction = True, suspendController = True, wakeupController = True, runningLockMgr = True,
       powerMgrNotify = True, screenCommonEventController = True, customizedEventController = True,
       suspStateMachine = True, screenOffPreController = True, powerScreenSaver = True, hibernateController = True,
       shutdownController = True, powerModePolicy = True,
       devicePowerAction = True, wakeupActionController = True\<rparr>,
     timers = (\<lambda>_. \<lparr>handleMap = (\<lambda>_. None), taskId = (\<lambda>_. 0)\<rparr>),
     curTask = None,
     trace = []\<rparr>"

definition with_state :: "PowerState \<Rightarrow> world \<Rightarrow> world" where
  "with_state s w = w\<lparr>psm := (psm w)\<lparr>currentState := s\<rparr>\<rparr>"

lemmas sample_defs = sample_env_def sample_world_def sample_psm_def sample_controller_def with_state_def
  no_callbacks_def

end
