(* ===== verification/State_Safety.thy ===== *)
theory State_Safety
  imports State_Laws Sample_World
begin

text \<open>
  Safety of state changes: what \<open>SetState\<close> may do to the power state, what stops it, and that a timer
  task that was cancelled or replaced has no effect.
\<close>

section \<open>Which transitions happen\<close>

lemma SetState_outcome:
  "set_state_outcome E s r (cur w) (result (SetState E s r f) w) (cur (exec (SetState E s r f) w))"
  using cur_SetState [of E s r f w] by (simp add: wp_def)

text \<open>
  C1: \<open>SetState\<close> keeps its promise in every environment.  If it reports success, the device is in the
  requested state.  In any case the new state is either the old one, corrected to what the display
  shows, or the requested one, and then the transition tables permit the change.
\<close>

theorem SetState_sound:
  "set_state_outcome E s r (cur w) (result (SetState E s r force) w)
     (cur (exec (SetState E s r force) w))"
  by (rule SetState_outcome)

lemma matched_state_not_sleep:
  "c \<noteq> SLEEP \<Longrightarrow> matched_state s c d \<noteq> SLEEP"
  by (auto simp: matched_state_def split: DisplayState.split if_splits)

lemma matched_state_target: "s \<in> {SLEEP, HIBERNATE, SHUTDOWN} \<Longrightarrow> matched_state s c d = c"
  by (auto simp: matched_state_def)

text \<open>
  The device never goes to sleep straight from a lit state.  Whatever the reason, the lock
  override and the answers of the outside services are, a request for \<open>SLEEP\<close> made while the device
  is \<open>AWAKE\<close> or \<open>DIM\<close> fails and leaves the state as it was.
\<close>

lemma no_sleep_from_lit:
  assumes "cur w \<in> {AWAKE, DIM}" and "r \<noteq> STATE_CHANGE_REASON_INIT"
  shows "\<not> result (SetState E SLEEP r force) w \<and> cur (exec (SetState E SLEEP r force) w) = cur w"
  using SetState_outcome [of E SLEEP r w force] assms
  by (auto simp: set_state_outcome_def matched_state_target legal_transit_def is_forbidden_def
      forbidMap_def split: if_splits)

theorem no_sleep_from_lit_witness:
  "\<not> result (SetState sample_env SLEEP STATE_CHANGE_REASON_SYSTEM True) sample_world"
proof -
  have "cur sample_world \<in> {AWAKE, DIM}" by (simp add: sample_defs)
  from no_sleep_from_lit [OF this, of STATE_CHANGE_REASON_SYSTEM sample_env True] show ?thesis by simp
qed

section \<open>Stale timer tasks\<close>

definition timeout_timer :: "PowerState \<Rightarrow> FFRTTimerId" where
  "timeout_timer s =
    (if s = DIM then TIMER_ID_USER_ACTIVITY_TIMEOUT
     else if s = INACTIVE then TIMER_ID_USER_ACTIVITY_OFF else TIMER_ID_SLEEP)"

lemma run_keep_eqI: "result m w = x \<Longrightarrow> exec m w = t \<Longrightarrow> run_state m w = (x, t)"
  by (simp add: run_result_exec)

lemma SetState_stale:
  assumes "IsTimeoutReason r" and "curTask w = Some h"
    and "handleMap (timers w POWER_TIMER) (timeout_timer s) \<noteq> Some h"
    and "\<not> F_CHARGING_TYPE E \<or> handleMap (timers w POWER_TIMER) TIMER_ID_AUTO_SLEEP \<noteq> Some h"
  shows "run_state (SetState E s r force) w = (False, w)"
  using assms
  by (intro run_keep_eqI)
    (auto simp: SetState_def CheckFFRTTaskAvailability_def GetTaskHandlePtr_def timeout_timer_def)

text \<open>
  A timer that is cancelled before its task gets to run never dims the screen, switches it off or
  suspends the device.  Once the timer of the target state is cancelled, a task that is already
  executing leaves the whole world untouched and reports failure.
\<close>

lemma cancelled_timeout_has_no_effect:
  fixes E s r force w h
  defines "w' \<equiv> exec (CancelTimer POWER_TIMER (timeout_timer s)) w"
  assumes "IsTimeoutReason r" and "curTask w = Some h" and "\<not> F_CHARGING_TYPE E"
  shows "run_state (SetState E s r force) w' = (False, w')"
proof (rule SetState_stale)
  show "curTask w' = Some h"
    using assms keepsD [OF keeps_CancelTimer, of curTask POWER_TIMER "timeout_timer s" w]
    by (simp add: ig_defs ig_quiet_def)
  show "handleMap (timers w' POWER_TIMER) (timeout_timer s) \<noteq> Some h"
    using ffrt.cancelled_not_live [of POWER_TIMER "timeout_timer s" w h]
    by (simp add: w'_def ffrt.live_def)
qed (use assms in auto)

theorem cancelled_timeout_has_no_effect_witness:
  "\<not> result (SetState sample_env INACTIVE STATE_CHANGE_REASON_TIMEOUT False)
     (exec (CancelTimer POWER_TIMER (timeout_timer INACTIVE)) (sample_world\<lparr>curTask := Some 4\<rparr>))"
proof -
  have "IsTimeoutReason STATE_CHANGE_REASON_TIMEOUT" "curTask (sample_world\<lparr>curTask := Some 4\<rparr>) = Some 4"
    "\<not> F_CHARGING_TYPE sample_env"
    by (simp_all add: IsTimeoutReason_def sample_defs)
  from cancelled_timeout_has_no_effect [OF this, of INACTIVE False] show ?thesis
    by (simp add: result_def)
qed

text \<open>
  Only the task that the timer currently holds may change the state.  After a timer is set again,
  a task with an older handle that is still executing has no effect.
\<close>

lemma replaced_timeout_has_no_effect:
  fixes E s r force w h k
  defines "w' \<equiv> exec (SetTimer E POWER_TIMER (timeout_timer s) (fst k) (snd k)) w"
  assumes "IsTimeoutReason r" and "curTask w = Some h" and "\<not> F_CHARGING_TYPE E"
    and "issued_handle E POWER_TIMER k (timeout_timer s) w \<noteq> Some h"
  shows "run_state (SetState E s r force) w' = (False, w')"
proof (rule SetState_stale)
  show "curTask w' = Some h"
    using assms keepsD [OF keeps_SetTimer, of curTask E POWER_TIMER "timeout_timer s" "fst k" "snd k" w]
    by (simp add: ig_defs ig_quiet_def)
  show "handleMap (timers w' POWER_TIMER) (timeout_timer s) \<noteq> Some h"
    using ffrt.replaced_not_live [of POWER_TIMER E "timeout_timer s" k w h] assms
    by (auto simp: w'_def ffrt.live_def)
qed (use assms in auto)

theorem replaced_timeout_has_no_effect_witness:
  "\<not> result (SetState sample_env DIM STATE_CHANGE_REASON_TIMEOUT False)
     (exec (SetTimer sample_env POWER_TIMER (timeout_timer DIM) TaskActivityTimeout 100)
       (sample_world\<lparr>curTask := Some 4\<rparr>))"
proof -
  have "IsTimeoutReason STATE_CHANGE_REASON_TIMEOUT" "curTask (sample_world\<lparr>curTask := Some 4\<rparr>) = Some 4"
    "\<not> F_CHARGING_TYPE sample_env"
    "issued_handle sample_env POWER_TIMER (TaskActivityTimeout, 100) (timeout_timer DIM)
      (sample_world\<lparr>curTask := Some 4\<rparr>) \<noteq> Some 4"
    by (simp_all add: IsTimeoutReason_def sample_defs issued_handle_def)
  from replaced_timeout_has_no_effect [OF this, of False] show ?thesis
    by (simp add: result_def)
qed

section \<open>Running locks\<close>

text \<open>What the check of the running locks depends on, and the calls that change the device.\<close>

definition lock_view :: "world \<Rightarrow> ext_call list \<times> rlm_state \<times> bool \<times> bool \<times> bool" where
  "lock_view w = (effects w, rlm w, pmsWeak (ptrs w), runningLockMgr (ptrs w), forceTimingOut (psm w))"

lemma inert_lock_view: "inert lock_view"
  using inert_effects by (auto simp: inert_def ig_defs ig_quiet_def effects_def lock_view_def)

lemma ig_lock_view: "ig_monitor lock_view" "ig_customized lock_view"
  by (simp_all add: ig_monitor_def ig_customized_def lock_view_def effects_def)

lemma psm_lock_view:
  "lock_view (w\<lparr>psm := (psm w)\<lparr>currentState := x\<rparr>\<rparr>) = lock_view w"
  "lock_view (w\<lparr>psm := (psm w)\<lparr>settingOnStateFlag := y, settingOffStateFlag := z\<rparr>\<rparr>) = lock_view w"
  by (simp_all add: lock_view_def effects_def)

lemma GetValidRunningLockNum_view:
  "lock_view t = lock_view w \<Longrightarrow>
    result (GetValidRunningLockNum E k d) t = result (GetValidRunningLockNum E k d) w"
  by (simp add: GetValidRunningLockNum_def lock_view_def)

lemma anyLockHeld_view:
  "lock_view t = lock_view w \<Longrightarrow> result (anyLockHeld E ks) t = result (anyLockHeld E ks) w"
proof (induction ks)
  case (Cons k ks)
  have "exec (GetValidRunningLockNum E k d) v = v" for d v
    by (simp add: GetValidRunningLockNum_def)
  then show ?case
    using Cons GetValidRunningLockNum_view [OF Cons.prems] by simp
qed simp

lemma CheckRunningLock_view:
  "lock_view t = lock_view w \<Longrightarrow> result (CheckRunningLock E s) t = result (CheckRunningLock E s) w"
  using anyLockHeld_view [of t w E]
  by (auto simp: CheckRunningLock_def lock_view_def split: option.split)

lemma exec_CheckRunningLock [simp]: "exec (CheckRunningLock E s) w = w"
proof -
  have "exec (anyLockHeld E ks) w = w" for ks
    by (induction ks) (simp_all add: GetValidRunningLockNum_def)
  then show ?thesis by (auto simp: CheckRunningLock_def split: option.split)
qed

lemma wp_view:
  "keeps lock_view m \<Longrightarrow> (\<And>x t. lock_view t = lock_view w \<Longrightarrow> Q x t) \<Longrightarrow> wp m Q w"
  by (simp add: wp_def keepsD)

lemma wp_CheckRunningLock:
  "(\<And>ok. ok = result (CheckRunningLock E s) w \<Longrightarrow> Q ok w) \<Longrightarrow> wp (CheckRunningLock E s) Q w"
  by (simp add: wp_def)

lemmas view_ig = inert_ig [OF inert_lock_view]

lemmas view_rules = wp_CheckRunningLock
  wp_view [OF keeps_device_action(9) [OF view_ig(4) view_ig(1)]]
  wp_view [OF keeps_checks(1) [OF inert_lock_view]]
  wp_view [OF keeps_RecordFailure [OF inert_lock_view]]
  wp_view [OF keeps_checks(2) [OF inert_lock_view]]
  wp_view [OF keeps_checks(3) [OF inert_lock_view]]
  wp_view [OF keeps_SetScreenCommonEventRules [OF view_ig(1) ig_lock_view(2)]]
  wp_view [OF keeps_RegisterMonitor [OF view_ig(1) ig_lock_view(1)]]

lemma TransitTo_locked:
  assumes "\<not> result (CheckRunningLock E s) w"
  shows "wp (TransitTo E s r False) (\<lambda>ret t. lock_view t = lock_view w \<and>
     ret \<in> {ALREADY_IN_STATE, FORBID_TRANSIT, LOCKING}) w"
proof -
  have "lock_view t = lock_view w \<Longrightarrow> \<not> result (CheckRunningLock E s) t" for t
    using assms CheckRunningLock_view by metis
  then show ?thesis
    unfolding TransitTo_def
    by (auto simp: wp_simps psm_lock_view intro!: view_rules split: if_splits)
qed

lemma wp_TransitTo_locked:
  assumes "\<not> result (CheckRunningLock E s) w"
    and "\<And>ret t. lock_view t = lock_view w \<Longrightarrow> ret \<in> {ALREADY_IN_STATE, FORBID_TRANSIT, LOCKING} \<Longrightarrow> Q ret t"
  shows "wp (TransitTo E s r False) Q w"
  by (rule wp_weaken [OF TransitTo_locked [OF assms(1)]]) (use assms(2) in blast)

lemma keeps_view_flags:
  "keeps lock_view (UpdateSettingStateFlag s r)" "keeps lock_view RestoreSettingStateFlag"
  "keeps lock_view (SettingStateFlag_begin s r)" "keeps lock_view SettingStateFlag_end"
  using inert_psm [OF inert_lock_view]
  by (auto simp: UpdateSettingStateFlag_def RestoreSettingStateFlag_def SettingStateFlag_begin_def
      SettingStateFlag_end_def psm_lock_view intro!: keeps_intros)

lemmas view_flag_rules = keeps_view_flags [THEN wp_view]

lemma SetState_guarded_locked:
  assumes "\<not> result (CheckRunningLock E s) w" and "\<not> forceTimingOut (psm w)"
  shows "wp (SetState_guarded E s r False) (\<lambda>ok t. lock_view t = lock_view w) w"
proof -
  have check: "\<forall>t. lock_view t = lock_view w \<longrightarrow> \<not> result (CheckRunningLock E s) t"
    using assms CheckRunningLock_view by metis
  have force: "lock_view t = lock_view w \<Longrightarrow> \<not> forceTimingOut (psm t)" for t
    using assms by (simp add: lock_view_def)
  show ?thesis
    using check unfolding SetState_guarded_def
    by (auto simp: wp_simps force intro!: view_rules view_flag_rules wp_TransitTo_locked)
qed

lemma SetState_locked:
  assumes "\<not> result (CheckRunningLock E s) w" and "\<not> forceTimingOut (psm w)"
  shows "lock_view (exec (SetState E s r False) w) = lock_view w"
proof -
  have check: "lock_view t = lock_view w \<Longrightarrow> \<not> result (CheckRunningLock E s) t \<and> \<not> forceTimingOut (psm t)" for t
    using assms CheckRunningLock_view [of t w E s] by (simp add: lock_view_def)
  have rule: "lock_view t = lock_view w \<Longrightarrow>
      (\<And>x u. lock_view u = lock_view w \<Longrightarrow> Q x u) \<Longrightarrow> wp (SetState_guarded E s r False) Q t" for Q t
    using SetState_guarded_locked [of E s t r] check [of t] by (simp add: wp_def)
  have "wp (SetState E s r False) (\<lambda>_ t. lock_view t = lock_view w) w"
    unfolding SetState_def by (auto simp: wp_simps intro!: view_rules view_flag_rules rule)
  then show ?thesis by (simp add: wp_def)
qed

lemma screen_lock_blocks:
  assumes "s \<in> {DIM, INACTIVE}" and "result (GetValidRunningLockNum E RUNNINGLOCK_SCREEN RUNNINGLOCK_DISPLAY_ID_ALL) w > 0"
  shows "\<not> result (CheckRunningLock E s) w"
  using assms by (auto simp: CheckRunningLock_def lockMap_def)

text \<open>
  A held screen lock keeps the screen on.  While a valid screen running lock is held and forced
  timing out is off, no request to dim the screen or to switch it off that respects the locks reaches
  the display, whatever its reason, and the running locks are unchanged.
\<close>

lemma screen_lock_keeps_screen_on:
  assumes "s \<in> {DIM, INACTIVE}"
    and "result (GetValidRunningLockNum E RUNNINGLOCK_SCREEN RUNNINGLOCK_DISPLAY_ID_ALL) w > 0"
    and "\<not> forceTimingOut (psm w)"
  shows "effects (exec (SetState E s r False) w) = effects w \<and>
    rlm (exec (SetState E s r False) w) = rlm w"
  using SetState_locked [OF screen_lock_blocks [OF assms(1,2)] assms(3)] by (simp add: lock_view_def)

definition locked_world :: world where
  "locked_world = sample_world\<lparr>rlm := (rlm sample_world)\<lparr>lockCounters := (\<lambda>t. Some 1)\<rparr>\<rparr>"

theorem screen_lock_keeps_screen_on_witness:
  "effects (exec (SetState sample_env DIM STATE_CHANGE_REASON_TIMEOUT False) locked_world) = []"
proof -
  have "DIM \<in> {DIM, INACTIVE}" "\<not> forceTimingOut (psm locked_world)"
    "result (GetValidRunningLockNum sample_env RUNNINGLOCK_SCREEN RUNNINGLOCK_DISPLAY_ID_ALL) locked_world > 0"
    by (simp_all add: sample_defs locked_world_def GetValidRunningLockNum_def)
  from screen_lock_keeps_screen_on [OF this(1,3,2), of STATE_CHANGE_REASON_TIMEOUT] show ?thesis
    by (simp add: effects_def locked_world_def sample_defs)
qed

end
