(* ===== verification/State_Ops.thy ===== *)
theory State_Ops
  imports State_Frames
begin

text \<open>
  The operations of \<open>PowerStateMachine\<close> that other objects call and that go through \<open>SetState\<close>:
  suspend, wakeup, refresh, force suspend, the handlers of its timers, and initialisation.
\<close>

section \<open>Initialisation\<close>

definition InitSwitchAction :: "env \<Rightarrow> unit M" where
  "InitSwitchAction E = mod_psm (\<lambda>s. s\<lparr>switchAction :=
     (if strParameter E ''const.window.foldscreen.type'' '''' = ''5,3,0,0''
      then SWITCH_ACTION_DUAL_SCREEN else SWITCH_ACTION_DEFAULT)\<rparr>)"

definition PsmInit :: "env \<Rightarrow> StateController \<Rightarrow> bool M" where
  "PsmInit E c = do {
     InitStateMap c;
     InitSwitchAction E;
     State_Monad.return True }"

definition InitState :: "env \<Rightarrow> unit M" where
  "InitState E =
    (if F_SCREEN_DECOUPLING E
     then do { _ \<leftarrow> SetState E AWAKE STATE_CHANGE_REASON_INIT True; skip }
     else do {
       screenOn \<leftarrow> IsScreenOn E;
       k \<leftarrow> gets (\<lambda>w. switchAction (psm w));
       on \<leftarrow> (if screenOn then State_Monad.return True
              else do {
                r \<leftarrow> DoIsScreenOn E k;
                State_Monad.return (r = SWITCH_RET_IS_SCREEN_ON) });
       if on then do {
         _ \<leftarrow> SetState E AWAKE STATE_CHANGE_REASON_INIT True;
         log_call (Window (DmsSyncScreenPowerState True)) }
       else do {
         _ \<leftarrow> SetState E INACTIVE STATE_CHANGE_REASON_INIT True;
         log_call (Window (DmsSyncScreenPowerState False)) } })"

text \<open>\<open>EnableMock\<close> also replaces the device action by a test double, which is not modelled.\<close>

definition EnableMock_times :: "env \<Rightarrow> unit M" where
  "EnableMock_times E = do {
     mod_psm (\<lambda>s. s\<lparr>displayOffTime := DEFAULT_DISPLAY_OFF_TIME_MS E, psmSleepTime := DEFAULT_SLEEP_TIME_MS\<rparr>);
     ResetInactiveTimer E }"

section \<open>Suspend\<close>

definition SetDreamingState :: "env \<Rightarrow> StateChangeReason \<Rightarrow> bool M" where
  "SetDreamingState E reason =
    (if \<not> F_TV_DREAMING E then State_Monad.return False
     else let dispReason = GetDmsReasonByPowerReason (rosenCode E) reason in
       if reason = STATE_CHANGE_REASON_START_DREAM then ask_bool E (Window (DmsSuspendBegin dispReason))
       else if reason = STATE_CHANGE_REASON_END_DREAM then ask_bool E (Window (DmsWakeUpBegin dispReason))
       else State_Monad.return False)"

text \<open>\<open>DeviceStateAction::Suspend\<close>, which \<open>SuspendDeviceInner\<close> calls, does nothing.\<close>

definition SuspendDeviceInner :: "env \<Rightarrow> int \<Rightarrow> SuspendDeviceType \<Rightarrow> bool \<Rightarrow> unit M" where
  "SuspendDeviceInner E callTimeMs type ignoreScreenState =
    (if SuspendDeviceType_val type > SuspendDeviceType_val SUSPEND_DEVICE_REASON_MAX then skip
     else do {
       whenM (\<not> ignoreScreenState)
         (mod_psm (\<lambda>s. s\<lparr>mDeviceState := (mDeviceState s)\<lparr>lastSuspendDeviceTime := callTimeMs\<rparr>\<rparr>));
       reason \<leftarrow> GetReasonBySuspendType E type;
       if F_TV_DREAMING E \<and> type = SUSPEND_DEVICE_START_DREAM
       then do { _ \<leftarrow> SetDreamingState E reason; skip }
       else do {
         ok \<leftarrow> SetState E INACTIVE reason True;
         whenM ok (SetAutoSuspend E type 0) } })"

definition ForceSuspendDeviceInner :: "env \<Rightarrow> bool M" where
  "ForceSuspendDeviceInner E = do {
     reason \<leftarrow> GetReasonBySuspendType E SUSPEND_DEVICE_REASON_FORCE_SUSPEND;
     ok \<leftarrow> SetState E INACTIVE reason True;
     if F_TAKEOVER_SUSPEND E \<and> \<not> ok then State_Monad.return True
     else do {
       p \<leftarrow> gets ptrs;
       whenM (suspendController p)
         (StartSleepTimer E SUSPEND_DEVICE_REASON_APPLICATION ACTION_FORCE_SUSPEND 0);
       State_Monad.return True } }"

section \<open>Wakeup\<close>

definition HandlePreBrightWakeUp :: "env \<Rightarrow> int \<Rightarrow> WakeupDeviceType \<Rightarrow> bool \<Rightarrow> unit M" where
  "HandlePreBrightWakeUp E callTimeMs type timeoutTriggered = do {
     p \<leftarrow> gets ptrs;
     whenM (suspendController p) (StopSleep E);
     whenM (stateAction p) (ActionWakeup E);
     mod_psm (\<lambda>s. s\<lparr>mDeviceState := (mDeviceState s)\<lparr>lastWakeupDeviceTime := callTimeMs\<rparr>\<rparr>);
     let reason = GetReasonByWakeType type in do {
     whenM (\<not> timeoutTriggered \<and> IsPreBrightAuthReason reason)
       (CancelDelayTimer E CHECK_PRE_BRIGHT_AUTH_TIMEOUT_MSG);
     ret \<leftarrow> SetState E AWAKE reason True;
     (case type of
        WAKEUP_DEVICE_PRE_BRIGHT_AUTH_SUCCESS \<Rightarrow>
          whenM (suspendController p \<and> ret) (TriggerSyncSleepCallback E True)
      | WAKEUP_DEVICE_PRE_BRIGHT_AUTH_FAIL_SCREEN_ON \<Rightarrow>
          whenM (suspendController p \<and> ret) (TriggerSyncSleepCallback E True)
      | WAKEUP_DEVICE_PRE_BRIGHT_AUTH_FAIL_SCREEN_OFF \<Rightarrow>
          whenM (suspendController p)
            (StartSleepTimer E SUSPEND_DEVICE_REASON_APPLICATION ACTION_AUTO_SUSPEND 0)
      | _ \<Rightarrow> skip) } }"

definition WakeupDeviceInner :: "env \<Rightarrow> int \<Rightarrow> WakeupDeviceType \<Rightarrow> string \<Rightarrow> unit M" where
  "WakeupDeviceInner E callTimeMs requested details =
    (if WakeupDeviceType_val requested > WakeupDeviceType_val WAKEUP_DEVICE_MAX then skip
     else do {
       closed \<leftarrow> IsWakeupDeviceSkip E;
       if closed then skip
       else let type = (if requested = WAKEUP_DEVICE_APPLICATION then ParseWakeupDeviceType details
                        else requested) in
         if IsPreBrightWakeUp type then HandlePreBrightWakeUp E callTimeMs type False
         else if F_TV_DREAMING E \<and> details = ''start_dream''
         then do { _ \<leftarrow> SetDreamingState E STATE_CHANGE_REASON_START_DREAM; skip }
         else if F_TV_DREAMING E \<and> type = WAKEUP_DEVICE_END_DREAM
         then do { _ \<leftarrow> SetDreamingState E (GetReasonByWakeType type); skip }
         else do {
           p \<leftarrow> gets ptrs;
           whenM (suspendController p) (StopSleep E);
           whenM (stateAction p) (ActionWakeup E);
           mod_psm (\<lambda>s. s\<lparr>mDeviceState := (mDeviceState s)\<lparr>lastWakeupDeviceTime := callTimeMs\<rparr>\<rparr>);
           _ \<leftarrow> SetState E AWAKE (GetReasonByWakeType type) True;
           whenM (suspendController p) (TriggerSyncSleepCallback E True) } })"

section \<open>Activity\<close>

definition RefreshActivityInner :: "env \<Rightarrow> UserActivityType \<Rightarrow> unit M" where
  "RefreshActivityInner E type =
    (if UserActivityType_val type > UserActivityType_val USER_ACTIVITY_TYPE_APPLICATION then skip
     else do {
       screenOn \<leftarrow> IsScreenOn E;
       goingOff \<leftarrow> (if screenOn then IsSettingState INACTIVE else State_Monad.return False);
       if screenOn \<and> \<not> goingOff then do {
         p \<leftarrow> gets ptrs;
         whenM (stateAction p \<and> \<not> F_SCREEN_DECOUPLING E) (do {
           t \<leftarrow> GetTickCount E;
           mod_psm (\<lambda>s. s\<lparr>mDeviceState := (mDeviceState s)\<lparr>lastOnTime := t\<rparr>\<rparr>) });
         cur \<leftarrow> GetState;
         dimming \<leftarrow> (if cur = DIM then State_Monad.return True else IsSettingState DIM);
         if dimming then do { _ \<leftarrow> SetState E AWAKE STATE_CHANGE_REASON_REFRESH True; skip }
         else ResetInactiveTimer E }
       else skip })"

section \<open>Timer handlers and the rest\<close>

definition HandleActivityTimeout :: "env \<Rightarrow> unit M" where
  "HandleActivityTimeout E = do { _ \<leftarrow> SetState E DIM STATE_CHANGE_REASON_TIMEOUT False; skip }"

definition HandleActivitySleepTimeout :: "env \<Rightarrow> unit M" where
  "HandleActivitySleepTimeout E = do {
     unlocked \<leftarrow> CheckRunningLock E SLEEP;
     if \<not> unlocked then skip
     else do {
       dispState \<leftarrow> GetDisplayState E;
       whenM (dispState = DISPLAY_OFF)
         (do { _ \<leftarrow> SetState E SLEEP STATE_CHANGE_REASON_TIMEOUT False; skip }) } }"

definition HandleSystemWakeup :: "env \<Rightarrow> unit M" where
  "HandleSystemWakeup E = do {
     screenOn \<leftarrow> IsScreenOn E;
     _ \<leftarrow> SetState E (if screenOn then AWAKE else INACTIVE) STATE_CHANGE_REASON_SYSTEM True;
     skip }"

text \<open>\<open>onWakeup\<close> builds a task that would call \<open>HandleSystemWakeup\<close>, and does not submit it.\<close>

definition onWakeup :: "unit M" where
  "onWakeup = skip"

definition HandleProximityClose :: "env \<Rightarrow> unit M" where
  "HandleProximityClose E = do {
     filtered \<leftarrow> FilterProximityCloseEvent E;
     p \<leftarrow> gets ptrs;
     if filtered then skip
     else if \<not> pms p then skip
     else if \<not> suspendController p then skip
     else do {
       ret \<leftarrow> SetState E INACTIVE STATE_CHANGE_REASON_PROXIMITY True;
       whenM ret (StartSleepTimer E SUSPEND_DEVICE_REASON_APPLICATION ACTION_AUTO_SUSPEND 0) } }"

text \<open>
  Whether another thread holds the state mutex when \<open>SetForceTimingOut\<close> tries to take it is an answer
  of the environment.
\<close>

definition SetForceTimingOut :: "env \<Rightarrow> bool \<Rightarrow> unit M" where
  "SetForceTimingOut E enabled = do {
     isScreenOnLockActive \<leftarrow> IsRunningLockEnabled E RUNNINGLOCK_SCREEN;
     currentValue \<leftarrow> gets (\<lambda>w. forceTimingOut (psm w));
     mod_psm (\<lambda>s. s\<lparr>forceTimingOut := enabled\<rparr>);
     dimming \<leftarrow> IsSettingState DIM;
     if currentValue = enabled \<or> \<not> isScreenOnLockActive \<or> dimming then skip
     else if enabled then do {
       busy \<leftarrow> ask_bool E StateMutexBusy;
       cur \<leftarrow> GetState;
       whenM (\<not> busy \<and> cur = AWAKE) (ResetInactiveTimer E) }
     else do { _ \<leftarrow> SetState E AWAKE STATE_CHANGE_REASON_REFRESH False; skip } }"

definition PowerStateCallback_OnRemoteDied :: "obj \<Rightarrow> unit M" where
  "PowerStateCallback_OnRemoteDied remote = log_call (Queue (SubmitTask (TaskUnRegisterCallback remote)))"

section \<open>Frames\<close>

lemmas state_op_defs =
  InitSwitchAction_def PsmInit_def InitState_def EnableMock_times_def SetDreamingState_def
  SuspendDeviceInner_def ForceSuspendDeviceInner_def HandlePreBrightWakeUp_def WakeupDeviceInner_def
  RefreshActivityInner_def HandleActivityTimeout_def HandleActivitySleepTimeout_def
  HandleSystemWakeup_def onWakeup_def HandleProximityClose_def SetForceTimingOut_def

lemma keeps_DoIsScreenOn [keeps_intros]: "ig_quiet f \<Longrightarrow> keeps f (DoIsScreenOn E k)"
  by (auto simp: DoIsScreenOn_def trace_app intro!: keeps_intros)

lemma keeps_case_wakeup [keeps_intros]:
  "keeps f a \<Longrightarrow> keeps f b \<Longrightarrow> keeps f c \<Longrightarrow> keeps f d \<Longrightarrow>
    keeps f (case t of WAKEUP_DEVICE_PRE_BRIGHT_AUTH_SUCCESS \<Rightarrow> a
      | WAKEUP_DEVICE_PRE_BRIGHT_AUTH_FAIL_SCREEN_ON \<Rightarrow> b
      | WAKEUP_DEVICE_PRE_BRIGHT_AUTH_FAIL_SCREEN_OFF \<Rightarrow> c | _ \<Rightarrow> d)"
  by (cases t) simp_all

lemma keeps_SetDreamingState [keeps_intros]: "ig_quiet f \<Longrightarrow> keeps f (SetDreamingState E r)"
  by (auto simp: SetDreamingState_def trace_app intro!: keeps_intros)

lemma keeps_state_ops [keeps_intros]:
  assumes "outer f"
  shows "keeps f (InitState E)" "keeps f (SuspendDeviceInner E n t b)"
    "keeps f (ForceSuspendDeviceInner E)" "keeps f (HandlePreBrightWakeUp E n v b)"
    "keeps f (WakeupDeviceInner E n v d)" "keeps f (RefreshActivityInner E u)"
    "keeps f (HandleActivityTimeout E)" "keeps f (HandleActivitySleepTimeout E)"
    "keeps f (HandleSystemWakeup E)" "keeps f (HandleProximityClose E)"
  using assms unfolding state_op_defs FilterProximityCloseEvent_def
  by (auto simp: outer_ig outer_psm inert_psm trace_app intro!: keeps_intros)

end
