(* ===== verification/Running_Lock.thy ===== *)
theory Running_Lock
  imports State_Ops
begin

text \<open>
  \<open>RunningLockMgr\<close> (\<open>services/native/src/runninglock/running_lock_mgr.cpp\<close>): the running locks that
  applications hold, the counters per lock type, what happens when a counter leaves or reaches zero,
  and the proximity sensor.  The part of \<open>RunningLockProxy\<close> that does not call back is here too; the
  rest is in theory \<open>Lock_Proxy\<close>.

  A \<open>RunningLockInner\<close> object is shared between the map and its users.  It is identified by its key
  in the map, and a change to it is a change of the entry.
\<close>

section \<open>The proxy map\<close>

definition AssembleProxyKey :: "int \<Rightarrow> int \<Rightarrow> string" where
  "AssembleProxyKey pid uid = to_string pid @ ''_'' @ to_string uid"

definition AddRunningLock :: "int \<Rightarrow> int \<Rightarrow> obj \<Rightarrow> unit M" where
  "AddRunningLock pid uid remoteObj = mod_rlm (\<lambda>s. s\<lparr>proxyMap :=
     (let proxyKey = AssembleProxyKey pid uid in
      case map_of (proxyMap s) proxyKey of
        None \<Rightarrow> omap_emplace proxyKey [(remoteObj, ([], 0))] (proxyMap s)
      | Some tokens \<Rightarrow> omap_set proxyKey (omap_emplace remoteObj ([], 0) tokens) (proxyMap s))\<rparr>)"

definition RemoveRunningLock :: "int \<Rightarrow> int \<Rightarrow> obj \<Rightarrow> unit M" where
  "RemoveRunningLock pid uid remoteObj = mod_rlm (\<lambda>s. s\<lparr>proxyMap :=
     (let proxyKey = AssembleProxyKey pid uid in
      case map_of (proxyMap s) proxyKey of
        None \<Rightarrow> proxyMap s
      | Some tokens \<Rightarrow>
          (case map_of tokens remoteObj of
             None \<Rightarrow> proxyMap s
           | Some _ \<Rightarrow>
               let rest = omap_erase remoteObj tokens in
               if rest = [] then omap_erase proxyKey (proxyMap s)
               else omap_set proxyKey rest (proxyMap s)))\<rparr>)"

definition clear_wks :: "WksMap \<Rightarrow> WksMap" where
  "clear_wks wks = map (\<lambda>(u, b, _). (u, b, False)) wks"

definition UpdateProxyState :: "int \<Rightarrow> int \<Rightarrow> obj \<Rightarrow> bool M" where
  "UpdateProxyState pid uid remoteObj = do {
     m \<leftarrow> gets (\<lambda>w. proxyMap (rlm w));
     let proxyKey = AssembleProxyKey pid uid in
     case map_of m proxyKey of
       None \<Rightarrow> State_Monad.return False
     | Some tokens \<Rightarrow>
         (case map_of tokens remoteObj of
            None \<Rightarrow> State_Monad.return False
          | Some (wks, n) \<Rightarrow> do {
              mod_rlm (\<lambda>s. s\<lparr>proxyMap := omap_set proxyKey (omap_set remoteObj (clear_wks wks, 0) tokens) m\<rparr>);
              State_Monad.return True }) }"

section \<open>The lock map\<close>

definition IsProxied :: "RunningLockInner \<Rightarrow> bool" where
  "IsProxied l = (lockState l = RUNNINGLOCK_STATE_PROXIED \<or>
                  lockState l = RUNNINGLOCK_STATE_UNPROXIED_RESTORE)"

definition GetRunningLockInner :: "obj \<Rightarrow> RunningLockInner option M" where
  "GetRunningLockInner remoteObj = gets (\<lambda>w. map_of (runningLocks (rlm w)) remoteObj)"

text \<open>The loop keeps the last lock with the name.\<close>

definition GetRunningLockInnerByName :: "string \<Rightarrow> (obj \<times> RunningLockInner) option M" where
  "GetRunningLockInnerByName name = gets (\<lambda>w.
     case filter (\<lambda>e. lockName (runningLockParam (snd e)) = name) (runningLocks (rlm w)) of
       [] \<Rightarrow> None
     | es \<Rightarrow> Some (last es))"

definition FindLock :: "obj \<Rightarrow> string \<Rightarrow> (obj \<times> RunningLockInner) option M" where
  "FindLock remoteObj name = do {
     l \<leftarrow> GetRunningLockInner remoteObj;
     case l of
       Some inner \<Rightarrow> State_Monad.return (Some (remoteObj, inner))
     | None \<Rightarrow> GetRunningLockInnerByName name }"

definition update_lock :: "obj \<Rightarrow> (RunningLockInner \<Rightarrow> RunningLockInner) \<Rightarrow> unit M" where
  "update_lock k f = mod_rlm (\<lambda>s. s\<lparr>runningLocks :=
     map (\<lambda>(o', l). (o', if o' = k then f l else l)) (runningLocks s)\<rparr>)"

definition SetLockState :: "obj \<Rightarrow> RunningLockState \<Rightarrow> unit M" where
  "SetLockState k st = update_lock k (\<lambda>l. l\<lparr>lockState := st\<rparr>)"

definition IsUsed :: "obj \<Rightarrow> bool M" where
  "IsUsed remoteObj = do {
     l \<leftarrow> GetRunningLockInner remoteObj;
     State_Monad.return (case l of None \<Rightarrow> False | Some inner \<Rightarrow> lockState inner = RUNNINGLOCK_STATE_ENABLE) }"

definition GetRunningLockNum :: "RunningLockType \<Rightarrow> uint32 M" where
  "GetRunningLockNum type = gets (\<lambda>w.
     if type = RUNNINGLOCK_BUTT then of_nat (length (runningLocks (rlm w)))
     else of_nat (length (filter (\<lambda>e. lockType (runningLockParam (snd e)) = type) (runningLocks (rlm w)))))"

definition ExistValidRunningLock :: "bool M" where
  "ExistValidRunningLock = gets (\<lambda>w.
     list_ex (\<lambda>e. lockState (snd e) = RUNNINGLOCK_STATE_ENABLE) (runningLocks (rlm w)))"

definition QueryRunningLockLists :: "env \<Rightarrow> nat \<Rightarrow> (string \<times> RunningLockInfo) list M" where
  "QueryRunningLockLists E dispId = gets (\<lambda>w.
     filter (\<lambda>e. F_LOCK_MULTI_SCREEN E \<longrightarrow>
                 infoDisplayId (snd e) = dispId \<or> infoDisplayId (snd e) = RUNNINGLOCK_DISPLAY_ID_ALL)
            (unSceneLockLists (rlm w)))"

definition IsSceneRunningLockType :: "RunningLockType \<Rightarrow> bool" where
  "IsSceneRunningLockType type = (type \<in> {RUNNINGLOCK_BACKGROUND_PHONE,
     RUNNINGLOCK_BACKGROUND_NOTIFICATION, RUNNINGLOCK_BACKGROUND_AUDIO, RUNNINGLOCK_BACKGROUND_SPORT,
     RUNNINGLOCK_BACKGROUND_NAVIGATION, RUNNINGLOCK_BACKGROUND_TASK})"

definition LockNeedNotify :: "RunningLockType \<Rightarrow> bool" where
  "LockNeedNotify type = (IsSceneRunningLockType type \<or> type = RUNNINGLOCK_SCREEN \<or>
     type = RUNNINGLOCK_PROXIMITY_SCREEN_CONTROL \<or> type = RUNNINGLOCK_BACKGROUND_USER_IDLE)"

definition FillAppRunningLockInfo :: "RunningLockParam \<Rightarrow> RunningLockInfo" where
  "FillAppRunningLockInfo info =
    \<lparr>infoName = lockName info, infoType = lockType info, infoBundleName = bundleName info,
     infoPid = lockPid info, infoUid = lockUid info, infoDisplayId = displayId info\<rparr>"

definition UpdateUnSceneLockLists :: "RunningLockParam \<Rightarrow> bool \<Rightarrow> unit M" where
  "UpdateUnSceneLockLists param fill = mod_rlm (\<lambda>s. s\<lparr>unSceneLockLists :=
     (let key = to_string (int (lockid param)) in
      if fill then omap_emplace key (FillAppRunningLockInfo param) (unSceneLockLists s)
      else omap_erase key (unSceneLockLists s))\<rparr>)"

definition RegisterRunningLockCallback :: "obj \<Rightarrow> unit M" where
  "RegisterRunningLockCallback callback = mod_rlm (\<lambda>s. s\<lparr>runningLockCallback := Some callback\<rparr>)"

definition UnRegisterRunningLockCallback :: "unit M" where
  "UnRegisterRunningLockCallback = mod_rlm (\<lambda>s. s\<lparr>runningLockCallback := None\<rparr>)"

text \<open>The text of the message is a function of the lock's parameters, the tag and the wall clock.\<close>

definition NotifyRunningLockChanged :: "RunningLockParam \<Rightarrow> string \<Rightarrow> unit M" where
  "NotifyRunningLockChanged param tag = do {
     cb \<leftarrow> gets (\<lambda>w. runningLockCallback (rlm w));
     case cb of None \<Rightarrow> skip | Some c \<Rightarrow> log_call (Callback (RunningLockMessage c param tag)) }"

section \<open>Observers of screen locks\<close>

text \<open>
  \<open>state\<close> is true for \<open>RUNNINGLOCK_STATE_LOCKED\<close>.  Whether \<open>iface_cast\<close> gives an interface is an answer
  of the IPC library.
\<close>

definition NotifyScreenRunningLockChanged :: "env \<Rightarrow> bool \<Rightarrow> nat \<Rightarrow> unit M" where
  "NotifyScreenRunningLockChanged E state display = do {
     callbacksCopy \<leftarrow> gets (\<lambda>w. lockCallbacks (callbackManager (rlm w)));
     for_each (\<lambda>e. do {
       castable \<leftarrow> ask_bool E (Callback (CastLockCallback (fst e)));
       whenM (castable \<and> (F_LOCK_MULTI_SCREEN E \<longrightarrow> callbackDisplayId e = display))
         (log_call (Callback (ScreenLockChanged (fst e) state display))) }) callbacksCopy }"

definition HandleScreenLockNotify :: "env \<Rightarrow> bool \<Rightarrow> nat \<Rightarrow> unit M" where
  "HandleScreenLockNotify E active display = do {
     m \<leftarrow> gets (\<lambda>w. callbackManager (rlm w));
     let (notifications, m') = CountScreenLock active display m;
     mod_rlm (\<lambda>s. s\<lparr>callbackManager := m'\<rparr>);
     for_each (\<lambda>n. NotifyScreenRunningLockChanged E (fst n) (snd n)) notifications }"

definition RegisterRunningLockChangedCallback :: "obj option \<Rightarrow> int \<Rightarrow> int \<Rightarrow> nat \<Rightarrow> unit M" where
  "RegisterRunningLockChangedCallback callback pid uid display =
    mod_rlm (\<lambda>s. s\<lparr>callbackManager := CbMgr_Register callback pid uid display (callbackManager s)\<rparr>)"

definition UnRegisterRunningLockChangedCallback :: "obj option \<Rightarrow> nat \<Rightarrow> unit M" where
  "UnRegisterRunningLockChangedCallback callback display =
    mod_rlm (\<lambda>s. s\<lparr>callbackManager := CbMgr_UnRegister callback display (callbackManager s)\<rparr>)"

definition RemoveAllRunningLockChangedCallbacks :: "obj option \<Rightarrow> unit M" where
  "RemoveAllRunningLockChangedCallbacks callback =
    mod_rlm (\<lambda>s. s\<lparr>callbackManager := CbMgr_RemoveAll callback (callbackManager s)\<rparr>)"

definition HasRunningLockChangedCallbacks :: "obj option \<Rightarrow> bool M" where
  "HasRunningLockChangedCallbacks callback = gets (\<lambda>w. CbMgr_HasCallbacks callback (callbackManager (rlm w)))"

definition GetRunningLockChangedCallbackCount :: "nat M" where
  "GetRunningLockChangedCallbackCount = gets (\<lambda>w. CbMgr_GetCallbackCount (callbackManager (rlm w)))"

section \<open>Counters\<close>

definition add_counter :: "RunningLockType \<Rightarrow> uint32 \<Rightarrow> unit M" where
  "add_counter type n = mod_rlm (\<lambda>s. s\<lparr>lockCounters :=
     (lockCounters s)(type := map_option (\<lambda>c. c + n) (lockCounters s type))\<rparr>)"

definition GetCount :: "RunningLockType \<Rightarrow> uint32 M" where
  "GetCount type = gets (\<lambda>w. case lockCounters (rlm w) type of None \<Rightarrow> 0 | Some c \<Rightarrow> c)"

text \<open>\<open>LockCounter::Increase\<close> and \<open>Decrease\<close>, with the \<open>activate_\<close> function of the counter.\<close>

definition Increase ::
    "(bool \<Rightarrow> RunningLockParam \<Rightarrow> RunningLockStatus M) \<Rightarrow> RunningLockType \<Rightarrow> RunningLockParam \<Rightarrow> RunningLockStatus M" where
  "Increase activate type param = do {
     add_counter type 1;
     c \<leftarrow> GetCount type;
     r \<leftarrow> (if c = 1 then do {
             r \<leftarrow> activate True param;
             whenM (r \<noteq> RUNNINGLOCK_SUCCESS) (add_counter type (- 1));
             State_Monad.return r }
           else State_Monad.return RUNNINGLOCK_SUCCESS);
     whenM (r = RUNNINGLOCK_SUCCESS \<and> LockNeedNotify (lockType param))
       (NotifyRunningLockChanged param ''DUBAI_TAG_RUNNINGLOCK_ADD'');
     State_Monad.return r }"

definition Decrease ::
    "(bool \<Rightarrow> RunningLockParam \<Rightarrow> RunningLockStatus M) \<Rightarrow> RunningLockType \<Rightarrow> RunningLockParam \<Rightarrow> RunningLockStatus M" where
  "Decrease activate type param = do {
     add_counter type (- 1);
     c \<leftarrow> GetCount type;
     r \<leftarrow> (if c = 0 then do {
             r \<leftarrow> activate False param;
             whenM (r \<noteq> RUNNINGLOCK_SUCCESS) (add_counter type 1);
             State_Monad.return r }
           else State_Monad.return RUNNINGLOCK_SUCCESS);
     whenM (r = RUNNINGLOCK_SUCCESS \<and> LockNeedNotify (lockType param))
       (NotifyRunningLockChanged param ''DUBAI_TAG_RUNNINGLOCK_REMOVE'');
     State_Monad.return r }"

section \<open>Proximity sensor\<close>

definition InitProximitySensorUser :: "env \<Rightarrow> bool M" where
  "InitProximitySensorUser E = do {
     found \<leftarrow> ask_bool E (Sensor SensorList);
     whenM found (mod_rlm (\<lambda>s. s\<lparr>proximitySupported := True\<rparr>));
     gets (\<lambda>w. proximitySupported (rlm w)) }"

definition ProximityEnable :: "env \<Rightarrow> unit M" where
  "ProximityEnable E = do {
     mod_rlm (\<lambda>s. s\<lparr>proximityEnabled := True\<rparr>);
     supported \<leftarrow> gets (\<lambda>w. proximitySupported (rlm w));
     usable \<leftarrow> (if supported then State_Monad.return True else InitProximitySensorUser E);
     whenM usable (do {
       ok \<leftarrow> ask_bool E (Sensor SensorSubscribe);
       whenM ok (log_call (Sensor SensorActivate)) }) }"

definition ProximityDisable :: "unit M" where
  "ProximityDisable = do {
     mod_rlm (\<lambda>s. s\<lparr>proximityEnabled := False\<rparr>);
     supported \<leftarrow> gets (\<lambda>w. proximitySupported (rlm w));
     whenM supported (do {
       log_call (Sensor SensorDeactivate);
       log_call (Sensor SensorUnsubscribe) }) }"

definition ProximityClear :: "unit M" where
  "ProximityClear = mod_rlm (\<lambda>s. s\<lparr>proximityClose := False\<rparr>)"

section \<open>What a counter does when it becomes active or inactive\<close>

text \<open>\<open>PowerMgrService::RefreshActivityInner\<close>: at most one refresh in 100 ms, unless the time is 0.\<close>

definition PmsRefreshActivityInner :: "env \<Rightarrow> int \<Rightarrow> UserActivityType \<Rightarrow> bool M" where
  "PmsRefreshActivityInner E callTimeMs type = do {
     throttled \<leftarrow> (if callTimeMs \<noteq> 0 then CheckRefreshTime E else State_Monad.return False);
     if throttled then State_Monad.return False
     else do { RefreshActivityInner E type; State_Monad.return True } }"

definition activate_SCREEN :: "env \<Rightarrow> bool \<Rightarrow> RunningLockParam \<Rightarrow> RunningLockStatus M" where
  "activate_SCREEN E active param = do {
     p \<leftarrow> gets ptrs;
     if \<not> pms p then State_Monad.return RUNNINGLOCK_FAILURE
     else do {
       (if active then do {
          t \<leftarrow> GetTickCount E;
          _ \<leftarrow> PmsRefreshActivityInner E t USER_ACTIVITY_TYPE_SOFTWARE;
          skip }
        else do {
          cur \<leftarrow> GetState;
          whenM (cur = AWAKE) (ResetInactiveTimer E) });
       whenM (F_MONITOR_LOCK_CHANGE E \<and> \<not> F_LOCK_MULTI_SCREEN E)
         (NotifyScreenRunningLockChanged E active RUNNINGLOCK_DISPLAY_ID_ALL);
       whenM (F_TV_DREAMING E) (log_call (Event (PublishScreenLockEvent active)));
       State_Monad.return RUNNINGLOCK_SUCCESS } }"

definition activate_BACKGROUND :: "env \<Rightarrow> bool \<Rightarrow> RunningLockParam \<Rightarrow> RunningLockStatus M" where
  "activate_BACKGROUND E active param =
    (if active then AcquireRunningLock E param else ReleaseRunningLock E param)"

definition background_param :: "RunningLockType \<Rightarrow> RunningLockParam \<Rightarrow> RunningLockParam" where
  "background_param type param = param\<lparr>lockName := GetRunningLockTypeString type,
                                        typeHdi := RUNNINGLOCK_BACKGROUND_TASK\<rparr>"

definition activate_USER_IDLE :: "env \<Rightarrow> bool \<Rightarrow> RunningLockParam \<Rightarrow> RunningLockStatus M" where
  "activate_USER_IDLE E active param = do {
     counter \<leftarrow> gets (\<lambda>w. lockCounters (rlm w) RUNNINGLOCK_BACKGROUND_TASK);
     let backgroundLockParam = background_param RUNNINGLOCK_BACKGROUND_USER_IDLE param in
     if counter = None then State_Monad.return RUNNINGLOCK_NOT_SUPPORT
     else if active then Increase (activate_BACKGROUND E) RUNNINGLOCK_BACKGROUND_TASK backgroundLockParam
     else Decrease (activate_BACKGROUND E) RUNNINGLOCK_BACKGROUND_TASK backgroundLockParam }"

definition activate_PROXIMITY :: "env \<Rightarrow> bool \<Rightarrow> RunningLockParam \<Rightarrow> RunningLockStatus M" where
  "activate_PROXIMITY E active param =
    (if active then do { ProximityEnable E; State_Monad.return RUNNINGLOCK_SUCCESS }
     else do {
       p \<leftarrow> gets ptrs;
       if \<not> pms p then State_Monad.return RUNNINGLOCK_FAILURE
       else do {
         CancelDelayTimer E CHECK_PROXIMITY_SCREEN_SWITCH_TO_SUB_MSG;
         log_call (Queue (SubmitTask TaskProximityUnlockAwake));
         ProximityDisable;
         ProximityClear;
         State_Monad.return RUNNINGLOCK_SUCCESS } })"

definition activate_COORDINATION :: "env \<Rightarrow> bool \<Rightarrow> RunningLockParam \<Rightarrow> RunningLockStatus M" where
  "activate_COORDINATION E active param = do {
     p \<leftarrow> gets ptrs;
     counter \<leftarrow> gets (\<lambda>w. lockCounters (rlm w) RUNNINGLOCK_BACKGROUND_TASK);
     let backgroundLockParam = background_param RUNNINGLOCK_COORDINATION param in
     if \<not> pms p then State_Monad.return RUNNINGLOCK_FAILURE
     else if \<not> stateAction p then State_Monad.return RUNNINGLOCK_FAILURE
     else if counter = None then State_Monad.return RUNNINGLOCK_NOT_SUPPORT
     else if active then do {
       r \<leftarrow> Increase (activate_BACKGROUND E) RUNNINGLOCK_BACKGROUND_TASK backgroundLockParam;
       SetCoordinated E True;
       State_Monad.return r }
     else do {
       SetCoordinated E False;
       Decrease (activate_BACKGROUND E) RUNNINGLOCK_BACKGROUND_TASK backgroundLockParam } }"

text \<open>\<open>InitLocks\<close> installs one counter per supported type; this is the \<open>activate_\<close> function of each.\<close>

definition lock_types :: "env \<Rightarrow> RunningLockType list" where
  "lock_types E =
    [RUNNINGLOCK_SCREEN, RUNNINGLOCK_BACKGROUND_PHONE, RUNNINGLOCK_BACKGROUND_NOTIFICATION,
     RUNNINGLOCK_BACKGROUND_AUDIO, RUNNINGLOCK_BACKGROUND_SPORT, RUNNINGLOCK_BACKGROUND_NAVIGATION,
     RUNNINGLOCK_BACKGROUND_TASK, RUNNINGLOCK_BACKGROUND_USER_IDLE] @
    (if F_SENSORS E then [RUNNINGLOCK_PROXIMITY_SCREEN_CONTROL] else []) @
    [RUNNINGLOCK_COORDINATION]"

definition InitLocks :: "env \<Rightarrow> unit M" where
  "InitLocks E = mod_rlm (\<lambda>s. s\<lparr>lockCounters :=
     (\<lambda>t. if t \<in> set (lock_types E) \<and> lockCounters s t = None then Some 0 else lockCounters s t)\<rparr>)"

definition activate :: "env \<Rightarrow> RunningLockType \<Rightarrow> bool \<Rightarrow> RunningLockParam \<Rightarrow> RunningLockStatus M" where
  "activate E type =
    (if type = RUNNINGLOCK_SCREEN then activate_SCREEN E
     else if type = RUNNINGLOCK_BACKGROUND_USER_IDLE then activate_USER_IDLE E
     else if type = RUNNINGLOCK_PROXIMITY_SCREEN_CONTROL then activate_PROXIMITY E
     else if type = RUNNINGLOCK_COORDINATION then activate_COORDINATION E
     else activate_BACKGROUND E)"

section \<open>Operations on locks\<close>

definition CreateRunningLock :: "obj \<Rightarrow> RunningLockParam \<Rightarrow> unit M" where
  "CreateRunningLock remoteObj param = do {
     mod_rlm (\<lambda>s. s\<lparr>runningLocks := omap_emplace remoteObj
       \<lparr>runningLockParam = param, lockState = RUNNINGLOCK_STATE_DISABLE, lockTimeMs = 0\<rparr> (runningLocks s)\<rparr>);
     whenM (lockType param \<noteq> RUNNINGLOCK_PROXIMITY_SCREEN_CONTROL)
       (AddRunningLock (lockPid param) (lockUid param) remoteObj);
     log_call (Callback (AddDeathRecipient remoteObj)) }"

definition IsValidType :: "RunningLockType \<Rightarrow> bool M" where
  "IsValidType type = do {
     p \<leftarrow> gets ptrs;
     state \<leftarrow> GetState;
     State_Monad.return
       (if \<not> pms p then True
        else if state = SLEEP \<or> state = HIBERNATE then type \<noteq> RUNNINGLOCK_COORDINATION
        else True) }"

definition ValidateLockForEnable :: "obj \<Rightarrow> RunningLockInner option M" where
  "ValidateLockForEnable remoteObj = do {
     l \<leftarrow> GetRunningLockInner remoteObj;
     case l of
       None \<Rightarrow> State_Monad.return None
     | Some inner \<Rightarrow> do {
         valid \<leftarrow> IsValidType (lockType (runningLockParam inner));
         counter \<leftarrow> gets (\<lambda>w. lockCounters (rlm w) (lockType (runningLockParam inner)));
         State_Monad.return
           (if IsProxied inner then None
            else if \<not> valid then None
            else if lockState inner = RUNNINGLOCK_STATE_ENABLE then None
            else if counter = None then None
            else Some inner) } }"

definition Lock :: "env \<Rightarrow> obj \<Rightarrow> bool M" where
  "Lock E remoteObj = do {
     v \<leftarrow> ValidateLockForEnable remoteObj;
     case v of
       None \<Rightarrow> State_Monad.return False
     | Some inner \<Rightarrow> let param = runningLockParam inner in do {
         r \<leftarrow> Increase (activate E (lockType param)) (lockType param) param;
         if r \<noteq> RUNNINGLOCK_SUCCESS then State_Monad.return False
         else do {
           whenM (lockType param = RUNNINGLOCK_SCREEN) (do {
             UpdateUnSceneLockLists param True;
             whenM (F_MONITOR_LOCK_CHANGE E \<and> F_LOCK_MULTI_SCREEN E)
               (HandleScreenLockNotify E True (displayId param)) });
           SetLockState remoteObj RUNNINGLOCK_STATE_ENABLE;
           State_Monad.return True } } }"

definition UnLock :: "env \<Rightarrow> obj \<Rightarrow> string \<Rightarrow> bool M" where
  "UnLock E remoteObj name = do {
     l \<leftarrow> FindLock remoteObj name;
     case l of
       None \<Rightarrow> State_Monad.return False
     | Some (k, inner) \<Rightarrow> let param = runningLockParam inner in do {
         whenM (IsProxied inner)
           (do { _ \<leftarrow> UpdateProxyState (lockPid param) (lockUid param) remoteObj; skip });
         counter \<leftarrow> gets (\<lambda>w. lockCounters (rlm w) (lockType param));
         if lockState inner = RUNNINGLOCK_STATE_DISABLE then State_Monad.return False
         else if counter = None then State_Monad.return False
         else do {
           r \<leftarrow> Decrease (activate E (lockType param)) (lockType param) param;
           if r \<noteq> RUNNINGLOCK_SUCCESS then State_Monad.return False
           else do {
             whenM (lockType param = RUNNINGLOCK_SCREEN) (do {
               UpdateUnSceneLockLists param False;
               whenM (F_MONITOR_LOCK_CHANGE E \<and> F_LOCK_MULTI_SCREEN E)
                 (HandleScreenLockNotify E False (displayId param)) });
             SetLockState k RUNNINGLOCK_STATE_DISABLE;
             State_Monad.return True } } } }"

definition ReleaseLock :: "env \<Rightarrow> obj \<Rightarrow> string \<Rightarrow> bool M" where
  "ReleaseLock E remoteObj name = do {
     l \<leftarrow> FindLock remoteObj name;
     case l of
       None \<Rightarrow> State_Monad.return False
     | Some (k, inner) \<Rightarrow> let param = runningLockParam inner in do {
         _ \<leftarrow> UnLock E remoteObj '''';
         mod_rlm (\<lambda>s. s\<lparr>runningLocks := omap_erase remoteObj (runningLocks s)\<rparr>);
         whenM (lockType param \<noteq> RUNNINGLOCK_PROXIMITY_SCREEN_CONTROL)
           (RemoveRunningLock (lockPid param) (lockUid param) remoteObj);
         ask_bool E (Callback (RemoveDeathRecipient remoteObj)) } }"

definition RlmEnableMock :: "env \<Rightarrow> unit M" where
  "RlmEnableMock E = do {
     mod_rlm (\<lambda>s. s\<lparr>runningLocks := [], lockCounters := (\<lambda>t. map_option (\<lambda>_. 0) (lockCounters s t)),
                     proxyMap := []\<rparr>);
     whenM (F_SENSORS E) ProximityClear }"

section \<open>Proximity events\<close>

definition PreprocessBeforeAwake :: "env \<Rightarrow> unit M" where
  "PreprocessBeforeAwake E = do {
     p \<leftarrow> gets ptrs;
     whenM (pms p \<and> suspendController p) (do {
       StopSleep E;
       SystemWakeup E;
       cur \<leftarrow> GetState;
       whenM (cur = SLEEP) (TriggerSyncSleepCallback E True) }) }"

definition IsVoiceAppForeground :: "env \<Rightarrow> bool M" where
  "IsVoiceAppForeground E = ask_bool E (Sensor VoiceAppForeground)"

definition HandleProximityCloseEvent :: "env \<Rightarrow> bool \<Rightarrow> unit M" where
  "HandleProximityCloseEvent E needDelay = do {
     p \<leftarrow> gets ptrs;
     held \<leftarrow> GetValidRunningLockNum E RUNNINGLOCK_PROXIMITY_SCREEN_CONTROL RUNNINGLOCK_DISPLAY_ID_ALL;
     if \<not> pms p then skip
     else if \<not> held > 0 then skip
     else do {
       voice \<leftarrow> IsVoiceAppForeground E;
       let delayTime = (if voice then 300 else 800) in do {
       inCall \<leftarrow> gets (\<lambda>w. duringCallStateEnable (svc w) \<and> isDuringCall (psm w));
       screenOn \<leftarrow> (if inCall then IsScreenOn E else State_Monad.return False);
       if inCall \<and> screenOn
       then SetDelayTimerTask E delayTime (FFRTTimerId_val TIMER_ID_PROXIMITY_SCREEN_SWITCH_TO_SUB)
              TaskProximitySwitchToSub
       else if needDelay then SetDelayTimer E delayTime CHECK_PROXIMITY_SCREEN_OFF_MSG
       else HandleProximityClose E } } }"

definition HandleProximityAwayEvent :: "env \<Rightarrow> unit M" where
  "HandleProximityAwayEvent E = do {
     p \<leftarrow> gets ptrs;
     held \<leftarrow> GetValidRunningLockNum E RUNNINGLOCK_PROXIMITY_SCREEN_CONTROL RUNNINGLOCK_DISPLAY_ID_ALL;
     if \<not> pms p then skip
     else if \<not> held > 0 then skip
     else do {
       enabled \<leftarrow> gets (\<lambda>w. duringCallStateEnable (svc w));
       handled \<leftarrow> (if enabled then do {
           CancelDelayTimer E CHECK_PROXIMITY_SCREEN_SWITCH_TO_SUB_MSG;
           HandleDuringCall E False }
         else State_Monad.return False);
       if handled then skip
       else do {
         PreprocessBeforeAwake E;
         _ \<leftarrow> SetState E AWAKE STATE_CHANGE_REASON_PROXIMITY True;
         skip } } }"

definition OnClose :: "env \<Rightarrow> unit M" where
  "OnClose E = do {
     r \<leftarrow> gets rlm;
     p \<leftarrow> gets ptrs;
     if \<not> proximityEnabled r \<or> proximityClose r then skip
     else do {
       mod_rlm (\<lambda>s. s\<lparr>proximityClose := True\<rparr>);
       whenM (pms p \<and> runningLockMgr p) (HandleProximityCloseEvent E True) } }"

definition OnAway :: "env \<Rightarrow> unit M" where
  "OnAway E = do {
     r \<leftarrow> gets rlm;
     p \<leftarrow> gets ptrs;
     if \<not> proximityEnabled r \<or> \<not> proximityClose r then skip
     else do {
       mod_rlm (\<lambda>s. s\<lparr>proximityClose := False\<rparr>);
       whenM (pms p \<and> runningLockMgr p) (HandleProximityAwayEvent E) } }"

text \<open>\<open>SetProximity\<close> with \<open>PROXIMITY_AWAY = 0\<close> and \<open>PROXIMITY_CLOSE = 1\<close>.\<close>

definition SetProximity :: "env \<Rightarrow> uint32 \<Rightarrow> unit M" where
  "SetProximity E status =
    (if status = 1 then OnClose E else if status = 0 then OnAway E else skip)"

definition RecordSensorCallback :: "env \<Rightarrow> int \<Rightarrow> unit M" where
  "RecordSensorCallback E distance = do {
     p \<leftarrow> gets ptrs;
     if \<not> pms p then skip
     else if \<not> runningLockMgr p then skip
     else if distance = 0 then SetProximity E 1
     else if distance = 5 then SetProximity E 0
     else skip }"

end
