(* ===== verification/Lock_Laws.thy ===== *)
theory Lock_Laws
  imports Running_Lock Sample_World
begin

text \<open>
  Correctness of the running locks.  The central fact is the balance of the counters: the counter of a
  lock type is the number of enabled locks of that type, where an active user-idle counter and an
  active coordination counter hold one background-task count each.  Creating, locking, unlocking and
  releasing locks keeps the balance, so a positive counter means exactly that some application
  holds such a lock.
\<close>

section \<open>What the operations do to locks and counters\<close>

type_synonym counters = "RunningLockType \<Rightarrow> uint32 option"

definition lockv :: "world \<Rightarrow> (obj \<times> RunningLockInner) list \<times> counters" where
  "lockv w = (runningLocks (rlm w), lockCounters (rlm w))"

definition bump :: "RunningLockType \<Rightarrow> uint32 \<Rightarrow> counters \<Rightarrow> counters" where
  "bump t n c = c(t := map_option (\<lambda>x. x + n) (c t))"

lemma bump_zero [simp]: "bump t 0 c = c"
  by (auto simp: bump_def fun_eq_iff option.map_ident)

lemma bump_bump [simp]: "bump t m (bump t n c) = bump t (n + m) c"
  by (auto simp: bump_def fun_eq_iff option.map_comp comp_def add.assoc)

text \<open>The background-task counts that a counter of type \<open>t\<close> takes or gives back.\<close>

definition nest :: "RunningLockType \<Rightarrow> bool \<Rightarrow> uint32" where
  "nest t active =
    (if t \<in> {RUNNINGLOCK_BACKGROUND_USER_IDLE, RUNNINGLOCK_COORDINATION}
     then (if active then 1 else - 1) else 0)"

lemma outer_lockv: "outer lockv"
  by (simp add: outer_def inert_def ig_defs ig_quiet_def ig_monitor_def ig_customized_def lockv_def)

lemmas lockv_ig = outer_ig [OF outer_lockv]

lemma keeps_notify: "keeps lockv (NotifyRunningLockChanged p tag)"
  by (auto simp: NotifyRunningLockChanged_def lockv_def intro!: keeps_intros)

lemma keeps_screen_notify:
  assumes "ig_trace f"
  shows "keeps f (NotifyScreenRunningLockChanged E b d)"
    and "(\<And>w x. f (w\<lparr>rlm := (rlm w)\<lparr>callbackManager := x\<rparr>\<rparr>) = f w) \<Longrightarrow> keeps f (HandleScreenLockNotify E b d)"
proof -
  show notify: "keeps f (NotifyScreenRunningLockChanged E b d)" for b d
    using assms by (auto simp: NotifyScreenRunningLockChanged_def trace_app intro!: keeps_intros)
  assume m: "f (w\<lparr>rlm := (rlm w)\<lparr>callbackManager := x\<rparr>\<rparr>) = f w" for w x
  have set_manager: "keeps f (mod_rlm (\<lambda>s. s\<lparr>callbackManager := x\<rparr>))" for x
    unfolding mod_rlm_def by (rule keeps_modify) (simp add: m)
  show "keeps f (HandleScreenLockNotify E b d)"
    unfolding HandleScreenLockNotify_def by (auto intro!: keeps_intros notify set_manager)
qed

lemma keeps_lockv_screen_notify:
  "keeps lockv (NotifyScreenRunningLockChanged E b d)" "keeps lockv (HandleScreenLockNotify E b d)"
  by (rule keeps_screen_notify; simp add: ig_defs lockv_def)+

lemma keeps_lockv_screen: "keeps lockv (activate_SCREEN E b p)"
  unfolding activate_SCREEN_def PmsRefreshActivityInner_def CheckRefreshTime_def
  by (auto simp: lockv_ig trace_app inert_psm [OF lockv_ig(1)] outer_lockv
      intro!: keeps_intros keeps_lockv_screen_notify)

lemma keeps_lockv_background: "keeps lockv (activate_BACKGROUND E b p)"
  by (auto simp: activate_BACKGROUND_def lockv_ig intro!: keeps_intros)

lemma keeps_lockv_proximity: "keeps lockv (activate_PROXIMITY E b p)"
proof -
  have "keeps lockv (ProximityEnable E)" "keeps lockv ProximityDisable" "keeps lockv ProximityClear"
    by (auto simp: ProximityEnable_def InitProximitySensorUser_def ProximityDisable_def
        ProximityClear_def lockv_def intro!: keeps_intros)
  then show ?thesis
    by (auto simp: activate_PROXIMITY_def lockv_ig trace_app intro!: keeps_intros)
qed

lemma keeps_lockv_coordinated: "keeps lockv (SetCoordinated E b)"
  by (auto simp: lockv_ig intro!: keeps_intros)

text \<open>The effect of a computation on locks and counters, given by the value it returns.\<close>

definition effect :: "'a M \<Rightarrow> (world \<Rightarrow> 'a \<Rightarrow> counters) \<Rightarrow> bool" where
  "effect m g = (\<forall>w. lockv (exec m w) = (fst (lockv w), g w (result m w)))"

lemma keeps_effect: "keeps lockv m \<Longrightarrow> effect m (\<lambda>w r. snd (lockv w))"
  by (simp add: effect_def keeps_def)

lemma lockv_add_counter [simp]:
  "lockv (exec (add_counter t n) w) = (fst (lockv w), bump t n (snd (lockv w)))"
  by (simp add: add_counter_def lockv_def bump_def access_defs)

lemma result_GetCount [simp]:
  "result (GetCount t) w = (case snd (lockv w) t of None \<Rightarrow> 0 | Some c \<Rightarrow> c)"
  "exec (GetCount t) w = w"
  by (simp_all add: GetCount_def lockv_def)

definition counted :: "(bool \<Rightarrow> RunningLockParam \<Rightarrow> RunningLockStatus M) \<Rightarrow> (bool \<Rightarrow> uint32) \<Rightarrow> bool" where
  "counted fn n = (\<forall>b p w. lockv (exec (fn b p) w) =
     (fst (lockv w), if result (fn b p) w = RUNNINGLOCK_SUCCESS
                     then bump RUNNINGLOCK_BACKGROUND_TASK (n b) (snd (lockv w)) else snd (lockv w)))"

lemma counted_keeps: "(\<And>b p. keeps lockv (fn b p)) \<Longrightarrow> counted fn (\<lambda>_. 0)"
  by (simp add: counted_def keeps_def)

definition after_count ::
    "(bool \<Rightarrow> uint32) \<Rightarrow> RunningLockType \<Rightarrow> bool \<Rightarrow> counters \<Rightarrow> counters" where
  "after_count n t up c =
    (let d = (if up then 1 else - 1); c' = bump t d c;
         now = (case c' t of None \<Rightarrow> 0 | Some x \<Rightarrow> x)
     in if now = (if up then 1 else 0) then bump RUNNINGLOCK_BACKGROUND_TASK (n up) c' else c')"

lemma bump_commute: "bump t n (bump u m c) = bump u m (bump t n c)"
  by (cases "t = u") (simp_all add: add.commute, simp add: bump_def fun_eq_iff)

lemma lockv_Increase:
  assumes "counted fn n"
  shows "lockv (exec (Increase fn t p) w) =
    (fst (lockv w), if result (Increase fn t p) w = RUNNINGLOCK_SUCCESS
                    then after_count n t True (snd (lockv w)) else snd (lockv w))"
  using assms keepsD [OF keeps_notify]
  by (auto simp: Increase_def counted_def after_count_def Let_def)

lemma lockv_Decrease:
  assumes "counted fn n"
  shows "lockv (exec (Decrease fn t p) w) =
    (fst (lockv w), if result (Decrease fn t p) w = RUNNINGLOCK_SUCCESS
                    then after_count n t False (snd (lockv w)) else snd (lockv w))"
  using assms keepsD [OF keeps_notify]
  by (auto simp: Decrease_def counted_def after_count_def Let_def)

lemma after_count_zero [simp]: "after_count (\<lambda>_. 0) t up c = bump t (if up then 1 else - 1) c"
  by (simp add: after_count_def Let_def)

lemmas background_counted = counted_keeps [OF keeps_lockv_background]

lemma counted_activate: "counted (activate E t) (nest t)"
proof -
  have idle: "counted (activate_USER_IDLE E) (nest RUNNINGLOCK_BACKGROUND_USER_IDLE)"
    using lockv_Increase [OF background_counted] lockv_Decrease [OF background_counted]
    by (auto simp: counted_def activate_USER_IDLE_def nest_def Let_def)
  have coordination: "counted (activate_COORDINATION E) (nest RUNNINGLOCK_COORDINATION)"
    using lockv_Increase [OF background_counted] lockv_Decrease [OF background_counted]
      keepsD [OF keeps_lockv_coordinated]
    by (auto simp: counted_def activate_COORDINATION_def nest_def Let_def)
  show ?thesis
    using idle coordination
    by (auto simp: activate_def nest_def counted_def keepsD [OF keeps_lockv_screen]
        keepsD [OF keeps_lockv_proximity] keepsD [OF keeps_lockv_background])
qed

text \<open>
  An observation that looks neither at what \<open>SetState\<close> changes nor at the counters and the
  proximity sensor does not notice that a counter goes up or down.
\<close>

definition beside_counters :: "(world \<Rightarrow> 'b) \<Rightarrow> bool" where
  "beside_counters f = (outer f \<and>
    (\<forall>w x. f (w\<lparr>rlm := (rlm w)\<lparr>lockCounters := x\<rparr>\<rparr>) = f w) \<and>
    (\<forall>w x. f (w\<lparr>rlm := (rlm w)\<lparr>proximityEnabled := x\<rparr>\<rparr>) = f w) \<and>
    (\<forall>w x. f (w\<lparr>rlm := (rlm w)\<lparr>proximityClose := x\<rparr>\<rparr>) = f w) \<and>
    (\<forall>w x. f (w\<lparr>rlm := (rlm w)\<lparr>proximitySupported := x\<rparr>\<rparr>) = f w))"

lemma keeps_beside_counters:
  assumes f: "beside_counters f"
  shows "keeps f (Increase (activate E t) u p)" "keeps f (Decrease (activate E t) u p)"
proof -
  note app = f [unfolded beside_counters_def, THEN conjunct2]
  have outer: "outer f" using f by (simp add: beside_counters_def)
  note ig = outer_ig [OF outer]
  have basic: "keeps f (NotifyRunningLockChanged p tag)" "keeps f (add_counter t n)" "keeps f (GetCount t)"
      "keeps f (ProximityEnable E)" "keeps f ProximityDisable" "keeps f ProximityClear" for p tag t n
    using app ig(2)
    by (auto simp: NotifyRunningLockChanged_def add_counter_def GetCount_def ProximityEnable_def trace_app
        InitProximitySensorUser_def ProximityDisable_def ProximityClear_def intro!: keeps_intros)
  have counters: "keeps f (Increase fn t p)" "keeps f (Decrease fn t p)" if "\<And>b p. keeps f (fn b p)" for fn t p
    using that unfolding Increase_def Decrease_def by (auto intro!: keeps_intros basic)
  have bg: "keeps f (activate_BACKGROUND E b p)" for b p
    by (auto simp: activate_BACKGROUND_def ig intro!: keeps_intros)
  note nested = counters [of "activate_BACKGROUND E", OF bg]
  have "keeps f (activate_SCREEN E b p)" for b p
    unfolding activate_SCREEN_def PmsRefreshActivityInner_def CheckRefreshTime_def
    by (auto simp: ig outer trace_app inert_psm [OF ig(1)] intro!: keeps_intros keeps_screen_notify)
  moreover have "keeps f (activate_USER_IDLE E b p)" for b p
    by (auto simp: activate_USER_IDLE_def Let_def intro!: keeps_intros nested)
  moreover have "keeps f (activate_COORDINATION E b p)" for b p
    by (auto simp: activate_COORDINATION_def Let_def ig intro!: keeps_intros nested)
  moreover have "keeps f (activate_PROXIMITY E b p)" for b p
    by (auto simp: activate_PROXIMITY_def ig trace_app intro!: keeps_intros basic)
  ultimately have "keeps f (activate E t b p)" for b p using bg by (simp add: activate_def)
  then show "keeps f (Increase (activate E t) u p)" "keeps f (Decrease (activate E t) u p)"
    by (auto intro: counters)
qed

section \<open>The balance of the counters\<close>

definition enabled_count :: "RunningLockType \<Rightarrow> (obj \<times> RunningLockInner) list \<Rightarrow> nat" where
  "enabled_count t ls = length (filter (\<lambda>e. lockType (runningLockParam (snd e)) = t \<and>
     lockState (snd e) = RUNNINGLOCK_STATE_ENABLE) ls)"

definition count_of :: "counters \<Rightarrow> RunningLockType \<Rightarrow> nat" where
  "count_of c t = (case c t of None \<Rightarrow> 0 | Some x \<Rightarrow> unat x)"

definition nested_count :: "counters \<Rightarrow> RunningLockType \<Rightarrow> nat" where
  "nested_count c t =
    (if t = RUNNINGLOCK_BACKGROUND_TASK
     then of_bool (0 < count_of c RUNNINGLOCK_BACKGROUND_USER_IDLE) +
          of_bool (0 < count_of c RUNNINGLOCK_COORDINATION)
     else 0)"

definition balance :: "(obj \<times> RunningLockInner) list \<times> counters \<Rightarrow> bool" where
  "balance v = (case v of (ls, c) \<Rightarrow>
     omap_inv ls \<and> length ls + 2 < 2 ^ 32 \<and>
     (\<forall>t. count_of c t = enabled_count t ls + nested_count c t) \<and>
     c RUNNINGLOCK_BACKGROUND_TASK \<noteq> None)"

definition balanced :: "world \<Rightarrow> bool" where
  "balanced w = balance (lockv w)"

definition set_state :: "obj \<Rightarrow> RunningLockState \<Rightarrow> (obj \<times> RunningLockInner) list \<Rightarrow> (obj \<times> RunningLockInner) list" where
  "set_state k st ls = map (\<lambda>(o', l). (o', if o' = k then l\<lparr>lockState := st\<rparr> else l)) ls"

lemma map_fst_set_state [simp]: "map fst (set_state k st ls) = map fst ls"
  by (simp add: set_state_def case_prod_unfold comp_def)

lemma omap_inv_set_state [simp]: "omap_inv (set_state k st ls) = omap_inv ls"
  by (simp add: omap_inv_def)

lemma length_set_state [simp]: "length (set_state k st ls) = length ls"
  by (simp add: set_state_def)

lemma set_state_fresh: "k \<notin> fst ` set ls \<Longrightarrow> set_state k st ls = ls"
  unfolding set_state_def by (induction ls) (auto simp: image_iff)

lemma enabled_count_Cons:
  "enabled_count t (e # ls) = enabled_count t ls +
    of_bool (lockType (runningLockParam (snd e)) = t \<and> lockState (snd e) = RUNNINGLOCK_STATE_ENABLE)"
  by (simp add: enabled_count_def)

lemma set_state_Cons:
  "set_state k st ((o', l) # ls) = (o', if o' = k then l\<lparr>lockState := st\<rparr> else l) # set_state k st ls"
  by (simp add: set_state_def)

lemma enabled_count_Nil [simp]: "enabled_count t [] = 0"
  by (simp add: enabled_count_def)

text \<open>Changing the state of one lock changes the number of enabled locks of its type only.\<close>

lemma enabled_count_set_state:
  assumes "distinct (map fst ls)" and "map_of ls k = Some l"
  shows "enabled_count t (set_state k st ls) +
      of_bool (lockType (runningLockParam l) = t \<and> lockState l = RUNNINGLOCK_STATE_ENABLE) =
    enabled_count t ls + of_bool (lockType (runningLockParam l) = t \<and> st = RUNNINGLOCK_STATE_ENABLE)"
  using assms
proof (induction ls)
  case (Cons e ls)
  obtain k' l' where e: "e = (k', l')" by fastforce
  show ?case
  proof (cases "k' = k")
    case True
    then have "l' = l" "set_state k st ls = ls"
      using Cons.prems e by (auto simp: set_state_fresh)
    then show ?thesis using True e by (simp add: enabled_count_Cons set_state_Cons)
  next
    case False
    then show ?thesis
      using Cons e by (auto simp: enabled_count_Cons set_state_Cons)
  qed
qed simp

lemma enabled_count_le: "enabled_count t ls \<le> length ls"
  by (simp add: enabled_count_def)

lemma enabled_count_less:
  assumes "map_of ls k = Some l" and "lockState l \<noteq> RUNNINGLOCK_STATE_ENABLE"
  shows "enabled_count t ls < length ls"
  using map_of_SomeD [OF assms(1)] assms(2) unfolding enabled_count_def
  by (intro length_filter_less [of "(k, l)"]) auto

lemma enabled_count_pos_iff:
  "0 < enabled_count t ls \<longleftrightarrow>
    (\<exists>e \<in> set ls. lockType (runningLockParam (snd e)) = t \<and> lockState (snd e) = RUNNINGLOCK_STATE_ENABLE)"
  by (auto simp: enabled_count_def filter_empty_conv)

lemma count_of_bump:
  "count_of (bump t n c) u =
    (if u = t then (case c t of None \<Rightarrow> 0 | Some x \<Rightarrow> unat (x + n)) else count_of c u)"
  by (auto simp: count_of_def bump_def split: option.split)

lemma unat_max32: "unat (- 1 :: uint32) = 4294967295"
  by (simp add: unsigned_minus_1_eq_mask mask_eq_exp_minus_1)

lemma unat_Suc32: "Suc (unat (x :: uint32)) < 2 ^ 32 \<Longrightarrow> unat (x + 1) = Suc (unat x)"
  using unat_plus_one_word [of x] unat_max32 by (cases "x = - 1") simp_all

lemma unat_pred32: "0 < unat (x :: uint32) \<Longrightarrow> unat (x - 1) = unat x - 1"
  using unat_minus_one_word [of x] by (cases "x = 0") simp_all

lemma unat_one_iff: "unat (x :: uint32) = 1 \<longleftrightarrow> x = 1"
  by (metis unsigned_1 word_eq_iff_unsigned)

lemma balanceD:
  assumes "balance (ls, c)"
  shows "distinct (map fst ls)" "length ls + 2 < 2 ^ 32"
    "count_of c t = enabled_count t ls + nested_count c t" "c RUNNINGLOCK_BACKGROUND_TASK \<noteq> None"
    "omap_inv ls"
  using assms by (auto simp: balance_def intro: omap_inv_distinct)

lemma nested_count_le: "nested_count c t \<le> 2"
  by (simp add: nested_count_def)

text \<open>
  After a counter went up, its own count is one more, and the background-task count is one more
  when the counter nests and became active.
\<close>

lemma count_after_up:
  assumes "c t = Some x" "Suc (unat x) < 2 ^ 32"
    and "c RUNNINGLOCK_BACKGROUND_TASK = Some y" "Suc (unat y) < 2 ^ 32"
  shows "count_of (after_count (nest t) t True c) u =
    count_of c u + of_bool (u = t) +
    of_bool (u = RUNNINGLOCK_BACKGROUND_TASK \<and> count_of c t = 0 \<and>
             t \<in> {RUNNINGLOCK_BACKGROUND_USER_IDLE, RUNNINGLOCK_COORDINATION})"
  using assms unat_Suc32 [OF assms(2)] unat_Suc32 [OF assms(4)]
  by (auto simp: after_count_def nest_def Let_def bump_def count_of_def unat_eq_0)

lemma count_after_down:
  assumes "c t = Some x" "0 < unat x"
    and "c RUNNINGLOCK_BACKGROUND_TASK = Some y" "unat x = 1 \<Longrightarrow>
      t \<in> {RUNNINGLOCK_BACKGROUND_USER_IDLE, RUNNINGLOCK_COORDINATION} \<Longrightarrow> 0 < unat y"
  shows "count_of (after_count (nest t) t False c) u =
    count_of c u - of_bool (u = t) -
    of_bool (u = RUNNINGLOCK_BACKGROUND_TASK \<and> count_of c t = 1 \<and>
             t \<in> {RUNNINGLOCK_BACKGROUND_USER_IDLE, RUNNINGLOCK_COORDINATION})"
  using assms unat_pred32 [OF assms(2)] unat_pred32 [of y] unat_one_iff [of x]
  by (auto simp: after_count_def nest_def Let_def bump_def count_of_def)

lemma after_count_None: "after_count n t up c u = None \<longleftrightarrow> c u = None"
  by (auto simp: after_count_def Let_def bump_def)

text \<open>The two ways a counter and the locks change together keep the balance.\<close>

lemma balance_step:
  assumes b: "balance (ls, c)" and len: "omap_inv ls'" "length ls' = length ls"
    and task: "c' RUNNINGLOCK_BACKGROUND_TASK \<noteq> None"
    and en: "\<And>u. int (enabled_count u ls') = int (enabled_count u ls) + d * of_bool (u = t)"
    and ct: "\<And>u. int (count_of c' u) = int (count_of c u) + d * of_bool (u = t) +
      d * of_bool (u = RUNNINGLOCK_BACKGROUND_TASK \<and> edge \<and>
        t \<in> {RUNNINGLOCK_BACKGROUND_USER_IDLE, RUNNINGLOCK_COORDINATION})"
    and edge: "d = 1 \<and> edge = (count_of c t = 0) \<or> d = - 1 \<and> edge = (count_of c t = 1)"
  shows "balance (ls', c')"
proof -
  have other: "count_of c' u = enabled_count u ls' + nested_count c' u" if "u \<noteq> RUNNINGLOCK_BACKGROUND_TASK" for u
    using that ct [of u] en [of u] balanceD(3) [OF b, of u] by (simp add: nested_count_def)
  have nested: "int (nested_count c' RUNNINGLOCK_BACKGROUND_TASK) =
      int (nested_count c RUNNINGLOCK_BACKGROUND_TASK) +
      d * of_bool (edge \<and> t \<in> {RUNNINGLOCK_BACKGROUND_USER_IDLE, RUNNINGLOCK_COORDINATION})"
    using edge ct [of RUNNINGLOCK_BACKGROUND_USER_IDLE] ct [of RUNNINGLOCK_COORDINATION]
    by (cases "t = RUNNINGLOCK_BACKGROUND_USER_IDLE"; cases "t = RUNNINGLOCK_COORDINATION")
      (auto simp: nested_count_def)
  have "int (count_of c' RUNNINGLOCK_BACKGROUND_TASK) =
      int (enabled_count RUNNINGLOCK_BACKGROUND_TASK ls') +
      int (nested_count c' RUNNINGLOCK_BACKGROUND_TASK)"
    using nested ct [of RUNNINGLOCK_BACKGROUND_TASK] en [of RUNNINGLOCK_BACKGROUND_TASK]
      balanceD(3) [OF b, of RUNNINGLOCK_BACKGROUND_TASK] by simp
  with other have "count_of c' u = enabled_count u ls' + nested_count c' u" for u
    by (cases "u = RUNNINGLOCK_BACKGROUND_TASK") auto
  then show ?thesis
    using balanceD(2) [OF b] len task by (simp add: balance_def)
qed

lemma balance_up:
  assumes b: "balance (ls, c)" and l: "map_of ls k = Some l" "lockState l \<noteq> RUNNINGLOCK_STATE_ENABLE"
    and t: "lockType (runningLockParam l) = t" "c t \<noteq> None"
  shows "balance (set_state k RUNNINGLOCK_STATE_ENABLE ls, after_count (nest t) t True c)"
proof -
  obtain x y where xy: "c t = Some x" "c RUNNINGLOCK_BACKGROUND_TASK = Some y"
    using t balanceD(4) [OF b] by auto
  have small: "Suc (count_of c u) < 2 ^ 32" for u
    using enabled_count_less [OF l, of u] nested_count_le [of c u] balanceD(2) [OF b]
      balanceD(3) [OF b, of u] by simp
  have up: "count_of (after_count (nest t) t True c) u = count_of c u + of_bool (u = t) +
      of_bool (u = RUNNINGLOCK_BACKGROUND_TASK \<and> count_of c t = 0 \<and>
               t \<in> {RUNNINGLOCK_BACKGROUND_USER_IDLE, RUNNINGLOCK_COORDINATION})" for u
    using count_after_up [OF xy(1) _ xy(2)] small [of t] small [of RUNNINGLOCK_BACKGROUND_TASK] xy
    by (simp add: count_of_def)
  have en: "int (enabled_count u (set_state k RUNNINGLOCK_STATE_ENABLE ls)) =
      int (enabled_count u ls) + 1 * of_bool (u = t)" for u
    using enabled_count_set_state [OF balanceD(1) [OF b] l(1), of u RUNNINGLOCK_STATE_ENABLE] l t
    by (auto split: if_splits)
  show ?thesis
    by (rule balance_step [OF b _ _ _ en, where edge = "count_of c t = 0"])
      (use balanceD(4,5) [OF b] in \<open>simp_all add: after_count_None up\<close>)
qed

lemma balance_down:
  assumes b: "balance (ls, c)" and l: "map_of ls k = Some l" "lockState l = RUNNINGLOCK_STATE_ENABLE"
    and t: "lockType (runningLockParam l) = t" "c t \<noteq> None" and st: "st \<noteq> RUNNINGLOCK_STATE_ENABLE"
  shows "balance (set_state k st ls, after_count (nest t) t False c)"
proof -
  obtain x y where xy: "c t = Some x" "c RUNNINGLOCK_BACKGROUND_TASK = Some y"
    using t balanceD(4) [OF b] by auto
  have "0 < enabled_count t ls"
    using map_of_SomeD [OF l(1)] l(2) t by (force simp: enabled_count_pos_iff)
  then have pos: "0 < unat x"
    using balanceD(3) [OF b, of t] xy by (simp add: count_of_def)
  have ypos: "0 < unat y" if "unat x = 1"
      "t \<in> {RUNNINGLOCK_BACKGROUND_USER_IDLE, RUNNINGLOCK_COORDINATION}"
    using that balanceD(3) [OF b, of RUNNINGLOCK_BACKGROUND_TASK] xy
    by (auto simp: nested_count_def count_of_def)
  have down: "count_of (after_count (nest t) t False c) u = count_of c u - of_bool (u = t) -
      of_bool (u = RUNNINGLOCK_BACKGROUND_TASK \<and> count_of c t = 1 \<and>
               t \<in> {RUNNINGLOCK_BACKGROUND_USER_IDLE, RUNNINGLOCK_COORDINATION})" for u
    by (rule count_after_down [OF xy(1) pos xy(2)]) (rule ypos)
  have task: "0 < count_of c RUNNINGLOCK_BACKGROUND_TASK"
    if "count_of c t = 1" "t \<in> {RUNNINGLOCK_BACKGROUND_USER_IDLE, RUNNINGLOCK_COORDINATION}"
    using that ypos xy by (simp add: count_of_def)
  have en: "int (enabled_count u (set_state k st ls)) = int (enabled_count u ls) + (- 1) * of_bool (u = t)" for u
    using enabled_count_set_state [OF balanceD(1) [OF b] l(1), of u st] l t st by (auto split: if_splits)
  have ct: "0 < count_of c t" using pos xy by (simp add: count_of_def)
  show ?thesis
    by (rule balance_step [OF b _ _ _ en, where edge = "count_of c t = 1"])
      (use balanceD(4,5) [OF b] task ct in \<open>auto simp: after_count_None down of_nat_diff\<close>)
qed

section \<open>Locking and unlocking\<close>

lemma lockv_SetLockState:
  "lockv (exec (SetLockState k st) w) = (set_state k st (fst (lockv w)), snd (lockv w))"
  by (simp add: SetLockState_def update_lock_def set_state_def lockv_def access_defs)

lemma keeps_lockv_screen_list: "keeps lockv (UpdateUnSceneLockLists p b)"
  by (auto simp: UpdateUnSceneLockLists_def lockv_def intro!: keeps_intros)

lemma keeps_lockv_log: "keeps lockv (log_call c)"
  by (auto simp: lockv_def intro!: keeps_intros)

lemma keeps_lockv_proxy_state: "keeps lockv (UpdateProxyState p u k)"
  by (auto simp: UpdateProxyState_def lockv_def Let_def intro!: keeps_intros)

lemmas lockv_simps =
  lockv_SetLockState keepsD [OF keeps_lockv_screen_list] keepsD [OF keeps_lockv_log]
  keepsD [OF keeps_lockv_screen_notify(2)]
  keepsD [OF keeps_lockv_proxy_state] lockv_Increase [OF counted_activate]
  lockv_Decrease [OF counted_activate]

lemma ValidateLockForEnable_pure [simp]: "exec (ValidateLockForEnable k) w = w"
  by (auto simp: ValidateLockForEnable_def GetRunningLockInner_def IsValidType_def GetState_def
      split: option.split)

lemma ValidateLockForEnable_result:
  "result (ValidateLockForEnable k) w = Some l \<Longrightarrow>
    map_of (fst (lockv w)) k = Some l \<and> lockState l \<noteq> RUNNINGLOCK_STATE_ENABLE \<and> \<not> IsProxied l \<and>
    snd (lockv w) (lockType (runningLockParam l)) \<noteq> None"
  by (auto simp: ValidateLockForEnable_def GetRunningLockInner_def IsValidType_def GetState_def lockv_def
      split: option.splits if_splits)

lemma FindLock_pure [simp]: "exec (FindLock k n) w = w"
  by (auto simp: FindLock_def GetRunningLockInner_def GetRunningLockInnerByName_def split: option.split)

lemma FindLock_result:
  assumes "result (FindLock k n) w = Some (k', l)" and "distinct (map fst (fst (lockv w)))"
  shows "map_of (fst (lockv w)) k' = Some l"
proof (cases "map_of (runningLocks (rlm w)) k")
  case None
  then obtain e es where es: "filter (\<lambda>e. lockName (runningLockParam (snd e)) = n) (runningLocks (rlm w)) = e # es"
      "(k', l) = last (e # es)"
    using assms(1) by (auto simp: FindLock_def GetRunningLockInner_def GetRunningLockInnerByName_def
        split: list.splits)
  then have "(k', l) \<in> set (filter (\<lambda>e. lockName (runningLockParam (snd e)) = n) (runningLocks (rlm w)))"
    by (metis last_in_set list.distinct(1))
  then show ?thesis using assms(2) by (simp add: lockv_def)
qed (use assms in \<open>simp add: FindLock_def GetRunningLockInner_def lockv_def\<close>)

lemma FindLock_own: "map_of (fst (lockv w)) k = Some l \<Longrightarrow> result (FindLock k n) w = Some (k, l)"
  by (simp add: FindLock_def GetRunningLockInner_def lockv_def)

lemma lockv_Lock:
  "lockv (exec (Lock E k) w) =
    (case result (ValidateLockForEnable k) w of
       None \<Rightarrow> lockv w
     | Some l \<Rightarrow> let t = lockType (runningLockParam l) in
         if result (Lock E k) w
         then (set_state k RUNNINGLOCK_STATE_ENABLE (fst (lockv w)), after_count (nest t) t True (snd (lockv w)))
         else lockv w)"
  by (auto simp: Lock_def Let_def lockv_simps split: option.split)

lemma lockv_UnLock:
  assumes "result (FindLock k n) w = Some (k', l)"
  defines "t \<equiv> lockType (runningLockParam l)"
  shows "lockv (exec (UnLock E k n) w) =
    (if result (UnLock E k n) w
     then (set_state k' RUNNINGLOCK_STATE_DISABLE (fst (lockv w)), after_count (nest t) t False (snd (lockv w)))
     else lockv w)"
  using assms by (auto simp: UnLock_def Let_def lockv_simps split: option.split)

lemma UnLock_missing: "result (FindLock k n) w = None \<Longrightarrow> run_state (UnLock E k n) w = (False, w)"
  by (simp add: UnLock_def run_result_exec)

lemma UnLock_success:
  "result (UnLock E k n) w \<Longrightarrow> result (FindLock k n) w = Some (k', l) \<Longrightarrow>
    lockState l \<noteq> RUNNINGLOCK_STATE_DISABLE \<and> snd (lockv w) (lockType (runningLockParam l)) \<noteq> None"
  using keepsD [OF keeps_lockv_proxy_state]
  by (auto simp: UnLock_def Let_def lockv_def split: if_splits)

lemma lock_state_cases:
  "lockState l \<noteq> RUNNINGLOCK_STATE_DISABLE \<Longrightarrow> \<not> IsProxied l \<Longrightarrow> lockState l = RUNNINGLOCK_STATE_ENABLE"
  by (cases "lockState l") (simp_all add: IsProxied_def)

lemma balanced_Lock: "balanced w \<Longrightarrow> balanced (exec (Lock E k) w)"
  using ValidateLockForEnable_result [of k w]
    balance_up [of "fst (lockv w)" "snd (lockv w)" k]
  by (auto simp: balanced_def lockv_Lock Let_def split: option.split)

lemma balanced_UnLock:
  assumes b: "balanced w" and np: "\<And>k' l. result (FindLock k n) w = Some (k', l) \<Longrightarrow> \<not> IsProxied l"
  shows "balanced (exec (UnLock E k n) w)"
proof (cases "result (FindLock k n) w")
  case None
  then show ?thesis using b UnLock_missing [OF None, of E] by (simp add: exec_def)
next
  case (Some e)
  obtain k' l where e: "e = (k', l)" by fastforce
  have bal: "balance (fst (lockv w), snd (lockv w))" using b by (simp add: balanced_def)
  have mem: "map_of (fst (lockv w)) k' = Some l"
    using FindLock_result [of k n w k' l] Some e balanceD(1) [OF bal] by simp
  show ?thesis
    using b lockv_UnLock [of k n w k' l E] Some e UnLock_success [of E k n w k' l]
      lock_state_cases [of l] np [of k' l] balance_down [OF bal mem]
    by (auto simp: balanced_def)
qed

lemma enabled_count_omap_set:
  assumes "omap_inv ls" and "map_of ls k = None" and "lockState l \<noteq> RUNNINGLOCK_STATE_ENABLE"
  shows "enabled_count t (omap_set k l ls) = enabled_count t ls \<and> length (omap_set k l ls) = Suc (length ls)"
  using assms
proof (induction k l ls rule: omap_set.induct)
  case (2 k v k' v' m)
  then show ?case
    by (auto simp: enabled_count_Cons omap_inv_def split: if_splits)
qed (simp add: enabled_count_Cons)

lemma balanced_CreateRunningLock:
  assumes "balanced w" and "length (runningLocks (rlm w)) + 3 < 2 ^ 32"
  shows "balanced (exec (CreateRunningLock k p) w)"
proof -
  let ?l = "\<lparr>runningLockParam = p, lockState = RUNNINGLOCK_STATE_DISABLE, lockTimeMs = 0\<rparr>"
  have eq: "lockv (exec (CreateRunningLock k p) w) = (omap_emplace k ?l (fst (lockv w)), snd (lockv w))"
    by (simp add: CreateRunningLock_def AddRunningLock_def access_defs lockv_def)
  obtain ls c where v: "lockv w = (ls, c)" "runningLocks (rlm w) = ls" by (simp add: lockv_def)
  show ?thesis
    using assms enabled_count_omap_set [of ls k ?l] v
    by (auto simp: balanced_def balance_def eq omap_emplace_def omap_inv_set split: option.split)
qed

lemma enabled_count_erase:
  assumes "distinct (map fst ls)" and "\<And>l. map_of ls k = Some l \<Longrightarrow> lockState l \<noteq> RUNNINGLOCK_STATE_ENABLE"
  shows "enabled_count t (omap_erase k ls) = enabled_count t ls"
proof -
  have "(k, l) \<in> set ls \<Longrightarrow> lockState l \<noteq> RUNNINGLOCK_STATE_ENABLE" for l
    using assms by (metis map_of_eq_Some_iff)
  then have "filter (\<lambda>e. lockType (runningLockParam (snd e)) = t \<and> lockState (snd e) = RUNNINGLOCK_STATE_ENABLE)
      (filter (\<lambda>e. fst e \<noteq> k) ls) =
    filter (\<lambda>e. lockType (runningLockParam (snd e)) = t \<and> lockState (snd e) = RUNNINGLOCK_STATE_ENABLE) ls"
    unfolding filter_filter by (intro filter_cong) auto
  then show ?thesis by (simp add: enabled_count_def omap_erase_def)
qed

lemma balance_erase:
  assumes b: "balance (ls, c)" and "\<And>l. map_of ls k = Some l \<Longrightarrow> lockState l \<noteq> RUNNINGLOCK_STATE_ENABLE"
  shows "balance (omap_erase k ls, c)"
proof -
  have "length (omap_erase k ls) \<le> length ls" by (simp add: omap_erase_def)
  then show ?thesis
    using b enabled_count_erase [OF balanceD(1) [OF b] assms(2)] balanceD(2) [OF b]
    by (auto simp: balance_def omap_inv_erase)
qed

lemma map_of_set_state: "map_of (set_state k st ls) j =
    (if j = k then map_option (\<lambda>l. l\<lparr>lockState := st\<rparr>) (map_of ls j) else map_of ls j)"
  unfolding set_state_def by (induction ls) auto

lemma lockv_ReleaseLock:
  "result (FindLock k n) w = Some (k', l) \<Longrightarrow> lockv (exec (ReleaseLock E k n) w) =
    (omap_erase k (fst (lockv (exec (UnLock E k '''') w))), snd (lockv (exec (UnLock E k '''') w)))"
  by (simp add: ReleaseLock_def Let_def RemoveRunningLock_def access_defs lockv_def)

lemma balanced_ReleaseLock:
  assumes b: "balanced w" and l: "map_of (runningLocks (rlm w)) k = Some l" and np: "\<not> IsProxied l"
    and off: "lockState l = RUNNINGLOCK_STATE_DISABLE \<or> result (UnLock E k '''') w"
  shows "balanced (exec (ReleaseLock E k n) w)"
proof -
  have f: "result (FindLock k m) w = Some (k, l)" for m
    using l by (simp add: FindLock_own lockv_def)
  have bal: "balance (lockv (exec (UnLock E k '''') w))"
    using balanced_UnLock [OF b, of k "''''" E] f np by (simp add: balanced_def)
  have "lockState l' \<noteq> RUNNINGLOCK_STATE_ENABLE"
    if "map_of (fst (lockv (exec (UnLock E k '''') w))) k = Some l'" for l'
    using that lockv_UnLock [OF f [of "''''"], of E] off l
    by (auto simp: map_of_set_state lockv_def split: if_splits)
  then show ?thesis
    using bal balance_erase [of "fst (lockv (exec (UnLock E k '''') w))" "snd (lockv (exec (UnLock E k '''') w))" k]
    by (simp add: balanced_def lockv_ReleaseLock [OF f])
qed

section \<open>Properties\<close>

lemma GetValidRunningLockNum_balanced:
  assumes "balanced w" and "t \<noteq> RUNNINGLOCK_BACKGROUND_TASK" and "\<not> F_LOCK_MULTI_SCREEN E \<or> t \<noteq> RUNNINGLOCK_SCREEN"
  shows "result (GetValidRunningLockNum E t d) w > 0 \<longleftrightarrow>
    (\<exists>k l. map_of (runningLocks (rlm w)) k = Some l \<and> lockType (runningLockParam l) = t \<and>
           lockState l = RUNNINGLOCK_STATE_ENABLE)"
proof -
  have bal: "balance (runningLocks (rlm w), lockCounters (rlm w))"
    using assms(1) by (simp add: balanced_def lockv_def)
  have "result (GetValidRunningLockNum E t d) w > 0 \<longleftrightarrow> 0 < count_of (lockCounters (rlm w)) t"
    using assms(3) by (auto simp: GetValidRunningLockNum_def count_of_def unat_gt_0 word_gt_0 split: option.split)
  also have "\<dots> \<longleftrightarrow> 0 < enabled_count t (runningLocks (rlm w))"
    using balanceD(3) [OF bal, of t] assms(2) by (simp add: nested_count_def)
  finally show ?thesis
    by (auto simp: enabled_count_pos_iff map_of_eq_Some_iff [OF balanceD(1) [OF bal]] Bex_def)
qed


definition sample_lock :: "RunningLockType \<Rightarrow> RunningLockState \<Rightarrow> RunningLockInner" where
  "sample_lock t st =
    \<lparr>runningLockParam = \<lparr>lockid = 9, lockName = ''video'', bundleName = '''', lockType = t, timeoutMs = -1,
       lockPid = 100, lockUid = 200, displayId = RUNNINGLOCK_DISPLAY_ID_ALL, typeHdi = t\<rparr>,
     lockState = st, lockTimeMs = 0\<rparr>"

definition world_with_lock :: "RunningLockType \<Rightarrow> RunningLockState \<Rightarrow> uint32 \<Rightarrow> world" where
  "world_with_lock t st n = sample_world\<lparr>rlm := (rlm sample_world)\<lparr>runningLocks := [(9, sample_lock t st)],
     lockCounters := (\<lambda>u. Some (if u = t then n else 0))\<rparr>\<rparr>"

lemma balanced_screen_world:
  "balanced (world_with_lock RUNNINGLOCK_SCREEN RUNNINGLOCK_STATE_ENABLE 1)"
  "balanced (world_with_lock RUNNINGLOCK_SCREEN RUNNINGLOCK_STATE_DISABLE 0)"
  "balanced (world_with_lock RUNNINGLOCK_SCREEN RUNNINGLOCK_STATE_PROXIED 0)"
  by (auto simp: balanced_def balance_def lockv_def world_with_lock_def sample_lock_def sample_world_def
      count_of_def nested_count_def enabled_count_def omap_inv_def)




text \<open>
  Unlocking a lock that is not proxied keeps the counters balanced, also when the lock is found by
  its name, is not found, is already disabled, or when the driver refuses.
\<close>

lemma UnLock_keeps_balance:
  assumes "balanced w" and "\<And>k' l. result (FindLock k n) w = Some (k', l) \<Longrightarrow> \<not> IsProxied l"
  shows "balanced (exec (UnLock E k n) w)"
  using assms by (rule balanced_UnLock)

theorem UnLock_keeps_balance_witness:
  "balanced (exec (UnLock sample_env 9 ''video'') (world_with_lock RUNNINGLOCK_SCREEN RUNNINGLOCK_STATE_ENABLE 1))"
  by (rule UnLock_keeps_balance [OF balanced_screen_world(1)])
    (auto simp: FindLock_def GetRunningLockInner_def world_with_lock_def sample_lock_def sample_world_def IsProxied_def)

lemma set_state_twice: "set_state k st (set_state k st' ls) = set_state k st ls"
  by (simp add: set_state_def case_prod_unfold comp_def)

lemma set_state_id:
  "distinct (map fst ls) \<Longrightarrow> map_of ls k = Some l \<Longrightarrow> lockState l = st \<Longrightarrow> set_state k st ls = ls"
proof (induction ls)
  case (Cons e ls)
  then show ?case
    by (cases e) (auto simp: set_state_Cons set_state_fresh split: if_splits)
qed simp

lemma after_count_inverse:
  assumes "c t \<noteq> None"
  shows "after_count (nest t) t False (after_count (nest t) t True c) = c"
  using assms by (auto simp: after_count_def Let_def nest_def bump_def fun_eq_iff option.map_comp comp_def option.map_ident)

text \<open>
  Unlocking undoes locking.  If a disabled lock is locked and unlocked again, all locks and all
  counters are what they were before.
\<close>

lemma lock_unlock_roundtrip:
  assumes "balanced w" and "result (Lock E k) w" and "result (UnLock E k n) (exec (Lock E k) w)"
  shows "runningLocks (rlm (exec (UnLock E k n) (exec (Lock E k) w))) = runningLocks (rlm w) \<and>
    lockCounters (rlm (exec (UnLock E k n) (exec (Lock E k) w))) = lockCounters (rlm w)"
proof -
  obtain l where v: "result (ValidateLockForEnable k) w = Some l"
    using assms(2) by (auto simp: Lock_def split: option.splits)
  note l = ValidateLockForEnable_result [OF v]
  have dis: "lockState l = RUNNINGLOCK_STATE_DISABLE" using l lock_state_cases [of l] by auto
  let ?t = "lockType (runningLockParam l)"
  have L: "lockv (exec (Lock E k) w) = (set_state k RUNNINGLOCK_STATE_ENABLE (fst (lockv w)),
      after_count (nest ?t) ?t True (snd (lockv w)))"
    using assms(2) v by (simp add: lockv_Lock Let_def)
  have "result (FindLock k n) (exec (Lock E k) w) = Some (k, l\<lparr>lockState := RUNNINGLOCK_STATE_ENABLE\<rparr>)"
    using l L by (intro FindLock_own) (simp add: map_of_set_state)
  from lockv_UnLock [OF this, of E] have "lockv (exec (UnLock E k n) (exec (Lock E k) w)) = lockv w"
    using assms(3) L l dis set_state_id [of "fst (lockv w)" k l] assms(1)
      balanceD(1) [of "fst (lockv w)" "snd (lockv w)"]
    by (simp add: set_state_twice after_count_inverse balanced_def)
  then show ?thesis by (simp add: lockv_def)
qed

lemmas lock_eval = Lock_def UnLock_def ValidateLockForEnable_def FindLock_def GetRunningLockInner_def
  IsValidType_def GetState_def Increase_def Decrease_def activate_def activate_BACKGROUND_def
  AcquireRunningLock_def ReleaseRunningLock_def GetPowerInterface_def status_of_int_def
  LockNeedNotify_def IsSceneRunningLockType_def NotifyRunningLockChanged_def SetLockState_def
  update_lock_def add_counter_def GetCount_def IsProxied_def

lemma balanced_phone_world:
  "balanced (world_with_lock RUNNINGLOCK_BACKGROUND_PHONE RUNNINGLOCK_STATE_DISABLE 0)"
  by (auto simp: balanced_def balance_def lockv_def world_with_lock_def sample_lock_def sample_world_def
      count_of_def nested_count_def enabled_count_def omap_inv_def)

theorem lock_unlock_roundtrip_witness:
  "lockCounters (rlm (exec (UnLock sample_env 9 ''video'') (exec (Lock sample_env 9)
     (world_with_lock RUNNINGLOCK_BACKGROUND_PHONE RUNNINGLOCK_STATE_DISABLE 0)))) = (\<lambda>u. Some 0)"
proof -
  have "result (Lock sample_env 9) (world_with_lock RUNNINGLOCK_BACKGROUND_PHONE RUNNINGLOCK_STATE_DISABLE 0)"
    by (simp add: lock_eval access_defs Let_def world_with_lock_def sample_lock_def sample_defs)
  moreover have "result (UnLock sample_env 9 ''video'') (exec (Lock sample_env 9)
      (world_with_lock RUNNINGLOCK_BACKGROUND_PHONE RUNNINGLOCK_STATE_DISABLE 0))"
    by (simp add: lock_eval access_defs Let_def world_with_lock_def sample_lock_def sample_defs)
  ultimately show ?thesis
    using lock_unlock_roundtrip [OF balanced_phone_world, of sample_env 9 "''video''"]
    by (simp add: world_with_lock_def)
qed

text \<open>
  Locking is idempotent.  Locking a lock that is already enabled and unlocking one that is already
  disabled fail without any effect, so an application that repeats a call does not unbalance the
  counter.
\<close>

lemma repeated_lock_has_no_effect:
  assumes "map_of (runningLocks (rlm w)) k = Some l"
  shows "(lockState l = RUNNINGLOCK_STATE_ENABLE \<longrightarrow> run_state (Lock E k) w = (False, w)) \<and>
    (lockState l = RUNNINGLOCK_STATE_DISABLE \<longrightarrow> run_state (UnLock E k n) w = (False, w))"
  using assms
  by (auto simp: run_result_exec Lock_def UnLock_def ValidateLockForEnable_def FindLock_def IsValidType_def
      GetState_def GetRunningLockInner_def IsProxied_def Let_def)

text \<open>
  C38: unlocking a proxied lock takes its count back a second time.  The count was given back when the
  lock was proxied; when it was the last one, the 32-bit counter wraps around, the lock
  type is counted as held although no lock is enabled, and a screen lock then blocks every
  time-out.
\<close>

theorem proxied_unlock_underflows:
  assumes "map_of (runningLocks (rlm w)) k = Some l" and "lockState l = RUNNINGLOCK_STATE_PROXIED"
    and "lockCounters (rlm w) (lockType (runningLockParam l)) = Some 0"
  shows "result (UnLock E k n) w \<and>
    lockCounters (rlm (exec (UnLock E k n) w)) (lockType (runningLockParam l)) = Some (2 ^ 32 - 1)"
proof -
  have v: "lockv w = (runningLocks (rlm w), lockCounters (rlm w))" by (simp add: lockv_def)
  have f: "result (FindLock k n) w = Some (k, l)" using assms by (simp add: FindLock_own lockv_def)
  have c: "lockCounters (rlm (exec (UpdateProxyState p u k) w)) = lockCounters (rlm w)" for p u
    using keepsD [OF keeps_lockv_proxy_state, of p u k w] by (simp add: lockv_def)
  have r: "result (UnLock E k n) w"
    using assms f by (auto simp: UnLock_def Let_def Decrease_def IsProxied_def add_counter_def lockv_def
        access_defs c)
  show ?thesis
    using lockv_UnLock [OF f, of E] r assms
    by (simp add: lockv_def after_count_def bump_def Let_def)
qed

theorem proxied_unlock_underflows_witness:
  "lockCounters (rlm (exec (UnLock sample_env 9 '''')
     (world_with_lock RUNNINGLOCK_SCREEN RUNNINGLOCK_STATE_PROXIED 0))) RUNNINGLOCK_SCREEN = Some (2 ^ 32 - 1)"
proof -
  let ?w = "world_with_lock RUNNINGLOCK_SCREEN RUNNINGLOCK_STATE_PROXIED 0"
  let ?l = "sample_lock RUNNINGLOCK_SCREEN RUNNINGLOCK_STATE_PROXIED"
  have "map_of (runningLocks (rlm ?w)) 9 = Some ?l" "lockState ?l = RUNNINGLOCK_STATE_PROXIED"
    "lockCounters (rlm ?w) (lockType (runningLockParam ?l)) = Some 0"
    by (simp_all add: world_with_lock_def sample_lock_def)
  from proxied_unlock_underflows [OF this, of sample_env "''''"] show ?thesis
    by (simp add: sample_lock_def)
qed

text \<open>
  Releasing a lock that is not proxied keeps the counters balanced, provided the lock was
  disabled or the driver lets it be unlocked.
\<close>

lemma ReleaseLock_keeps_balance:
  assumes "balanced w" and "map_of (runningLocks (rlm w)) k = Some l" and "\<not> IsProxied l"
    and "lockState l = RUNNINGLOCK_STATE_DISABLE \<or> result (UnLock E k '''') w"
  shows "balanced (exec (ReleaseLock E k n) w) \<and> map_of (runningLocks (rlm (exec (ReleaseLock E k n) w))) k = None"
  using balanced_ReleaseLock [OF assms] lockv_ReleaseLock [of k n w k l E] assms(2)
  by (simp add: FindLock_own lockv_def)

theorem ReleaseLock_keeps_balance_witness:
  "balanced (exec (ReleaseLock sample_env 9 '''') (world_with_lock RUNNINGLOCK_SCREEN RUNNINGLOCK_STATE_DISABLE 0))"
proof -
  let ?w = "world_with_lock RUNNINGLOCK_SCREEN RUNNINGLOCK_STATE_DISABLE 0"
  let ?l = "sample_lock RUNNINGLOCK_SCREEN RUNNINGLOCK_STATE_DISABLE"
  have "map_of (runningLocks (rlm ?w)) 9 = Some ?l" "\<not> IsProxied ?l"
    "lockState ?l = RUNNINGLOCK_STATE_DISABLE \<or> result (UnLock sample_env 9 '''') ?w"
    by (simp_all add: world_with_lock_def sample_lock_def IsProxied_def)
  from ReleaseLock_keeps_balance [OF balanced_screen_world(2) this] show ?thesis by simp
qed

lemma enabled_count_erase_enabled:
  assumes "map_of ls k = Some l" and "lockState l = RUNNINGLOCK_STATE_ENABLE" and "lockType (runningLockParam l) = t"
  shows "enabled_count t (omap_erase k ls) < enabled_count t ls"
proof -
  let ?P = "\<lambda>e. lockType (runningLockParam (snd e)) = t \<and> lockState (snd e) = RUNNINGLOCK_STATE_ENABLE"
  have "(k, l) \<in> set (filter ?P ls)" using map_of_SomeD [OF assms(1)] assms(2,3) by simp
  then have "length (filter (\<lambda>e. fst e \<noteq> k) (filter ?P ls)) < length (filter ?P ls)"
    by (rule length_filter_less) simp
  moreover have "filter (\<lambda>e. fst e \<noteq> k) (filter ?P ls) = filter ?P (filter (\<lambda>e. fst e \<noteq> k) ls)"
    unfolding filter_filter by (rule filter_cong) auto
  ultimately show ?thesis by (simp only: enabled_count_def omap_erase_def)
qed

text \<open>
  A release that the driver refuses leaks the count.  \<open>ReleaseLock\<close> ignores the result of
  \<open>UnLock\<close>: the lock disappears from the map while its counter keeps counting it.
\<close>

lemma refused_release_leaks:
  assumes "balanced w" and "map_of (runningLocks (rlm w)) k = Some l"
    and "lockState l = RUNNINGLOCK_STATE_ENABLE" and "\<not> result (UnLock E k '''') w"
  shows "map_of (runningLocks (rlm (exec (ReleaseLock E k n) w))) k = None \<and>
    lockCounters (rlm (exec (ReleaseLock E k n) w)) = lockCounters (rlm w) \<and>
    \<not> balanced (exec (ReleaseLock E k n) w)"
proof -
  let ?t = "lockType (runningLockParam l)" and ?w' = "exec (ReleaseLock E k n) w"
  have f: "result (FindLock k m) w = Some (k, l)" for m using assms by (simp add: FindLock_own lockv_def)
  have v: "lockv ?w' = (omap_erase k (runningLocks (rlm w)), lockCounters (rlm w))"
    using lockv_ReleaseLock [OF f [of n], of E] lockv_UnLock [OF f [of "''''"], of E] assms(4) by (simp add: lockv_def)
  have bal: "balance (runningLocks (rlm w), lockCounters (rlm w))"
    using assms(1) by (simp add: balanced_def lockv_def)
  have split: "enabled_count ?t (omap_erase k ls) < enabled_count ?t ls" if "map_of ls k = Some l" for ls
    by (rule enabled_count_erase_enabled [OF that assms(3) refl])
  have "\<not> balance (lockv ?w')"
  proof
    assume "balance (lockv ?w')"
    then have "count_of (lockCounters (rlm w)) ?t =
        enabled_count ?t (omap_erase k (runningLocks (rlm w))) + nested_count (lockCounters (rlm w)) ?t"
      using v balanceD(3) by metis
    then show False using split [OF assms(2)] balanceD(3) [OF bal, of ?t] by simp
  qed
  then show ?thesis using v by (simp add: balanced_def lockv_def)
qed

definition refusing_env :: env where
  "refusing_env = sample_env\<lparr>extInt := (\<lambda>c tr. - 1)\<rparr>"

theorem refused_release_leaks_witness:
  "\<not> balanced (exec (ReleaseLock refusing_env 9 '''')
     (world_with_lock RUNNINGLOCK_BACKGROUND_PHONE RUNNINGLOCK_STATE_ENABLE 1))"
proof -
  let ?w = "world_with_lock RUNNINGLOCK_BACKGROUND_PHONE RUNNINGLOCK_STATE_ENABLE 1"
  let ?l = "sample_lock RUNNINGLOCK_BACKGROUND_PHONE RUNNINGLOCK_STATE_ENABLE"
  have b: "balanced ?w"
    by (auto simp: balanced_def balance_def lockv_def world_with_lock_def sample_lock_def sample_world_def
        count_of_def nested_count_def enabled_count_def omap_inv_def)
  have l: "map_of (runningLocks (rlm ?w)) 9 = Some ?l" "lockState ?l = RUNNINGLOCK_STATE_ENABLE"
    by (simp_all add: world_with_lock_def sample_lock_def)
  have "\<not> result (UnLock refusing_env 9 '''') ?w"
    by (simp add: lock_eval access_defs Let_def world_with_lock_def sample_lock_def sample_defs refusing_env_def)
  from refused_release_leaks [OF b l this, of "''''"] show ?thesis by simp
qed

end
