(* ===== verification/Lock_Proxy.thy ===== *)
theory Lock_Proxy
  imports Lock_Laws
begin

text \<open>
  Proxying of running locks (\<open>running_lock_proxy.cpp\<close> and the proxy operations of
  \<open>running_lock_mgr.cpp\<close>), the time-out of a lock (\<open>running_lock_timer_handler.cpp\<close>) and the lock
  interface of \<open>PowerMgrService\<close>.

  The loops of the proxy call the lock manager for every entry, which writes back into the map
  they iterate over (\<open>UpdateProxyState\<close>).  It changes values and never adds or removes keys, so each
  loop runs over the keys and reads the entry when it gets there.
\<close>

section \<open>Helpers\<close>

datatype RunningLockEvent = RUNNINGLOCK_UPDATE | RUNNINGLOCK_PROXY | RUNNINGLOCK_UNPROXY

fun contains_str :: "string \<Rightarrow> string \<Rightarrow> bool" where
  "contains_str pat [] = (pat = [])"
| "contains_str pat (c # cs) = (take (length pat) (c # cs) = pat \<or> contains_str pat cs)"

definition MergeBundleName :: "WksMap \<Rightarrow> string" where
  "MergeBundleName wksMap =
    (let joined = concat (map (\<lambda>(u, b, proxied). if proxied then '''' else b @ '' '') wksMap)
     in if joined = '''' then '''' else butlast joined)"

definition GetRunningLockName :: "obj \<Rightarrow> string M" where
  "GetRunningLockName remoteObj = do {
     p \<leftarrow> gets ptrs;
     l \<leftarrow> GetRunningLockInner remoteObj;
     State_Monad.return
       (if \<not> pms p then '''' else if \<not> runningLockMgr p then ''''
        else case l of None \<Rightarrow> '''' | Some inner \<Rightarrow> lockName (runningLockParam inner)) }"

definition proxy_entry :: "string \<Rightarrow> obj \<Rightarrow> (WksMap \<times> int) M" where
  "proxy_entry key token = gets (\<lambda>w.
     case map_of (proxyMap (rlm w)) key of
       None \<Rightarrow> ([], 0)
     | Some tokens \<Rightarrow> (case map_of tokens token of None \<Rightarrow> ([], 0) | Some e \<Rightarrow> e))"

definition set_proxy_entry :: "string \<Rightarrow> obj \<Rightarrow> WksMap \<times> int \<Rightarrow> unit M" where
  "set_proxy_entry key token e = mod_rlm (\<lambda>s. s\<lparr>proxyMap :=
     map (\<lambda>(k, tokens). (k, if k = key
                            then map (\<lambda>(t, v). (t, if t = token then e else v)) tokens
                            else tokens)) (proxyMap s)\<rparr>)"

definition set_wks :: "bool \<Rightarrow> WksMap \<Rightarrow> WksMap" where
  "set_wks b wks = map (\<lambda>(u, n, _). (u, n, b)) wks"

definition proxy_tokens :: "(string \<times> obj) list M" where
  "proxy_tokens = gets (\<lambda>w.
     concat (map (\<lambda>(k, tokens). map (\<lambda>(t, _). (k, t)) tokens) (proxyMap (rlm w))))"

section \<open>Locking and unlocking on behalf of the proxy\<close>

definition LockInnerByProxy :: "env \<Rightarrow> obj \<Rightarrow> RunningLockInner \<Rightarrow> unit M" where
  "LockInnerByProxy E remoteObj lockInner =
    (if \<not> IsProxied lockInner then skip
     else whenM (lockState lockInner = RUNNINGLOCK_STATE_PROXIED) (do {
       SetLockState remoteObj RUNNINGLOCK_STATE_DISABLE;
       _ \<leftarrow> Lock E remoteObj;
       skip }))"

definition UnlockInnerByProxy :: "env \<Rightarrow> obj \<Rightarrow> RunningLockInner \<Rightarrow> unit M" where
  "UnlockInnerByProxy E remoteObj lockInner =
    (if lockState lockInner = RUNNINGLOCK_STATE_DISABLE then skip
     else do {
       _ \<leftarrow> UnLock E remoteObj '''';
       SetLockState remoteObj RUNNINGLOCK_STATE_PROXIED })"

definition NotifyProxied :: "obj \<Rightarrow> unit M" where
  "NotifyProxied remoteObj = do {
     l \<leftarrow> GetRunningLockInner remoteObj;
     case l of None \<Rightarrow> skip
     | Some inner \<Rightarrow> NotifyRunningLockChanged (runningLockParam inner) ''DUBAI_TAG_RUNNINGLOCK_UPDATE'' }"

definition ProxyInner :: "env \<Rightarrow> obj \<Rightarrow> string \<Rightarrow> RunningLockEvent \<Rightarrow> unit M" where
  "ProxyInner E remoteObj bundleNames event = do {
     p \<leftarrow> gets ptrs;
     if \<not> pms p then skip
     else if \<not> runningLockMgr p then skip
     else do {
       l \<leftarrow> GetRunningLockInner remoteObj;
       case l of
         None \<Rightarrow> skip
       | Some inner \<Rightarrow> do {
           update_lock remoteObj (\<lambda>l. l\<lparr>runningLockParam := (runningLockParam l)\<lparr>bundleName := bundleNames\<rparr>\<rparr>);
           (case event of
              RUNNINGLOCK_UPDATE \<Rightarrow> NotifyProxied remoteObj
            | RUNNINGLOCK_PROXY \<Rightarrow> do {
                NotifyProxied remoteObj;
                UnlockInnerByProxy E remoteObj inner }
            | RUNNINGLOCK_UNPROXY \<Rightarrow> do {
                LockInnerByProxy E remoteObj inner;
                NotifyProxied remoteObj }) } } }"

section \<open>Work sources\<close>

definition ProxyUpdateWorkSource :: "env \<Rightarrow> int \<Rightarrow> int \<Rightarrow> obj \<Rightarrow> (int \<times> string) list \<Rightarrow> bool M" where
  "ProxyUpdateWorkSource E pid uid remoteObj workSources = do {
     m \<leftarrow> gets (\<lambda>w. proxyMap (rlm w));
     let proxyKey = AssembleProxyKey pid uid in
     case map_of m proxyKey of
       None \<Rightarrow> State_Monad.return False
     | Some tokens \<Rightarrow>
         (case map_of tokens remoteObj of
            None \<Rightarrow> State_Monad.return False
          | Some (workSourceMap, count) \<Rightarrow>
              let workSourcesState = map (\<lambda>(u, b). case map_of workSourceMap u of
                      Some e \<Rightarrow> (u, e) | None \<Rightarrow> (u, b, False)) workSources;
                  bundleName' = MergeBundleName workSourcesState;
                  proxyCount = int (length (filter (\<lambda>(u, b, proxied). proxied) workSourcesState));
                  isProxyed = (count \<noteq> 0 \<and> count = int (length workSourceMap));
                  wksCount = int (length workSourcesState)
              in do {
                (if isProxyed \<and> wksCount > proxyCount then ProxyInner E remoteObj bundleName' RUNNINGLOCK_UNPROXY
                 else if \<not> isProxyed \<and> wksCount > 0 \<and> wksCount = proxyCount
                 then ProxyInner E remoteObj bundleName' RUNNINGLOCK_PROXY
                 else ProxyInner E remoteObj bundleName' RUNNINGLOCK_UPDATE);
                set_proxy_entry proxyKey remoteObj (workSourcesState, proxyCount);
                State_Monad.return True }) }"

definition UpdateWorkSource :: "env \<Rightarrow> obj \<Rightarrow> (int \<times> string) list \<Rightarrow> bool M" where
  "UpdateWorkSource E remoteObj workSources = do {
     l \<leftarrow> GetRunningLockInner remoteObj;
     case l of
       None \<Rightarrow> State_Monad.return False
     | Some inner \<Rightarrow> do {
         _ \<leftarrow> ProxyUpdateWorkSource E (lockPid (runningLockParam inner)) (lockUid (runningLockParam inner))
               remoteObj workSources;
         State_Monad.return True } }"

section \<open>Proxying a process\<close>

definition SkipProxy :: "string \<Rightarrow> bool \<Rightarrow> bool" where
  "SkipProxy name fast =
    (contains_str ''AudioOffloadBackgroundPlay'' name \<or>
     fast \<and> contains_str ''AudioFastBackgroundPlay'' name)"

text \<open>The bodies of the two loops over all locks that work for the user.\<close>

definition proxy_work_source :: "env \<Rightarrow> int \<Rightarrow> string \<Rightarrow> obj \<Rightarrow> unit M" where
  "proxy_work_source E uid key token = do {
     name \<leftarrow> GetRunningLockName token;
     e \<leftarrow> proxy_entry key token;
     if SkipProxy name (F_AUDIO_LOCK_UNPROXY E) then skip
     else (case map_of (fst e) uid of
         Some (b, False) \<Rightarrow>
           let wks = omap_set uid (b, True) (fst e); n = snd e + 1 in do {
           set_proxy_entry key token (wks, n);
           (if n = int (length wks) then ProxyInner E token '''' RUNNINGLOCK_PROXY
            else ProxyInner E token (MergeBundleName wks) RUNNINGLOCK_UPDATE) }
       | _ \<Rightarrow> skip) }"

definition IncreaseProxyCnt :: "env \<Rightarrow> int \<Rightarrow> int \<Rightarrow> bool M" where
  "IncreaseProxyCnt E pid uid = do {
     m \<leftarrow> gets (\<lambda>w. proxyMap (rlm w));
     let proxyKey = AssembleProxyKey pid uid in do {
     (case map_of m proxyKey of
        None \<Rightarrow> skip
      | Some tokens \<Rightarrow> for_each (\<lambda>token. do {
          e \<leftarrow> proxy_entry proxyKey token;
          set_proxy_entry proxyKey token (set_wks True (fst e), int (length (fst e)));
          ProxyInner E token '''' RUNNINGLOCK_PROXY }) (map fst tokens));
     items \<leftarrow> proxy_tokens;
     for_each (\<lambda>(key, token). proxy_work_source E uid key token) items;
     State_Monad.return True } }"

definition unproxy_work_source :: "env \<Rightarrow> int \<Rightarrow> string \<Rightarrow> obj \<Rightarrow> unit M" where
  "unproxy_work_source E uid key token = do {
     name \<leftarrow> GetRunningLockName token;
     e \<leftarrow> proxy_entry key token;
     if SkipProxy name False then skip
     else (case map_of (fst e) uid of
         Some (b, True) \<Rightarrow>
           let wks = omap_set uid (b, False) (fst e); n = max 0 (snd e - 1) in do {
           set_proxy_entry key token (wks, n);
           (if n = int (length wks) - 1
            then ProxyInner E token (MergeBundleName wks) RUNNINGLOCK_UNPROXY
            else ProxyInner E token (MergeBundleName wks) RUNNINGLOCK_UPDATE) }
       | _ \<Rightarrow> skip) }"

definition DecreaseProxyCnt :: "env \<Rightarrow> int \<Rightarrow> int \<Rightarrow> bool M" where
  "DecreaseProxyCnt E pid uid = do {
     m \<leftarrow> gets (\<lambda>w. proxyMap (rlm w));
     let proxyKey = AssembleProxyKey pid uid in do {
     (case map_of m proxyKey of
        None \<Rightarrow> skip
      | Some tokens \<Rightarrow> for_each (\<lambda>token. do {
          e \<leftarrow> proxy_entry proxyKey token;
          set_proxy_entry proxyKey token (set_wks False (fst e), 0);
          ProxyInner E token (MergeBundleName (set_wks False (fst e))) RUNNINGLOCK_UNPROXY }) (map fst tokens));
     items \<leftarrow> proxy_tokens;
     for_each (\<lambda>(key, token). unproxy_work_source E uid key token) items;
     State_Monad.return True } }"

definition ProxyResetRunningLocks :: "env \<Rightarrow> unit M" where
  "ProxyResetRunningLocks E = do {
     items \<leftarrow> proxy_tokens;
     for_each (\<lambda>(key, token). do {
       e \<leftarrow> proxy_entry key token;
       set_proxy_entry key token (set_wks False (fst e), snd e);
       ProxyInner E token (MergeBundleName (set_wks False (fst e))) RUNNINGLOCK_UNPROXY;
       e' \<leftarrow> proxy_entry key token;
       set_proxy_entry key token (fst e', 0) }) items }"

definition IsExistAudioStream :: "int \<Rightarrow> bool M" where
  "IsExistAudioStream uid = gets (\<lambda>w.
     if \<not> pms (ptrs w) then False
     else if \<not> runningLockMgr (ptrs w) then False
     else list_ex (\<lambda>(k, tokens). list_ex (\<lambda>(token, wks, n).
       (case map_of (runningLocks (rlm w)) token of
          None \<Rightarrow> False
        | Some inner \<Rightarrow>
            lockType (runningLockParam inner) = RUNNINGLOCK_BACKGROUND_AUDIO \<and>
            (case map_of wks uid of Some (b, False) \<Rightarrow> True | _ \<Rightarrow> False))) tokens) (proxyMap (rlm w)))"

definition ProxyRunningLock :: "env \<Rightarrow> bool \<Rightarrow> int \<Rightarrow> int \<Rightarrow> bool M" where
  "ProxyRunningLock E isProxied pid uid =
    (if pid < 1 then State_Monad.return False
     else do {
       _ \<leftarrow> (if isProxied then IncreaseProxyCnt E pid uid else DecreaseProxyCnt E pid uid);
       State_Monad.return True })"

definition ProxyRunningLocks :: "env \<Rightarrow> bool \<Rightarrow> (int \<times> int) list \<Rightarrow> unit M" where
  "ProxyRunningLocks E isProxied processInfos =
    for_each (\<lambda>(pid, uid). do { _ \<leftarrow> ProxyRunningLock E isProxied pid uid; skip }) processInfos"

section \<open>Lock timers\<close>

text \<open>
  \<open>OHOS::Utils::Timer\<close> is a library.  Registering answers a timer id; \<open>TIMER_ERR_DEAL_FAILED\<close>, the
  largest 32-bit value less one in that library, is the answer \<open>None\<close> here.
\<close>

definition GetRunningLockTimerId :: "obj \<Rightarrow> uint32 option M" where
  "GetRunningLockTimerId token = gets (\<lambda>w. map_of (runninglockTimerMap (rlm w)) token)"

definition UnregisterTimer :: "uint32 \<Rightarrow> unit M" where
  "UnregisterTimer timerId = do {
     h \<leftarrow> gets (\<lambda>w. handlerTimer (rlm w));
     whenM h (log_call (Service (TimerUnregister timerId))) }"

definition AddRunningLockTimerMap :: "obj \<Rightarrow> uint32 \<Rightarrow> unit M" where
  "AddRunningLockTimerMap token timerId =
    mod_rlm (\<lambda>s. s\<lparr>runninglockTimerMap := omap_set token timerId (runninglockTimerMap s)\<rparr>)"

definition RemoveRunningLockTimerMap :: "obj \<Rightarrow> unit M" where
  "RemoveRunningLockTimerMap token =
    mod_rlm (\<lambda>s. s\<lparr>runninglockTimerMap := omap_erase token (runninglockTimerMap s)\<rparr>)"

definition RegisterRunningLockTimer :: "env \<Rightarrow> obj \<Rightarrow> int \<Rightarrow> bool M" where
  "RegisterRunningLockTimer E token timeoutMs' = do {
     mod_rlm (\<lambda>s. s\<lparr>handlerTimer := True\<rparr>);
     lastTimerId \<leftarrow> GetRunningLockTimerId token;
     (case lastTimerId of None \<Rightarrow> skip | Some i \<Rightarrow> UnregisterTimer i);
     ok \<leftarrow> gets (\<lambda>w. extBool E (Service (TimerRegister token timeoutMs')) (trace w));
     n \<leftarrow> ask_int E (Service (TimerRegister token timeoutMs'));
     if \<not> ok then do {
       whenM (lastTimerId \<noteq> None) (RemoveRunningLockTimerMap token);
       State_Monad.return False }
     else do {
       AddRunningLockTimerMap token (word_of_int n);
       State_Monad.return True } }"

definition UnregisterRunningLockTimer :: "obj \<Rightarrow> unit M" where
  "UnregisterRunningLockTimer token = do {
     timerId \<leftarrow> GetRunningLockTimerId token;
     case timerId of
       None \<Rightarrow> skip
     | Some i \<Rightarrow> do { UnregisterTimer i; RemoveRunningLockTimerMap token } }"

definition CleanTimer :: "unit M" where
  "CleanTimer = do {
     r \<leftarrow> gets rlm;
     whenM (handlerTimer r) (do {
       for_each (\<lambda>(token, i). UnregisterTimer i) (runninglockTimerMap r);
       mod_rlm (\<lambda>s. s\<lparr>runninglockTimerMap := []\<rparr>) }) }"

end
