(* ===== verification/Proxy_Laws.thy ===== *)
theory Proxy_Laws
  imports Lock_Proxy
begin

text \<open>
  Laws of lock proxying: keys of the proxy map, the balance of the lock counters while locks are
  proxied and restored, the consistency of the work-source counts, and the timers of locks.
\<close>

section \<open>Keys\<close>

lemma split_at_underscore:
  "a @ CHR ''_'' # b = c @ CHR ''_'' # d \<Longrightarrow> CHR ''_'' \<notin> set a \<Longrightarrow> CHR ''_'' \<notin> set c \<Longrightarrow> a = c \<and> b = d"
proof (induction a arbitrary: c)
  case Nil then show ?case by (cases c) auto
next
  case (Cons x a) then show ?case by (cases c) auto
qed

text \<open>
  Two processes never share an entry of the proxy map: the key is injective in the pair of process
  and user identifier.
\<close>

lemma AssembleProxyKey_inject:
  "AssembleProxyKey pid uid = AssembleProxyKey pid' uid' \<longleftrightarrow> pid = pid' \<and> uid = uid'"
  using split_at_underscore [of "to_string pid" "to_string uid" "to_string pid'" "to_string uid'"]
  by (auto simp: AssembleProxyKey_def to_string_no_underscore dest: to_string_inject)

section \<open>Counters while a lock is proxied\<close>

definition rename_lock :: "obj \<Rightarrow> string \<Rightarrow> (obj \<times> RunningLockInner) list \<Rightarrow> (obj \<times> RunningLockInner) list" where
  "rename_lock k b ls = map (\<lambda>(o', l). (o', if o' = k
     then l\<lparr>runningLockParam := (runningLockParam l)\<lparr>bundleName := b\<rparr>\<rparr> else l)) ls"

lemma rename_lock_facts [simp]:
  "map fst (rename_lock k b ls) = map fst ls" "length (rename_lock k b ls) = length ls"
  "omap_inv (rename_lock k b ls) = omap_inv ls" "enabled_count t (rename_lock k b ls) = enabled_count t ls"
proof -
  show "enabled_count t (rename_lock k b ls) = enabled_count t ls"
    by (induction ls) (auto simp: rename_lock_def enabled_count_Cons of_bool_def split: if_splits)
qed (simp_all add: rename_lock_def case_prod_unfold comp_def omap_inv_def)

lemma map_of_rename_lock: "map_of (rename_lock k b ls) j = (if j = k
    then map_option (\<lambda>l. l\<lparr>runningLockParam := (runningLockParam l)\<lparr>bundleName := b\<rparr>\<rparr>) (map_of ls j)
    else map_of ls j)"
  unfolding rename_lock_def by (induction ls) auto

lemma balance_rename [simp]: "balance (rename_lock k b ls, c) = balance (ls, c)"
  by (simp add: balance_def)

lemma lockv_rename: "lockv (exec (update_lock k (\<lambda>l. l\<lparr>runningLockParam := (runningLockParam l)\<lparr>bundleName := b\<rparr>\<rparr>)) w) =
    (rename_lock k b (fst (lockv w)), snd (lockv w))"
  by (simp add: update_lock_def rename_lock_def lockv_def access_defs)

lemma keeps_lockv_NotifyProxied: "keeps lockv (NotifyProxied k)"
  unfolding NotifyProxied_def GetRunningLockInner_def
  by (auto intro!: keeps_intros keeps_notify)

lemma balance_set_state_off:
  assumes b: "balance (ls, c)" and "map_of ls k = Some l" and "lockState l \<noteq> RUNNINGLOCK_STATE_ENABLE"
    and "st \<noteq> RUNNINGLOCK_STATE_ENABLE"
  shows "balance (set_state k st ls, c)"
  using b enabled_count_set_state [OF balanceD(1) [OF b] assms(2)] assms(3,4) by (simp add: balance_def)

lemma balanced_LockInnerByProxy:
  assumes b: "balanced w" and l: "\<exists>l'. map_of (fst (lockv w)) k = Some l' \<and> lockState l' = lockState l"
  shows "balanced (exec (LockInnerByProxy E k l) w)"
proof -
  have "balanced (exec (SetLockState k RUNNINGLOCK_STATE_DISABLE) w)" if "lockState l = RUNNINGLOCK_STATE_PROXIED"
    using l that balance_set_state_off [of "fst (lockv w)" "snd (lockv w)" k] b
    by (auto simp: balanced_def lockv_SetLockState)
  then show ?thesis
    using b by (auto simp: LockInnerByProxy_def balanced_Lock)
qed

definition active_service :: "world \<Rightarrow> bool" where
  "active_service w = (pms (ptrs w) \<and> runningLockMgr (ptrs w))"

abbreviation lock_of :: "world \<Rightarrow> obj \<Rightarrow> RunningLockInner option" where
  "lock_of w k \<equiv> map_of (runningLocks (rlm w)) k"

text \<open>The world in which the proxy calls \<open>UnLock\<close>: the lock renamed and the listener told.\<close>

definition proxied_call :: "obj \<Rightarrow> string \<Rightarrow> world \<Rightarrow> world" where
  "proxied_call k b w = exec (NotifyProxied k)
     (exec (update_lock k (\<lambda>l. l\<lparr>runningLockParam := (runningLockParam l)\<lparr>bundleName := b\<rparr>\<rparr>)) w)"

lemma lockv_proxied_call: "lockv (proxied_call k b w) = (rename_lock k b (fst (lockv w)), snd (lockv w))"
  by (simp add: proxied_call_def keepsD [OF keeps_lockv_NotifyProxied] lockv_rename)

lemma ProxyInner_PROXY:
  assumes "active_service w" and "lock_of w k = Some l"
  shows "exec (ProxyInner E k b RUNNINGLOCK_PROXY) w = exec (UnlockInnerByProxy E k l) (proxied_call k b w)"
  using assms by (simp add: ProxyInner_def active_service_def GetRunningLockInner_def proxied_call_def)

lemma lockv_PROXY_enabled:
  assumes a: "active_service w" and l: "lock_of w k = Some l" and en: "lockState l = RUNNINGLOCK_STATE_ENABLE"
    and ok: "result (UnLock E k '''') (proxied_call k b w)"
  defines "t \<equiv> lockType (runningLockParam l)"
  shows "lockv (exec (ProxyInner E k b RUNNINGLOCK_PROXY) w) =
    (set_state k RUNNINGLOCK_STATE_PROXIED (set_state k RUNNINGLOCK_STATE_DISABLE (rename_lock k b (fst (lockv w)))),
     after_count (nest t) t False (snd (lockv w)))"
proof -
  let ?l = "l\<lparr>runningLockParam := (runningLockParam l)\<lparr>bundleName := b\<rparr>\<rparr>"
  have "map_of (fst (lockv (proxied_call k b w))) k = Some ?l"
    using l by (simp add: lockv_proxied_call map_of_rename_lock) (simp add: lockv_def)
  from lockv_UnLock [OF FindLock_own [OF this], of E] ok show ?thesis
    using en by (simp add: ProxyInner_PROXY [OF a l] UnlockInnerByProxy_def lockv_SetLockState
        lockv_proxied_call t_def)
qed

lemma UnLock_counter:
  assumes "result (UnLock E k n) w" and "map_of (fst (lockv w)) k = Some l"
  shows "snd (lockv w) (lockType (runningLockParam l)) \<noteq> None"
  using UnLock_success [OF assms(1) FindLock_own [OF assms(2)]] by simp

lemma proxied_balance:
  assumes b: "balanced w" and a: "active_service w" and l: "lock_of w k = Some l"
    and en: "lockState l = RUNNINGLOCK_STATE_ENABLE"
    and ok: "result (UnLock E k '''') (proxied_call k n w)"
  shows "balanced (exec (ProxyInner E k n RUNNINGLOCK_PROXY) w)"
proof -
  let ?l = "l\<lparr>runningLockParam := (runningLockParam l)\<lparr>bundleName := n\<rparr>\<rparr>"
  have bal: "balance (rename_lock k n (fst (lockv w)), snd (lockv w))"
    using b by (simp add: balanced_def)
  have mem: "map_of (rename_lock k n (fst (lockv w))) k = Some ?l"
    using l by (simp add: map_of_rename_lock lockv_def)
  have "snd (lockv w) (lockType (runningLockParam l)) \<noteq> None"
    using UnLock_counter [OF ok, of ?l] mem by (simp add: lockv_proxied_call)
  then show ?thesis
    using balance_down [OF bal mem, of _ RUNNINGLOCK_STATE_PROXIED] en
    by (simp add: balanced_def lockv_PROXY_enabled [OF a l en ok] set_state_twice)
qed

lemma balanced_UNPROXY: "balanced w \<Longrightarrow> balanced (exec (ProxyInner E k n RUNNINGLOCK_UNPROXY) w)"
proof -
  assume b: "balanced w"
  have "balanced (exec (LockInnerByProxy E k l) w')" if "lock_of w k = Some l"
    "lockv w' = (rename_lock k n (fst (lockv w)), snd (lockv w))" for l w'
    using that b by (intro balanced_LockInnerByProxy) (auto simp: balanced_def map_of_rename_lock lockv_def)
  then show ?thesis
    using b lockv_rename [of k n w] keepsD [OF keeps_lockv_NotifyProxied]
    by (auto simp: ProxyInner_def GetRunningLockInner_def balanced_def split: option.split)
qed

text \<open>
  Proxying a process suspends its locks.  When the proxy takes an enabled lock away and the driver
  agrees, the lock is marked as proxied, it no longer counts, and the counters stay balanced.
\<close>

lemma proxied_lock_does_not_count:
  assumes "balanced w" and "active_service w" and "lock_of w k = Some l"
    and "lockState l = RUNNINGLOCK_STATE_ENABLE" and "result (UnLock E k '''') (proxied_call k n w)"
  shows "balanced (exec (ProxyInner E k n RUNNINGLOCK_PROXY) w) \<and>
    map_option lockState (lock_of (exec (ProxyInner E k n RUNNINGLOCK_PROXY) w) k) = Some RUNNINGLOCK_STATE_PROXIED"
  using proxied_balance [OF assms] lockv_PROXY_enabled [OF assms(2-5)] assms(3)
  by (simp add: lockv_def map_of_set_state map_of_rename_lock)

lemmas proxy_eval = lock_eval ProxyInner_def UnlockInnerByProxy_def LockInnerByProxy_def NotifyProxied_def
  proxied_call_def active_service_def

lemma balanced_held_phone_world:
  "balanced (world_with_lock RUNNINGLOCK_BACKGROUND_PHONE RUNNINGLOCK_STATE_ENABLE 1)"
  by (auto simp: balanced_def balance_def lockv_def world_with_lock_def sample_lock_def sample_world_def
      count_of_def nested_count_def enabled_count_def omap_inv_def)

lemma held_phone_world:
  defines "w \<equiv> world_with_lock RUNNINGLOCK_BACKGROUND_PHONE RUNNINGLOCK_STATE_ENABLE 1"
  shows "active_service w" "lock_of w 9 = Some (sample_lock RUNNINGLOCK_BACKGROUND_PHONE RUNNINGLOCK_STATE_ENABLE)"
    "lockState (sample_lock RUNNINGLOCK_BACKGROUND_PHONE RUNNINGLOCK_STATE_ENABLE) = RUNNINGLOCK_STATE_ENABLE"
    "result (UnLock sample_env 9 '''') (proxied_call 9 n w)"
  by (simp_all add: w_def proxy_eval access_defs Let_def world_with_lock_def sample_lock_def sample_defs)

theorem proxied_lock_does_not_count_witness:
  "map_option lockState (lock_of (exec (ProxyInner sample_env 9 '''' RUNNINGLOCK_PROXY)
     (world_with_lock RUNNINGLOCK_BACKGROUND_PHONE RUNNINGLOCK_STATE_ENABLE 1)) 9) = Some RUNNINGLOCK_STATE_PROXIED"
  using proxied_lock_does_not_count [OF balanced_held_phone_world held_phone_world] by simp

text \<open>Balanced counters are determined by the locks.\<close>

lemma balance_determines_counters:
  assumes "balance (ls, c)" and "balance (ls', c')"
    and en: "\<And>t. enabled_count t ls' = enabled_count t ls" and none: "\<And>t. c' t = None \<longleftrightarrow> c t = None"
  shows "c' = c"
proof
  fix t
  have other: "count_of c' u = count_of c u" if "u \<noteq> RUNNINGLOCK_BACKGROUND_TASK" for u
    using balanceD(3) [OF assms(1), of u] balanceD(3) [OF assms(2), of u] en [of u] that
    by (simp add: nested_count_def)
  then have "nested_count c' u = nested_count c u" for u
    by (simp add: nested_count_def)
  then have "count_of c' t = count_of c t"
    using balanceD(3) [OF assms(1), of t] balanceD(3) [OF assms(2), of t] en by simp
  then show "c' t = c t"
    using none [of t] by (auto simp: count_of_def word_unat_eq_iff split: option.splits)
qed

text \<open>What \<open>ProxyInner\<close> changes: the state of one lock, its bundle name, and no counter's presence.\<close>

lemma lockv_UNPROXY:
  assumes a: "active_service w" and l: "lock_of w k = Some l" and p: "lockState l = RUNNINGLOCK_STATE_PROXIED"
  shows "(\<exists>st. fst (lockv (exec (ProxyInner E k n RUNNINGLOCK_UNPROXY) w)) =
      set_state k st (rename_lock k n (fst (lockv w)))) \<and>
    (\<forall>u. snd (lockv (exec (ProxyInner E k n RUNNINGLOCK_UNPROXY) w)) u = None \<longleftrightarrow> snd (lockv w) u = None)"
  using a l p lockv_rename [of k n w] keepsD [OF keeps_lockv_NotifyProxied]
  by (auto simp: ProxyInner_def active_service_def GetRunningLockInner_def LockInnerByProxy_def IsProxied_def
      lockv_Lock Let_def lockv_SetLockState set_state_twice after_count_None split: option.split)

lemma enabled_count_roundtrip:
  assumes "distinct (map fst ls)" and "map_of ls k = Some l" and "lockState l = RUNNINGLOCK_STATE_ENABLE"
  shows "enabled_count t (set_state k RUNNINGLOCK_STATE_ENABLE (rename_lock k m (set_state k st (rename_lock k n ls)))) =
    enabled_count t ls"
proof -
  let ?ls = "rename_lock k n ls" and ?l = "l\<lparr>runningLockParam := (runningLockParam l)\<lparr>bundleName := n\<rparr>\<rparr>"
  let ?ls' = "rename_lock k m (set_state k st ?ls)"
  have m: "map_of ?ls k = Some ?l" using assms(2) by (simp add: map_of_rename_lock)
  have m': "map_of ?ls' k = Some (l\<lparr>lockState := st,
      runningLockParam := (runningLockParam l)\<lparr>bundleName := m\<rparr>\<rparr>)"
    using assms(2) by (simp add: map_of_rename_lock map_of_set_state)
  show ?thesis
    using enabled_count_set_state [OF _ m, of t st] enabled_count_set_state [OF _ m', of t RUNNINGLOCK_STATE_ENABLE]
      assms by (simp split: if_splits)
qed

text \<open>
  Taking a process out of the proxy undoes putting it in: a lock that was enabled before and is
  enabled again afterwards is counted as it was, so all counters are restored.
\<close>

lemma proxy_roundtrip:
  fixes m :: string
  assumes "balanced w" and "active_service w" and "lock_of w k = Some l"
    and "lockState l = RUNNINGLOCK_STATE_ENABLE" and "result (UnLock E k '''') (proxied_call k n w)"
  defines "w' \<equiv> exec (ProxyInner E k m RUNNINGLOCK_UNPROXY) (exec (ProxyInner E k n RUNNINGLOCK_PROXY) w)"
  assumes "active_service (exec (ProxyInner E k n RUNNINGLOCK_PROXY) w)"
    and "map_option lockState (lock_of w' k) = Some RUNNINGLOCK_STATE_ENABLE"
  shows "lockCounters (rlm w') = lockCounters (rlm w)"
proof -
  let ?w1 = "exec (ProxyInner E k n RUNNINGLOCK_PROXY) w"
  note P = lockv_PROXY_enabled [OF assms(2-5)]
  have b: "balance (lockv w)" "balance (lockv w')"
    using assms(1) balanced_UNPROXY [OF proxied_balance [OF assms(1-5)]] by (auto simp: balanced_def w'_def)
  obtain l1 where l1: "lock_of ?w1 k = Some l1" "lockState l1 = RUNNINGLOCK_STATE_PROXIED"
    using P assms(3) by (auto simp: lockv_def map_of_set_state map_of_rename_lock)
  obtain st where st: "fst (lockv w') = set_state k st (rename_lock k m (fst (lockv ?w1)))"
      "\<And>u. snd (lockv w') u = None \<longleftrightarrow> snd (lockv ?w1) u = None"
    using lockv_UNPROXY [OF assms(7) l1, of E m] by (auto simp: w'_def)
  have "st = RUNNINGLOCK_STATE_ENABLE"
    using assms(8) st(1) l1 by (simp add: lockv_def map_of_set_state map_of_rename_lock)
  then have "enabled_count t (fst (lockv w')) = enabled_count t (fst (lockv w))" for t
    using st(1) P enabled_count_roundtrip [of "fst (lockv w)" k l] balanceD(1) assms(3,4) b(1)
    by (simp add: set_state_twice lockv_def)
  then have "snd (lockv w') = snd (lockv w)"
    using b st(2) P by (intro balance_determines_counters [of "fst (lockv w)" _ "fst (lockv w')"])
      (simp_all add: after_count_None)
  then show ?thesis by (simp add: lockv_def)
qed

theorem proxy_roundtrip_witness:
  "lockCounters (rlm (exec (ProxyInner sample_env 9 '''' RUNNINGLOCK_UNPROXY)
     (exec (ProxyInner sample_env 9 '''' RUNNINGLOCK_PROXY)
       (world_with_lock RUNNINGLOCK_BACKGROUND_PHONE RUNNINGLOCK_STATE_ENABLE 1)))) RUNNINGLOCK_BACKGROUND_PHONE = Some 1"
proof -
  let ?w = "world_with_lock RUNNINGLOCK_BACKGROUND_PHONE RUNNINGLOCK_STATE_ENABLE 1"
  have "active_service (exec (ProxyInner sample_env 9 '''' RUNNINGLOCK_PROXY) ?w)"
    by (simp add: proxy_eval access_defs Let_def world_with_lock_def sample_lock_def sample_defs)
  moreover have "map_option lockState (lock_of (exec (ProxyInner sample_env 9 '''' RUNNINGLOCK_UNPROXY)
      (exec (ProxyInner sample_env 9 '''' RUNNINGLOCK_PROXY) ?w)) 9) = Some RUNNINGLOCK_STATE_ENABLE"
    by (simp add: proxy_eval access_defs Let_def world_with_lock_def sample_lock_def sample_defs)
  ultimately show ?thesis
    using proxy_roundtrip [OF balanced_held_phone_world held_phone_world, of "''''" "''''"]
    by (simp add: world_with_lock_def)
qed

end
