(* ===== verification/Proxy_Counts.thy ===== *)
theory Proxy_Counts
  imports Proxy_Laws
begin

text \<open>
  The proxy map records, per lock, which work sources are proxied and how many of them.  The count
  decides whether the lock itself is suspended, so it has to agree with the flags.  This theory shows
  that every operation keeps them consistent.
\<close>

section \<open>The invariant\<close>

definition proxied_count :: "WksMap \<Rightarrow> int" where
  "proxied_count wks = int (length (filter (\<lambda>(u, b, proxied). proxied) wks))"

definition entry_ok :: "WksMap \<times> int \<Rightarrow> bool" where
  "entry_ok e = (omap_inv (fst e) \<and> snd e = proxied_count (fst e))"

definition proxy_counts :: "(string \<times> TokenWorkSourceMap) list \<Rightarrow> bool" where
  "proxy_counts m = list_all (\<lambda>(k, tokens). list_all (\<lambda>(t, e). entry_ok e) tokens) m"

definition proxy_consistent :: "world \<Rightarrow> bool" where
  "proxy_consistent w = proxy_counts (proxyMap (rlm w))"

abbreviation proxyv :: "world \<Rightarrow> (string \<times> TokenWorkSourceMap) list" where
  "proxyv w \<equiv> proxyMap (rlm w)"

lemma entry_ok_Nil [simp]: "entry_ok ([], 0)"
  by (simp add: entry_ok_def proxied_count_def)

lemma omap_inv_set_wks [simp]: "omap_inv (set_wks b wks) = omap_inv wks"
  by (simp add: omap_inv_def set_wks_def case_prod_unfold comp_def)

lemma proxied_count_set_wks [simp]:
  "proxied_count (set_wks True wks) = int (length wks)" "proxied_count (set_wks False wks) = 0"
  by (simp_all add: proxied_count_def set_wks_def filter_map comp_def case_prod_unfold)

lemma clear_wks_eq: "clear_wks = set_wks False"
  by (simp add: clear_wks_def set_wks_def fun_eq_iff)

lemma proxied_count_set:
  "omap_inv wks \<Longrightarrow> map_of wks u = Some (b, p) \<Longrightarrow>
    proxied_count (omap_set u (b, q) wks) = proxied_count wks - of_bool p + of_bool q"
proof (induction u "(b, q)" wks rule: omap_set.induct)
  case (2 k k' v' m)
  then have "k' \<noteq> k \<Longrightarrow> k' < k"
    by (auto simp: omap_inv_def dest!: map_of_SomeD)
  with 2 show ?case
    by (auto simp: proxied_count_def omap_inv_def split: if_splits)
qed simp

lemma list_all_omap_set: "list_all P m \<Longrightarrow> P (k, v) \<Longrightarrow> list_all P (omap_set k v m)"
  by (induction k v m rule: omap_set.induct) auto

lemma list_all_omap_erase: "list_all P m \<Longrightarrow> list_all P (omap_erase k m)"
  by (auto simp: omap_erase_def list_all_iff)

lemma list_all_omap_emplace: "list_all P m \<Longrightarrow> P (k, v) \<Longrightarrow> list_all P (omap_emplace k v m)"
  by (simp add: omap_emplace_def list_all_omap_set split: option.split)

lemma proxy_counts_lookup:
  assumes "proxy_counts m" and "map_of m k = Some tokens"
  shows "list_all (\<lambda>(t, e). entry_ok e) tokens"
  using assms map_of_SomeD [OF assms(2)] by (auto simp: proxy_counts_def list_all_iff)

lemma proxy_counts_entry:
  "proxy_counts m \<Longrightarrow> map_of m k = Some tokens \<Longrightarrow> map_of tokens t = Some e \<Longrightarrow> entry_ok e"
  using proxy_counts_lookup [of m k tokens] by (auto simp: list_all_iff dest!: map_of_SomeD)

section \<open>The elementary operations\<close>

lemma consistent_AddRunningLock: "proxy_consistent w \<Longrightarrow> proxy_consistent (exec (AddRunningLock p u k) w)"
  using proxy_counts_lookup [of "proxyv w" "AssembleProxyKey p u"]
  by (auto simp: proxy_consistent_def AddRunningLock_def access_defs Let_def proxy_counts_def
      split: option.split intro!: list_all_omap_set list_all_omap_emplace)

lemma consistent_RemoveRunningLock: "proxy_consistent w \<Longrightarrow> proxy_consistent (exec (RemoveRunningLock p u k) w)"
  using proxy_counts_lookup [of "proxyv w" "AssembleProxyKey p u"]
  by (auto simp: proxy_consistent_def RemoveRunningLock_def access_defs Let_def proxy_counts_def
      split: option.split intro!: list_all_omap_set list_all_omap_erase)

lemma consistent_UpdateProxyState: "proxy_consistent w \<Longrightarrow> proxy_consistent (exec (UpdateProxyState p u k) w)"
  using proxy_counts_lookup [of "proxyv w" "AssembleProxyKey p u"]
    proxy_counts_entry [of "proxyv w" "AssembleProxyKey p u" _ k]
  by (auto simp: proxy_consistent_def UpdateProxyState_def access_defs Let_def proxy_counts_def clear_wks_eq
      entry_ok_def split: option.split intro!: list_all_omap_set)

lemma consistent_set_proxy_entry:
  "proxy_consistent w \<Longrightarrow> entry_ok e \<Longrightarrow> proxy_consistent (exec (set_proxy_entry k t e) w)"
  by (auto simp: proxy_consistent_def set_proxy_entry_def access_defs proxy_counts_def list_all_iff
      split: if_splits) fastforce+

lemma proxy_entry_facts [simp]: "exec (proxy_entry k t) w = w" "exec proxy_tokens w = w"
  by (simp_all add: proxy_entry_def proxy_tokens_def)

lemma proxy_entry_ok: "proxy_consistent w \<Longrightarrow> entry_ok (result (proxy_entry k t) w)"
  using proxy_counts_entry [of "proxyv w" k _ t]
  by (auto simp: proxy_entry_def proxy_consistent_def split: option.split)

section \<open>Frames\<close>

lemma outer_proxyv: "outer proxyv"
  by (simp add: outer_def inert_def ig_defs ig_quiet_def ig_monitor_def ig_customized_def)

lemmas proxyv_ig = outer_ig [OF outer_proxyv]

lemma keeps_proxyv_basic:
  "keeps proxyv (NotifyRunningLockChanged p tag)" "keeps proxyv (add_counter t n)" "keeps proxyv (GetCount t)"
  "keeps proxyv (SetLockState k st)" "keeps proxyv (update_lock k f)" "keeps proxyv (UpdateUnSceneLockLists p b)"
  "keeps proxyv (ProximityEnable E)" "keeps proxyv ProximityDisable" "keeps proxyv ProximityClear"
  by (auto simp: NotifyRunningLockChanged_def add_counter_def GetCount_def SetLockState_def update_lock_def
      UpdateUnSceneLockLists_def ProximityEnable_def InitProximitySensorUser_def ProximityDisable_def
      ProximityClear_def intro!: keeps_intros)

lemma keeps_proxyv_notify:
  "keeps proxyv (NotifyScreenRunningLockChanged E b d)" "keeps proxyv (HandleScreenLockNotify E b d)"
  by (rule keeps_screen_notify; simp add: ig_defs)+

lemma keeps_proxyv_lock:
  "keeps proxyv (Increase (activate E t) u p)" "keeps proxyv (Decrease (activate E t) u p)"
  using keeps_beside_counters [of proxyv] by (simp_all add: beside_counters_def outer_proxyv)

lemma proxyv_Lock: "keeps proxyv (Lock E k)"
  unfolding Lock_def
  by (auto simp: Let_def ValidateLockForEnable_def GetRunningLockInner_def IsValidType_def GetState_def
      intro!: keeps_intros keeps_proxyv_lock keeps_proxyv_basic keeps_proxyv_notify)

lemma consistent_keeps: "keeps proxyv m \<Longrightarrow> proxy_consistent w \<Longrightarrow> proxy_consistent (exec m w)"
  by (simp add: proxy_consistent_def keepsD [of proxyv])

lemma consistent_UnLock: "proxy_consistent w \<Longrightarrow> proxy_consistent (exec (UnLock E k n) w)"
  using consistent_UpdateProxyState
  by (auto simp: UnLock_def Let_def proxy_consistent_def keepsD [OF keeps_proxyv_lock(2)] keepsD [OF keeps_proxyv_basic(4)]
      keepsD [OF keeps_proxyv_basic(6)] keepsD [OF keeps_proxyv_notify(2)] access_defs split: option.split)

lemma keeps_proxyv_NotifyProxied: "keeps proxyv (NotifyProxied k)"
  by (auto simp: NotifyProxied_def GetRunningLockInner_def intro!: keeps_intros keeps_proxyv_basic)

lemma keeps_proxyv_restore:
  "keeps proxyv (ProxyInner E k n RUNNINGLOCK_UNPROXY)" "keeps proxyv (ProxyInner E k n RUNNINGLOCK_UPDATE)"
  by (auto simp: ProxyInner_def LockInnerByProxy_def GetRunningLockInner_def
      intro!: keeps_intros keeps_proxyv_basic keeps_proxyv_NotifyProxied proxyv_Lock)

lemma consistent_ProxyInner: "proxy_consistent w \<Longrightarrow> proxy_consistent (exec (ProxyInner E k n ev) w)"
proof (cases ev)
  case RUNNINGLOCK_PROXY
  assume "proxy_consistent w"
  then show ?thesis
    using RUNNINGLOCK_PROXY consistent_UnLock consistent_keeps [OF keeps_proxyv_basic(5)]
      consistent_keeps [OF keeps_proxyv_basic(4)] consistent_keeps [OF keeps_proxyv_NotifyProxied]
    by (auto simp: ProxyInner_def UnlockInnerByProxy_def GetRunningLockInner_def split: option.split)
qed (auto intro: consistent_keeps keeps_proxyv_restore)

section \<open>The operations of the proxy\<close>

lemma consistent_for_each:
  "(\<And>x w. proxy_consistent w \<Longrightarrow> proxy_consistent (exec (f x) w)) \<Longrightarrow>
    proxy_consistent w \<Longrightarrow> proxy_consistent (exec (for_each f xs) w)"
  using preserves_for_each [of proxy_consistent f xs] by (auto simp: preserves_def)

lemma exec_GetRunningLockName [simp]: "exec (GetRunningLockName k) w = w"
  by (simp add: GetRunningLockName_def GetRunningLockInner_def)

lemma entry_ok_set_wks:
  "entry_ok e \<Longrightarrow> entry_ok (set_wks True (fst e), int (length (fst e)))"
  "entry_ok e \<Longrightarrow> entry_ok (set_wks False (fst e), 0)"
  by (simp_all add: entry_ok_def)

lemma entry_ok_flip:
  assumes "entry_ok e" and "map_of (fst e) u = Some (b, p)"
  shows "\<not> p \<Longrightarrow> entry_ok (omap_set u (b, True) (fst e), snd e + 1)"
    "p \<Longrightarrow> entry_ok (omap_set u (b, False) (fst e), max 0 (snd e - 1))"
proof -
  have c: "proxied_count (omap_set u (b, q) (fst e)) = proxied_count (fst e) - of_bool p + of_bool q" for q
    using assms proxied_count_set by (auto simp: entry_ok_def)
  show "\<not> p \<Longrightarrow> entry_ok (omap_set u (b, True) (fst e), snd e + 1)"
    using assms(1) c [of True] by (simp add: entry_ok_def omap_inv_set)
  have "0 \<le> proxied_count (omap_set u (b, False) (fst e))" by (simp add: proxied_count_def)
  then show "p \<Longrightarrow> entry_ok (omap_set u (b, False) (fst e), max 0 (snd e - 1))"
    using assms(1) c [of False] by (simp add: entry_ok_def omap_inv_set)
qed

lemma consistent_entry_ProxyInner:
  "proxy_consistent w \<Longrightarrow> entry_ok e \<Longrightarrow>
    proxy_consistent (exec (ProxyInner E t n ev) (exec (set_proxy_entry k t e) w))"
  by (intro consistent_ProxyInner consistent_set_proxy_entry)

lemma consistent_entry_branch:
  "proxy_consistent w \<Longrightarrow> entry_ok e \<Longrightarrow>
    proxy_consistent (exec (if c then ProxyInner E t n ev else ProxyInner E t n' ev') (exec (set_proxy_entry k t e) w))"
  by (simp add: consistent_entry_ProxyInner)

lemma consistent_work_source:
  assumes w: "proxy_consistent w"
  shows "proxy_consistent (exec (proxy_work_source E uid k t) w)"
    "proxy_consistent (exec (unproxy_work_source E uid k t) w)"
proof -
  let ?e = "result (proxy_entry k t) w"
  note flip = entry_ok_flip [OF proxy_entry_ok [OF w]]
  show "proxy_consistent (exec (proxy_work_source E uid k t) w)"
  proof (cases "map_of (fst ?e) uid")
    case (Some v)
    then show ?thesis
      using consistent_entry_branch [OF w flip(1), of k t uid "fst v" "snd v"] w
      by (cases v; cases "snd v")
        (simp_all del: exec_simps(6) add: proxy_work_source_def Let_def if_distrib [of "\<lambda>m. exec m w"])
  qed (use w in \<open>simp add: proxy_work_source_def\<close>)
  show "proxy_consistent (exec (unproxy_work_source E uid k t) w)"
  proof (cases "map_of (fst ?e) uid")
    case (Some v)
    then show ?thesis
      using consistent_entry_branch [OF w flip(2), of k t uid "fst v" "snd v"] w
      by (cases v; cases "snd v")
        (simp_all del: exec_simps(6) add: unproxy_work_source_def Let_def if_distrib [of "\<lambda>m. exec m w"])
  qed (use w in \<open>simp add: unproxy_work_source_def\<close>)
qed

lemma consistent_IncreaseProxyCnt: "proxy_consistent w \<Longrightarrow> proxy_consistent (exec (IncreaseProxyCnt E pid uid) w)"
  unfolding IncreaseProxyCnt_def
  by (auto simp: Let_def split: option.split
      intro!: consistent_for_each consistent_entry_ProxyInner entry_ok_set_wks consistent_work_source proxy_entry_ok)

lemma consistent_DecreaseProxyCnt: "proxy_consistent w \<Longrightarrow> proxy_consistent (exec (DecreaseProxyCnt E pid uid) w)"
  unfolding DecreaseProxyCnt_def
  by (auto simp: Let_def split: option.split
      intro!: consistent_for_each consistent_entry_ProxyInner entry_ok_set_wks consistent_work_source proxy_entry_ok)

lemma consistent_ProxyRunningLock:
  "proxy_consistent w \<Longrightarrow> proxy_consistent (exec (ProxyRunningLock E b pid uid) w)"
  by (simp add: ProxyRunningLock_def consistent_IncreaseProxyCnt consistent_DecreaseProxyCnt)

text \<open>
  \<open>ResetRunningLocks\<close> clears the flags, restores the lock and then clears the count; the entry is
  inconsistent only in between, where nothing reads it.
\<close>

lemma map_set_entry_twice:
  "map (\<lambda>(k, tokens). (k, if k = key then map (\<lambda>(t, v). (t, if t = token then e' else v)) tokens else tokens))
    (map (\<lambda>(k, tokens). (k, if k = key then map (\<lambda>(t, v). (t, if t = token then e else v)) tokens else tokens)) m) =
   map (\<lambda>(k, tokens). (k, if k = key then map (\<lambda>(t, v). (t, if t = token then e' else v)) tokens else tokens)) m"
  by (auto simp: case_prod_unfold comp_def)

lemma proxyv_set_proxy_entry: "proxyv (exec (set_proxy_entry k t e) w) =
    map (\<lambda>(k', tokens). (k', if k' = k then map (\<lambda>(t', v). (t', if t' = t then e else v)) tokens else tokens)) (proxyv w)"
  by (simp add: set_proxy_entry_def access_defs)

lemma map_of_set_values: "map_of (map (\<lambda>(k', v). (k', if k' = k then f v else v)) m) k = map_option f (map_of m k)"
  by (induction m) auto

lemma proxy_entry_after_set:
  "proxyv w' = proxyv (exec (set_proxy_entry k t e) w) \<Longrightarrow>
    result (proxy_entry k t) w' = e \<or> result (proxy_entry k t) w' = ([], 0)"
  by (auto simp: proxy_entry_def proxyv_set_proxy_entry map_of_set_values split: option.split)

lemma consistent_ResetRunningLocks: "proxy_consistent w \<Longrightarrow> proxy_consistent (exec (ProxyResetRunningLocks E) w)"
proof -
  have step: "proxy_consistent (exec (set_proxy_entry k t (fst (result (proxy_entry k t) w''), 0)) w'')"
    if w: "proxy_consistent w" and e: "entry_ok e"
      and w'': "proxyv w'' = proxyv (exec (set_proxy_entry k t (set_wks False (fst e), snd e)) w)" for w w'' k t e
  proof -
    let ?f = "fst (result (proxy_entry k t) w'')"
    have "entry_ok (?f, 0)"
      using proxy_entry_after_set [OF w''] e entry_ok_set_wks(2) [OF e] by auto
    then have "proxy_consistent (exec (set_proxy_entry k t (?f, 0)) w)"
      by (rule consistent_set_proxy_entry [OF w])
    then show ?thesis
      by (simp add: proxy_consistent_def proxyv_set_proxy_entry w'' map_set_entry_twice del: map_map)
  qed
  show "proxy_consistent w \<Longrightarrow> ?thesis"
    unfolding ProxyResetRunningLocks_def
    by (auto simp: keepsD [OF keeps_proxyv_restore(1)] intro!: consistent_for_each step proxy_entry_ok)
qed

lemma omap_inv_map_snd: "omap_inv (map (\<lambda>(u, b). (u, g u b)) ws) = omap_inv ws"
  by (simp add: omap_inv_def case_prod_unfold comp_def)

lemma consistent_UpdateWorkSource:
  assumes "proxy_consistent w" and "omap_inv ws"
  shows "proxy_consistent (exec (UpdateWorkSource E k ws) w)"
proof -
  let ?st = "\<lambda>m. map (\<lambda>(u, b). case map_of m u of Some e \<Rightarrow> (u, e) | None \<Rightarrow> (u, b, False)) ws"
  have eq: "?st m = map (\<lambda>(u, b). (u, case map_of m u of Some e \<Rightarrow> e | None \<Rightarrow> (b, False))) ws" for m :: WksMap
    by (auto split: option.split)
  have "omap_inv (?st m)" for m :: WksMap
    unfolding eq using assms(2) by (simp add: omap_inv_map_snd)
  then have "entry_ok (?st m, int (length (filter (\<lambda>(u, b, proxied). proxied) (?st m))))" for m
    by (simp add: entry_ok_def proxied_count_def)
  then show ?thesis
    using assms(1)
    by (auto simp: UpdateWorkSource_def ProxyUpdateWorkSource_def GetRunningLockInner_def Let_def split: option.split
        intro!: consistent_set_proxy_entry consistent_ProxyInner)
qed

section \<open>Properties\<close>

text \<open>
  Proxying and restoring a process, and resetting all proxies, keep the number of proxied work
  sources of every lock equal to the number of its work sources that are flagged as proxied.
\<close>

lemma proxy_operations_keep_counts:
  assumes "proxy_consistent w"
  shows "proxy_consistent (exec (ProxyRunningLock E isProxied pid uid) w) \<and>
    proxy_consistent (exec (ProxyResetRunningLocks E) w)"
  using assms by (simp add: consistent_ProxyRunningLock consistent_ResetRunningLocks)

definition proxy_world :: world where
  "proxy_world = (world_with_lock RUNNINGLOCK_BACKGROUND_PHONE RUNNINGLOCK_STATE_ENABLE 1)\<lparr>rlm :=
     (rlm (world_with_lock RUNNINGLOCK_BACKGROUND_PHONE RUNNINGLOCK_STATE_ENABLE 1))\<lparr>proxyMap :=
       [(''100_200'', [(9, ([(300, (''app'', True)), (301, (''other'', False))], 1))])]\<rparr>\<rparr>"

lemma proxy_world_consistent: "proxy_consistent proxy_world"
  by (simp add: proxy_consistent_def proxy_world_def proxy_counts_def entry_ok_def omap_inv_def proxied_count_def)

theorem proxy_operations_keep_counts_witness:
  "proxy_consistent (exec (ProxyRunningLock sample_env True 5 301) proxy_world)"
  using proxy_operations_keep_counts [OF proxy_world_consistent] by simp

text \<open>
  An application that changes the work sources of its lock keeps the counts consistent: a work
  source that stays keeps its flag, a new one is not proxied.
\<close>

lemma UpdateWorkSource_keeps_counts:
  assumes "proxy_consistent w" and "omap_inv workSources"
  shows "proxy_consistent (exec (UpdateWorkSource E k workSources) w)"
  using assms by (rule consistent_UpdateWorkSource)

theorem UpdateWorkSource_keeps_counts_witness:
  "proxy_consistent (exec (UpdateWorkSource sample_env 9 [(300, ''app''), (302, ''new'')]) proxy_world)"
  by (rule UpdateWorkSource_keeps_counts [OF proxy_world_consistent]) (simp add: omap_inv_def)

end
