(* ===== verification/Lock_Service.thy ===== *)
theory Lock_Service
  imports Proxy_Counts
begin

text \<open>
  The running-lock interface of \<open>PowerMgrService\<close> (\<open>services/native/src/power_mgr_service.cpp\<close>): the calls
  an application makes over IPC, with their permission checks, the time-out of a lock, the death of
  its owner, the lock the service holds for itself while it works (\<open>BackgroundRunningLock\<close>), and the
  release of user-idle locks on force sleep (\<open>running_lock_mgr.cpp\<close>).

  The names carry the prefix \<open>Pms\<close> where \<open>RunningLockMgr\<close> has a method of the same name.
\<close>

section \<open>Parameters of a lock\<close>

definition GetBundleNameByUid :: "env \<Rightarrow> int \<Rightarrow> string M" where
  "GetBundleNameByUid E uid =
    (if uid < baseAppUid E then State_Monad.return ''''
     else do {
       n \<leftarrow> gets (\<lambda>w. extString E (Service (BundleNameForUid uid)) (trace w));
       log_call (Service (BundleNameForUid uid));
       State_Monad.return n })"

definition FillDisplayIdForMultiScreen :: "env \<Rightarrow> RunningLockParam \<Rightarrow> RunningLockParam M" where
  "FillDisplayIdForMultiScreen E param =
    (if lockType param \<noteq> RUNNINGLOCK_SCREEN then State_Monad.return param
     else if displayId param \<noteq> RUNNINGLOCK_DISPLAY_ID_ALL then State_Monad.return param
     else do {
       userId \<leftarrow> ask_int E (Service (AccountOfUid (lockUid param)));
       if userId \<noteq> 0 \<and> userId < startUserId E then State_Monad.return param
       else let queryUserId = (if userId = 0 then startUserId E else userId) in do {
         ok \<leftarrow> gets (\<lambda>w. extBool E (Service (AccountDisplay queryUserId)) (trace w));
         d \<leftarrow> ask_int E (Service (AccountDisplay queryUserId));
         State_Monad.return (if ok then param\<lparr>displayId := nat (d mod 2 ^ 64)\<rparr> else param) } })"

definition FillRunningLockParam :: "env \<Rightarrow> RunningLockInfo \<Rightarrow> nat \<Rightarrow> int \<Rightarrow> RunningLockParam M" where
  "FillRunningLockParam E info idn timeOutMS =
    (let type = (if infoType info = RUNNINGLOCK_BACKGROUND then RUNNINGLOCK_BACKGROUND_TASK
                 else infoType info) in do {
     pid \<leftarrow> ask_int E (Service CallerPid);
     uid \<leftarrow> ask_int E (Service CallerUid);
     name \<leftarrow> GetBundleNameByUid E uid;
     let param = \<lparr>lockid = idn, lockName = infoName info, bundleName = name, lockType = type,
                   timeoutMs = timeOutMS, lockPid = pid, lockUid = uid,
                   displayId = infoDisplayId info, typeHdi = type\<rparr> in
     if F_LOCK_MULTI_SCREEN E then FillDisplayIdForMultiScreen E param
     else State_Monad.return param })"

definition RunningLockType_le_proximity :: "RunningLockType \<Rightarrow> bool" where
  "RunningLockType_le_proximity type =
    (type \<in> {RUNNINGLOCK_SCREEN, RUNNINGLOCK_BACKGROUND, RUNNINGLOCK_PROXIMITY_SCREEN_CONTROL})"

definition IsRunningLockTypeSupported :: "env \<Rightarrow> RunningLockType \<Rightarrow> bool M" where
  "IsRunningLockTypeSupported E type = do {
     hap \<leftarrow> ask_bool E (Service PermissionIsHap);
     if hap then do {
       system \<leftarrow> ask_bool E (Service PermissionIsSystem);
       State_Monad.return
         (if system then RunningLockType_le_proximity type \<or> type = RUNNINGLOCK_BACKGROUND_USER_IDLE
          else type = RUNNINGLOCK_BACKGROUND \<or> type = RUNNINGLOCK_PROXIMITY_SCREEN_CONTROL \<or>
               (type = RUNNINGLOCK_BACKGROUND_USER_IDLE \<and> F_USER_IDLE_PERMISSIVE E)) }
     else State_Monad.return (type \<in> {RUNNINGLOCK_SCREEN, RUNNINGLOCK_BACKGROUND,
       RUNNINGLOCK_PROXIMITY_SCREEN_CONTROL, RUNNINGLOCK_COORDINATION, RUNNINGLOCK_BACKGROUND_PHONE,
       RUNNINGLOCK_BACKGROUND_NOTIFICATION, RUNNINGLOCK_BACKGROUND_AUDIO, RUNNINGLOCK_BACKGROUND_SPORT,
       RUNNINGLOCK_BACKGROUND_NAVIGATION, RUNNINGLOCK_BACKGROUND_TASK}) }"

abbreviation granted :: "env \<Rightarrow> string \<Rightarrow> bool M" where
  "granted E permission \<equiv> ask_bool E (Service (PermissionGranted permission))"

section \<open>Calls of an application\<close>

definition PmsCreateRunningLock :: "env \<Rightarrow> obj \<Rightarrow> RunningLockInfo \<Rightarrow> PowerErrors M" where
  "PmsCreateRunningLock E remoteObj info = do {
     ok \<leftarrow> granted E ''ohos.permission.RUNNING_LOCK'';
     if \<not> ok then State_Monad.return ERR_PERMISSION_DENIED
     else do {
       supported \<leftarrow> IsRunningLockTypeSupported E (infoType info);
       if \<not> supported then State_Monad.return ERR_PARAM_INVALID
       else do {
         param \<leftarrow> FillRunningLockParam E info (hashPtr E remoteObj) (- 1);
         CreateRunningLock remoteObj param;
         State_Monad.return ERR_OK } } }"

definition PmsReleaseRunningLock :: "env \<Rightarrow> obj \<Rightarrow> string \<Rightarrow> bool M" where
  "PmsReleaseRunningLock E remoteObj name = do {
     ok \<leftarrow> granted E ''ohos.permission.RUNNING_LOCK'';
     if \<not> ok then State_Monad.return False else ReleaseLock E remoteObj name }"

primrec work_sources :: "env \<Rightarrow> int list \<Rightarrow> (int \<times> string) list \<Rightarrow> (int \<times> string) list M" where
  "work_sources E [] wks = State_Monad.return wks"
| "work_sources E (uid # uids) wks = do {
     name \<leftarrow> GetBundleNameByUid E uid;
     work_sources E uids (omap_emplace uid name wks) }"

definition PmsUpdateWorkSource :: "env \<Rightarrow> obj \<Rightarrow> int list \<Rightarrow> bool M" where
  "PmsUpdateWorkSource E remoteObj uids = do {
     ok \<leftarrow> granted E ''ohos.permission.RUNNING_LOCK'';
     if \<not> ok then State_Monad.return False
     else do {
       wks \<leftarrow> work_sources E uids [];
       _ \<leftarrow> UpdateWorkSource E remoteObj wks;
       State_Monad.return True } }"

text \<open>The task a lock with a time-out leaves with the timer.\<close>

definition LockTimeoutTask :: "env \<Rightarrow> obj \<Rightarrow> unit M" where
  "LockTimeoutTask E remoteObj = do {
     UnregisterRunningLockTimer remoteObj;
     _ \<leftarrow> UpdateWorkSource E remoteObj [];
     _ \<leftarrow> UnLock E remoteObj '''';
     skip }"

definition PmsLock :: "env \<Rightarrow> obj \<Rightarrow> int \<Rightarrow> PowerErrors M" where
  "PmsLock E remoteObj timeOutMs = do {
     ok \<leftarrow> granted E ''ohos.permission.RUNNING_LOCK'';
     if \<not> ok then State_Monad.return ERR_PERMISSION_DENIED
     else do {
       _ \<leftarrow> Lock E remoteObj;
       whenM (timeOutMs > 0) (do { _ \<leftarrow> RegisterRunningLockTimer E remoteObj timeOutMs; skip });
       State_Monad.return ERR_OK } }"

definition PmsUnLock :: "env \<Rightarrow> obj \<Rightarrow> string \<Rightarrow> PowerErrors M" where
  "PmsUnLock E remoteObj name = do {
     ok \<leftarrow> granted E ''ohos.permission.RUNNING_LOCK'';
     if \<not> ok then State_Monad.return ERR_PERMISSION_DENIED
     else do {
       UnregisterRunningLockTimer remoteObj;
       _ \<leftarrow> UnLock E remoteObj name;
       State_Monad.return ERR_OK } }"

definition ForceUnLock :: "env \<Rightarrow> obj \<Rightarrow> unit M" where
  "ForceUnLock E remoteObj = do {
     _ \<leftarrow> UnLock E remoteObj '''';
     _ \<leftarrow> ReleaseLock E remoteObj '''';
     skip }"

text \<open>\<open>RunningLockDeathRecipient::OnRemoteDied\<close>: the owner of a lock died.\<close>

definition RunningLock_OnRemoteDied :: "env \<Rightarrow> obj \<Rightarrow> unit M" where
  "RunningLock_OnRemoteDied E remote = do {
     p \<leftarrow> gets ptrs;
     whenM (pms p) (ForceUnLock E remote) }"

definition PmsQueryRunningLockLists :: "env \<Rightarrow> nat \<Rightarrow> (string \<times> RunningLockInfo) list option M" where
  "PmsQueryRunningLockLists E dispId = do {
     ok \<leftarrow> granted E ''ohos.permission.RUNNING_LOCK'';
     if \<not> ok then State_Monad.return None
     else do { ls \<leftarrow> QueryRunningLockLists E dispId; State_Monad.return (Some ls) } }"

definition PmsProxyRunningLock :: "env \<Rightarrow> bool \<Rightarrow> int \<Rightarrow> int \<Rightarrow> bool M" where
  "PmsProxyRunningLock E isProxied pid uid = do {
     system \<leftarrow> ask_bool E (Service PermissionIsSystem);
     if \<not> system then State_Monad.return False else ProxyRunningLock E isProxied pid uid }"

definition PmsProxyRunningLocks :: "env \<Rightarrow> bool \<Rightarrow> (int \<times> int) list \<Rightarrow> bool M" where
  "PmsProxyRunningLocks E isProxied processInfos = do {
     system \<leftarrow> ask_bool E (Service PermissionIsSystem);
     if \<not> system then State_Monad.return False
     else do { ProxyRunningLocks E isProxied processInfos; State_Monad.return True } }"

definition PmsResetRunningLocks :: "env \<Rightarrow> bool M" where
  "PmsResetRunningLocks E = do {
     system \<leftarrow> ask_bool E (Service PermissionIsSystem);
     if \<not> system then State_Monad.return False
     else do { ProxyResetRunningLocks E; State_Monad.return True } }"

definition PmsRegisterRunningLockCallback :: "env \<Rightarrow> obj \<Rightarrow> bool M" where
  "PmsRegisterRunningLockCallback E callback = do {
     ok \<leftarrow> granted E ''ohos.permission.POWER_MANAGER'';
     if \<not> ok then State_Monad.return False
     else do { RegisterRunningLockCallback callback; State_Monad.return True } }"

definition PmsUnRegisterRunningLockCallback :: "env \<Rightarrow> obj \<Rightarrow> bool M" where
  "PmsUnRegisterRunningLockCallback E callback = do {
     ok \<leftarrow> granted E ''ohos.permission.POWER_MANAGER'';
     if \<not> ok then State_Monad.return False
     else do { UnRegisterRunningLockCallback; State_Monad.return True } }"

section \<open>The lock of the service itself\<close>

text \<open>
  \<open>BackgroundRunningLock\<close> is a guard object: its constructor creates and takes a background lock under a
  fresh token, its destructor releases it.  The token is an answer of the environment; an allocation
  that fails gives none.
\<close>

definition background_info :: "string \<Rightarrow> RunningLockInfo" where
  "background_info name = \<lparr>infoName = name, infoType = RUNNINGLOCK_BACKGROUND, infoBundleName = '''',
     infoPid = 0, infoUid = 0, infoDisplayId = RUNNINGLOCK_DISPLAY_ID_ALL\<rparr>"

definition BackgroundRunningLock_begin :: "env \<Rightarrow> string \<Rightarrow> int \<Rightarrow> obj option M" where
  "BackgroundRunningLock_begin E name timeOutMs = do {
     ok \<leftarrow> gets (\<lambda>w. extBool E (Service (NewToken name)) (trace w));
     n \<leftarrow> ask_int E (Service (NewToken name));
     if \<not> ok then State_Monad.return None
     else do {
       _ \<leftarrow> PmsCreateRunningLock E (nat n) (background_info name);
       _ \<leftarrow> PmsLock E (nat n) timeOutMs;
       State_Monad.return (Some (nat n)) } }"

definition BackgroundRunningLock_end :: "env \<Rightarrow> obj option \<Rightarrow> unit M" where
  "BackgroundRunningLock_end E token = (case token of
       None \<Rightarrow> skip
     | Some k \<Rightarrow> do { _ \<leftarrow> PmsReleaseRunningLock E k ''''; skip })"

definition with_background_lock :: "env \<Rightarrow> string \<Rightarrow> int \<Rightarrow> 'a M \<Rightarrow> 'a M" where
  "with_background_lock E name timeOutMs body = do {
     token \<leftarrow> BackgroundRunningLock_begin E name timeOutMs;
     r \<leftarrow> body;
     BackgroundRunningLock_end E token;
     State_Monad.return r }"

section \<open>Force sleep\<close>

definition GetEnabledRunningLocksByType :: "RunningLockType \<Rightarrow> (obj \<times> string) list M" where
  "GetEnabledRunningLocksByType type = gets (\<lambda>w.
     map (\<lambda>e. (fst e, lockName (runningLockParam (snd e))))
       (filter (\<lambda>e. lockType (runningLockParam (snd e)) = type \<and>
                    lockState (snd e) = RUNNINGLOCK_STATE_ENABLE) (runningLocks (rlm w))))"

definition ForceUnLockByTypes :: "env \<Rightarrow> RunningLockType list \<Rightarrow> unit M" where
  "ForceUnLockByTypes E types = do {
     p \<leftarrow> gets ptrs;
     whenM (pmsWeak p) (for_each (\<lambda>type. do {
       ls \<leftarrow> GetEnabledRunningLocksByType type;
       for_each (\<lambda>(k, name). do { _ \<leftarrow> PmsUnLock E k name; skip }) ls }) types) }"

definition ForceSleepReleaseLock :: "env \<Rightarrow> bool M" where
  "ForceSleepReleaseLock E = do {
     n \<leftarrow> GetValidRunningLockNum E RUNNINGLOCK_BACKGROUND_USER_IDLE RUNNINGLOCK_DISPLAY_ID_ALL;
     if n = 0 then State_Monad.return True
     else do {
       ForceUnLockByTypes E [RUNNINGLOCK_BACKGROUND_USER_IDLE];
       State_Monad.return False } }"

definition HandleEnterForceSleep :: "env \<Rightarrow> unit M" where
  "HandleEnterForceSleep E = do {
     p \<leftarrow> gets ptrs;
     whenM (lockTimer p)
       (SetTimer E RUNNING_LOCK_TIMER TIMER_ID_FORCE_RELEASE_LOCK TaskForceReleaseLock 3000) }"

definition HandleExitForceSleep :: "env \<Rightarrow> unit M" where
  "HandleExitForceSleep E = do {
     p \<leftarrow> gets ptrs;
     whenM (lockTimer p) (CancelTimer RUNNING_LOCK_TIMER TIMER_ID_FORCE_RELEASE_LOCK) }"

section \<open>Frames\<close>

text \<open>
  The lock interface changes the lock manager and, through the refresh that a screen lock triggers, what
  \<open>SetState\<close> changes.  An observation that looks at neither is kept.
\<close>

definition beside_locks :: "(world \<Rightarrow> 'b) \<Rightarrow> bool" where
  "beside_locks f = (outer f \<and> ig_rlm f)"

lemma ig_rlm_app: "ig_rlm f \<Longrightarrow> f (w\<lparr>rlm := x\<rparr>) = f w"
  by (simp add: ig_defs)

lemma beside_locksD:
  assumes "beside_locks f"
  shows "outer f" "ig_rlm f" "inert f" "ig_trace f" "ig_quiet f" "ig_timers f" "ig_act f" "f (w\<lparr>rlm := x\<rparr>) = f w"
    "f (w\<lparr>trace := y\<rparr>) = f w"
  using assms outer_ig [of f] inert_ig [of f] by (auto simp: beside_locks_def ig_rlm_app trace_app)

lemma keeps_lock_basic:
  assumes "beside_locks f"
  shows "keeps f (NotifyRunningLockChanged p tag)" "keeps f (add_counter t n)" "keeps f (GetCount t)"
    "keeps f (SetLockState k st)" "keeps f (UpdateUnSceneLockLists p b)"
    "keeps f (ProximityEnable E)" "keeps f ProximityDisable" "keeps f ProximityClear"
    "keeps f (UpdateProxyState pid uid k)" "keeps f (AddRunningLock pid uid k)" "keeps f (RemoveRunningLock pid uid k)"
    "keeps f (RegisterRunningLockTimer E k n')" "keeps f (UnregisterRunningLockTimer k)"
    "keeps f (NotifyScreenRunningLockChanged E b d)" "keeps f (HandleScreenLockNotify E b d)"
  using beside_locksD [OF assms] keeps_screen_notify [of f E]
  by (auto simp: NotifyRunningLockChanged_def add_counter_def GetCount_def SetLockState_def update_lock_def
      UpdateUnSceneLockLists_def ProximityEnable_def InitProximitySensorUser_def ProximityDisable_def
      ProximityClear_def UpdateProxyState_def AddRunningLock_def RemoveRunningLock_def RegisterRunningLockTimer_def
      GetRunningLockTimerId_def UnregisterTimer_def AddRunningLockTimerMap_def RemoveRunningLockTimerMap_def
      UnregisterRunningLockTimer_def Let_def intro!: keeps_intros)

lemma keeps_lock_ops:
  assumes "beside_locks f"
  shows "keeps f (Lock E k)" "keeps f (UnLock E k n)" "keeps f (CreateRunningLock k p)" "keeps f (ReleaseLock E k n)"
proof -
  note basic = keeps_lock_basic [OF assms] and ig = beside_locksD [OF assms]
  have "beside_counters f" using ig by (simp add: beside_counters_def)
  note counters = keeps_beside_counters [OF this]
  show "keeps f (Lock E k)"
    by (auto simp: Lock_def Let_def ValidateLockForEnable_def GetRunningLockInner_def IsValidType_def GetState_def ig
        intro!: keeps_intros counters basic)
  show unlock: "keeps f (UnLock E k n)" for k n
    by (auto simp: UnLock_def Let_def FindLock_def GetRunningLockInner_def GetRunningLockInnerByName_def ig
        intro!: keeps_intros counters basic)
  show "keeps f (CreateRunningLock k p)"
    by (auto simp: CreateRunningLock_def ig intro!: keeps_intros basic)
  show "keeps f (ReleaseLock E k n)"
    by (auto simp: ReleaseLock_def Let_def FindLock_def GetRunningLockInner_def GetRunningLockInnerByName_def ig
        intro!: keeps_intros unlock basic)
qed

lemma keeps_lock_service:
  assumes "beside_locks f"
  shows "keeps f (PmsCreateRunningLock E k info)" "keeps f (PmsLock E k n)" "keeps f (PmsReleaseRunningLock E k s)"
  using beside_locksD [OF assms] keeps_lock_ops [OF assms] keeps_lock_basic [OF assms]
  by (auto simp: PmsCreateRunningLock_def IsRunningLockTypeSupported_def FillRunningLockParam_def
      FillDisplayIdForMultiScreen_def GetBundleNameByUid_def PmsLock_def PmsReleaseRunningLock_def Let_def
      intro!: keeps_intros)

lemma keeps_with_background_lock:
  assumes "beside_locks f" and "keeps f m"
  shows "keeps f (with_background_lock E n d m)"
  using assms(2) beside_locksD [OF assms(1)] keeps_lock_service [OF assms(1)]
  by (auto simp: with_background_lock_def BackgroundRunningLock_begin_def BackgroundRunningLock_end_def
      intro!: keeps_intros)

end
