(* ===== verification/Lock_Gate.thy ===== *)
theory Lock_Gate
  imports Lock_Service State_Safety
begin

text \<open>
  The contract of the running-lock manager, as its clients see it: a set of held locks, each of
  some type, where locking adds a member, unlocking removes it, and a type blocks exactly while some
  lock of that type is held.  The locale \<open>lock_set\<close> states the contract of locking and unlocking,
  \<open>lock_gate\<close> adds the query that the state machine makes before it changes state.  Both are interpreted
  on \<open>RunningLockMgr\<close>: its map of lock objects and its counters implement the abstract set.
\<close>

section \<open>The contract\<close>

locale lock_set =
  fixes acquire :: "'k \<Rightarrow> 's \<Rightarrow> bool \<times> 's" and release :: "'k \<Rightarrow> 's \<Rightarrow> bool \<times> 's"
    and held :: "'s \<Rightarrow> 'k set" and kind :: "'s \<Rightarrow> 'k \<Rightarrow> 't option" and inv :: "'s \<Rightarrow> bool"
  assumes held_acquire: "inv s \<Longrightarrow> held (snd (acquire k s)) = (if fst (acquire k s) then insert k (held s) else held s)"
    and held_release: "inv s \<Longrightarrow> held (snd (release k s)) = (if fst (release k s) then held s - {k} else held s)"
    and fresh_acquire: "inv s \<Longrightarrow> fst (acquire k s) \<Longrightarrow> k \<notin> held s"
    and held_before_release: "inv s \<Longrightarrow> fst (release k s) \<Longrightarrow> k \<in> held s"
    and kind_acquire: "inv s \<Longrightarrow> kind (snd (acquire k s)) = kind s"
    and kind_release: "inv s \<Longrightarrow> kind (snd (release k s)) = kind s"
    and inv_acquire: "inv s \<Longrightarrow> inv (snd (acquire k s))"
    and inv_release: "inv s \<Longrightarrow> inv (snd (release k s))"
    and finite_held: "inv s \<Longrightarrow> finite (held s)"
begin

text \<open>A run: \<open>Inl k\<close> locks \<open>k\<close>, \<open>Inr k\<close> unlocks it.\<close>

primrec step :: "'k + 'k \<Rightarrow> 's \<Rightarrow> bool \<times> 's" where
  "step (Inl k) s = acquire k s"
| "step (Inr k) s = release k s"

primrec run :: "('k + 'k) list \<Rightarrow> 's \<Rightarrow> 's" where
  "run [] s = s"
| "run (c # cs) s = run cs (snd (step c s))"

primrec balance_of :: "('k + 'k) list \<Rightarrow> 's \<Rightarrow> int" where
  "balance_of [] s = 0"
| "balance_of (c # cs) s =
    (if fst (step c s) then (case c of Inl _ \<Rightarrow> 1 | Inr _ \<Rightarrow> - 1) else 0) + balance_of cs (snd (step c s))"

lemma step_facts:
  assumes "inv s"
  shows "inv (snd (step c s))" and "kind (snd (step c s)) = kind s"
    and "int (card (held (snd (step c s)))) = int (card (held s)) +
      (if fst (step c s) then (case c of Inl _ \<Rightarrow> 1 | Inr _ \<Rightarrow> - 1) else 0)"
    and "k \<in> held s \<Longrightarrow> c \<noteq> Inr k \<Longrightarrow> k \<in> held (snd (step c s))"
proof -
  note laws = held_acquire [OF assms] held_release [OF assms] fresh_acquire [OF assms]
    held_before_release [OF assms] finite_held [OF assms]
  show "inv (snd (step c s))" "kind (snd (step c s)) = kind s"
    using assms by (cases c; simp add: inv_acquire inv_release kind_acquire kind_release)+
  show "k \<in> held s \<Longrightarrow> c \<noteq> Inr k \<Longrightarrow> k \<in> held (snd (step c s))"
    using laws by (cases c) auto
  show "int (card (held (snd (step c s)))) = int (card (held s)) +
      (if fst (step c s) then (case c of Inl _ \<Rightarrow> 1 | Inr _ \<Rightarrow> - 1) else 0)"
  proof (cases c)
    case (Inr j)
    then show ?thesis using laws card_gt_0_iff [of "held s"] by (auto simp: of_nat_diff Suc_le_eq)
  qed (use laws in auto)
qed

lemma run_inv: "inv s \<Longrightarrow> inv (run cs s)"
  by (induction cs arbitrary: s) (simp_all add: step_facts(1))

lemma run_kind: "inv s \<Longrightarrow> kind (run cs s) = kind s"
  by (induction cs arbitrary: s) (simp_all add: step_facts(1,2))

lemma card_held: "inv s \<Longrightarrow> int (card (held (run cs s))) = int (card (held s)) + balance_of cs s"
  by (induction cs arbitrary: s) (simp_all add: step_facts(1,3))

lemma held_until_released: "inv s \<Longrightarrow> k \<in> held s \<Longrightarrow> Inr k \<notin> set cs \<Longrightarrow> k \<in> held (run cs s)"
  by (induction cs arbitrary: s) (auto simp: step_facts)

end

locale lock_gate = lock_set acquire release held kind inv
  for acquire :: "'k \<Rightarrow> 's \<Rightarrow> bool \<times> 's" and release :: "'k \<Rightarrow> 's \<Rightarrow> bool \<times> 's"
    and held :: "'s \<Rightarrow> 'k set" and kind :: "'s \<Rightarrow> 'k \<Rightarrow> 't option" and inv :: "'s \<Rightarrow> bool" +
  fixes blocked :: "'t \<Rightarrow> 's \<Rightarrow> bool" and nested :: "'t \<Rightarrow> bool"
  assumes blocked_iff: "inv s \<Longrightarrow> \<not> nested t \<Longrightarrow> blocked t s \<longleftrightarrow> (\<exists>k \<in> held s. kind s k = Some t)"
begin

lemma blocked_until_released:
  assumes "inv s" and "k \<in> held s" and "kind s k = Some t" and "\<not> nested t" and "Inr k \<notin> set cs"
  shows "blocked t (run cs s)"
  using assms held_until_released [of s k cs] run_inv [of s cs] run_kind [of s cs]
  by (auto simp: blocked_iff)

lemma unblocked_without_locks: "inv s \<Longrightarrow> held s = {} \<Longrightarrow> \<not> nested t \<Longrightarrow> \<not> blocked t s"
  by (simp add: blocked_iff)

end

section \<open>The implementation\<close>

text \<open>
  The abstract state of the manager.  The contract holds while no lock is proxied and every lock has
  a name: unlocking falls back to a search by name, and the name it searches for by default is the
  empty one.
\<close>

definition held_locks :: "world \<Rightarrow> obj set" where
  "held_locks w = {k. \<exists>l. lock_of w k = Some l \<and> lockState l = RUNNINGLOCK_STATE_ENABLE}"

definition lock_kind :: "world \<Rightarrow> obj \<Rightarrow> RunningLockType option" where
  "lock_kind w k = map_option (\<lambda>l. lockType (runningLockParam l)) (lock_of w k)"

definition plain_locks :: "world \<Rightarrow> bool" where
  "plain_locks w = (balanced w \<and>
     list_all (\<lambda>(k, l). \<not> IsProxied l \<and> lockName (runningLockParam l) \<noteq> '''') (runningLocks (rlm w)))"

lemma runningLocks_lockv: "runningLocks (rlm w) = fst (lockv w)"
  by (simp add: lockv_def)

lemma plain_locksD:
  assumes "plain_locks w"
  shows "balanced w" "lock_of w k = Some l \<Longrightarrow> \<not> IsProxied l"
    "lock_of w k = Some l \<Longrightarrow> lockName (runningLockParam l) \<noteq> ''''"
  using assms by (auto simp: plain_locks_def list_all_iff dest: map_of_SomeD)

lemma plain_FindLock:
  assumes "plain_locks w"
  shows "result (FindLock k '''') w = map_option (\<lambda>l. (k, l)) (lock_of w k)"
  using assms
  by (auto simp: FindLock_def GetRunningLockInner_def GetRunningLockInnerByName_def plain_locks_def list_all_iff
      filter_empty_conv split: option.split list.split)
    (metis (no_types, lifting) list.set_intros(1) mem_Collect_eq prod.collapse set_filter case_prodD)

lemma list_all_set_state:
  assumes "list_all (\<lambda>(k, l). \<not> IsProxied l \<and> P (runningLockParam l)) ls"
    and "st = RUNNINGLOCK_STATE_ENABLE \<or> st = RUNNINGLOCK_STATE_DISABLE"
  shows "list_all (\<lambda>(k, l). \<not> IsProxied l \<and> P (runningLockParam l)) (set_state k st ls)"
  using assms by (auto simp: set_state_def list_all_iff IsProxied_def split: if_splits)

lemma held_set_state:
  assumes "runningLocks (rlm w') = set_state k st (runningLocks (rlm w))" and "lock_of w k = Some l"
  shows "held_locks w' = (if st = RUNNINGLOCK_STATE_ENABLE then insert k (held_locks w) else held_locks w - {k})"
    and "lock_kind w' = lock_kind w"
  using assms by (auto simp: held_locks_def lock_kind_def map_of_set_state fun_eq_iff split: if_splits)

text \<open>What locking and unlocking do to the map of locks.\<close>

lemma locks_after_Lock:
  "\<exists>l. (result (Lock E k) w \<longrightarrow> lock_of w k = Some l \<and> lockState l \<noteq> RUNNINGLOCK_STATE_ENABLE) \<and>
    runningLocks (rlm (exec (Lock E k) w)) =
      (if result (Lock E k) w then set_state k RUNNINGLOCK_STATE_ENABLE (runningLocks (rlm w))
       else runningLocks (rlm w))"
proof (cases "result (ValidateLockForEnable k) w")
  case None
  then have "\<not> result (Lock E k) w" by (simp add: Lock_def)
  then show ?thesis using lockv_Lock [of E k w] None by (simp add: runningLocks_lockv)
next
  case (Some l)
  then show ?thesis
    using lockv_Lock [of E k w] ValidateLockForEnable_result [OF Some]
    by (auto simp: runningLocks_lockv Let_def)
qed

lemma locks_after_UnLock:
  assumes "plain_locks w"
  shows "\<exists>l. (result (UnLock E k '''') w \<longrightarrow> lock_of w k = Some l \<and> lockState l = RUNNINGLOCK_STATE_ENABLE) \<and>
    runningLocks (rlm (exec (UnLock E k '''') w)) =
      (if result (UnLock E k '''') w then set_state k RUNNINGLOCK_STATE_DISABLE (runningLocks (rlm w))
       else runningLocks (rlm w))"
proof (cases "lock_of w k")
  case None
  then show ?thesis
    using UnLock_missing [of k "''''" w E] plain_FindLock [OF assms] by (simp add: exec_def result_def)
next
  case (Some l)
  then have f: "result (FindLock k '''') w = Some (k, l)" using plain_FindLock [OF assms] by simp
  have "\<not> IsProxied l" using plain_locksD(2) [OF assms Some] .
  then show ?thesis
    using lockv_UnLock [OF f, of E] UnLock_success [OF _ f, of E] lock_state_cases [of l] Some
    by (auto simp: runningLocks_lockv)
qed

lemma plain_after_Lock: "plain_locks w \<Longrightarrow> plain_locks (exec (Lock E k) w)"
  using locks_after_Lock [of E k w] balanced_Lock [of w E k]
    list_all_set_state [of "\<lambda>p. lockName p \<noteq> ''''" "runningLocks (rlm w)" RUNNINGLOCK_STATE_ENABLE k]
  by (auto simp: plain_locks_def)

lemma plain_after_UnLock:
  assumes "plain_locks w" shows "plain_locks (exec (UnLock E k '''') w)"
proof -
  have "balanced (exec (UnLock E k '''') w)"
    by (rule balanced_UnLock [OF plain_locksD(1) [OF assms]])
      (auto simp: plain_FindLock [OF assms] dest: plain_locksD(2) [OF assms])
  then show ?thesis
    using assms locks_after_UnLock [OF assms, of E k]
      list_all_set_state [of "\<lambda>p. lockName p \<noteq> ''''" "runningLocks (rlm w)" RUNNINGLOCK_STATE_DISABLE k]
    by (auto simp: plain_locks_def)
qed

lemma held_same:
  "runningLocks (rlm w') = runningLocks (rlm w) \<Longrightarrow> held_locks w' = held_locks w \<and> lock_kind w' = lock_kind w"
  by (simp add: held_locks_def lock_kind_def fun_eq_iff)

lemma held_kind_Lock:
  "held_locks (exec (Lock E k) w) = (if result (Lock E k) w then insert k (held_locks w) else held_locks w)"
  "lock_kind (exec (Lock E k) w) = lock_kind w"
  "result (Lock E k) w \<Longrightarrow> k \<notin> held_locks w"
proof -
  let ?w = "exec (Lock E k) w"
  obtain l where l: "result (Lock E k) w \<Longrightarrow> lock_of w k = Some l \<and> lockState l \<noteq> RUNNINGLOCK_STATE_ENABLE"
      "runningLocks (rlm ?w) = (if result (Lock E k) w then set_state k RUNNINGLOCK_STATE_ENABLE (runningLocks (rlm w))
       else runningLocks (rlm w))"
    using locks_after_Lock [of E k w] by blast
  show "held_locks ?w = (if result (Lock E k) w then insert k (held_locks w) else held_locks w)"
    "lock_kind ?w = lock_kind w"
    using l held_set_state [of ?w k RUNNINGLOCK_STATE_ENABLE w l] held_same [of ?w w]
    by (cases "result (Lock E k) w"; simp)+
  show "result (Lock E k) w \<Longrightarrow> k \<notin> held_locks w" using l(1) by (simp add: held_locks_def)
qed

lemma held_kind_UnLock:
  assumes "plain_locks w"
  shows "held_locks (exec (UnLock E k '''') w) =
      (if result (UnLock E k '''') w then held_locks w - {k} else held_locks w)"
    "lock_kind (exec (UnLock E k '''') w) = lock_kind w"
    "result (UnLock E k '''') w \<Longrightarrow> k \<in> held_locks w"
proof -
  let ?w = "exec (UnLock E k '''') w" and ?ok = "result (UnLock E k '''') w"
  obtain l where l: "?ok \<Longrightarrow> lock_of w k = Some l \<and> lockState l = RUNNINGLOCK_STATE_ENABLE"
      "runningLocks (rlm ?w) = (if ?ok then set_state k RUNNINGLOCK_STATE_DISABLE (runningLocks (rlm w))
       else runningLocks (rlm w))"
    using locks_after_UnLock [OF assms, of E k] by blast
  show "held_locks ?w = (if ?ok then held_locks w - {k} else held_locks w)" "lock_kind ?w = lock_kind w"
    using l held_set_state [of ?w k RUNNINGLOCK_STATE_DISABLE w l] held_same [of ?w w]
    by (cases ?ok; simp)+
  show "?ok \<Longrightarrow> k \<in> held_locks w" using l(1) by (simp add: held_locks_def)
qed

lemma finite_held_locks: "finite (held_locks w)"
proof -
  have "held_locks w \<subseteq> dom (map_of (runningLocks (rlm w)))" by (auto simp: held_locks_def)
  then show ?thesis by (rule finite_subset) (rule finite_dom_map_of)
qed

interpretation locks: lock_set "\<lambda>k. run_state (Lock E k)" "\<lambda>k. run_state (UnLock E k '''')"
    held_locks lock_kind plain_locks for E
  by unfold_locales
    (auto simp: run_result_exec held_kind_Lock held_kind_UnLock plain_after_Lock plain_after_UnLock finite_held_locks)

text \<open>
  The query of the state machine.  The background-task counter also counts the locks the manager takes
  for user-idle and coordination locks, and with several screens the screen locks are looked up in a list of their own.
\<close>

definition lock_blocks :: "env \<Rightarrow> RunningLockType \<Rightarrow> world \<Rightarrow> bool" where
  "lock_blocks E t w = (result (GetValidRunningLockNum E t RUNNINGLOCK_DISPLAY_ID_ALL) w > 0)"

definition counted_elsewhere :: "env \<Rightarrow> RunningLockType \<Rightarrow> bool" where
  "counted_elsewhere E t =
    (t = RUNNINGLOCK_BACKGROUND_TASK \<or> (F_LOCK_MULTI_SCREEN E \<and> t = RUNNINGLOCK_SCREEN))"

lemma lock_blocks_iff:
  assumes "plain_locks w" and "\<not> counted_elsewhere E t"
  shows "lock_blocks E t w \<longleftrightarrow> (\<exists>k \<in> held_locks w. lock_kind w k = Some t)"
  using GetValidRunningLockNum_balanced [OF plain_locksD(1) [OF assms(1)], of t E] assms(2)
  by (auto simp: lock_blocks_def counted_elsewhere_def held_locks_def lock_kind_def) blast+

interpretation gate: lock_gate "\<lambda>k. run_state (Lock E k)" "\<lambda>k. run_state (UnLock E k '''')"
    held_locks lock_kind plain_locks "lock_blocks E" "counted_elsewhere E" for E
  by unfold_locales (rule lock_blocks_iff)

section \<open>Properties\<close>

primrec run_locks :: "env \<Rightarrow> (obj + obj) list \<Rightarrow> world \<Rightarrow> world" where
  "run_locks E [] w = w"
| "run_locks E (c # cs) w =
    run_locks E cs (exec (case c of Inl k \<Rightarrow> Lock E k | Inr k \<Rightarrow> UnLock E k '''') w)"

lemma run_locks_eq: "run_locks E cs w = locks.run E cs w"
proof (induction cs arbitrary: w)
  case (Cons c cs)
  then show ?case by (cases c) (simp_all add: exec_def)
qed simp


lemma plain_screen_world:
  "plain_locks (world_with_lock RUNNINGLOCK_SCREEN RUNNINGLOCK_STATE_ENABLE 1)"
  "plain_locks (world_with_lock RUNNINGLOCK_SCREEN RUNNINGLOCK_STATE_DISABLE 0)"
  using balanced_screen_world(1,2) unfolding plain_locks_def
  by (simp_all add: world_with_lock_def sample_lock_def IsProxied_def)


text \<open>
  The number of held locks is the number of successful calls to lock less the number of successful
  calls to unlock, over every sequence of calls by any applications.
\<close>

primrec net_locks :: "env \<Rightarrow> (obj + obj) list \<Rightarrow> world \<Rightarrow> int" where
  "net_locks E [] w = 0"
| "net_locks E (c # cs) w =
    (case c of Inl k \<Rightarrow> of_bool (result (Lock E k) w) + net_locks E cs (exec (Lock E k) w)
     | Inr k \<Rightarrow> - of_bool (result (UnLock E k '''') w) + net_locks E cs (exec (UnLock E k '''') w))"

lemma net_locks_eq: "net_locks E cs w = locks.balance_of E cs w"
proof (induction cs arbitrary: w)
  case (Cons c cs)
  then show ?case by (cases c) (simp_all add: exec_def result_def)
qed simp

lemma held_locks_count_calls:
  assumes "plain_locks w"
  shows "int (card (held_locks (run_locks E cs w))) = int (card (held_locks w)) + net_locks E cs w"
  using locks.card_held [OF assms, of E cs] by (simp add: run_locks_eq net_locks_eq)

theorem held_locks_count_calls_witness:
  "int (card (held_locks (run_locks sample_env [Inr 9] (world_with_lock RUNNINGLOCK_SCREEN RUNNINGLOCK_STATE_ENABLE 1)))) =
   1 + net_locks sample_env [Inr 9] (world_with_lock RUNNINGLOCK_SCREEN RUNNINGLOCK_STATE_ENABLE 1)"
proof -
  have "held_locks (world_with_lock RUNNINGLOCK_SCREEN RUNNINGLOCK_STATE_ENABLE 1) = {9}"
    by (auto simp: held_locks_def world_with_lock_def sample_lock_def split: if_splits)
  with held_locks_count_calls [OF plain_screen_world(1), of sample_env "[Inr 9]"] show ?thesis by simp
qed



text \<open>
  The time-out of a lock that was released earlier can unlock a lock of another application.
  Releasing a lock does not unregister its timer; when the task runs, the lock is gone, \<open>UnLock\<close> falls
  back to a search by the empty name, and a lock without a name, whoever holds it, is the one it disables.
\<close>

lemma stale_timeout_unlocks_unnamed_lock:
  assumes "lock_of w k = None" and "result (FindLock k '''') w = Some (k', l)"
    and "balanced w" and "result (UnLock E k '''') (exec (UnregisterRunningLockTimer k) w)"
  shows "k' \<noteq> k \<and> map_option lockState (lock_of (exec (LockTimeoutTask E k) w) k') = Some RUNNINGLOCK_STATE_DISABLE"
proof -
  let ?w = "exec (UnregisterRunningLockTimer k) w"
  have v: "lockv ?w = lockv w"
    by (rule keepsD) (auto simp: UnregisterRunningLockTimer_def GetRunningLockTimerId_def UnregisterTimer_def
        RemoveRunningLockTimerMap_def lockv_def intro!: keeps_intros)
  then have rl: "runningLocks (rlm ?w) = runningLocks (rlm w)" by (simp add: lockv_def)
  have f: "result (FindLock k '''') ?w = Some (k', l)"
    using assms(1,2) rl by (simp add: FindLock_def GetRunningLockInner_def GetRunningLockInnerByName_def)
  have skip: "exec (UpdateWorkSource E k []) ?w = ?w"
    using assms(1) rl by (simp add: UpdateWorkSource_def GetRunningLockInner_def)
  have mem: "lock_of w k' = Some l"
    using FindLock_result [OF assms(2)] balanceD(1) [of "fst (lockv w)" "snd (lockv w)"] assms(3)
    by (simp add: balanced_def runningLocks_lockv)
  have "runningLocks (rlm (exec (LockTimeoutTask E k) w)) = set_state k' RUNNINGLOCK_STATE_DISABLE (runningLocks (rlm w))"
    using lockv_UnLock [OF f, of E] assms(4) v by (simp add: LockTimeoutTask_def skip lockv_def)
  then show ?thesis
    using mem assms(1) by (auto simp: map_of_set_state)
qed

definition unnamed_lock_world :: world where
  "unnamed_lock_world = sample_world\<lparr>rlm := (rlm sample_world)\<lparr>
     runningLocks := [(9, (sample_lock RUNNINGLOCK_BACKGROUND_PHONE RUNNINGLOCK_STATE_ENABLE)\<lparr>runningLockParam :=
       (runningLockParam (sample_lock RUNNINGLOCK_BACKGROUND_PHONE RUNNINGLOCK_STATE_ENABLE))\<lparr>lockName := ''''\<rparr>\<rparr>)],
     lockCounters := (\<lambda>u. Some (if u = RUNNINGLOCK_BACKGROUND_PHONE then 1 else 0)),
     runninglockTimerMap := [(3, 17)], handlerTimer := True\<rparr>\<rparr>"

theorem stale_timeout_unlocks_unnamed_lock_witness:
  "map_option lockState (lock_of (exec (LockTimeoutTask sample_env 3) unnamed_lock_world) 9) = Some RUNNINGLOCK_STATE_DISABLE"
proof -
  let ?l = "(sample_lock RUNNINGLOCK_BACKGROUND_PHONE RUNNINGLOCK_STATE_ENABLE)\<lparr>runningLockParam :=
       (runningLockParam (sample_lock RUNNINGLOCK_BACKGROUND_PHONE RUNNINGLOCK_STATE_ENABLE))\<lparr>lockName := ''''\<rparr>\<rparr>"
  have b: "balanced unnamed_lock_world"
    by (auto simp: balanced_def balance_def lockv_def unnamed_lock_world_def sample_lock_def sample_world_def
        count_of_def nested_count_def enabled_count_def omap_inv_def)
  have f: "lock_of unnamed_lock_world 3 = None" "result (FindLock 3 '''') unnamed_lock_world = Some (9, ?l)"
    by (simp_all add: unnamed_lock_world_def FindLock_def GetRunningLockInner_def GetRunningLockInnerByName_def
        sample_lock_def)
  have "result (UnLock sample_env 3 '''') (exec (UnregisterRunningLockTimer 3) unnamed_lock_world)"
    by (simp add: lock_eval GetRunningLockInnerByName_def UnregisterRunningLockTimer_def GetRunningLockTimerId_def
        UnregisterTimer_def RemoveRunningLockTimerMap_def omap_erase_def access_defs Let_def unnamed_lock_world_def
        sample_lock_def sample_defs)
  from stale_timeout_unlocks_unnamed_lock [OF f b this] show ?thesis by simp
qed

end
