(* ===== verification/Service_Calls.thy ===== *)
theory Service_Calls
  imports Lock_Service
begin

text \<open>
  The suspend, wakeup and screen-off interface of \<open>PowerMgrService\<close>
  (\<open>services/native/src/power_mgr_service.cpp\<close>): who may call, what refuses a call, and what it does.
\<close>

section \<open>Permissions\<close>

text \<open>
  The check that opens most calls: the caller has to be a system caller, and since API 19 it needs the
  power-manager permission.  \<open>None\<close> lets it pass.
\<close>

definition CheckCaller :: "env \<Rightarrow> PowerErrors option M" where
  "CheckCaller E = do {
     system \<leftarrow> ask_bool E (Service PermissionIsSystem);
     if \<not> system then State_Monad.return (Some ERR_SYSTEM_API_DENIED)
     else do {
       version \<leftarrow> ask_int E (Service CallerApiVersion);
       if version \<ge> 19 then do {
         ok \<leftarrow> granted E ''ohos.permission.POWER_MANAGER'';
         State_Monad.return (if ok then None else Some ERR_PERMISSION_DENIED) }
       else State_Monad.return None } }"

section \<open>Dialog\<close>

definition CheckDialogFlag :: "bool M" where
  "CheckDialogFlag = do {
     isLongPress \<leftarrow> gets (\<lambda>w. longPressFlag (svc w));
     whenM isLongPress (mod_svc (\<lambda>s. s\<lparr>longPressFlag := False\<rparr>));
     State_Monad.return True }"

definition CheckDialogAndShuttingDown :: "bool M" where
  "CheckDialogAndShuttingDown = do {
     s \<leftarrow> gets svc;
     if longPressFlag s \<or> shuttingDown s then do {
       mod_svc (\<lambda>s. s\<lparr>longPressFlag := False\<rparr>);
       State_Monad.return True }
     else State_Monad.return False }"

section \<open>Suspend and wakeup\<close>

definition PmsSuspendDevice :: "env \<Rightarrow> int \<Rightarrow> SuspendDeviceType \<Rightarrow> bool \<Rightarrow> PowerErrors M" where
  "PmsSuspendDevice E callTimeMs reason suspendImmed = do {
     denied \<leftarrow> CheckCaller E;
     case denied of
       Some e \<Rightarrow> State_Monad.return e
     | None \<Rightarrow> do {
         s \<leftarrow> gets svc;
         blocked \<leftarrow> IsScreenOffBlocked BLOCK_SUSPEND_DEVICE_INTERFACE;
         if F_WATCH_BOOT E \<and> \<not> bootCompleted s then State_Monad.return ERR_FAILURE
         else if F_FORCE_SUSPEND_EX E then State_Monad.return ERR_CAPABILITY_NOT_SUPPORTED
         else if shuttingDown s then State_Monad.return ERR_OK
         else if blocked then State_Monad.return ERR_SCREEN_OFF_BLOCKED
         else do {
           SuspendDeviceInner E callTimeMs reason suspendImmed;
           State_Monad.return ERR_OK } } }"

definition PmsWakeupDevice :: "env \<Rightarrow> int \<Rightarrow> WakeupDeviceType \<Rightarrow> string \<Rightarrow> PowerErrors M" where
  "PmsWakeupDevice E callTimeMs reason details = do {
     denied \<leftarrow> CheckCaller E;
     case denied of
       Some e \<Rightarrow> State_Monad.return e
     | None \<Rightarrow> do {
         s \<leftarrow> gets svc;
         if F_WATCH_BOOT E \<and> \<not> bootCompleted s then State_Monad.return ERR_FAILURE
         else if F_FORCE_SUSPEND_EX E then State_Monad.return ERR_CAPABILITY_NOT_SUPPORTED
         else with_background_lock E ''W'' 5000 (
           if details = ''display_doze'' then do {
             ret \<leftarrow> SetDozeMode E DISPLAY_DOZE;
             State_Monad.return (if ret then ERR_OK else ERR_FAILURE) }
           else if details = ''display_doze_suspend'' then do {
             ret \<leftarrow> SetDozeMode E DISPLAY_DOZE_SUSPEND;
             State_Monad.return (if ret then ERR_OK else ERR_FAILURE) }
           else if details = ''display_off'' then do {
             ret \<leftarrow> SetDozeMode E DISPLAY_OFF;
             State_Monad.return (if ret then ERR_OK else ERR_FAILURE) }
           else do {
             WakeupDeviceInner E callTimeMs reason details;
             State_Monad.return ERR_OK }) } }"

definition PmsRefreshActivity :: "env \<Rightarrow> int \<Rightarrow> UserActivityType \<Rightarrow> bool M" where
  "PmsRefreshActivity E callTimeMs type = do {
     ok \<leftarrow> granted E ''ohos.permission.REFRESH_USER_ACTION'';
     if \<not> ok then State_Monad.return False
     else do {
       system \<leftarrow> ask_bool E (Service PermissionIsSystem);
       if \<not> system then State_Monad.return False
       else if F_SCREEN_DECOUPLING E then State_Monad.return False
       else PmsRefreshActivityInner E callTimeMs type } }"

definition PmsForceSuspendDevice :: "env \<Rightarrow> PowerErrors M" where
  "PmsForceSuspendDevice E = do {
     denied \<leftarrow> CheckCaller E;
     case denied of
       Some e \<Rightarrow> State_Monad.return e
     | None \<Rightarrow> do {
         s \<leftarrow> gets svc;
         p \<leftarrow> gets ptrs;
         blocked \<leftarrow> IsScreenOffBlocked BLOCK_SUSPEND_DEVICE_INTERFACE;
         if F_FORCE_SUSPEND_EX E then State_Monad.return ERR_CAPABILITY_NOT_SUPPORTED
         else if shuttingDown s then State_Monad.return ERR_FAILURE
         else if blocked then State_Monad.return ERR_SCREEN_OFF_BLOCKED
         else do {
           whenM (F_CHARGING_TYPE E \<and> suspendController p) (StopSleep E);
           _ \<leftarrow> ForceSuspendDeviceInner E;
           State_Monad.return ERR_OK } } }"

section \<open>Screen-off time\<close>

definition OverrideScreenOffTime :: "env \<Rightarrow> int \<Rightarrow> PowerErrors M" where
  "OverrideScreenOffTime E timeout = do {
     denied \<leftarrow> CheckCaller E;
     case denied of
       Some e \<Rightarrow> State_Monad.return e
     | None \<Rightarrow>
         if F_SCREEN_DECOUPLING E then State_Monad.return ERR_CAPABILITY_NOT_SUPPORTED
         else do {
           ok \<leftarrow> OverrideScreenOffTimeInner E timeout;
           State_Monad.return (if ok then ERR_OK else ERR_FAILURE) } }"

definition RestoreScreenOffTime :: "env \<Rightarrow> PowerErrors M" where
  "RestoreScreenOffTime E = do {
     denied \<leftarrow> CheckCaller E;
     case denied of
       Some e \<Rightarrow> State_Monad.return e
     | None \<Rightarrow>
         if F_SCREEN_DECOUPLING E then State_Monad.return ERR_CAPABILITY_NOT_SUPPORTED
         else do {
           ok \<leftarrow> RestoreScreenOffTimeInner E;
           State_Monad.return (if ok then ERR_OK else ERR_FAILURE) } }"

section \<open>Suspend tag\<close>

definition SetSuspendTag :: "env \<Rightarrow> string \<Rightarrow> PowerErrors M" where
  "SetSuspendTag E tag = do {
     system \<leftarrow> ask_bool E (Service PermissionIsSystem);
     if \<not> system then State_Monad.return ERR_SYSTEM_API_DENIED
     else with_background_lock E ''setTagRunningLock'' 40000 (
       if F_SUSPEND_WITH_TAG E \<and> tag = ''ulsr'' then do {
         state \<leftarrow> GetState;
         if state \<noteq> SLEEP then State_Monad.return ERR_FAILURE
         else do {
           CancelDelayTimer E CHECK_ULSR_SYNC_CALLBACK_TIMEOUT_MSG;
           ok \<leftarrow> TriggerUlsrSyncCallback E;
           p \<leftarrow> gets ptrs;
           if \<not> ok \<or> \<not> psmTimer p then do {
             SystemSetSuspendTag E '''';
             TriggerUlsrWakeupCallback False;
             State_Monad.return ERR_FAILURE }
           else do {
             SetDelayTimer E 60000 CHECK_ULSR_SYNC_CALLBACK_TIMEOUT_MSG;
             SystemSetSuspendTag E tag;
             State_Monad.return ERR_OK } } }
       else do { SystemSetSuspendTag E tag; State_Monad.return ERR_OK }) }"

text \<open>The ULSR timer set above expired: \<open>OnUlsrTimerExpired\<close>.\<close>

definition OnUlsrTimerExpired :: "env \<Rightarrow> unit M" where
  "OnUlsrTimerExpired E = with_background_lock E ''ulsrTimerExpiredRunningLock'' 40000 (do {
     SystemSetSuspendTag E '''';
     TriggerUlsrWakeupCallback False })"

text \<open>
  The driver reports the suspend and the wakeup of a tagged suspend (\<open>power_hdi_callback.cpp\<close>);
  the answer is zero (\<open>HDF_SUCCESS\<close>) or minus one (\<open>HDF_FAILURE\<close>).
\<close>

definition OnSuspendWithTag :: "env \<Rightarrow> string \<Rightarrow> int M" where
  "OnSuspendWithTag E tag =
    (if \<not> (F_SUSPEND_WITH_TAG E \<and> tag = ''ulsr'') then State_Monad.return 0
     else do {
       p \<leftarrow> gets ptrs;
       if \<not> pms p then State_Monad.return (-1)
       else do {
         CancelDelayTimer E CHECK_ULSR_SYNC_CALLBACK_TIMEOUT_MSG;
         State_Monad.return 0 } })"

definition OnWakeupWithTag :: "env \<Rightarrow> string \<Rightarrow> int M" where
  "OnWakeupWithTag E tag = do {
     whenM (F_SUSPEND_WITH_TAG E \<and> tag = ''ulsr'') (do {
       TriggerUlsrWakeupCallbackWithResult;
       whenM (F_ULSR_PLUGIN E) (do {
         succeeded \<leftarrow> IsUlsrSucceed E;
         whenM succeeded (log_call (Service (HookExecute ''POWER_HDI_CALLBACK_WAKEUP''))) }) });
     State_Monad.return 0 }"


end
