(* ===== verification/Shutdown_Control.thy ===== *)
theory Shutdown_Control
  imports Service_Calls State_Safety
begin

text \<open>
  Shutdown and reboot: \<open>ShutdownController\<close> and \<open>ShutdownCallbackHolder\<close>
  (\<open>services/native/src/shutdown\<close>) and the calls of \<open>PowerMgrService\<close> that reach them.

  \<open>RebootOrShutdown\<close> ends by detaching a thread; what that thread does is \<open>shutdown_thread\<close>, a step of
  its own, and the call \<open>DetachThread\<close> marks the moment it is started.  Two waits are bounded: a forced
  reboot waits for the synchronous callbacks, and the thread for the asynchronous ones.  When
  such a wait times out, how many of the callbacks had run is an answer of the environment; the others
  run later, beside the rest.  The flag \<open>started_\<close> is \<open>shuttingDown\<close> of the service record.
\<close>

section \<open>Callback holders\<close>

datatype ShutdownPriority =
    SHUTDOWN_LOW | SHUTDOWN_DEFAULT | SHUTDOWN_HIGH | SHUTDOWN_HIGHEST | SHUTDOWN_LOWEST | SHUTDOWN_RAW nat

datatype ShutdownHolderId = TAKEOVER_HOLDER | ASYNC_HOLDER | SYNC_HOLDER

fun holder_of :: "ShutdownHolderId \<Rightarrow> shut_state \<Rightarrow> ShutdownCallbackHolder" where
  "holder_of TAKEOVER_HOLDER s = takeoverHolder s"
| "holder_of ASYNC_HOLDER s = asyncHolder s"
| "holder_of SYNC_HOLDER s = syncHolder s"

fun mod_holder ::
  "ShutdownHolderId \<Rightarrow> (ShutdownCallbackHolder \<Rightarrow> ShutdownCallbackHolder) \<Rightarrow> unit M" where
  "mod_holder TAKEOVER_HOLDER f = mod_shut (\<lambda>s. s\<lparr>takeoverHolder := f (takeoverHolder s)\<rparr>)"
| "mod_holder ASYNC_HOLDER f = mod_shut (\<lambda>s. s\<lparr>asyncHolder := f (asyncHolder s)\<rparr>)"
| "mod_holder SYNC_HOLDER f = mod_shut (\<lambda>s. s\<lparr>syncHolder := f (syncHolder s)\<rparr>)"

fun priority_callbacks :: "ShutdownPriority \<Rightarrow> ShutdownCallbackHolder \<Rightarrow> obj list" where
  "priority_callbacks SHUTDOWN_LOW h = lowShutdownCallbacks h"
| "priority_callbacks SHUTDOWN_DEFAULT h = defaultShutdownCallbacks h"
| "priority_callbacks SHUTDOWN_HIGH h = highShutdownCallbacks h"
| "priority_callbacks SHUTDOWN_HIGHEST h = highestShutdownCallbacks h"
| "priority_callbacks SHUTDOWN_LOWEST h = lowestShutdownCallbacks h"
| "priority_callbacks (SHUTDOWN_RAW _) h = []"

definition insert_callback :: "obj \<Rightarrow> ShutdownPriority \<Rightarrow> ShutdownCallbackHolder \<Rightarrow> ShutdownCallbackHolder" where
  "insert_callback callback priority h = (case priority of
     SHUTDOWN_LOW \<Rightarrow> h\<lparr>lowShutdownCallbacks := oset_insert callback (lowShutdownCallbacks h)\<rparr>
   | SHUTDOWN_DEFAULT \<Rightarrow> h\<lparr>defaultShutdownCallbacks := oset_insert callback (defaultShutdownCallbacks h)\<rparr>
   | SHUTDOWN_HIGH \<Rightarrow> h\<lparr>highShutdownCallbacks := oset_insert callback (highShutdownCallbacks h)\<rparr>
   | SHUTDOWN_HIGHEST \<Rightarrow> h\<lparr>highestShutdownCallbacks := oset_insert callback (highestShutdownCallbacks h)\<rparr>
   | SHUTDOWN_LOWEST \<Rightarrow> h\<lparr>lowestShutdownCallbacks := oset_insert callback (lowestShutdownCallbacks h)\<rparr>
   | SHUTDOWN_RAW _ \<Rightarrow> h)"

definition ShutdownHolder_AddCallback :: "env \<Rightarrow> ShutdownHolderId \<Rightarrow> obj \<Rightarrow> ShutdownPriority \<Rightarrow> unit M" where
  "ShutdownHolder_AddCallback E i callback priority = do {
     h \<leftarrow> gets (\<lambda>w. holder_of i (shut w));
     mod_holder i (insert_callback callback priority);
     whenM ((\<forall>n. priority \<noteq> SHUTDOWN_RAW n) \<and> callback \<notin> set (priority_callbacks priority h))
       (log_call (Callback (AddDeathRecipient callback)));
     pid \<leftarrow> ask_int E (Service CallerPid);
     uid \<leftarrow> ask_int E (Service CallerUid);
     mod_holder i (\<lambda>h. h\<lparr>shutdownCachedRegister :=
       (case shutdownCachedRegister h callback of
          None \<Rightarrow> (shutdownCachedRegister h)(callback \<mapsto> (pid, uid))
        | Some _ \<Rightarrow> shutdownCachedRegister h)\<rparr>) }"

definition remove_callback :: "obj \<Rightarrow> ShutdownCallbackHolder \<Rightarrow> ShutdownCallbackHolder" where
  "remove_callback callback h =
    h\<lparr>lowestShutdownCallbacks := oset_erase callback (lowestShutdownCallbacks h),
      lowShutdownCallbacks := oset_erase callback (lowShutdownCallbacks h),
      defaultShutdownCallbacks := oset_erase callback (defaultShutdownCallbacks h),
      highShutdownCallbacks := oset_erase callback (highShutdownCallbacks h),
      highestShutdownCallbacks := oset_erase callback (highestShutdownCallbacks h),
      shutdownCachedRegister := (shutdownCachedRegister h)(callback := None)\<rparr>"

definition ShutdownHolder_RemoveCallback :: "ShutdownHolderId \<Rightarrow> obj \<Rightarrow> unit M" where
  "ShutdownHolder_RemoveCallback i callback = mod_holder i (remove_callback callback)"

definition ShutdownHolder_OnRemoteDied :: "ShutdownHolderId \<Rightarrow> obj option \<Rightarrow> unit M" where
  "ShutdownHolder_OnRemoteDied i remote =
    (case remote of None \<Rightarrow> skip | Some c \<Rightarrow> ShutdownHolder_RemoveCallback i c)"

text \<open>The callbacks of a holder in the order in which every trigger function visits them.\<close>

definition priority_order :: "ShutdownCallbackHolder \<Rightarrow> obj list" where
  "priority_order h = highestShutdownCallbacks h @ highShutdownCallbacks h @ defaultShutdownCallbacks h @
     lowShutdownCallbacks h @ lowestShutdownCallbacks h"

section \<open>Taking over\<close>

text \<open>Every callback of one priority is asked, also after one of them has taken over.\<close>

primrec TriggerTakeOverInner :: "env \<Rightarrow> (obj \<Rightarrow> shutdown_call) \<Rightarrow> obj list \<Rightarrow> bool \<Rightarrow> bool M" where
  "TriggerTakeOverInner E ask [] isTakeover = State_Monad.return isTakeover"
| "TriggerTakeOverInner E ask (c # cs) isTakeover = do {
     taken \<leftarrow> ask_bool E (Shutdown (ask c));
     TriggerTakeOverInner E ask cs (isTakeover \<or> taken) }"

definition TriggerTakeOverCallback :: "env \<Rightarrow> (obj \<Rightarrow> shutdown_call) \<Rightarrow> bool M" where
  "TriggerTakeOverCallback E ask = do {
     h \<leftarrow> gets (\<lambda>w. takeoverHolder (shut w));
     t1 \<leftarrow> TriggerTakeOverInner E ask (highestShutdownCallbacks h) False;
     if t1 then State_Monad.return True else do {
     t2 \<leftarrow> TriggerTakeOverInner E ask (highShutdownCallbacks h) False;
     if t2 then State_Monad.return True else do {
     t3 \<leftarrow> TriggerTakeOverInner E ask (defaultShutdownCallbacks h) False;
     if t3 then State_Monad.return True else do {
     t4 \<leftarrow> TriggerTakeOverInner E ask (lowShutdownCallbacks h) False;
     if t4 then State_Monad.return True
     else TriggerTakeOverInner E ask (lowestShutdownCallbacks h) False } } } }"

definition TriggerTakeOverShutdownCallback :: "env \<Rightarrow> string \<Rightarrow> bool \<Rightarrow> bool M" where
  "TriggerTakeOverShutdownCallback E reason isReboot =
    TriggerTakeOverCallback E (\<lambda>c. OnTakeOverShutdown c reason isReboot)"

definition TriggerTakeOverHibernateCallback :: "env \<Rightarrow> string \<Rightarrow> bool \<Rightarrow> bool M" where
  "TriggerTakeOverHibernateCallback E reason isReboot =
    TriggerTakeOverCallback E (\<lambda>c. OnTakeOverHibernate c reason isReboot)"

definition AllowedToBeTakenOver :: "env \<Rightarrow> string \<Rightarrow> bool" where
  "AllowedToBeTakenOver E reason =
    (\<not> (F_JUDGE_TAKEOVER E \<and> reason \<in> {''LowCapacity'', ''HibernateFail''}))"

definition TakeOverShutdownAction :: "env \<Rightarrow> string \<Rightarrow> bool \<Rightarrow> bool M" where
  "TakeOverShutdownAction E reason isReboot =
    (if AllowedToBeTakenOver E reason then TriggerTakeOverShutdownCallback E reason isReboot
     else State_Monad.return False)"

section \<open>Callbacks\<close>

definition TriggerSyncShutdownCallbackInner :: "obj list \<Rightarrow> bool \<Rightarrow> unit M" where
  "TriggerSyncShutdownCallbackInner callbacks isReboot = for_each (\<lambda>c. do {
     log_call GetTick;
     log_call (Shutdown (OnSyncShutdown c));
     log_call (Shutdown (OnSyncShutdownOrReboot c isReboot));
     log_call GetTick }) callbacks"

definition TriggerSyncShutdownCallback :: "bool \<Rightarrow> unit M" where
  "TriggerSyncShutdownCallback isReboot = do {
     h \<leftarrow> gets (\<lambda>w. syncHolder (shut w));
     TriggerSyncShutdownCallbackInner (highestShutdownCallbacks h) isReboot;
     TriggerSyncShutdownCallbackInner (highShutdownCallbacks h) isReboot;
     TriggerSyncShutdownCallbackInner (defaultShutdownCallbacks h) isReboot;
     TriggerSyncShutdownCallbackInner (lowShutdownCallbacks h) isReboot;
     TriggerSyncShutdownCallbackInner (lowestShutdownCallbacks h) isReboot }"

definition TriggerAsyncShutdownCallbackInner :: "obj list \<Rightarrow> bool \<Rightarrow> unit M" where
  "TriggerAsyncShutdownCallbackInner callbacks isReboot = for_each (\<lambda>c. do {
     log_call GetTick;
     log_call (Shutdown (OnAsyncShutdown c));
     log_call (Shutdown (OnAsyncShutdownOrReboot c isReboot));
     log_call GetTick }) callbacks"

definition TriggerAsyncShutdownCallback :: "bool \<Rightarrow> unit M" where
  "TriggerAsyncShutdownCallback isReboot = do {
     h \<leftarrow> gets (\<lambda>w. asyncHolder (shut w));
     TriggerAsyncShutdownCallbackInner (highestShutdownCallbacks h) isReboot;
     TriggerAsyncShutdownCallbackInner (highShutdownCallbacks h) isReboot;
     TriggerAsyncShutdownCallbackInner (defaultShutdownCallbacks h) isReboot;
     TriggerAsyncShutdownCallbackInner (lowShutdownCallbacks h) isReboot;
     TriggerAsyncShutdownCallbackInner (lowestShutdownCallbacks h) isReboot }"

text \<open>
  A bounded wait for callbacks that run on another thread: all of them if it does not time out, the
  first ones in visiting order if it does.
\<close>

definition wait_for_callbacks ::
  "env \<Rightarrow> shutdown_call \<Rightarrow> (bool \<Rightarrow> unit M) \<Rightarrow> (obj list \<Rightarrow> bool \<Rightarrow> unit M) \<Rightarrow> ShutdownHolderId \<Rightarrow> bool \<Rightarrow> unit M" where
  "wait_for_callbacks E timer all some i isReboot = do {
     timedOut \<leftarrow> gets (\<lambda>w. extBool E (Shutdown timer) (trace w));
     done \<leftarrow> ask_int E (Shutdown timer);
     if timedOut then do {
       h \<leftarrow> gets (\<lambda>w. holder_of i (shut w));
       some (take (nat done) (priority_order h)) isReboot }
     else all isReboot }"

section \<open>Shutdown\<close>

definition SetShutdownReason :: "string \<Rightarrow> unit M" where
  "SetShutdownReason reason =
    log_call (Shutdown (SetParameter ''persist.dfx.shutdown_reason''
      (if length reason > 95 then take 95 reason else reason)))"

definition PublishShutdownEvent :: "unit M" where
  "PublishShutdownEvent = log_call (Shutdown PublishShutdown)"

definition TurnOffScreen :: "env \<Rightarrow> unit M" where
  "TurnOffScreen E = log_call (Shutdown (TurnOffScreens (shutDownReasonCode E)))"

definition RebootOrShutdown :: "env \<Rightarrow> string \<Rightarrow> bool \<Rightarrow> bool \<Rightarrow> PowerErrors M" where
  "RebootOrShutdown E reason isReboot isForce = do {
     started \<leftarrow> gets (\<lambda>w. shuttingDown (svc w));
     if started then State_Monad.return ERR_SKIP_FUNCTION_CALL
     else do {
       isTakeOver \<leftarrow> (if isForce then State_Monad.return False
         else do {
           mod_svc (\<lambda>s. s\<lparr>shuttingDown := True\<rparr>);
           TakeOverShutdownAction E reason isReboot });
       if isTakeOver then do {
         mod_svc (\<lambda>s. s\<lparr>shuttingDown := False\<rparr>);
         State_Monad.return ERR_OK }
       else do {
         whenM (\<not> isForce \<and> reason \<noteq> ''test_case'') (log_call (Shutdown SetShutStage));
         mod_svc (\<lambda>s. s\<lparr>shuttingDown := True\<rparr>);
         SetShutdownReason reason;
         PublishShutdownEvent;
         t1 \<leftarrow> ask_int E (Shutdown RealTime);
         log_call (Shutdown (SetParameter ''persist.dfx.eventtype'' (to_string (if isReboot then 1 else 2))));
         (if isForce then wait_for_callbacks E SyncCallbacksTimedOut TriggerSyncShutdownCallback
            TriggerSyncShutdownCallbackInner SYNC_HOLDER isReboot
          else TriggerSyncShutdownCallback isReboot);
         t2 \<leftarrow> ask_int E (Shutdown RealTime);
         TurnOffScreen E;
         t3 \<leftarrow> ask_int E (Shutdown RealTime);
         log_call (Shutdown (SetParameter ''persist.dfx.shutdownactiontime''
           (to_string t1 @ '','' @ to_string t2 @ '','' @ to_string t3)));
         log_call (Shutdown (DetachThread reason isReboot));
         State_Monad.return ERR_OK } } }"

definition Prepare :: "env \<Rightarrow> bool \<Rightarrow> unit M" where
  "Prepare E isReboot = wait_for_callbacks E AsyncCallbacksTimedOut TriggerAsyncShutdownCallback
     TriggerAsyncShutdownCallbackInner ASYNC_HOLDER isReboot"

definition shutdown_thread :: "env \<Rightarrow> string \<Rightarrow> bool \<Rightarrow> unit M" where
  "shutdown_thread E reason isReboot = do {
     Prepare E isReboot;
     p \<leftarrow> gets ptrs;
     whenM (devicePowerAction p) (do {
       t \<leftarrow> ask_int E (Shutdown RealTime);
       log_call (Shutdown (SetParameter ''persist.dfx.shutdowncompletetime'' (to_string t)));
       log_call (Shutdown (if isReboot then DeviceReboot reason else DeviceShutdown reason)) });
     mod_svc (\<lambda>s. s\<lparr>shuttingDown := False\<rparr>) }"

definition Reboot :: "env \<Rightarrow> string \<Rightarrow> bool \<Rightarrow> PowerErrors M" where
  "Reboot E reason isForce = RebootOrShutdown E reason True isForce"

definition ControllerShutdown :: "env \<Rightarrow> string \<Rightarrow> PowerErrors M" where
  "ControllerShutdown E reason = RebootOrShutdown E reason False False"

definition IsShuttingDown :: "bool M" where
  "IsShuttingDown = gets (\<lambda>w. shuttingDown (svc w))"

section \<open>Calls of the service\<close>

definition PmsRegisterShutdownCallback :: "env \<Rightarrow> ShutdownHolderId \<Rightarrow> obj option \<Rightarrow> ShutdownPriority \<Rightarrow> unit M" where
  "PmsRegisterShutdownCallback E i callback priority = (case callback of
     None \<Rightarrow> skip
   | Some c \<Rightarrow> do {
       system \<leftarrow> ask_bool E (Service PermissionIsSystem);
       whenM system (ShutdownHolder_AddCallback E i c priority) })"

definition PmsUnRegisterShutdownCallback :: "env \<Rightarrow> ShutdownHolderId \<Rightarrow> obj option \<Rightarrow> unit M" where
  "PmsUnRegisterShutdownCallback E i callback = (case callback of
     None \<Rightarrow> skip
   | Some c \<Rightarrow> do {
       system \<leftarrow> ask_bool E (Service PermissionIsSystem);
       whenM system (ShutdownHolder_RemoveCallback i c) })"

definition CheckReboot :: "env \<Rightarrow> PowerErrors option M" where
  "CheckReboot E = do {
     system \<leftarrow> ask_bool E (Service PermissionIsSystem);
     if \<not> system then State_Monad.return (Some ERR_SYSTEM_API_DENIED)
     else do {
       ok \<leftarrow> granted E ''ohos.permission.REBOOT'';
       State_Monad.return (if ok then None else Some ERR_PERMISSION_DENIED) } }"

definition PmsRegisterAsyncShutdownCallback :: "env \<Rightarrow> obj option \<Rightarrow> ShutdownPriority \<Rightarrow> PowerErrors M" where
  "PmsRegisterAsyncShutdownCallback E callback priority = (case callback of
     None \<Rightarrow> State_Monad.return ERR_PARAM_INVALID
   | Some c \<Rightarrow> do {
       denied \<leftarrow> CheckReboot E;
       case denied of
         Some e \<Rightarrow> State_Monad.return e
       | None \<Rightarrow> do {
           ShutdownHolder_AddCallback E ASYNC_HOLDER c priority;
           State_Monad.return ERR_OK } })"

definition PmsUnRegisterAsyncShutdownCallback :: "env \<Rightarrow> obj option \<Rightarrow> PowerErrors M" where
  "PmsUnRegisterAsyncShutdownCallback E callback = (case callback of
     None \<Rightarrow> State_Monad.return ERR_PARAM_INVALID
   | Some c \<Rightarrow> do {
       denied \<leftarrow> CheckReboot E;
       case denied of
         Some e \<Rightarrow> State_Monad.return e
       | None \<Rightarrow> do {
           ShutdownHolder_RemoveCallback ASYNC_HOLDER c;
           State_Monad.return ERR_OK } })"

definition cancel_sleep_timers :: "env \<Rightarrow> unit M" where
  "cancel_sleep_timers E = do {
     CancelDelayTimer E CHECK_USER_ACTIVITY_TIMEOUT_MSG;
     CancelDelayTimer E CHECK_USER_ACTIVITY_OFF_TIMEOUT_MSG;
     p \<leftarrow> gets ptrs;
     whenM (suspendController p) (StopSleep E) }"

definition RebootDeviceForDeprecated :: "env \<Rightarrow> string \<Rightarrow> bool \<Rightarrow> PowerErrors M" where
  "RebootDeviceForDeprecated E reason isForce = do {
     ok \<leftarrow> granted E ''ohos.permission.REBOOT'';
     if \<not> ok then State_Monad.return ERR_PERMISSION_DENIED
     else do {
       cancel_sleep_timers E;
       Reboot E reason isForce } }"

definition PmsRebootDevice :: "env \<Rightarrow> string \<Rightarrow> PowerErrors M" where
  "PmsRebootDevice E reason = do {
     system \<leftarrow> ask_bool E (Service PermissionIsSystem);
     if \<not> system then State_Monad.return ERR_SYSTEM_API_DENIED
     else RebootDeviceForDeprecated E reason False }"

definition PmsForceRebootDevice :: "env \<Rightarrow> string \<Rightarrow> PowerErrors M" where
  "PmsForceRebootDevice E reason = do {
     system \<leftarrow> ask_bool E (Service PermissionIsSystem);
     if \<not> system then State_Monad.return ERR_SYSTEM_API_DENIED
     else RebootDeviceForDeprecated E reason True }"

text \<open>The value of \<open>SHUTDOWN_FAST_REASON\<close> is not defined in the repository: a field of the environment.\<close>

definition PmsShutDownDevice :: "env \<Rightarrow> string \<Rightarrow> PowerErrors M" where
  "PmsShutDownDevice E reason = do {
     now \<leftarrow> ask_int E (Service WallClock);
     denied \<leftarrow> CheckReboot E;
     case denied of
       Some e \<Rightarrow> State_Monad.return e
     | None \<Rightarrow>
         if reason = shutdownFastReason E
         then PmsSuspendDevice E now SUSPEND_DEVICE_REASON_STR True
         else do {
           cancel_sleep_timers E;
           SystemWakeup E;
           ControllerShutdown E reason } }"

section \<open>Frames\<close>

lemma keeps_TriggerTakeOverInner [keeps_intros]:
  "ig_quiet f \<Longrightarrow> keeps f (TriggerTakeOverInner E g cs b)"
  by (induction cs arbitrary: b) (auto simp: trace_app intro!: keeps_intros)

lemma keeps_take_over [keeps_intros]:
  assumes "ig_quiet f"
  shows "keeps f (TriggerTakeOverCallback E g)" "keeps f (TakeOverShutdownAction E reason b)"
    "keeps f (TriggerTakeOverHibernateCallback E reason b)"
  using assms
  by (auto simp: TriggerTakeOverCallback_def TakeOverShutdownAction_def
      TriggerTakeOverShutdownCallback_def TriggerTakeOverHibernateCallback_def intro!: keeps_intros)

lemma keeps_shutdown_callbacks [keeps_intros]:
  assumes "ig_quiet f"
  shows "keeps f (TriggerSyncShutdownCallbackInner cs b)" "keeps f (TriggerSyncShutdownCallback b)"
    "keeps f (TriggerAsyncShutdownCallbackInner cs b)" "keeps f (TriggerAsyncShutdownCallback b)"
  using assms
  by (auto simp: TriggerSyncShutdownCallbackInner_def TriggerSyncShutdownCallback_def
      TriggerAsyncShutdownCallbackInner_def TriggerAsyncShutdownCallback_def trace_app intro!: keeps_intros)

lemma keeps_RebootOrShutdown:
  assumes "ig_quiet f" and "\<And>w b. f (w\<lparr>svc := (svc w)\<lparr>shuttingDown := b\<rparr>\<rparr>) = f w"
  shows "keeps f (RebootOrShutdown E reason isReboot isForce)"
  using assms
  by (auto simp: RebootOrShutdown_def wait_for_callbacks_def SetShutdownReason_def
      PublishShutdownEvent_def TurnOffScreen_def trace_app intro!: keeps_intros)

lemma keeps_cancel_sleep_timers [keeps_intros]: "inert f \<Longrightarrow> keeps f (cancel_sleep_timers E)"
  by (auto simp: cancel_sleep_timers_def inert_ig intro!: keeps_intros)

lemma keeps_PmsShutDownDevice:
  assumes "outer f" and "\<And>w b. f (w\<lparr>svc := (svc w)\<lparr>shuttingDown := b\<rparr>\<rparr>) = f w"
  shows "keeps f (PmsShutDownDevice E reason)"
proof -
  have "keeps f (PmsSuspendDevice E t r b)" for t r b
    using assms(1)
    by (auto simp: PmsSuspendDevice_def CheckCaller_def outer_ig trace_app intro!: keeps_intros)
  then show ?thesis
    using assms keeps_RebootOrShutdown [OF outer_ig(5) [OF assms(1)] assms(2)]
    by (auto simp: PmsShutDownDevice_def CheckReboot_def ControllerShutdown_def outer_ig trace_app
        intro!: keeps_intros)
qed

end
