(* ===== verification/Hibernate_Flow.thy ===== *)
theory Hibernate_Flow
  imports Shutdown_Control
begin

text \<open>
  Hibernation: \<open>HibernateController\<close> (\<open>services/native/src/hibernate/hibernate_controller.cpp\<close>) with its
  callbacks in three priorities, and \<open>HibernateInner\<close> of \<open>PowerStateMachine\<close> with prepare, time-out,
  rollback and restore.

  Preparation runs on a thread of its own while the caller waits for at most 30 seconds.  If the
  wait ends first, the thread goes on.  How far it had come is an answer of the environment: it has
  done nothing, or everything up to the callbacks.  What it does later is the computation
  \<open>PrepareHibernate_late\<close>, a step of its own.
\<close>

section \<open>Callbacks\<close>

datatype HibernateCallbackPriority = HIBERNATE_PRIO_LOW | HIBERNATE_PRIO_DEFAULT | HIBERNATE_PRIO_HIGH

datatype HibernateStatus = HIBERNATE_SUCCESS | HIBERNATE_FAILURE | HIBERNATE_INVALID_STATUS

definition AddCallbackToHolder :: "obj \<Rightarrow> HibernateCallbackPriority \<Rightarrow> unit M" where
  "AddCallbackToHolder cb priority = do {
     h \<leftarrow> gets hib;
     (case priority of
        HIBERNATE_PRIO_LOW \<Rightarrow> do {
          mod_hib (\<lambda>s. s\<lparr>hibLowCallbacks := oset_insert cb (hibLowCallbacks s)\<rparr>);
          whenM (cb \<notin> set (hibLowCallbacks h)) (log_call (Callback (AddDeathRecipient cb))) }
      | HIBERNATE_PRIO_DEFAULT \<Rightarrow> do {
          mod_hib (\<lambda>s. s\<lparr>hibDefaultCallbacks := oset_insert cb (hibDefaultCallbacks s)\<rparr>);
          whenM (cb \<notin> set (hibDefaultCallbacks h)) (log_call (Callback (AddDeathRecipient cb))) }
      | HIBERNATE_PRIO_HIGH \<Rightarrow> do {
          mod_hib (\<lambda>s. s\<lparr>hibHighCallbacks := oset_insert cb (hibHighCallbacks s)\<rparr>);
          whenM (cb \<notin> set (hibHighCallbacks h)) (log_call (Callback (AddDeathRecipient cb))) }) }"

definition AddCallbackPidUid :: "env \<Rightarrow> obj \<Rightarrow> unit M" where
  "AddCallbackPidUid E cb = do {
     pid \<leftarrow> ask_int E (Service CallerPid);
     uid \<leftarrow> ask_int E (Service CallerUid);
     mod_hib (\<lambda>s. s\<lparr>hibCachedRegister := (case hibCachedRegister s cb of
       None \<Rightarrow> (hibCachedRegister s)(cb \<mapsto> (pid, uid)) | Some _ \<Rightarrow> hibCachedRegister s)\<rparr>) }"

definition RegisterSyncHibernateCallback :: "env \<Rightarrow> obj \<Rightarrow> HibernateCallbackPriority \<Rightarrow> unit M" where
  "RegisterSyncHibernateCallback E cb priority = do {
     AddCallbackToHolder cb priority;
     AddCallbackPidUid E cb }"

definition RemoveCallbackFromHolder :: "obj \<Rightarrow> unit M" where
  "RemoveCallbackFromHolder cb = mod_hib (\<lambda>s. s\<lparr>
     hibLowCallbacks := oset_erase cb (hibLowCallbacks s),
     hibDefaultCallbacks := oset_erase cb (hibDefaultCallbacks s),
     hibHighCallbacks := oset_erase cb (hibHighCallbacks s)\<rparr>)"

definition UnregisterSyncHibernateCallback :: "obj \<Rightarrow> unit M" where
  "UnregisterSyncHibernateCallback cb = do {
     RemoveCallbackFromHolder cb;
     log_call (Callback (RemoveDeathRecipient cb));
     mod_hib (\<lambda>s. s\<lparr>hibCachedRegister := (hibCachedRegister s)(cb := None)\<rparr>) }"

definition TriggerCallbacks :: "obj list \<Rightarrow> bool \<Rightarrow> bool \<Rightarrow> unit M" where
  "TriggerCallbacks callbacks isPreHibernate hibernateResult =
    for_each (\<lambda>cb. log_call (Hibernation
      (if isPreHibernate then OnSyncHibernate cb else OnHibernateWakeup cb hibernateResult))) callbacks"

definition PreHibernate :: "unit M" where
  "PreHibernate = do {
     mod_hib (\<lambda>s. s\<lparr>hibPrepared := True\<rparr>);
     h \<leftarrow> gets hib;
     TriggerCallbacks (hibHighCallbacks h) True False;
     TriggerCallbacks (hibDefaultCallbacks h) True False;
     TriggerCallbacks (hibLowCallbacks h) True False }"

definition PostHibernate :: "bool \<Rightarrow> unit M" where
  "PostHibernate hibernateResult = do {
     h \<leftarrow> gets hib;
     if \<not> hibPrepared h then skip
     else do {
       mod_hib (\<lambda>s. s\<lparr>hibPrepared := False\<rparr>);
       TriggerCallbacks (hibHighCallbacks h) False hibernateResult;
       TriggerCallbacks (hibDefaultCallbacks h) False hibernateResult;
       TriggerCallbacks (hibLowCallbacks h) False hibernateResult } }"

definition ControllerHibernate :: "env \<Rightarrow> HibernateStatus M" where
  "ControllerHibernate E = do {
     ok \<leftarrow> SystemHibernate E;
     State_Monad.return (if ok then HIBERNATE_SUCCESS else HIBERNATE_FAILURE) }"

section \<open>Preparation\<close>

definition ActivateDefaultAccount :: "env \<Rightarrow> bool M" where
  "ActivateDefaultAccount E = do {
     deactivated \<leftarrow> ask_bool E (Hibernation AccountDeactivateAll);
     if \<not> deactivated then State_Monad.return False
     else do {
       found \<leftarrow> gets (\<lambda>w. extBool E (Hibernation AccountGetDefault) (trace w));
       i \<leftarrow> ask_int E (Hibernation AccountGetDefault);
       if \<not> found then State_Monad.return False
       else ask_bool E (Hibernation (AccountActivate i)) } }"

text \<open>The first part of \<open>PrepareHibernate\<close>, up to the callbacks: whether it got that far.\<close>

definition PrepareHibernate_begin :: "env \<Rightarrow> bool \<Rightarrow> bool M" where
  "PrepareHibernate_begin E clearMemory = do {
     p \<leftarrow> gets ptrs;
     if \<not> hibernateController p then State_Monad.return False
     else do {
       SystemWakeup E;
       _ \<leftarrow> SetState E INACTIVE STATE_CHANGE_REASON_HIBERNATE True;
       t \<leftarrow> GetTickCount E;
       mod_psm (\<lambda>s. s\<lparr>preHibernateStart := t\<rparr>);
       if \<not> clearMemory then State_Monad.return True
       else do {
         log_call (Service (HookExecute ''POWER_PRE_SWITCH_ACCOUNT''));
         ret \<leftarrow> ActivateDefaultAccount E;
         if \<not> ret then State_Monad.return False
         else do {
           set \<leftarrow> ask_bool E (Settings (SetStopService True));
           if \<not> set then State_Monad.return False
           else do {
             log_call (Service (HookExecute ''POWER_POST_SWITCH_ACCOUNT''));
             State_Monad.return True } } } } }"

definition PrepareHibernate_end :: "env \<Rightarrow> bool M" where
  "PrepareHibernate_end E = do {
     PreHibernate;
     SystemWakeup E;
     SetState E HIBERNATE STATE_CHANGE_REASON_SYSTEM True }"

definition PrepareHibernate :: "env \<Rightarrow> bool \<Rightarrow> bool M" where
  "PrepareHibernate E clearMemory = do {
     ready \<leftarrow> PrepareHibernate_begin E clearMemory;
     if \<not> ready then State_Monad.return False else PrepareHibernate_end E }"

definition PrepareHibernateWithTimeout :: "env \<Rightarrow> bool \<Rightarrow> bool M" where
  "PrepareHibernateWithTimeout E clearMemory = do {
     timeout \<leftarrow> gets (\<lambda>w. extBool E (Hibernation PrepareTimedOut) (trace w));
     done \<leftarrow> ask_int E (Hibernation PrepareTimedOut);
     (if timeout then do {
       whenM (done > 0) (do { _ \<leftarrow> PrepareHibernate_begin E clearMemory; skip });
       mod_psm (\<lambda>s. s\<lparr>prepareResult := False\<rparr>) }
     else do {
       r \<leftarrow> PrepareHibernate E clearMemory;
       mod_psm (\<lambda>s. s\<lparr>prepareResult := r\<rparr>) });
     gets (\<lambda>w. prepareResult (psm w)) }"

text \<open>What the thread still does after the wait timed out with \<open>done\<close> steps behind it.\<close>

definition PrepareHibernate_late :: "env \<Rightarrow> bool \<Rightarrow> bool \<Rightarrow> unit M" where
  "PrepareHibernate_late E clearMemory begun = do {
     r \<leftarrow> (if begun then PrepareHibernate_end E else PrepareHibernate E clearMemory);
     mod_psm (\<lambda>s. s\<lparr>prepareResult := r\<rparr>) }"

definition GetPreHibernateDelay :: "env \<Rightarrow> uint32 M" where
  "GetPreHibernateDelay E = do {
     now \<leftarrow> GetTickCount E;
     start \<leftarrow> gets (\<lambda>w. preHibernateStart (psm w));
     let preHibernateDelay = (word_of_int (now - start) :: uint32) in
     State_Monad.return (if preHibernateDelay > 3500 then 0 else 3500 - preHibernateDelay) }"

section \<open>Restore and rollback\<close>

definition RestoreHibernate :: "env \<Rightarrow> bool \<Rightarrow> HibernateStatus \<Rightarrow> unit M" where
  "RestoreHibernate E clearMemory status = do {
     p \<leftarrow> gets ptrs;
     mod_psm (\<lambda>s. s\<lparr>hibernating := False\<rparr>);
     whenM (powerMgrNotify p) (do {
       t \<leftarrow> GetTickCount E;
       log_call (Event (PublishExitHibernate t clearMemory)) });
     _ \<leftarrow> SetState E AWAKE STATE_CHANGE_REASON_SYSTEM True;
     whenM clearMemory (do { _ \<leftarrow> ask_bool E (Settings (SetStopService False)); skip });
     log_call (Hibernation (OnHibernateEnd (status = HIBERNATE_SUCCESS)));
     PostHibernate (status = HIBERNATE_SUCCESS) }"

definition RollbackHibernate :: "env \<Rightarrow> PowerState \<Rightarrow> bool \<Rightarrow> bool \<Rightarrow> unit M" where
  "RollbackHibernate E originalState clearMemory needShutdown = do {
     isSwitchOpen \<leftarrow> IsSwitchOpen;
     p \<leftarrow> gets ptrs;
     mod_psm (\<lambda>s. s\<lparr>hibernating := False\<rparr>);
     if needShutdown then do { _ \<leftarrow> PmsShutDownDevice E ''HibernateFail''; skip }
     else do {
       whenM (powerMgrNotify p) (do {
         t \<leftarrow> GetTickCount E;
         log_call (Event (PublishExitHibernate t clearMemory)) });
       whenM (hibernateController p) (PostHibernate False);
       _ \<leftarrow> SetState E INACTIVE STATE_CHANGE_REASON_ROLLBACK_HIBERNATE True;
       whenM (originalState = SLEEP) (do {
         whenM (\<not> isSwitchOpen) (do { _ \<leftarrow> SetSuspendTag E ''ulsr''; skip });
         whenM (suspendController p)
           (StartSleepTimer E SUSPEND_DEVICE_ROLLBACK_HIBERNATE ACTION_AUTO_SUSPEND 0) }) } }"

definition HibernateInner :: "env \<Rightarrow> bool \<Rightarrow> string \<Rightarrow> bool M" where
  "HibernateInner E clearMemory reason = do {
     p \<leftarrow> gets ptrs;
     if \<not> pms p then State_Monad.return False
     else if \<not> shutdownController p \<or> \<not> hibernateController p \<or> \<not> powerMgrNotify p then State_Monad.return False
     else do {
       takenOver \<leftarrow> (if clearMemory then TriggerTakeOverHibernateCallback E ''hibernate'' clearMemory
                     else State_Monad.return False);
       if takenOver then State_Monad.return True
       else do {
         busy \<leftarrow> IsHibernating;
         if busy then State_Monad.return False
         else do {
           mod_psm (\<lambda>s. s\<lparr>hibernating := True\<rparr>);
           originalState \<leftarrow> GetState;
           t \<leftarrow> GetTickCount E;
           log_call (Event (PublishEnterHibernate t clearMemory));
           let needShutdown = (clearMemory \<or> reason = ''LowCapacity'') in do {
           ret \<leftarrow> PrepareHibernateWithTimeout E clearMemory;
           if \<not> ret then do {
             RollbackHibernate E originalState clearMemory needShutdown;
             State_Monad.return True }
           else do {
             status \<leftarrow> ControllerHibernate E;
             if status \<noteq> HIBERNATE_SUCCESS then do {
               RollbackHibernate E originalState clearMemory needShutdown;
               State_Monad.return True }
             else do {
               SystemWakeup E;
               RestoreHibernate E clearMemory status;
               State_Monad.return True } } } } } } }"

definition PmsHibernate :: "env \<Rightarrow> bool \<Rightarrow> string \<Rightarrow> PowerErrors M" where
  "PmsHibernate E clearMemory reason = do {
     denied \<leftarrow> CheckCaller E;
     case denied of
       Some e \<Rightarrow> State_Monad.return e
     | None \<Rightarrow>
         if \<not> F_S4 E then State_Monad.return ERR_FAILURE
         else do {
           s \<leftarrow> gets svc;
           p \<leftarrow> gets ptrs;
           if \<not> hibernateEnable s then State_Monad.return ERR_FAILURE
           else if shuttingDown s then State_Monad.return ERR_FAILURE
           else do {
             whenM (F_CHARGING_TYPE E \<and> suspendController p) (StopSleep E);
             with_background_lock E ''hibernateGuard'' (- 1) (do {
               mod_ptrs (\<lambda>p. p\<lparr>hibernateController := True\<rparr>);
               ret \<leftarrow> HibernateInner E clearMemory reason;
               State_Monad.return (if ret then ERR_OK else ERR_FAILURE) }) } } }"

end
