(* ===== verification/Hibernate_Laws.thy ===== *)
theory Hibernate_Laws
  imports Hibernate_Flow
begin

text \<open>
  Correctness of hibernation: the callbacks run in order of priority and are told about the end
  exactly when they were told about the beginning, the busy flag is always given back, and what a
  preparation that timed out can still do.
\<close>

section \<open>Callbacks\<close>

definition hib_callbacks :: "world \<Rightarrow> obj list" where
  "hib_callbacks w = hibHighCallbacks (hib w) @ hibDefaultCallbacks (hib w) @ hibLowCallbacks (hib w)"

lemma exec_for_each_log:
  "exec (for_each (\<lambda>x. log_call (f x)) xs) w = w\<lparr>trace := rev (map f xs) @ trace w\<rparr>"
  by (induction xs arbitrary: w) (simp_all add: log_call_def)

lemma exec_PreHibernate: "exec PreHibernate w =
    w\<lparr>hib := (hib w)\<lparr>hibPrepared := True\<rparr>,
      trace := rev (map (\<lambda>cb. Hibernation (OnSyncHibernate cb)) (hib_callbacks w)) @ trace w\<rparr>"
  by (simp add: PreHibernate_def TriggerCallbacks_def exec_for_each_log hib_callbacks_def mod_hib_def)

lemma exec_PostHibernate: "exec (PostHibernate r) w =
    (if hibPrepared (hib w) then
       w\<lparr>hib := (hib w)\<lparr>hibPrepared := False\<rparr>,
         trace := rev (map (\<lambda>cb. Hibernation (OnHibernateWakeup cb r)) (hib_callbacks w)) @ trace w\<rparr>
     else w)"
  by (simp add: PostHibernate_def TriggerCallbacks_def exec_for_each_log hib_callbacks_def mod_hib_def)

text \<open>
  The callbacks of hibernation run in order of priority.  Before hibernation every registered
  callback is called once, those of high priority first, then default, then low; afterwards each of
  them is called in the same order with the result, if and only if the first round took place.
\<close>

lemma hibernate_callbacks_in_order:
  "trace (exec PreHibernate w) =
     rev (map (\<lambda>cb. Hibernation (OnSyncHibernate cb))
       (hibHighCallbacks (hib w) @ hibDefaultCallbacks (hib w) @ hibLowCallbacks (hib w))) @ trace w \<and>
   trace (exec (PostHibernate r) (exec PreHibernate w)) =
     rev (map (\<lambda>cb. Hibernation (OnHibernateWakeup cb r))
       (hibHighCallbacks (hib w) @ hibDefaultCallbacks (hib w) @ hibLowCallbacks (hib w))) @ trace (exec PreHibernate w) \<and>
   exec (PostHibernate r') (exec (PostHibernate r) w) = exec (PostHibernate r) w"
  by (simp add: exec_PreHibernate exec_PostHibernate hib_callbacks_def)

text \<open>
  A callback that unregisters is never called again, and one that registers is called once per round
  at its priority.
\<close>

lemma hibernate_registration:
  assumes "oset_inv (hibHighCallbacks (hib w))" and "oset_inv (hibDefaultCallbacks (hib w))"
    and "oset_inv (hibLowCallbacks (hib w))"
  shows "cb \<notin> set (hib_callbacks (exec (UnregisterSyncHibernateCallback cb) w)) \<and>
    filter (\<lambda>c. c = cb) (hib_callbacks (exec (do { UnregisterSyncHibernateCallback cb; RegisterSyncHibernateCallback E cb prio }) w)) = [cb]"
proof -
  have none: "filter (\<lambda>c. c = cb) (oset_erase cb xs) = []" for xs
    by (simp add: oset_erase_def filter_empty_conv)
  have once: "oset_inv xs \<Longrightarrow> filter (\<lambda>c. c = cb) (oset_insert cb (oset_erase cb xs)) = [cb]" for xs
    by (rule std_set.once_after_ins [OF std_set.wf_del])
  show ?thesis
    using assms
    by (cases prio) (simp_all add: hib_callbacks_def UnregisterSyncHibernateCallback_def
        RemoveCallbackFromHolder_def RegisterSyncHibernateCallback_def AddCallbackToHolder_def AddCallbackPidUid_def
        access_defs none once)
qed

theorem hibernate_registration_witness:
  "5 \<notin> set (hib_callbacks (exec (UnregisterSyncHibernateCallback 5) sample_world))"
proof -
  have "oset_inv (hibHighCallbacks (hib sample_world))" "oset_inv (hibDefaultCallbacks (hib sample_world))"
    "oset_inv (hibLowCallbacks (hib sample_world))"
    by (simp_all add: sample_world_def oset_inv_def)
  from hibernate_registration [OF this, of 5] show ?thesis by simp
qed

section \<open>The busy flag\<close>

abbreviation busy :: "world \<Rightarrow> bool" where
  "busy w \<equiv> hibernating (psm w)"

lemma outer_busy: "outer busy"
  by (simp add: outer_def inert_def ig_defs ig_quiet_def ig_monitor_def ig_customized_def)

text \<open>Observations that every step of hibernation keeps, apart from the assignments it makes itself.\<close>

definition calm :: "(world \<Rightarrow> 'b) \<Rightarrow> bool" where
  "calm f = (beside_locks f \<and>
    (\<forall>w x. f (w\<lparr>psm := (psm w)\<lparr>preHibernateStart := x\<rparr>\<rparr>) = f w) \<and>
    (\<forall>w x. f (w\<lparr>psm := (psm w)\<lparr>prepareResult := x\<rparr>\<rparr>) = f w))"

lemma calmD:
  assumes "calm f"
  shows "beside_locks f" "outer f" "inert f" "ig_trace f" "ig_quiet f" "ig_timers f" "ig_act f"
    "f (w\<lparr>psm := (psm w)\<lparr>preHibernateStart := x\<rparr>\<rparr>) = f w" "f (w\<lparr>psm := (psm w)\<lparr>prepareResult := y\<rparr>\<rparr>) = f w"
    "f (w\<lparr>trace := z\<rparr>) = f w"
  using assms beside_locksD [of f] by (auto simp: calm_def)

lemma keeps_SetSuspendTag:
  assumes "beside_locks f" shows "keeps f (SetSuspendTag E tag)"
  using beside_locksD [OF assms] ig_susp_app(6) [OF outer_ig(7) [OF beside_locksD(1) [OF assms]]]
  by (auto simp: SetSuspendTag_def GetState_def intro!: keeps_intros keeps_with_background_lock [OF assms])

lemma keeps_ActivateDefaultAccount: "ig_trace f \<Longrightarrow> keeps f (ActivateDefaultAccount E)"
  by (auto simp: ActivateDefaultAccount_def trace_app intro!: keeps_intros)

lemma keeps_PrepareHibernate_begin:
  assumes "calm f" shows "keeps f (PrepareHibernate_begin E c)"
  using calmD [OF assms]
  by (auto simp: PrepareHibernate_begin_def intro!: keeps_intros keeps_ActivateDefaultAccount)

lemma calm_examples: "calm hib" "calm busy"
  by (simp_all add: calm_def beside_locks_def outer_def inert_def ig_defs ig_quiet_def ig_monitor_def ig_customized_def)

lemma keeps_sleep_timer: "outer f \<Longrightarrow> keeps f (StartSleepTimer E t a d)"
  by (auto simp: outer_ig outer_psm inert_psm trace_app intro!: keeps_intros)

lemma keeps_PostHibernate: "(\<And>w x. f (w\<lparr>hib := x\<rparr>) = f w) \<Longrightarrow> ig_trace f \<Longrightarrow> keeps f (PostHibernate r)"
  by (auto simp: keeps_def exec_PostHibernate trace_app)

lemma keeps_PreHibernate: "(\<And>w x. f (w\<lparr>hib := x\<rparr>) = f w) \<Longrightarrow> ig_trace f \<Longrightarrow> keeps f PreHibernate"
  by (simp add: keeps_def exec_PreHibernate trace_app)

text \<open>A call that keeps an observation is replaced by an arbitrary world with the same observation.\<close>

lemma wp_keeping: "keeps f m \<Longrightarrow> (\<And>x t. f t = f w \<Longrightarrow> Q x t) \<Longrightarrow> wp m Q w"
  by (simp add: wp_def keepsD [of f])

lemma keeps_busy_shutdown: "keeps busy (PmsShutDownDevice E reason)"
  by (rule keeps_PmsShutDownDevice [OF outer_busy]) simp

lemmas busy_rules =
  wp_keeping [OF keeps_busy_shutdown]
  wp_keeping [OF keeps_SetState [OF outer_busy]]
  wp_keeping [OF keeps_PrepareHibernate_begin [OF calm_examples(2)]]
  wp_keeping [OF keeps_SetSuspendTag [OF calmD(1) [OF calm_examples(2)]]]
  wp_keeping [OF keeps_sleep_timer [OF outer_busy]]
  wp_keeping [OF keeps_PostHibernate [of busy]]

lemma busy_after_rollback: "\<not> busy (exec (RollbackHibernate E s c n) w)"
proof -
  have "wp (RollbackHibernate E s c n) (\<lambda>_ t. \<not> busy t) w"
    unfolding RollbackHibernate_def IsSwitchOpen_def
    by (auto simp: wp_simps ig_defs intro!: busy_rules)
  then show ?thesis by (simp add: wp_def)
qed

lemma busy_after_restore: "\<not> busy (exec (RestoreHibernate E c st) w)"
proof -
  have "wp (RestoreHibernate E c st) (\<lambda>_ t. \<not> busy t) w"
    unfolding RestoreHibernate_def by (auto simp: wp_simps ig_defs intro!: busy_rules)
  then show ?thesis by (simp add: wp_def)
qed

lemma busy_after_HibernateInner: "\<not> busy w \<Longrightarrow> \<not> busy (exec (HibernateInner E c r) w)"
  by (simp add: HibernateInner_def IsHibernating_def access_defs busy_after_rollback busy_after_restore Let_def
      keepsD [OF keeps_take_over(3) [OF outer_ig(5) [OF outer_busy]]])

text \<open>
  The device can always hibernate again.  Whatever happens during hibernation (preparation fails or
  times out, the driver refuses, the display does not follow), the busy flag that refuses a second
  request is cleared when the request returns.
\<close>

lemma hibernate_releases_busy_flag:
  assumes "\<not> hibernating (psm w)"
  shows "\<not> hibernating (psm (exec (HibernateInner E clearMemory reason) w))"
  using assms by (rule busy_after_HibernateInner)

theorem hibernate_releases_busy_flag_witness:
  "\<not> hibernating (psm (exec (HibernateInner sample_env False ''low'') sample_world))"
  by (rule hibernate_releases_busy_flag) (simp add: sample_defs)

text \<open>
  Two hibernations never overlap.  While one is under way a further request without memory
  clearing is refused and changes nothing at all.
\<close>

lemma hibernate_refused_while_busy:
  assumes "hibernating (psm w)"
  shows "run_state (HibernateInner E False reason) w = (False, w)"
  using assms by (simp add: HibernateInner_def IsHibernating_def run_result_exec)

definition busy_world :: world where
  "busy_world = sample_world\<lparr>psm := sample_psm\<lparr>hibernating := True\<rparr>\<rparr>"

section \<open>Pairing of the callbacks\<close>

abbreviation prepared :: "world \<Rightarrow> bool" where
  "prepared w \<equiv> hibPrepared (hib w)"

lemma wp_PostHibernate: "(\<And>t. \<not> prepared t \<Longrightarrow> Q () t) \<Longrightarrow> wp (PostHibernate r) Q w"
  by (simp add: wp_def exec_PostHibernate)

lemma calm_prepared: "calm prepared"
  by (simp add: calm_def beside_locks_def outer_def inert_def ig_defs ig_quiet_def ig_monitor_def ig_customized_def)

lemmas prepared_rules =
  wp_keeping [OF keeps_SetState [OF calmD(2) [OF calm_prepared]]]
  wp_keeping [OF keeps_SetSuspendTag [OF calmD(1) [OF calm_prepared]]]
  wp_keeping [OF keeps_sleep_timer [OF calmD(2) [OF calm_prepared]]]

lemma prepared_after_rollback:
  assumes "hibernateController (ptrs w)" shows "\<not> prepared (exec (RollbackHibernate E s c False) w)"
proof -
  have "wp (RollbackHibernate E s c False) (\<lambda>_ t. \<not> prepared t) w"
    unfolding RollbackHibernate_def IsSwitchOpen_def using assms
    by (auto simp: wp_simps intro!: prepared_rules wp_PostHibernate)
  then show ?thesis by (simp add: wp_def)
qed

lemma prepared_after_restore: "\<not> prepared (exec (RestoreHibernate E c st) w)"
  by (simp add: RestoreHibernate_def exec_PostHibernate)

lemma controller_kept: "beside_locks (\<lambda>w. hibernateController (ptrs w))"
  by (simp add: beside_locks_def outer_def inert_def ig_defs ig_quiet_def ig_monitor_def ig_customized_def)

lemma calm_controller: "calm (\<lambda>w. hibernateController (ptrs w))"
  using controller_kept by (simp add: calm_def)

lemma keeps_controller_prepare: "keeps (\<lambda>w. hibernateController (ptrs w)) (PrepareHibernateWithTimeout E c)"
  using calmD [OF calm_controller]
  unfolding PrepareHibernateWithTimeout_def PrepareHibernate_def PrepareHibernate_end_def
  by (auto intro!: keeps_intros keeps_PrepareHibernate_begin keeps_PreHibernate calm_controller)

lemma keeps_controller_hibernate: "keeps (\<lambda>w. hibernateController (ptrs w)) (ControllerHibernate E)"
  using calmD [OF calm_controller] by (auto simp: ControllerHibernate_def intro!: keeps_intros)

lemma prepared_after_HibernateInner:
  assumes "\<not> prepared w" and "reason \<noteq> ''LowCapacity''"
  shows "\<not> prepared (exec (HibernateInner E False reason) w)"
  using assms
  by (auto simp: HibernateInner_def IsHibernating_def GetTickCount_def access_defs prepared_after_restore Let_def
      keepsD [OF keeps_controller_prepare] keepsD [OF keeps_controller_hibernate] intro!: prepared_after_rollback)



text \<open>
  C37: a preparation that timed out is not stopped.  When the thread goes on after the request was
  rolled back, it tells every callback to prepare and marks the controller prepared, although the
  request is over and nothing is left to tell them that hibernation ended.
\<close>

lemma prepared_PrepareHibernate_end: "prepared (exec (PrepareHibernate_end E) w)"
  using keepsD [OF keeps_SetState [OF calmD(2) [OF calm_prepared]]]
    keepsD [OF keeps_device_action(2) [OF calmD(7) [OF calm_prepared] calmD(5) [OF calm_prepared]]]
  by (simp add: PrepareHibernate_end_def exec_PreHibernate)

lemma keeps_busy_end: "keeps busy (PrepareHibernate_end E)"
  using calmD [OF calm_examples(2)]
  by (auto simp: PrepareHibernate_end_def intro!: keeps_intros keeps_PreHibernate)

theorem late_preparation_never_undone:
  fixes E originalState
  assumes "extBool E (Hibernation PrepareTimedOut) (trace w)"
    and "extInt E (Hibernation PrepareTimedOut) (trace w) > 0"
  defines "w2 \<equiv> exec (RollbackHibernate E originalState False False) (exec (PrepareHibernateWithTimeout E False) w)"
  shows "\<not> result (PrepareHibernateWithTimeout E False) w \<and> \<not> hibernating (psm w2) \<and>
    hibPrepared (hib (exec (PrepareHibernate_late E False True) w2)) \<and>
    \<not> hibernating (psm (exec (PrepareHibernate_late E False True) w2))"
proof -
  have "\<not> busy w2" using busy_after_rollback by (simp add: w2_def)
  then show ?thesis
    using assms(1,2) prepared_PrepareHibernate_end keepsD [OF keeps_busy_end]
    by (simp add: PrepareHibernate_late_def PrepareHibernateWithTimeout_def access_defs)
qed

definition timeout_env :: env where
  "timeout_env = sample_env\<lparr>extBool := (\<lambda>c tr. c = Hibernation PrepareTimedOut), extInt := (\<lambda>c tr. 1)\<rparr>"

theorem late_preparation_never_undone_witness:
  "hibPrepared (hib (exec (PrepareHibernate_late timeout_env False True)
     (exec (RollbackHibernate timeout_env AWAKE False False)
       (exec (PrepareHibernateWithTimeout timeout_env False) sample_world))))"
  using late_preparation_never_undone [of timeout_env sample_world AWAKE] by (simp add: timeout_env_def)

section \<open>The delay after preparation\<close>

lemma delay_value:
  "result (GetPreHibernateDelay E) w =
    (let d = (word_of_int (extInt E GetTick (trace w) - preHibernateStart (psm w)) :: uint32)
     in if d > 3500 then 0 else 3500 - d)"
  by (simp add: GetPreHibernateDelay_def GetTickCount_def access_defs Let_def)

text \<open>
  The remaining delay never exceeds 3500 ms, and while the time since preparation fits in 32 bits
  it is exactly what is left of 3500 ms.
\<close>

lemma pre_hibernate_delay_exact:
  assumes "0 \<le> extInt E GetTick (trace w) - preHibernateStart (psm w)"
    and "extInt E GetTick (trace w) - preHibernateStart (psm w) < 2 ^ 32"
  shows "int (unat (result (GetPreHibernateDelay E) w)) =
      max 0 (3500 - (extInt E GetTick (trace w) - preHibernateStart (psm w)))"
proof -
  define n where "n = extInt E GetTick (trace w) - preHibernateStart (psm w)"
  have n: "0 \<le> n" "n < 2 ^ 32" using assms by (simp_all only: n_def)
  then have u: "uint (word_of_int n :: uint32) = n"
    by (simp add: uint_word_of_int take_bit_eq_mod)
  have c: "(word_of_int n :: uint32) > 3500 \<longleftrightarrow> n > 3500"
    using u by (simp add: word_less_def)
  have "uint (3500 - (word_of_int n :: uint32)) = 3500 - n" if "n \<le> 3500"
    using that u n by (subst uint_sub_lem [THEN iffD1]) simp_all
  then show ?thesis
    unfolding delay_value n_def [symmetric] Let_def using c n
    by (cases "n > 3500") (simp_all add: uint_nat [symmetric])
qed

theorem pre_hibernate_delay_exact_witness:
  "int (unat (result (GetPreHibernateDelay sample_env) sample_world)) = 2500"
  using pre_hibernate_delay_exact [of sample_env sample_world] by (simp add: sample_defs)

end
