(* ===== verification/Shutdown_Laws.thy ===== *)
theory Shutdown_Laws
  imports Shutdown_Control
begin

text \<open>
  Correctness of shutdown and reboot: one at a time, in the prescribed order, unless a callback takes
  it over.
\<close>

section \<open>Milestones\<close>

text \<open>
  The steps of a shutdown that others observe: the boot stage, the common event, the callbacks, the
  screens, the thread and the device itself.  Clock readings, parameters and questions to the callbacks
  that may take over are left out.
\<close>

fun milestone :: "ext_call \<Rightarrow> shutdown_call list" where
  "milestone (Shutdown (OnTakeOverShutdown _ _ _)) = []"
| "milestone (Shutdown (OnTakeOverHibernate _ _ _)) = []"
| "milestone (Shutdown (SetParameter _ _)) = []"
| "milestone (Shutdown RealTime) = []"
| "milestone (Shutdown SyncCallbacksTimedOut) = []"
| "milestone (Shutdown AsyncCallbacksTimedOut) = []"
| "milestone (Shutdown c) = [c]"
| "milestone _ = []"

definition milestones :: "world \<Rightarrow> shutdown_call list" where
  "milestones w = concat (map milestone (rev (trace w)))"

definition take_over_questions :: "world \<Rightarrow> ext_call list" where
  "take_over_questions w = filter (\<lambda>c. \<exists>o1 s b. c = Shutdown (OnTakeOverShutdown o1 s b)) (trace w)"

definition sync_calls :: "bool \<Rightarrow> obj list \<Rightarrow> shutdown_call list" where
  "sync_calls b cs = concat (map (\<lambda>c. [OnSyncShutdown c, OnSyncShutdownOrReboot c b]) cs)"

definition async_calls :: "bool \<Rightarrow> obj list \<Rightarrow> shutdown_call list" where
  "async_calls b cs = concat (map (\<lambda>c. [OnAsyncShutdown c, OnAsyncShutdownOrReboot c b]) cs)"

lemma milestones_upd [simp]:
  "milestones (w\<lparr>svc := x\<rparr>) = milestones w"
  "milestones (w\<lparr>trace := c # trace w\<rparr>) = milestones w @ milestone c"
  by (simp_all add: milestones_def)

lemma milestones_log [simp]: "milestones (exec (log_call c) w) = milestones w @ milestone c"
  by (simp add: log_call_def)

lemma milestones_ask [simp]:
  "milestones (exec (ask_int E c) w) = milestones w @ milestone c"
  "milestones (exec (ask_bool E c) w) = milestones w @ milestone c"
  by (simp_all add: ask_int_def ask_bool_def)

lemma milestones_sync_inner [simp]:
  "milestones (exec (TriggerSyncShutdownCallbackInner cs b) w) = milestones w @ sync_calls b cs"
  unfolding TriggerSyncShutdownCallbackInner_def
  by (induction cs arbitrary: w) (simp_all add: sync_calls_def)

lemma milestones_async_inner [simp]:
  "milestones (exec (TriggerAsyncShutdownCallbackInner cs b) w) = milestones w @ async_calls b cs"
  unfolding TriggerAsyncShutdownCallbackInner_def
  by (induction cs arbitrary: w) (simp_all add: async_calls_def)

lemma calls_append [simp]:
  "sync_calls b (xs @ ys) = sync_calls b xs @ sync_calls b ys"
  "async_calls b (xs @ ys) = async_calls b xs @ async_calls b ys"
  by (simp_all add: sync_calls_def async_calls_def)

lemma milestones_sync [simp]:
  "milestones (exec (TriggerSyncShutdownCallback b) w) = milestones w @ sync_calls b (priority_order (syncHolder (shut w)))"
  by (simp add: TriggerSyncShutdownCallback_def priority_order_def)

lemma milestones_async [simp]:
  "milestones (exec (TriggerAsyncShutdownCallback b) w) = milestones w @ async_calls b (priority_order (asyncHolder (shut w)))"
  by (simp add: TriggerAsyncShutdownCallback_def priority_order_def)

lemma milestones_TriggerTakeOverInner [simp]:
  "milestones (exec (TriggerTakeOverInner E (\<lambda>c. OnTakeOverShutdown c r b) cs t) w) = milestones w"
  by (induction cs arbitrary: t w) simp_all

lemma milestones_TakeOverShutdownAction [simp]:
  "milestones (exec (TakeOverShutdownAction E r b) w) = milestones w"
  by (simp add: TakeOverShutdownAction_def TriggerTakeOverShutdownCallback_def TriggerTakeOverCallback_def)

lemma shut_kept [simp]:
  "shut (exec (TakeOverShutdownAction E r b) w) = shut w"
  "shut (exec (log_call c) w) = shut w" "shut (exec (ask_int E c) w) = shut w"
  "shut (exec (mod_svc g) w) = shut w"
  "shut (exec (TriggerSyncShutdownCallback b) w) = shut w"
  "shut (exec (TriggerSyncShutdownCallbackInner cs b) w) = shut w"
  by (rule keepsD, auto simp: ig_quiet_def intro!: keeps_intros)+

lemma result_TriggerTakeOverInner_svc:
  "result (TriggerTakeOverInner E g cs t) (w\<lparr>svc := x\<rparr>) = result (TriggerTakeOverInner E g cs t) w \<and>
   exec (TriggerTakeOverInner E g cs t) (w\<lparr>svc := x\<rparr>) = (exec (TriggerTakeOverInner E g cs t) w)\<lparr>svc := x\<rparr>"
proof (induction cs arbitrary: t w)
  case (Cons c cs)
  have swap: "w\<lparr>svc := x, trace := y\<rparr> = w\<lparr>trace := y, svc := x\<rparr>" for y by simp
  show ?case
    using Cons [of "t \<or> extBool E (Shutdown (g c)) (trace w)" "w\<lparr>trace := Shutdown (g c) # trace w\<rparr>"]
    by (simp add: ask_bool_def log_call_def swap)
qed simp

lemma result_TakeOverShutdownAction_svc [simp]:
  "result (TakeOverShutdownAction E r b) (w\<lparr>svc := x\<rparr>) = result (TakeOverShutdownAction E r b) w"
  by (simp add: TakeOverShutdownAction_def TriggerTakeOverShutdownCallback_def TriggerTakeOverCallback_def
      result_TriggerTakeOverInner_svc)

section \<open>Order\<close>



text \<open>
  C34: the thread that ends a shutdown calls the asynchronous callbacks in order of priority (all of them
  unless the wait for them times out, otherwise a first part), and acts on the device only after
  that; then it clears the flag, so that a new request is possible.
\<close>

theorem shutdown_thread_sequence:
  assumes "devicePowerAction (ptrs w)"
  shows "\<exists>n. milestones (exec (shutdown_thread E reason isReboot) w) = milestones w @
      async_calls isReboot (take n (priority_order (asyncHolder (shut w)))) @
      [if isReboot then DeviceReboot reason else DeviceShutdown reason] \<and>
    (extBool E (Shutdown AsyncCallbacksTimedOut) (trace w) \<or> n = length (priority_order (asyncHolder (shut w)))) \<and>
    \<not> shuttingDown (svc (exec (shutdown_thread E reason isReboot) w))"
proof -
  let ?n = "if extBool E (Shutdown AsyncCallbacksTimedOut) (trace w)
    then nat (extInt E (Shutdown AsyncCallbacksTimedOut) (trace w)) else length (priority_order (asyncHolder (shut w)))"
  have "ptrs (exec (Prepare E isReboot) w) = ptrs w"
    by (rule keepsD) (auto simp: Prepare_def wait_for_callbacks_def ig_quiet_def intro!: keeps_intros)
  with assms have "milestones (exec (shutdown_thread E reason isReboot) w) = milestones w @
      async_calls isReboot (take ?n (priority_order (asyncHolder (shut w)))) @
      [if isReboot then DeviceReboot reason else DeviceShutdown reason]"
    by (simp add: shutdown_thread_def Prepare_def wait_for_callbacks_def mod_svc_def ask_int_def)
  moreover have "\<not> shuttingDown (svc (exec (shutdown_thread E reason isReboot) w))"
    by (simp add: shutdown_thread_def mod_svc_def)
  ultimately show ?thesis by (intro exI [of _ ?n]) simp
qed

theorem shutdown_thread_sequence_witness:
  "\<exists>n. milestones (exec (shutdown_thread sample_env ''user'' True) sample_world) =
    async_calls True (take n [9]) @ [DeviceReboot ''user'']"
  using shutdown_thread_sequence [of sample_world sample_env "''user''" True]
  by (auto simp: sample_world_def milestones_def priority_order_def no_callbacks_def)

section \<open>One at a time\<close>

lemma keeps_take_over_questions: "keeps take_over_questions (RebootOrShutdown E reason isReboot True)"
  unfolding RebootOrShutdown_def wait_for_callbacks_def SetShutdownReason_def
    PublishShutdownEvent_def TurnOffScreen_def TriggerSyncShutdownCallback_def
    TriggerSyncShutdownCallbackInner_def
  by (auto simp: take_over_questions_def intro!: keeps_intros)

lemma RebootOrShutdown_outcome:
  "(shuttingDown (svc w) \<longrightarrow> run_state (RebootOrShutdown E reason isReboot isForce) w = (ERR_SKIP_FUNCTION_CALL, w)) \<and>
   (\<not> shuttingDown (svc w) \<longrightarrow>
     result (RebootOrShutdown E reason isReboot isForce) w = ERR_OK \<and>
     shuttingDown (svc (exec (RebootOrShutdown E reason isReboot isForce) w)) =
       (isForce \<or> \<not> result (TakeOverShutdownAction E reason isReboot) w))"
proof -
  have svc: "svc (exec (TriggerSyncShutdownCallback b) v) = svc v"
    "svc (exec (TriggerSyncShutdownCallbackInner cs b) v) = svc v" "svc (exec (log_call c) v) = svc v"
    "svc (exec (ask_int E c) v) = svc v" for v b cs c
    by (rule keepsD, auto simp: ig_quiet_def intro!: keeps_intros)+
  show ?thesis
    by (simp add: RebootOrShutdown_def SetShutdownReason_def PublishShutdownEvent_def TurnOffScreen_def
        mod_svc_def svc wait_for_callbacks_def run_result_exec)
qed

text \<open>
  Shutdowns exclude one another.  While one is under way every request is refused with
  \<open>ERR_SKIP_FUNCTION_CALL\<close> and changes nothing, not even the record of calls.  A request that is
  not refused answers \<open>ERR_OK\<close>, and leaves the flag set exactly if it was not taken over; a
  forced reboot asks no callback whether it wants to take over, so it always goes through.
\<close>

lemma shutdown_exclusive:
  "(shuttingDown (svc w) \<longrightarrow> run_state (RebootOrShutdown E reason isReboot isForce) w = (ERR_SKIP_FUNCTION_CALL, w)) \<and>
   (\<not> shuttingDown (svc w) \<longrightarrow>
     result (RebootOrShutdown E reason isReboot isForce) w = ERR_OK \<and>
     shuttingDown (svc (exec (RebootOrShutdown E reason isReboot isForce) w)) =
       (isForce \<or> \<not> result (TakeOverShutdownAction E reason isReboot) w)) \<and>
   take_over_questions (exec (RebootOrShutdown E reason isReboot True) w) = take_over_questions w"
  using keepsD [OF keeps_take_over_questions, of E reason isReboot w]
    RebootOrShutdown_outcome [of w E reason isReboot isForce] by simp

theorem shutdown_exclusive_witness:
  "result (RebootOrShutdown sample_env ''user'' False False)
     (exec (RebootOrShutdown sample_env ''user'' False False) sample_world) = ERR_SKIP_FUNCTION_CALL"
proof -
  let ?w = "exec (RebootOrShutdown sample_env ''user'' False False) sample_world"
  have "\<not> result (TakeOverShutdownAction sample_env ''user'' False) sample_world"
    by (simp add: sample_defs TakeOverShutdownAction_def TriggerTakeOverShutdownCallback_def
        TriggerTakeOverCallback_def)
  then have "shuttingDown (svc ?w)"
    using shutdown_exclusive [of sample_world sample_env "''user''" False False] by (simp add: sample_defs)
  then show ?thesis
    using shutdown_exclusive [of ?w sample_env "''user''" False False] by (simp add: run_result_exec)
qed

section \<open>The thread\<close>

text \<open>
  Requests come from several threads, and each one that goes through leaves a detached thread behind.
  \<open>shutdown_step\<close> interleaves requests, the ends of detached threads and everything else the service
  does; its second component holds the threads that have not run yet, as the calls record them.
\<close>

fun thread_of :: "shutdown_call \<Rightarrow> (string \<times> bool) list" where
  "thread_of (DetachThread reason isReboot) = [(reason, isReboot)]"
| "thread_of _ = []"

definition detached :: "world \<Rightarrow> (string \<times> bool) list" where
  "detached w = concat (map thread_of (milestones w))"

inductive shutdown_step ::
  "env \<Rightarrow> world \<times> (string \<times> bool) list \<Rightarrow> world \<times> (string \<times> bool) list \<Rightarrow> bool" for E where
  request: "w' = exec (RebootOrShutdown E reason isReboot isForce) w \<Longrightarrow>
    shutdown_step E (w, ts) (w', ts @ drop (length (detached w)) (detached w'))"
| thread: "shutdown_step E (w, ts @ (reason, isReboot) # us) (exec (shutdown_thread E reason isReboot) w, ts @ us)"
| elsewhere: "shuttingDown (svc w') = shuttingDown (svc w) \<Longrightarrow> shutdown_step E (w, ts) (w', ts)"

lemma thread_of_calls [simp]:
  "concat (map thread_of (sync_calls b cs)) = []" "concat (map thread_of (async_calls b cs)) = []"
  by (induction cs) (simp_all add: sync_calls_def async_calls_def)

lemma RebootOrShutdown_detaches:
  "detached (exec (RebootOrShutdown E reason isReboot isForce) w) = detached w @
    (if shuttingDown (svc w) \<or> (\<not> isForce \<and> result (TakeOverShutdownAction E reason isReboot) w) then []
     else [(reason, isReboot)])"
  by (simp add: RebootOrShutdown_def SetShutdownReason_def PublishShutdownEvent_def TurnOffScreen_def
      wait_for_callbacks_def mod_svc_def detached_def)

lemma shutdown_thread_clears: "\<not> shuttingDown (svc (exec (shutdown_thread E reason isReboot) w))"
  by (simp add: shutdown_thread_def mod_svc_def)

definition one_thread :: "world \<times> (string \<times> bool) list \<Rightarrow> bool" where
  "one_thread s = (if shuttingDown (svc (fst s)) then length (snd s) = 1 else snd s = [])"

lemma shutdown_step_one_thread:
  assumes "shutdown_step E s s'" "one_thread s" shows "one_thread s'"
  using assms
proof cases
  case (request w' reason isReboot isForce w ts)
  with assms(2) RebootOrShutdown_outcome [of w E reason isReboot isForce] show ?thesis
    by (auto simp: one_thread_def RebootOrShutdown_detaches run_result_exec split: if_splits)
next
  case (thread w ts reason isReboot us)
  with assms(2) show ?thesis by (auto simp: one_thread_def shutdown_thread_clears split: if_splits)
next
  case (elsewhere w' w ts)
  with assms(2) show ?thesis by (auto simp: one_thread_def split: if_splits)
qed



end
