(* ===== verification/Suspend_Control.thy ===== *)
theory Suspend_Control
  imports Hibernate_Flow
begin

text \<open>
  The rest of \<open>SuspendController\<close> (\<open>services/native/src/suspend/suspend_controller.cpp\<close>): the monitors
  that turn key, lid, switch and time-out events into suspend requests, what a request does when the
  screen is on and when it is off, and the four actions it may end in.  The sleep timer itself is in
  theory \<open>Suspend_Base\<close>.

  A monitor is its configured reason, action and delay with the id of its key subscription; its
  listener is always \<open>ControlListener\<close>.  The configured sources, and \<open>Init\<close> with them, are in theory \<open>Source_Config\<close>.
\<close>

section \<open>Actions\<close>

definition GetSettingPowerSleepTime :: "env \<Rightarrow> int \<Rightarrow> int M" where
  "GetSettingPowerSleepTime E defaultTime = do {
     p \<leftarrow> gets ptrs;
     if \<not> pms p then State_Monad.return defaultTime
     else do {
       charging \<leftarrow> IsPowerConnected E;
       if charging then GetSettingPowerAcSleepTime E defaultTime
       else GetSettingPowerDcSleepTime E defaultTime } }"

definition POWER_SLEEP_DEFAULT_TIME :: int where "POWER_SLEEP_DEFAULT_TIME = 60000"
definition POWER_SLEEP_NEVER :: int where "POWER_SLEEP_NEVER = -1"
definition POWER_SLEEP_NOW :: int where "POWER_SLEEP_NOW = 0"

text \<open>The arithmetic of \<open>CalculateAutoSleepResult\<close> on the two settings.\<close>

definition auto_sleep_result :: "SuspendDeviceType \<Rightarrow> int \<Rightarrow> int \<Rightarrow> int" where
  "auto_sleep_result reason displayOff powerSleepTime =
    (if powerSleepTime = POWER_SLEEP_NEVER then POWER_SLEEP_NEVER
     else if reason = SUSPEND_DEVICE_REASON_POWER_KEY \<or> reason = SUSPEND_DEVICE_REASON_SWITCH \<or>
             reason = SUSPEND_DEVICE_REASON_LID then powerSleepTime
     else if powerSleepTime \<le> displayOff then POWER_SLEEP_NOW
     else wrap64 (powerSleepTime - displayOff))"

definition CalculateAutoSleepResult :: "env \<Rightarrow> SuspendDeviceType \<Rightarrow> int M" where
  "CalculateAutoSleepResult E reason = do {
     p \<leftarrow> gets ptrs;
     displayOff \<leftarrow> (if pms p then GetSettingDisplayOffTime E POWER_SLEEP_DEFAULT_TIME
                    else State_Monad.return 0);
     powerSleep \<leftarrow> GetSettingPowerSleepTime E POWER_SLEEP_DEFAULT_TIME;
     State_Monad.return (auto_sleep_result reason displayOff powerSleep) }"

definition SetAutoSleep :: "env \<Rightarrow> SuspendDeviceType \<Rightarrow> unit M" where
  "SetAutoSleep E reason = do {
     p \<leftarrow> gets ptrs;
     if \<not> suspStateMachine p then skip
     else do {
       stateReason \<leftarrow> GetReasonBySuspendType E reason;
       ret \<leftarrow> SetState E SLEEP stateReason False;
       cur \<leftarrow> GetState;
       whenM (ret \<and> cur = SLEEP) (do {
         TriggerSyncSleepCallback E False;
         SystemSuspend E False }) } }"

definition HandleAutoSleep :: "env \<Rightarrow> SuspendDeviceType \<Rightarrow> unit M" where
  "HandleAutoSleep E reason =
    (if \<not> F_CHARGING_TYPE E then SetAutoSleep E reason
     else do {
       autoSleepResult \<leftarrow> CalculateAutoSleepResult E reason;
       if autoSleepResult = POWER_SLEEP_NEVER then skip
       else if autoSleepResult = POWER_SLEEP_NOW then SetAutoSleep E reason
       else do {
         timer \<leftarrow> gets (\<lambda>w. suspTimer (ptrs w));
         whenM timer (SetTimer E POWER_TIMER TIMER_ID_AUTO_SLEEP (TaskAutoSleep reason)
           (word_of_int autoSleepResult)) } })"

definition FORCE_SLEEP_DELAY_MS :: uint32 where "FORCE_SLEEP_DELAY_MS = 8000"

definition HandleForceSleep :: "env \<Rightarrow> SuspendDeviceType \<Rightarrow> unit M" where
  "HandleForceSleep E reason = do {
     p \<leftarrow> gets ptrs;
     if \<not> suspStateMachine p then skip
     else do {
       whenM (F_FORCE_SLEEP_BROADCAST E \<and> pms p \<and> suspendController p) (SetForceSleepingFlag True);
       stateReason \<leftarrow> GetReasonBySuspendType E reason;
       ret \<leftarrow> SetState E SLEEP stateReason True;
       whenM ret (do {
         mod_susp (\<lambda>s. s\<lparr>onForceSleep := True\<rparr>);
         TriggerSyncSleepCallback E False;
         timer \<leftarrow> gets (\<lambda>w. suspTimer (ptrs w));
         whenM timer (SetTimer E POWER_TIMER TIMER_ID_SLEEP TaskForceSleep FORCE_SLEEP_DELAY_MS) }) } }"

text \<open>The task that \<open>HandleForceSleep\<close> leaves behind.\<close>

definition force_sleep_task :: "env \<Rightarrow> unit M" where
  "force_sleep_task E = do {
     cur \<leftarrow> GetState;
     whenM (cur = SLEEP) (SystemSuspend E True) }"

definition HandleHibernate :: "env \<Rightarrow> SuspendDeviceType \<Rightarrow> unit M" where
  "HandleHibernate E reason = do {
     p \<leftarrow> gets ptrs;
     if \<not> suspStateMachine p then skip
     else if \<not> pms p then skip
     else do {
       stateReason \<leftarrow> GetReasonBySuspendType E reason;
       _ \<leftarrow> PmsHibernate E False (GetReasonTypeString stateReason);
       skip } }"

definition HandleShutdown :: "env \<Rightarrow> SuspendDeviceType \<Rightarrow> unit M" where
  "HandleShutdown E reason = do {
     _ \<leftarrow> ControllerShutdown E (to_string (int (SuspendDeviceType_val reason)));
     skip }"

definition HandleAction :: "env \<Rightarrow> SuspendDeviceType \<Rightarrow> uint32 \<Rightarrow> unit M" where
  "HandleAction E reason action = do {
     (if action = ACTION_AUTO_SUSPEND then HandleAutoSleep E reason
      else if action = ACTION_FORCE_SUSPEND then HandleForceSleep E reason
      else if action = ACTION_HIBERNATE then HandleHibernate E reason
      else if action = ACTION_SHUTDOWN then HandleShutdown E reason
      else skip);
     mod_susp (\<lambda>s. s\<lparr>sleepTime := -1\<rparr>);
     mod_susp (\<lambda>s. s\<lparr>sleepAction := ACTION_NONE\<rparr>) }"

definition Execute :: "env \<Rightarrow> unit M" where
  "Execute E = do {
     s \<leftarrow> gets susp;
     HandleAction E (sleepReason s) (sleepAction s) }"

section \<open>Screens\<close>

text \<open>
  \<open>DualScreenSwitchAction\<close> of \<open>adapter/iswitch_action.cpp\<close>; the base class answers \<open>DEFAULT\<close> to
  everything.
\<close>

definition DoSwitchCloseBeforeSetState :: "env \<Rightarrow> SwitchActionKind \<Rightarrow> SwitchActionRet M" where
  "DoSwitchCloseBeforeSetState E k =
    (if k \<noteq> SWITCH_ACTION_DUAL_SCREEN then State_Monad.return SWITCH_RET_DEFAULT
     else do {
       isScreenOn \<leftarrow> IsFoldScreenOn E;
       action \<leftarrow> gets (\<lambda>w. switchActionValue (psm w));
       if action = ACTION_NONE then do {
         log_call (Window (DmsSetScreenSwitchState False isScreenOn));
         t \<leftarrow> GetTickCount E;
         _ \<leftarrow> PmsRefreshActivity E t USER_ACTIVITY_TYPE_SWITCH;
         State_Monad.return SWITCH_RET_HANDLED }
       else State_Monad.return SWITCH_RET_DEFAULT })"

definition DoSwitchCloseAfterSetState :: "env \<Rightarrow> SwitchActionKind \<Rightarrow> SwitchActionRet M" where
  "DoSwitchCloseAfterSetState E k =
    (if k \<noteq> SWITCH_ACTION_DUAL_SCREEN then State_Monad.return SWITCH_RET_DEFAULT
     else do {
       isScreenOn \<leftarrow> IsFoldScreenOn E;
       action \<leftarrow> gets (\<lambda>w. switchActionValue (psm w));
       whenM (action \<noteq> ACTION_NONE) (log_call (Window (DmsSetScreenSwitchState False isScreenOn)));
       State_Monad.return SWITCH_RET_DEFAULT })"

definition PowerOffInternalScreen :: "env \<Rightarrow> SuspendDeviceType \<Rightarrow> unit M" where
  "PowerOffInternalScreen E type = do {
     reason \<leftarrow> GetReasonBySuspendType E type;
     SetInternalScreenDisplayState E DISPLAY_OFF reason }"

definition PowerOffAllScreens :: "env \<Rightarrow> SuspendDeviceType \<Rightarrow> unit M" where
  "PowerOffAllScreens E type = do {
     reason \<leftarrow> GetReasonBySuspendType E type;
     log_call (Window (DmsSetScreenPowerForAll DISPLAY_OFF (GetDmsReasonByPowerReason (rosenCode E) reason))) }"

definition IsPowerOffInernalScreenOnlyScene :: "SuspendDeviceType \<Rightarrow> uint32 \<Rightarrow> bool \<Rightarrow> bool M" where
  "IsPowerOffInernalScreenOnlyScene reason action isScreenOn = do {
     n \<leftarrow> GetExternalScreenNumber;
     State_Monad.return (reason = SUSPEND_DEVICE_REASON_SWITCH \<and> isScreenOn \<and> action = ACTION_NONE \<and> n > 0) }"

definition ProcessPowerOffInternalScreenOnly :: "env \<Rightarrow> SuspendDeviceType \<Rightarrow> unit M" where
  "ProcessPowerOffInternalScreenOnly E reason = do {
     PowerOffInternalScreen E reason;
     t \<leftarrow> GetTickCount E;
     _ \<leftarrow> PmsRefreshActivity E t USER_ACTIVITY_TYPE_SWITCH;
     skip }"

section \<open>Requests\<close>

definition SuspendWhenStateSleep :: "env \<Rightarrow> SuspendDeviceType \<Rightarrow> uint32 \<Rightarrow> unit M" where
  "SuspendWhenStateSleep E reason action = do {
     p \<leftarrow> gets ptrs;
     sv \<leftarrow> gets svc;
     s \<leftarrow> gets susp;
     isOpen \<leftarrow> IsSwitchOpen;
     if \<not> pms p then skip
     else if action = ACTION_HIBERNATE then do {
       SystemWakeup E;
       StartSleepTimer E reason action 0 }
     else if action \<noteq> ACTION_FORCE_SUSPEND then skip
     else if sleepType s = ACTION_AUTO_SUSPEND then do {
       SystemWakeup E;
       StartSleepTimer E reason action 0 }
     else if sleepType s = ACTION_FORCE_SUSPEND then
       (if (lidCheckEnable sv \<and> \<not> isInLidMode sv) \<or> (\<not> lidCheckEnable sv \<and> isOpen) then skip
        else do {
          SystemWakeup E;
          SystemSuspend E True })
     else skip }"

definition SuspendWhenScreenOff :: "env \<Rightarrow> SuspendDeviceType \<Rightarrow> uint32 \<Rightarrow> uint32 \<Rightarrow> unit M" where
  "SuspendWhenScreenOff E reason action delay = do {
     p \<leftarrow> gets ptrs;
     sv \<leftarrow> gets svc;
     if \<not> pms p then skip
     else if (lidCheckEnable sv \<and> reason \<noteq> SUSPEND_DEVICE_REASON_LID) \<or>
             (\<not> lidCheckEnable sv \<and> reason \<noteq> SUSPEND_DEVICE_REASON_SWITCH) then skip
     else if \<not> suspStateMachine p then skip
     else do {
       cur \<leftarrow> GetState;
       if cur = INACTIVE then do {
         StopSleep E;
         StartSleepTimer E reason action delay }
       else if cur = SLEEP then SuspendWhenStateSleep E reason action
       else skip } }"

definition CheckDuringCall :: "env \<Rightarrow> SuspendDeviceType \<Rightarrow> bool M" where
  "CheckDuringCall E reason = do {
     enabled \<leftarrow> gets (\<lambda>w. duringCallStateEnable (svc w));
     if enabled \<and> reason = SUSPEND_DEVICE_REASON_POWER_KEY then do {
       mode \<leftarrow> ask_int E (Window DmsGetFoldDisplayMode);
       if mode = foldSub E then HandleDuringCall E False else State_Monad.return False }
     else State_Monad.return False }"

definition ControlListenerInner :: "env \<Rightarrow> SuspendDeviceType \<Rightarrow> uint32 \<Rightarrow> uint32 \<Rightarrow> unit M" where
  "ControlListenerInner E reason action delay = do {
     k \<leftarrow> gets (\<lambda>w. switchAction (psm w));
     before \<leftarrow> (if reason = SUSPEND_DEVICE_REASON_SWITCH \<and> k \<noteq> SWITCH_ACTION_NULL
                then DoSwitchCloseBeforeSetState E k else State_Monad.return SWITCH_RET_DEFAULT);
     if before = SWITCH_RET_HANDLED then skip
     else do {
       stateReason \<leftarrow> GetReasonBySuspendType E reason;
       ret \<leftarrow> SetState E INACTIVE stateReason (reason \<noteq> SUSPEND_DEVICE_REASON_TIMEOUT);
       whenM (reason = SUSPEND_DEVICE_REASON_SWITCH \<and> k \<noteq> SWITCH_ACTION_NULL)
         (do { _ \<leftarrow> DoSwitchCloseAfterSetState E k; skip });
       whenM ret (StartSleepTimer E reason action delay) } }"

definition ControlListener :: "env \<Rightarrow> SuspendDeviceType \<Rightarrow> uint32 \<Rightarrow> uint32 \<Rightarrow> unit M" where
  "ControlListener E reason action delay = do {
     p \<leftarrow> gets ptrs;
     if \<not> pms p then skip
     else if \<not> suspStateMachine p then skip
     else do {
       busy \<leftarrow> CheckDialogAndShuttingDown;
       if busy then skip
       else do {
         blocked \<leftarrow> (if MapReasonToBlockType reason \<noteq> BLOCK_NONE
                     then IsScreenOffBlocked (MapReasonToBlockType reason) else State_Monad.return False);
         if blocked then skip
         else do {
           whenM (reason = SUSPEND_DEVICE_REASON_SWITCH) (SetSwitchAction action);
           if F_CHARGING_TYPE E \<and> reason \<noteq> SUSPEND_DEVICE_REASON_SWITCH \<and> action = ACTION_NONE then skip
           else do {
             isScreenOn \<leftarrow> IsScreenOn E;
             turning \<leftarrow> IsStateTurningAwake;
             if \<not> isScreenOn \<and> \<not> (F_CHARGING_TYPE E \<and> turning)
             then SuspendWhenScreenOff E reason action delay
             else do {
               internalOnly \<leftarrow> IsPowerOffInernalScreenOnlyScene reason action isScreenOn;
               if F_EXTERNAL_SCREEN E \<and> internalOnly then ProcessPowerOffInternalScreenOnly E reason
               else do {
                 inCall \<leftarrow> CheckDuringCall E reason;
                 if inCall then skip
                 else ControlListenerInner E reason action delay } } } } } } }"

section \<open>Monitors\<close>

definition GetSpecifiedSuspendMonitor :: "SuspendDeviceType \<Rightarrow> SuspendMonitor option M" where
  "GetSpecifiedSuspendMonitor type = gets (\<lambda>w. monitorMap (susp w) type)"

definition Notify :: "env \<Rightarrow> SuspendMonitor \<Rightarrow> unit M" where
  "Notify E m = ControlListener E (monReason m) (monAction m) (monDelayMs m)"

definition suspend_monitor_task :: "env \<Rightarrow> SuspendDeviceType \<Rightarrow> unit M" where
  "suspend_monitor_task E reason = do {
     monitor \<leftarrow> GetSpecifiedSuspendMonitor reason;
     case monitor of None \<Rightarrow> skip | Some m \<Rightarrow> Notify E m }"

definition SWITCH_TRIGGER_WAKEUP_OR_SUSPEND_MSG :: nat where "SWITCH_TRIGGER_WAKEUP_OR_SUSPEND_MSG = 4"

definition ExecSuspendMonitorByReason :: "env \<Rightarrow> SuspendDeviceType \<Rightarrow> unit M" where
  "ExecSuspendMonitorByReason E reason =
    (if reason = SUSPEND_DEVICE_REASON_SWITCH
     then SetDelayTimerTask E 0 SWITCH_TRIGGER_WAKEUP_OR_SUSPEND_MSG (TaskSuspendMonitor reason)
     else log_call (Queue (SubmitTask (TaskSuspendMonitor reason))))"

text \<open>The task of \<open>HandleEvent\<close>: the screen-off timer expired.\<close>

definition activity_off_task :: "env \<Rightarrow> unit M" where
  "activity_off_task E = do {
     monitor \<leftarrow> GetSpecifiedSuspendMonitor SUSPEND_DEVICE_REASON_TIMEOUT;
     case monitor of None \<Rightarrow> skip
     | Some m \<Rightarrow> do {
         p \<leftarrow> gets ptrs;
         whenM (pms p) (do { _ \<leftarrow> CheckDialogFlag; skip });
         Notify E m } }"

section \<open>The power key\<close>

definition RecordPowerKeyDown :: "env \<Rightarrow> bool \<Rightarrow> unit M" where
  "RecordPowerKeyDown E interrupting = do {
     p \<leftarrow> gets ptrs;
     if \<not> suspStateMachine p then skip
     else do {
       isScreenOn \<leftarrow> IsScreenOn E;
       (if \<not> isScreenOn then mod_susp (\<lambda>s. s\<lparr>powerkeyDownWhenScreenOff := True\<rparr>)
        else mod_susp (\<lambda>s. s\<lparr>powerkeyDownWhenScreenOff := interrupting\<rparr>));
       if \<not> pms p then skip
       else do { _ \<leftarrow> CheckDialogFlag; skip } } }"

definition IsPowerkeyScreenOffBlocked :: "env \<Rightarrow> bool M" where
  "IsPowerkeyScreenOffBlocked E = do {
     p \<leftarrow> gets ptrs;
     blockedMode \<leftarrow> gets (\<lambda>w. powerkeyBlockedFoldMode (svc w));
     if \<not> pms p then State_Monad.return False
     else if blockedMode < 0 then State_Monad.return False
     else do {
       curMode \<leftarrow> ask_int E (Window DmsGetFoldDisplayMode);
       State_Monad.return (curMode = blockedMode) } }"

definition POWERKEY_MIN_INTERVAL :: int where "POWERKEY_MIN_INTERVAL = 350"

definition IsPowerkeyUpTooFrequent :: "env \<Rightarrow> bool M" where
  "IsPowerkeyUpTooFrequent E = do {
     last \<leftarrow> gets (\<lambda>w. lastPowerkeyUpTime (susp w));
     currTime \<leftarrow> GetTickCount E;
     if last \<noteq> 0 \<and> wrap64 (currTime - last) < POWERKEY_MIN_INTERVAL then State_Monad.return True
     else do {
       mod_susp (\<lambda>s. s\<lparr>lastPowerkeyUpTime := currTime\<rparr>);
       State_Monad.return False } }"

text \<open>
  \<open>WakeupController::IsWakeupReasonConfigMatched\<close>: the reason the kernel gives for the wakeup ends in a
  line feed, which is dropped before it is looked up among the configured sources.
\<close>

definition GetWakeupReason :: "env \<Rightarrow> string M" where
  "GetWakeupReason E = do {
     reason \<leftarrow> gets (\<lambda>w. extString E (Service WakeupReason) (trace w));
     log_call (Service WakeupReason);
     State_Monad.return (butlast reason) }"

definition ActionIsWakeupReasonConfigMatched :: "env \<Rightarrow> bool M" where
  "ActionIsWakeupReasonConfigMatched E = do {
     reason \<leftarrow> GetWakeupReason E;
     sources \<leftarrow> gets (\<lambda>w. wakeupActionSources (wake w));
     State_Monad.return (reason \<noteq> '''' \<and> sources reason \<noteq> None) }"

definition WakeupIsWakeupReasonConfigMatched :: "env \<Rightarrow> WakeupDeviceType \<Rightarrow> bool M" where
  "WakeupIsWakeupReasonConfigMatched E reason = do {
     p \<leftarrow> gets ptrs;
     if \<not> pms p then State_Monad.return False
     else if \<not> wakeupActionController p then State_Monad.return False
     else if reason = WAKEUP_DEVICE_POWER_BUTTON then ActionIsWakeupReasonConfigMatched E
     else State_Monad.return False }"

text \<open>The key was released.  The flag \<open>powerkeyScreenOff_\<close> stays set until the submitted task ends.\<close>

definition Suspend_ReceivePowerkeyCallback :: "env \<Rightarrow> SuspendMonitor \<Rightarrow> unit M" where
  "Suspend_ReceivePowerkeyCallback E m = do {
     p \<leftarrow> gets ptrs;
     if \<not> pms p then skip
     else if \<not> suspendController p then skip
     else if \<not> wakeupController p then skip
     else do {
       blocked \<leftarrow> IsPowerkeyScreenOffBlocked E;
       if blocked then skip
       else do {
         flag \<leftarrow> gets (\<lambda>w. isWakeupReasonConfigMatched (susp w));
         matched \<leftarrow> (if \<not> F_WAKEUP_ACTION E then State_Monad.return False
                     else if flag then State_Monad.return True
                     else WakeupIsWakeupReasonConfigMatched E WAKEUP_DEVICE_POWER_BUTTON);
         if matched then mod_susp (\<lambda>s. s\<lparr>isWakeupReasonConfigMatched := False\<rparr>)
         else do {
           frequent \<leftarrow> IsPowerkeyUpTooFrequent E;
           if frequent then skip
           else do {
             down \<leftarrow> GetPowerkeyDownWhenScreenOff;
             if down then skip
             else do {
               whenM (stateAction p) (BeginPowerkeyScreenOff E);
               mod_susp (\<lambda>s. s\<lparr>powerkeyScreenOff := True\<rparr>);
               log_call (Queue (SubmitTask (TaskPowerkeyScreenOff (monReason m) (monAction m) (monDelayMs m)))) } } } } } }"

definition powerkey_screen_off_task :: "env \<Rightarrow> SuspendDeviceType \<Rightarrow> uint32 \<Rightarrow> uint32 \<Rightarrow> unit M" where
  "powerkey_screen_off_task E reason action delay = do {
     ControlListener E reason action delay;
     mod_susp (\<lambda>s. s\<lparr>powerkeyScreenOff := False\<rparr>);
     p \<leftarrow> gets ptrs;
     whenM (pms p \<and> stateAction p) (EndPowerkeyScreenOff E) }"

section \<open>Initialisation\<close>

record SuspendSource =
  srcReason :: SuspendDeviceType
  srcAction :: uint32
  srcDelay :: uint32

definition CreateMonitor :: "SuspendSource \<Rightarrow> SuspendMonitor option" where
  "CreateMonitor source =
    (if srcReason source \<in> {SUSPEND_DEVICE_REASON_POWER_KEY, SUSPEND_DEVICE_REASON_TIMEOUT,
        SUSPEND_DEVICE_REASON_LID, SUSPEND_DEVICE_REASON_SWITCH, SUSPEND_DEVICE_REASON_TP_COVER}
     then Some \<lparr>monReason = srcReason source, monAction = srcAction source, monDelayMs = srcDelay source,
                monKeyId = -1\<rparr>
     else None)"

definition RETRY_COUNT_TIMES :: nat where "RETRY_COUNT_TIMES = 4"

text \<open>
  The retry loop of \<open>PowerKeySuspendMonitor::Init\<close> and \<open>PowerkeyWakeupMonitor::Init\<close>: unsubscribe the
  cached id, subscribe, and try again if that failed or gave the same id, four times at most.  The
  argument counts the attempts left.
\<close>

primrec subscribe_key :: "env \<Rightarrow> string \<Rightarrow> int \<Rightarrow> nat \<Rightarrow> int M" where
  "subscribe_key E key cache 0 = State_Monad.return (-1)"
| "subscribe_key E key cache (Suc left) = do {
     log_call (Service (InputKeyUnsubscribe cache));
     i \<leftarrow> ask_int E (Service (InputKeySubscribe key));
     if (i < 0 \<or> i = cache) \<and> left \<noteq> 0 then subscribe_key E key cache left
     else State_Monad.return i }"

definition PowerKeySuspendMonitor_Init :: "env \<Rightarrow> SuspendMonitor \<Rightarrow> (bool \<times> SuspendMonitor) M" where
  "PowerKeySuspendMonitor_Init E m =
    (if \<not> F_MULTIMODAL_INPUT E then State_Monad.return (False, m)
     else if monKeyId m \<ge> 0 then State_Monad.return (True, m)
     else do {
       present \<leftarrow> ask_bool E (Service InputManagerPresent);
       if \<not> present then State_Monad.return (False, m)
       else do {
         cache \<leftarrow> gets (\<lambda>w. powerkeyReleaseIdCache (susp w));
         i \<leftarrow> subscribe_key E ''powerkey up'' cache RETRY_COUNT_TIMES;
         mod_susp (\<lambda>s. s\<lparr>powerkeyReleaseIdCache := i\<rparr>);
         State_Monad.return (i \<ge> 0, m\<lparr>monKeyId := i\<rparr>) } })"

definition TPCoverSuspendMonitor_Init :: "env \<Rightarrow> SuspendMonitor \<Rightarrow> (bool \<times> SuspendMonitor) M" where
  "TPCoverSuspendMonitor_Init E m =
    (if \<not> F_MULTIMODAL_INPUT E then State_Monad.return (False, m)
     else if monKeyId m \<ge> 0 then State_Monad.return (True, m)
     else do {
       present \<leftarrow> ask_bool E (Service InputManagerPresent);
       if \<not> present then State_Monad.return (False, m)
       else do {
         i \<leftarrow> ask_int E (Service (InputKeySubscribe ''tp cover''));
         State_Monad.return (i \<ge> 0, m\<lparr>monKeyId := i\<rparr>) } })"

definition SuspendMonitor_Init :: "env \<Rightarrow> SuspendMonitor \<Rightarrow> (bool \<times> SuspendMonitor) M" where
  "SuspendMonitor_Init E m =
    (if monReason m = SUSPEND_DEVICE_REASON_POWER_KEY then PowerKeySuspendMonitor_Init E m
     else if monReason m = SUSPEND_DEVICE_REASON_TP_COVER then TPCoverSuspendMonitor_Init E m
     else State_Monad.return (True, m))"

definition SuspendMonitor_Cancel :: "env \<Rightarrow> SuspendMonitor \<Rightarrow> unit M" where
  "SuspendMonitor_Cancel E m =
    (if monReason m \<in> {SUSPEND_DEVICE_REASON_POWER_KEY, SUSPEND_DEVICE_REASON_TP_COVER} \<and> F_MULTIMODAL_INPUT E
     then do {
       present \<leftarrow> ask_bool E (Service InputManagerPresent);
       whenM (present \<and> monKeyId m \<ge> 0) (log_call (Service (InputKeyUnsubscribe (monKeyId m)))) }
     else skip)"

definition add_monitor :: "env \<Rightarrow> SuspendSource \<Rightarrow> unit M" where
  "add_monitor E source = (case CreateMonitor source of
     None \<Rightarrow> skip
   | Some m \<Rightarrow> do {
       (ok, m') \<leftarrow> SuspendMonitor_Init E m;
       whenM ok (mod_susp (\<lambda>s. s\<lparr>monitorMap :=
         (case monitorMap s (monReason m') of
            None \<Rightarrow> (monitorMap s)(monReason m' \<mapsto> m')
          | Some _ \<Rightarrow> monitorMap s)\<rparr>)) })"

text \<open>The keys of \<open>monitorMap_\<close> in the order of \<open>std::map\<close>.\<close>

definition monitor_reasons :: "SuspendDeviceType list" where
  "monitor_reasons = [SUSPEND_DEVICE_REASON_TIMEOUT, SUSPEND_DEVICE_REASON_LID, SUSPEND_DEVICE_REASON_POWER_KEY,
     SUSPEND_DEVICE_REASON_SWITCH, SUSPEND_DEVICE_REASON_TP_COVER]"

definition Cancel :: "env \<Rightarrow> unit M" where
  "Cancel E = do {
     ms \<leftarrow> gets (\<lambda>w. monitorMap (susp w));
     for_each (\<lambda>r. case ms r of None \<Rightarrow> skip | Some m \<Rightarrow> SuspendMonitor_Cancel E m) monitor_reasons;
     mod_susp (\<lambda>s. s\<lparr>monitorMap := (\<lambda>_. None)\<rparr>) }"

definition Susp_AddCallback :: "env \<Rightarrow> obj option \<Rightarrow> SleepPriority \<Rightarrow> unit M" where
  "Susp_AddCallback E callback priority = (case callback of
     None \<Rightarrow> skip
   | Some c \<Rightarrow> do {
       pid \<leftarrow> ask_int E (Service CallerPid);
       uid \<leftarrow> ask_int E (Service CallerUid);
       SleepHolder_AddCallback c priority (pid, uid) })"

definition Susp_RemoveCallback :: "obj option \<Rightarrow> unit M" where
  "Susp_RemoveCallback callback =
    (case callback of None \<Rightarrow> skip | Some c \<Rightarrow> SleepHolder_RemoveCallback c)"

end
