(* ===== verification/Client_Requests.thy ===== *)
theory Client_Requests
  imports Hibernate_Flow
begin

text \<open>
  Requests of clients that \<open>PowerMgrService\<close> remembers on their behalf, and what happens to them when
  the client dies: the filtering strategies, forced time-out, locking the screen after a time-out, and
  the registration of callbacks.  \<open>DeathRecipientManager\<close>
  (\<open>services/native/src/death_recipient_manager.cpp\<close>) keeps, for every client object, the
  functions to run at its death, one per name; \<open>death_callback\<close> gives the function of a name.
\<close>

section \<open>Death recipients\<close>

definition death_callback :: "env \<Rightarrow> obj \<Rightarrow> string \<Rightarrow> unit M" where
  "death_callback E remote name = do {
     p \<leftarrow> gets ptrs;
     if \<not> pms p then skip
     else if name = ''SetPowerKeyFilteringStrategy'' then RemoveScreenOffBlock BLOCK_POWER_KEY
     else if name = ''SetLidFilteringStrategy'' then RemoveScreenOffBlock BLOCK_LID
     else if name = ''SetInterfaceCallFilteringStrategy'' then RemoveScreenOffBlock BLOCK_SUSPEND_DEVICE_INTERFACE
     else if name = ''SetProxFilteringStrategy'' then SetProxFilteringStrategy E False
     else if name = ''RegisterRunningLockChangedCallback'' then
       whenM (runningLockMgr p) (RemoveAllRunningLockChangedCallbacks (Some remote))
     else skip }"

definition Manager_AddDeathRecipient :: "env \<Rightarrow> obj option \<Rightarrow> string \<Rightarrow> int \<times> int \<Rightarrow> unit M" where
  "Manager_AddDeathRecipient E invoker name pidUid = (case invoker of
     None \<Rightarrow> skip
   | Some t \<Rightarrow> do {
       proxy \<leftarrow> ask_bool E (Service (IsProxyObject t));
       if \<not> proxy then skip
       else do {
         m \<leftarrow> gets (\<lambda>w. clientDeathRecipientMap (svc w));
         whenM (m t = None) (log_call (Callback (AddDeathRecipient t)));
         mod_svc (\<lambda>s. s\<lparr>clientDeathRecipientMap := (clientDeathRecipientMap s)(t \<mapsto>
           (case m t of None \<Rightarrow> [(name, pidUid)] | Some l \<Rightarrow> omap_emplace name pidUid l))\<rparr>) } })"

definition Manager_RemoveDeathRecipient :: "env \<Rightarrow> obj \<Rightarrow> unit M" where
  "Manager_RemoveDeathRecipient E t = do {
     m \<leftarrow> gets (\<lambda>w. clientDeathRecipientMap (svc w));
     (case m t of None \<Rightarrow> skip
      | Some l \<Rightarrow> do {
          for_each (\<lambda>e. death_callback E t (fst e)) l;
          mod_svc (\<lambda>s. s\<lparr>clientDeathRecipientMap := (clientDeathRecipientMap s)(t := None)\<rparr>) }) }"

definition Manager_OnRemoteDied :: "env \<Rightarrow> obj option \<Rightarrow> unit M" where
  "Manager_OnRemoteDied E remote =
    (case remote of None \<Rightarrow> skip | Some t \<Rightarrow> Manager_RemoveDeathRecipient E t)"

definition RemoveDeathRecipientObj :: "obj \<Rightarrow> unit M" where
  "RemoveDeathRecipientObj t = do {
     m \<leftarrow> gets (\<lambda>w. clientDeathRecipientMap (svc w));
     whenM (m t \<noteq> None) (do {
       log_call (Callback (RemoveDeathRecipient t));
       mod_svc (\<lambda>s. s\<lparr>clientDeathRecipientMap := (clientDeathRecipientMap s)(t := None)\<rparr>) }) }"

section \<open>Filtering strategies\<close>

datatype PowerKeyFilteringStrategy =
    DISABLE_LONG_PRESS_FILTERING
  | LONG_PRESS_FILTERING_ONCE
  | POWER_KEY_UP_SHORT_PRESS_FILTERING
  | POWER_KEY_UP_SHORT_PRESS_NOT_FILTERING
  | POWER_KEY_STRATEGY_RAW nat

definition CheckManager :: "env \<Rightarrow> PowerErrors option M" where
  "CheckManager E = do {
     system \<leftarrow> ask_bool E (Service PermissionIsSystem);
     if \<not> system then State_Monad.return (Some ERR_SYSTEM_API_DENIED)
     else do {
       ok \<leftarrow> granted E ''ohos.permission.POWER_MANAGER'';
       State_Monad.return (if ok then None else Some ERR_PERMISSION_DENIED) } }"

definition caller :: "env \<Rightarrow> (int \<times> int) M" where
  "caller E = do {
     pid \<leftarrow> ask_int E (Service CallerPid);
     uid \<leftarrow> ask_int E (Service CallerUid);
     State_Monad.return (pid, uid) }"

definition SetPowerKeyFilteringStrategy :: "env \<Rightarrow> PowerKeyFilteringStrategy \<Rightarrow> obj option \<Rightarrow> PowerErrors M" where
  "SetPowerKeyFilteringStrategy E strategy token = do {
     denied \<leftarrow> CheckManager E;
     case denied of
       Some e \<Rightarrow> State_Monad.return e
     | None \<Rightarrow> do {
         pidUid \<leftarrow> caller E;
         (case strategy of
            DISABLE_LONG_PRESS_FILTERING \<Rightarrow> mod_svc (\<lambda>s. s\<lparr>shutdownDialogForbid := False\<rparr>)
          | LONG_PRESS_FILTERING_ONCE \<Rightarrow> mod_svc (\<lambda>s. s\<lparr>shutdownDialogForbid := True\<rparr>)
          | POWER_KEY_UP_SHORT_PRESS_FILTERING \<Rightarrow> do {
              UpdateScreenOffBlock BLOCK_POWER_KEY token;
              Manager_AddDeathRecipient E token ''SetPowerKeyFilteringStrategy'' pidUid }
          | POWER_KEY_UP_SHORT_PRESS_NOT_FILTERING \<Rightarrow> do {
              RemoveScreenOffBlock BLOCK_POWER_KEY;
              Manager_AddDeathRecipient E token ''SetPowerKeyFilteringStrategy'' pidUid }
          | POWER_KEY_STRATEGY_RAW _ \<Rightarrow> skip);
         State_Monad.return ERR_OK } }"

text \<open>Strategies of two values, as the number the client passed; \<open>STRATEGY_MAX\<close> is two.\<close>

definition SetLidFilteringStrategy :: "env \<Rightarrow> nat \<Rightarrow> obj option \<Rightarrow> PowerErrors M" where
  "SetLidFilteringStrategy E strategy token = do {
     denied \<leftarrow> CheckManager E;
     case denied of
       Some e \<Rightarrow> State_Monad.return e
     | None \<Rightarrow>
         if strategy \<ge> 2 then State_Monad.return ERR_PARAM_INVALID
         else do {
           pidUid \<leftarrow> caller E;
           (if strategy = 1 then UpdateScreenOffBlock BLOCK_LID token else RemoveScreenOffBlock BLOCK_LID);
           Manager_AddDeathRecipient E token ''SetLidFilteringStrategy'' pidUid;
           State_Monad.return ERR_OK } }"

definition SetInterfaceCallFilteringStrategy :: "env \<Rightarrow> nat \<Rightarrow> obj option \<Rightarrow> PowerErrors M" where
  "SetInterfaceCallFilteringStrategy E strategy token = do {
     denied \<leftarrow> CheckManager E;
     case denied of
       Some e \<Rightarrow> State_Monad.return e
     | None \<Rightarrow>
         if strategy \<ge> 2 then State_Monad.return ERR_PARAM_INVALID
         else do {
           pidUid \<leftarrow> caller E;
           (if strategy = 1 then UpdateScreenOffBlock BLOCK_SUSPEND_DEVICE_INTERFACE token
            else RemoveScreenOffBlock BLOCK_SUSPEND_DEVICE_INTERFACE);
           Manager_AddDeathRecipient E token ''SetInterfaceCallFilteringStrategy'' pidUid;
           State_Monad.return ERR_OK } }"

definition PmsSetProxFilteringStrategy :: "env \<Rightarrow> bool \<Rightarrow> obj option \<Rightarrow> PowerErrors M" where
  "PmsSetProxFilteringStrategy E filteringClose token = do {
     system \<leftarrow> ask_bool E (Service PermissionIsSystem);
     if \<not> system then State_Monad.return ERR_SYSTEM_API_DENIED
     else do {
       pidUid \<leftarrow> caller E;
       Manager_AddDeathRecipient E token ''SetProxFilteringStrategy'' pidUid;
       SetProxFilteringStrategy E filteringClose;
       State_Monad.return ERR_OK } }"

section \<open>Timing out\<close>

definition PmsSetForceTimingOut :: "env \<Rightarrow> bool \<Rightarrow> obj option \<Rightarrow> PowerErrors M" where
  "PmsSetForceTimingOut E enabled token = do {
     system \<leftarrow> ask_bool E (Service PermissionIsSystem);
     if \<not> system then State_Monad.return ERR_SYSTEM_API_DENIED
     else do {
       old \<leftarrow> gets (\<lambda>w. forceTimingOutInvoker (svc w));
       (case token of None \<Rightarrow> skip
        | Some t \<Rightarrow> do {
            proxy \<leftarrow> ask_bool E (Service (IsProxyObject t));
            whenM (proxy \<and> old \<noteq> Some t) (do {
              (case old of None \<Rightarrow> skip | Some o1 \<Rightarrow> log_call (Callback (RemoveDeathRecipient o1)));
              mod_svc (\<lambda>s. s\<lparr>forceTimingOutInvoker := Some t\<rparr>);
              log_call (Callback (AddDeathRecipient t)) }) });
       SetForceTimingOut E enabled;
       State_Monad.return ERR_OK } }"

definition InvokerDeathRecipient_OnRemoteDied :: "env \<Rightarrow> obj option \<Rightarrow> unit M" where
  "InvokerDeathRecipient_OnRemoteDied E remote = do {
     p \<leftarrow> gets ptrs;
     whenM (remote \<noteq> None \<and> pms p) (SetForceTimingOut E False) }"

text \<open>
  \<open>onChange\<close> of the helper behind \<open>LockScreenAfterTimingOut\<close>: it hands the three switches to the state
  machine, the first of them in the highest position.
\<close>

definition apply_lock_screen :: "unit M" where
  "apply_lock_screen = do {
     v \<leftarrow> gets (\<lambda>w. helper_output (lockScreenHelper (svc w)));
     LockScreenAfterTimingOut (bit v 2) (bit v 1) (bit v 0) }"

definition PmsLockScreenAfterTimingOut ::
  "env \<Rightarrow> bool \<Rightarrow> bool \<Rightarrow> bool \<Rightarrow> obj option \<Rightarrow> int \<Rightarrow> PowerErrors M" where
  "PmsLockScreenAfterTimingOut E enabledLockScreen checkLock sendScreenOffEvent token appid = do {
     system \<leftarrow> ask_bool E (Service PermissionIsSystem);
     if \<not> system then State_Monad.return ERR_SYSTEM_API_DENIED
     else do {
       pid \<leftarrow> ask_int E (Service CallerPid);
       (case token of None \<Rightarrow> skip
        | Some t \<Rightarrow> do {
            desc \<leftarrow> gets (\<lambda>w. extString E (Service (ObjectDescriptor t)) (trace w));
            log_call (Service (ObjectDescriptor t));
            h \<leftarrow> gets (\<lambda>w. lockScreenHelper (svc w));
            (case helper_Set desc pid appid (ToBitset3 enabledLockScreen checkLock sendScreenOffEvent) h of
               (h', r) \<Rightarrow> do {
                 mod_svc (\<lambda>s. s\<lparr>lockScreenHelper := h'\<rparr>);
                 (case r of
                    AddRecipient \<Rightarrow> log_call (Callback (AddDeathRecipient t))
                  | RemoveRecipient \<Rightarrow> log_call (Callback (RemoveDeathRecipient t))
                  | KeepDeathRecipient \<Rightarrow> skip);
                 apply_lock_screen }) });
       State_Monad.return ERR_OK } }"

definition LockScreenAfterTimingOutWithAppid :: "env \<Rightarrow> int \<Rightarrow> bool \<Rightarrow> obj option \<Rightarrow> PowerErrors M" where
  "LockScreenAfterTimingOutWithAppid E appid lockScreen token = do {
     system \<leftarrow> ask_bool E (Service PermissionIsSystem);
     if \<not> system then State_Monad.return ERR_SYSTEM_API_DENIED
     else do {
       ok \<leftarrow> granted E ''ohos.permission.TIMEOUT_SCREENOFF_DISABLE_LOCK'';
       if \<not> ok then State_Monad.return ERR_PERMISSION_DENIED
       else if lockScreen then PmsLockScreenAfterTimingOut E True False True token appid
       else PmsLockScreenAfterTimingOut E False False False token appid } }"

definition MultiInvoker_OnRemoteDied :: "env \<Rightarrow> obj option \<Rightarrow> unit M" where
  "MultiInvoker_OnRemoteDied E remote = (case remote of None \<Rightarrow> skip
     | Some t \<Rightarrow> do {
         desc \<leftarrow> gets (\<lambda>w. extString E (Service (ObjectDescriptor t)) (trace w));
         log_call (Service (ObjectDescriptor t));
         h \<leftarrow> gets (\<lambda>w. lockScreenHelper (svc w));
         (case RemoveInvoker desc h of (h', removed) \<Rightarrow> do {
            mod_svc (\<lambda>s. s\<lparr>lockScreenHelper := h'\<rparr>);
            whenM removed apply_lock_screen });
         log_call (Callback (RemoveDeathRecipient t)) })"

section \<open>Registration of callbacks and small calls\<close>

definition PmsRegisterPowerStateCallback :: "env \<Rightarrow> obj \<Rightarrow> bool \<Rightarrow> bool M" where
  "PmsRegisterPowerStateCallback E callback isSync = do {
     pidUid \<leftarrow> caller E;
     ok \<leftarrow> granted E ''ohos.permission.POWER_MANAGER'';
     if \<not> ok then State_Monad.return False
     else do { RegisterPowerStateCallback callback isSync pidUid; State_Monad.return True } }"

definition PmsUnRegisterPowerStateCallback :: "env \<Rightarrow> obj \<Rightarrow> bool M" where
  "PmsUnRegisterPowerStateCallback E callback = do {
     _ \<leftarrow> caller E;
     ok \<leftarrow> granted E ''ohos.permission.POWER_MANAGER'';
     if \<not> ok then State_Monad.return False
     else do { UnRegisterPowerStateCallback callback; State_Monad.return True } }"

definition PmsRegisterSyncSleepCallback :: "env \<Rightarrow> obj option \<Rightarrow> SleepPriority \<Rightarrow> bool M" where
  "PmsRegisterSyncSleepCallback E callback priority = do {
     pidUid \<leftarrow> caller E;
     ok \<leftarrow> granted E ''ohos.permission.POWER_MANAGER'';
     if \<not> ok then State_Monad.return False
     else do {
       (case callback of None \<Rightarrow> skip | Some c \<Rightarrow> SleepHolder_AddCallback c priority pidUid);
       State_Monad.return True } }"

definition PmsUnRegisterSyncSleepCallback :: "env \<Rightarrow> obj option \<Rightarrow> bool M" where
  "PmsUnRegisterSyncSleepCallback E callback = do {
     _ \<leftarrow> caller E;
     ok \<leftarrow> granted E ''ohos.permission.POWER_MANAGER'';
     if \<not> ok then State_Monad.return False
     else do {
       (case callback of None \<Rightarrow> skip | Some c \<Rightarrow> SleepHolder_RemoveCallback c);
       State_Monad.return True } }"

definition RegisterSuspendTakeoverCallback :: "env \<Rightarrow> obj option \<Rightarrow> SleepPriority \<Rightarrow> bool M" where
  "RegisterSuspendTakeoverCallback E callback priority =
    (if \<not> F_TAKEOVER_SUSPEND E then State_Monad.return False
     else do {
       _ \<leftarrow> caller E;
       ok \<leftarrow> granted E ''ohos.permission.POWER_MANAGER'';
       p \<leftarrow> gets ptrs;
       if \<not> ok then State_Monad.return False
       else if \<not> suspendController p then State_Monad.return False
       else do {
         (case callback of None \<Rightarrow> skip | Some c \<Rightarrow> TakeOverHolder_AddCallback c priority);
         State_Monad.return True } })"

definition UnRegisterSuspendTakeoverCallback :: "env \<Rightarrow> obj option \<Rightarrow> bool M" where
  "UnRegisterSuspendTakeoverCallback E callback =
    (if \<not> F_TAKEOVER_SUSPEND E then State_Monad.return False
     else do {
       _ \<leftarrow> caller E;
       ok \<leftarrow> granted E ''ohos.permission.POWER_MANAGER'';
       if \<not> ok then State_Monad.return False
       else do {
         (case callback of None \<Rightarrow> skip | Some c \<Rightarrow> TakeOverHolder_RemoveCallback c);
         State_Monad.return True } })"

definition PmsRegisterSyncHibernateCallback :: "env \<Rightarrow> obj \<Rightarrow> HibernateCallbackPriority \<Rightarrow> bool M" where
  "PmsRegisterSyncHibernateCallback E callback priority =
    (if \<not> F_S4 E then State_Monad.return False
     else do {
       mod_ptrs (\<lambda>p. p\<lparr>hibernateController := True\<rparr>);
       RegisterSyncHibernateCallback E callback priority;
       State_Monad.return True })"

definition PmsUnRegisterSyncHibernateCallback :: "env \<Rightarrow> obj \<Rightarrow> bool M" where
  "PmsUnRegisterSyncHibernateCallback E callback =
    (if \<not> F_S4 E then State_Monad.return False
     else do {
       mod_ptrs (\<lambda>p. p\<lparr>hibernateController := True\<rparr>);
       UnregisterSyncHibernateCallback callback;
       State_Monad.return True })"

definition PmsSetDisplaySuspend :: "env \<Rightarrow> bool \<Rightarrow> bool M" where
  "PmsSetDisplaySuspend E enable = do {
     system \<leftarrow> ask_bool E (Service PermissionIsSystem);
     if \<not> system then State_Monad.return False
     else do { SetDisplaySuspend E enable; State_Monad.return True } }"

definition NormalizeDisplayId :: "env \<Rightarrow> nat \<Rightarrow> nat" where
  "NormalizeDisplayId E display = (if F_LOCK_MULTI_SCREEN E then display else RUNNINGLOCK_DISPLAY_ID_ALL)"

definition PmsIsRunningLockEnabled :: "env \<Rightarrow> RunningLockType \<Rightarrow> nat \<Rightarrow> (PowerErrors \<times> bool) M" where
  "PmsIsRunningLockEnabled E type display = do {
     ok \<leftarrow> granted E ''ohos.permission.RUNNING_LOCK'';
     if \<not> ok then State_Monad.return (ERR_PERMISSION_DENIED, False)
     else do {
       num \<leftarrow> GetValidRunningLockNum E type (NormalizeDisplayId E display);
       State_Monad.return (ERR_OK, num > 0) } }"

definition PmsRefreshActivityReason :: "env \<Rightarrow> int \<Rightarrow> UserActivityType \<Rightarrow> PowerErrors M" where
  "PmsRefreshActivityReason E callTimeMs type = do {
     system \<leftarrow> ask_bool E (Service PermissionIsSystem);
     if \<not> system then State_Monad.return ERR_SYSTEM_API_DENIED
     else do {
       ok \<leftarrow> granted E ''ohos.permission.REFRESH_USER_ACTION'';
       if \<not> ok then State_Monad.return ERR_PERMISSION_DENIED
       else if F_SCREEN_DECOUPLING E then State_Monad.return ERR_CAPABILITY_NOT_SUPPORTED
       else do {
         done \<leftarrow> PmsRefreshActivityInner E callTimeMs type;
         State_Monad.return (if done then ERR_OK else ERR_FREQUENT_FUNCTION_CALL) } } }"

section \<open>Observers of screen locks\<close>

definition CheckRunningLockObserver :: "env \<Rightarrow> PowerErrors option M" where
  "CheckRunningLockObserver E = do {
     system \<leftarrow> ask_bool E (Service PermissionIsSystem);
     if \<not> system then State_Monad.return (Some ERR_SYSTEM_API_DENIED)
     else do {
       ok \<leftarrow> granted E ''ohos.permission.RUNNING_LOCK'';
       State_Monad.return (if ok then None else Some ERR_PERMISSION_DENIED) } }"

definition PmsRegisterRunningLockChangedCallback :: "env \<Rightarrow> obj option \<Rightarrow> nat \<Rightarrow> PowerErrors M" where
  "PmsRegisterRunningLockChangedCallback E callback display =
    (if \<not> F_MONITOR_LOCK_CHANGE E then State_Monad.return ERR_OK
     else do {
       pidUid \<leftarrow> caller E;
       denied \<leftarrow> CheckRunningLockObserver E;
       case denied of
         Some e \<Rightarrow> State_Monad.return e
       | None \<Rightarrow>
           if callback = None then State_Monad.return ERR_PARAM_INVALID
           else do {
             RegisterRunningLockChangedCallback callback (fst pidUid) (snd pidUid) (NormalizeDisplayId E display);
             Manager_AddDeathRecipient E callback ''RegisterRunningLockChangedCallback'' pidUid;
             State_Monad.return ERR_OK } })"

definition PmsUnRegisterRunningLockChangedCallback :: "env \<Rightarrow> obj option \<Rightarrow> nat \<Rightarrow> PowerErrors M" where
  "PmsUnRegisterRunningLockChangedCallback E callback display =
    (if \<not> F_MONITOR_LOCK_CHANGE E then State_Monad.return ERR_OK
     else do {
       pidUid \<leftarrow> caller E;
       denied \<leftarrow> CheckRunningLockObserver E;
       case denied of
         Some e \<Rightarrow> State_Monad.return e
       | None \<Rightarrow> (case callback of
           None \<Rightarrow> State_Monad.return ERR_PARAM_INVALID
         | Some c \<Rightarrow> do {
             UnRegisterRunningLockChangedCallback callback (NormalizeDisplayId E display);
             more \<leftarrow> HasRunningLockChangedCallbacks callback;
             whenM (\<not> more) (RemoveDeathRecipientObj c);
             State_Monad.return ERR_OK }) })"

end
