(* ===== verification/Wakeup_Control.thy ===== *)
theory Wakeup_Control
  imports Suspend_Control Client_Requests
begin

text \<open>
  \<open>WakeupController\<close> (\<open>services/native/src/wakeup/wakeup_controller.cpp\<close>) and \<open>WakeupActionController\<close>
  (\<open>services/native/src/wakeup_action\<close>): which events wake the device, when a wakeup is skipped, and
  what a wakeup does.  The configured sources and the settings of the gestures are in theory \<open>Source_Config\<close>.

  The power-key callback waits twice for the screen-off task of an earlier key release.  It is modelled
  as two steps, \<open>powerkey_down_begin\<close> up to the second wait and \<open>powerkey_down_end\<close> after it;
  between them the screen-off task runs to its end.  Input events carry the fields the code reads; the
  values of the constants of the input framework are parameters (\<open>constant_of\<close>).
\<close>

section \<open>Screens\<close>

definition Is2In1PadMode :: "env \<Rightarrow> bool" where
  "Is2In1PadMode E = (boolParameter E ''const.window.support_window_pcmode_switch'' False \<and>
     \<not> boolParameter E ''persist.sceneboard.ispcmode'' False)"

definition IsSystemAccount :: "env \<Rightarrow> int \<Rightarrow> bool" where
  "IsSystemAccount E userId = (userId \<ge> startUserId E \<and> userId \<le> maxUserId E)"

definition IsValidUserId :: "env \<Rightarrow> int \<Rightarrow> bool" where
  "IsValidUserId E userId = (userId = 0 \<or> (userId \<ge> startUserId E \<and> userId \<le> maxUserId E))"

definition PmsIsScreenOn :: "env \<Rightarrow> bool M" where
  "PmsIsScreenOn E =
    (if \<not> F_MULTI_USER_SCREEN E then IsScreenOn E
     else do {
       uid \<leftarrow> ask_int E (Service CallerUid);
       userId \<leftarrow> ask_int E (Service (AccountOfUid uid));
       if \<not> IsValidUserId E userId then State_Monad.return False
       else if IsSystemAccount E userId then ask_bool E (Service (UserScreenOn userId))
       else ask_bool E (Service AnyUserScreenOn) })"

definition PowerOnInternalScreen :: "env \<Rightarrow> WakeupDeviceType \<Rightarrow> unit M" where
  "PowerOnInternalScreen E type = SetInternalScreenDisplayState E DISPLAY_ON (GetReasonByWakeType type)"

definition PowerOnAllScreens :: "env \<Rightarrow> WakeupDeviceType \<Rightarrow> unit M" where
  "PowerOnAllScreens E type = do {
     h \<leftarrow> IsHibernating;
     if F_S4 E \<and> h then skip
     else log_call (Window (DmsSetScreenPowerForAll DISPLAY_ON
            (GetDmsReasonByPowerReason (rosenCode E) (GetReasonByWakeType type)))) }"

definition IsPowerOnInernalScreenOnlyScene :: "env \<Rightarrow> WakeupDeviceType \<Rightarrow> bool M" where
  "IsPowerOnInernalScreenOnlyScene E reason = do {
     action \<leftarrow> gets (\<lambda>w. switchActionValue (psm w));
     n \<leftarrow> GetExternalScreenNumber;
     if reason = WAKEUP_DEVICE_SWITCH \<and> action = 0 \<and> n > 0 then IsScreenOn E
     else State_Monad.return False }"

definition ProcessPowerOnInternalScreenOnly :: "env \<Rightarrow> WakeupDeviceType \<Rightarrow> unit M" where
  "ProcessPowerOnInternalScreenOnly E reason = do {
     PowerOnInternalScreen E reason;
     t \<leftarrow> GetTickCount E;
     _ \<leftarrow> PmsRefreshActivity E t USER_ACTIVITY_TYPE_SWITCH;
     skip }"

definition HandleOnlySecondScreenWhenWakeup :: "env \<Rightarrow> WakeupDeviceType \<Rightarrow> unit M" where
  "HandleOnlySecondScreenWhenWakeup E reason =
    (if \<not> IsOnlySecondDisplayModeSupported E then skip
     else do {
       n \<leftarrow> GetExternalScreenNumber;
       need \<leftarrow> (if IsLidEventUsed E
               then gets (\<lambda>w. n > 0 \<and> reason \<noteq> WAKEUP_DEVICE_LID \<and> isInLidMode (svc w))
               else if n > 0 \<and> reason \<noteq> WAKEUP_DEVICE_SWITCH then do {
                 isOpen \<leftarrow> IsSwitchOpenByPath E;
                 State_Monad.return (\<not> isOpen) }
               else State_Monad.return False);
       p \<leftarrow> gets ptrs;
       whenM (suspendController p \<and> need) (PowerOffInternalScreen E SUSPEND_DEVICE_REASON_SWITCH) })"

section \<open>Wakeup\<close>

definition Wakeup :: "env \<Rightarrow> unit M" where
  "Wakeup E = do {
     p \<leftarrow> gets ptrs;
     if \<not> pms p then skip else whenM (suspendController p) (StopSleep E) }"

text \<open>\<open>SleepGuard\<close>: a background-task lock held while the body runs.\<close>

definition sleep_guard_info :: RunningLockInfo where
  "sleep_guard_info = (background_info ''S'')\<lparr>infoType := RUNNINGLOCK_BACKGROUND_TASK\<rparr>"

definition SleepGuard_begin :: "env \<Rightarrow> obj option M" where
  "SleepGuard_begin E = do {
     ok \<leftarrow> gets (\<lambda>w. extBool E (Service (NewToken ''S'')) (trace w));
     n \<leftarrow> ask_int E (Service (NewToken ''S''));
     if \<not> ok then State_Monad.return None
     else do {
       _ \<leftarrow> PmsCreateRunningLock E (nat n) sleep_guard_info;
       _ \<leftarrow> PmsLock E (nat n) 5000;
       State_Monad.return (Some (nat n)) } }"

definition with_sleep_guard :: "env \<Rightarrow> unit M \<Rightarrow> unit M" where
  "with_sleep_guard E body = do {
     token \<leftarrow> SleepGuard_begin E;
     body;
     BackgroundRunningLock_end E token }"

definition HandleWakeup :: "env \<Rightarrow> WakeupDeviceType \<Rightarrow> unit M" where
  "HandleWakeup E reason = do {
     internalOnly \<leftarrow> (if F_EXTERNAL_SCREEN E then IsPowerOnInernalScreenOnlyScene E reason
                      else State_Monad.return False);
     if internalOnly then ProcessPowerOnInternalScreenOnly E reason
     else do {
       cur \<leftarrow> GetState;
       whenM (cur \<noteq> AWAKE \<or> reason = WAKEUP_DEVICE_SWITCH \<or> reason = WAKEUP_DEVICE_LID)
         (with_sleep_guard E (do {
            Wakeup E;
            SystemWakeup E;
            _ \<leftarrow> SetState E AWAKE (GetReasonByWakeType reason) True;
            p \<leftarrow> gets ptrs;
            now \<leftarrow> GetState;
            whenM (suspendController p \<and> now = AWAKE) (TriggerSyncSleepCallback E True);
            whenM (F_EXTERNAL_SCREEN E) (HandleOnlySecondScreenWhenWakeup E reason) })) } }"

definition NeedToSkipCurrentWakeup :: "env \<Rightarrow> WakeupDeviceType \<Rightarrow> bool M" where
  "NeedToSkipCurrentWakeup E reason = do {
     s \<leftarrow> gets svc;
     isOpen \<leftarrow> IsSwitchOpen;
     k \<leftarrow> gets (\<lambda>w. switchAction (psm w));
     n \<leftarrow> GetExternalScreenNumber;
     let closed = (if lidCheckEnable s then isInLidMode s else \<not> isOpen);
         handled = (if closed \<and> k \<noteq> SWITCH_ACTION_NULL then DoWakeupInClosedState k = SWITCH_RET_DEFAULT
                    else closed);
         skipped = (if F_EXTERNAL_SCREEN E \<and> \<not> Is2In1PadMode E
                    then handled \<and> (n \<le> 0 \<or> \<not> IsOnlySecondDisplayModeSupported E) else handled)
     in
     if skipped then State_Monad.return True
     else do {
       h \<leftarrow> IsHibernating;
       if F_S4 E \<and> h then State_Monad.return True
       else do {
         screenOn \<leftarrow> PmsIsScreenOn E;
         if screenOn \<and> reason \<noteq> WAKEUP_DEVICE_SWITCH \<and> reason \<noteq> WAKEUP_DEVICE_LID then do {
           whenM (F_WATCH_RULES E) (log_call (Event OperateAfterScreenOn));
           State_Monad.return True }
         else State_Monad.return False } } }"

definition Wakeup_ControlListener :: "env \<Rightarrow> WakeupDeviceType \<Rightarrow> unit M" where
  "Wakeup_ControlListener E reason = do {
     system \<leftarrow> ask_bool E (Service PermissionIsSystem);
     p \<leftarrow> gets ptrs;
     if \<not> system then skip
     else if \<not> pms p then skip
     else do {
       skipped \<leftarrow> NeedToSkipCurrentWakeup E reason;
       whenM (\<not> skipped) (HandleWakeup E reason) } }"

definition ExecWakeupMonitorByReason :: "env \<Rightarrow> WakeupDeviceType \<Rightarrow> unit M" where
  "ExecWakeupMonitorByReason E reason =
    (if reason = WAKEUP_DEVICE_SWITCH
     then SetDelayTimerTask E 0 SWITCH_TRIGGER_WAKEUP_OR_SUSPEND_MSG (TaskWakeupMonitor reason)
     else log_call (Queue (SubmitTask (TaskWakeupMonitor reason))))"

definition wakeup_monitor_task :: "env \<Rightarrow> WakeupDeviceType \<Rightarrow> unit M" where
  "wakeup_monitor_task E reason = do {
     m \<leftarrow> gets (\<lambda>w. wakeMonitorMap (wake w) reason);
     case m of None \<Rightarrow> skip | Some monitor \<Rightarrow> Wakeup_ControlListener E (wmReason monitor) }"

section \<open>Configured wakeup actions\<close>

definition WAKEUP_ACTION_NONE :: uint32 where "WAKEUP_ACTION_NONE = 0"
definition WAKEUP_ACTION_HIBERNATE :: uint32 where "WAKEUP_ACTION_HIBERNATE = 1"
definition WAKEUP_ACTION_SHUTDOWN :: uint32 where "WAKEUP_ACTION_SHUTDOWN = 2"
definition WAKEUP_ACTION_INVALID :: uint32 where "WAKEUP_ACTION_INVALID = 3"

definition GetWakeupAction :: "string \<Rightarrow> uint32 M" where
  "GetWakeupAction reason = gets (\<lambda>w. case wakeupActionSources (wake w) reason of
     None \<Rightarrow> WAKEUP_ACTION_INVALID | Some (scene, action) \<Rightarrow> action)"

definition WakeupAction_mapSuspendDeviceType :: "string \<Rightarrow> SuspendDeviceType" where
  "WakeupAction_mapSuspendDeviceType reason =
    (if reason = ''53'' then SUSPEND_DEVICE_LOW_CAPACITY else SUSPEND_DEVICE_REASON_APPLICATION)"

definition WakeupAction_HandleHibernate :: "env \<Rightarrow> SuspendDeviceType \<Rightarrow> unit M" where
  "WakeupAction_HandleHibernate E reason = do {
     p \<leftarrow> gets ptrs;
     if \<not> pms p then skip
     else if reason = SUSPEND_DEVICE_LOW_CAPACITY
     then do { _ \<leftarrow> PmsHibernate E False ''LowCapacity''; skip }
     else do { _ \<leftarrow> PmsHibernate E False ''''; skip } }"

definition WakeupAction_HandleAction :: "env \<Rightarrow> string \<Rightarrow> string \<times> uint32 \<Rightarrow> unit M" where
  "WakeupAction_HandleAction E reason source =
    (if snd source = WAKEUP_ACTION_HIBERNATE
     then WakeupAction_HandleHibernate E (WakeupAction_mapSuspendDeviceType reason)
     else if snd source = WAKEUP_ACTION_SHUTDOWN
     then do { _ \<leftarrow> ControllerShutdown E (fst source); skip }
     else skip)"

definition ExecuteByGetReason :: "env \<Rightarrow> string \<Rightarrow> bool M" where
  "ExecuteByGetReason E reason = do {
     sources \<leftarrow> gets (\<lambda>w. wakeupActionSources (wake w));
     case sources reason of
       None \<Rightarrow> State_Monad.return False
     | Some source \<Rightarrow> do { WakeupAction_HandleAction E reason source; State_Monad.return True } }"

definition ProcessWakeupReason :: "env \<Rightarrow> unit M" where
  "ProcessWakeupReason E = do {
     cur \<leftarrow> GetState;
     p \<leftarrow> gets ptrs;
     if cur \<noteq> SLEEP then skip
     else if \<not> pms p then skip
     else if \<not> wakeupActionController p then skip
     else do {
       wakeupReason \<leftarrow> GetWakeupReason E;
       action \<leftarrow> GetWakeupAction wakeupReason;
       if action = WAKEUP_ACTION_NONE then skip
       else with_sleep_guard E (do {
         Wakeup E;
         whenM (suspendController p) (TriggerSyncSleepCallback E True);
         _ \<leftarrow> ExecuteByGetReason E wakeupReason;
         skip }) } }"

section \<open>The power key\<close>

text \<open>
  Up to the second wait.  \<open>None\<close>: the callback has returned; \<open>Some b\<close>: it goes on, and \<open>b\<close> says that an
  attempt to cancel the screen-off is under way.
\<close>

definition powerkey_down_begin :: "env \<Rightarrow> bool option M" where
  "powerkey_down_begin E = do {
     p \<leftarrow> gets ptrs;
     if \<not> pms p then State_Monad.return None
     else do {
       _ \<leftarrow> SetPowerKeyFilteringStrategy E DISABLE_LONG_PRESS_FILTERING None;
       now \<leftarrow> ask_int E (Service WallClock);
       _ \<leftarrow> PmsRefreshActivityInner E now USER_ACTIVITY_TYPE_BUTTON;
       if \<not> wakeupController p then State_Monad.return None
       else if \<not> suspendController p then State_Monad.return None
       else do {
         matched \<leftarrow> (if F_WAKEUP_ACTION E
                     then WakeupIsWakeupReasonConfigMatched E WAKEUP_DEVICE_POWER_BUTTON
                     else State_Monad.return False);
         if matched then do {
           ProcessWakeupReason E;
           mod_susp (\<lambda>s. s\<lparr>isWakeupReasonConfigMatched := True\<rparr>);
           State_Monad.return None }
         else do {
           whenM (F_WAKEUP_ACTION E) (mod_susp (\<lambda>s. s\<lparr>isWakeupReasonConfigMatched := False\<rparr>));
           off \<leftarrow> gets (\<lambda>w. powerkeyScreenOff (susp w));
           if off then do {
             trying \<leftarrow> TryToCancelScreenOff_begin E;
             State_Monad.return (Some trying) }
           else State_Monad.return (Some False) } } } }"

definition powerkey_down_end :: "env \<Rightarrow> WakeupMonitor \<Rightarrow> bool \<Rightarrow> unit M" where
  "powerkey_down_end E m trying = do {
     poweroffInterrupted \<leftarrow> (if trying then TryToCancelScreenOff_end E else State_Monad.return False);
     whenM poweroffInterrupted
       (do { _ \<leftarrow> PmsRefreshActivityInner E 0 USER_ACTIVITY_TYPE_BUTTON; skip });
     RecordPowerKeyDown E poweroffInterrupted;
     Wakeup_ControlListener E (wmReason m) }"

definition Wakeup_ReceivePowerkeyCallback :: "env \<Rightarrow> WakeupMonitor \<Rightarrow> unit M" where
  "Wakeup_ReceivePowerkeyCallback E m = do {
     go \<leftarrow> powerkey_down_begin E;
     case go of None \<Rightarrow> skip | Some trying \<Rightarrow> powerkey_down_end E m trying }"

section \<open>Monitors\<close>

definition wakeup_monitor_types :: "WakeupDeviceType list" where
  "wakeup_monitor_types = [WAKEUP_DEVICE_POWER_BUTTON, WAKEUP_DEVICE_MOUSE, WAKEUP_DEVICE_KEYBOARD,
     WAKEUP_DEVICE_PEN, WAKEUP_DEVICE_TOUCHPAD, WAKEUP_DEVICE_SINGLE_CLICK, WAKEUP_DEVICE_DOUBLE_CLICK,
     WAKEUP_DEVICE_LID, WAKEUP_DEVICE_SWITCH, WAKEUP_DEVICE_PICKUP, WAKEUP_DEVICE_TP_TOUCH]"

definition Wakeup_CreateMonitor :: "WakeupDeviceType \<Rightarrow> WakeupMonitor option" where
  "Wakeup_CreateMonitor reason = (if reason \<in> set wakeup_monitor_types
     then Some \<lparr>wmReason = reason, wmKeyId = -1\<rparr> else None)"

definition PowerkeyWakeupMonitor_Init :: "env \<Rightarrow> WakeupMonitor \<Rightarrow> (bool \<times> WakeupMonitor) M" where
  "PowerkeyWakeupMonitor_Init E m =
    (if \<not> F_MULTIMODAL_INPUT E then State_Monad.return (False, m)
     else if wmKeyId m \<ge> 0 then State_Monad.return (True, m)
     else do {
       present \<leftarrow> ask_bool E (Service InputManagerPresent);
       if \<not> present then State_Monad.return (False, m)
       else do {
         cache \<leftarrow> gets (\<lambda>w. powerkeyShortPressIdCache (wake w));
         i \<leftarrow> subscribe_key E ''powerkey down'' cache RETRY_COUNT_TIMES;
         mod_wake (\<lambda>s. s\<lparr>powerkeyShortPressIdCache := i\<rparr>);
         State_Monad.return (i \<ge> 0, m\<lparr>wmKeyId := i\<rparr>) } })"

definition PowerkeyWakeupMonitor_Cancel :: "env \<Rightarrow> WakeupMonitor \<Rightarrow> unit M" where
  "PowerkeyWakeupMonitor_Cancel E m = whenM (F_MULTIMODAL_INPUT E) (do {
     present \<leftarrow> ask_bool E (Service InputManagerPresent);
     whenM (present \<and> wmKeyId m \<ge> 0) (log_call (Service (InputKeyUnsubscribe (wmKeyId m)))) })"

definition add_wakeup_monitor :: "env \<Rightarrow> WakeupDeviceType \<Rightarrow> unit M" where
  "add_wakeup_monitor E reason = (case Wakeup_CreateMonitor reason of
     None \<Rightarrow> skip
   | Some m \<Rightarrow> do {
       (ok, m') \<leftarrow> (if reason = WAKEUP_DEVICE_POWER_BUTTON then PowerkeyWakeupMonitor_Init E m
                   else State_Monad.return (True, m));
       whenM ok (mod_wake (\<lambda>s. s\<lparr>wakeMonitorMap :=
         (case wakeMonitorMap s (wmReason m') of
            None \<Rightarrow> (wakeMonitorMap s)(wmReason m' \<mapsto> m')
          | Some _ \<Rightarrow> wakeMonitorMap s)\<rparr>)) })"

definition Wakeup_Cancel :: "env \<Rightarrow> unit M" where
  "Wakeup_Cancel E = do {
     ms \<leftarrow> gets (\<lambda>w. wakeMonitorMap (wake w));
     (case ms WAKEUP_DEVICE_POWER_BUTTON of None \<Rightarrow> skip | Some m \<Rightarrow> PowerkeyWakeupMonitor_Cancel E m);
     mod_wake (\<lambda>s. s\<lparr>wakeMonitorMap := (\<lambda>_. None)\<rparr>) }"

definition WakeupController_ctor :: "env \<Rightarrow> unit M" where
  "WakeupController_ctor E = do {
     whenM (F_MULTIMODAL_INPUT E) (RegisterMonitor E AWAKE);
     mod_wake (\<lambda>s. s\<lparr>eventHandleMap := (\<lambda>t.
       if t \<in> {WAKEUP_DEVICE_KEYBOARD, WAKEUP_DEVICE_MOUSE, WAKEUP_DEVICE_TOUCHPAD, WAKEUP_DEVICE_PEN,
               WAKEUP_DEVICE_TOUCH_SCREEN, WAKEUP_DEVICE_SINGLE_CLICK} then Some 0 else None)\<rparr>) }"

section \<open>Input events\<close>

definition CheckEventReciveTime :: "env \<Rightarrow> WakeupDeviceType \<Rightarrow> bool M" where
  "CheckEventReciveTime E wakeupType = do {
     now \<leftarrow> GetTickCount E;
     last \<leftarrow> gets (\<lambda>w. eventHandleMap (wake w) wakeupType);
     case last of None \<Rightarrow> State_Monad.return False
     | Some t \<Rightarrow>
         if t + 100 > now then State_Monad.return True
         else do {
           mod_wake (\<lambda>s. s\<lparr>eventHandleMap := (eventHandleMap s)(wakeupType \<mapsto> now)\<rparr>);
           State_Monad.return False } }"

record KeyEvent =
  keyDeviceId :: int
  keyCode :: int
  keyAction :: int
  keyDisableUserAction :: bool

record PointerEvent =
  pointerDeviceId :: int
  pointerAction :: int
  toolType :: int
  sourceType :: int
  pointerDisableUserAction :: bool

definition isRemoteEvent :: "env \<Rightarrow> int \<Rightarrow> bool M" where
  "isRemoteEvent E deviceId = do {
     p \<leftarrow> gets ptrs;
     collaborating \<leftarrow> (if pms p then IsRunningLockEnabled E RUNNINGLOCK_COORDINATION
                       else State_Monad.return False);
     State_Monad.return ((collaborating \<and> deviceId = - 1431655681) \<or> deviceId = - 1431655682) }"

definition isKeyboardKeycode :: "env \<Rightarrow> int \<Rightarrow> bool" where
  "isKeyboardKeycode E code =
    ((code \<ge> constant_of E ''KEYCODE_0'' \<and> code \<le> constant_of E ''KEYCODE_NUMPAD_RIGHT_PAREN'' \<and>
      code \<noteq> constant_of E ''KEYCODE_F1'') \<or>
     code \<in> set (map (constant_of E) [''KEYCODE_BRIGHTNESS_DOWN'', ''KEYCODE_BRIGHTNESS_UP'', ''KEYCODE_FN'',
       ''KEYCODE_VOLUME_MUTE'', ''KEYCODE_SOUND'', ''KEYCODE_MUTE'', ''KEYCODE_SWITCHVIDEOMODE'',
       ''KEYCODE_SEARCH'', ''KEYCODE_ASSISTANT'']))"

definition key_wakeup_type :: "env \<Rightarrow> int \<Rightarrow> WakeupDeviceType" where
  "key_wakeup_type E code =
    (if code = constant_of E ''KEYCODE_F1'' then WAKEUP_DEVICE_DOUBLE_CLICK
     else if code = constant_of E ''KEYCODE_STYLUS_SCREEN'' then WAKEUP_DEVICE_PEN
     else if code = constant_of E ''KEYCODE_WAKEUP'' then WAKEUP_DEVICE_TP_TOUCH
     else WAKEUP_DEVICE_UNKNOWN)"

definition OnInputEvent_key :: "env \<Rightarrow> KeyEvent \<Rightarrow> unit M" where
  "OnInputEvent_key E e = do {
     p \<leftarrow> gets ptrs;
     if \<not> pms p then skip
     else do {
       remote \<leftarrow> isRemoteEvent E (keyDeviceId e);
       if remote then skip
       else do {
         now \<leftarrow> ask_int E (Service WallClock);
         whenM (\<not> keyDisableUserAction e)
           (do { _ \<leftarrow> PmsRefreshActivityInner E now USER_ACTIVITY_TYPE_BUTTON; skip });
         state \<leftarrow> GetState;
         if state = AWAKE \<or> state = FREEZE then skip
         else if \<not> wakeupController p then skip
         else if isKeyboardKeycode E (keyCode e) then do {
           tooSoon \<leftarrow> CheckEventReciveTime E WAKEUP_DEVICE_KEYBOARD;
           whenM (\<not> tooSoon \<and> keyAction e \<noteq> constant_of E ''KEY_ACTION_UP'')
             (ExecWakeupMonitorByReason E WAKEUP_DEVICE_KEYBOARD) }
         else whenM (key_wakeup_type E (keyCode e) \<noteq> WAKEUP_DEVICE_UNKNOWN)
           (ExecWakeupMonitorByReason E (key_wakeup_type E (keyCode e))) } } }"

definition NonWindowEvent :: "env \<Rightarrow> int \<Rightarrow> bool" where
  "NonWindowEvent E action = (action \<notin> set (map (constant_of E) [''POINTER_ACTION_ENTER_WINDOW'',
     ''POINTER_ACTION_LEAVE_WINDOW'', ''POINTER_ACTION_PULL_IN_WINDOW'', ''POINTER_ACTION_PULL_OUT_WINDOW'']))"

definition TouchEventAfterScreenOn :: "env \<Rightarrow> PowerState \<Rightarrow> bool M" where
  "TouchEventAfterScreenOn E state =
    (if state = AWAKE \<or> state = FREEZE then do {
       whenM (F_WATCH_RULES E) (log_call (Event TouchAfterScreenOn));
       State_Monad.return True }
     else State_Monad.return False)"

definition DetermineWakeupDeviceType :: "env \<Rightarrow> int \<Rightarrow> int \<Rightarrow> WakeupDeviceType" where
  "DetermineWakeupDeviceType E tool source =
    (if tool = constant_of E ''TOOL_TYPE_PEN'' then WAKEUP_DEVICE_PEN
     else if source = constant_of E ''SOURCE_TYPE_MOUSE'' then WAKEUP_DEVICE_MOUSE
     else if source = constant_of E ''SOURCE_TYPE_TOUCHPAD'' then WAKEUP_DEVICE_TOUCHPAD
     else if source = constant_of E ''SOURCE_TYPE_TOUCHSCREEN'' then WAKEUP_DEVICE_SINGLE_CLICK
     else WAKEUP_DEVICE_UNKNOWN)"

definition IsNeedMouseDebounceAfterSuspend :: "env \<Rightarrow> PointerEvent \<Rightarrow> bool M" where
  "IsNeedMouseDebounceAfterSuspend E e = do {
     p \<leftarrow> gets ptrs;
     if \<not> pms p then State_Monad.return False
     else if \<not> suspendController p then State_Monad.return False
     else do {
       now \<leftarrow> GetTickCount E;
       s \<leftarrow> gets susp;
       State_Monad.return (lastForceSuspendStartTime s > 0 \<and> now \<ge> lastForceSuspendStartTime s \<and>
         wrap64 (now - lastForceSuspendStartTime s) \<le> mouseDebounceTimeAfterSuspend s \<and>
         pointerAction e = constant_of E ''POINTER_ACTION_MOVE'') } }"

definition OnInputEvent_pointer :: "env \<Rightarrow> PointerEvent \<Rightarrow> unit M" where
  "OnInputEvent_pointer E e = do {
     p \<leftarrow> gets ptrs;
     if \<not> pms p then skip
     else if \<not> NonWindowEvent E (pointerAction e) then skip
     else do {
       remote \<leftarrow> isRemoteEvent E (pointerDeviceId e);
       if remote then skip
       else do {
         bounced \<leftarrow> (if F_MOUSE_DEBOUNCE E then IsNeedMouseDebounceAfterSuspend E e
                     else State_Monad.return False);
         if bounced then skip
         else do {
           now \<leftarrow> ask_int E (Service WallClock);
           whenM (\<not> pointerDisableUserAction e)
             (do { _ \<leftarrow> PmsRefreshActivityInner E now USER_ACTIVITY_TYPE_TOUCH; skip });
           state \<leftarrow> GetState;
           screenOn \<leftarrow> TouchEventAfterScreenOn E state;
           if screenOn then skip
           else do {
             tooSoon \<leftarrow> CheckEventReciveTime E (DetermineWakeupDeviceType E (toolType e) (sourceType e));
             whenM (\<not> tooSoon \<and>
                 DetermineWakeupDeviceType E (toolType e) (sourceType e) \<noteq> WAKEUP_DEVICE_UNKNOWN)
               (ExecWakeupMonitorByReason E (DetermineWakeupDeviceType E (toolType e) (sourceType e))) } } } } }"

definition OnInputEvent_axis :: "env \<Rightarrow> unit M" where
  "OnInputEvent_axis E = do {
     p \<leftarrow> gets ptrs;
     if \<not> pms p then skip
     else do {
       now \<leftarrow> ask_int E (Service WallClock);
       _ \<leftarrow> PmsRefreshActivityInner E now USER_ACTIVITY_TYPE_ACCESSIBILITY;
       skip } }"

section \<open>Lid and switch\<close>

text \<open>\<open>HallSensorCallback\<close> for a valid event with the given status word.\<close>

definition HallSensorCallback :: "env \<Rightarrow> bool \<Rightarrow> uint32 \<Rightarrow> unit M" where
  "HallSensorCallback E foldScreenFlag status = do {
     mode \<leftarrow> (if F_LID_FOLD E then ask_int E (Window DmsGetFoldDisplayMode) else State_Monad.return 0);
     if F_LID_FOLD E \<and> foldScreenFlag \<and> mode \<noteq> foldMain E
     then mod_svc (\<lambda>s. s\<lparr>isInLidMode := False\<rparr>)
     else do {
       p \<leftarrow> gets ptrs;
       inLid \<leftarrow> gets (\<lambda>w. isInLidMode (svc w));
       if \<not> suspendController p then skip
       else if \<not> wakeupController p then skip
       else if status AND 1 \<noteq> 0 then
         (if inLid then skip
          else do {
            mod_svc (\<lambda>s. s\<lparr>isInLidMode := True\<rparr>);
            ExecSuspendMonitorByReason E SUSPEND_DEVICE_REASON_LID })
       else
         (if \<not> inLid then skip
          else do {
            mod_svc (\<lambda>s. s\<lparr>isInLidMode := False\<rparr>);
            ExecWakeupMonitorByReason E WAKEUP_DEVICE_LID }) } }"

definition DoSwitchOpen :: "env \<Rightarrow> SwitchActionKind \<Rightarrow> SwitchActionRet M" where
  "DoSwitchOpen E k =
    (if k \<noteq> SWITCH_ACTION_DUAL_SCREEN then State_Monad.return SWITCH_RET_DEFAULT
     else do {
       isScreenOn \<leftarrow> IsFoldScreenOn E;
       log_call (Window (DmsSetScreenSwitchState True isScreenOn));
       State_Monad.return SWITCH_RET_HANDLED })"

text \<open>The callback that \<open>SwitchSubscriberInit\<close> registers for switch events.\<close>

definition switch_event :: "env \<Rightarrow> bool \<Rightarrow> unit M" where
  "switch_event E switchedOff = do {
     p \<leftarrow> gets ptrs;
     if switchedOff then
       (if \<not> suspendController p then skip
        else do {
          SetSwitchState False;
          ExecSuspendMonitorByReason E SUSPEND_DEVICE_REASON_SWITCH })
     else
       (if \<not> wakeupController p then skip
        else do {
          k \<leftarrow> gets (\<lambda>w. switchAction (psm w));
          whenM (k \<noteq> SWITCH_ACTION_NULL) (do { _ \<leftarrow> DoSwitchOpen E k; skip });
          SetSwitchState True;
          ExecWakeupMonitorByReason E WAKEUP_DEVICE_SWITCH }) }"

end
