(* ===== verification/Control_Laws.thy ===== *)
theory Control_Laws
  imports Wakeup_Control
begin

text \<open>
  Correctness of the suspend and wakeup controllers: the two halves of a power-key press, the sleep
  timer, the guards of a wakeup, the key subscription, and the events of the cover switch.
\<close>

section \<open>Frames of a wakeup\<close>

lemma keeps_refresh:
  assumes "outer f" and "\<And>w x. f (w\<lparr>psm := (psm w)\<lparr>mDeviceState := x\<rparr>\<rparr>) = f w"
  shows "keeps f (PmsRefreshActivityInner E n u)" "keeps f (PmsRefreshActivity E n u)"
  using assms
  by (auto simp: PmsRefreshActivityInner_def PmsRefreshActivity_def CheckRefreshTime_def outer_ig trace_app
      intro!: keeps_intros)

lemma keeps_sleep_guard:
  assumes "beside_locks f" and "keeps f m"
  shows "keeps f (with_sleep_guard E m)"
  using assms(2) beside_locksD [OF assms(1)] keeps_lock_service [OF assms(1)]
  by (auto simp: with_sleep_guard_def SleepGuard_begin_def BackgroundRunningLock_end_def
      intro!: keeps_intros)

lemma keeps_screens:
  assumes "outer f"
  shows "keeps f (PowerOnInternalScreen E t)" "keeps f (PowerOffInternalScreen E s)"
    "keeps f (IsSwitchOpenByPath E)" "keeps f (PmsIsScreenOn E)" "keeps f (SystemWakeup E)" "keeps f (Wakeup E)"
  using assms
  by (auto simp: PowerOnInternalScreen_def PowerOffInternalScreen_def IsSwitchOpenByPath_def PmsIsScreenOn_def
      SystemWakeup_def Wakeup_def outer_ig trace_app intro!: keeps_intros)


text \<open>
  \<open>beside_wakeup\<close>: an observation that no wakeup touches, because it looks neither at the locks nor at
  what \<open>SetState\<close> and a refresh write.
\<close>

definition beside_wakeup :: "(world \<Rightarrow> 'b) \<Rightarrow> bool" where
  "beside_wakeup f = (beside_locks f \<and> (\<forall>w x. f (w\<lparr>psm := (psm w)\<lparr>mDeviceState := x\<rparr>\<rparr>) = f w))"

lemma beside_wakeup_examples:
  "beside_wakeup (\<lambda>w. powerkeyDownWhenScreenOff (susp w))" "beside_wakeup (\<lambda>w. powerkeyScreenOff (susp w))"
  "beside_wakeup (\<lambda>w. suspStateMachine (ptrs w))"
  by (simp_all add: beside_wakeup_def beside_locks_def outer_def inert_def ig_defs ig_quiet_def ig_monitor_def
      ig_customized_def)

lemma keeps_HandleWakeup:
  assumes "beside_wakeup f" shows "keeps f (HandleWakeup E reason)"
proof -
  have locks: "beside_locks f" and ms: "\<And>w x. f (w\<lparr>psm := (psm w)\<lparr>mDeviceState := x\<rparr>\<rparr>) = f w"
    using assms by (auto simp: beside_wakeup_def)
  have outer: "outer f" using locks by (simp add: beside_locks_def)
  note screens = keeps_screens [OF outer] and refresh = keeps_refresh [OF outer ms]
  have "keeps f (IsPowerOnInernalScreenOnlyScene E reason)" "keeps f (ProcessPowerOnInternalScreenOnly E reason)"
    "keeps f (HandleOnlySecondScreenWhenWakeup E reason)"
    using outer_ig [OF outer]
    by (auto simp: IsPowerOnInernalScreenOnlyScene_def ProcessPowerOnInternalScreenOnly_def
        HandleOnlySecondScreenWhenWakeup_def trace_app intro!: keeps_intros screens refresh)
  then show ?thesis
    using outer outer_ig [OF outer]
    by (auto simp: HandleWakeup_def intro!: keeps_intros keeps_sleep_guard [OF locks] screens)
qed

lemma keeps_NeedToSkipCurrentWakeup:
  "outer f \<Longrightarrow> keeps f (NeedToSkipCurrentWakeup E reason)"
  by (auto simp: NeedToSkipCurrentWakeup_def Let_def outer_ig trace_app keeps_screens intro!: keeps_intros)

lemma keeps_Wakeup_ControlListener:
  assumes "beside_wakeup f" shows "keeps f (Wakeup_ControlListener E reason)"
proof -
  have outer: "outer f" using assms by (simp add: beside_wakeup_def beside_locks_def)
  show ?thesis
    unfolding Wakeup_ControlListener_def
    by (intro keeps_intros keeps_HandleWakeup [OF assms] keeps_NeedToSkipCurrentWakeup [OF outer])
      (use outer in \<open>simp_all add: outer_ig trace_app\<close>)
qed

section \<open>The power key\<close>

definition screen_off_tasks :: "world \<Rightarrow> ext_call list" where
  "screen_off_tasks w = filter (\<lambda>c. \<exists>r a d. c = Queue (SubmitTask (TaskPowerkeyScreenOff r a d))) (trace w)"

definition key_view :: "world \<Rightarrow> ext_call list \<times> bool \<times> bool" where
  "key_view w = (screen_off_tasks w, powerkeyScreenOff (susp w), powerkeyDownWhenScreenOff (susp w))"

lemma keeps_key_view:
  "keeps key_view (IsPowerkeyScreenOffBlocked E)" "keeps key_view (WakeupIsWakeupReasonConfigMatched E r)"
  "keeps key_view (IsPowerkeyUpTooFrequent E)"
proof -
  have "key_view (w\<lparr>trace := c # trace w\<rparr>) = key_view w"
    if "\<And>r a d. c \<noteq> Queue (SubmitTask (TaskPowerkeyScreenOff r a d))" for w c
    using that by (simp add: key_view_def screen_off_tasks_def)
  moreover have "key_view (w\<lparr>susp := (susp w)\<lparr>lastPowerkeyUpTime := t\<rparr>\<rparr>) = key_view w" for w t
    by (simp add: key_view_def screen_off_tasks_def)
  ultimately show "keeps key_view (IsPowerkeyScreenOffBlocked E)"
    "keeps key_view (WakeupIsWakeupReasonConfigMatched E r)" "keeps key_view (IsPowerkeyUpTooFrequent E)"
    unfolding IsPowerkeyScreenOffBlocked_def WakeupIsWakeupReasonConfigMatched_def
      ActionIsWakeupReasonConfigMatched_def GetWakeupReason_def IsPowerkeyUpTooFrequent_def GetTickCount_def
    by (auto intro!: keeps_intros)
qed

lemmas key_view_kept = keeps_key_view [THEN keepsD, unfolded key_view_def, simplified]

lemma released_after_dark_press:
  assumes "powerkeyDownWhenScreenOff (susp w)"
  shows "screen_off_tasks (exec (Suspend_ReceivePowerkeyCallback E m) w) = screen_off_tasks w \<and>
    powerkeyScreenOff (susp (exec (Suspend_ReceivePowerkeyCallback E m) w)) = powerkeyScreenOff (susp w)"
proof -
  have "screen_off_tasks (exec (mod_susp g) v) = screen_off_tasks v" for g v
    by (simp add: mod_susp_def screen_off_tasks_def)
  moreover have "powerkeyScreenOff (susp (exec (mod_susp (\<lambda>s. s\<lparr>isWakeupReasonConfigMatched := b\<rparr>)) v)) = powerkeyScreenOff (susp v)"
    "powerkeyScreenOff (susp (exec (mod_susp (\<lambda>s. s\<lparr>powerkeyDownWhenScreenOff := b\<rparr>)) v)) = powerkeyScreenOff (susp v)" for b v
    by (simp_all add: mod_susp_def)
  ultimately show ?thesis
    using assms
    by (simp add: Suspend_ReceivePowerkeyCallback_def GetPowerkeyDownWhenScreenOff_def key_view_kept)
qed

lemma RecordPowerKeyDown_flag:
  assumes "suspStateMachine (ptrs w)"
  shows "powerkeyDownWhenScreenOff (susp (exec (RecordPowerKeyDown E interrupting) w)) =
    (interrupting \<or> \<not> result (IsScreenOn E) w)"
proof -
  have "powerkeyDownWhenScreenOff (susp (exec CheckDialogFlag v)) = powerkeyDownWhenScreenOff (susp v)" for v
    by (rule keepsD) (auto simp: CheckDialogFlag_def intro!: keeps_intros)
  then show ?thesis using assms by (simp add: RecordPowerKeyDown_def mod_susp_def)
qed

text \<open>
  C19: a press of the power key that finds the screen off, or that cancels a screen-off under way, only
  switches the screen on: however the wakeup it requests ends, the release of the same press
  submits no screen-off task.
\<close>

theorem powerkey_press_wakes_only:
  assumes "suspStateMachine (ptrs w)"
    and "if trying then result (TryToCancelScreenOff_end E) w else \<not> result (IsScreenOn E) w"
  shows "let pressed = exec (powerkey_down_end E wm trying) w;
             released = exec (Suspend_ReceivePowerkeyCallback E sm) pressed
    in screen_off_tasks released = screen_off_tasks pressed \<and>
       powerkeyScreenOff (susp released) = powerkeyScreenOff (susp pressed)"
proof -
  let ?ptr = "\<lambda>w. suspStateMachine (ptrs w)"
  have ig: "outer ?ptr" "\<And>w x. ?ptr (w\<lparr>psm := (psm w)\<lparr>mDeviceState := x\<rparr>\<rparr>) = ?ptr w"
    using beside_wakeup_examples(3) by (auto simp: beside_wakeup_def beside_locks_def)
  have "keeps ?ptr (TryToCancelScreenOff_end E)"
    using outer_ig [OF ig(1)] by (intro keeps_intros) simp_all
  note ptr = keepsD [OF this] keepsD [OF keeps_refresh(1) [OF ig]]
  have "powerkeyDownWhenScreenOff (susp (exec (powerkey_down_end E wm trying) w))"
    using assms keepsD [OF keeps_Wakeup_ControlListener [OF beside_wakeup_examples(1)]]
    by (simp add: powerkey_down_end_def RecordPowerKeyDown_flag ptr split: if_splits)
  then show ?thesis by (simp add: Let_def released_after_dark_press)
qed

definition dark_env :: env where
  "dark_env = sample_env\<lparr>extDisplay := (\<lambda>_. DISPLAY_OFF)\<rparr>"

definition powerkey_monitor :: SuspendMonitor where
  "powerkey_monitor = \<lparr>monReason = SUSPEND_DEVICE_REASON_POWER_KEY, monAction = ACTION_AUTO_SUSPEND,
     monDelayMs = 0, monKeyId = 3301\<rparr>"

theorem powerkey_press_wakes_only_witness:
  "suspStateMachine (ptrs sample_world) \<and> \<not> result (IsScreenOn dark_env) sample_world \<and>
   (let pressed = exec (powerkey_down_end dark_env \<lparr>wmReason = WAKEUP_DEVICE_POWER_BUTTON, wmKeyId = 3301\<rparr> False) sample_world;
        released = exec (Suspend_ReceivePowerkeyCallback dark_env powerkey_monitor) pressed
    in screen_off_tasks released = screen_off_tasks pressed \<and>
       powerkeyScreenOff (susp released) = powerkeyScreenOff (susp pressed))"
proof -
  have 1: "suspStateMachine (ptrs sample_world)" by (simp add: sample_defs)
  have 2: "\<not> result (IsScreenOn dark_env) sample_world"
    by (simp add: dark_env_def sample_defs IsScreenOn_def GetDisplayState_def ask_bool_def)
  show ?thesis using 1 2 powerkey_press_wakes_only [OF 1, of False dark_env] by simp
qed


section \<open>The sleep timer\<close>

definition deadline :: "world \<Rightarrow> int option" where
  "deadline w = (if sleepTime (susp w) = -1 then None else Some (sleepTime (susp w)))"

fun earlier :: "int \<Rightarrow> int option \<Rightarrow> int" where
  "earlier t None = t"
| "earlier t (Some d) = min t d"

definition sleep_handle :: "world \<Rightarrow> handle option" where
  "sleep_handle w = handleMap (timers w POWER_TIMER) TIMER_ID_SLEEP"

lemma susp_SetTimer [simp]: "susp (exec (SetTimer E i t k d) w) = susp w"
  by (rule keepsD [OF keeps_SetTimer]) (simp_all add: ig_defs ig_quiet_def)

lemma sleep_handle_upd [simp]:
  "sleep_handle (w\<lparr>trace := tr\<rparr>) = sleep_handle w" "sleep_handle (w\<lparr>susp := s\<rparr>) = sleep_handle w"
  by (simp_all add: sleep_handle_def)

lemma deadline_cong: "susp v = susp w \<Longrightarrow> deadline v = deadline w"
  by (simp add: deadline_def)

lemma wrap64_sum:
  assumes "int64 tick" "0 \<le> tick"
  shows "(wrap64 (tick + uint (d :: uint32)) < tick) = (\<not> int64 (tick + uint d))"
proof -
  have d: "0 \<le> uint d" "uint d < 2 ^ 63" using uint_lt2p [of d] by auto
  show ?thesis
    using wrap64_overflow [OF assms(1) d] d wrap64_id [of "tick + uint d"] by (cases "int64 (tick + uint d)") auto
qed

lemma exec_StartSleepTimer:
  assumes "tick = extInt E GetTick (trace w)" "suspTimer (ptrs w)"
  shows "exec (StartSleepTimer E reason action delay) w =
    (if action = ACTION_AUTO_SUSPEND \<and> psmSleepTime (psm w) < 0 then w
     else if wrap64 (tick + uint delay) < tick \<or>
       (wrap64 (tick + uint delay) > sleepTime (susp w) \<and> sleepTime (susp w) \<noteq> -1)
     then w\<lparr>trace := GetTick # trace w\<rparr>
     else exec (SetTimer E POWER_TIMER TIMER_ID_SLEEP (TaskSleep reason action) delay)
       (w\<lparr>trace := GetTick # trace w, susp := (susp w)\<lparr>sleepTime := wrap64 (tick + uint delay), sleepReason := reason,
          sleepAction := action, sleepDuration := delay, sleepType := action\<rparr>\<rparr>))"
  using assms by (simp add: StartSleepTimer_def Let_def GetTickCount_def ask_int_def log_call_def mod_susp_def)

text \<open>
  C21: a request for sleep sets the timer exactly when it is not later than the deadline already
  pending, so the deadline kept is the earliest one, with the reason and action that belong to it.
  A request whose deadline does not fit 64 bits, or automatic sleep while it is disabled, changes
  neither the deadline nor the timer.
\<close>

theorem sleep_timer_keeps_earliest:
  assumes tick: "tick = extInt E GetTick (trace w)" "int64 tick" "0 \<le> tick"
    and timer: "suspTimer (ptrs w)"
    and w': "w' = exec (StartSleepTimer E reason action delay) w"
  shows "if (action = ACTION_AUTO_SUSPEND \<and> psmSleepTime (psm w) < 0) \<or> \<not> int64 (tick + uint delay) \<or>
            (\<exists>d. deadline w = Some d \<and> d < tick + uint delay)
    then susp w' = susp w \<and> timers w' = timers w
    else deadline w' = Some (earlier (tick + uint delay) (deadline w)) \<and> sleepReason (susp w') = reason \<and>
      sleepAction (susp w') = action \<and>
      hd (trace w') = Queue (QueueSubmit POWER_TIMER (TaskSleep reason action) delay)"
proof -
  have "0 \<le> uint delay" by simp
  with tick have sum: "tick + uint delay \<noteq> -1" by linarith
  show ?thesis
  proof (cases "int64 (tick + uint delay)")
    case True
    have late: "(\<exists>d. deadline w = Some d \<and> d < t) = (t > sleepTime (susp w) \<and> sleepTime (susp w) \<noteq> -1)" for t
      by (simp add: deadline_def)
    have first: "earlier t (deadline w) = t" if "\<not> (t > sleepTime (susp w) \<and> sleepTime (susp w) \<noteq> -1)" for t
      using that by (auto simp: deadline_def)
    show ?thesis
      unfolding w' exec_StartSleepTimer [OF tick(1) timer] late
      using True sum \<open>0 \<le> uint delay\<close>
      by (simp add: wrap64_id SetTimer_trace first deadline_def)
  next
    case False
    with wrap64_sum [OF tick(2,3)] show ?thesis
      unfolding w' exec_StartSleepTimer [OF tick(1) timer] by simp
  qed
qed

theorem sleep_timer_keeps_earliest_witness:
  "deadline (exec (StartSleepTimer sample_env SUSPEND_DEVICE_REASON_LID ACTION_FORCE_SUSPEND 100)
     (exec (StartSleepTimer sample_env SUSPEND_DEVICE_REASON_TIMEOUT ACTION_AUTO_SUSPEND 5000) sample_world)) = Some 1100"
proof -
  let ?v = "exec (StartSleepTimer sample_env SUSPEND_DEVICE_REASON_TIMEOUT ACTION_AUTO_SUSPEND 5000) sample_world"
  have w: "suspTimer (ptrs sample_world)" "deadline sample_world = None" "\<not> psmSleepTime (psm sample_world) < 0"
    by (simp_all add: sample_world_def sample_psm_def deadline_def)
  have v: "suspTimer (ptrs ?v)"
    using w(1) keepsD [OF keeps_suspend_base(6), of "\<lambda>w. suspTimer (ptrs w)"] by (simp add: ig_defs ig_quiet_def)
  have "deadline ?v = Some 6000"
    using sleep_timer_keeps_earliest [OF refl _ _ w(1) refl, where E = sample_env and delay = 5000 and reason = SUSPEND_DEVICE_REASON_TIMEOUT and action = ACTION_AUTO_SUSPEND] w
    by (simp add: sample_env_def int64_def)
  then show ?thesis
    using sleep_timer_keeps_earliest [OF refl _ _ v refl, where E = sample_env and delay = 100 and reason = SUSPEND_DEVICE_REASON_LID and action = ACTION_FORCE_SUSPEND]
    by (simp add: sample_env_def int64_def ACTION_AUTO_SUSPEND_def ACTION_FORCE_SUSPEND_def)
qed

section \<open>Key subscription\<close>

definition fresh_id :: "int \<Rightarrow> int \<Rightarrow> bool" where
  "fresh_id cache i = (0 \<le> i \<and> i \<noteq> cache)"

text \<open>The calls of \<open>n\<close> attempts, latest first, and the answer to the attempt that follows them.\<close>

primrec attempts :: "string \<Rightarrow> int \<Rightarrow> nat \<Rightarrow> ext_call list" where
  "attempts key cache 0 = []"
| "attempts key cache (Suc n) =
    Service (InputKeySubscribe key) # Service (InputKeyUnsubscribe cache) # attempts key cache n"

definition attempt_answer :: "env \<Rightarrow> string \<Rightarrow> int \<Rightarrow> ext_call list \<Rightarrow> nat \<Rightarrow> int" where
  "attempt_answer E key cache tr n =
    extInt E (Service (InputKeySubscribe key)) (Service (InputKeyUnsubscribe cache) # attempts key cache n @ tr)"

lemma attempts_shift:
  "attempts key cache n @ Service (InputKeySubscribe key) # Service (InputKeyUnsubscribe cache) # tr =
    attempts key cache (Suc n) @ tr"
  by (induction n) simp_all

lemma subscribe_key_runs:
  "\<exists>n\<le>k. run_state (subscribe_key E key cache (Suc k)) w =
      (attempt_answer E key cache (trace w) n, w\<lparr>trace := attempts key cache (Suc n) @ trace w\<rparr>) \<and>
    (\<forall>j<n. \<not> fresh_id cache (attempt_answer E key cache (trace w) j)) \<and>
    (fresh_id cache (attempt_answer E key cache (trace w) n) \<or> n = k)"
proof (induction k arbitrary: w)
  case 0
  show ?case by (simp add: attempt_answer_def log_call_def ask_int_def)
next
  case (Suc k)
  show ?case
  proof (cases "fresh_id cache (attempt_answer E key cache (trace w) 0)")
    case True
    then show ?thesis
      by (intro exI [of _ 0]) (auto simp: fresh_id_def attempt_answer_def log_call_def ask_int_def)
  next
    case False
    let ?v = "w\<lparr>trace := attempts key cache 1 @ trace w\<rparr>"
    have step: "run_state (subscribe_key E key cache (Suc (Suc k))) w = run_state (subscribe_key E key cache (Suc k)) ?v"
      using False by (auto simp: fresh_id_def attempt_answer_def log_call_def ask_int_def)
    have shift: "attempt_answer E key cache (trace ?v) j = attempt_answer E key cache (trace w) (Suc j)" for j
      by (simp add: attempt_answer_def attempts_shift)
    from Suc.IH [of ?v] obtain n where "n \<le> k"
      "run_state (subscribe_key E key cache (Suc k)) ?v =
        (attempt_answer E key cache (trace w) (Suc n), w\<lparr>trace := attempts key cache (Suc (Suc n)) @ trace w\<rparr>)"
      "\<forall>j<n. \<not> fresh_id cache (attempt_answer E key cache (trace w) (Suc j))"
      "fresh_id cache (attempt_answer E key cache (trace w) (Suc n)) \<or> n = k"
      unfolding shift by (auto simp: attempts_shift)
    with False step show ?thesis
      by (intro exI [of _ "Suc n"]) (auto simp: less_Suc_eq_0_disj)
  qed
qed

text \<open>
  C35: the subscription of a key ends after at most four attempts, each of which first gives up the
  cached id; it stops at the first id that is valid and new, and returns the id of its last attempt.
\<close>

theorem key_subscription_ends:
  "\<exists>n<4. run_state (subscribe_key E key cache RETRY_COUNT_TIMES) w =
      (attempt_answer E key cache (trace w) n, w\<lparr>trace := attempts key cache (Suc n) @ trace w\<rparr>) \<and>
    (\<forall>j<n. \<not> fresh_id cache (attempt_answer E key cache (trace w) j)) \<and>
    (fresh_id cache (attempt_answer E key cache (trace w) n) \<or> n = 3)"
proof -
  have four: "RETRY_COUNT_TIMES = Suc 3" by (simp add: RETRY_COUNT_TIMES_def)
  obtain n where "n \<le> 3" "run_state (subscribe_key E key cache (Suc 3)) w =
      (attempt_answer E key cache (trace w) n, w\<lparr>trace := attempts key cache (Suc n) @ trace w\<rparr>) \<and>
    (\<forall>j<n. \<not> fresh_id cache (attempt_answer E key cache (trace w) j)) \<and>
    (fresh_id cache (attempt_answer E key cache (trace w) n) \<or> n = 3)"
    using subscribe_key_runs [of 3 E key cache w] by blast
  then show ?thesis unfolding four by (intro exI [of _ n] conjI) (linarith, blast+)
qed

theorem key_subscription_ends_witness:
  "run_state (subscribe_key sample_env ''powerkey up'' 0 RETRY_COUNT_TIMES) sample_world =
    (0, sample_world\<lparr>trace := attempts ''powerkey up'' 0 4\<rparr>)"
proof -
  have "attempt_answer sample_env key cache tr n = 0" for key cache tr n
    by (simp add: attempt_answer_def sample_env_def)
  then show ?thesis
    using key_subscription_ends [of sample_env "''powerkey up''" 0 sample_world]
    by (auto simp: fresh_id_def sample_world_def numeral_eq_Suc)
qed


section \<open>Guards of a wakeup\<close>

definition cover_closed :: "world \<Rightarrow> bool" where
  "cover_closed w = (if lidCheckEnable (svc w) then isInLidMode (svc w) else \<not> switchOpen (psm w))"

text \<open>
  With the cover closed (and neither a second screen in use nor a switch action that allows it), and during
  a hibernation, a wakeup event has no effect at all: the only thing that happens is the
  query of the caller's rights.
\<close>

lemma no_wakeup_when_closed:
  assumes "(cover_closed w \<and> switchAction (psm w) \<noteq> SWITCH_ACTION_DUAL_SCREEN \<and>
      (F_EXTERNAL_SCREEN E \<longrightarrow> Is2In1PadMode E \<or> externalScreenNumber (psm w) \<le> 0 \<or> \<not> IsOnlySecondDisplayModeSupported E)) \<or>
    (F_S4 E \<and> hibernating (psm w))"
  shows "run_state (Wakeup_ControlListener E reason) w = ((), w\<lparr>trace := Service PermissionIsSystem # trace w\<rparr>)"
  using assms
  by (auto simp: Wakeup_ControlListener_def NeedToSkipCurrentWakeup_def cover_closed_def Let_def IsSwitchOpen_def
      GetExternalScreenNumber_def IsHibernating_def DoWakeupInClosedState_def ask_bool_def log_call_def
      split: if_splits)

theorem no_wakeup_when_closed_witness:
  "run_state (Wakeup_ControlListener sample_env WAKEUP_DEVICE_POWER_BUTTON) (exec (SetSwitchState False) sample_world) =
    ((), (exec (SetSwitchState False) sample_world)\<lparr>trace := [Service PermissionIsSystem]\<rparr>)"
  using no_wakeup_when_closed [of "exec (SetSwitchState False) sample_world" sample_env WAKEUP_DEVICE_POWER_BUTTON]
  by (simp add: SetSwitchState_def cover_closed_def mod_psm_def sample_defs)

section \<open>Events of the cover switch\<close>

definition power_handle :: "FFRTTimerId \<Rightarrow> world \<Rightarrow> handle option" where
  "power_handle t w = handleMap (timers w POWER_TIMER) t"

text \<open>
  Both directions of the cover switch share the timer slot of the pre-bright
  authentication, because the number of their message is its id.  An event therefore cancels the pending task of the
  slot, be it the time-out of an authentication or the task of the previous switch event, which then
  never runs.
\<close>

lemma switch_event_cancels_pending:
  assumes "psmTimer (ptrs w)" "suspendController (ptrs w)" "wakeupController (ptrs w)"
    and "power_handle TIMER_ID_PRE_BRIGHT_AUTH w = Some h" and "switchAction (psm w) \<noteq> SWITCH_ACTION_DUAL_SCREEN"
  shows "trace (exec (switch_event E switchedOff) w) =
    Queue (QueueSubmit POWER_TIMER (if switchedOff then TaskSuspendMonitor SUSPEND_DEVICE_REASON_SWITCH
        else TaskWakeupMonitor WAKEUP_DEVICE_SWITCH) 0) #
    Queue (QueueCancel POWER_TIMER h) # trace w"
proof -
  have "find (\<lambda>t. FFRTTimerId_val t = 4) all_timer_ids = Some TIMER_ID_PRE_BRIGHT_AUTH"
    by (simp add: all_timer_ids_def)
  then show ?thesis
    using assms
    by (simp add: switch_event_def ExecSuspendMonitorByReason_def ExecWakeupMonitorByReason_def
        SetDelayTimerTask_def SWITCH_TRIGGER_WAKEUP_OR_SUSPEND_MSG_def SetSwitchState_def mod_psm_def
        SetTimer_trace power_handle_def DoSwitchOpen_def)
qed


theorem switch_event_cancels_pending_witness:
  "let w = exec (switch_event sample_env True) sample_world; w' = exec (switch_event sample_env False) w in
   \<exists>h. power_handle TIMER_ID_PRE_BRIGHT_AUTH w = Some h \<and>
     trace w = [Queue (QueueSubmit POWER_TIMER (TaskSuspendMonitor SUSPEND_DEVICE_REASON_SWITCH) 0)] \<and>
     trace w' = Queue (QueueSubmit POWER_TIMER (TaskWakeupMonitor WAKEUP_DEVICE_SWITCH) 0) #
       Queue (QueueCancel POWER_TIMER h) # trace w"
proof -
  let ?w = "exec (switch_event sample_env True) sample_world"
  have w: "?w = exec (SetTimer sample_env POWER_TIMER TIMER_ID_PRE_BRIGHT_AUTH (TaskSuspendMonitor SUSPEND_DEVICE_REASON_SWITCH) 0)
      (sample_world\<lparr>psm := (psm sample_world)\<lparr>switchOpen := False\<rparr>\<rparr>)" (is "_ = exec ?set ?v")
    by (simp add: switch_event_def ExecSuspendMonitorByReason_def SetDelayTimerTask_def all_timer_ids_def
        SWITCH_TRIGGER_WAKEUP_OR_SUSPEND_MSG_def SetSwitchState_def mod_psm_def)
      (simp add: sample_world_def)
  have "keeps ptrs ?set" "keeps psm ?set" by (auto simp: ig_defs ig_quiet_def intro!: keeps_intros)
  then have "ptrs ?w = ptrs sample_world" "switchAction (psm ?w) \<noteq> SWITCH_ACTION_DUAL_SCREEN"
    unfolding w by (simp_all add: keepsD sample_world_def sample_psm_def)
  moreover have "power_handle TIMER_ID_PRE_BRIGHT_AUTH ?w = Some 1"
    "trace ?w = [Queue (QueueSubmit POWER_TIMER (TaskSuspendMonitor SUSPEND_DEVICE_REASON_SWITCH) 0)]"
    unfolding w by (simp_all add: power_handle_def SetTimer_trace) (simp_all add: sample_world_def sample_env_def)
  moreover have "psmTimer (ptrs sample_world)" "suspendController (ptrs sample_world)" "wakeupController (ptrs sample_world)"
    by (simp_all add: sample_world_def)
  ultimately show ?thesis
    using switch_event_cancels_pending [of ?w 1 sample_env False] by (simp add: Let_def)
qed

section \<open>Screen-off blocks\<close>

definition lid_blocked :: "world \<Rightarrow> bool" where
  "lid_blocked w = result (IsScreenOffBlocked BLOCK_LID) w"

definition registered :: "obj \<Rightarrow> string \<Rightarrow> world \<Rightarrow> bool" where
  "registered t name w = (case clientDeathRecipientMap (svc w) t of None \<Rightarrow> False | Some l \<Rightarrow> name \<in> fst ` set l)"

lemma lid_filtering_blocks:
  assumes "\<And>v. result (CheckManager E) v = None" "\<And>t tr. extBool E (Service (IsProxyObject t)) tr"
  shows "lid_blocked (exec (SetLidFilteringStrategy E 1 (Some t)) w)"
    "registered t ''SetLidFilteringStrategy'' (exec (SetLidFilteringStrategy E 1 (Some t)) w)"
    "u \<noteq> t \<Longrightarrow> registered u name (exec (SetLidFilteringStrategy E 1 (Some t)) w) = registered u name w"
    "pms (ptrs (exec (SetLidFilteringStrategy E 1 (Some t)) w)) = pms (ptrs w)"
proof -
  have kept: "svc (exec (CheckManager E) v) = svc v" "svc (exec (caller E) v) = svc v"
    "ptrs (exec (CheckManager E) v) = ptrs v" "ptrs (exec (caller E) v) = ptrs v" for v
    by (simp_all add: CheckManager_def caller_def ask_bool_def ask_int_def log_call_def)
  note defs = SetLidFilteringStrategy_def UpdateScreenOffBlock_def Manager_AddDeathRecipient_def lid_blocked_def
    IsScreenOffBlocked_def registered_def mod_psm_def mod_svc_def ask_bool_def log_call_def
  show "lid_blocked (exec (SetLidFilteringStrategy E 1 (Some t)) w)"
    using assms by (simp add: defs)
  show "registered t ''SetLidFilteringStrategy'' (exec (SetLidFilteringStrategy E 1 (Some t)) w)"
    using assms by (auto simp: defs omap_emplace_def split: option.split dest!: map_of_SomeD intro: rev_image_eqI)
  show "registered u name (exec (SetLidFilteringStrategy E 1 (Some t)) w) = registered u name w" if "u \<noteq> t"
    using assms that by (simp add: defs kept)
  show "pms (ptrs (exec (SetLidFilteringStrategy E 1 (Some t)) w)) = pms (ptrs w)"
    using assms by (simp add: defs kept)
qed


lemma death_callback_lid:
  "ptrs (exec (death_callback E t name) v) = ptrs v \<and>
   lid_blocked (exec (death_callback E t name) v) =
    (lid_blocked v \<and> \<not> (pms (ptrs v) \<and> name = ''SetLidFilteringStrategy''))"
  by (simp add: death_callback_def RemoveScreenOffBlock_def SetProxFilteringStrategy_def lid_blocked_def
      RemoveAllRunningLockChangedCallbacks_def mod_rlm_def
      IsScreenOffBlocked_def mod_psm_def)

lemma death_callbacks_lid:
  "lid_blocked (exec (for_each (\<lambda>e. death_callback E t (fst e)) l) v) =
    (lid_blocked v \<and> \<not> (pms (ptrs v) \<and> ''SetLidFilteringStrategy'' \<in> fst ` set l))"
  by (induction l arbitrary: v) (auto simp: death_callback_lid)

text \<open>
  A client that asks for lid filtering blocks the screen-off by lid and is
  remembered.  But there is one block for all clients: when a client dies, the block goes even though
  another client that asked for it lives and is still registered.
\<close>

lemma lid_block_has_one_owner:
  assumes "\<And>v. result (CheckManager E) v = None" "\<And>t tr. extBool E (Service (IsProxyObject t)) tr"
    and "pms (ptrs w)" "a \<noteq> b"
    and w1: "w1 = exec (SetLidFilteringStrategy E 1 (Some a)) w"
    and w2: "w2 = exec (SetLidFilteringStrategy E 1 (Some b)) w1"
    and w3: "w3 = exec (Manager_OnRemoteDied E (Some a)) w2"
  shows "lid_blocked w1 \<and> lid_blocked w2 \<and> \<not> lid_blocked w3 \<and> registered b ''SetLidFilteringStrategy'' w3"
proof -
  note blocks = lid_filtering_blocks [OF assms(1,2)]
  have a: "registered a ''SetLidFilteringStrategy'' w2" "pms (ptrs w2)" and b: "registered b ''SetLidFilteringStrategy'' w2"
    using blocks assms(3,4) unfolding w1 w2 by simp_all
  from a(1) obtain l where l: "clientDeathRecipientMap (svc w2) a = Some l" "''SetLidFilteringStrategy'' \<in> fst ` set l"
    by (auto simp: registered_def split: option.splits)
  have svc: "svc (exec (for_each (\<lambda>e. death_callback E a (fst e)) l) v) = svc v" for v
    by (rule keepsD)
      (auto simp: death_callback_def RemoveScreenOffBlock_def SetProxFilteringStrategy_def
        RemoveAllRunningLockChangedCallbacks_def mod_rlm_def mod_psm_def intro!: keeps_intros keeps_modify)
  have "\<not> lid_blocked w3"
    using l a(2) death_callbacks_lid [of E a l w2] unfolding w3
    by (simp add: Manager_OnRemoteDied_def Manager_RemoveDeathRecipient_def mod_svc_def lid_blocked_def IsScreenOffBlocked_def)
  moreover have "registered b ''SetLidFilteringStrategy'' w3"
    using l(1) b assms(4) unfolding w3
    by (simp add: Manager_OnRemoteDied_def Manager_RemoveDeathRecipient_def mod_svc_def registered_def svc)
  ultimately show ?thesis using blocks(1) unfolding w1 w2 by simp
qed

theorem lid_block_has_one_owner_witness:
  "let w2 = exec (SetLidFilteringStrategy sample_env 1 (Some 12)) (exec (SetLidFilteringStrategy sample_env 1 (Some 11)) sample_world);
       w3 = exec (Manager_OnRemoteDied sample_env (Some 11)) w2
   in lid_blocked w2 \<and> \<not> lid_blocked w3 \<and> registered 12 ''SetLidFilteringStrategy'' w3"
proof -
  have "result (CheckManager sample_env) v = None" for v
    by (simp add: CheckManager_def ask_bool_def sample_env_def)
  moreover have "extBool sample_env (Service (IsProxyObject t)) tr" for t tr by (simp add: sample_env_def)
  moreover have "pms (ptrs sample_world)" by (simp add: sample_world_def)
  ultimately show ?thesis
    using lid_block_has_one_owner [of sample_env sample_world 11 12, OF _ _ _ _ refl refl refl] by (simp add: Let_def)
qed

end
