(* ===== verification/Ulsr_Laws.thy ===== *)
theory Ulsr_Laws
  imports Ulsr Sample_World
begin

text \<open>
  The notifications around an ultra-low-power suspend: a client is never told to enter it twice
  without having been told in between that it is over.
\<close>

section \<open>What a client is told\<close>

definition note_of :: "obj \<Rightarrow> ext_call \<Rightarrow> bool" where
  "note_of c e = (e = Callback (OnSyncUlsr c) \<or> (\<exists>b. e = Callback (OnUlsrWakeup c b)))"

text \<open>The notifications of client \<open>c\<close>, latest first.\<close>

definition notes_for :: "obj \<Rightarrow> world \<Rightarrow> ext_call list" where
  "notes_for c w = filter (note_of c) (trace w)"

fun alternating :: "obj \<Rightarrow> ext_call list \<Rightarrow> bool" where
  "alternating c (x # y # xs) = (\<not> (x = Callback (OnSyncUlsr c) \<and> y = Callback (OnSyncUlsr c)) \<and> alternating c (y # xs))"
| "alternating c _ = True"

definition last_entered :: "obj \<Rightarrow> ext_call list \<Rightarrow> bool" where
  "last_entered c xs = (xs \<noteq> [] \<and> hd xs = Callback (OnSyncUlsr c))"

lemma alternating_Cons:
  "alternating c (x # xs) = (\<not> (x = Callback (OnSyncUlsr c) \<and> last_entered c xs) \<and> alternating c xs)"
  by (cases xs) (auto simp: last_entered_def)

definition callbacks_of :: "world \<Rightarrow> obj list" where
  "callbacks_of w = map ulsrCallback (all_records (ulsr w))"

lemma callbacks_of_map [simp]:
  "(\<And>r. ulsrCallback (f r) = ulsrCallback r) \<Longrightarrow>
    map ulsrCallback (all_records (map_containers (map f) u)) = map ulsrCallback (all_records u)"
  by (simp add: all_records_def map_containers_def comp_def)

text \<open>The invariant for a registered client.\<close>

definition told_in_turn :: "obj \<Rightarrow> world \<Rightarrow> bool" where
  "told_in_turn c w = (distinct (callbacks_of w) \<and> c \<in> set (callbacks_of w) \<and> alternating c (notes_for c w) \<and>
    (callbackState (ulsr w) = STAGE_DONE \<longrightarrow> \<not> last_entered c (notes_for c w)))"

section \<open>The rounds\<close>

lemma notes_upd [simp]:
  "notes_for c (w\<lparr>ulsr := u\<rparr>) = notes_for c w"
  "notes_for c (w\<lparr>trace := e # tr\<rparr>) = (if note_of c e then e # notes_for c (w\<lparr>trace := tr\<rparr>) else notes_for c (w\<lparr>trace := tr\<rparr>))"
  by (simp_all add: notes_for_def)

lemma notes_same [simp]: "notes_for c (w\<lparr>trace := trace w\<rparr>) = notes_for c w"
  by (simp add: notes_for_def)

lemma SyncUlsrNotifyInner_step:
  obtains "exec (SyncUlsrNotifyInner E (d # ds) n) w = w"
  | m v where "exec (SyncUlsrNotifyInner E (d # ds) n) w = exec (SyncUlsrNotifyInner E ds m) v"
    "notes_for c v = (if d = c then Callback (OnSyncUlsr c) # notes_for c w else notes_for c w)"
    "callbacks_of v = callbacks_of w" "callbackState (ulsr v) = callbackState (ulsr w)"
proof (cases "n \<le> 0")
  case False
  let ?b = "extInt E GetTick (trace w)" and ?e = "extInt E GetTick (Callback (OnSyncUlsr d) # GetTick # trace w)"
  let ?v = "w\<lparr>trace := GetTick # Callback (OnSyncUlsr d) # GetTick # trace w,
    ulsr := map_containers (map (\<lambda>r. if ulsrCallback r = d
      then r\<lparr>durationMs := sint (word_of_int (?e - ?b) :: 32 word)\<rparr> else r)) (ulsr w)\<rparr>"
  have "exec (SyncUlsrNotifyInner E (d # ds) n) w = exec (SyncUlsrNotifyInner E ds (wrap64 (n - wrap64 (?e - ?b)))) ?v"
    using False by (simp add: access_defs cong: if_cong)
  moreover have "notes_for c ?v = (if d = c then Callback (OnSyncUlsr c) # notes_for c w else notes_for c w)"
    by (simp add: note_of_def)
  moreover have "callbacks_of ?v = callbacks_of w" by (simp add: callbacks_of_def)
  moreover have "callbackState (ulsr ?v) = callbackState (ulsr w)" by (simp add: map_containers_def)
  ultimately show ?thesis by (rule that(2))
qed (use that(1) in simp)

text \<open>One round calls a client at most once, and leaves the registered clients and the stage alone.\<close>

lemma SyncUlsrNotifyInner_notes:
  assumes "distinct cs"
  shows "notes_for c (exec (SyncUlsrNotifyInner E cs n) w) = notes_for c w \<or>
    (c \<in> set cs \<and> notes_for c (exec (SyncUlsrNotifyInner E cs n) w) = Callback (OnSyncUlsr c) # notes_for c w)"
  using assms
proof (induction cs arbitrary: n w)
  case (Cons d cs)
  show ?case
  proof (rule SyncUlsrNotifyInner_step [where E = E and d = d and ds = cs and n = n and w = w and c = c])
    fix m v
    assume v: "exec (SyncUlsrNotifyInner E (d # cs) n) w = exec (SyncUlsrNotifyInner E cs m) v"
      "notes_for c v = (if d = c then Callback (OnSyncUlsr c) # notes_for c w else notes_for c w)"
    have "notes_for c (exec (SyncUlsrNotifyInner E cs m) v) = notes_for c v \<or>
      (c \<in> set cs \<and> notes_for c (exec (SyncUlsrNotifyInner E cs m) v) = Callback (OnSyncUlsr c) # notes_for c v)"
      using Cons.prems by (intro Cons.IH) simp
    then show ?thesis using Cons.prems unfolding v(1) by (auto simp: v(2) split: if_splits)
  qed simp
qed simp

lemma SyncUlsrNotifyInner_state:
  "callbacks_of (exec (SyncUlsrNotifyInner E cs n) w) = callbacks_of w \<and>
   callbackState (ulsr (exec (SyncUlsrNotifyInner E cs n) w)) = callbackState (ulsr w)"
proof (induction cs arbitrary: n w)
  case (Cons d cs)
  show ?case by (rule SyncUlsrNotifyInner_step [where E = E and d = d and ds = cs and n = n and w = w]) (use Cons in simp_all)
qed simp

lemma SyncUlsrNotify_in_turn:
  assumes "told_in_turn c w" shows "told_in_turn c (exec (SyncUlsrNotify E) w)"
proof (cases "callbackState (ulsr w) = STAGE_DONE")
  case True
  let ?v = "w\<lparr>ulsr := map_containers (map (\<lambda>r. r\<lparr>durationMs := -1\<rparr>)) ((ulsr w)\<lparr>callbackState := STAGE_ENTER\<rparr>),
    trace := Callback UlsrSyncTimedOut # GetTick # trace w\<rparr>"
  let ?cs = "if extBool E (Callback UlsrSyncTimedOut) (GetTick # trace w)
    then take (nat (extInt E (Callback UlsrSyncTimedOut) (GetTick # trace w))) (callbacks_of w) else callbacks_of w"
  let ?u = "exec (SyncUlsrNotifyInner E ?cs ULSR_SYNC_CALLBACK_TIMEOUT_MS) ?v"
  have run: "exec (SyncUlsrNotify E) w = ?u\<lparr>trace := GetTick # trace ?u\<rparr>"
    using True by (simp add: SyncUlsrNotify_def access_defs Let_def callbacks_of_def)
  have v: "notes_for c ?v = notes_for c w" "callbackState (ulsr ?v) = STAGE_ENTER" "callbacks_of ?v = callbacks_of w"
    by (simp_all add: note_of_def map_containers_def callbacks_of_def all_records_def comp_def)
  have "distinct ?cs" using assms by (simp add: told_in_turn_def)
  from SyncUlsrNotifyInner_notes [OF this, of c E ULSR_SYNC_CALLBACK_TIMEOUT_MS ?v]
    SyncUlsrNotifyInner_state [of E ?cs ULSR_SYNC_CALLBACK_TIMEOUT_MS ?v] assms True
  show ?thesis
    unfolding run told_in_turn_def v by (auto simp: callbacks_of_def note_of_def alternating_Cons)
qed (use assms in \<open>simp add: SyncUlsrNotify_def\<close>)

lemma wakeup_calls_notes:
  fixes rs :: "UlsrCallbackRecord list"
  shows "notes_for c (exec (for_each (\<lambda>r. log_call (Callback (OnUlsrWakeup (ulsrCallback r) b))) rs) w) =
     map (\<lambda>_. Callback (OnUlsrWakeup c b)) (filter (\<lambda>r. ulsrCallback r = c) rs) @ notes_for c w \<and>
   ulsr (exec (for_each (\<lambda>r. log_call (Callback (OnUlsrWakeup (ulsrCallback r) b))) rs) w) = ulsr w"
proof (induction rs arbitrary: w)
  case (Cons r rs)
  have "map (\<lambda>_. x) xs @ x # ys = x # map (\<lambda>_. x) xs @ ys" for x :: ext_call and xs :: "UlsrCallbackRecord list" and ys
    by (induction xs) simp_all
  with Cons show ?case by (auto simp: log_call_def note_of_def)
qed simp

lemma WakeupNotify_in_turn:
  assumes "told_in_turn c w" shows "told_in_turn c (exec (WakeupNotify b) w)"
proof (cases "callbackState (ulsr w) = STAGE_ENTER")
  case True
  let ?v = "w\<lparr>ulsr := (ulsr w)\<lparr>callbackState := STAGE_DONE\<rparr>\<rparr>"
  let ?k = "filter (\<lambda>r. ulsrCallback r = c) (all_records (ulsr w))"
  obtain r where "r \<in> set (all_records (ulsr w))" "ulsrCallback r = c"
    using assms by (auto simp: told_in_turn_def callbacks_of_def)
  then have "?k \<noteq> []" by (auto simp: filter_empty_conv)
  have run: "exec (WakeupNotify b) w =
      exec (for_each (\<lambda>r. log_call (Callback (OnUlsrWakeup (ulsrCallback r) b))) (all_records (ulsr w))) ?v"
    using True by (simp add: WakeupNotify_def mod_ulsr_def)
  have alt: "alternating c (map (\<lambda>_. Callback (OnUlsrWakeup c b)) rs @ xs) = alternating c xs" for rs :: "UlsrCallbackRecord list" and xs
    by (induction rs) (simp_all add: alternating_Cons)
  have new: "\<not> last_entered c (map (\<lambda>_. Callback (OnUlsrWakeup c b)) rs @ xs)" if "rs \<noteq> []" for rs :: "UlsrCallbackRecord list" and xs
    using that by (cases rs) (simp_all add: last_entered_def)
  show ?thesis
    using assms wakeup_calls_notes [of c b "all_records (ulsr w)" ?v] new [OF \<open>?k \<noteq> []\<close>]
    by (simp add: run told_in_turn_def callbacks_of_def all_records_def alt)
qed (use assms in \<open>simp add: WakeupNotify_def\<close>)

section \<open>Every run\<close>

text \<open>
  What the service does with the holder, in any order: rounds of either kind, the task that
  waits for the result, other clients that come and go, and everything else, which touches
  neither the holder nor the notifications.
\<close>

inductive ulsr_step :: "env \<Rightarrow> obj \<Rightarrow> world \<Rightarrow> world \<Rightarrow> bool" for E c where
  enter: "ulsr_step E c w (exec (TriggerUlsrSyncCallback E) w)"
| leave: "ulsr_step E c w (exec (TriggerUlsrWakeupCallback b) w)"
| result_task: "ulsr_step E c w (exec (WaitAndTriggerUlsrWakeup E) w)"
| add: "ulsr_step E c w (exec (Ulsr_AddCallback callback pidUid priority) w)"
| remove: "callback \<noteq> Some c \<Longrightarrow> ulsr_step E c w (exec (Ulsr_RemoveCallback callback) w)"
| elsewhere: "callbacks_of w' = callbacks_of w \<Longrightarrow> callbackState (ulsr w') = callbackState (ulsr w) \<Longrightarrow>
    notes_for c w' = notes_for c w \<Longrightarrow> ulsr_step E c w w'"

lemma told_in_turn_cong:
  assumes "callbacks_of v = callbacks_of w" "callbackState (ulsr v) = callbackState (ulsr w)" "notes_for c v = notes_for c w"
  shows "told_in_turn c v = told_in_turn c w"
  using assms by (simp add: told_in_turn_def)

lemma told_in_turn_quiet:
  "\<not> note_of c e \<Longrightarrow> told_in_turn c (exec (log_call e) w) = told_in_turn c w"
  "told_in_turn c (exec (mod_ulsr (\<lambda>u. u\<lparr>ulsrResultWaitTaskStart := b\<rparr>)) w) = told_in_turn c w"
  by (rule told_in_turn_cong; simp add: access_defs callbacks_of_def all_records_def)+

lemma WaitAndTriggerUlsrWakeup_in_turn:
  assumes "told_in_turn c w" shows "told_in_turn c (exec (WaitAndTriggerUlsrWakeup E) w)"
  using assms
  by (simp add: WaitAndTriggerUlsrWakeup_def IsUlsrSucceed_def TriggerUlsrWakeupCallback_def ask_int_def
      told_in_turn_quiet WakeupNotify_in_turn note_of_def)

lemma Ulsr_AddCallback_in_turn:
  assumes "told_in_turn c w" shows "told_in_turn c (exec (Ulsr_AddCallback callback pidUid priority) w)"
proof (cases callback)
  case (Some d)
  with assms show ?thesis
    by (cases priority)
      (auto simp: Ulsr_AddCallback_def Let_def told_in_turn_def callbacks_of_def all_records_def access_defs note_of_def)
qed (use assms in \<open>simp add: Ulsr_AddCallback_def\<close>)

lemma Ulsr_RemoveCallback_in_turn:
  assumes "told_in_turn c w" "callback \<noteq> Some c" shows "told_in_turn c (exec (Ulsr_RemoveCallback callback) w)"
proof (cases callback)
  case (Some d)
  have keep: "map ulsrCallback (all_records (map_containers (filter (\<lambda>r. ulsrCallback r \<noteq> d)) u)) =
    filter (\<lambda>x. x \<noteq> d) (map ulsrCallback (all_records u))" for u
    by (simp add: all_records_def map_containers_def filter_map comp_def)
  have "callbackState (map_containers f u) = callbackState u" for f u by (simp add: map_containers_def)
  with Some assms keep show ?thesis
    by (simp add: Ulsr_RemoveCallback_def told_in_turn_def callbacks_of_def access_defs note_of_def)
qed (use assms in \<open>simp add: Ulsr_RemoveCallback_def\<close>)

lemma ulsr_step_in_turn:
  assumes "ulsr_step E c w w'" "told_in_turn c w" shows "told_in_turn c w'"
  using assms
proof cases
  case (elsewhere)
  with assms(2) show ?thesis using told_in_turn_cong by blast
qed (use assms(2) in \<open>simp_all add: TriggerUlsrSyncCallback_def TriggerUlsrWakeupCallback_def SyncUlsrNotify_in_turn
    WakeupNotify_in_turn WaitAndTriggerUlsrWakeup_in_turn Ulsr_AddCallback_in_turn Ulsr_RemoveCallback_in_turn\<close>)

text \<open>
  C6: a registered client is told in turn: in every run in which it stays registered,
  whatever other clients and threads do and however many rounds time out, it is never told to enter an
  ultra-low-power suspend twice without a wakeup in between, and when no round is open the last thing it heard is not an entry.
\<close>

theorem ulsr_clients_told_in_turn:
  assumes "(ulsr_step E c)\<^sup>*\<^sup>* w w'" and "told_in_turn c w"
  shows "alternating c (notes_for c w') \<and>
    (callbackState (ulsr w') = STAGE_DONE \<longrightarrow> \<not> last_entered c (notes_for c w'))"
proof -
  have "told_in_turn c w'"
    using assms by (induction rule: rtranclp_induct) (auto intro: ulsr_step_in_turn)
  then show ?thesis by (simp add: told_in_turn_def)
qed

definition ulsr_world :: world where
  "ulsr_world = sample_world\<lparr>ulsr := (ulsr sample_world)\<lparr>ulsrCallbackHolder := True, ulsrHighCallbacks :=
     [\<lparr>ulsrCallback = 21, ulsrRecordPriority = ULSR_HIGH, ulsrPidUid = (1, 2), durationMs = -1\<rparr>]\<rparr>\<rparr>"

theorem ulsr_clients_told_in_turn_witness:
  "alternating 21 (notes_for 21 (exec (TriggerUlsrWakeupCallback True) (exec (TriggerUlsrSyncCallback sample_env) ulsr_world)))"
proof -
  have "told_in_turn 21 ulsr_world"
    by (simp add: told_in_turn_def ulsr_world_def sample_world_def callbacks_of_def all_records_def notes_for_def last_entered_def)
  moreover have "(ulsr_step sample_env 21)\<^sup>*\<^sup>* ulsr_world
      (exec (TriggerUlsrWakeupCallback True) (exec (TriggerUlsrSyncCallback sample_env) ulsr_world))"
    by (meson converse_rtranclp_into_rtranclp rtranclp.rtrancl_refl ulsr_step.enter ulsr_step.leave)
  ultimately show ?thesis using ulsr_clients_told_in_turn by blast
qed


end
