(* ===== verification/Force_Suspend.thy ===== *)
theory Force_Suspend
  imports Suspend_Control
begin

text \<open>
  The forced suspend that ignores running locks (\<open>suspend_controller.cpp\<close>, feature
  \<open>POWER_MANAGER_ENABLE_FORCE_SUSPEND_IGNORING_WAKELOCK\<close>, and its two calls of
  \<open>power_mgr_service.cpp\<close>).  A request puts the state machine to SLEEP, has the clients told by a task
  of the queue, waits for that task or for an interruption, and then suspends the device.

  Three threads meet here, so a request is split where it waits: \<open>ForceSuspend_begin\<close> up to the wait
  and \<open>ForceSuspend_end\<close> once \<open>callbacks_over\<close> lets it go on.  In between the task
  \<open>force_suspend_callbacks_task\<close> and an interruption may run.  The sleep callbacks run on a
  thread of their own for which the task waits a bounded time; they are taken to run to their end there.
\<close>

section \<open>Parts\<close>

definition RollbackForceSuspendState :: "env \<Rightarrow> unit M" where
  "RollbackForceSuspendState E = do {
     p \<leftarrow> gets ptrs;
     whenM (F_FORCE_SLEEP_BROADCAST E) (SetForceSleepingFlag False);
     whenM (suspStateMachine p)
       (do { _ \<leftarrow> SetState E AWAKE STATE_CHANGE_REASON_APPLICATION True; skip }) }"

definition EnterForceSuspendSleepState :: "env \<Rightarrow> SuspendDeviceType \<Rightarrow> bool M" where
  "EnterForceSuspendSleepState E reason = do {
     p \<leftarrow> gets ptrs;
     if \<not> suspStateMachine p then State_Monad.return False
     else do {
       stateReason \<leftarrow> GetReasonBySuspendType E reason;
       off \<leftarrow> SetState E INACTIVE stateReason True;
       if \<not> off then State_Monad.return False
       else do {
         whenM (F_FORCE_SLEEP_BROADCAST E) (SetForceSleepingFlag True);
         stateReason' \<leftarrow> GetReasonBySuspendType E reason;
         asleep \<leftarrow> SetState E SLEEP stateReason' True;
         if \<not> asleep then do {
           RollbackForceSuspendState E;
           State_Monad.return False }
         else do {
           mod_susp (\<lambda>s. s\<lparr>onForceSleep := True\<rparr>);
           State_Monad.return True } } } }"

definition StartForceSuspendCallbacks :: "string \<Rightarrow> unit M" where
  "StartForceSuspendCallbacks tag = do {
     mod_susp (\<lambda>s. s\<lparr>forceSuspendSkipHdi := False, forceSuspendCallbackPending := True,
       forceSuspendCallbackFinished := False, forceSuspendTag := tag\<rparr>);
     log_call (Queue (SubmitTask (TaskForceSuspendCallbacks tag))) }"

definition TriggerForceSuspendMemCallbacks :: "env \<Rightarrow> bool \<Rightarrow> unit M" where
  "TriggerForceSuspendMemCallbacks E isWakeup = do {
     log_call GetTick;
     TriggerSyncSleepCallback E isWakeup }"

definition TriggerForceSuspendCallbacks :: "env \<Rightarrow> string \<Rightarrow> unit M" where
  "TriggerForceSuspendCallbacks E tag = do {
     p \<leftarrow> gets ptrs;
     whenM (tag = ''ulsr'' \<and> F_SUSPEND_WITH_TAG E \<and> pms p)
       (do { _ \<leftarrow> TriggerUlsrSyncCallback E; skip });
     TriggerForceSuspendMemCallbacks E False }"

text \<open>The task submitted by \<open>StartForceSuspendCallbacks\<close>: its two halves, since it marks the end under a mutex.\<close>

definition force_suspend_callbacks_finished :: "unit M" where
  "force_suspend_callbacks_finished = mod_susp (\<lambda>s. s\<lparr>forceSuspendCallbackFinished := True\<rparr>)"

definition force_suspend_callbacks_task :: "env \<Rightarrow> string \<Rightarrow> unit M" where
  "force_suspend_callbacks_task E tag = do {
     TriggerForceSuspendCallbacks E tag;
     force_suspend_callbacks_finished }"

text \<open>The condition of the wait, and what follows it.\<close>

definition callbacks_over :: "world \<Rightarrow> bool" where
  "callbacks_over w = (forceSuspendSkipHdi (susp w) \<or> forceSuspendCallbackFinished (susp w))"

definition WaitForceSuspendCallbacks :: "bool M" where
  "WaitForceSuspendCallbacks = do {
     skipHdi \<leftarrow> gets (\<lambda>w. forceSuspendSkipHdi (susp w));
     mod_susp (\<lambda>s. s\<lparr>forceSuspendCallbackPending := False, forceSuspendSkipHdi := False\<rparr>);
     State_Monad.return (\<not> skipHdi) }"

definition ScheduleWakeupAfterInterrupt :: "unit M" where
  "ScheduleWakeupAfterInterrupt = do {
     tag \<leftarrow> gets (\<lambda>w. forceSuspendTag (susp w));
     log_call (Queue (SubmitTask (TaskForceSuspendWakeup tag))) }"

definition force_suspend_wakeup_task :: "env \<Rightarrow> string \<Rightarrow> unit M" where
  "force_suspend_wakeup_task E tag = do {
     p \<leftarrow> gets ptrs;
     whenM (F_SUSPEND_WITH_TAG E \<and> tag = ''ulsr'' \<and> pms p) (TriggerUlsrWakeupCallback False);
     TriggerForceSuspendMemCallbacks E True }"

definition RollbackForceSuspendAfterCallbacks :: "env \<Rightarrow> unit M" where
  "RollbackForceSuspendAfterCallbacks E = do {
     RollbackForceSuspendState E;
     ScheduleWakeupAfterInterrupt }"

definition ForceSuspendEx :: "env \<Rightarrow> string \<Rightarrow> string \<Rightarrow> bool M" where
  "ForceSuspendEx E mode tag = do {
     ok \<leftarrow> GetPowerInterface E;
     if \<not> ok then State_Monad.return False
     else do {
       v1_4 \<leftarrow> ask_bool E (Driver HdiCastV1_4);
       if \<not> v1_4 then State_Monad.return False
       else do {
         ret \<leftarrow> ask_int E (Driver (HdiForceSuspendEx mode tag));
         State_Monad.return (ret = 0) } } }"

definition DoHdiForceSuspendEx :: "env \<Rightarrow> string \<Rightarrow> bool M" where
  "DoHdiForceSuspendEx E tag = do {
     done \<leftarrow> ForceSuspendEx E ''ignore_wakelock'' tag;
     whenM (\<not> done) (RollbackForceSuspendAfterCallbacks E);
     State_Monad.return done }"

section \<open>Requests\<close>

definition InterruptForceSuspendCallback :: "env \<Rightarrow> bool M" where
  "InterruptForceSuspendCallback E = do {
     pending \<leftarrow> gets (\<lambda>w. forceSuspendCallbackPending (susp w));
     if \<not> pending then State_Monad.return False
     else do {
       mod_susp (\<lambda>s. s\<lparr>forceSuspendSkipHdi := True\<rparr>);
       RollbackForceSuspendState E;
       ScheduleWakeupAfterInterrupt;
       State_Monad.return True } }"

text \<open>\<open>HandleForceSuspendIgnoringWakelock\<close>; the first part answers whether the request goes on to wait.\<close>

definition HandleForceSuspend_begin :: "env \<Rightarrow> SuspendDeviceType \<Rightarrow> string \<Rightarrow> bool M" where
  "HandleForceSuspend_begin E reason tag = do {
     entered \<leftarrow> EnterForceSuspendSleepState E reason;
     whenM entered (StartForceSuspendCallbacks tag);
     State_Monad.return entered }"

definition HandleForceSuspend_end :: "env \<Rightarrow> string \<Rightarrow> bool M" where
  "HandleForceSuspend_end E tag = do {
     go \<leftarrow> WaitForceSuspendCallbacks;
     if \<not> go then State_Monad.return False else DoHdiForceSuspendEx E tag }"

definition CheckPowerManager :: "env \<Rightarrow> PowerErrors option M" where
  "CheckPowerManager E = do {
     system \<leftarrow> ask_bool E (Service PermissionIsSystem);
     if \<not> system then State_Monad.return (Some ERR_SYSTEM_API_DENIED)
     else do {
       ok \<leftarrow> granted E ''ohos.permission.POWER_MANAGER'';
       if \<not> ok then State_Monad.return (Some ERR_PERMISSION_DENIED)
       else if \<not> (F_FORCE_SUSPEND_EX E \<and> F_SUSPEND_WITH_TAG E)
       then State_Monad.return (Some ERR_CAPABILITY_NOT_SUPPORTED)
       else State_Monad.return None } }"

text \<open>\<open>None\<close>: the caller waits, and its answer is that of the second part.\<close>

definition ForceSuspendDeviceIgnoringWakelock_begin :: "env \<Rightarrow> string \<Rightarrow> PowerErrors option M" where
  "ForceSuspendDeviceIgnoringWakelock_begin E tag = do {
     denied \<leftarrow> CheckPowerManager E;
     case denied of
       Some e \<Rightarrow> State_Monad.return (Some e)
     | None \<Rightarrow>
         if tag \<noteq> ''mem'' \<and> tag \<noteq> ''ulsr'' then State_Monad.return (Some ERR_PARAM_INVALID)
         else do {
           log_call (Service CallerPid);
           log_call (Service CallerUid);
           down \<leftarrow> IsShuttingDown;
           p \<leftarrow> gets ptrs;
           if down then State_Monad.return (Some ERR_FAILURE)
           else if \<not> suspendController p then State_Monad.return (Some ERR_FAILURE)
           else do {
             waits \<leftarrow> HandleForceSuspend_begin E SUSPEND_DEVICE_REASON_APPLICATION tag;
             State_Monad.return (if waits then None else Some ERR_FAILURE) } } }"

definition ForceSuspendDeviceIgnoringWakelock_end :: "env \<Rightarrow> string \<Rightarrow> PowerErrors M" where
  "ForceSuspendDeviceIgnoringWakelock_end E tag = do {
     ret \<leftarrow> HandleForceSuspend_end E tag;
     State_Monad.return (if ret then ERR_OK else ERR_FAILURE) }"

definition InterruptForceSuspend :: "env \<Rightarrow> PowerErrors M" where
  "InterruptForceSuspend E = do {
     denied \<leftarrow> CheckPowerManager E;
     case denied of
       Some e \<Rightarrow> State_Monad.return e
     | None \<Rightarrow> do {
         p \<leftarrow> gets ptrs;
         if \<not> suspendController p then State_Monad.return ERR_FAILURE
         else do {
           interrupted \<leftarrow> InterruptForceSuspendCallback E;
           State_Monad.return (if interrupted then ERR_OK else ERR_FAILURE) } } }"

end
