(* ===== verification/Force_Laws.thy ===== *)
theory Force_Laws
  imports Force_Suspend State_Safety
begin

text \<open>
  The protocol between the three threads of a forced suspend: what an interruption guarantees, and what
  the shared flag does not.
\<close>

section \<open>Interruption of a forced suspend\<close>

text \<open>What may run while a request waits: the callbacks of this or an earlier request, in two halves, and interruptions.\<close>

datatype between =
    RunCallbacks string
  | FinishCallbacks
  | WakeupTask string
  | Interrupt

primrec run_between :: "env \<Rightarrow> between \<Rightarrow> unit M" where
  "run_between E (RunCallbacks tag) = TriggerForceSuspendCallbacks E tag"
| "run_between E FinishCallbacks = force_suspend_callbacks_finished"
| "run_between E (WakeupTask tag) = force_suspend_wakeup_task E tag"
| "run_between E Interrupt = do { _ \<leftarrow> InterruptForceSuspendCallback E; skip }"

lemma keeps_force_parts:
  assumes "outer f"
  shows "keeps f (TriggerForceSuspendCallbacks E tag)" "keeps f (force_suspend_wakeup_task E tag)"
    "keeps f (RollbackForceSuspendState E)" "keeps f ScheduleWakeupAfterInterrupt"
  using outer_ig [OF assms] assms
  by (auto simp: TriggerForceSuspendCallbacks_def force_suspend_wakeup_task_def TriggerForceSuspendMemCallbacks_def
      RollbackForceSuspendState_def ScheduleWakeupAfterInterrupt_def ig_susp_app trace_app intro!: keeps_intros)

lemma outer_force: "outer (\<lambda>w. forceSuspendSkipHdi (susp w))" "outer (\<lambda>w. forceSuspendCallbackPending (susp w))"
  "outer (\<lambda>w. forceSuspendCallbackFinished (susp w))"
  by (simp_all add: outer_def inert_def ig_defs ig_quiet_def ig_monitor_def ig_customized_def)

lemmas skip_kept = keeps_force_parts [OF outer_force(1), THEN keepsD]
  and pending_kept = keeps_force_parts [OF outer_force(2), THEN keepsD]

lemma between_keeps_skip:
  "forceSuspendSkipHdi (susp w) \<Longrightarrow> forceSuspendSkipHdi (susp (exec (run_between E b) w))"
  by (cases b) (simp_all add: skip_kept force_suspend_callbacks_finished_def InterruptForceSuspendCallback_def mod_susp_def)

lemma between_keeps_skip_all:
  "forceSuspendSkipHdi (susp w) \<Longrightarrow> forceSuspendSkipHdi (susp (exec (for_each (run_between E) bs) w))"
  by (induction bs arbitrary: w) (simp_all add: between_keeps_skip)

lemma interrupt_sets_skip:
  assumes "forceSuspendCallbackPending (susp w)"
  shows "result (InterruptForceSuspendCallback E) w"
    "forceSuspendSkipHdi (susp (exec (InterruptForceSuspendCallback E) w))"
  using assms by (simp_all add: InterruptForceSuspendCallback_def skip_kept mod_susp_def)

lemma between_keeps_pending:
  "forceSuspendCallbackPending (susp (exec (run_between E b) w)) = forceSuspendCallbackPending (susp w)"
  by (cases b) (simp_all add: pending_kept force_suspend_callbacks_finished_def InterruptForceSuspendCallback_def mod_susp_def)

lemma between_keeps_pending_all:
  "forceSuspendCallbackPending (susp (exec (for_each (run_between E) bs) w)) = forceSuspendCallbackPending (susp w)"
  by (induction bs arbitrary: w) (simp_all add: between_keeps_pending)

lemma begin_sets_pending:
  "result (HandleForceSuspend_begin E reason tag) w \<Longrightarrow>
    forceSuspendCallbackPending (susp (exec (HandleForceSuspend_begin E reason tag) w))"
  by (simp add: HandleForceSuspend_begin_def StartForceSuspendCallbacks_def access_defs)

text \<open>
  C20: a request for a forced suspend that gets as far as waiting has marked itself pending.  If it is
  interrupted while it is pending it never reaches the driver: whatever runs before
  and after the interruption, the interruption is accepted, the wait is over, the request fails, and its second part makes
  no call to anything outside.
\<close>

theorem interrupted_force_suspend_fails:
  assumes pending: "forceSuspendCallbackPending (susp w)"
    and w1: "w1 = exec (for_each (run_between E) before) w"
    and w2: "w2 = exec (for_each (run_between E) after) (exec (InterruptForceSuspendCallback E) w1)"
  shows "result (InterruptForceSuspendCallback E) w1 \<and> callbacks_over w2 \<and>
    \<not> result (HandleForceSuspend_end E tag) w2 \<and>
    trace (exec (HandleForceSuspend_end E tag) w2) = trace w2 \<and>
    \<not> forceSuspendCallbackPending (susp (exec (HandleForceSuspend_end E tag) w2)) \<and>
    (result (HandleForceSuspend_begin E reason tag) v \<longrightarrow>
      forceSuspendCallbackPending (susp (exec (HandleForceSuspend_begin E reason tag) v)))"
proof -
  have pending: "forceSuspendCallbackPending (susp w1)" using pending unfolding w1 by (simp add: between_keeps_pending_all)
  then have "forceSuspendSkipHdi (susp w2)"
    unfolding w2 by (intro between_keeps_skip_all interrupt_sets_skip)
  with interrupt_sets_skip(1) [OF pending] begin_sets_pending [of E reason tag v] show ?thesis
    by (simp add: callbacks_over_def HandleForceSuspend_end_def WaitForceSuspendCallbacks_def mod_susp_def)
qed

definition waiting_world :: world where
  "waiting_world = exec (StartForceSuspendCallbacks ''mem'') sample_world"

theorem interrupted_force_suspend_fails_witness:
  "\<not> result (HandleForceSuspend_end sample_env ''mem'')
     (exec (for_each (run_between sample_env) [FinishCallbacks])
       (exec (InterruptForceSuspendCallback sample_env)
         (exec (for_each (run_between sample_env) [RunCallbacks ''mem'']) waiting_world)))"
proof -
  have "forceSuspendCallbackPending (susp waiting_world)"
    by (simp add: waiting_world_def StartForceSuspendCallbacks_def access_defs)
  from interrupted_force_suspend_fails [OF this refl refl, of sample_env "[RunCallbacks ''mem'']" "[FinishCallbacks]" "''mem''"]
  show ?thesis by simp
qed

section \<open>Callbacks of an earlier request\<close>

definition told_to_sleep :: "world \<Rightarrow> ext_call list" where
  "told_to_sleep w = filter (\<lambda>c. \<exists>t b. c = Callback (OnSyncSleep t b)) (trace w)"

text \<open>
  The flag that ends the wait does not belong to a request.  When the callbacks of an earlier, interrupted
  request come to their end after the next request has begun, they end its wait as well, and the device is suspended
  although none of the callbacks of that request has been called.
\<close>

lemma stale_callbacks_end_wait:
  assumes pending: "forceSuspendCallbackPending (susp w)" and "\<not> forceSuspendSkipHdi (susp w)"
    and driver: "powerInterface (act w)" "\<And>tr. extBool E (Driver HdiCastV1_4) tr"
      "\<And>tr. extInt E (Driver (HdiForceSuspendEx ''ignore_wakelock'' tag)) tr = 0"
    and w1: "w1 = exec force_suspend_callbacks_finished w"
    and w2: "w2 = exec (HandleForceSuspend_end E tag) w1"
  shows "callbacks_over w1 \<and> result (HandleForceSuspend_end E tag) w1 \<and>
    hd (trace w2) = Driver (HdiForceSuspendEx ''ignore_wakelock'' tag) \<and> told_to_sleep w2 = told_to_sleep w"
  using assms
  by (simp add: callbacks_over_def force_suspend_callbacks_finished_def HandleForceSuspend_end_def
      WaitForceSuspendCallbacks_def DoHdiForceSuspendEx_def ForceSuspendEx_def GetPowerInterface_def access_defs
      told_to_sleep_def)

theorem stale_callbacks_end_wait_witness:
  "result (HandleForceSuspend_end sample_env ''mem'') (exec force_suspend_callbacks_finished waiting_world)"
proof -
  have "forceSuspendCallbackPending (susp waiting_world)" "\<not> forceSuspendSkipHdi (susp waiting_world)"
    "powerInterface (act waiting_world)"
    by (simp_all add: waiting_world_def StartForceSuspendCallbacks_def access_defs sample_world_def)
  from stale_callbacks_end_wait [OF this _ _ refl refl, of sample_env "''mem''"] show ?thesis
    by (simp add: sample_env_def)
qed

end
