(* ===== verification/Screen_Lock_Laws.thy ===== *)
theory Screen_Lock_Laws
  imports Client_Requests Lock_Laws "HOL-Library.Multiset"
begin

text \<open>
  Correctness of the observers of screen locks (theories \<open>Screen_Lock_Callbacks\<close> and
  \<open>Running_Lock\<close>).  The specification is the multiset of the displays for which a screen lock is held;
  the counters implement it, and a client that is registered for a display is called
  exactly when the display becomes locked or unlocked.
\<close>

section \<open>Registrations are unique\<close>

text \<open>Sorted by callback, and no callback twice for the same display.\<close>

definition callbacks_inv :: "RunningLockCallbackManager \<Rightarrow> bool" where
  "callbacks_inv m = (sorted (map fst (lockCallbacks m)) \<and>
     distinct (map (\<lambda>e. (fst e, callbackDisplayId e)) (lockCallbacks m)))"

lemma set_erase_first: "set (erase_first c d es) \<subseteq> set es"
  by (induction es) auto

lemma erase_first_eq:
  "distinct (map (\<lambda>e. (fst e, callbackDisplayId e)) es) \<Longrightarrow>
    erase_first c d es = filter (\<lambda>e. \<not> (fst e = c \<and> callbackDisplayId e = d)) es"
proof (induction es)
  case (Cons e es)
  then have "fst e = c \<and> callbackDisplayId e = d \<Longrightarrow>
      filter (\<lambda>e. \<not> (fst e = c \<and> callbackDisplayId e = d)) es = es"
    by (auto simp: filter_id_conv image_iff)
  with Cons show ?case by auto
qed simp

lemma sorted_split_insert:
  assumes "sorted (map fst es)"
  shows "sorted (map fst (takeWhile (\<lambda>e. fst e \<le> c) es @ (c :: nat, v) # dropWhile (\<lambda>e. fst e \<le> c) es))"
  using assms by (induction es) (force dest: set_takeWhileD set_dropWhileD)+

lemma split_insert_set:
  "set (takeWhile P es @ x # dropWhile P es) = insert x (set es)"
  using set_append [of "takeWhile P es" "dropWhile P es"] by auto

lemma split_insert_distinct:
  "distinct (map f (takeWhile P es @ x # dropWhile P es)) \<longleftrightarrow> f x \<notin> f ` set es \<and> distinct (map f es)"
proof -
  have "mset (takeWhile P es) + mset (dropWhile P es) = mset es"
    by (simp flip: mset_append)
  from arg_cong [OF this, of "image_mset f"]
  have "mset (map f (takeWhile P es @ x # dropWhile P es)) = mset (map f (x # es))"
    by simp
  then have "distinct (map f (takeWhile P es @ x # dropWhile P es)) = distinct (map f (x # es))"
    using mset_eq_imp_distinct_iff by blast
  then show ?thesis by simp
qed

lemma callbacks_inv_Register: "callbacks_inv m \<Longrightarrow> callbacks_inv (CbMgr_Register c p u d m)"
  by (auto simp: callbacks_inv_def CbMgr_Register_def list_ex_iff split_insert_distinct sorted_split_insert
      simp del: map_append list.map split: option.split)

lemma callbacks_inv_filter:
  "callbacks_inv m \<Longrightarrow> callbacks_inv (m\<lparr>lockCallbacks := filter P (lockCallbacks m)\<rparr>)"
  by (simp add: callbacks_inv_def sorted_filter distinct_map_filter)

lemma callbacks_inv_UnRegister: "callbacks_inv m \<Longrightarrow> callbacks_inv (CbMgr_UnRegister c d m)"
  using callbacks_inv_filter [of m]
  by (auto simp: CbMgr_UnRegister_def callbacks_inv_def erase_first_eq split: option.split)

lemma callbacks_inv_RemoveAll: "callbacks_inv m \<Longrightarrow> callbacks_inv (CbMgr_RemoveAll c m)"
  by (auto simp: CbMgr_RemoveAll_def callbacks_inv_filter split: option.split)

section \<open>What a client is told\<close>

text \<open>
  The specification.  \<open>held\<close> is the multiset of the displays of the screen locks that are held; a
  display is locked when a lock is held for it or for all displays.
\<close>

definition locked_for :: "nat multiset \<Rightarrow> nat \<Rightarrow> bool" where
  "locked_for held d = (d \<in># held \<or> RUNNINGLOCK_DISPLAY_ID_ALL \<in># held)"

definition counts_held :: "nat multiset \<Rightarrow> RunningLockCallbackManager \<Rightarrow> bool" where
  "counts_held held m = (size held < 2 ^ 32 \<and>
     (\<forall>d. screenLockCountPerDisplayId m d = (if d \<in># held then Some (of_nat (count held d)) else None)))"

text \<open>The locks that are held after a lock is taken or given back.\<close>

definition after_event :: "bool \<Rightarrow> nat \<Rightarrow> nat multiset \<Rightarrow> nat multiset" where
  "after_event active d held = (if active then add_mset d held else held - {#d#})"

definition told :: "bool \<Rightarrow> nat multiset \<Rightarrow> nat multiset \<Rightarrow> nat \<Rightarrow> bool" where
  "told active before after d =
    (if active then \<not> locked_for before d \<and> locked_for after d
     else locked_for before d \<and> \<not> locked_for after d)"

definition load :: "nat multiset \<Rightarrow> nat \<Rightarrow> nat" where
  "load held d = count held d + (if d = RUNNINGLOCK_DISPLAY_ID_ALL then 0 else count held RUNNINGLOCK_DISPLAY_ID_ALL)"

lemma load_pos: "0 < load held d \<longleftrightarrow> locked_for held d"
  by (auto simp: load_def locked_for_def count_greater_zero_iff [symmetric] simp del: count_greater_zero_iff)

lemma count_pair_le_size: "a \<noteq> b \<Longrightarrow> count M a + count M b \<le> size M"
proof -
  assume "a \<noteq> b"
  have "replicate_mset (count M a) a + replicate_mset (count M b) b \<subseteq># M"
    using \<open>a \<noteq> b\<close> by (intro mset_subset_eqI) auto
  from size_mset_mono [OF this] show ?thesis by simp
qed

lemma load_le: "load held d \<le> size held"
  using count_pair_le_size [of d RUNNINGLOCK_DISPLAY_ID_ALL held] by (auto simp: load_def count_le_size)

lemma GetScreenLockCountInternal_load:
  "counts_held held m \<Longrightarrow> GetScreenLockCountInternal d m = of_nat (load held d)"
  by (auto simp: GetScreenLockCountInternal_def counts_held_def load_def Let_def not_in_iff)

lemma of_nat32_eq_iff: "j < 2 ^ 32 \<Longrightarrow> k < 2 ^ 32 \<Longrightarrow> (of_nat j :: uint32) = of_nat k \<longleftrightarrow> j = k"
  by (simp add: word_of_nat_eq_iff take_bit_nat_eq_self)

lemma of_nat32_pos: "k < 2 ^ 32 \<Longrightarrow> (0 :: uint32) < of_nat k \<longleftrightarrow> 0 < k"
  using of_nat32_eq_iff [of k 0] by (auto simp: word_gt_0)

lemma of_nat32_one: "k < 2 ^ 32 \<Longrightarrow> (of_nat k :: uint32) = 1 \<longleftrightarrow> k = 1"
  using of_nat32_eq_iff [of k 1] by simp

lemma counts_held_bound: "counts_held held m \<Longrightarrow> count held d < 2 ^ 32 \<and> load held d < 2 ^ 32"
  using load_le [of held d] count_le_size [of held d] by (auto simp: counts_held_def)

lemma counts_held_lock:
  assumes "counts_held held m" and "size held + 1 < 2 ^ 32"
  shows "counts_held (add_mset d held) (UpdateScreenLockCount True d m)"
  using assms by (auto simp: counts_held_def UpdateScreenLockCount_def Let_def not_in_iff)

lemma counts_held_unlock:
  assumes c: "counts_held held m" and d: "d \<in># held"
  shows "counts_held (held - {#d#}) (UpdateScreenLockCount False d m)"
proof -
  have b: "0 < count held d" "count held d < 2 ^ 32" using d counts_held_bound [OF c] by auto
  have n: "screenLockCountPerDisplayId m d = Some (of_nat (count held d))"
    using c d by (simp add: counts_held_def)
  have pos: "(of_nat (count held d) :: uint32) > 0" using b of_nat32_pos by blast
  have one: "(of_nat (count held d) :: uint32) - 1 = 0 \<longleftrightarrow> count held d = 1"
    using of_nat32_one [OF b(2)] by (simp add: diff_eq_eq)
  have pred: "(of_nat (count held d) :: uint32) - 1 = of_nat (count held d - 1)"
    using b(1) by (simp add: of_nat_diff)
  have "size (held - {#d#}) < 2 ^ 32"
    using c size_Diff1_le [of held d] by (simp add: counts_held_def)
  moreover have "screenLockCountPerDisplayId (UpdateScreenLockCount False d m) d =
      (if count held d = 1 then None else Some (of_nat (count held d - 1)))"
    using pos one by (simp add: UpdateScreenLockCount_def Let_def n pred)
  moreover have "d' \<noteq> d \<Longrightarrow> screenLockCountPerDisplayId (UpdateScreenLockCount False d m) d' =
      screenLockCountPerDisplayId m d'" for d'
    by (simp add: UpdateScreenLockCount_def Let_def split: option.split)
  moreover have "d \<in># held - {#d#} \<longleftrightarrow> count held d \<noteq> 1"
    using b(1) by (auto simp: in_diff_count simp del: count_greater_zero_iff)
  ultimately show ?thesis
    using c b(1) unfolding counts_held_def by (auto simp: in_diff_count of_nat_diff)
qed

lemma CollectNotifications_eq:
  assumes "counts_held held' m" and "active \<Longrightarrow> load held' d = 1 \<longleftrightarrow> t" and "\<not> active \<Longrightarrow> load held' d = 0 \<longleftrightarrow> t"
  shows "CollectNotifications active d m ns = ns @ (if t then [(active, d)] else [])"
proof -
  note load = GetScreenLockCountInternal_load [OF assms(1), of d]
  have bound: "load held' d < 2 ^ 32" using counts_held_bound [OF assms(1)] by blast
  have "(of_nat (load held' d) :: uint32) = 1 \<longleftrightarrow> load held' d = 1"
    "(of_nat (load held' d) :: uint32) = 0 \<longleftrightarrow> load held' d = 0"
    using of_nat32_one [OF bound] of_nat32_eq_iff [OF bound, of 0] by simp_all
  then show ?thesis
    using assms(2,3) by (cases active) (auto simp: CollectNotifications_def Let_def load)
qed

lemma load_after_lock:
  "e = d \<or> e = RUNNINGLOCK_DISPLAY_ID_ALL \<Longrightarrow> load (after_event True e held) d = Suc (load held d)"
  by (auto simp: load_def after_event_def)

lemma load_after_unlock:
  "e = d \<or> e = RUNNINGLOCK_DISPLAY_ID_ALL \<Longrightarrow> e \<in># held \<Longrightarrow>
    Suc (load (after_event False e held) d) = load held d"
  by (auto simp: load_def after_event_def dest!: multi_member_split)

lemma told_affected:
  assumes "\<not> active \<Longrightarrow> e \<in># held" and "e = d \<or> e = RUNNINGLOCK_DISPLAY_ID_ALL"
  shows "active \<Longrightarrow> load (after_event active e held) d = 1 \<longleftrightarrow> told active held (after_event active e held) d"
    and "\<not> active \<Longrightarrow> load (after_event active e held) d = 0 \<longleftrightarrow> told active held (after_event active e held) d"
  using load_after_lock [OF assms(2), of held] load_after_unlock [OF assms(2), of held] assms(1)
  by (auto simp: told_def load_pos [symmetric])

lemma told_unaffected:
  "e \<noteq> d \<Longrightarrow> e \<noteq> RUNNINGLOCK_DISPLAY_ID_ALL \<Longrightarrow> \<not> told active held (after_event active e held) d"
  by (auto simp: told_def after_event_def locked_for_def in_diff_count split: if_splits)

lemma GetRegisteredDisplayIds_set:
  "oset_inv (GetRegisteredDisplayIds m) \<and>
    set (GetRegisteredDisplayIds m) = callbackDisplayId ` set (lockCallbacks m)"
proof -
  have "oset_inv s \<Longrightarrow> oset_inv (fold (\<lambda>e s. oset_insert (callbackDisplayId e) s) es s) \<and>
    set (fold (\<lambda>e s. oset_insert (callbackDisplayId e) s) es s) = set s \<union> callbackDisplayId ` set es"
    for es :: "ChangedCallback list" and s
    by (induction es arbitrary: s) (auto simp: oset_inv_insert)
  from this [of "[]" "lockCallbacks m"] show ?thesis
    by (simp add: GetRegisteredDisplayIds_def oset_inv_def)
qed

lemma fold_CollectNotifications:
  assumes "\<And>d ns. d \<in> set ds \<Longrightarrow> CollectNotifications a d m ns = ns @ (if t d then [(a, d)] else [])"
  shows "fold (\<lambda>d ns. CollectNotifications a d m ns) ds ns = ns @ map (Pair a) (filter t ds)"
  using assms by (induction ds arbitrary: ns) auto

text \<open>Every display that can have changed is examined once.\<close>

definition examined :: "nat \<Rightarrow> RunningLockCallbackManager \<Rightarrow> nat list" where
  "examined d m = (if d = RUNNINGLOCK_DISPLAY_ID_ALL
     then oset_erase RUNNINGLOCK_DISPLAY_ID_ALL (GetRegisteredDisplayIds m) else []) @ [d]"

lemma counts_held_after:
  assumes "counts_held held m" and "active \<Longrightarrow> size held + 1 < 2 ^ 32" and "\<not> active \<Longrightarrow> d \<in># held"
  shows "counts_held (after_event active d held) (UpdateScreenLockCount active d m)"
  using assms counts_held_lock counts_held_unlock by (cases active) (auto simp: after_event_def)

lemma CountScreenLock_eq:
  assumes "counts_held held m" and "active \<Longrightarrow> size held + 1 < 2 ^ 32" and "\<not> active \<Longrightarrow> d \<in># held"
  shows "CountScreenLock active d m =
    (map (Pair active) (filter (told active held (after_event active d held)) (examined d m)),
     UpdateScreenLockCount active d m)"
proof -
  note c = counts_held_after [OF assms]
  have step: "CollectNotifications active d' (UpdateScreenLockCount active d m) ns =
      ns @ (if told active held (after_event active d held) d' then [(active, d')] else [])"
    if "d = d' \<or> d = RUNNINGLOCK_DISPLAY_ID_ALL" for d' ns
    by (rule CollectNotifications_eq [OF c told_affected [OF assms(3) that]])
  show ?thesis
    using step by (auto simp: CountScreenLock_def Let_def examined_def
        fold_CollectNotifications [where t = "told active held (after_event active d held)"])
qed

lemma examined_once:
  "r \<in> callbackDisplayId ` set (lockCallbacks m) \<Longrightarrow> d = r \<or> d = RUNNINGLOCK_DISPLAY_ID_ALL \<Longrightarrow>
    distinct (examined d m) \<and> r \<in> set (examined d m)"
  using GetRegisteredDisplayIds_set [of m] oset_inv_distinct [OF oset_inv_erase, of "GetRegisteredDisplayIds m"]
  by (auto simp: examined_def)

section \<open>The calls the service makes\<close>

text \<open>What callback \<open>c\<close> was told about display \<open>d\<close>, the most recent first.\<close>

definition messages :: "obj \<Rightarrow> nat \<Rightarrow> world \<Rightarrow> bool list" where
  "messages c d w = concat (map (\<lambda>x. case x of
     Callback (ScreenLockChanged c' s d') \<Rightarrow> if c' = c \<and> d' = d then [s] else [] | _ \<Rightarrow> []) (trace w))"

lemma messages_trace [simp]:
  "messages c d (w\<lparr>trace := Callback (ScreenLockChanged c' s d') # tr\<rparr>) =
    (if c' = c \<and> d' = d then [s] else []) @ messages c d (w\<lparr>trace := tr\<rparr>)"
  "messages c d (w\<lparr>trace := Callback (CastLockCallback c') # tr\<rparr>) = messages c d (w\<lparr>trace := tr\<rparr>)"
  "messages c d (w\<lparr>rlm := x\<rparr>) = messages c d w"
  by (auto simp: messages_def)

lemma messages_trace_id [simp]: "messages c d (w\<lparr>trace := trace w\<rparr>) = messages c d w"
  by (simp add: messages_def)

abbreviation observer :: "obj \<Rightarrow> nat \<Rightarrow> ChangedCallback \<Rightarrow> bool" where
  "observer c d e \<equiv> fst e = c \<and> callbackDisplayId e = d"

lemma messages_notify_loop:
  assumes "F_LOCK_MULTI_SCREEN E" and "\<And>tr. extBool E (Callback (CastLockCallback c)) tr"
  shows "messages c r (exec (for_each (\<lambda>e. do {
       castable \<leftarrow> ask_bool E (Callback (CastLockCallback (fst e)));
       whenM (castable \<and> (F_LOCK_MULTI_SCREEN E \<longrightarrow> callbackDisplayId e = d))
         (log_call (Callback (ScreenLockChanged (fst e) s d))) }) es) w) =
    (if r = d then replicate (length (filter (observer c d) es)) s else []) @ messages c r w"
proof (induction es arbitrary: w)
  case (Cons e es)
  then show ?case
    using assms by (auto simp: ask_bool_def log_call_def replicate_app_Cons_same)
qed simp

lemma messages_notify:
  assumes "F_LOCK_MULTI_SCREEN E" and "\<And>tr. extBool E (Callback (CastLockCallback c)) tr"
  shows "messages c r (exec (NotifyScreenRunningLockChanged E s d) w) =
    (if r = d then replicate (length (filter (observer c d) (lockCallbacks (callbackManager (rlm w))))) s else [])
      @ messages c r w"
  unfolding NotifyScreenRunningLockChanged_def exec_bind
  using messages_notify_loop [OF assms] by simp

lemma observer_once:
  assumes "callbacks_inv m" and "(c, p, u, r) \<in> set (lockCallbacks m)"
  shows "length (filter (observer c r) (lockCallbacks m)) = 1"
proof -
  have d: "distinct (map (\<lambda>e. (fst e, callbackDisplayId e)) (lockCallbacks m))"
    using assms(1) by (simp add: callbacks_inv_def)
  have "map (\<lambda>e. (fst e, callbackDisplayId e)) (filter (observer c r) (lockCallbacks m)) =
      filter (\<lambda>y. y = (c, r)) (map (\<lambda>e. (fst e, callbackDisplayId e)) (lockCallbacks m))"
    by (simp add: filter_map comp_def prod_eq_iff)
  also have "\<dots> = [(c, r)]"
    using filter_eq_distinct [OF d] assms(2) by force
  finally have "length (map (\<lambda>e. (fst e, callbackDisplayId e)) (filter (observer c r) (lockCallbacks m))) = 1"
    by (simp only: list.size)
  then show ?thesis by (simp only: length_map)
qed

lemma exec_HandleScreenLockNotify:
  "exec (HandleScreenLockNotify E a d) w =
    (let (ns, m) = CountScreenLock a d (callbackManager (rlm w)) in
     exec (for_each (\<lambda>n. NotifyScreenRunningLockChanged E (fst n) (snd n)) ns)
       (w\<lparr>rlm := (rlm w)\<lparr>callbackManager := m\<rparr>\<rparr>))"
  by (simp add: HandleScreenLockNotify_def Let_def mod_rlm_def split: prod.split)

lemma manager_notify: "keeps (\<lambda>w. callbackManager (rlm w)) (NotifyScreenRunningLockChanged E s d)"
  by (rule keeps_screen_notify) (simp add: ig_defs)

lemma messages_notifications:
  assumes "F_LOCK_MULTI_SCREEN E" "\<And>tr. extBool E (Callback (CastLockCallback c)) tr"
    and "callbacks_inv (callbackManager (rlm w))" "(c, p, u, r) \<in> set (lockCallbacks (callbackManager (rlm w)))"
  shows "messages c r (exec (for_each (\<lambda>n. NotifyScreenRunningLockChanged E (fst n) (snd n)) ns) w) =
    rev (map fst (filter (\<lambda>n. snd n = r) ns)) @ messages c r w"
  using assms(3,4)
proof (induction ns arbitrary: w)
  case (Cons n ns)
  have "messages c r (exec (NotifyScreenRunningLockChanged E (fst n) (snd n)) w) =
      (if snd n = r then [fst n] else []) @ messages c r w"
    using messages_notify [OF assms(1,2), where d = "snd n"] observer_once [OF Cons.prems] by auto
  then show ?case
    using Cons keepsD [OF manager_notify, of E "fst n" "snd n" w] by simp
qed simp

lemma UpdateScreenLockCount_callbacks [simp]:
  "lockCallbacks (UpdateScreenLockCount a d m) = lockCallbacks m"
  "callbacks_inv (UpdateScreenLockCount a d m) = callbacks_inv m"
  by (simp_all add: UpdateScreenLockCount_def callbacks_inv_def Let_def)

lemma told_change:
  assumes "\<not> a \<Longrightarrow> d \<in># held"
  shows "(if told a held (after_event a d held) r then [a] else []) =
    (if locked_for held r \<noteq> locked_for (after_event a d held) r then [locked_for (after_event a d held) r] else [])"
proof -
  have "a \<Longrightarrow> locked_for held r \<Longrightarrow> locked_for (after_event a d held) r"
    "\<not> a \<Longrightarrow> locked_for (after_event a d held) r \<Longrightarrow> locked_for held r"
    by (auto simp: after_event_def locked_for_def in_diffD)
  then show ?thesis by (auto simp: told_def)
qed

lemma told_filter:
  assumes "r \<in> callbackDisplayId ` set (lockCallbacks m)"
  shows "filter (\<lambda>d'. d' = r \<and> told a held (after_event a d held) d') (examined d m) =
    (if told a held (after_event a d held) r then [r] else [])"
proof (cases "d = r \<or> d = RUNNINGLOCK_DISPLAY_ID_ALL")
  case True
  then have "filter (\<lambda>d'. d' = r) (examined d m) = [r]"
    using examined_once [OF assms] by (simp only: filter_eq_distinct)
  from arg_cong [OF this, of "filter (told a held (after_event a d held))"]
  show ?thesis by (simp only: filter_filter filter.simps)
next
  case False
  then show ?thesis using told_unaffected [of d r a held] by (auto simp: filter_empty_conv)
qed

section \<open>Locking and unlocking keep the counters\<close>

definition is_screen_lock :: "obj \<times> RunningLockInner \<Rightarrow> bool" where
  "is_screen_lock e = (lockType (runningLockParam (snd e)) = RUNNINGLOCK_SCREEN \<and>
     lockState (snd e) = RUNNINGLOCK_STATE_ENABLE)"

definition screen_displays :: "(obj \<times> RunningLockInner) list \<Rightarrow> nat multiset" where
  "screen_displays ls = mset (map (\<lambda>e. displayId (runningLockParam (snd e))) (filter is_screen_lock ls))"

definition screens_counted :: "world \<Rightarrow> bool" where
  "screens_counted w = counts_held (screen_displays (runningLocks (rlm w))) (callbackManager (rlm w))"

lemma screen_displays_simps [simp]:
  "screen_displays [] = {#}"
  "screen_displays (e # ls) =
    (if is_screen_lock e then {#displayId (runningLockParam (snd e))#} else {#}) + screen_displays ls"
  by (simp_all add: screen_displays_def)

lemma screen_displays_append [simp]: "screen_displays (xs @ ys) = screen_displays xs + screen_displays ys"
  by (simp add: screen_displays_def)

lemma size_screen_displays: "size (screen_displays ls) \<le> length ls"
  by (induction ls) auto

lemma screen_displays_set_state:
  assumes "distinct (map fst ls)" and "map_of ls k = Some l"
  shows "screen_displays (set_state k st ls) +
      (if is_screen_lock (k, l) then {#displayId (runningLockParam l)#} else {#}) =
    screen_displays ls +
      (if is_screen_lock (k, l\<lparr>lockState := st\<rparr>) then {#displayId (runningLockParam l)#} else {#})"
proof -
  obtain xs ys where ls: "ls = xs @ (k, l) # ys"
    using map_of_SomeD [OF assms(2)] by (auto dest: split_list)
  have "k \<notin> fst ` set xs" "k \<notin> fst ` set ys" using assms(1) by (auto simp: ls)
  then have "set_state k st ls = xs @ (k, l\<lparr>lockState := st\<rparr>) # ys"
    using set_state_fresh [of k xs st] set_state_fresh [of k ys st] by (auto simp: ls set_state_def)
  then show ?thesis by (simp add: ls)
qed

lemma manager_frames:
  "keeps (\<lambda>w. callbackManager (rlm w)) (UpdateUnSceneLockLists p b)"
  "keeps (\<lambda>w. callbackManager (rlm w)) (SetLockState k st)"
  "keeps (\<lambda>w. callbackManager (rlm w)) (UpdateProxyState pid uid k)"
  "keeps (\<lambda>w. callbackManager (rlm w)) (Increase (activate E t) u q)"
  "keeps (\<lambda>w. callbackManager (rlm w)) (Decrease (activate E t) u q)"
proof -
  have "beside_counters (\<lambda>w. callbackManager (rlm w))"
    by (simp add: beside_counters_def outer_def inert_def ig_defs ig_quiet_def ig_monitor_def ig_customized_def)
  note keeps_beside_counters [OF this]
  then show "keeps (\<lambda>w. callbackManager (rlm w)) (Increase (activate E t) u q)"
    "keeps (\<lambda>w. callbackManager (rlm w)) (Decrease (activate E t) u q)" by this+
qed (auto simp: UpdateUnSceneLockLists_def SetLockState_def update_lock_def UpdateProxyState_def Let_def
    intro!: keeps_intros)

lemma manager_HandleScreenLockNotify:
  "callbackManager (rlm (exec (HandleScreenLockNotify E a d) w)) =
    snd (CountScreenLock a d (callbackManager (rlm w)))"
  unfolding exec_HandleScreenLockNotify Let_def
  by (simp add: keepsD [OF keeps_for_each [OF manager_notify]] split: prod.split)

lemmas manager_simps = keepsD [OF manager_frames(1)] keepsD [OF manager_frames(2)] keepsD [OF manager_frames(3)]
  keepsD [OF manager_frames(4)] keepsD [OF manager_frames(5)] manager_HandleScreenLockNotify

lemma manager_Lock:
  assumes "F_MONITOR_LOCK_CHANGE E" "F_LOCK_MULTI_SCREEN E"
  shows "callbackManager (rlm (exec (Lock E k) w)) =
    (case result (ValidateLockForEnable k) w of
       None \<Rightarrow> callbackManager (rlm w)
     | Some l \<Rightarrow> if result (Lock E k) w \<and> lockType (runningLockParam l) = RUNNINGLOCK_SCREEN
                 then snd (CountScreenLock True (displayId (runningLockParam l)) (callbackManager (rlm w)))
                 else callbackManager (rlm w))"
  using assms by (auto simp: Lock_def Let_def manager_simps split: option.split)

lemma manager_UnLock:
  assumes "F_MONITOR_LOCK_CHANGE E" "F_LOCK_MULTI_SCREEN E" "result (FindLock k n) w = Some (k', l)"
  shows "callbackManager (rlm (exec (UnLock E k n) w)) =
    (if result (UnLock E k n) w \<and> lockType (runningLockParam l) = RUNNINGLOCK_SCREEN
     then snd (CountScreenLock False (displayId (runningLockParam l)) (callbackManager (rlm w)))
     else callbackManager (rlm w))"
  using assms by (auto simp: UnLock_def Let_def manager_simps split: option.split)

lemma screens_counted_Lock:
  assumes F: "F_MONITOR_LOCK_CHANGE E" "F_LOCK_MULTI_SCREEN E" and b: "balanced w" and c: "screens_counted w"
  shows "screens_counted (exec (Lock E k) w)"
proof (cases "result (ValidateLockForEnable k) w")
  case None
  then show ?thesis using c lockv_Lock [of E k w] manager_Lock [OF F, of k w]
    by (simp add: screens_counted_def lockv_def)
next
  case (Some l)
  let ?ls = "runningLocks (rlm w)"
  note v = ValidateLockForEnable_result [OF Some]
  have bal: "balance (?ls, lockCounters (rlm w))" using b by (simp add: balanced_def lockv_def)
  have l: "map_of ?ls k = Some l" "lockState l \<noteq> RUNNINGLOCK_STATE_ENABLE" using v by (simp_all add: lockv_def)
  have size: "size (screen_displays ?ls) + 1 < 2 ^ 32"
    using size_screen_displays [of ?ls] balanceD(2) [OF bal] by simp
  have eq: "screen_displays (set_state k RUNNINGLOCK_STATE_ENABLE ?ls) =
      (if lockType (runningLockParam l) = RUNNINGLOCK_SCREEN
       then after_event True (displayId (runningLockParam l)) (screen_displays ?ls) else screen_displays ?ls)"
    using screen_displays_set_state [OF balanceD(1) [OF bal] l(1), of RUNNINGLOCK_STATE_ENABLE] l(2)
    by (auto simp: is_screen_lock_def after_event_def)
  show ?thesis
    using c lockv_Lock [of E k w] manager_Lock [OF F, of k w] size Some
      CountScreenLock_eq [of "screen_displays ?ls" "callbackManager (rlm w)" True]
      counts_held_after [of "screen_displays ?ls" "callbackManager (rlm w)" True]
    by (auto simp: screens_counted_def lockv_def Let_def eq split: if_splits)
qed

lemma add_mset_eqD: "add_mset x M = N \<Longrightarrow> M = N - {#x#}"
  by auto

lemma screens_counted_UnLock:
  assumes F: "F_MONITOR_LOCK_CHANGE E" "F_LOCK_MULTI_SCREEN E" and b: "balanced w" and c: "screens_counted w"
    and np: "\<And>k' l. result (FindLock k n) w = Some (k', l) \<Longrightarrow> \<not> IsProxied l"
  shows "screens_counted (exec (UnLock E k n) w)"
proof (cases "result (FindLock k n) w")
  case None
  then show ?thesis using c UnLock_missing [OF None, of E] by (simp add: exec_def)
next
  case (Some e)
  then obtain k' l where e: "result (FindLock k n) w = Some (k', l)" by (cases e) simp
  let ?ls = "runningLocks (rlm w)"
  have bal: "balance (?ls, lockCounters (rlm w))" using b by (simp add: balanced_def lockv_def)
  have l: "map_of ?ls k' = Some l"
    using FindLock_result [OF e] balanceD(1) [OF bal] by (simp add: lockv_def)
  show ?thesis
  proof (cases "result (UnLock E k n) w")
    case False
    then show ?thesis using c lockv_UnLock [OF e, of E] manager_UnLock [OF F e]
      by (simp add: screens_counted_def lockv_def)
  next
    case True
    have on: "lockState l = RUNNINGLOCK_STATE_ENABLE"
      using UnLock_success [OF True e] np [OF e] lock_state_cases by blast
    have eq: "screen_displays (set_state k' RUNNINGLOCK_STATE_DISABLE ?ls) =
        (if lockType (runningLockParam l) = RUNNINGLOCK_SCREEN
         then after_event False (displayId (runningLockParam l)) (screen_displays ?ls) else screen_displays ?ls)"
      using screen_displays_set_state [OF balanceD(1) [OF bal] l, of RUNNINGLOCK_STATE_DISABLE] on
      by (auto simp: is_screen_lock_def after_event_def dest: add_mset_eqD)
    have mem: "displayId (runningLockParam l) \<in># screen_displays ?ls"
      if "lockType (runningLockParam l) = RUNNINGLOCK_SCREEN"
      using map_of_SomeD [OF l] that on by (force simp: screen_displays_def is_screen_lock_def)
    show ?thesis
      using c lockv_UnLock [OF e, of E] manager_UnLock [OF F e] True mem
        CountScreenLock_eq [of "screen_displays ?ls" "callbackManager (rlm w)" False]
        counts_held_after [of "screen_displays ?ls" "callbackManager (rlm w)" False]
      by (auto simp: screens_counted_def lockv_def eq split: if_splits)
  qed
qed

section \<open>Runs of the lock interface\<close>

text \<open>
  A lock is released by its owner once it is off; a lock that a proxy holds back is not given back
  here (theory \<open>Lock_Laws\<close> says what happens to the counters then).
\<close>

inductive screen_step :: "env \<Rightarrow> world \<Rightarrow> world \<Rightarrow> bool" for E where
  create: "length (runningLocks (rlm w)) + 3 < 2 ^ 32 \<Longrightarrow> screen_step E w (exec (CreateRunningLock k p) w)"
| lock: "screen_step E w (exec (Lock E k) w)"
| unlock: "(\<And>k' l. result (FindLock k n) w = Some (k', l) \<Longrightarrow> \<not> IsProxied l) \<Longrightarrow>
    screen_step E w (exec (UnLock E k n) w)"
| register: "screen_step E w (exec (RegisterRunningLockChangedCallback c p u d) w)"
| unregister: "screen_step E w (exec (UnRegisterRunningLockChangedCallback c d) w)"
| died: "screen_step E w (exec (RemoveAllRunningLockChangedCallbacks c) w)"

definition screens_inv :: "world \<Rightarrow> bool" where
  "screens_inv w = (balanced w \<and> screens_counted w \<and> callbacks_inv (callbackManager (rlm w)))"

lemma screen_displays_omap_set:
  assumes "omap_inv ls" "map_of ls k = None" "lockState l \<noteq> RUNNINGLOCK_STATE_ENABLE"
  shows "screen_displays (omap_set k l ls) = screen_displays ls"
  using assms
proof (induction k l ls rule: omap_set.induct)
  case (2 k v k' v' m)
  then show ?case by (auto simp: is_screen_lock_def omap_inv_def split: if_splits)
qed (simp add: is_screen_lock_def)

lemma callbacks_inv_CountScreenLock: "callbacks_inv (snd (CountScreenLock a d m)) = callbacks_inv m"
  by (simp add: CountScreenLock_def Let_def)

lemma counts_held_registration [simp]:
  "counts_held h (CbMgr_Register c p u d m) = counts_held h m"
  "counts_held h (CbMgr_UnRegister c d m) = counts_held h m"
  "counts_held h (CbMgr_RemoveAll c m) = counts_held h m"
  by (simp_all add: counts_held_def CbMgr_Register_def CbMgr_UnRegister_def CbMgr_RemoveAll_def split: option.split)

lemma balanced_registration [simp]: "balanced (w\<lparr>rlm := (rlm w)\<lparr>callbackManager := x\<rparr>\<rparr>) = balanced w"
  by (simp add: balanced_def lockv_def)

lemma screens_inv_step:
  assumes "F_MONITOR_LOCK_CHANGE E" "F_LOCK_MULTI_SCREEN E"
  shows "screen_step E w w' \<Longrightarrow> screens_inv w \<Longrightarrow> screens_inv w'"
proof (induction rule: screen_step.induct)
  case (create w k p)
  let ?l = "\<lparr>runningLockParam = p, lockState = RUNNINGLOCK_STATE_DISABLE, lockTimeMs = 0\<rparr>"
  have "runningLocks (rlm (exec (CreateRunningLock k p) w)) = omap_emplace k ?l (runningLocks (rlm w))"
    "callbackManager (rlm (exec (CreateRunningLock k p) w)) = callbackManager (rlm w)"
    by (simp_all add: CreateRunningLock_def AddRunningLock_def access_defs Let_def)
  moreover have "omap_inv (runningLocks (rlm w))"
    using create by (simp add: screens_inv_def balanced_def balance_def lockv_def)
  ultimately show ?case
    using create balanced_CreateRunningLock [of w k p] screen_displays_omap_set [of "runningLocks (rlm w)" k ?l]
    by (auto simp: screens_inv_def screens_counted_def omap_emplace_def split: option.splits)
next
  case (lock w k)
  then show ?case
    using balanced_Lock screens_counted_Lock [OF assms] manager_Lock [OF assms, of k w]
    by (auto simp: screens_inv_def callbacks_inv_CountScreenLock split: option.split)
next
  case (unlock k n w)
  then have "callbacks_inv (callbackManager (rlm (exec (UnLock E k n) w)))"
    using manager_UnLock [OF assms, of k n w] UnLock_missing [of k n w E]
    by (cases "result (FindLock k n) w") (auto simp: screens_inv_def callbacks_inv_CountScreenLock exec_def)
  then show ?case
    using unlock balanced_UnLock [of w k n E] screens_counted_UnLock [OF assms, of w k n]
    by (auto simp: screens_inv_def)
qed (auto simp: screens_inv_def screens_counted_def callbacks_inv_Register
    callbacks_inv_UnRegister callbacks_inv_RemoveAll mod_rlm_def RegisterRunningLockChangedCallback_def
    UnRegisterRunningLockChangedCallback_def RemoveAllRunningLockChangedCallbacks_def)

section \<open>Properties\<close>

text \<open>
  C9: a display is locked when a screen lock is held for it or for all displays.  When a
  lock is taken or given back, a client registered for a display is called exactly if this locks
  or unlocks that display, and then once, with the new state; and the counters go on to
  count the locks that are held.
\<close>

theorem screen_observers_told:
  assumes "F_LOCK_MULTI_SCREEN E" "\<And>tr. extBool E (Callback (CastLockCallback c)) tr"
    and "callbacks_inv (callbackManager (rlm w))" "(c, p, u, r) \<in> set (lockCallbacks (callbackManager (rlm w)))"
    and "counts_held held (callbackManager (rlm w))"
    and "active \<Longrightarrow> size held + 1 < 2 ^ 32" "\<not> active \<Longrightarrow> d \<in># held"
  defines "w' \<equiv> exec (HandleScreenLockNotify E active d) w" and "held' \<equiv> after_event active d held"
  shows "messages c r w' =
      (if locked_for held r \<noteq> locked_for held' r then [locked_for held' r] else []) @ messages c r w
      \<and> counts_held held' (callbackManager (rlm w'))"
proof -
  let ?m = "callbackManager (rlm w)"
  have r: "r \<in> callbackDisplayId ` set (lockCallbacks ?m)" using assms(4) by force
  have exec: "w' = exec (for_each (\<lambda>n. NotifyScreenRunningLockChanged E (fst n) (snd n))
      (map (Pair active) (filter (told active held held') (examined d ?m))))
      (w\<lparr>rlm := (rlm w)\<lparr>callbackManager := UpdateScreenLockCount active d ?m\<rparr>\<rparr>)"
    unfolding w'_def exec_HandleScreenLockNotify held'_def by (simp add: CountScreenLock_eq [OF assms(5-7)])
  have "callbackManager (rlm w') = UpdateScreenLockCount active d ?m"
    unfolding exec by (subst keepsD [OF keeps_for_each [OF manager_notify]]) simp
  then have counts: "counts_held held' (callbackManager (rlm w'))"
    using counts_held_after [OF assms(5-7)] by (simp add: held'_def)
  have "messages c r w' = map (\<lambda>_. active) (rev (filter (\<lambda>d'. d' = r \<and> told active held held' d') (examined d ?m)))
      @ messages c r w"
    unfolding exec using assms(3,4)
    by (subst messages_notifications [OF assms(1,2)]) (auto simp: filter_map comp_def rev_map conj_commute)
  also have "\<dots> = (if told active held held' r then [active] else []) @ messages c r w"
    using told_filter [OF r, of active held d] by (simp add: held'_def)
  also have "\<dots> = (if locked_for held r \<noteq> locked_for held' r then [locked_for held' r] else []) @ messages c r w"
    using told_change [OF assms(7)] by (simp add: held'_def)
  finally show ?thesis using counts by simp
qed


text \<open>One client watches display 7 when a lock for all displays is taken.\<close>

definition observer_env :: env where
  "observer_env = sample_env\<lparr>F_MONITOR_LOCK_CHANGE := True, F_LOCK_MULTI_SCREEN := True\<rparr>"

lemma observer_env_facts:
  "F_MONITOR_LOCK_CHANGE observer_env" "F_LOCK_MULTI_SCREEN observer_env"
  "extBool observer_env (Callback (CastLockCallback c)) tr"
  by (simp_all add: observer_env_def sample_env_def)

definition observer_world :: world where
  "observer_world = sample_world\<lparr>rlm := (rlm sample_world)\<lparr>callbackManager :=
     CbMgr_Register (Some 4) 100 200 7 (callbackManager (rlm sample_world))\<rparr>\<rparr>"

lemma observer_world_facts:
  "callbackManager (rlm observer_world) =
    \<lparr>lockCallbacks = [(4, 100, 200, 7)], screenLockCountPerDisplayId = Map.empty\<rparr>"
  "messages 4 7 observer_world = []" "counts_held {#} (callbackManager (rlm observer_world))"
  "callbacks_inv (callbackManager (rlm observer_world))" "screens_inv observer_world"
  by (simp_all add: observer_world_def sample_defs CbMgr_Register_def messages_def counts_held_def callbacks_inv_def
      screens_inv_def balanced_def lockv_def balance_def enabled_count_def nested_count_def count_of_def
      screens_counted_def)

theorem screen_observers_told_witness:
  "messages 4 7 (exec (HandleScreenLockNotify observer_env True RUNNINGLOCK_DISPLAY_ID_ALL) observer_world) = [True]"
  using screen_observers_told [of observer_env 4 observer_world 100 200 7 "{#}" True RUNNINGLOCK_DISPLAY_ID_ALL]
  by (simp add: observer_env_facts observer_world_facts(2-5) after_event_def locked_for_def)
    (simp add: observer_world_facts(1))



end
