(* ===== verification/Power_Mode.thy ===== *)
theory Power_Mode
  imports Client_Requests
begin

text \<open>
  \<open>PowerModeModule\<close> (\<open>services/native/src/power_mode_module.cpp\<close>) with the part of \<open>PowerModePolicy\<close> that
  needs the service, and the calls of \<open>PowerMgrService\<close> on it.  A mode is the \<open>uint32_t\<close> of the
  enumeration, since clients and the saved setting can give any number; a sub mode is an \<open>int32_t\<close>.

  \<open>policy->TriggerAllActions\<close> runs the eight actions that the constructor of the module registers, in
  the order of their kinds.
\<close>

section \<open>Modes\<close>

definition NORMAL_MODE :: nat where "NORMAL_MODE = 600"
definition POWER_SAVE_MODE :: nat where "POWER_SAVE_MODE = 601"
definition PERFORMANCE_MODE :: nat where "PERFORMANCE_MODE = 602"
definition EXTREME_POWER_SAVE_MODE :: nat where "EXTREME_POWER_SAVE_MODE = 603"
definition CUSTOM_POWER_SAVE_MODE :: nat where "CUSTOM_POWER_SAVE_MODE = 650"
definition POWER_MODE_MIN :: nat where "POWER_MODE_MIN = NORMAL_MODE"
definition POWER_MODE_MAX :: nat where "POWER_MODE_MAX = CUSTOM_POWER_SAVE_MODE"

definition SUB_MODE_INVALID :: int where "SUB_MODE_INVALID = -1"
definition SUB_MODE_SUPER_POWER_SAVE :: int where "SUB_MODE_SUPER_POWER_SAVE = 603001"
definition SUB_MODE_EMERGENCY :: int where "SUB_MODE_EMERGENCY = 603002"

lemmas mode_defs = NORMAL_MODE_def POWER_SAVE_MODE_def PERFORMANCE_MODE_def EXTREME_POWER_SAVE_MODE_def
  CUSTOM_POWER_SAVE_MODE_def POWER_MODE_MIN_def POWER_MODE_MAX_def

lemmas sub_mode_defs = SUB_MODE_INVALID_def SUB_MODE_SUPER_POWER_SAVE_def SUB_MODE_EMERGENCY_def

definition LAST_MODE_FLAG :: int where "LAST_MODE_FLAG = 0"

definition is_sub_mode :: "int \<Rightarrow> bool" where
  "is_sub_mode m = (m = SUB_MODE_INVALID \<or> m = SUB_MODE_SUPER_POWER_SAVE \<or> m = SUB_MODE_EMERGENCY)"

text \<open>\<open>forbidMap_\<close>, as \<open>InitPowerModeTransitMap\<close> fills it.\<close>

definition modeForbidMap :: "nat \<Rightarrow> nat list option" where
  "modeForbidMap = [POWER_SAVE_MODE \<mapsto> [PERFORMANCE_MODE], EXTREME_POWER_SAVE_MODE \<mapsto> [PERFORMANCE_MODE],
     CUSTOM_POWER_SAVE_MODE \<mapsto> [PERFORMANCE_MODE]]"

definition ModeCanTransitTo :: "nat \<Rightarrow> nat \<Rightarrow> bool" where
  "ModeCanTransitTo from to = (case modeForbidMap from of None \<Rightarrow> True | Some l \<Rightarrow> to \<notin> set l)"

definition IsPowerSaveModeDisabled :: "env \<Rightarrow> nat \<Rightarrow> bool" where
  "IsPowerSaveModeDisabled E mode =
    (if mode = POWER_SAVE_MODE \<or> mode = EXTREME_POWER_SAVE_MODE \<or> mode = CUSTOM_POWER_SAVE_MODE
     then boolParameter E ''persist.edm.disallowed_battery_saver'' False else False)"

section \<open>Policy\<close>

definition PolicyGetSettingDisplayOffTime :: "env \<Rightarrow> int \<Rightarrow> int M" where
  "PolicyGetSettingDisplayOffTime E defaultVal = do {
     p \<leftarrow> gets ptrs;
     if \<not> pms p then State_Monad.return defaultVal else GetSettingDisplayOffTime E defaultVal }"

text \<open>The current value of a setting, \<open>INIT_VALUE_FALSE\<close> when it cannot be read.\<close>

definition read_switch :: "env \<Rightarrow> nat \<Rightarrow> int M" where
  "read_switch E switchId =
    (if switchId = AUTO_ADJUST_BRIGHTNESS then GetSettingAutoAdjustBrightness E INIT_VALUE_FALSE
     else if switchId = AUTO_WINDOWN_RORATION then GetSettingWindowRotation E INIT_VALUE_FALSE
     else if switchId = VIBRATORS_STATE then GetSettingVibration E INIT_VALUE_FALSE
     else if switchId = INTELL_VOICE then GetSettingIntellVoice E INIT_VALUE_FALSE
     else if switchId = DISPLAY_OFFTIME then do {
       displayOfftime \<leftarrow> PolicyGetSettingDisplayOffTime E INIT_VALUE_FALSE;
       State_Monad.return (wrap32 displayOfftime) }
     else State_Monad.return INIT_VALUE_FALSE)"

text \<open>\<open>GetSettingSwitchState(id, backupMap_[id])\<close>: the entry exists before the setting is read.\<close>

definition GetSettingSwitchState :: "env \<Rightarrow> nat \<Rightarrow> unit M" where
  "GetSettingSwitchState E switchId = do {
     mod_pmode (\<lambda>s. s\<lparr>backupMap := omap_touch switchId (backupMap s)\<rparr>);
     value \<leftarrow> read_switch E switchId;
     whenM (value \<noteq> INIT_VALUE_FALSE)
       (mod_pmode (\<lambda>s. s\<lparr>backupMap := omap_set switchId value (backupMap s)\<rparr>)) }"

definition read_policy :: "env \<Rightarrow> ModePolicy \<Rightarrow> unit M" where
  "read_policy E p = do {
     mod_pmode (\<lambda>s. s\<lparr>switchMap := omap_set (policyId p) (policyValue p) (switchMap s)\<rparr>);
     whenM (recoverFlag p = RECOVER) (GetSettingSwitchState E (policyId p)) }"

text \<open>\<open>policyCache[mode]\<close> of the local copy: an empty policy for a mode that is not configured.\<close>

definition ReadPowerModePolicy :: "env \<Rightarrow> nat \<Rightarrow> unit M" where
  "ReadPowerModePolicy E mode = do {
     cache \<leftarrow> gets (\<lambda>w. policyCache (pmode w));
     if cache = [] then skip
     else do {
       mod_pmode (\<lambda>s. s\<lparr>switchMap := [], backupMap := []\<rparr>);
       for_each (read_policy E) (case map_of cache (int mode) of None \<Rightarrow> [] | Some l \<Rightarrow> l) } }"

definition UpdatePowerModePolicy :: "env \<Rightarrow> nat \<Rightarrow> unit M" where
  "UpdatePowerModePolicy E mode = do { ReadPowerModePolicy E mode; ComparePowerModePolicy E }"

section \<open>Actions\<close>

text \<open>The kinds for which the constructor of the module adds an action, as \<open>actionMap_\<close> orders them.\<close>

definition action_types :: "nat list" where
  "action_types = [DISPLAY_OFFTIME, SLEEPTIME, AUTO_ADJUST_BRIGHTNESS, INTELL_VOICE, AUTO_WINDOWN_RORATION,
     LCD_BRIGHTNESS, VIBRATORS_STATE, SOC_PERF]"

definition PolicyIsValidType :: "nat \<Rightarrow> bool" where
  "PolicyIsValidType type = (type \<in> set action_types)"

definition GetPowerModeValuePolicy :: "nat \<Rightarrow> int M" where
  "GetPowerModeValuePolicy type =
    (if PolicyIsValidType type then GetPolicyFromMap type else State_Monad.return INIT_VALUE_FALSE)"

text \<open>At boot a setting that is already valid is left alone.\<close>

definition unless_set :: "bool \<Rightarrow> bool M \<Rightarrow> unit M \<Rightarrow> unit M" where
  "unless_set isBoot valid m =
    (if isBoot then do { v \<leftarrow> valid; whenM (\<not> v) m } else m)"

definition with_policy :: "nat \<Rightarrow> (int \<Rightarrow> unit M) \<Rightarrow> unit M" where
  "with_policy type m = do { v \<leftarrow> GetPowerModeValuePolicy type; whenM (v \<noteq> INIT_VALUE_FALSE) (m v) }"

definition ModeSetDisplayOffTime :: "env \<Rightarrow> bool \<Rightarrow> unit M" where
  "ModeSetDisplayOffTime E isBoot = unless_set isBoot (IsDisplayOffTimeSettingValid E)
    (with_policy DISPLAY_OFFTIME (\<lambda>time. SetDisplayOffTime E time (time > 0)))"

definition ModeSetSleepTime :: "bool \<Rightarrow> unit M" where
  "ModeSetSleepTime isBoot =
    with_policy SLEEPTIME SetSleepTime"

definition SetAutoAdjustBrightness :: "env \<Rightarrow> bool \<Rightarrow> unit M" where
  "SetAutoAdjustBrightness E isBoot = unless_set isBoot (IsAutoAdjustBrightnessSettingValid E)
    (with_policy AUTO_ADJUST_BRIGHTNESS (SetSettingAutoAdjustBrightness E))"

definition SetLcdBrightness :: "env \<Rightarrow> bool \<Rightarrow> unit M" where
  "SetLcdBrightness E isBoot = unless_set isBoot (IsBrightnessSettingValid E)
    (with_policy LCD_BRIGHTNESS (\<lambda>b. do {
       SetSettingBrightness E b;
       whenM (F_DISPLAY_MANAGER E) (log_call (Display (DpmSetBrightness b))) }))"

definition SetVibration :: "env \<Rightarrow> bool \<Rightarrow> unit M" where
  "SetVibration E isBoot = unless_set isBoot (IsVibrationSettingValid E)
    (with_policy VIBRATORS_STATE (SetSettingVibration E))"

definition SetWindowRotation :: "env \<Rightarrow> bool \<Rightarrow> unit M" where
  "SetWindowRotation E isBoot = unless_set isBoot (IsWindowRotationSettingValid E)
    (with_policy AUTO_WINDOWN_RORATION (SetSettingWindowRotation E))"

definition SetIntellVoiceState :: "env \<Rightarrow> bool \<Rightarrow> unit M" where
  "SetIntellVoiceState E isBoot = unless_set isBoot (IsIntellVoiceSettingValid E)
    (with_policy INTELL_VOICE (SetSettingIntellVoice E))"

definition SetSocPerfState :: "env \<Rightarrow> bool \<Rightarrow> unit M" where
  "SetSocPerfState E isBoot = with_policy SOC_PERF (\<lambda>state.
     whenM (F_RESOURCE_SCHEDULE E)
       (if state = 1 then log_call (Settings (ReportSchedMode 1 ''perfMode''))
        else if state = 0 then log_call (Settings (ReportSchedMode 0 ''normalMode''))
        else skip))"

definition mode_action :: "env \<Rightarrow> bool \<Rightarrow> nat \<Rightarrow> unit M" where
  "mode_action E isBoot type =
    (if type = DISPLAY_OFFTIME then ModeSetDisplayOffTime E isBoot
     else if type = SLEEPTIME then ModeSetSleepTime isBoot
     else if type = AUTO_ADJUST_BRIGHTNESS then SetAutoAdjustBrightness E isBoot
     else if type = INTELL_VOICE then SetIntellVoiceState E isBoot
     else if type = AUTO_WINDOWN_RORATION then SetWindowRotation E isBoot
     else if type = LCD_BRIGHTNESS then SetLcdBrightness E isBoot
     else if type = VIBRATORS_STATE then SetVibration E isBoot
     else if type = SOC_PERF then SetSocPerfState E isBoot
     else skip)"

definition TriggerAllActions :: "env \<Rightarrow> bool \<Rightarrow> unit M" where
  "TriggerAllActions E isBoot = for_each (mode_action E isBoot) action_types"

section \<open>Telling the clients\<close>

definition AddPowerModeCallback :: "env \<Rightarrow> obj option \<Rightarrow> unit M" where
  "AddPowerModeCallback E callback = (case callback of
     None \<Rightarrow> skip
   | Some c \<Rightarrow> do {
       cs \<leftarrow> gets (\<lambda>w. modeCallbacks (pmode w));
       mod_pmode (\<lambda>s. s\<lparr>modeCallbacks := oset_insert c (modeCallbacks s)\<rparr>);
       whenM (c \<notin> set cs) (log_call (Callback (AddDeathRecipient c)));
       pidUid \<leftarrow> caller E;
       mod_pmode (\<lambda>s. s\<lparr>modeCachedRegister := (case modeCachedRegister s c of
         None \<Rightarrow> (modeCachedRegister s)(c \<mapsto> pidUid) | Some _ \<Rightarrow> modeCachedRegister s)\<rparr>) })"

definition DelPowerModeCallback :: "obj option \<Rightarrow> unit M" where
  "DelPowerModeCallback callback = (case callback of
     None \<Rightarrow> skip
   | Some c \<Rightarrow> do {
       cs \<leftarrow> gets (\<lambda>w. modeCallbacks (pmode w));
       whenM (c \<in> set cs) (do {
         mod_pmode (\<lambda>s. s\<lparr>modeCallbacks := oset_erase c (modeCallbacks s)\<rparr>);
         log_call (Callback (RemoveDeathRecipient c)) });
       mod_pmode (\<lambda>s. s\<lparr>modeCachedRegister := (modeCachedRegister s)(c := None)\<rparr>) })"

definition Mode_OnRemoteDied :: "obj option \<Rightarrow> unit M" where
  "Mode_OnRemoteDied remote = DelPowerModeCallback remote"

text \<open>The loop passes a local variable \<open>mode\<close> that is always \<open>NORMAL_MODE\<close>.\<close>

definition WaitingCallback :: "env \<Rightarrow> unit M" where
  "WaitingCallback E = do {
     cs \<leftarrow> gets (\<lambda>w. modeCallbacks (pmode w));
     for_each (\<lambda>c. do {
       castable \<leftarrow> ask_bool E (Callback (CastPowerModeCallback c));
       whenM castable (log_call (Callback (OnPowerModeChanged c NORMAL_MODE))) }) cs }"

definition is_published_mode :: "nat \<Rightarrow> bool" where
  "is_published_mode m = (m \<in> {PERFORMANCE_MODE, NORMAL_MODE, POWER_SAVE_MODE, EXTREME_POWER_SAVE_MODE,
     CUSTOM_POWER_SAVE_MODE})"

definition PublishPowerModeEvent :: "unit M" where
  "PublishPowerModeEvent = do {
     s \<leftarrow> gets pmode;
     whenM (is_published_mode (powerMode s))
       (log_call (Event (PublishPowerMode (powerMode s)
         (if powerMode s = EXTREME_POWER_SAVE_MODE then Some (powerSubMode s) else None)))) }"

definition ModePrepare :: "env \<Rightarrow> unit M" where
  "ModePrepare E = do { PublishPowerModeEvent; WaitingCallback E }"

section \<open>Observers of the settings that a save mode changes\<close>

definition switch_update ::
  "env \<Rightarrow> nat \<Rightarrow> (env \<Rightarrow> int \<Rightarrow> int M) \<Rightarrow> unit M" where
  "switch_update E type get = do {
     switchVal \<leftarrow> GetPowerModeValuePolicy type;
     setVal \<leftarrow> get E switchVal;
     if setVal = switchVal then skip else RemoveBackupMapSettingSwitch E type }"

definition AutoAdjustBrightnessUpdateFunc :: "env \<Rightarrow> unit M" where
  "AutoAdjustBrightnessUpdateFunc E = switch_update E AUTO_ADJUST_BRIGHTNESS GetSettingAutoAdjustBrightness"

definition WindowRotationUpdateFunc :: "env \<Rightarrow> unit M" where
  "WindowRotationUpdateFunc E = switch_update E AUTO_WINDOWN_RORATION GetSettingWindowRotation"

definition VibrateStateUpdateFunc :: "env \<Rightarrow> unit M" where
  "VibrateStateUpdateFunc E = switch_update E VIBRATORS_STATE GetSettingVibration"

definition IntellVoiceUpdateFunc :: "env \<Rightarrow> unit M" where
  "IntellVoiceUpdateFunc E = switch_update E INTELL_VOICE GetSettingIntellVoice"

definition RegisterAutoAdjustBrightnessObserver :: "env \<Rightarrow> unit M" where
  "RegisterAutoAdjustBrightnessObserver E = do {
     s \<leftarrow> gets pmode;
     whenM (\<not> autoAdjustBrightnessObserver s) (do {
       ok \<leftarrow> RegisterSettingAutoAdjustBrightnessObserver E;
       mod_pmode (\<lambda>s. s\<lparr>autoAdjustBrightnessObserver := ok\<rparr>) }) }"

definition RegisterAutoWindowRotationObserver :: "env \<Rightarrow> unit M" where
  "RegisterAutoWindowRotationObserver E = do {
     s \<leftarrow> gets pmode;
     whenM (\<not> autoWindowRotationObserver s) (do {
       ok \<leftarrow> RegisterSettingWindowRotationObserver E;
       mod_pmode (\<lambda>s. s\<lparr>autoWindowRotationObserver := ok\<rparr>) }) }"

definition RegisterVibrateStateObserver :: "env \<Rightarrow> unit M" where
  "RegisterVibrateStateObserver E = do {
     s \<leftarrow> gets pmode;
     whenM (\<not> vibratorsStateObserver s) (do {
       ok \<leftarrow> RegisterSettingVibrationObserver E;
       mod_pmode (\<lambda>s. s\<lparr>vibratorsStateObserver := ok\<rparr>) }) }"

definition RegisterIntellVoiceObserver :: "env \<Rightarrow> unit M" where
  "RegisterIntellVoiceObserver E = do {
     s \<leftarrow> gets pmode;
     whenM (\<not> intellVoiceObserver s) (do {
       ok \<leftarrow> RegisterSettingIntellVoiceObserver E;
       mod_pmode (\<lambda>s. s\<lparr>intellVoiceObserver := ok\<rparr>) }) }"

definition RegisterSaveModeObserver :: "env \<Rightarrow> unit M" where
  "RegisterSaveModeObserver E = do {
     s \<leftarrow> gets pmode;
     whenM (powerMode s = POWER_SAVE_MODE \<or> powerMode s = EXTREME_POWER_SAVE_MODE) (do {
       RegisterAutoAdjustBrightnessObserver E;
       RegisterAutoWindowRotationObserver E;
       RegisterVibrateStateObserver E;
       RegisterIntellVoiceObserver E;
       mod_pmode (\<lambda>s. s\<lparr>observerRegisted := True\<rparr>) }) }"

definition UnregisterSaveModeObserver :: "env \<Rightarrow> unit M" where
  "UnregisterSaveModeObserver E = do {
     s \<leftarrow> gets pmode;
     whenM (observerRegisted s) (do {
       UnregisterSettingObserver E SETTING_AUTO_ADJUST_BRIGHTNESS_KEY (autoAdjustBrightnessObserver s);
       UnregisterSettingObserver E SETTING_WINDOW_ROTATION_KEY (autoWindowRotationObserver s);
       UnregisterSettingObserver E SETTING_VIBRATION_KEY (vibratorsStateObserver s);
       UnregisterSettingObserver E SETTING_INTELL_VOICE_KEY (intellVoiceObserver s);
       mod_pmode (\<lambda>s. s\<lparr>autoAdjustBrightnessObserver := False, autoWindowRotationObserver := False,
         vibratorsStateObserver := False, intellVoiceObserver := False, observerRegisted := False\<rparr>) }) }"

section \<open>Changing the mode\<close>

definition EnableMode :: "env \<Rightarrow> nat \<Rightarrow> bool \<Rightarrow> unit M" where
  "EnableMode E mode isBoot = do {
     s \<leftarrow> gets pmode;
     if modeStarted s then skip
     else do {
       mod_pmode (\<lambda>s. s\<lparr>modeStarted := True\<rparr>);
       mod_pmode (\<lambda>s. s\<lparr>powerMode := mode\<rparr>);
       UpdatePowerModePolicy E mode;
       ModePrepare E;
       TriggerAllActions E isBoot;
       SaveCurrentMode E (wrap32 (int mode));
       mod_pmode (\<lambda>s. s\<lparr>lastMode := mode\<rparr>);
       mod_pmode (\<lambda>s. s\<lparr>modeStarted := False\<rparr>) } }"

definition SetModeItem :: "env \<Rightarrow> nat \<Rightarrow> PowerErrors M" where
  "SetModeItem E mode = do {
     s \<leftarrow> gets pmode;
     if powerMode s = mode then State_Monad.return ERR_OK
     else if mode > EXTREME_POWER_SAVE_MODE \<and> mode < POWER_MODE_MAX then State_Monad.return ERR_PARAM_INVALID
     else if mode < POWER_MODE_MIN \<or> mode > POWER_MODE_MAX then State_Monad.return ERR_PARAM_INVALID
     else if \<not> ModeCanTransitTo (powerMode s) mode then State_Monad.return ERR_POWER_MODE_TRANSIT_FAILED
     else do {
       UnregisterSaveModeObserver E;
       whenM (mode \<noteq> EXTREME_POWER_SAVE_MODE \<and> powerSubMode s \<noteq> SUB_MODE_INVALID) (do {
         mod_pmode (\<lambda>s. s\<lparr>powerSubMode := SUB_MODE_INVALID\<rparr>);
         SaveCurrentSubMode E SUB_MODE_INVALID });
       EnableMode E mode False;
       RegisterSaveModeObserver E;
       State_Monad.return ERR_OK } }"

definition SetModeAndSubModeItem :: "env \<Rightarrow> nat \<Rightarrow> int \<Rightarrow> PowerErrors M" where
  "SetModeAndSubModeItem E mode subMode =
    (if \<not> is_sub_mode subMode then State_Monad.return ERR_PARAM_INVALID
     else do {
       s \<leftarrow> gets pmode;
       ret \<leftarrow> SetModeItem E mode;
       if ret \<noteq> ERR_OK then State_Monad.return ret
       else do {
         mod_pmode (\<lambda>s. s\<lparr>powerSubMode := subMode\<rparr>);
         SaveCurrentSubMode E subMode;
         whenM (powerMode s = mode \<and> powerSubMode s \<noteq> subMode) PublishPowerModeEvent;
         State_Monad.return ERR_OK } })"

definition IsBootNeedActions :: "bool M" where
  "IsBootNeedActions = gets (\<lambda>w. int (lastMode (pmode w)) = LAST_MODE_FLAG \<and>
     powerMode (pmode w) = PERFORMANCE_MODE)"

text \<open>The two values that \<open>InitPowerMode\<close> computes from the saved ones.\<close>

definition saved_mode :: "int \<Rightarrow> nat" where
  "saved_mode saveMode = (if saveMode = LAST_MODE_FLAG then NORMAL_MODE else nat (saveMode mod 2 ^ 32))"

definition saved_sub_mode :: "nat \<Rightarrow> int \<Rightarrow> int" where
  "saved_sub_mode mode saveSubMode =
    (if mode \<noteq> EXTREME_POWER_SAVE_MODE then SUB_MODE_INVALID
     else if is_sub_mode saveSubMode then saveSubMode else SUB_MODE_EMERGENCY)"

definition InitPowerMode :: "env \<Rightarrow> unit M" where
  "InitPowerMode E = do {
     s \<leftarrow> gets pmode;
     if modeReady s then skip
     else do {
       mod_pmode (\<lambda>s. s\<lparr>modeReady := True\<rparr>);
       saveMode \<leftarrow> ReadCurrentMode E LAST_MODE_FLAG;
       mod_pmode (\<lambda>s. s\<lparr>powerMode := saved_mode saveMode\<rparr>);
       saveSubMode \<leftarrow> ReadCurrentSubMode E SUB_MODE_EMERGENCY;
       mod_pmode (\<lambda>s. s\<lparr>powerSubMode := saved_sub_mode (saved_mode saveMode) saveSubMode\<rparr>);
       ModePrepare E;
       recovered \<leftarrow> InitRecoverMap E;
       if \<not> recovered then do {
         UpdatePowerModePolicy E (saved_mode saveMode);
         TriggerAllActions E False }
       else whenM (F_RESOURCE_SCHEDULE E) (do {
         boot \<leftarrow> IsBootNeedActions;
         whenM boot (do {
           UpdatePowerModePolicy E (saved_mode saveMode);
           TriggerAllActions E True }) }) } }"

section \<open>The service\<close>

definition CheckPowerOptimization :: "env \<Rightarrow> PowerErrors option M" where
  "CheckPowerOptimization E = do {
     system \<leftarrow> ask_bool E (Service PermissionIsSystem);
     if \<not> system then State_Monad.return (Some ERR_SYSTEM_API_DENIED)
     else do {
       ok \<leftarrow> granted E ''ohos.permission.POWER_OPTIMIZATION'';
       State_Monad.return (if ok then None else Some ERR_PERMISSION_DENIED) } }"

definition SetDeviceMode :: "env \<Rightarrow> nat \<Rightarrow> PowerErrors M" where
  "SetDeviceMode E mode = do {
     denied \<leftarrow> CheckPowerOptimization E;
     case denied of
       Some e \<Rightarrow> State_Monad.return e
     | None \<Rightarrow>
         if IsPowerSaveModeDisabled E mode then State_Monad.return ERR_ENTERPRISE_POLICIES_DENIED
         else if mode = EXTREME_POWER_SAVE_MODE then SetModeAndSubModeItem E mode SUB_MODE_EMERGENCY
         else SetModeItem E mode }"

definition SetDeviceModeAndSubMode :: "env \<Rightarrow> nat \<Rightarrow> int \<Rightarrow> PowerErrors M" where
  "SetDeviceModeAndSubMode E mode subMode = do {
     denied \<leftarrow> CheckPowerOptimization E;
     case denied of
       Some e \<Rightarrow> State_Monad.return e
     | None \<Rightarrow>
         if mode \<noteq> EXTREME_POWER_SAVE_MODE then State_Monad.return ERR_POWER_MODE_TRANSIT_FAILED
         else if IsPowerSaveModeDisabled E mode then State_Monad.return ERR_ENTERPRISE_POLICIES_DENIED
         else if subMode = SUB_MODE_INVALID then State_Monad.return ERR_POWER_MODE_TRANSIT_FAILED
         else SetModeAndSubModeItem E mode subMode }"

definition GetDeviceMode :: "nat M" where
  "GetDeviceMode = gets (\<lambda>w. powerMode (pmode w))"

definition GetDeviceSubMode :: "int M" where
  "GetDeviceSubMode = gets (\<lambda>w. powerSubMode (pmode w))"

definition PowerModeSettingUpdateFunc :: "env \<Rightarrow> unit M" where
  "PowerModeSettingUpdateFunc E = do {
     currMode \<leftarrow> GetDeviceMode;
     saveMode \<leftarrow> ReadCurrentMode E (wrap32 (int currMode));
     if wrap32 (int currMode) = saveMode then skip
     else do { _ \<leftarrow> SetDeviceMode E (nat (saveMode mod 2 ^ 32)); skip } }"

definition RegisterSettingPowerModeObservers :: "env \<Rightarrow> unit M" where
  "RegisterSettingPowerModeObservers E = do { InitPowerMode E; RegisterSettingPowerModeObserver E }"

definition RegisterPowerModeCallback :: "env \<Rightarrow> obj option \<Rightarrow> bool M" where
  "RegisterPowerModeCallback E callback = do {
     system \<leftarrow> ask_bool E (Service PermissionIsSystem);
     if \<not> system then State_Monad.return False
     else do { AddPowerModeCallback E callback; State_Monad.return True } }"

definition UnRegisterPowerModeCallback :: "env \<Rightarrow> obj option \<Rightarrow> bool M" where
  "UnRegisterPowerModeCallback E callback = do {
     system \<leftarrow> ask_bool E (Service PermissionIsSystem);
     if \<not> system then State_Monad.return False
     else do { DelPowerModeCallback callback; State_Monad.return True } }"

end
