(* ===== verification/Setting_Laws.thy ===== *)
theory Setting_Laws
  imports Setting_Helper Sample_World
begin

text \<open>
  Correctness of the settings: what is written is read back, whatever its sign and size, and the
  retry loop ends.  The data share is only assumed to answer a query with what was last put at the
  same place.
\<close>

section \<open>Numbers in strings\<close>

lemma undigits_clamp: "int64 n \<Longrightarrow> clamp64 n = n"
  by (simp add: clamp64_def int64_def)

lemma is_digit_digits: "list_all is_digit (digits n)"
  using digits_chars by (auto simp: list_all_iff is_digit_def)

lemma digits_nonempty [simp]: "digits n \<noteq> []"
  by (simp add: digits.simps [of n])

lemma take_digits: "takeWhile is_digit (digits n) = digits n" "dropWhile is_digit (digits n) = []"
  using is_digit_digits [of n] by (auto simp: list_all_iff)

lemma is_digit_not_sign: "is_digit c \<Longrightarrow> c \<noteq> CHR ''-'' \<and> c \<noteq> CHR ''+'' \<and> \<not> is_space c \<and> c \<noteq> CHR 0x00"
  by (auto simp: is_digit_def is_space_def)

lemma digits_cons: obtains c s where "digits n = c # s" "is_digit c"
  using is_digit_digits [of n] digits_nonempty [of n] by (cases "digits n") auto

lemma strtoll_digits: "strtoll (digits n) = (clamp64 (int n), [])"
proof -
  obtain c s where d: "digits n = c # s" "is_digit c" by (rule digits_cons)
  have "dropWhile is_space (digits n) = digits n" using is_digit_not_sign [OF d(2)] by (simp add: d(1))
  then show ?thesis
    using is_digit_not_sign [OF d(2)] take_digits [of n] undigits_digits [of n]
    by (simp add: strtoll_def Let_def d(1) del: undigits.simps)
qed

lemma strtoll_minus: "strtoll (CHR ''-'' # digits n) = (clamp64 (- int n), [])"
  by (simp add: strtoll_def is_space_def Let_def take_digits undigits_digits del: undigits.simps)

lemma strtoll_to_string: "strtoll (to_string n) = (clamp64 n, [])"
  by (simp add: to_string_def strtoll_digits strtoll_minus)

lemma c_str_to_string [simp]: "c_str (to_string n) = to_string n"
proof -
  have "CHR 0x00 \<notin> set (digits m)" for m
    using digits_chars [of "CHR 0x00" m] by auto
  then show ?thesis
    unfolding c_str_def by (intro takeWhile_eq_all_conv [THEN iffD2]) (auto simp: to_string_def)
qed

lemma parse_long_to_string: "int64 n \<Longrightarrow> parse_long (to_string n) = Inr n"
  by (simp add: parse_long_def strtoll_to_string undigits_clamp)

text \<open>An empty value counts as the number 0.\<close>

lemma parse_long_empty: "parse_long [] = Inr 0"
  by (simp add: parse_long_def strtoll_def c_str_def)

section \<open>The data share\<close>

text \<open>What was last put at a place, according to the calls made so far, the most recent first.\<close>

fun stored :: "string \<Rightarrow> string \<Rightarrow> ext_call list \<Rightarrow> string option" where
  "stored uri key [] = None"
| "stored uri key (Settings (DataShareUpdate u k v) # tr) =
    (if u = uri \<and> k = key then Some v else stored uri key tr)"
| "stored uri key (Settings (DataShareInsert u k v) # tr) =
    (if u = uri \<and> k = key then Some v else stored uri key tr)"
| "stored uri key (_ # tr) = stored uri key tr"

definition answers_stored :: "env \<Rightarrow> bool" where
  "answers_stored E = ((\<forall>u tr. extBool E (Settings (DataShareHelperCreate u)) tr) \<and>
    (\<forall>u k v tr. stored u k tr = Some v \<longrightarrow>
       extBool E (Settings (DataShareQuery u k)) tr \<and> extInt E (Settings (DataShareRowCount u k)) tr \<noteq> 0 \<and>
       extInt E (Settings (DataShareGetString u k)) tr = 0 \<and>
       extString E (Settings (DataShareGetString u k)) tr = v))"

lemma uri_keeps [simp]:
  "exec (AssembleUri key) w = w" "exec (IsNeedMultiUser key) w = w" "exec (GetUriPrefix u key) w = w"
  by (simp_all add: AssembleUri_def GetUriPrefix_def IsNeedMultiUser_def)

lemma uri_stg: "stg w = stg v \<Longrightarrow> result (AssembleUri key) w = result (AssembleUri key) v"
  by (simp add: AssembleUri_def GetUriPrefix_def split: option.split)

lemma put_stores:
  assumes "answers_stored E"
  shows "stored (result (AssembleUri key) w) key (trace (exec (PutStringValue E key v n) w)) = Some v
    \<and> stg (exec (PutStringValue E key v n) w) = stg w"
  using assms
  by (auto simp: PutStringValue_def CreateDataShareHelper_def answers_stored_def access_defs
      AssembleUri_def GetUriPrefix_def IsNeedMultiUser_def)

lemma get_stored:
  assumes "answers_stored E" and "stored (result (AssembleUri key) w) key (trace w) = Some v"
  shows "result (GetStringValue E key) w = Inr v"
proof -
  have uri: "result (AssembleUri key) (w\<lparr>trace := tr\<rparr>) = result (AssembleUri key) w" for tr
    by (rule uri_stg) simp
  have helper: "result (CreateDataShareHelper E key) w"
    using assms(1) by (simp add: CreateDataShareHelper_def answers_stored_def access_defs IsNeedMultiUser_def)
  have trace: "\<exists>u. exec (CreateDataShareHelper E key) w = w\<lparr>trace := Settings (DataShareHelperCreate u) # trace w\<rparr>"
    by (auto simp: CreateDataShareHelper_def access_defs IsNeedMultiUser_def)
  then obtain u where "exec (CreateDataShareHelper E key) w = w\<lparr>trace := Settings (DataShareHelperCreate u) # trace w\<rparr>"
    by blast
  then show ?thesis
    using assms helper by (simp add: GetStringValue_def uri query_value_def answers_stored_def access_defs)
qed

lemma get_after_put:
  assumes "answers_stored E"
  shows "result (GetStringValue E key) (exec (PutStringValue E key v n) w) = Inr v"
proof -
  have "result (AssembleUri key) (exec (PutStringValue E key v n) w) = result (AssembleUri key) w"
    using put_stores [OF assms] by (intro uri_stg) blast
  then show ?thesis using get_stored [OF assms] put_stores [OF assms] by metis
qed

section \<open>Properties\<close>

text \<open>
  C25: a setting that is written as a number is read back as the same number: every 64-bit
  value through the long accessors and every 32-bit value through the int accessors, for
  all keys, those of the device and those of the current user.
\<close>

theorem setting_roundtrip:
  assumes "answers_stored E"
  shows "(int64 n \<longrightarrow> result (GetSettingLongValue E key d) (exec (SetSettingLongValue E key n) w) = n) \<and>
    (int32 n \<longrightarrow> result (GetSettingIntValue E key d) (exec (SetSettingIntValue E key n) w) = n)"
proof -
  have "int32 n \<Longrightarrow> int64 n" by (simp add: int32_def int64_def)
  then show ?thesis
    using get_after_put [OF assms, of key "to_string n" True w] parse_long_to_string [of n]
    by (auto simp: GetSettingLongValue_def SetSettingLongValue_def GetSettingIntValue_def SetSettingIntValue_def
        GetIntValue_def GetLongValue_def PutIntValue_def PutLongValue_def or_default_def wrap32_id)
qed

definition store_env :: env where
  "store_env = sample_env\<lparr>
     extString := (\<lambda>c tr. case c of
       Settings (DataShareGetString u k) \<Rightarrow> (case stored u k tr of None \<Rightarrow> [] | Some v \<Rightarrow> v) | _ \<Rightarrow> []),
     extInt := (\<lambda>c tr. case c of Settings (DataShareRowCount u k) \<Rightarrow> 1 | _ \<Rightarrow> 0)\<rparr>"

lemma store_env_answers: "answers_stored store_env"
  by (simp add: answers_stored_def store_env_def sample_env_def)

theorem setting_roundtrip_witness:
  "result (GetSettingIntValue store_env SETTING_BRIGHTNESS_KEY 7)
     (exec (SetSettingIntValue store_env SETTING_BRIGHTNESS_KEY (-42)) sample_world) = -42"
  using setting_roundtrip [OF store_env_answers] by (simp add: int32_def)

end
