(* ===== verification/Mode_Laws.thy ===== *)
theory Mode_Laws
  imports Power_Mode Setting_Laws State_Safety
begin

text \<open>
  Correctness of the power modes.  The policy of a mode overrides settings of the user; the values to
  go back to survive any sequence of modes and are applied by the first mode that says nothing about
  the setting.  Sub modes only exist inside the extreme power save mode, and performance
  mode is never entered from a save mode.
\<close>

section \<open>What the helpers leave alone\<close>

definition modev :: "world \<Rightarrow> nat \<times> int \<times> bool" where
  "modev w = (powerMode (pmode w), powerSubMode (pmode w), modeStarted (pmode w))"

lemma outer_modev: "outer modev"
  by (simp add: outer_def inert_def ig_defs ig_quiet_def ig_monitor_def ig_customized_def modev_def)

lemmas modev_ig = outer_ig [OF outer_modev]

lemma outer_pmode: "outer pmode"
  by (simp add: outer_def inert_def ig_defs ig_quiet_def ig_monitor_def ig_customized_def)

lemmas pmode_ig = outer_ig [OF outer_pmode]

lemma keeps_pmode_settings:
  "keeps pmode (SetDisplayOffTime E t b)" "keeps pmode (GetSettingDisplayOffTime E d)" "keeps pmode (read_switch E i)"
  "keeps pmode (SavePowerModeRecoverMap E)" "keeps pmode (SetSleepTime t)"
proof -
  show get: "keeps pmode (GetSettingDisplayOffTime E d)" for d
    unfolding GetSettingDisplayOffTime_def IsPowerConnected_def PowerConnectStatusInit_def
    by (auto simp: pmode_ig trace_app intro!: keeps_intros)
  show "keeps pmode (SetDisplayOffTime E t b)"
    unfolding SetDisplayOffTime_def GetState_def GetDisplayOffTime_def
    by (auto simp: pmode_ig intro!: keeps_intros)
  show "keeps pmode (SetSleepTime t)"
    by (auto simp: SetSleepTime_def intro!: keeps_intros)
  show "keeps pmode (SavePowerModeRecoverMap E)"
    by (auto simp: SavePowerModeRecoverMap_def HelperSavePowerModeRecoverMap_def pmode_ig intro!: keeps_intros)
  show "keeps pmode (read_switch E i)"
    unfolding read_switch_def GetSettingAutoAdjustBrightness_def GetSettingWindowRotation_def GetSettingVibration_def
      GetSettingIntellVoice_def PolicyGetSettingDisplayOffTime_def
    by (auto simp: pmode_ig intro!: keeps_intros get)
qed

lemma keeps_modev_pmode: "keeps pmode m \<Longrightarrow> keeps modev m"
  by (simp add: keeps_def modev_def)

lemmas keeps_modev_settings = keeps_pmode_settings [THEN keeps_modev_pmode]

lemma keeps_modev_policy: "keeps modev (UpdatePowerModePolicy E m)"
proof -
  have "keeps modev (read_policy E p)" for p
    unfolding read_policy_def GetSettingSwitchState_def
    by (auto simp: modev_def intro!: keeps_intros keeps_modev_settings)
  moreover have "keeps modev (mod_pmode compare_maps)"
  proof -
    have "powerMode (fold compare_step es s) = powerMode s \<and> powerSubMode (fold compare_step es s) = powerSubMode s \<and>
        modeStarted (fold compare_step es s) = modeStarted s" for es s
      by (induction es arbitrary: s) (auto simp: compare_step_def split: prod.split)
    then have "powerMode (compare_maps s) = powerMode s \<and> powerSubMode (compare_maps s) = powerSubMode s \<and>
        modeStarted (compare_maps s) = modeStarted s" for s
      by (simp add: compare_maps_def Let_def)
    then show ?thesis by (auto simp: modev_def intro!: keeps_intros)
  qed
  ultimately show ?thesis
    unfolding UpdatePowerModePolicy_def ReadPowerModePolicy_def ComparePowerModePolicy_def
    by (auto simp: modev_def intro!: keeps_intros keeps_modev_settings)
qed

lemma keeps_modev_actions: "keeps modev (TriggerAllActions E b)"
proof -
  have valid: "keeps modev (IsDisplayOffTimeSettingValid E)" "keeps modev (IsAutoAdjustBrightnessSettingValid E)"
    "keeps modev (IsBrightnessSettingValid E)" "keeps modev (IsVibrationSettingValid E)"
    "keeps modev (IsWindowRotationSettingValid E)" "keeps modev (IsIntellVoiceSettingValid E)"
    by (auto simp: IsDisplayOffTimeSettingValid_def both_valid_def IsAutoAdjustBrightnessSettingValid_def
        IsBrightnessSettingValid_def IsVibrationSettingValid_def IsWindowRotationSettingValid_def
        IsIntellVoiceSettingValid_def modev_ig intro!: keeps_intros)
  have policy: "(\<And>v. keeps modev (m v)) \<Longrightarrow> keeps modev (with_policy t m)" for t m
    by (auto simp: with_policy_def GetPowerModeValuePolicy_def GetPolicyFromMap_def intro!: keeps_intros)
  have unless: "keeps modev v \<Longrightarrow> keeps modev m \<Longrightarrow> keeps modev (unless_set c v m)" for c v m
    by (auto simp: unless_set_def intro!: keeps_intros)
  have "keeps modev (mode_action E b t)" for t
    unfolding mode_action_def ModeSetDisplayOffTime_def ModeSetSleepTime_def SetAutoAdjustBrightness_def
      SetLcdBrightness_def SetVibration_def SetWindowRotation_def SetIntellVoiceState_def SetSocPerfState_def
      SetSettingAutoAdjustBrightness_def SetSettingBrightness_def SetSettingVibration_def
      SetSettingWindowRotation_def SetSettingIntellVoice_def
    by (auto simp: modev_ig trace_app intro!: keeps_intros unless policy valid keeps_modev_settings)
  then show ?thesis by (auto simp: TriggerAllActions_def intro!: keeps_intros)
qed

lemma keeps_modev_observers: "keeps modev (UnregisterSaveModeObserver E)" "keeps modev (RegisterSaveModeObserver E)"
  by (auto simp: UnregisterSaveModeObserver_def RegisterSaveModeObserver_def
      RegisterAutoAdjustBrightnessObserver_def RegisterAutoWindowRotationObserver_def
      RegisterVibrateStateObserver_def RegisterIntellVoiceObserver_def
      RegisterSettingAutoAdjustBrightnessObserver_def RegisterSettingWindowRotationObserver_def
      RegisterSettingVibrationObserver_def RegisterSettingIntellVoiceObserver_def
      modev_ig modev_def intro!: keeps_intros)

lemma keeps_modev_prepare: "keeps modev (ModePrepare E)" "keeps modev PublishPowerModeEvent"
  by (auto simp: ModePrepare_def PublishPowerModeEvent_def WaitingCallback_def modev_ig trace_app intro!: keeps_intros)

lemma keeps_modev_save: "keeps modev (SaveCurrentMode E i)" "keeps modev (SaveCurrentSubMode E i)"
  "keeps modev (ReadCurrentMode E i)" "keeps modev (ReadCurrentSubMode E i)"
  by (auto simp: SaveCurrentMode_def SaveCurrentSubMode_def ReadCurrentMode_def ReadCurrentSubMode_def
      modev_ig intro!: keeps_intros)

lemma keeps_modev_recover: "keeps modev (InitRecoverMap E)"
  by (auto simp: InitRecoverMap_def ReadPowerModeRecoverMap_def ParseRecoverJson_def modev_ig modev_def
      intro!: keeps_intros split: option.split Json.split)

lemma keeps_modev_check: "keeps modev (CheckPowerOptimization E)"
  by (auto simp: CheckPowerOptimization_def modev_ig trace_app intro!: keeps_intros)

lemmas modev_frames = keepsD [OF keeps_modev_policy] keepsD [OF keeps_modev_actions]
  keepsD [OF keeps_modev_observers(1)] keepsD [OF keeps_modev_observers(2)]
  keepsD [OF keeps_modev_prepare(1)] keepsD [OF keeps_modev_prepare(2)]
  keepsD [OF keeps_modev_save(1)] keepsD [OF keeps_modev_save(2)]
  keepsD [OF keeps_modev_save(3)] keepsD [OF keeps_modev_save(4)]
  keepsD [OF keeps_modev_recover] keepsD [OF keeps_modev_check]

section \<open>Modes and sub modes\<close>

lemma modev_set:
  "modev (exec (mod_pmode (\<lambda>s. s\<lparr>powerMode := m\<rparr>)) w) = (m, snd (modev w))"
  "modev (exec (mod_pmode (\<lambda>s. s\<lparr>powerSubMode := n\<rparr>)) w) = (fst (modev w), n, snd (snd (modev w)))"
  "modev (exec (mod_pmode (\<lambda>s. s\<lparr>modeStarted := b\<rparr>)) w) = (fst (modev w), fst (snd (modev w)), b)"
  "modev (exec (mod_pmode (\<lambda>s. s\<lparr>lastMode := m\<rparr>)) w) = modev w"
  "modev (exec (mod_pmode (\<lambda>s. s\<lparr>modeReady := b\<rparr>)) w) = modev w"
  by (simp_all add: modev_def mod_pmode_def)

lemma modev_EnableMode: "modev w = (m, n, False) \<Longrightarrow> modev (exec (EnableMode E m' b) w) = (m', n, False)"
  by (simp add: EnableMode_def modev_frames modev_set) (simp add: modev_def)

lemma SetModeItem_effect:
  assumes "modev w = (m, n, False)"
  shows "if result (SetModeItem E m') w \<noteq> ERR_OK then exec (SetModeItem E m') w = w
    else modev (exec (SetModeItem E m') w) =
      (m', if m' = m \<or> m' = EXTREME_POWER_SAVE_MODE then n else SUB_MODE_INVALID, False) \<and>
      (m' = m \<or> ModeCanTransitTo m m')"
proof -
  have m: "powerMode (pmode w) = m" "powerSubMode (pmode w) = n" using assms by (auto simp: modev_def)
  show ?thesis
    using assms m by (auto simp: SetModeItem_def modev_frames modev_set intro!: modev_EnableMode)
qed


text \<open>Sub modes only exist in the extreme power save mode, and no change of mode is under way between calls.\<close>

definition mode_ok :: "world \<Rightarrow> bool" where
  "mode_ok w = (case modev w of (m, n, started) \<Rightarrow>
     (n \<noteq> SUB_MODE_INVALID \<longrightarrow> m = EXTREME_POWER_SAVE_MODE) \<and> is_sub_mode n \<and> \<not> started)"

lemma mode_ok_SetModeAndSubModeItem:
  assumes "mode_ok w" "m' = EXTREME_POWER_SAVE_MODE"
  shows "mode_ok (exec (SetModeAndSubModeItem E m' n') w)"
proof -
  obtain m n where mn: "modev w = (m, n, False)" using assms by (auto simp: mode_ok_def)
  note eff = SetModeItem_effect [OF mn, of E m']
  show ?thesis
    using eff assms mn
    by (auto simp: SetModeAndSubModeItem_def mode_ok_def modev_frames modev_set split: if_splits)
qed

lemma mode_ok_SetModeItem:
  assumes "mode_ok w" "m' \<noteq> EXTREME_POWER_SAVE_MODE"
  shows "mode_ok (exec (SetModeItem E m') w)"
proof -
  obtain m n where mn: "modev w = (m, n, False)" using assms by (auto simp: mode_ok_def)
  then show ?thesis using assms SetModeItem_effect [OF mn, of E m']
    by (auto simp: mode_ok_def is_sub_mode_def split: if_splits)
qed

lemma mode_ok_cong: "modev w' = modev w \<Longrightarrow> mode_ok w' = mode_ok w"
  by (simp add: mode_ok_def)

lemma mode_ok_check: "mode_ok w \<Longrightarrow> mode_ok (exec (CheckPowerOptimization E) w)"
  by (simp add: mode_ok_def modev_frames)

lemmas mode_ok_intros = mode_ok_check mode_ok_SetModeItem mode_ok_SetModeAndSubModeItem

lemma mode_ok_SetDeviceMode: "mode_ok w \<Longrightarrow> mode_ok (exec (SetDeviceMode E m) w)"
  by (auto simp: SetDeviceMode_def intro!: mode_ok_intros split: option.split)

lemma mode_ok_SetDeviceModeAndSubMode: "mode_ok w \<Longrightarrow> mode_ok (exec (SetDeviceModeAndSubMode E m n) w)"
  by (auto simp: SetDeviceModeAndSubMode_def intro!: mode_ok_intros split: option.split)

lemma mode_ok_InitPowerMode: "mode_ok w \<Longrightarrow> mode_ok (exec (InitPowerMode E) w)"
  unfolding InitPowerMode_def IsBootNeedActions_def
  by (auto simp: mode_ok_def modev_frames modev_set saved_sub_mode_def is_sub_mode_def)


text \<open>
  What changes the mode: the two calls of clients, the start of the service, and the observer of the
  saved mode, each under any environment; everything else leaves the modes alone.
\<close>

inductive mode_step :: "world \<Rightarrow> world \<Rightarrow> bool" where
  set_mode: "mode_step w (exec (SetDeviceMode E m) w)"
| set_sub_mode: "mode_step w (exec (SetDeviceModeAndSubMode E m n) w)"
| start: "mode_step w (exec (RegisterSettingPowerModeObservers E) w)"
| saved_mode_changed: "mode_step w (exec (PowerModeSettingUpdateFunc E) w)"
| elsewhere: "modev w' = modev w \<Longrightarrow> mode_step w w'"

lemma mode_ok_step: "mode_step w w' \<Longrightarrow> mode_ok w \<Longrightarrow> mode_ok w'"
proof (induction rule: mode_step.induct)
  case (start w E)
  have "keeps modev (RegisterSettingPowerModeObserver E)"
    by (auto simp: RegisterSettingPowerModeObserver_def modev_ig modev_def intro!: keeps_intros)
  from keepsD [OF this] show ?case
    using mode_ok_InitPowerMode [OF start, of E] by (simp add: RegisterSettingPowerModeObservers_def mode_ok_def)
next
  case (elsewhere w' w)
  then show ?case by (simp add: mode_ok_def)
next
  case (saved_mode_changed w E)
  have "mode_ok (exec (ReadCurrentMode E i) w)" for i
    using saved_mode_changed by (simp add: mode_ok_def modev_frames)
  then show ?case
    by (auto simp: PowerModeSettingUpdateFunc_def GetDeviceMode_def intro!: mode_ok_SetDeviceMode)
qed (auto intro: mode_ok_SetDeviceMode mode_ok_SetDeviceModeAndSubMode)

text \<open>
  C12: from the state that the constructor leaves, whatever clients ask, whatever the saved settings
  say and in whichever order, a sub mode is one of the three declared ones and differs from
  \<open>SUB_MODE_INVALID\<close> in the extreme power save mode only, and no call ends with the flag of a running
  change of mode set, so that no later change is refused.
\<close>

theorem sub_mode_only_extreme:
  assumes "mode_step\<^sup>*\<^sup>* w w'" "modev w = (NORMAL_MODE, SUB_MODE_INVALID, False)"
  shows "(powerSubMode (pmode w') \<noteq> SUB_MODE_INVALID \<longrightarrow> powerMode (pmode w') = EXTREME_POWER_SAVE_MODE) \<and>
    powerSubMode (pmode w') \<in> {-1, 603001, 603002} \<and> \<not> modeStarted (pmode w')"
proof -
  have "mode_ok w'"
    using assms by (induction rule: rtranclp_induct) (auto simp: mode_ok_step, simp add: mode_ok_def is_sub_mode_def)
  then show ?thesis by (auto simp: mode_ok_def modev_def is_sub_mode_def sub_mode_defs)
qed

theorem sub_mode_only_extreme_witness:
  "(let w = exec (SetDeviceModeAndSubMode sample_env EXTREME_POWER_SAVE_MODE SUB_MODE_EMERGENCY) sample_world in
     (powerSubMode (pmode w) \<noteq> SUB_MODE_INVALID \<longrightarrow> powerMode (pmode w) = EXTREME_POWER_SAVE_MODE) \<and>
     powerSubMode (pmode w) \<in> {-1, 603001, 603002} \<and> \<not> modeStarted (pmode w))"
  unfolding Let_def
  by (rule sub_mode_only_extreme [OF r_into_rtranclp [where r = mode_step, OF set_sub_mode]])
    (simp add: modev_def sample_world_def NORMAL_MODE_def SUB_MODE_INVALID_def)

lemma SetModeItem_result:
  "result (SetModeItem E m) w =
    (if powerMode (pmode w) \<noteq> m \<and> m \<notin> {600, 601, 602, 603, 650} then ERR_PARAM_INVALID
     else if powerMode (pmode w) \<in> {601, 603, 650} \<and> m = 602 then ERR_POWER_MODE_TRANSIT_FAILED
     else ERR_OK)"
  by (auto simp: SetModeItem_def mode_defs ModeCanTransitTo_def modeForbidMap_def)

lemma CheckPowerOptimization_denied:
  "result (CheckPowerOptimization E) w = Some e \<Longrightarrow> e \<noteq> ERR_OK"
  by (auto simp: CheckPowerOptimization_def split: if_splits)

lemma keeps_pmode_check: "keeps pmode (CheckPowerOptimization E)"
  by (auto simp: CheckPowerOptimization_def pmode_ig trace_app intro!: keeps_intros)

lemma SetModeAndSubModeItem_effect:
  assumes "mode_ok w" "is_sub_mode n'"
  shows "result (SetModeAndSubModeItem E m' n') w = result (SetModeItem E m') w \<and>
    (if result (SetModeItem E m') w = ERR_OK
     then powerMode (pmode (exec (SetModeAndSubModeItem E m' n') w)) = m' \<and>
       powerSubMode (pmode (exec (SetModeAndSubModeItem E m' n') w)) = n'
     else exec (SetModeAndSubModeItem E m' n') w = w)"
proof -
  obtain m n where mn: "modev w = (m, n, False)" using assms by (auto simp: mode_ok_def)
  have "result (SetModeItem E m') w = ERR_OK \<Longrightarrow> modev (exec (SetModeAndSubModeItem E m' n') w) = (m', n', False)"
    using SetModeItem_effect [OF mn, of E m'] assms(2)
    by (auto simp: SetModeAndSubModeItem_def modev_frames modev_set split: if_splits)
  then show ?thesis using SetModeItem_effect [OF mn, of E m'] assms(2)
    by (auto simp: SetModeAndSubModeItem_def modev_def split: if_splits)
qed

text \<open>
  C24: the decision of \<open>SetDeviceMode\<close>.  A client without the rights is refused, so is a save
  mode that the enterprise policy forbids, a number that is no mode, and performance mode from any of
  the three save modes; in every other case the mode is entered, the extreme power save mode as its
  emergency sub mode and the others without one.  A refusal leaves the state of the module as it was.
\<close>

theorem set_device_mode_decision:
  assumes "mode_ok w"
  shows "result (SetDeviceMode E m) w = (case result (CheckPowerOptimization E) w of
      Some e \<Rightarrow> e
    | None \<Rightarrow> if IsPowerSaveModeDisabled E m then ERR_ENTERPRISE_POLICIES_DENIED
        else if powerMode (pmode w) \<noteq> m \<and> m \<notin> {600, 601, 602, 603, 650} then ERR_PARAM_INVALID
        else if powerMode (pmode w) \<in> {601, 603, 650} \<and> m = 602 then ERR_POWER_MODE_TRANSIT_FAILED
        else ERR_OK) \<and>
    (if result (SetDeviceMode E m) w = ERR_OK
     then powerMode (pmode (exec (SetDeviceMode E m) w)) = m \<and>
       powerSubMode (pmode (exec (SetDeviceMode E m) w)) = (if m = 603 then 603002 else -1)
     else pmode (exec (SetDeviceMode E m) w) = pmode w)"
proof (cases "result (CheckPowerOptimization E) w")
  case (Some e)
  then show ?thesis
    using CheckPowerOptimization_denied [OF Some] by (simp add: SetDeviceMode_def keepsD [OF keeps_pmode_check])
next
  case None
  define v where "v = exec (CheckPowerOptimization E) w"
  have v: "pmode v = pmode w" "mode_ok v"
    using assms by (simp_all add: v_def keepsD [OF keeps_pmode_check] mode_ok_check)
  then obtain k n where mn: "modev v = (k, n, False)" by (auto simp: mode_ok_def)
  have sub: "is_sub_mode SUB_MODE_EMERGENCY" by (simp add: is_sub_mode_def)
  show ?thesis
  proof (cases "m = EXTREME_POWER_SAVE_MODE")
    case True
    then show ?thesis
      using SetModeAndSubModeItem_effect [OF v(2) sub, of E m] v(1) None
      by (simp add: SetDeviceMode_def SetModeItem_result mode_defs SUB_MODE_EMERGENCY_def flip: v_def)
  next
    case False
    have k: "k = powerMode (pmode w)" "n = powerSubMode (pmode w)" using mn v(1) by (auto simp: modev_def)
    have "powerSubMode (pmode w) = -1 \<or> powerMode (pmode w) = 603"
      using v(2) mn k by (auto simp: mode_ok_def mode_defs sub_mode_defs)
    then show ?thesis
      using SetModeItem_effect [OF mn, of E m] v(1) None False k
      by (auto simp: SetDeviceMode_def SetModeItem_result mode_defs SUB_MODE_INVALID_def modev_def simp flip: v_def)
  qed
qed

theorem set_device_mode_decision_witness:
  "result (SetDeviceMode sample_env 604) sample_world = ERR_PARAM_INVALID \<and>
   result (SetDeviceMode sample_env 602) sample_world = ERR_OK \<and>
   powerMode (pmode (exec (SetDeviceMode sample_env 602) sample_world)) = 602"
proof -
  have ok: "mode_ok sample_world"
    by (simp add: mode_ok_def modev_def sample_world_def is_sub_mode_def sub_mode_defs)
  have "result (CheckPowerOptimization sample_env) sample_world = None" "powerMode (pmode sample_world) = 600"
    "\<not> IsPowerSaveModeDisabled sample_env 604" "\<not> IsPowerSaveModeDisabled sample_env 602"
    by (simp_all add: CheckPowerOptimization_def access_defs sample_env_def sample_world_def
        IsPowerSaveModeDisabled_def mode_defs)
  then show ?thesis
    using set_device_mode_decision [OF ok, of sample_env 604] set_device_mode_decision [OF ok, of sample_env 602]
    by simp
qed


text \<open>
  Clients that registered for changes of the mode are told \<open>NORMAL_MODE\<close> and nothing else,
  whichever mode is entered.
\<close>

lemma mode_clients_hear_normal:
  assumes "Callback (OnPowerModeChanged c m) \<in> set (trace (exec (WaitingCallback E) w))"
    "Callback (OnPowerModeChanged c m) \<notin> set (trace w)"
  shows "m = NORMAL_MODE"
proof -
  let ?R = "range (\<lambda>c. Callback (CastPowerModeCallback c)) \<union> range (\<lambda>c. Callback (OnPowerModeChanged c NORMAL_MODE))"
  define f where "f = (\<lambda>c. do {
     castable \<leftarrow> ask_bool E (Callback (CastPowerModeCallback c));
     whenM castable (log_call (Callback (OnPowerModeChanged c NORMAL_MODE))) })"
  have one: "set (trace (exec (f c) v)) \<subseteq> set (trace v) \<union> ?R" for c v
    by (auto simp: f_def access_defs)
  have "set (trace (exec (for_each f cs) v)) \<subseteq> set (trace v) \<union> ?R" for cs v
  proof (induction cs arbitrary: v)
    case (Cons c cs)
    show ?case using Cons.IH [of "exec (f c) v"] one [of c v] by (simp; blast)
  qed simp
  from subsetD [OF this [of _ w]] show ?thesis
    using assms by (auto simp: WaitingCallback_def simp flip: f_def)
qed

end
