(* ===== verification/Policy_Laws.thy ===== *)
theory Policy_Laws
  imports Mode_Laws
begin

text \<open>
  Correctness of the policies of the power modes.  Entering a mode is specified on plain maps: what the
  mode wants of each setting, what the user had.  The loops of \<open>PowerModePolicy\<close> implement this
  specification; from it follows that the value of the user survives any sequence of modes and comes back
  with the first mode that says nothing about the setting.  The values to go back to also survive a
  restart of the service.
\<close>

section \<open>Specification\<close>

text \<open>The values of a policy: the last entry for a setting counts.\<close>

definition wanted :: "ModePolicy list \<Rightarrow> nat \<rightharpoonup> int" where
  "wanted l = map_of (rev (map (\<lambda>p. (policyId p, policyValue p)) l))"

definition recovered_ids :: "ModePolicy list \<Rightarrow> nat set" where
  "recovered_ids l = {policyId p | p. p \<in> set l \<and> recoverFlag p = RECOVER}"

text \<open>
  Entering a mode with the values \<open>want\<close>, when the settings have the values \<open>found\<close> and the
  values \<open>user\<close> are to be gone back to: the new values of all settings, and of those to go back to.
\<close>

definition enter_mode ::
  "(nat \<rightharpoonup> int) \<Rightarrow> (nat \<rightharpoonup> int) \<Rightarrow> (nat \<rightharpoonup> int) \<Rightarrow> (nat \<rightharpoonup> int) \<times> (nat \<rightharpoonup> int)" where
  "enter_mode want found user = (user ++ want, found ++ (user |` dom want))"

definition policy_of :: "world \<Rightarrow> nat \<Rightarrow> ModePolicy list" where
  "policy_of w mode = (case map_of (policyCache (pmode w)) (int mode) of None \<Rightarrow> [] | Some l \<Rightarrow> l)"

definition configured :: "world \<Rightarrow> bool" where
  "configured w = (policyCache (pmode w) \<noteq> [] \<and> omap_inv (recoverMap (pmode w)))"

lemma wanted_Cons: "wanted (p # l) = [policyId p \<mapsto> policyValue p] ++ wanted l"
  by (simp add: wanted_def)

lemma wanted_Nil [simp]: "wanted [] = Map.empty"
  by (simp add: wanted_def)

lemma dom_wanted: "dom (wanted l) = policyId ` set l"
  by (auto simp: wanted_def dom_map_of_conv_image_fst image_image)

lemma recovered_ids_Cons:
  "recovered_ids (p # l) = (if recoverFlag p = RECOVER then {policyId p} else {}) \<union> recovered_ids l"
  by (auto simp: recovered_ids_def)

lemma recovered_ids_Nil [simp]: "recovered_ids [] = {}"
  by (simp add: recovered_ids_def)

lemma recovered_wanted: "recovered_ids l \<subseteq> dom (wanted l)"
  by (auto simp: recovered_ids_def dom_wanted)

section \<open>The loops\<close>

lemma read_policy_effect:
  "let s = pmode w; s' = pmode (exec (read_policy E p) w) in
     map_of (switchMap s') = (map_of (switchMap s))(policyId p \<mapsto> policyValue p) \<and>
     dom (map_of (backupMap s')) = dom (map_of (backupMap s)) \<union> recovered_ids [p] \<and>
     recoverMap s' = recoverMap s \<and> policyCache s' = policyCache s \<and>
     (omap_inv (backupMap s) \<longrightarrow> omap_inv (backupMap s'))"
  by (auto simp: read_policy_def GetSettingSwitchState_def Let_def recovered_ids_Cons omap_touch_def
      map_of_omap_emplace omap_inv_set omap_inv_emplace mod_pmode_def keepsD [OF keeps_pmode_settings(3)]
      split: option.splits if_splits)

lemma read_policies_effect:
  "let s = pmode w; s' = pmode (exec (for_each (read_policy E) l) w) in
     map_of (switchMap s') = map_of (switchMap s) ++ wanted l \<and>
     dom (map_of (backupMap s')) = dom (map_of (backupMap s)) \<union> recovered_ids l \<and>
     recoverMap s' = recoverMap s \<and> policyCache s' = policyCache s \<and>
     (omap_inv (backupMap s) \<longrightarrow> omap_inv (backupMap s'))"
proof (induction l arbitrary: w)
  case (Cons p l)
  show ?case
    using read_policy_effect [of w E p] Cons.IH [of "exec (read_policy E p) w"]
    by (auto simp: Let_def wanted_Cons recovered_ids_Cons map_add_def fun_eq_iff split: option.splits)
qed (simp add: Let_def)

lemma compare_fold:
  assumes "distinct (map fst es)"
  shows "let s' = fold compare_step es s in
     map_of (switchMap s') = map_of es ++ map_of (switchMap s) \<and>
     map_of (backupMap s') = map_of (backupMap s) ++ (map_of es |` dom (map_of (switchMap s))) \<and>
     policyCache s' = policyCache s \<and> (omap_inv (backupMap s) \<longrightarrow> omap_inv (backupMap s'))"
  using assms
proof (induction es arbitrary: s)
  case (Cons e es)
  obtain i v where e: "e = (i, v)" by (cases e)
  have i: "map_of es i = None" using Cons.prems by (auto simp: e map_of_eq_None_iff)
  show ?case
    using Cons.IH [of "compare_step e s"] Cons.prems i
    by (auto simp: Let_def e compare_step_def map_of_omap_emplace omap_inv_set map_add_def restrict_map_def fun_eq_iff
        split: option.splits if_splits)
qed (simp add: Let_def)

text \<open>Reading the policy of the mode, the settings as found in \<open>backupMap\<close>.\<close>

definition found_on_entry :: "env \<Rightarrow> nat \<Rightarrow> world \<Rightarrow> nat \<rightharpoonup> int" where
  "found_on_entry E mode w = map_of (backupMap (pmode (exec (ReadPowerModePolicy E mode) w)))"

lemma ReadPowerModePolicy_effect:
  assumes "configured w"
  shows "let s' = pmode (exec (ReadPowerModePolicy E m) w) in
     map_of (switchMap s') = wanted (policy_of w m) \<and>
     dom (map_of (backupMap s')) = recovered_ids (policy_of w m) \<and>
     recoverMap s' = recoverMap (pmode w) \<and> policyCache s' = policyCache (pmode w) \<and> omap_inv (backupMap s')"
proof -
  let ?v = "exec (mod_pmode (\<lambda>s. s\<lparr>switchMap := [], backupMap := []\<rparr>)) w"
  have "exec (ReadPowerModePolicy E m) w = exec (for_each (read_policy E) (policy_of w m)) ?v"
    using assms by (simp add: ReadPowerModePolicy_def configured_def policy_of_def)
  then show ?thesis
    using read_policies_effect [of ?v E "policy_of w m"] by (simp add: Let_def mod_pmode_def)
qed

lemma UpdatePowerModePolicy_effect:
  assumes "configured w"
  shows "let s' = pmode (exec (UpdatePowerModePolicy E m) w) in
     (map_of (switchMap s'), map_of (recoverMap s')) =
       enter_mode (wanted (policy_of w m)) (found_on_entry E m w) (map_of (recoverMap (pmode w))) \<and>
     policyCache s' = policyCache (pmode w) \<and> omap_inv (recoverMap s')"
proof -
  define s where "s = pmode (exec (ReadPowerModePolicy E m) w)"
  note r = ReadPowerModePolicy_effect [OF assms, of E m, folded s_def, unfolded Let_def]
  have "distinct (map fst (recoverMap s))"
    using r assms by (simp add: configured_def omap_inv_distinct)
  from compare_fold [OF this, of s]
  have "map_of (switchMap (compare_maps s)) = map_of (recoverMap (pmode w)) ++ wanted (policy_of w m)"
    "map_of (recoverMap (compare_maps s)) =
      map_of (backupMap s) ++ (map_of (recoverMap (pmode w)) |` dom (wanted (policy_of w m)))"
    "policyCache (compare_maps s) = policyCache (pmode w)" "omap_inv (recoverMap (compare_maps s))"
    using r by (simp_all add: compare_maps_def Let_def)
  moreover have "pmode (exec (UpdatePowerModePolicy E m) w) = compare_maps s"
    by (simp add: UpdatePowerModePolicy_def ComparePowerModePolicy_def keepsD [OF keeps_pmode_settings(4)]
        mod_pmode_def s_def)
  ultimately show ?thesis by (simp add: enter_mode_def found_on_entry_def Let_def s_def)
qed

lemma configured_UpdatePowerModePolicy:
  "configured w \<Longrightarrow> configured (exec (UpdatePowerModePolicy E m) w) \<and>
    policy_of (exec (UpdatePowerModePolicy E m) w) = policy_of w"
  using UpdatePowerModePolicy_effect [of w E m]
  by (simp add: configured_def policy_of_def [abs_def] Let_def)

section \<open>Properties\<close>

text \<open>
  C11: the loops of \<open>UpdatePowerModePolicy\<close> implement the specification of entering a mode: a
  setting that the policy names gets the value of its last entry, a setting that it does not name gets
  the value to go back to, and afterwards one goes back exactly to the values one had to go back to
  before, or else to the values found on entry for the settings marked so, as long as the policy names
  the setting.  The maps stay sorted and the configuration is not changed.
\<close>

theorem entering_mode_refines:
  assumes "configured w"
  shows "(map_of (switchMap (pmode (exec (UpdatePowerModePolicy E m) w))),
      map_of (recoverMap (pmode (exec (UpdatePowerModePolicy E m) w)))) =
      enter_mode (wanted (policy_of w m)) (found_on_entry E m w) (map_of (recoverMap (pmode w))) \<and>
    dom (found_on_entry E m w) = recovered_ids (policy_of w m) \<and>
    configured (exec (UpdatePowerModePolicy E m) w) \<and> policy_of (exec (UpdatePowerModePolicy E m) w) = policy_of w"
  using UpdatePowerModePolicy_effect [OF assms, of E m] configured_UpdatePowerModePolicy [OF assms, of E m]
    ReadPowerModePolicy_effect [OF assms, of E m]
  by (simp add: found_on_entry_def Let_def)

definition policy_world :: world where
  "policy_world = sample_world\<lparr>pmode := (pmode sample_world)\<lparr>
     policyCache := [(601, [\<lparr>policyId = 115, policyValue = 50, recoverFlag = 0\<rparr>,
       \<lparr>policyId = 120, policyValue = 0, recoverFlag = 1\<rparr>])],
     recoverMap := [(103, 1)]\<rparr>\<rparr>"

lemma policy_world_configured: "configured policy_world"
  by (simp add: configured_def policy_world_def omap_inv_def)

lemma policy_world_policies:
  "policy_of policy_world 601 = [\<lparr>policyId = 115, policyValue = 50, recoverFlag = 0\<rparr>,
     \<lparr>policyId = 120, policyValue = 0, recoverFlag = 1\<rparr>]"
  "policy_of policy_world 600 = []" "recoverMap (pmode policy_world) = [(103, 1)]"
  by (simp_all add: policy_world_def policy_of_def)

theorem entering_mode_refines_witness:
  "map_of (switchMap (pmode (exec (UpdatePowerModePolicy sample_env 601) policy_world))) 103 = Some 1 \<and>
   map_of (switchMap (pmode (exec (UpdatePowerModePolicy sample_env 601) policy_world))) 115 = Some 50 \<and>
   map_of (recoverMap (pmode (exec (UpdatePowerModePolicy sample_env 601) policy_world))) 103 = None"
proof -
  note r = entering_mode_refines [OF policy_world_configured, of sample_env 601]
  then have "103 \<notin> dom (found_on_entry sample_env 601 policy_world)"
    by (simp add: policy_world_policies recovered_ids_Cons RECOVER_def del: domIff)
  then have "found_on_entry sample_env 601 policy_world 103 = None" by (simp add: domIff)
  then show ?thesis
    using r by (simp add: enter_mode_def policy_world_policies wanted_def map_add_def)
qed

text \<open>Several changes of mode in a row.\<close>

lemma kept_over_modes:
  assumes "configured w" "map_of (recoverMap (pmode w)) i = Some v" "\<forall>m \<in> set ms. i \<in> dom (wanted (policy_of w m))"
  shows "configured (exec (for_each (UpdatePowerModePolicy E) ms) w) \<and>
    map_of (recoverMap (pmode (exec (for_each (UpdatePowerModePolicy E) ms) w))) i = Some v \<and>
    policy_of (exec (for_each (UpdatePowerModePolicy E) ms) w) = policy_of w"
  using assms
proof (induction ms arbitrary: w)
  case (Cons m ms)
  let ?w = "exec (UpdatePowerModePolicy E m) w"
  have "map_of (recoverMap (pmode ?w)) i = Some v"
    using UpdatePowerModePolicy_effect [OF Cons.prems(1), of E m] Cons.prems(2,3)
    by (simp add: Let_def enter_mode_def)
  then show ?case
    using Cons.IH [of ?w] configured_UpdatePowerModePolicy [OF Cons.prems(1), of E m] Cons.prems(3) by simp
qed simp




section \<open>Restart of the service\<close>

lemma recover_key_to_string: "k < 2 ^ 32 \<Longrightarrow> recover_key (to_string (int k)) = Some (wrap32 (int k))"
proof -
  assume k: "k < 2 ^ 32"
  then have "clamp64 (int k) = int k" by (intro undigits_clamp) (simp add: int64_def)
  then show ?thesis using k
    by (simp add: recover_key_def strtoll_to_string Let_def) (simp add: to_string_def digits_nonempty [symmetric])
qed

lemma wrap32_index: "k < 2 ^ 32 \<Longrightarrow> nat (wrap32 (int k) mod 2 ^ 32) = k"
  by (simp add: wrap32_def mod_diff_left_eq)

lemma recover_item_key:
  "k < 2 ^ 32 \<Longrightarrow> recover_item (to_string (int k), JNumber v) m = omap_set k v m"
  using wrap32_index [of k] by (simp add: recover_item_def recover_key_to_string)

lemma omap_set_snoc: "omap_inv (m @ [(k, v)]) \<Longrightarrow> omap_set k v m = m @ [(k, v)]"
  by (induction m) (auto simp: omap_inv_def)

lemma recover_items:
  assumes "omap_inv m" "\<forall>k \<in> fst ` set m. k < 2 ^ 32"
  shows "fold recover_item (map (\<lambda>(k, v). (to_string (int k), JNumber v)) m) [] = m"
  using assms
proof (induction m rule: rev_induct)
  case (snoc e m)
  obtain k v where e: "e = (k, v)" by (cases e)
  have "omap_inv m" using snoc.prems by (simp add: omap_inv_def sorted_wrt_append)
  then show ?case
    using snoc omap_set_snoc [of m k v] recover_item_key [of k v m] by (auto simp: e)
qed simp


lemma ReadPowerModeRecoverMap_stored:
  assumes "answers_stored E" "stored (result (AssembleUri SETTING_POWER_MODE_BACKUP_KEY) w)
      SETTING_POWER_MODE_BACKUP_KEY (trace w) = Some s"
  shows "result (ReadPowerModeRecoverMap E) w = s"
proof -
  have "retry n get (Inr x) = State_Monad.return (Inr x)" for n get and x :: string
    by (cases n) simp_all
  then show ?thesis
    using get_stored [OF assms]
    by (simp add: ReadPowerModeRecoverMap_def GetSettingStringValueWithRetry_def or_default_def)
qed

text \<open>
  The values to go back to survive a restart of the service.  When they have been saved and
  the service starts with an empty map, \<open>InitRecoverMap\<close> succeeds and yields the same map, for every map with 32-bit
  keys, those above \<open>INT_MAX\<close> included, which pass through a signed integer.  The data share answers
  with what was put and \<open>cJSON\<close> reads the text that it printed for this document.
\<close>

lemma recover_map_survives_restart:
  assumes "answers_stored E"
    and cjson: "cjsonPrint E (recover_json (recoverMap (pmode w))) = Some s" "CHR 0x00 \<notin> set s"
      "cjsonParse E s = Some (recover_json (recoverMap (pmode w)))"
    and map: "omap_inv (recoverMap (pmode w))" "\<forall>k \<in> fst ` set (recoverMap (pmode w)). k < 2 ^ 32"
    and restart: "stg v = stg w" "trace v = trace (exec (SavePowerModeRecoverMap E) w)" "recoverMap (pmode v) = []"
  shows "result (InitRecoverMap E) v \<and>
    recoverMap (pmode (exec (InitRecoverMap E) v)) = recoverMap (pmode w)"
proof -
  let ?key = SETTING_POWER_MODE_BACKUP_KEY
  have "exec (SavePowerModeRecoverMap E) w = exec (PutStringValue E ?key s True) w"
    by (simp add: SavePowerModeRecoverMap_def cjson HelperSavePowerModeRecoverMap_def SetSettingJsonStringValue_def)
  then have "stored (result (AssembleUri ?key) v) ?key (trace v) = Some s"
    using put_stores [OF assms(1), of ?key w s True] restart uri_stg [of v w ?key] by simp
  from ReadPowerModeRecoverMap_stored [OF assms(1) this]
  have r: "result (ReadPowerModeRecoverMap E) v = s" .
  have "keeps pmode (ReadPowerModeRecoverMap E)"
    by (auto simp: ReadPowerModeRecoverMap_def pmode_ig intro!: keeps_intros)
  then have p: "pmode (exec (ReadPowerModeRecoverMap E) v) = pmode v" by (rule keepsD)
  have "c_str s = s" using cjson(2) by (auto simp: c_str_def takeWhile_eq_all_conv)
  then show ?thesis
    using recover_items [OF map] cjson(3) r p restart(3)
    by (simp add: InitRecoverMap_def ParseRecoverJson_def recover_json_def mod_pmode_def)
qed

definition json_env :: env where
  "json_env = store_env\<lparr>
     cjsonPrint := (\<lambda>j. if j = recover_json [(103, 1)] then Some ''{103:1}'' else None),
     cjsonParse := (\<lambda>s. if s = ''{103:1}'' then Some (recover_json [(103, 1)]) else None)\<rparr>"

theorem recover_map_survives_restart_witness:
  "(let v = (exec (SavePowerModeRecoverMap json_env) policy_world)\<lparr>pmode := pmode sample_world\<rparr> in
     recoverMap (pmode (exec (InitRecoverMap json_env) v)) = [(103, 1)])"
proof -
  let ?v = "(exec (SavePowerModeRecoverMap json_env) policy_world)\<lparr>pmode := pmode sample_world\<rparr>"
  have m: "recoverMap (pmode policy_world) = [(103, 1)]" "recoverMap (pmode sample_world) = []"
    by (simp_all add: policy_world_def sample_world_def)
  have "answers_stored json_env"
    using store_env_answers by (simp add: answers_stored_def json_env_def)
  moreover have "stg (exec (SavePowerModeRecoverMap json_env) policy_world) = stg policy_world"
    using put_stores [OF \<open>answers_stored json_env\<close>, of SETTING_POWER_MODE_BACKUP_KEY policy_world]
    by (auto simp: SavePowerModeRecoverMap_def HelperSavePowerModeRecoverMap_def SetSettingJsonStringValue_def
        split: option.split)
  ultimately show ?thesis
    using recover_map_survives_restart [of json_env policy_world "''{103:1}''" ?v] m
    by (simp add: json_env_def omap_inv_def)
qed

end
