(* ===== verification/Source_Config.thy ===== *)
theory Source_Config
  imports Wakeup_Control
begin

text \<open>
  Which events suspend and wake the device is configured by JSON documents: the configuration files of the
  product and a copy in the settings, which the user changes.  This theory has the three parsers
  (\<open>suspend_source_parser.cpp\<close>, \<open>wakeup_source_parser.cpp\<close>, \<open>wakeup_action_source_parser.cpp\<close>), the
  initialisation and the settings observers of \<open>SuspendController\<close> and \<open>WakeupController\<close>, and the
  functions that switch single wakeup sources by rewriting the document.

  \<open>cJSON\<close> is a parameter (\<open>cjsonParse\<close>, \<open>cjsonPrint\<close>); a number of the document is its \<open>valueint\<close>.
\<close>

section \<open>Documents\<close>

text \<open>The members that \<open>cJSON_ArrayForEach\<close> visits with a name: the elements of an array have none.\<close>

fun json_members :: "Json \<Rightarrow> (string \<times> Json) list" where
  "json_members (JObject ms) = ms"
| "json_members _ = []"

fun IsValidJsonObjectOrJsonArray :: "Json \<Rightarrow> bool" where
  "IsValidJsonObjectOrJsonArray (JObject _) = True"
| "IsValidJsonObjectOrJsonArray (JArray _) = True"
| "IsValidJsonObjectOrJsonArray _ = False"

text \<open>\<open>cJSON_SetBoolValue\<close> on the first member of a name.\<close>

fun set_member :: "string \<Rightarrow> Json \<Rightarrow> (string \<times> Json) list \<Rightarrow> (string \<times> Json) list" where
  "set_member k v [] = []"
| "set_member k v (m # ms) = (if fst m = k then (k, v) # ms else m # set_member k v ms)"

text \<open>What \<open>ParseSources\<close> returns: the sources in the order of the document, and the error flag.\<close>

record 'a Sources =
  sourceList :: "'a list"
  parseErrorFlag :: bool

section \<open>Files\<close>

definition target_path :: "env \<Rightarrow> string \<Rightarrow> string \<Rightarrow> string \<Rightarrow> string option M" where
  "target_path E config vendor system = do {
     path \<leftarrow> ask_string E (Settings (ConfigFile config));
     if path \<noteq> [] then State_Monad.return (Some path)
     else do {
       v \<leftarrow> ask_bool E (Settings (FileReadable vendor));
       if v then State_Monad.return (Some vendor)
       else do {
         s \<leftarrow> ask_bool E (Settings (FileReadable system));
         State_Monad.return (if s then Some system else None) } } }"

definition Suspend_GetTargetPath :: "env \<Rightarrow> string option M" where
  "Suspend_GetTargetPath E = target_path E ''etc/power_config/power_suspend.json''
     ''/vendor/etc/power_config/power_suspend.json'' ''/system/etc/power_config/power_suspend.json''"

definition Wakeup_GetTargetPath :: "env \<Rightarrow> string option M" where
  "Wakeup_GetTargetPath E = target_path E ''etc/power_config/power_wakeup.json''
     ''/vendor/etc/power_config/power_wakeup.json'' ''/system/etc/power_config/power_wakeup.json''"

definition WakeupAction_GetTargetPath :: "env \<Rightarrow> string option M" where
  "WakeupAction_GetTargetPath E = target_path E ''etc/power_config/power_wakeup_action.json''
     ''/vendor/etc/power_config/power_wakeup_action.json'' ''/system/etc/power_config/power_wakeup_action.json''"

definition GetSuspendSourcesByConfig :: "env \<Rightarrow> string M" where
  "GetSuspendSourcesByConfig E = do {
     targetPath \<leftarrow> Suspend_GetTargetPath E;
     case targetPath of None \<Rightarrow> State_Monad.return [] | Some p \<Rightarrow> ask_string E (Settings (FileContents p)) }"

definition GetWakeupSourcesByConfig :: "env \<Rightarrow> string M" where
  "GetWakeupSourcesByConfig E = do {
     targetPath \<leftarrow> Wakeup_GetTargetPath E;
     case targetPath of None \<Rightarrow> State_Monad.return [] | Some p \<Rightarrow> ask_string E (Settings (FileContents p)) }"

section \<open>Suspend sources\<close>

definition ACTION_INVALID :: uint32 where "ACTION_INVALID = 5"

text \<open>\<open>SUSPEND_DEVICE_REASON_MIN\<close>, the value for an unknown key, is that of \<open>REASON_APPLICATION\<close>.\<close>

definition mapSuspendDeviceType :: "string \<Rightarrow> SuspendDeviceType" where
  "mapSuspendDeviceType key =
    (if key = ''powerkey'' then SUSPEND_DEVICE_REASON_POWER_KEY
     else if key = ''timeout'' then SUSPEND_DEVICE_REASON_TIMEOUT
     else if key = ''lid'' then SUSPEND_DEVICE_REASON_LID
     else if key = ''switch'' then SUSPEND_DEVICE_REASON_SWITCH
     else if key = ''tp_cover'' then SUSPEND_DEVICE_REASON_TP_COVER
     else SUSPEND_DEVICE_REASON_APPLICATION)"

definition suspend_getSourceKeys :: "string list" where
  "suspend_getSourceKeys = [''powerkey'', ''timeout'', ''lid'', ''switch'']"

text \<open>Both numbers must be there; otherwise the source does nothing.\<close>

definition suspend_numbers :: "Json \<Rightarrow> uint32 \<times> uint32" where
  "suspend_numbers valueObj = (case valueObj of
     JObject ms \<Rightarrow> (case map_of ms ''action'' of
       Some (JNumber a) \<Rightarrow> (case map_of ms ''delayMs'' of
         Some (JNumber d) \<Rightarrow>
           (if (word_of_int a :: uint32) \<ge> ACTION_INVALID then 0 else word_of_int a, word_of_int d)
       | _ \<Rightarrow> (0, 0))
     | _ \<Rightarrow> (0, 0))
   | _ \<Rightarrow> (0, 0))"

definition Suspend_ParseSourcesProc :: "string \<times> Json \<Rightarrow> SuspendSource option" where
  "Suspend_ParseSourcesProc item = (case item of (key, valueObj) \<Rightarrow>
     let type = mapSuspendDeviceType key; (action, delayMs) = suspend_numbers valueObj in
     if type = SUSPEND_DEVICE_REASON_APPLICATION then None
     else Some \<lparr>srcReason = type, srcAction = action, srcDelay = delayMs\<rparr>)"

definition Suspend_ParseSourcesJson :: "env \<Rightarrow> string \<Rightarrow> SuspendSource Sources" where
  "Suspend_ParseSourcesJson E jsonStr = (case cjsonParse E (c_str jsonStr) of
     None \<Rightarrow> \<lparr>sourceList = [], parseErrorFlag = True\<rparr>
   | Some root \<Rightarrow>
       if \<not> IsValidJsonObjectOrJsonArray root then \<lparr>sourceList = [], parseErrorFlag = True\<rparr>
       else \<lparr>sourceList = List.map_filter Suspend_ParseSourcesProc (json_members root), parseErrorFlag = False\<rparr>)"

text \<open>A document that cannot be parsed is replaced by that of the product.\<close>

definition suspend_parse_or_config :: "env \<Rightarrow> string \<Rightarrow> (SuspendSource Sources \<times> string) M" where
  "suspend_parse_or_config E jsonStr =
    (let sources = Suspend_ParseSourcesJson E jsonStr in
     if parseErrorFlag sources then do {
       configJsonStr \<leftarrow> GetSuspendSourcesByConfig E;
       State_Monad.return (Suspend_ParseSourcesJson E configJsonStr, configJsonStr) }
     else State_Monad.return (sources, jsonStr))"

definition contains :: "string \<Rightarrow> string \<Rightarrow> bool" where
  "contains s p = (\<exists>i \<in> set [0 ..< Suc (length s)]. take (length p) (drop i s) = p)"

text \<open>With separate settings for the two kinds of power supply, and without.\<close>

definition Suspend_ParseSources_charging :: "env \<Rightarrow> SuspendSource Sources option M" where
  "Suspend_ParseSources_charging E = do {
     p \<leftarrow> gets ptrs;
     if \<not> pms p then State_Monad.return None
     else do {
       isPowerConnected \<leftarrow> IsPowerConnected E;
       acValid \<leftarrow> IsSettingAcSuspendSourcesValid E;
       dcValid \<leftarrow> IsSettingDcSuspendSourcesValid E;
       fileString \<leftarrow> (if \<not> acValid \<or> \<not> dcValid then do {
           str \<leftarrow> GetSuspendSourcesByConfig E;
           whenM (\<not> acValid) (SetSettingAcSuspendSources E str);
           whenM (\<not> dcValid) (SetSettingDcSuspendSources E str);
           State_Monad.return str }
         else State_Monad.return []);
       configJsonStr \<leftarrow> (if isPowerConnected \<and> acValid then GetSettingAcSuspendSources E
         else if \<not> isPowerConnected \<and> dcValid then GetSettingDcSuspendSources E
         else State_Monad.return fileString);
       (sources, _) \<leftarrow> suspend_parse_or_config E configJsonStr;
       State_Monad.return (Some sources) } }"

definition Suspend_ParseSources_plain :: "env \<Rightarrow> SuspendSource Sources option M" where
  "Suspend_ParseSources_plain E = do {
     isSettingUpdated \<leftarrow> IsSuspendSourcesSettingValid E;
     configJsonStr \<leftarrow> (if isSettingUpdated then do {
         sourcesSettingStr \<leftarrow> GetSettingSuspendSources E;
         if F_WATCH_UPDATE_ADAPT E \<and> \<not> contains sourcesSettingStr ''tp_cover'' then GetSuspendSourcesByConfig E
         else State_Monad.return sourcesSettingStr }
       else GetSuspendSourcesByConfig E);
     (sources, str) \<leftarrow> suspend_parse_or_config E configJsonStr;
     SetSettingSuspendSources E str;
     State_Monad.return (Some sources) }"

definition Suspend_ParseSources :: "env \<Rightarrow> SuspendSource Sources option M" where
  "Suspend_ParseSources E =
    (if F_CHARGING_TYPE E then Suspend_ParseSources_charging E else Suspend_ParseSources_plain E)"

section \<open>The suspend controller\<close>

definition Suspend_RegisterSettingsObserver :: "env \<Rightarrow> unit M" where
  "Suspend_RegisterSettingsObserver E = do {
     s \<leftarrow> gets stg;
     if F_CHARGING_TYPE E then do {
       whenM (\<not> suspendSourcesKeyAcObserver s) (do {
         ok \<leftarrow> RegisterSettingAcSuspendSourcesObserver E;
         mod_stg (\<lambda>s. s\<lparr>suspendSourcesKeyAcObserver := ok\<rparr>) });
       whenM (\<not> suspendSourcesKeyDcObserver s) (do {
         ok \<leftarrow> RegisterSettingDcSuspendSourcesObserver E;
         mod_stg (\<lambda>s. s\<lparr>suspendSourcesKeyDcObserver := ok\<rparr>) }) }
     else whenM (\<not> suspendSourcesKeyObserver s) (do {
       ok \<leftarrow> RegisterSettingSuspendSourcesObserver E;
       mod_stg (\<lambda>s. s\<lparr>suspendSourcesKeyObserver := ok\<rparr>) }) }"

definition Suspend_UnregisterSettingsObserver :: "env \<Rightarrow> unit M" where
  "Suspend_UnregisterSettingsObserver E = do {
     s \<leftarrow> gets stg;
     if F_CHARGING_TYPE E then do {
       UnregisterSettingObserver E SETTING_POWER_AC_SUSPEND_SOURCES_KEY (suspendSourcesKeyAcObserver s);
       UnregisterSettingObserver E SETTING_POWER_DC_SUSPEND_SOURCES_KEY (suspendSourcesKeyDcObserver s);
       mod_stg (\<lambda>s. s\<lparr>suspendSourcesKeyAcObserver := False, suspendSourcesKeyDcObserver := False\<rparr>) }
     else do {
       UnregisterSettingObserver E SETTING_POWER_SUSPEND_SOURCES_KEY (suspendSourcesKeyObserver s);
       mod_stg (\<lambda>s. s\<lparr>suspendSourcesKeyObserver := False\<rparr>) } }"

text \<open>
  \<open>Init\<close> registers a callback object at the state machine that stops the sleep timer when the device
  turns awake; \<open>callback\<close> is the address of the new object.  Without the service there are no
  sources, and \<open>Init\<close> is only called by the service.
\<close>

definition Init :: "env \<Rightarrow> obj \<Rightarrow> unit M" where
  "Init E callback = do {
     parsed \<leftarrow> Suspend_ParseSources E;
     let sources = (case parsed of None \<Rightarrow> [] | Some s \<Rightarrow> sourceList s);
     if sources = [] then skip
     else do {
       for_each (add_monitor E) sources;
       p \<leftarrow> gets ptrs;
       if \<not> suspStateMachine p then skip
       else do {
         pid \<leftarrow> ask_int E (Service CallerPid);
         uid \<leftarrow> ask_int E (Service CallerUid);
         RegisterPowerStateCallback callback True (pid, uid);
         old \<leftarrow> gets (\<lambda>w. suspendPowerStateCallback (susp w));
         (case old of None \<Rightarrow> skip | Some c \<Rightarrow> UnRegisterPowerStateCallback c);
         mod_susp (\<lambda>s. s\<lparr>suspendPowerStateCallback := Some callback\<rparr>);
         whenM (F_MOUSE_DEBOUNCE E) (mod_susp (\<lambda>s. s\<lparr>mouseDebounceTimeAfterSuspend :=
           intParameter E ''const.power.mouse_debounce_time_after_suspend'' 1000\<rparr>));
         Suspend_RegisterSettingsObserver E } } }"

text \<open>The sources that \<open>UpdateSuspendSources\<close> reads.\<close>

definition updated_suspend_sources :: "env \<Rightarrow> SuspendSource list M" where
  "updated_suspend_sources E = do {
     jsonStr \<leftarrow> (if \<not> F_CHARGING_TYPE E then GetSettingSuspendSources E
       else do {
         connected \<leftarrow> IsPowerConnected E;
         if connected then GetSettingAcSuspendSources E else GetSettingDcSuspendSources E });
     (sources, _) \<leftarrow> suspend_parse_or_config E jsonStr;
     State_Monad.return (sourceList sources) }"

definition UpdateSuspendSources :: "env \<Rightarrow> unit M" where
  "UpdateSuspendSources E = do {
     p \<leftarrow> gets ptrs;
     if \<not> pms p then skip
     else do {
       sources \<leftarrow> updated_suspend_sources E;
       if sources = [] then skip
       else do {
         Cancel E;
         for_each (add_monitor E) sources } } }"

section \<open>Wakeup sources\<close>

definition SINGLE_CLICK :: uint32 where "SINGLE_CLICK = 1"
definition DOUBLE_CLICK :: uint32 where "DOUBLE_CLICK = 2"

record WakeupSource =
  wsReason :: WakeupDeviceType
  wsEnable :: bool
  wsClick :: uint32

definition mapWakeupDeviceType :: "string \<Rightarrow> uint32 \<Rightarrow> WakeupDeviceType" where
  "mapWakeupDeviceType key click =
    (if key = ''powerkey'' then WAKEUP_DEVICE_POWER_BUTTON
     else if key = ''mouse'' then WAKEUP_DEVICE_MOUSE
     else if key = ''keyborad'' then WAKEUP_DEVICE_KEYBOARD
     else if key = ''pen'' then WAKEUP_DEVICE_PEN
     else if key = ''touchpad'' then WAKEUP_DEVICE_TOUCHPAD
     else if key = ''lid'' then WAKEUP_DEVICE_LID
     else if key = ''switch'' then WAKEUP_DEVICE_SWITCH
     else if key = ''touchscreen'' then
       (if click = SINGLE_CLICK then WAKEUP_DEVICE_SINGLE_CLICK else WAKEUP_DEVICE_DOUBLE_CLICK)
     else if key = ''pickup'' then WAKEUP_DEVICE_PICKUP
     else if key = ''tp_touch'' then WAKEUP_DEVICE_TP_TOUCH
     else WAKEUP_DEVICE_UNKNOWN)"

definition wakeup_getSourceKeys :: "string list" where
  "wakeup_getSourceKeys = [''powerkey'', ''mouse'', ''keyborad'', ''touchscreen'', ''touchpad'', ''pen'', ''lid'',
     ''switch'', ''pickup'']"

text \<open>A source is enabled unless it says otherwise, and a click is double unless it is single.\<close>

definition json_enable :: "Json \<Rightarrow> bool" where
  "json_enable valueObj = (case map_of (json_members valueObj) ''enable'' of Some (JBool b) \<Rightarrow> b | _ \<Rightarrow> True)"

definition json_click :: "Json \<Rightarrow> uint32" where
  "json_click valueObj = (case map_of (json_members valueObj) ''click'' of
     Some (JNumber n) \<Rightarrow> (if (word_of_int n :: uint32) = SINGLE_CLICK \<or> (word_of_int n :: uint32) = DOUBLE_CLICK
       then word_of_int n else DOUBLE_CLICK)
   | _ \<Rightarrow> DOUBLE_CLICK)"

definition wakeup_source :: "string \<times> Json \<Rightarrow> WakeupSource" where
  "wakeup_source item = (case item of (key, valueObj) \<Rightarrow>
     \<lparr>wsReason = mapWakeupDeviceType key (json_click valueObj), wsEnable = json_enable valueObj,
      wsClick = json_click valueObj\<rparr>)"

definition SetSettingsToDatabase :: "env \<Rightarrow> WakeupDeviceType \<Rightarrow> bool \<Rightarrow> unit M" where
  "SetSettingsToDatabase E type enable = whenM (type = WAKEUP_DEVICE_LID) (do {
     valid \<leftarrow> IsWakeupLidSettingValid E;
     whenM (\<not> valid) (SetSettingWakeupLid E enable) })"

text \<open>The sources that are put into the list; the others may only leave a trace in the settings.\<close>

definition Wakeup_ParseSourcesProc :: "env \<Rightarrow> string \<times> Json \<Rightarrow> WakeupSource list M" where
  "Wakeup_ParseSourcesProc E item = (let s = wakeup_source item; type = wsReason s; enable = wsEnable s in
     if type = WAKEUP_DEVICE_UNKNOWN then State_Monad.return []
     else do {
       first \<leftarrow> gets (\<lambda>w. isFirstSettingUpdated (stg w));
       whenM (\<not> enable \<and> first) (do {
         whenM (type = WAKEUP_DEVICE_DOUBLE_CLICK) (do {
           valid \<leftarrow> IsWakeupDoubleSettingValid E;
           whenM (\<not> valid) (SetSettingWakeupDouble E enable) });
         whenM (type = WAKEUP_DEVICE_PICKUP) (do {
           valid \<leftarrow> IsWakeupPickupSettingValid E;
           whenM (\<not> valid) (SetSettingWakeupPickup E enable) }) });
       SetSettingsToDatabase E type enable;
       State_Monad.return (if enable then [s] else []) })"

fun parse_members :: "env \<Rightarrow> (string \<times> Json) list \<Rightarrow> WakeupSource list M" where
  "parse_members E [] = State_Monad.return []"
| "parse_members E (item # items) = do {
     s \<leftarrow> Wakeup_ParseSourcesProc E item;
     ss \<leftarrow> parse_members E items;
     State_Monad.return (s @ ss) }"

definition Wakeup_ParseSourcesJson :: "env \<Rightarrow> string \<Rightarrow> WakeupSource Sources M" where
  "Wakeup_ParseSourcesJson E jsonStr = (case cjsonParse E (c_str jsonStr) of
     None \<Rightarrow> State_Monad.return \<lparr>sourceList = [], parseErrorFlag = True\<rparr>
   | Some root \<Rightarrow>
       if \<not> IsValidJsonObjectOrJsonArray root
       then State_Monad.return \<lparr>sourceList = [], parseErrorFlag = True\<rparr>
       else do {
         l \<leftarrow> parse_members E (json_members root);
         State_Monad.return \<lparr>sourceList = l, parseErrorFlag = False\<rparr> })"

definition wakeup_parse_or_config :: "env \<Rightarrow> string \<Rightarrow> (WakeupSource Sources \<times> string) M" where
  "wakeup_parse_or_config E jsonStr = do {
     sources \<leftarrow> Wakeup_ParseSourcesJson E jsonStr;
     if parseErrorFlag sources then do {
       configJsonStr \<leftarrow> GetWakeupSourcesByConfig E;
       again \<leftarrow> Wakeup_ParseSourcesJson E configJsonStr;
       State_Monad.return (again, configJsonStr) }
     else State_Monad.return (sources, jsonStr) }"

definition Wakeup_ParseSources :: "env \<Rightarrow> WakeupSource Sources M" where
  "Wakeup_ParseSources E = do {
     valid \<leftarrow> IsWakeupSourcesSettingValid E;
     configJsonStr \<leftarrow> (if valid then do {
         sourcesSettingStr \<leftarrow> GetSettingWakeupSources E;
         if F_WATCH_UPDATE_ADAPT E \<and> \<not> contains sourcesSettingStr ''tp_touch'' then GetWakeupSourcesByConfig E
         else State_Monad.return sourcesSettingStr }
       else GetWakeupSourcesByConfig E);
     mod_stg (\<lambda>s. s\<lparr>isFirstSettingUpdated := True\<rparr>);
     (sources, str) \<leftarrow> wakeup_parse_or_config E configJsonStr;
     SetSettingWakeupSources E str;
     mod_stg (\<lambda>s. s\<lparr>isFirstSettingUpdated := False\<rparr>);
     State_Monad.return sources }"

section \<open>The wakeup controller\<close>

text \<open>A function of the extension library, if the library and the function are there.\<close>

definition ext_function :: "env \<Rightarrow> string \<Rightarrow> bool \<Rightarrow> unit M" where
  "ext_function E name b = do {
     handler \<leftarrow> ask_bool E (Service ExtLibrary);
     whenM handler (do {
       found \<leftarrow> ask_bool E (Service (ExtSymbol name));
       whenM found (log_call (Service (ExtFunction name b))) }) }"

definition SetWakeupDoubleClickSensor :: "env \<Rightarrow> bool \<Rightarrow> unit M" where
  "SetWakeupDoubleClickSensor E enable = ext_function E ''SetWakeupDoubleClickSensor'' enable"

definition PickupConnectMotionConfig :: "env \<Rightarrow> bool \<Rightarrow> unit M" where
  "PickupConnectMotionConfig E databaseSwitchValue =
    ext_function E (if databaseSwitchValue then ''PickupMotionSubscriber'' else ''PickupMotionUnsubscriber'')
      databaseSwitchValue"

definition SetOriginSettingValue :: "env \<Rightarrow> WakeupSource \<Rightarrow> unit M" where
  "SetOriginSettingValue E source = do {
     whenM (F_DOUBLECLICK E \<and> wsReason source = WAKEUP_DEVICE_DOUBLE_CLICK) (do {
       valid \<leftarrow> IsWakeupDoubleSettingValid E;
       if \<not> valid then do {
         SetSettingWakeupDouble E (wsEnable source);
         SetWakeupDoubleClickSensor E (wsEnable source) }
       else do {
         enable \<leftarrow> GetSettingWakeupDouble E SETTING_POWER_WAKEUP_DOUBLE_KEY;
         SetWakeupDoubleClickSensor E enable } });
     whenM (F_PICKUP E \<and> wsReason source = WAKEUP_DEVICE_PICKUP) (do {
       valid \<leftarrow> IsWakeupPickupSettingValid E;
       if \<not> valid then do {
         SetSettingWakeupPickup E (wsEnable source);
         PickupConnectMotionConfig E (wsEnable source) }
       else do {
         enable \<leftarrow> GetSettingWakeupPickup E SETTING_POWER_WAKEUP_PICKUP_KEY;
         PickupConnectMotionConfig E enable } }) }"

definition Wakeup_RegisterSettingsObserver :: "env \<Rightarrow> unit M" where
  "Wakeup_RegisterSettingsObserver E = do {
     s \<leftarrow> gets stg;
     whenM (\<not> wakeupSourcesKeyObserver s) (do {
       ok \<leftarrow> RegisterSettingWakeupSourcesObserver E;
       mod_stg (\<lambda>s. s\<lparr>wakeupSourcesKeyObserver := ok\<rparr>) }) }"

definition Wakeup_UnregisterSettingsObserver :: "env \<Rightarrow> unit M" where
  "Wakeup_UnregisterSettingsObserver E = do {
     s \<leftarrow> gets stg;
     UnregisterSettingObserver E SETTING_POWER_WAKEUP_SOURCES_KEY (wakeupSourcesKeyObserver s);
     mod_stg (\<lambda>s. s\<lparr>wakeupSourcesKeyObserver := False\<rparr>) }"

definition Wakeup_Init :: "env \<Rightarrow> unit M" where
  "Wakeup_Init E = do {
     sources \<leftarrow> Wakeup_ParseSources E;
     if sourceList sources = [] then skip
     else do {
       for_each (\<lambda>source. do {
         SetOriginSettingValue E source;
         add_wakeup_monitor E (wsReason source) }) (sourceList sources);
       Wakeup_RegisterSettingsObserver E } }"

text \<open>The update function of the observer.\<close>

definition Wakeup_UpdateSources :: "env \<Rightarrow> unit M" where
  "Wakeup_UpdateSources E = do {
     jsonStr \<leftarrow> GetSettingWakeupSources E;
     (sources, _) \<leftarrow> wakeup_parse_or_config E jsonStr;
     if sourceList sources = [] then skip
     else do {
       Wakeup_Cancel E;
       for_each (\<lambda>source. add_wakeup_monitor E (wsReason source)) (sourceList sources) } }"

section \<open>Switching a source\<close>

text \<open>
  The new document, or \<open>None\<close> if nothing is to be written.  \<open>update_enable\<close> is shared by the touch screen
  and the pickup gesture; for the lid a missing flag counts as enabled.
\<close>

definition update_enable :: "string \<Rightarrow> bool \<Rightarrow> Json \<Rightarrow> Json option" where
  "update_enable node enable root = (case root of
     JObject ms \<Rightarrow> (case map_of ms node of
       Some (JObject ns) \<Rightarrow> (case map_of ns ''enable'' of
         Some (JBool origin) \<Rightarrow> if origin = enable then None
           else Some (JObject (set_member node (JObject (set_member ''enable'' (JBool enable) ns)) ms))
       | _ \<Rightarrow> None)
     | _ \<Rightarrow> None)
   | _ \<Rightarrow> None)"

definition update_lid :: "bool \<Rightarrow> Json \<Rightarrow> Json option" where
  "update_lid enable root = (case root of
     JObject ms \<Rightarrow> (case map_of ms ''lid'' of
       Some (JObject ns) \<Rightarrow> (case map_of ns ''enable'' of
         Some (JBool origin) \<Rightarrow> if origin = enable then None
           else Some (JObject (set_member ''lid'' (JObject (set_member ''enable'' (JBool enable) ns)) ms))
       | _ \<Rightarrow> if enable then None else Some root)
     | _ \<Rightarrow> None)
   | _ \<Rightarrow> None)"

definition write_update :: "env \<Rightarrow> (Json \<Rightarrow> Json option) \<Rightarrow> string \<Rightarrow> unit M" where
  "write_update E update jsonStr = (case cjsonParse E (c_str jsonStr) of
     None \<Rightarrow> skip
   | Some root \<Rightarrow> (case update root of
       None \<Rightarrow> skip
     | Some root' \<Rightarrow> (case cjsonPrint E root' of
         None \<Rightarrow> skip
       | Some jsonConfig \<Rightarrow> SetSettingWakeupSources E jsonConfig)))"

definition WakeupParseJsonConfig :: "env \<Rightarrow> bool \<Rightarrow> string \<Rightarrow> unit M" where
  "WakeupParseJsonConfig E updateEnable = write_update E (update_enable ''touchscreen'' updateEnable)"

definition PickupWakeupParseJsonConfig :: "env \<Rightarrow> bool \<Rightarrow> string \<Rightarrow> unit M" where
  "PickupWakeupParseJsonConfig E updataEnable = write_update E (update_enable ''pickup'' updataEnable)"

definition LidWakeupParseJsonConfig :: "env \<Rightarrow> bool \<Rightarrow> string \<Rightarrow> unit M" where
  "LidWakeupParseJsonConfig E updataEnable = write_update E (update_lid updataEnable)"

definition ChangeWakeupSourceConfig :: "env \<Rightarrow> bool \<Rightarrow> unit M" where
  "ChangeWakeupSourceConfig E updateEnable = do {
     jsonStr \<leftarrow> GetSettingWakeupSources E;
     if jsonStr = [] then skip else WakeupParseJsonConfig E updateEnable jsonStr }"

definition ChangePickupWakeupSourceConfig :: "env \<Rightarrow> bool \<Rightarrow> unit M" where
  "ChangePickupWakeupSourceConfig E updataEnable = do {
     jsonStr \<leftarrow> GetSettingWakeupSources E;
     if jsonStr = [] then skip else PickupWakeupParseJsonConfig E updataEnable jsonStr }"

definition ChangeLidWakeupSourceConfig :: "env \<Rightarrow> bool \<Rightarrow> unit M" where
  "ChangeLidWakeupSourceConfig E updataEnable = do {
     jsonStr \<leftarrow> GetSettingWakeupSources E;
     LidWakeupParseJsonConfig E updataEnable jsonStr }"

section \<open>Wakeup actions\<close>

definition WakeupAction_ParseSourcesProc :: "string \<times> Json \<Rightarrow> (string \<times> (string \<times> uint32)) option" where
  "WakeupAction_ParseSourcesProc item = (case item of (key, valueObj) \<Rightarrow>
     let scene = (case map_of (json_members valueObj) ''scene'' of Some (JString s) \<Rightarrow> s | _ \<Rightarrow> []);
         action = (case map_of (json_members valueObj) ''action'' of
           Some (JNumber n) \<Rightarrow> (if (word_of_int n :: uint32) \<ge> WAKEUP_ACTION_INVALID then WAKEUP_ACTION_INVALID
             else word_of_int n)
         | _ \<Rightarrow> WAKEUP_ACTION_INVALID)
     in if action = WAKEUP_ACTION_INVALID then None else Some (key, (scene, action)))"

text \<open>\<open>emplace\<close> keeps the first entry of a key, as \<open>map_of\<close> finds it.\<close>

definition WakeupAction_ParseSourcesJson :: "env \<Rightarrow> string \<Rightarrow> string \<rightharpoonup> (string \<times> uint32)" where
  "WakeupAction_ParseSourcesJson E jsonStr = (case cjsonParse E (c_str jsonStr) of
     None \<Rightarrow> Map.empty
   | Some root \<Rightarrow> map_of (List.map_filter WakeupAction_ParseSourcesProc (json_members root)))"

text \<open>Without a configuration file the result is a null pointer.\<close>

definition WakeupAction_ParseSources :: "env \<Rightarrow> (string \<rightharpoonup> (string \<times> uint32)) option M" where
  "WakeupAction_ParseSources E = do {
     targetPath \<leftarrow> WakeupAction_GetTargetPath E;
     case targetPath of
       None \<Rightarrow> State_Monad.return None
     | Some p \<Rightarrow> do {
         configJsonStr \<leftarrow> ask_string E (Settings (FileContents p));
         State_Monad.return (Some (WakeupAction_ParseSourcesJson E configJsonStr)) } }"

text \<open>The code does not test the pointer: the answer \<open>False\<close> means that it is dereferenced as null.\<close>

definition WakeupAction_Init :: "env \<Rightarrow> bool M" where
  "WakeupAction_Init E = do {
     sources \<leftarrow> WakeupAction_ParseSources E;
     case sources of
       None \<Rightarrow> State_Monad.return False
     | Some m \<Rightarrow> do {
         mod_wake (\<lambda>s. s\<lparr>wakeupActionSources := m\<rparr>);
         State_Monad.return True } }"

end
