(* ===== verification/Source_Laws.thy ===== *)
theory Source_Laws
  imports Source_Config Setting_Laws
begin

text \<open>
  Correctness of the source configuration: the monitors of the suspend controller are those of the
  document, and switching a wakeup source changes that source and no other.
\<close>

section \<open>Parsing\<close>

definition wakeup_sources_of :: "(string \<times> Json) list \<Rightarrow> WakeupSource list" where
  "wakeup_sources_of ms = filter (\<lambda>s. wsReason s \<noteq> WAKEUP_DEVICE_UNKNOWN \<and> wsEnable s) (map wakeup_source ms)"

lemma result_parse_members: "result (parse_members E ms) w = wakeup_sources_of ms"
proof (induction ms arbitrary: w)
  case (Cons m ms)
  have "result (Wakeup_ParseSourcesProc E m) v =
      (if wsReason (wakeup_source m) \<noteq> WAKEUP_DEVICE_UNKNOWN \<and> wsEnable (wakeup_source m) then [wakeup_source m] else [])" for v
    by (simp add: Wakeup_ParseSourcesProc_def Let_def)
  then show ?case using Cons.IH by (simp add: wakeup_sources_of_def)
qed (simp add: wakeup_sources_of_def)

lemma wakeup_sources_of_append: "wakeup_sources_of (xs @ ys) = wakeup_sources_of xs @ wakeup_sources_of ys"
  by (simp add: wakeup_sources_of_def)

lemma wakeup_sources_of_split: "wakeup_sources_of (xs @ y # ys) = wakeup_sources_of xs @ wakeup_sources_of [y] @ wakeup_sources_of ys"
  by (simp flip: wakeup_sources_of_append)

definition touches :: "WakeupSource \<Rightarrow> bool" where
  "touches s = (wsReason s = WAKEUP_DEVICE_SINGLE_CLICK \<or> wsReason s = WAKEUP_DEVICE_DOUBLE_CLICK)"

lemma touches_key: "touches (wakeup_source (k, v)) = (k = ''touchscreen'')"
  by (simp add: touches_def wakeup_source_def mapWakeupDeviceType_def)

lemma set_member_split:
  "k \<notin> fst ` set as \<Longrightarrow> set_member k v' (as @ (k, v) # bs) = as @ (k, v') # bs"
  by (induction as) auto

lemma map_of_set_member: "k \<in> fst ` set ms \<Longrightarrow> map_of (set_member k v ms) k = Some v"
  by (induction ms) auto

lemma switch_touchscreen:
  fixes b :: bool
  assumes "distinct (map fst ms)" "map_of ms ''touchscreen'' = Some (JObject ns)" "map_of ns ''enable'' = Some (JBool b0)"
  defines "ms' \<equiv> set_member ''touchscreen'' (JObject (set_member ''enable'' (JBool b) ns)) ms"
  shows "filter (Not \<circ> touches) (wakeup_sources_of ms') = filter (Not \<circ> touches) (wakeup_sources_of ms) \<and>
    ((\<exists>s \<in> set (wakeup_sources_of ms'). touches s) \<longleftrightarrow> b)"
proof -
  obtain as bs where ms: "ms = as @ (''touchscreen'', JObject ns) # bs"
    using map_of_SomeD [OF assms(2)] by (auto dest: split_list)
  have keys: "''touchscreen'' \<notin> fst ` set as" "''touchscreen'' \<notin> fst ` set bs"
    using assms(1) by (auto simp: ms)
  have ms': "ms' = as @ (''touchscreen'', JObject (set_member ''enable'' (JBool b) ns)) # bs"
    unfolding ms'_def ms by (rule set_member_split [OF keys(1)])
  have none: "\<not> touches s" if "s \<in> set (wakeup_sources_of xs)" "''touchscreen'' \<notin> fst ` set xs" for s xs
    using that by (force simp: wakeup_sources_of_def touches_key)
  have "''enable'' \<in> fst ` set ns" using assms(3) by (force dest: map_of_SomeD)
  then have "json_enable (JObject (set_member ''enable'' (JBool b) ns)) = b"
    by (simp add: json_enable_def map_of_set_member)
  then have "wakeup_sources_of [(''touchscreen'', JObject (set_member ''enable'' (JBool b) ns))] =
      (if b then [wakeup_source (''touchscreen'', JObject (set_member ''enable'' (JBool b) ns))] else [])"
    by (cases b) (simp_all add: wakeup_sources_of_def wakeup_source_def mapWakeupDeviceType_def)
  note mid = wakeup_sources_of_split [of as "(''touchscreen'', JObject (set_member ''enable'' (JBool b) ns))" bs,
    folded ms', unfolded this]
  have old: "filter (Not \<circ> touches) (wakeup_sources_of ms) = wakeup_sources_of as @ wakeup_sources_of bs"
  proof -
    have "filter (Not \<circ> touches) (wakeup_sources_of [(''touchscreen'', JObject ns)]) = []"
      by (auto simp: wakeup_sources_of_def touches_key)
    moreover have "filter (Not \<circ> touches) (wakeup_sources_of as) = wakeup_sources_of as"
      "filter (Not \<circ> touches) (wakeup_sources_of bs) = wakeup_sources_of bs"
      using none keys by (auto simp: filter_id_conv)
    ultimately show ?thesis unfolding ms wakeup_sources_of_split by simp
  qed
  show ?thesis
    using none [OF _ keys(1)] none [OF _ keys(2)]
    by (auto simp: mid old touches_key filter_id_conv)
qed

lemma read_stored:
  assumes "answers_stored E"
    and "stored (result (AssembleUri SETTING_POWER_WAKEUP_SOURCES_KEY) w) SETTING_POWER_WAKEUP_SOURCES_KEY (trace w) = Some s"
  shows "result (GetSettingWakeupSources E) w = s"
    "result (GetSettingWakeupSources E) (exec (GetSettingWakeupSources E) w) = s"
proof -
  let ?key = SETTING_POWER_WAKEUP_SOURCES_KEY
  have "stored u k (trace (exec (GetStringValue E ?key) w)) = stored u k (trace w)" for u k
    by (auto simp: GetStringValue_def CreateDataShareHelper_def query_value_def access_defs IsNeedMultiUser_def)
  moreover have "keeps stg (GetStringValue E ?key)"
    by (auto simp: ig_quiet_def intro!: keeps_intros)
  then have "result (AssembleUri ?key) (exec (GetStringValue E ?key) w) = result (AssembleUri ?key) w"
    by (intro uri_stg) (rule keepsD)
  ultimately have "result (GetStringValue E ?key) (exec (GetStringValue E ?key) w) = Inr s"
    using get_stored [OF assms(1)] assms(2) by metis
  then show "result (GetSettingWakeupSources E) w = s"
    "result (GetSettingWakeupSources E) (exec (GetSettingWakeupSources E) w) = s"
    using get_stored [OF assms]
    by (simp_all add: GetSettingWakeupSources_def GetSettingStringValue_def or_default_def)
qed

text \<open>The sources that a document in the settings describes.\<close>

definition stored_wakeup_sources :: "env \<Rightarrow> world \<Rightarrow> WakeupSource Sources" where
  "stored_wakeup_sources E w = result (do { s \<leftarrow> GetSettingWakeupSources E; Wakeup_ParseSourcesJson E s }) w"

text \<open>
  C26: switching the wakeup by touch screen on or off rewrites the document in the settings so that exactly this
  source changes: read back, the document has a source for the touch screen if and only
  if it was switched on, and all other sources, with their order, stay as they were.  The document must be an object
  with distinct names that has the switch, the data share answers with what was put, and \<open>cJSON\<close>
  reads what it printed for the new document.
\<close>

theorem switching_touch_wakeup:
  assumes "answers_stored E" "s \<noteq> []"
    and "stored (result (AssembleUri SETTING_POWER_WAKEUP_SOURCES_KEY) w) SETTING_POWER_WAKEUP_SOURCES_KEY (trace w) = Some s"
    and doc: "cjsonParse E (c_str s) = Some (JObject ms)" "distinct (map fst ms)"
      "map_of ms ''touchscreen'' = Some (JObject ns)" "map_of ns ''enable'' = Some (JBool b0)"
    and cjson: "\<forall>d. update_enable ''touchscreen'' b (JObject ms) = Some d \<longrightarrow>
      (\<exists>t. cjsonPrint E d = Some t \<and> CHR 0x00 \<notin> set t \<and> cjsonParse E t = Some d)"
  shows "filter (Not \<circ> touches) (sourceList (stored_wakeup_sources E (exec (ChangeWakeupSourceConfig E b) w))) =
      filter (Not \<circ> touches) (sourceList (stored_wakeup_sources E w)) \<and>
    ((\<exists>x \<in> set (sourceList (stored_wakeup_sources E (exec (ChangeWakeupSourceConfig E b) w))). touches x) \<longleftrightarrow> b) \<and>
    \<not> parseErrorFlag (stored_wakeup_sources E (exec (ChangeWakeupSourceConfig E b) w))"
proof -
  define v where "v = exec (GetSettingWakeupSources E) w"
  have get: "result (GetSettingWakeupSources E) w = s" and same: "result (GetSettingWakeupSources E) v = s"
    using read_stored [OF assms(1,3)] by (auto simp: v_def)
  have parsed: "result (Wakeup_ParseSourcesJson E t) u = \<lparr>sourceList = wakeup_sources_of xs, parseErrorFlag = False\<rparr>"
    if "cjsonParse E (c_str t) = Some (JObject xs)" for t u xs
    by (simp add: Wakeup_ParseSourcesJson_def that result_parse_members)
  have before: "stored_wakeup_sources E w = \<lparr>sourceList = wakeup_sources_of ms, parseErrorFlag = False\<rparr>"
    by (simp add: stored_wakeup_sources_def get parsed [OF doc(1)])
  show ?thesis
  proof (cases "b0 = b")
    case True
    then have "exec (ChangeWakeupSourceConfig E b) w = v"
      by (simp add: ChangeWakeupSourceConfig_def get assms(2) v_def WakeupParseJsonConfig_def write_update_def doc update_enable_def)
    moreover have "stored_wakeup_sources E v = \<lparr>sourceList = wakeup_sources_of ms, parseErrorFlag = False\<rparr>"
      by (simp add: stored_wakeup_sources_def same parsed [OF doc(1)])
    moreover have "set_member ''touchscreen'' (JObject (set_member ''enable'' (JBool b) ns)) ms = ms"
    proof -
      have id: "map_of xs k = Some y \<Longrightarrow> set_member k y xs = xs" for k y xs
        by (induction xs) auto
      show ?thesis using id [OF doc(4)] id [OF doc(3)] True by simp
    qed
    ultimately show ?thesis using switch_touchscreen [OF doc(2-4), of b] by (simp add: before)
  next
    case False
    define ms' where "ms' = set_member ''touchscreen'' (JObject (set_member ''enable'' (JBool b) ns)) ms"
    have up: "update_enable ''touchscreen'' b (JObject ms) = Some (JObject ms')"
      using False by (simp add: update_enable_def doc ms'_def)
    then obtain t where t: "cjsonPrint E (JObject ms') = Some t" "CHR 0x00 \<notin> set t" "cjsonParse E t = Some (JObject ms')"
      using cjson by blast
    have "c_str t = t" using t(2) by (auto simp: c_str_def takeWhile_eq_all_conv)
    have "exec (ChangeWakeupSourceConfig E b) w = exec (PutStringValue E SETTING_POWER_WAKEUP_SOURCES_KEY t True) v"
      by (simp add: ChangeWakeupSourceConfig_def get assms(2) v_def WakeupParseJsonConfig_def write_update_def doc up t
          SetSettingWakeupSources_def SetSettingJsonStringValue_def)
    moreover have "result (GetSettingWakeupSources E) (exec (PutStringValue E SETTING_POWER_WAKEUP_SOURCES_KEY t True) v) = t"
      by (simp add: GetSettingWakeupSources_def GetSettingStringValue_def get_after_put [OF assms(1)] or_default_def)
    ultimately have "stored_wakeup_sources E (exec (ChangeWakeupSourceConfig E b) w) =
        \<lparr>sourceList = wakeup_sources_of ms', parseErrorFlag = False\<rparr>"
      using parsed [of t ms'] t(3) \<open>c_str t = t\<close> by (simp add: stored_wakeup_sources_def)
    then show ?thesis using switch_touchscreen [OF doc(2-4), of b] by (simp add: before ms'_def)
  qed
qed


definition touch_document :: Json where
  "touch_document = JObject [(''powerkey'', JObject [(''enable'', JBool True)]),
     (''touchscreen'', JObject [(''enable'', JBool True), (''click'', JNumber 2)])]"

definition touch_document_off :: Json where
  "touch_document_off = JObject [(''powerkey'', JObject [(''enable'', JBool True)]),
     (''touchscreen'', JObject [(''enable'', JBool False), (''click'', JNumber 2)])]"

definition touch_env :: env where
  "touch_env = store_env\<lparr>
     cjsonParse := (\<lambda>s. if s = ''on'' then Some touch_document else if s = ''off'' then Some touch_document_off else None),
     cjsonPrint := (\<lambda>j. if j = touch_document then Some ''on'' else if j = touch_document_off then Some ''off'' else None)\<rparr>"

definition touch_world :: world where
  "touch_world = sample_world\<lparr>trace := [Settings (DataShareUpdate
     (result (AssembleUri SETTING_POWER_WAKEUP_SOURCES_KEY) sample_world) SETTING_POWER_WAKEUP_SOURCES_KEY ''on'')]\<rparr>"

theorem switching_touch_wakeup_witness:
  "\<not> (\<exists>x \<in> set (sourceList (stored_wakeup_sources touch_env (exec (ChangeWakeupSourceConfig touch_env False) touch_world))).
     touches x)"
proof -
  have "answers_stored touch_env"
    using store_env_answers by (simp add: answers_stored_def touch_env_def)
  moreover have "stored (result (AssembleUri SETTING_POWER_WAKEUP_SOURCES_KEY) touch_world)
      SETTING_POWER_WAKEUP_SOURCES_KEY (trace touch_world) = Some ''on''"
    using uri_stg [of touch_world sample_world] by (simp add: touch_world_def)
  moreover have "cjsonParse touch_env (c_str ''on'') = Some touch_document"
    by (simp add: touch_env_def c_str_def)
  moreover have "update_enable ''touchscreen'' False touch_document = Some touch_document_off"
    by (simp add: update_enable_def touch_document_def touch_document_off_def)
  moreover have "cjsonPrint touch_env touch_document_off = Some ''off''" "cjsonParse touch_env ''off'' = Some touch_document_off"
    by (simp_all add: touch_env_def touch_document_def touch_document_off_def)
  ultimately show ?thesis
    using switching_touch_wakeup [of touch_env "''on''" touch_world
        "[(''powerkey'', JObject [(''enable'', JBool True)]),
          (''touchscreen'', JObject [(''enable'', JBool True), (''click'', JNumber 2)])]"
        "[(''enable'', JBool True), (''click'', JNumber 2)]" True False]
    by (simp add: touch_document_def [symmetric])
qed


section \<open>Suspend monitors\<close>

text \<open>The sources with a monitor that needs no key subscription.\<close>

definition plain_reasons :: "SuspendDeviceType set" where
  "plain_reasons = {SUSPEND_DEVICE_REASON_TIMEOUT, SUSPEND_DEVICE_REASON_LID, SUSPEND_DEVICE_REASON_SWITCH}"

definition monitor_of :: "SuspendSource \<Rightarrow> SuspendMonitor" where
  "monitor_of s = \<lparr>monReason = srcReason s, monAction = srcAction s, monDelayMs = srcDelay s, monKeyId = -1\<rparr>"

text \<open>The first source of a kind counts.\<close>

definition first_monitor :: "SuspendSource list \<Rightarrow> SuspendDeviceType \<Rightarrow> SuspendMonitor option" where
  "first_monitor l r = map_option monitor_of (find (\<lambda>s. srcReason s = r) l)"

lemma keeps_SuspendMonitor_Init: "keeps (\<lambda>w. monitorMap (susp w)) (SuspendMonitor_Init E m)"
proof -
  have "keeps (\<lambda>w. monitorMap (susp w)) (subscribe_key E key cache n)" for key cache n
    by (induction n) (auto intro!: keeps_intros)
  then show ?thesis
    by (auto simp: SuspendMonitor_Init_def PowerKeySuspendMonitor_Init_def TPCoverSuspendMonitor_Init_def
        intro!: keeps_intros)
qed

lemma SuspendMonitor_Init_reason: "monReason (snd (result (SuspendMonitor_Init E m) w)) = monReason m"
  by (simp add: SuspendMonitor_Init_def PowerKeySuspendMonitor_Init_def TPCoverSuspendMonitor_Init_def)

lemma add_monitor_other:
  assumes "r \<noteq> srcReason s"
  shows "monitorMap (susp (exec (add_monitor E s) w)) r = monitorMap (susp w) r"
proof (cases "CreateMonitor s")
  case (Some m)
  have "monReason m = srcReason s" using Some by (auto simp: CreateMonitor_def split: if_splits)
  then show ?thesis
    using assms SuspendMonitor_Init_reason [of E m w] keepsD [OF keeps_SuspendMonitor_Init, of E m w]
    by (auto simp: add_monitor_def Some mod_susp_def split: prod.splits option.split)
qed (simp add: add_monitor_def)

lemma add_monitor_plain:
  assumes "srcReason s \<in> plain_reasons"
  shows "monitorMap (susp (exec (add_monitor E s) w)) (srcReason s) =
    (case monitorMap (susp w) (srcReason s) of None \<Rightarrow> Some (monitor_of s) | Some m \<Rightarrow> Some m)"
proof -
  have "CreateMonitor s = Some (monitor_of s)" "SuspendMonitor_Init E (monitor_of s) = State_Monad.return (True, monitor_of s)"
    using assms by (auto simp: CreateMonitor_def monitor_of_def plain_reasons_def SuspendMonitor_Init_def)
  then show ?thesis by (simp add: add_monitor_def access_defs monitor_of_def split: option.split)
qed


lemma add_monitors_other:
  "r \<notin> srcReason ` set l \<Longrightarrow> monitorMap (susp (exec (for_each (add_monitor E) l) w)) r = monitorMap (susp w) r"
  by (induction l arbitrary: w) (auto simp: add_monitor_other)

lemma add_monitors_plain:
  assumes "r \<in> plain_reasons"
  shows "monitorMap (susp (exec (for_each (add_monitor E) l) w)) r =
    (case monitorMap (susp w) r of None \<Rightarrow> first_monitor l r | Some m \<Rightarrow> Some m)"
proof (induction l arbitrary: w)
  case (Cons s l)
  show ?case
  proof (cases "srcReason s = r")
    case True
    then show ?thesis
      using Cons.IH [of "exec (add_monitor E s) w"] add_monitor_plain [of s E w] assms
      by (auto simp: first_monitor_def split: option.splits)
  next
    case False
    then show ?thesis
      using Cons.IH [of "exec (add_monitor E s) w"] by (simp add: add_monitor_other first_monitor_def split: option.split)
  qed
qed (simp add: first_monitor_def split: option.split)

lemma parsed_sources_valid:
  "s \<in> set (sourceList (Suspend_ParseSourcesJson E str)) \<Longrightarrow> srcAction s < 5 \<and> CreateMonitor s \<noteq> None"
  by (auto simp: Suspend_ParseSourcesJson_def List.map_filter_def Suspend_ParseSourcesProc_def suspend_numbers_def
      mapSuspendDeviceType_def CreateMonitor_def ACTION_INVALID_def not_le Let_def
      split: option.splits if_splits Json.splits)


lemma updated_sources_valid: "s \<in> set (result (updated_suspend_sources E) w) \<Longrightarrow> srcAction s < 5 \<and> CreateMonitor s \<noteq> None"
  using parsed_sources_valid
  by (auto simp: updated_suspend_sources_def suspend_parse_or_config_def Let_def split: prod.splits if_splits)

lemma keeps_updated_sources: "keeps (\<lambda>w. monitorMap (susp w)) (updated_suspend_sources E)"
  by (auto simp: updated_suspend_sources_def suspend_parse_or_config_def GetSuspendSourcesByConfig_def
      Suspend_GetTargetPath_def target_path_def GetSettingSuspendSources_def GetSettingAcSuspendSources_def
      GetSettingDcSuspendSources_def IsPowerConnected_def PowerConnectStatusInit_def ig_quiet_def Let_def
      intro!: keeps_intros)

text \<open>
  After an update of the suspend sources the monitors are those of the document.  Every source
  read has a valid action and a monitor of its kind.  If the document and the file of the
  product yield no source, the monitors stay as they were, so that the device can still be put to
  sleep; otherwise kinds that the document does not name have no monitor, and the kinds that need no
  key subscription have exactly the monitor of their first entry, with its action and delay.
\<close>

lemma suspend_monitors_as_configured:
  assumes "pms (ptrs w)"
  shows "(\<forall>s \<in> set (result (updated_suspend_sources E) w). srcAction s < 5 \<and> CreateMonitor s \<noteq> None) \<and>
    (if result (updated_suspend_sources E) w = []
     then monitorMap (susp (exec (UpdateSuspendSources E) w)) = monitorMap (susp w)
     else (\<forall>r. r \<notin> srcReason ` set (result (updated_suspend_sources E) w) \<longrightarrow>
         monitorMap (susp (exec (UpdateSuspendSources E) w)) r = None) \<and>
       (\<forall>r \<in> plain_reasons. monitorMap (susp (exec (UpdateSuspendSources E) w)) r =
         first_monitor (result (updated_suspend_sources E) w) r))"
proof -
  have cancelled: "monitorMap (susp (exec (Cancel E) v)) = (\<lambda>_. None)" for v
    by (simp add: Cancel_def mod_susp_def)
  show ?thesis
    using assms updated_sources_valid keepsD [OF keeps_updated_sources, of E w]
    by (auto simp: UpdateSuspendSources_def add_monitors_other add_monitors_plain cancelled)
qed


definition lid_env :: env where
  "lid_env = store_env\<lparr>cjsonParse := (\<lambda>_. Some (JObject [(''lid'', JObject [(''action'', JNumber 2), (''delayMs'', JNumber 10)]),
     (''lid'', JObject [])]))\<rparr>"

theorem suspend_monitors_as_configured_witness:
  "monitorMap (susp (exec (UpdateSuspendSources lid_env) sample_world)) SUSPEND_DEVICE_REASON_LID =
     Some \<lparr>monReason = SUSPEND_DEVICE_REASON_LID, monAction = 2, monDelayMs = 10, monKeyId = -1\<rparr> \<and>
   monitorMap (susp (exec (UpdateSuspendSources lid_env) sample_world)) SUSPEND_DEVICE_REASON_SWITCH = None"
proof -
  have "Suspend_ParseSourcesJson lid_env str =
      \<lparr>sourceList = [\<lparr>srcReason = SUSPEND_DEVICE_REASON_LID, srcAction = 2, srcDelay = 10\<rparr>,
        \<lparr>srcReason = SUSPEND_DEVICE_REASON_LID, srcAction = 0, srcDelay = 0\<rparr>], parseErrorFlag = False\<rparr>" for str
    by (simp add: Suspend_ParseSourcesJson_def lid_env_def List.map_filter_def Suspend_ParseSourcesProc_def
        suspend_numbers_def mapSuspendDeviceType_def ACTION_INVALID_def Let_def)
  then have "result (updated_suspend_sources lid_env) sample_world =
      [\<lparr>srcReason = SUSPEND_DEVICE_REASON_LID, srcAction = 2, srcDelay = 10\<rparr>,
       \<lparr>srcReason = SUSPEND_DEVICE_REASON_LID, srcAction = 0, srcDelay = 0\<rparr>]"
    by (simp add: updated_suspend_sources_def suspend_parse_or_config_def Let_def)
  moreover have "pms (ptrs sample_world)" by (simp add: sample_world_def)
  ultimately show ?thesis
    using suspend_monitors_as_configured [of sample_world lid_env]
    by (simp add: plain_reasons_def first_monitor_def monitor_of_def)
qed

end
