(* ===== verification/Screen_Saver.thy ===== *)
theory Screen_Saver
  imports Wakeup_Control
begin

text \<open>
  The screen saver (\<open>services/native/src/power_screen_saver\<close>): \<open>PowerPlugStatusManager\<close>,
  \<open>ScreenSaverTimerManager\<close> and \<open>PowerScreenSaver\<close>.  A delayed task asks for the screen saver when
  the device has been idle for the time of the setting, if the screen does not go off before.  The
  task queries the service through its client, which is modelled as the calls of the service.
\<close>

section \<open>Power supply\<close>

definition POWER_PLUG_IN_INVALID :: int where "POWER_PLUG_IN_INVALID = -1"
definition POWER_PLUG_IN_AC :: int where "POWER_PLUG_IN_AC = 0"
definition POWER_PLUG_IN_DC :: int where "POWER_PLUG_IN_DC = 1"

definition Plug_Init :: "env \<Rightarrow> unit M" where
  "Plug_Init E = whenM (F_CHARGING_TYPE E) (do {
     pluggedType \<leftarrow> ask_int E (Settings BatteryPluggedType);
     mod_saver (\<lambda>s. s\<lparr>plugStatus :=
       (if pluggedType = constant_of E ''PLUGGED_TYPE_BUTT'' then POWER_PLUG_IN_INVALID
        else if pluggedType = constant_of E ''PLUGGED_TYPE_AC'' \<or> pluggedType = constant_of E ''PLUGGED_TYPE_USB'' \<or>
                pluggedType = constant_of E ''PLUGGED_TYPE_WIRELESS'' then POWER_PLUG_IN_AC
        else POWER_PLUG_IN_DC)\<rparr>) })"

definition IsPowerPluged :: "bool M" where
  "IsPowerPluged = gets (\<lambda>w. plugStatus (saver w) = POWER_PLUG_IN_AC)"

section \<open>The timer\<close>

definition DISABLE_SCREEN_SAVER_TIME :: int where "DISABLE_SCREEN_SAVER_TIME = -1"
definition NEVER_AUTO_SCREEN_OFF :: int where "NEVER_AUTO_SCREEN_OFF = -1"
definition DEFAULT_AC_DISPLAY_OFF_TIME_MS :: int where "DEFAULT_AC_DISPLAY_OFF_TIME_MS = 600000"
definition DEFAULT_DC_DISPLAY_OFF_TIME_MS :: int where "DEFAULT_DC_DISPLAY_OFF_TIME_MS = 300000"

text \<open>The settings are \<open>int64_t\<close>, the timer counts in \<open>int32_t\<close>.\<close>

definition GetSettingScreenSaverTime :: "env \<Rightarrow> int M" where
  "GetSettingScreenSaverTime E = do {
     plugged \<leftarrow> IsPowerPluged;
     time \<leftarrow> (if plugged then GetSettingAcScreenSaverTime E DISABLE_SCREEN_SAVER_TIME
             else GetSettingDcScreenSaverTime E DISABLE_SCREEN_SAVER_TIME);
     State_Monad.return (wrap32 time) }"

definition GetSettingScreenOffTime :: "env \<Rightarrow> int M" where
  "GetSettingScreenOffTime E = do {
     plugged \<leftarrow> IsPowerPluged;
     if F_CHARGING_TYPE E then do {
       time \<leftarrow> (if plugged then GetSettingDisplayAcScreenOffTime E DEFAULT_AC_DISPLAY_OFF_TIME_MS
               else GetSettingDisplayDcScreenOffTime E DEFAULT_DC_DISPLAY_OFF_TIME_MS);
       State_Monad.return (wrap32 time) }
     else State_Monad.return
       (if plugged then DEFAULT_AC_DISPLAY_OFF_TIME_MS else DEFAULT_DC_DISPLAY_OFF_TIME_MS) }"

definition CancelScreenSaverTimerLocked :: "unit M" where
  "CancelScreenSaverTimerLocked = do {
     h \<leftarrow> gets (\<lambda>w. screenSaverHandle (saver w));
     case h of
       None \<Rightarrow> skip
     | Some x \<Rightarrow> do {
         CancelTask SCREEN_SAVER_QUEUE x;
         mod_saver (\<lambda>s. s\<lparr>screenSaverHandle := None\<rparr>) } }"

definition CancelScreenSaverTimer :: "unit M" where
  "CancelScreenSaverTimer = CancelScreenSaverTimerLocked"

definition SetScreenSaverTimer :: "env \<Rightarrow> int \<Rightarrow> unit M" where
  "SetScreenSaverTimer E screenSaverTime =
    (if screenSaverTime \<le> DISABLE_SCREEN_SAVER_TIME then CancelScreenSaverTimer
     else do {
       screenOffTime \<leftarrow> GetSettingScreenOffTime E;
       mod_saver (\<lambda>s. s\<lparr>currentSettingTime := screenSaverTime\<rparr>);
       if screenOffTime \<noteq> NEVER_AUTO_SCREEN_OFF \<and> screenOffTime \<le> screenSaverTime
       then CancelScreenSaverTimerLocked
       else do {
         CancelScreenSaverTimerLocked;
         h \<leftarrow> SubmitDelayTask E SCREEN_SAVER_QUEUE TaskScreenSaver (word_of_int screenSaverTime);
         mod_saver (\<lambda>s. s\<lparr>screenSaverHandle := h\<rparr>) } })"

text \<open>The task that the timer runs.\<close>

definition screen_saver_task :: "env \<Rightarrow> unit M" where
  "screen_saver_task E = do {
     (_, isRunningLock) \<leftarrow> PmsIsRunningLockEnabled E RUNNINGLOCK_SCREEN RUNNINGLOCK_DISPLAY_ID_ALL;
     isScreenOn \<leftarrow> PmsIsScreenOn E;
     if isRunningLock \<or> \<not> isScreenOn then skip else log_call (Event PublishStartDream) }"

definition TimerManager_UpdateScreenSaverTimer :: "env \<Rightarrow> unit M" where
  "TimerManager_UpdateScreenSaverTimer E = do {
     settingTime \<leftarrow> GetSettingScreenSaverTime E;
     SetScreenSaverTimer E settingTime }"

section \<open>Events\<close>

datatype ReceiveEventType = SCREEN_OFF | USER_ACTIVITY | POWER_CONNECTED | POWER_DISCONNECTED
  | RUNNINGLOCK_SCREEN_CHANGE

definition UpdateScreenSaverTimer :: "env \<Rightarrow> unit M" where
  "UpdateScreenSaverTimer E = do {
     manager \<leftarrow> gets (\<lambda>w. saverManager (saver w));
     whenM manager (TimerManager_UpdateScreenSaverTimer E) }"

definition Saver_CancelScreenSaverTimer :: "unit M" where
  "Saver_CancelScreenSaverTimer = do {
     manager \<leftarrow> gets (\<lambda>w. saverManager (saver w));
     whenM manager CancelScreenSaverTimer }"

definition SetPowerPlugStatus :: "int \<Rightarrow> unit M" where
  "SetPowerPlugStatus status = do {
     manager \<leftarrow> gets (\<lambda>w. saverManager (saver w));
     whenM manager (mod_saver (\<lambda>s. s\<lparr>plugStatus := status\<rparr>)) }"

text \<open>\<open>None\<close> is an event that is not in the map.\<close>

definition Saver_OnReceiveEvent :: "env \<Rightarrow> ReceiveEventType option \<Rightarrow> unit M" where
  "Saver_OnReceiveEvent E event = do {
     p \<leftarrow> gets ptrs;
     if \<not> powerScreenSaver p then skip
     else case event of
       None \<Rightarrow> skip
     | Some SCREEN_OFF \<Rightarrow> Saver_CancelScreenSaverTimer
     | Some USER_ACTIVITY \<Rightarrow> UpdateScreenSaverTimer E
     | Some RUNNINGLOCK_SCREEN_CHANGE \<Rightarrow> UpdateScreenSaverTimer E
     | Some POWER_CONNECTED \<Rightarrow> do { SetPowerPlugStatus POWER_PLUG_IN_AC; UpdateScreenSaverTimer E }
     | Some POWER_DISCONNECTED \<Rightarrow> do { SetPowerPlugStatus POWER_PLUG_IN_DC; UpdateScreenSaverTimer E } }"

definition RegisterSettingScreenSaverObservers :: "env \<Rightarrow> unit M" where
  "RegisterSettingScreenSaverObservers E = do {
     s \<leftarrow> gets saver;
     UnregisterSettingObserver E SETTING_AC_SCREEN_SAVER_TIME_KEY (acScreenSaverTimeObserver s);
     UnregisterSettingObserver E SETTING_DC_SCREEN_SAVER_TIME_KEY (dcScreenSaverTimeObserver s);
     ac \<leftarrow> RegisterSettingAcScreenSaverTimeObserver E;
     mod_saver (\<lambda>s. s\<lparr>acScreenSaverTimeObserver := ac\<rparr>);
     dc \<leftarrow> RegisterSettingDcScreenSaverTimeObserver E;
     mod_saver (\<lambda>s. s\<lparr>dcScreenSaverTimeObserver := dc\<rparr>) }"

definition Saver_SubscribeCommonEvent :: "env \<Rightarrow> unit M" where
  "Saver_SubscribeCommonEvent E = do {
     _ \<leftarrow> ask_bool E (Event (SubscribeCommonEvent [''COMMON_EVENT_SCREEN_OFF'', ''usual.event.power.USER_ACTIVITY'',
       ''COMMON_EVENT_POWER_CONNECTED'', ''COMMON_EVENT_POWER_DISCONNECTED'', ''usual.event.power.RUNNINGLOCK_SCREEN'']));
     skip }"

definition Saver_Init :: "env \<Rightarrow> unit M" where
  "Saver_Init E = do {
     manager \<leftarrow> gets (\<lambda>w. saverManager (saver w));
     whenM (\<not> manager) (do {
       mod_saver (\<lambda>s. s\<lparr>saverManager := True\<rparr>);
       Plug_Init E;
       TimerManager_UpdateScreenSaverTimer E });
     RegisterSettingScreenSaverObservers E;
     Saver_SubscribeCommonEvent E }"

definition ScreenSaverInit :: "env \<Rightarrow> unit M" where
  "ScreenSaverInit E = do {
     p \<leftarrow> gets ptrs;
     whenM (\<not> powerScreenSaver p) (do {
       mod_ptrs (\<lambda>p. p\<lparr>powerScreenSaver := True\<rparr>);
       Saver_Init E }) }"

end
