(* ===== verification/Saver_Laws.thy ===== *)
theory Saver_Laws
  imports Screen_Saver Setting_Laws Lock_Gate
begin

text \<open>
  Laws of the screen saver: at most one task is outstanding in every run, when the timer is armed, and
  that the task respects screen locks.
\<close>

section \<open>What the screen saver sees\<close>

fun saver_call :: "ext_call \<Rightarrow> int" where
  "saver_call (Queue (QueueSubmit SCREEN_SAVER_QUEUE _ _)) = 1"
| "saver_call (Queue (QueueCancel SCREEN_SAVER_QUEUE _)) = -1"
| "saver_call _ = 0"

text \<open>Tasks handed to the queue of the screen saver and not cancelled.\<close>

definition saver_tasks :: "world \<Rightarrow> int" where
  "saver_tasks w = sum_list (map saver_call (trace w))"

definition saver_view :: "world \<Rightarrow> saver_state \<times> int" where
  "saver_view w = (saver w, saver_tasks w)"

lemma saver_view_update [simp]:
  "saver_tasks (w\<lparr>trace := c # tr\<rparr>) = saver_call c + saver_tasks (w\<lparr>trace := tr\<rparr>)"
  "saver_tasks (w\<lparr>saver := s\<rparr>) = saver_tasks w" "saver_tasks (w\<lparr>ptrs := p\<rparr>) = saver_tasks w"
  "saver_tasks (w\<lparr>trace := trace w\<rparr>) = saver_tasks w"
  by (simp_all add: saver_tasks_def)

lemma saver_view_settings: "ig_settings saver_view"
  by (simp add: ig_settings_def saver_view_def)

lemmas saver_setting_frames = keeps_setting_times_settings [OF saver_view_settings]
  keeps_setting_values_settings [OF saver_view_settings]

lemma keeps_saver_times:
  "keeps saver_view (GetSettingScreenSaverTime E)" "keeps saver_view (GetSettingScreenOffTime E)"
  by (auto simp: GetSettingScreenSaverTime_def GetSettingScreenOffTime_def IsPowerPluged_def
      intro!: keeps_intros saver_setting_frames)

lemma keeps_saver_observers:
  "keeps saver_tasks (RegisterSettingScreenSaverObservers E)"
  "keeps (\<lambda>w. screenSaverHandle (saver w)) (RegisterSettingScreenSaverObservers E)"
proof -
  have "ig_settings saver_tasks" "ig_settings (\<lambda>w. screenSaverHandle (saver w))"
    by (simp_all add: ig_settings_def)
  then show "keeps saver_tasks (RegisterSettingScreenSaverObservers E)"
    "keeps (\<lambda>w. screenSaverHandle (saver w)) (RegisterSettingScreenSaverObservers E)"
    by (auto simp: RegisterSettingScreenSaverObservers_def RegisterSettingAcScreenSaverTimeObserver_def
        RegisterSettingDcScreenSaverTimeObserver_def intro!: keeps_intros keeps_setting_values_settings)
qed

lemma keeps_saver_task: "keeps saver_view (screen_saver_task E)"
proof -
  have "keeps saver_view (IsScreenOn E)" "keeps saver_view (GetValidRunningLockNum E t d)" for t d
    by (auto simp: keeps_def IsScreenOn_def GetDisplayState_def GetExternalScreenNumber_def GetState_def
        GetValidRunningLockNum_def access_defs saver_view_def)
  then show ?thesis
    by (auto simp: screen_saver_task_def PmsIsRunningLockEnabled_def PmsIsScreenOn_def saver_view_def
        intro!: keeps_intros split: prod.split)
qed

section \<open>At most one task\<close>

definition saver_balanced :: "world \<Rightarrow> bool" where
  "saver_balanced w = (saver_tasks w = (if screenSaverHandle (saver w) = None then 0 else 1))"

lemma saver_balanced_view: "saver_view w' = saver_view w \<Longrightarrow> saver_balanced w' = saver_balanced w"
  by (simp add: saver_balanced_def saver_view_def)

lemma CancelScreenSaverTimerLocked_effect:
  assumes "saver_balanced w"
  shows "saver_tasks (exec CancelScreenSaverTimerLocked w) = 0"
    and "screenSaverHandle (saver (exec CancelScreenSaverTimerLocked w)) = None"
  using assms
  by (auto simp: CancelScreenSaverTimerLocked_def CancelTask_def access_defs saver_balanced_def
      split: option.split)

lemma SetScreenSaverTimer_effect:
  assumes "saver_balanced w" and "\<forall>task tr. extHandle E task tr \<noteq> None"
  defines "off \<equiv> result (GetSettingScreenOffTime E) w"
  shows "saver_balanced (exec (SetScreenSaverTimer E t) w) \<and>
    (screenSaverHandle (saver (exec (SetScreenSaverTimer E t) w)) \<noteq> None \<longleftrightarrow>
      -1 < t \<and> (off = -1 \<or> t < off))"
proof -
  define w1 where "w1 = exec (mod_saver (\<lambda>s. s\<lparr>currentSettingTime := t\<rparr>)) (exec (GetSettingScreenOffTime E) w)"
  have "saver_balanced (exec (GetSettingScreenOffTime E) w)"
    using assms(1) saver_balanced_view [OF keepsD [OF keeps_saver_times(2)], of E w] by simp
  then have w1: "saver_balanced w1"
    by (simp add: w1_def saver_balanced_def access_defs)
  note done0 = CancelScreenSaverTimerLocked_effect [OF assms(1)]
    and done1 = CancelScreenSaverTimerLocked_effect [OF w1]
  show ?thesis
  proof (cases "t \<le> -1")
    case True
    then show ?thesis
      using done0 by (simp add: SetScreenSaverTimer_def DISABLE_SCREEN_SAVER_TIME_def CancelScreenSaverTimer_def
          saver_balanced_def)
  next
    case False
    then have eq: "exec (SetScreenSaverTimer E t) w =
      exec (if off \<noteq> -1 \<and> off \<le> t then CancelScreenSaverTimerLocked
        else do { CancelScreenSaverTimerLocked;
          h \<leftarrow> SubmitDelayTask E SCREEN_SAVER_QUEUE TaskScreenSaver (word_of_int t);
          mod_saver (\<lambda>s. s\<lparr>screenSaverHandle := h\<rparr>) }) w1"
      by (simp add: SetScreenSaverTimer_def DISABLE_SCREEN_SAVER_TIME_def NEVER_AUTO_SCREEN_OFF_def w1_def off_def)
    obtain h where h: "extHandle E TaskScreenSaver (trace (exec CancelScreenSaverTimerLocked w1)) = Some h"
      using assms(2) by blast
    show ?thesis
    proof (cases "off \<noteq> -1 \<and> off \<le> t")
      case True
      then show ?thesis using False done1 unfolding eq by (simp add: saver_balanced_def)
    next
      case closed: False
      have "saver_tasks (exec (SetScreenSaverTimer E t) w) = 1 \<and>
        screenSaverHandle (saver (exec (SetScreenSaverTimer E t) w)) = Some h"
        using done1 h unfolding eq if_not_P [OF closed] by (simp add: SubmitDelayTask_def access_defs)
      then show ?thesis using False closed by (auto simp: saver_balanced_def)
    qed
  qed
qed

lemma UpdateTimer_effect:
  assumes "saver_balanced w" and "\<forall>task tr. extHandle E task tr \<noteq> None"
  defines "t \<equiv> result (GetSettingScreenSaverTime E) w"
  defines "off \<equiv> result (GetSettingScreenOffTime E) (exec (GetSettingScreenSaverTime E) w)"
  shows "saver_balanced (exec (TimerManager_UpdateScreenSaverTimer E) w) \<and>
    (screenSaverHandle (saver (exec (TimerManager_UpdateScreenSaverTimer E) w)) \<noteq> None \<longleftrightarrow>
      -1 < t \<and> (off = -1 \<or> t < off))"
proof -
  have "saver_balanced (exec (GetSettingScreenSaverTime E) w)"
    using assms(1) saver_balanced_view [OF keepsD [OF keeps_saver_times(1)], of E w] by simp
  then show ?thesis
    using SetScreenSaverTimer_effect [OF _ assms(2), of "exec (GetSettingScreenSaverTime E) w" t]
    by (simp add: TimerManager_UpdateScreenSaverTimer_def t_def off_def)
qed

lemma saver_balanced_simps [simp]:
  "saver_balanced (w\<lparr>ptrs := p\<rparr>) = saver_balanced w"
  "saver_balanced (w\<lparr>saver := (saver w)\<lparr>plugStatus := x\<rparr>\<rparr>) = saver_balanced w"
  "saver_balanced (w\<lparr>saver := (saver w)\<lparr>saverManager := b\<rparr>\<rparr>) = saver_balanced w"
  "saver_call c = 0 \<Longrightarrow> saver_balanced (w\<lparr>trace := c # trace w\<rparr>) = saver_balanced w"
  by (simp_all add: saver_balanced_def)

text \<open>The steps of the service as far as the screen saver is concerned.\<close>

inductive saver_step :: "env \<Rightarrow> world \<Rightarrow> world \<Rightarrow> bool" for E where
  init: "saver_step E w (exec (ScreenSaverInit E) w)"
| event: "saver_step E w (exec (Saver_OnReceiveEvent E e) w)"
| setting: "saver_step E w (exec (UpdateScreenSaverTimer E) w)"
| user: "saver_step E w (exec (RegisterSettingScreenSaverObservers E) w)"
| fire: "saver_step E w (exec (screen_saver_task E) w)"
| elsewhere: "saver_view w' = saver_view w \<Longrightarrow> saver_step E w w'"

lemma saver_event_balanced:
  assumes h: "\<forall>task tr. extHandle E task tr \<noteq> None" and b: "saver_balanced w"
  shows "saver_balanced (exec (UpdateScreenSaverTimer E) w)" (is ?update)
    and "saver_balanced (exec Saver_CancelScreenSaverTimer w)" (is ?cancel)
    and "saver_balanced (exec (SetPowerPlugStatus s) w)" (is ?plug)
proof -
  show ?update
    using UpdateTimer_effect [OF b h] b by (simp add: UpdateScreenSaverTimer_def whenM_def)
  show ?cancel
    using CancelScreenSaverTimerLocked_effect [OF b] b
    by (simp add: Saver_CancelScreenSaverTimer_def CancelScreenSaverTimer_def whenM_def saver_balanced_def)
  show ?plug
    using b by (simp add: SetPowerPlugStatus_def whenM_def mod_saver_def)
qed

lemma saver_init_balanced:
  assumes h: "\<forall>task tr. extHandle E task tr \<noteq> None" and b: "saver_balanced w"
  shows "saver_balanced (exec (ScreenSaverInit E) w)"
proof -
  define created where "created m v = exec (whenM (\<not> m) (do {
       mod_saver (\<lambda>s. s\<lparr>saverManager := True\<rparr>); Plug_Init E; TimerManager_UpdateScreenSaverTimer E })) v" for m v
  have plug: "saver_balanced (exec (Plug_Init E) v)" if "saver_balanced v" for v
    using that by (simp add: Plug_Init_def whenM_def access_defs saver_balanced_def)
  have created: "saver_balanced (created m v)" if "saver_balanced v" for m v
    using that UpdateTimer_effect [OF plug h, of "v\<lparr>saver := (saver v)\<lparr>saverManager := True\<rparr>\<rparr>"]
    by (simp add: created_def whenM_def mod_saver_def)
  have observers: "saver_balanced (exec (RegisterSettingScreenSaverObservers E) v) = saver_balanced v" for v
    using keepsD [OF keeps_saver_observers(1), of E v] keepsD [OF keeps_saver_observers(2), of E v]
    by (simp add: saver_balanced_def)
  have subscribe: "saver_balanced (exec (Saver_SubscribeCommonEvent E) v) = saver_balanced v" for v
    by (simp add: Saver_SubscribeCommonEvent_def access_defs)
  have "exec (Saver_Init E) v = exec (Saver_SubscribeCommonEvent E) (exec (RegisterSettingScreenSaverObservers E)
      (created (saverManager (saver v)) v))" for v
    by (simp add: Saver_Init_def created_def)
  then have "saver_balanced (exec (Saver_Init E) v)" if "saver_balanced v" for v
    using that created observers subscribe by simp
  then show ?thesis
    using b by (simp add: ScreenSaverInit_def whenM_def mod_ptrs_def)
qed

lemma saver_step_balanced:
  assumes "saver_step E w w'" and h: "\<forall>task tr. extHandle E task tr \<noteq> None" and b: "saver_balanced w"
  shows "saver_balanced w'"
  using assms(1)
proof cases
  case init
  then show ?thesis using saver_init_balanced [OF h b] by simp
next
  case (event e)
  show ?thesis
    unfolding event using b saver_event_balanced [OF h]
    by (auto simp: Saver_OnReceiveEvent_def split: option.split ReceiveEventType.split)
next
  case setting
  then show ?thesis using saver_event_balanced [OF h b] by simp
next
  case user
  then show ?thesis
    using b keepsD [OF keeps_saver_observers(1), of E w] keepsD [OF keeps_saver_observers(2), of E w]
    by (simp add: saver_balanced_def)
next
  case fire
  then show ?thesis using b saver_balanced_view [OF keepsD [OF keeps_saver_task], of E w] by simp
next
  case elsewhere
  then show ?thesis using b saver_balanced_view by blast
qed

section \<open>Properties\<close>

lemma saver_run_balanced:
  assumes "(saver_step E)\<^sup>*\<^sup>* w w'" and "\<forall>task tr. extHandle E task tr \<noteq> None" and "saver_balanced w"
  shows "saver_balanced w'"
  using assms by (induction rule: rtranclp_induct) (auto intro: saver_step_balanced)

text \<open>
  C27: in every run of events, setting changes, user switches, expired timers and other work of the
  service at most one screen saver task is outstanding, and none once the screen went off.
\<close>

theorem saver_single_task:
  assumes "\<forall>task tr. extHandle E task tr \<noteq> None" and "saver_balanced w" and "(saver_step E)\<^sup>*\<^sup>* w w'"
  shows "0 \<le> saver_tasks w' \<and> saver_tasks w' \<le> 1 \<and>
    (powerScreenSaver (ptrs w') \<and> saverManager (saver w') \<longrightarrow>
      saver_tasks (exec (Saver_OnReceiveEvent E (Some SCREEN_OFF)) w') = 0)"
proof -
  have b: "saver_balanced w'" using saver_run_balanced [OF assms(3,1,2)] .
  show ?thesis
    using b CancelScreenSaverTimerLocked_effect(1) [OF b]
    by (simp add: saver_balanced_def Saver_OnReceiveEvent_def Saver_CancelScreenSaverTimer_def
        CancelScreenSaverTimer_def whenM_def)
qed

definition saver_world :: world where
  "saver_world = sample_world\<lparr>saver := (saver sample_world)\<lparr>saverManager := True\<rparr>\<rparr>"

theorem saver_single_task_witness:
  "saver_tasks (exec (Saver_OnReceiveEvent sample_env (Some USER_ACTIVITY)) saver_world) \<in> {0, 1}"
proof -
  have h: "\<forall>task tr. extHandle sample_env task tr \<noteq> None" by (simp add: sample_env_def)
  have b: "saver_balanced saver_world"
    by (simp add: saver_balanced_def saver_world_def saver_tasks_def sample_world_def)
  have "(saver_step sample_env)\<^sup>*\<^sup>* saver_world
    (exec (Saver_OnReceiveEvent sample_env (Some USER_ACTIVITY)) saver_world)"
    by (rule r_into_rtranclp, rule saver_step.event)
  from saver_single_task [OF h b this] show ?thesis by auto
qed

text \<open>
  After an activity of the user the timer is armed exactly when the screen saver is not disabled and
  starts before the screen goes off by itself, in the state of settings and power supply at that time.
\<close>

lemma saver_armed_before_screen_off:
  assumes "\<forall>task tr. extHandle E task tr \<noteq> None" and "saver_balanced w"
    and "powerScreenSaver (ptrs w)" and "saverManager (saver w)"
  shows "screenSaverHandle (saver (exec (Saver_OnReceiveEvent E (Some USER_ACTIVITY)) w)) \<noteq> None \<longleftrightarrow>
    result (GetSettingScreenSaverTime E) w > -1 \<and>
    (let off = result (GetSettingScreenOffTime E) (exec (GetSettingScreenSaverTime E) w)
     in off = -1 \<or> result (GetSettingScreenSaverTime E) w < off)"
  using UpdateTimer_effect [OF assms(2,1)] assms(3,4)
  by (simp add: Saver_OnReceiveEvent_def UpdateScreenSaverTimer_def whenM_def Let_def)

definition half_minute_env :: env where
  "half_minute_env = sample_env\<lparr>extString := (\<lambda>c tr. to_string 30000),
     extInt := (\<lambda>c tr. case c of Settings (DataShareRowCount _ _) \<Rightarrow> 1 | _ \<Rightarrow> 0)\<rparr>"

theorem saver_armed_before_screen_off_witness:
  "powerScreenSaver (ptrs saver_world) \<and>
   screenSaverHandle (saver (exec (Saver_OnReceiveEvent half_minute_env (Some USER_ACTIVITY)) saver_world)) \<noteq> None"
proof -
  have h: "\<forall>task tr. extHandle half_minute_env task tr \<noteq> None" by (simp add: half_minute_env_def sample_env_def)
  have b: "saver_balanced saver_world"
    by (simp add: saver_balanced_def saver_world_def saver_tasks_def sample_world_def)
  have p: "powerScreenSaver (ptrs saver_world)" "saverManager (saver saver_world)"
    by (simp_all add: saver_world_def sample_world_def)
  have plug: "\<not> result IsPowerPluged saver_world"
    by (simp add: IsPowerPluged_def saver_world_def sample_world_def POWER_PLUG_IN_AC_def)
  have "result (GetStringValue half_minute_env key) saver_world = Inr (to_string 30000)" for key
    by (simp add: GetStringValue_def CreateDataShareHelper_def query_value_def access_defs half_minute_env_def
        sample_env_def)
  then have t: "result (GetSettingScreenSaverTime half_minute_env) saver_world = 30000"
    using plug parse_long_to_string [of 30000]
    by (simp add: GetSettingScreenSaverTime_def GetSettingDcScreenSaverTime_def bounded_setting_def IsPowerPluged_def
        GetSettingLongValue_def GetLongValue_def or_default_def bounded_time_def MIN_DISPLAY_OFF_TIME_MS_def
        int64_def wrap32_def)
  have off: "result (GetSettingScreenOffTime half_minute_env)
      (exec (GetSettingScreenSaverTime half_minute_env) saver_world) = 300000"
    using plug keepsD [OF keeps_saver_times(1), of half_minute_env saver_world]
    by (simp add: GetSettingScreenOffTime_def IsPowerPluged_def saver_view_def half_minute_env_def sample_env_def
        DEFAULT_DC_DISPLAY_OFF_TIME_MS_def)
  show ?thesis using saver_armed_before_screen_off [OF h b p] p unfolding t off by (simp add: Let_def)
qed

text \<open>
  The screen saver respects screen locks.  An expired timer asks for the screen saver exactly when the
  screen is on and no application holds a screen lock.
\<close>

lemma screen_saver_respects_locks:
  assumes "plain_locks w" and "\<not> F_LOCK_MULTI_SCREEN E"
    and "extBool E (Service (PermissionGranted ''ohos.permission.RUNNING_LOCK'')) (trace w)"
    and "\<not> F_MULTI_USER_SCREEN E"
  shows "count_list (trace (exec (screen_saver_task E) w)) (Event PublishStartDream) =
    count_list (trace w) (Event PublishStartDream) +
    (if (\<exists>k \<in> held_locks w. lock_kind w k = Some RUNNINGLOCK_SCREEN) \<or>
        \<not> result (IsScreenOn E) (w\<lparr>trace := Service (PermissionGranted ''ohos.permission.RUNNING_LOCK'') # trace w\<rparr>)
     then 0 else 1)"
proof -
  let ?c = "Service (PermissionGranted ''ohos.permission.RUNNING_LOCK'')"
  let ?w = "w\<lparr>trace := ?c # trace w\<rparr>"
  have "plain_locks ?w" using assms(1) by (simp add: plain_locks_def balanced_def lockv_def)
  then have "lock_blocks E RUNNINGLOCK_SCREEN ?w \<longleftrightarrow> (\<exists>k \<in> held_locks ?w. lock_kind ?w k = Some RUNNINGLOCK_SCREEN)"
    by (rule lock_blocks_iff) (simp add: counted_elsewhere_def assms(2))
  then have enabled: "result (GetValidRunningLockNum E RUNNINGLOCK_SCREEN RUNNINGLOCK_DISPLAY_ID_ALL) ?w > 0 \<longleftrightarrow>
      (\<exists>k \<in> held_locks w. lock_kind w k = Some RUNNINGLOCK_SCREEN)"
    by (simp add: lock_blocks_def held_locks_def lock_kind_def)
  have num: "exec (GetValidRunningLockNum E t d) v = v" for t d v
    by (simp add: GetValidRunningLockNum_def split: option.split)
  have on: "count_list (trace (exec (IsScreenOn E) v)) (Event PublishStartDream) =
      count_list (trace v) (Event PublishStartDream)" for v
    by (simp add: IsScreenOn_def GetDisplayState_def GetExternalScreenNumber_def GetState_def access_defs)
  show ?thesis
    using assms(2-4) enabled on [of ?w]
    by (auto simp: screen_saver_task_def PmsIsRunningLockEnabled_def NormalizeDisplayId_def PmsIsScreenOn_def
        access_defs num split: prod.split)
qed


theorem screen_saver_respects_locks_witness:
  "count_list (trace (exec (screen_saver_task sample_env)
     (world_with_lock RUNNINGLOCK_SCREEN RUNNINGLOCK_STATE_ENABLE 1))) (Event PublishStartDream) = 0"
proof -
  let ?w = "world_with_lock RUNNINGLOCK_SCREEN RUNNINGLOCK_STATE_ENABLE 1"
  have held: "\<exists>k \<in> held_locks ?w. lock_kind ?w k = Some RUNNINGLOCK_SCREEN"
    by (rule bexI [of _ 9]) (simp_all add: held_locks_def lock_kind_def world_with_lock_def sample_lock_def)
  have env: "\<not> F_LOCK_MULTI_SCREEN sample_env" "\<not> F_MULTI_USER_SCREEN sample_env"
    "extBool sample_env (Service (PermissionGranted ''ohos.permission.RUNNING_LOCK'')) (trace ?w)"
    by (simp_all add: sample_env_def)
  have "count_list (trace ?w) (Event PublishStartDream) = 0"
    by (simp add: world_with_lock_def sample_world_def)
  then show ?thesis
    using screen_saver_respects_locks [OF plain_screen_world(1) env(1,3,2)] held by simp
qed

end
