(* ===== verification/Service_Events.thy ===== *)
theory Service_Events
  imports Source_Config Screen_Saver Power_Mode
begin

text \<open>
  What the service does on events that are no requests of a client: setting observers, input and lid
  sensor subscriptions, external screens and common events (\<open>services/native/src/power_mgr_service.cpp\<close>),
  with the registration of screen-off warnings.  The state machine of the service, which its
  initialisation creates, is taken to be present.
\<close>

section \<open>Screen-off warnings\<close>

definition AddScreenStateCallback :: "env \<Rightarrow> int \<Rightarrow> obj option \<Rightarrow> unit M" where
  "AddScreenStateCallback E remainTime callback = do {
     mod_pre (\<lambda>s. s\<lparr>preRemainTime := remainTime\<rparr>);
     PreMgr_AddCallback callback;
     mod_pre (\<lambda>s. s\<lparr>preRegistered := True\<rparr>);
     systemTime \<leftarrow> GetDisplayOffTime;
     p \<leftarrow> gets ptrs;
     if \<not> pms p then skip
     else do {
       settingTime \<leftarrow> GetSettingDisplayOffTime E systemTime;
       lastOn \<leftarrow> gets (\<lambda>w. lastOnTime (mDeviceState (psm w)));
       now \<leftarrow> GetTickCount E;
       SchedulEyeDetectTimeout E (wrap64 (wrap64 (lastOn + settingTime) - GetDimTime E systemTime)) now } }"

definition RegisterScreenStateCallback :: "env \<Rightarrow> int \<Rightarrow> obj option \<Rightarrow> bool M" where
  "RegisterScreenStateCallback E remainTime callback = do {
     system \<leftarrow> ask_bool E (Service PermissionIsSystem);
     if \<not> system then State_Monad.return False
     else do { AddScreenStateCallback E remainTime callback; State_Monad.return True } }"

definition UnRegisterScreenStateCallback :: "env \<Rightarrow> obj option \<Rightarrow> bool M" where
  "UnRegisterScreenStateCallback E callback = do {
     system \<leftarrow> ask_bool E (Service PermissionIsSystem);
     if \<not> system then State_Monad.return False
     else do { DelScreenStateCallback callback; State_Monad.return True } }"

section \<open>Setting observers\<close>

definition RegisterSettingDuringCallObservers :: "env \<Rightarrow> unit M" where
  "RegisterSettingDuringCallObservers E = do {
     enabled \<leftarrow> gets (\<lambda>w. duringCallStateEnable (svc w));
     whenM enabled (RegisterSettingDuringCallObserver E) }"

definition DuringCallSettingUpdateFunc :: "env \<Rightarrow> string \<Rightarrow> unit M" where
  "DuringCallSettingUpdateFunc E key = do {
     duringCallState \<leftarrow> GetSettingDuringCallState E key;
     SetDuringCallState duringCallState }"

definition RegisterSettingWakeupDoubleClickObservers :: "env \<Rightarrow> unit M" where
  "RegisterSettingWakeupDoubleClickObservers E = RegisterSettingWakeupDoubleObserver E"

definition GetSettingWakeupDoubleClick :: "env \<Rightarrow> string \<Rightarrow> bool M" where
  "GetSettingWakeupDoubleClick E key = GetSettingWakeupDouble E key"

definition WakeupDoubleClickSettingUpdateFunc :: "env \<Rightarrow> string \<Rightarrow> unit M" where
  "WakeupDoubleClickSettingUpdateFunc E key = do {
     isSettingEnable \<leftarrow> GetSettingWakeupDoubleClick E key;
     ChangeWakeupSourceConfig E isSettingEnable;
     SetWakeupDoubleClickSensor E isSettingEnable }"

definition RegisterSettingWakeupPickupGestureObserver :: "env \<Rightarrow> unit M" where
  "RegisterSettingWakeupPickupGestureObserver E = RegisterSettingWakeupPickupObserver E"

definition WakeupPickupGestureSettingUpdateFunc :: "env \<Rightarrow> string \<Rightarrow> unit M" where
  "WakeupPickupGestureSettingUpdateFunc E key = do {
     isSettingEnable \<leftarrow> GetSettingWakeupPickup E key;
     mod_svc (\<lambda>s. s\<lparr>pickUpOpen := isSettingEnable\<rparr>);
     PickupConnectMotionConfig E isSettingEnable;
     ChangePickupWakeupSourceConfig E isSettingEnable }"

section \<open>Keeping the screen on\<close>

definition IsDeveloperMode :: "env \<Rightarrow> bool" where
  "IsDeveloperMode E = boolParameter E ''const.security.developermode.state'' True"

definition KeepScreenOnInit :: "env \<Rightarrow> unit M" where
  "KeepScreenOnInit E = do {
     token \<leftarrow> gets (\<lambda>w. keepOnToken (svc w));
     if token \<noteq> None then skip
     else do {
       ok \<leftarrow> gets (\<lambda>w. extBool E (Service (NewToken ''PowerMgrKeepOnLock'')) (trace w));
       n \<leftarrow> ask_int E (Service (NewToken ''PowerMgrKeepOnLock''));
       whenM ok (do {
         mod_svc (\<lambda>s. s\<lparr>keepOnToken := Some (nat n)\<rparr>);
         _ \<leftarrow> PmsCreateRunningLock E (nat n)
           \<lparr>infoName = ''PowerMgrKeepOnLock'', infoType = RUNNINGLOCK_SCREEN, infoBundleName = '''',
            infoPid = 0, infoUid = 0, infoDisplayId = RUNNINGLOCK_DISPLAY_ID_ALL\<rparr>;
         skip }) } }"

definition KeepScreenOn :: "env \<Rightarrow> bool \<Rightarrow> unit M" where
  "KeepScreenOn E isOpenOn =
    (if \<not> IsDeveloperMode E then skip
     else do {
       token \<leftarrow> gets (\<lambda>w. keepOnToken (svc w));
       case token of
         None \<Rightarrow> skip
       | Some k \<Rightarrow>
           if isOpenOn then do { _ \<leftarrow> PmsLock E k (-1); skip }
           else do { _ \<leftarrow> PmsUnLock E k ''''; skip } })"

section \<open>The lid sensor\<close>

primrec sensor_listed :: "env \<Rightarrow> int \<Rightarrow> nat \<Rightarrow> int \<Rightarrow> bool M" where
  "sensor_listed E typeId 0 i = State_Monad.return False"
| "sensor_listed E typeId (Suc n) i = do {
     t \<leftarrow> ask_int E (Sensor (SensorTypeAt i));
     if t = typeId then State_Monad.return True else sensor_listed E typeId n (i + 1) }"

definition IsSupportSensor :: "env \<Rightarrow> int \<Rightarrow> bool M" where
  "IsSupportSensor E typeId = do {
     ok \<leftarrow> ask_bool E (Sensor AllSensors);
     if \<not> ok then State_Monad.return False
     else do {
       count \<leftarrow> ask_int E (Sensor AllSensorsCount);
       sensor_listed E typeId (nat count) 0 } }"

definition HallSensorSubscriberInit :: "env \<Rightarrow> unit M" where
  "HallSensorSubscriberInit E = whenM (F_SENSORS E) (do {
     supported \<leftarrow> IsSupportSensor E (constant_of E ''SENSOR_TYPE_ID_HALL'');
     whenM supported (do {
       mod_svc (\<lambda>s. s\<lparr>isInLidMode := False\<rparr>);
       _ \<leftarrow> ask_int E (Sensor HallSubscribe);
       log_call (Sensor HallSetBatch);
       _ \<leftarrow> ask_int E (Sensor HallActivate);
       skip }) })"

definition HallSensorSubscriberCancel :: "env \<Rightarrow> unit M" where
  "HallSensorSubscriberCancel E = whenM (F_SENSORS E) (do {
     supported \<leftarrow> IsSupportSensor E (constant_of E ''SENSOR_TYPE_ID_HALL'');
     whenM supported (do { log_call (Sensor HallDeactivate); log_call (Sensor HallUnsubscribe) });
     mod_svc (\<lambda>s. s\<lparr>isInLidMode := False\<rparr>) })"

definition WakeupLidSettingUpdateFunc :: "env \<Rightarrow> unit M" where
  "WakeupLidSettingUpdateFunc E = do {
     enable \<leftarrow> GetSettingWakeupLid E;
     (if enable then HallSensorSubscriberInit E else HallSensorSubscriberCancel E);
     p \<leftarrow> gets ptrs;
     whenM (wakeupController p) (ChangeLidWakeupSourceConfig E enable) }"

definition RegisterSettingWakeUpLidObserver :: "env \<Rightarrow> unit M" where
  "RegisterSettingWakeUpLidObserver E = do {
     HallSensorSubscriberInit E;
     valid \<leftarrow> IsWakeupLidSettingValid E;
     whenM valid (RegisterSettingWakeupLidObserver E) }"

section \<open>Input\<close>

definition DoReportSwitchState :: "env \<Rightarrow> SwitchActionKind \<Rightarrow> SwitchActionRet M" where
  "DoReportSwitchState E k =
    (if k \<noteq> SWITCH_ACTION_DUAL_SCREEN then State_Monad.return SWITCH_RET_DEFAULT
     else do {
       isScreenOn \<leftarrow> IsFoldScreenOn E;
       isSwitchOpen \<leftarrow> IsSwitchOpenByPath E;
       log_call (Window (DmsSetScreenSwitchState isSwitchOpen isScreenOn));
       State_Monad.return SWITCH_RET_HANDLED })"

definition report_switch_state :: "env \<Rightarrow> unit M" where
  "report_switch_state E = do {
     k \<leftarrow> gets (\<lambda>w. switchAction (psm w));
     whenM (k \<noteq> SWITCH_ACTION_NULL) (do { _ \<leftarrow> DoReportSwitchState E k; skip }) }"

definition INPUT_TASK_TIMEOUT :: int where "INPUT_TASK_TIMEOUT = 50000"

definition SwitchSubscriberInit :: "env \<Rightarrow> unit M" where
  "SwitchSubscriberInit E = whenM (F_MULTIMODAL_INPUT E) (do {
     inputManager \<leftarrow> ask_bool E (Service InputManagerPresent);
     whenM inputManager (do {
       i \<leftarrow> ask_int E (Service SwitchSubscribe);
       mod_svc (\<lambda>s. s\<lparr>switchSubscriberId := i\<rparr>);
       if i = -1 \<or> i > INPUT_TASK_TIMEOUT then skip else report_switch_state E }) })"

definition SwitchSubscriberCancel :: "env \<Rightarrow> unit M" where
  "SwitchSubscriberCancel E = whenM (F_MULTIMODAL_INPUT E) (do {
     inputManager \<leftarrow> ask_bool E (Service InputManagerPresent);
     i \<leftarrow> gets (\<lambda>w. switchSubscriberId (svc w));
     whenM (inputManager \<and> i \<ge> 0) (do {
       log_call (Service (SwitchUnsubscribe i));
       mod_svc (\<lambda>s. s\<lparr>switchSubscriberId := -1\<rparr>) }) })"

definition InputMonitorInit :: "env \<Rightarrow> unit M" where
  "InputMonitorInit E = whenM (F_MULTIMODAL_INPUT E) (do {
     inputManager \<leftarrow> ask_bool E (Service InputManagerPresent);
     i \<leftarrow> gets (\<lambda>w. inputMonitorId (svc w));
     whenM (inputManager \<and> i < 0) (do {
       j \<leftarrow> ask_int E (Service InputMonitorAdd);
       mod_svc (\<lambda>s. s\<lparr>inputMonitorId := j\<rparr>) }) })"

definition InputMonitorCancel :: "env \<Rightarrow> unit M" where
  "InputMonitorCancel E = whenM (F_MULTIMODAL_INPUT E) (do {
     inputManager \<leftarrow> ask_bool E (Service InputManagerPresent);
     i \<leftarrow> gets (\<lambda>w. inputMonitorId (svc w));
     whenM (inputManager \<and> i \<ge> 0) (do {
       log_call (Service (InputMonitorRemove i));
       mod_svc (\<lambda>s. s\<lparr>inputMonitorId := -1\<rparr>) }) })"

text \<open>The time that is passed on is the wall clock in seconds.\<close>

definition HandleKeyEvent :: "env \<Rightarrow> int \<Rightarrow> unit M" where
  "HandleKeyEvent E code = whenM (F_MULTIMODAL_INPUT E) (do {
     now \<leftarrow> ask_int E (Service WallClock);
     on \<leftarrow> PmsIsScreenOn E;
     if on then do { _ \<leftarrow> PmsRefreshActivityInner E now USER_ACTIVITY_TYPE_BUTTON; skip }
     else if code = constant_of E ''KEYCODE_F1'' then do {
       _ \<leftarrow> PmsWakeupDevice E now WAKEUP_DEVICE_DOUBLE_CLICK (''double click'' @ to_string code); skip }
     else whenM (code \<ge> constant_of E ''KEYCODE_0'' \<and> code \<le> constant_of E ''KEYCODE_NUMPAD_RIGHT_PAREN'')
       (do { _ \<leftarrow> PmsWakeupDevice E now WAKEUP_DEVICE_KEYBOARD (''keyboard:'' @ to_string code); skip }) })"

definition HandlePointEvent :: "env \<Rightarrow> int \<Rightarrow> unit M" where
  "HandlePointEvent E type = whenM (F_MULTIMODAL_INPUT E) (do {
     now \<leftarrow> ask_int E (Service WallClock);
     on \<leftarrow> PmsIsScreenOn E;
     if on then do { _ \<leftarrow> PmsRefreshActivityInner E now USER_ACTIVITY_TYPE_ATTENTION; skip }
     else whenM (type = constant_of E ''SOURCE_TYPE_MOUSE'')
       (do { _ \<leftarrow> PmsWakeupDevice E now WAKEUP_DEVICE_MOUSE ''mouse click''; skip }) })"

text \<open>
  \<open>PowerMgrInputMonitor\<close>: an event of a remote device dims an awake screen while a coordination
  lock is held.
\<close>

definition COLLABORATION_REMOTE_DEVICE_ID :: int where "COLLABORATION_REMOTE_DEVICE_ID = wrap32 0xAAAAAAFF"

definition remote_input :: "env \<Rightarrow> int \<Rightarrow> unit M" where
  "remote_input E deviceId = do {
     enabled \<leftarrow> IsRunningLockEnabled E RUNNINGLOCK_COORDINATION;
     state \<leftarrow> gets (\<lambda>w. currentState (psm w));
     whenM (deviceId = COLLABORATION_REMOTE_DEVICE_ID \<and> enabled \<and> state = AWAKE)
       (do { _ \<leftarrow> SetState E DIM STATE_CHANGE_REASON_COORDINATION True; skip }) }"

definition Monitor_OnInputEvent_key :: "env \<Rightarrow> int \<Rightarrow> unit M" where
  "Monitor_OnInputEvent_key E deviceId = do {
     p \<leftarrow> gets ptrs;
     whenM (pms p) (remote_input E deviceId) }"

definition Monitor_OnInputEvent_pointer :: "env \<Rightarrow> int \<Rightarrow> int \<Rightarrow> unit M" where
  "Monitor_OnInputEvent_pointer E deviceId action = do {
     p \<leftarrow> gets ptrs;
     whenM (pms p \<and> action \<notin> set (map (constant_of E) [''POINTER_ACTION_ENTER_WINDOW'',
         ''POINTER_ACTION_LEAVE_WINDOW'', ''POINTER_ACTION_PULL_IN_WINDOW'', ''POINTER_ACTION_PULL_OUT_WINDOW'']))
       (remote_input E deviceId) }"

section \<open>External screens\<close>

definition CUSTOM_VIRTUAL_SCREEN_RANGE_BEGIN_ID :: nat where "CUSTOM_VIRTUAL_SCREEN_RANGE_BEGIN_ID = 500"
definition CUSTOM_VIRTUAL_SCREEN_RANGE_END_ID :: nat where "CUSTOM_VIRTUAL_SCREEN_RANGE_END_ID = 900"
definition VIRTUAL_SCREEN_START_ID :: nat where "VIRTUAL_SCREEN_START_ID = 1000"

definition ExternalScreenInit :: "env \<Rightarrow> unit M" where
  "ExternalScreenInit E = do {
     p \<leftarrow> gets ptrs;
     if \<not> suspendController p \<or> \<not> wakeupController p then skip
     else do {
       ok \<leftarrow> ask_bool E (Window PhysicalScreensStatus);
       n \<leftarrow> ask_int E (Window PhysicalScreensCount);
       let isDesktopPc = (intParameter E ''const.product.has_buildin_screen'' 1 = 0);
       if \<not> ok \<or> (\<not> isDesktopPc \<and> n \<le> 1) \<or> (isDesktopPc \<and> n < 1) then skip
       else do {
         isSwitchOpen \<leftarrow> IsLidOrSwitchOpen E;
         isScreenOn \<leftarrow> IsScreenOn E;
         SetExternalScreenNumber (n - 1);
         if isScreenOn then do {
           PowerOnAllScreens E WAKEUP_DEVICE_EX_SCREEN_INIT;
           whenM (\<not> isSwitchOpen) (PowerOffInternalScreen E SUSPEND_DEVICE_REASON_SWITCH) }
         else PowerOffAllScreens E SUSPEND_DEVICE_REASON_EX_SCREEN_INIT } } }"

definition RegisterExternalScreenListener :: "env \<Rightarrow> unit M" where
  "RegisterExternalScreenListener E = do {
     s \<leftarrow> gets svc;
     whenM (\<not> externalScreenListener s) (do {
       mod_svc (\<lambda>s. s\<lparr>externalScreenListener := True\<rparr>);
       _ \<leftarrow> ask_bool E (Window RegisterScreenListener); skip });
     whenM (\<not> abnormalExScreenListener s) (do {
       mod_svc (\<lambda>s. s\<lparr>abnormalExScreenListener := True\<rparr>);
       _ \<leftarrow> ask_bool E (Window RegisterAbnormalScreenListener); skip }) }"

definition UnRegisterExternalScreenListener :: "env \<Rightarrow> unit M" where
  "UnRegisterExternalScreenListener E = do {
     s \<leftarrow> gets svc;
     whenM (externalScreenListener s) (do {
       _ \<leftarrow> ask_bool E (Window UnregisterScreenListener);
       mod_svc (\<lambda>s. s\<lparr>externalScreenListener := False\<rparr>) });
     whenM (abnormalExScreenListener s) (do {
       _ \<leftarrow> ask_bool E (Window UnregisterAbnormalScreenListener);
       mod_svc (\<lambda>s. s\<lparr>abnormalExScreenListener := False\<rparr>) }) }"

text \<open>A screen that the window manager describes as not virtual.\<close>

definition is_real_screen :: "env \<Rightarrow> nat \<Rightarrow> bool M" where
  "is_real_screen E screenId = do {
     info \<leftarrow> ask_bool E (Window (ScreenInfo screenId));
     if \<not> info then State_Monad.return False
     else do {
       virtual \<leftarrow> ask_bool E (Window (ScreenVirtual screenId));
       State_Monad.return (\<not> virtual) } }"

definition refresh_cable :: "env \<Rightarrow> unit M" where
  "refresh_cable E = do {
     t \<leftarrow> GetTickCount E;
     _ \<leftarrow> PmsRefreshActivity E t USER_ACTIVITY_TYPE_CABLE;
     skip }"

definition screen_connected :: "env \<Rightarrow> unit M" where
  "screen_connected E = do {
     n \<leftarrow> GetExternalScreenNumber;
     let curExternalScreenNum = wrap32 (n + 1);
     SetExternalScreenNumber curExternalScreenNum;
     isSwitchOpen \<leftarrow> IsLidOrSwitchOpen E;
     isScreenOn \<leftarrow> IsScreenOnAcqLock E;
     enable \<leftarrow> gets (\<lambda>w. isExternalScreenWakeup (svc w));
     if isSwitchOpen \<and> isScreenOn then do {
       PowerOnAllScreens E WAKEUP_DEVICE_SCREEN_CONNECT;
       refresh_cable E }
     else if isSwitchOpen then
       whenM enable (do {
         t \<leftarrow> GetTickCount E;
         _ \<leftarrow> PmsWakeupDevice E t WAKEUP_DEVICE_SCREEN_CONNECT ''ScreenConnected'';
         skip })
     else if \<not> isScreenOn then PowerOffAllScreens E SUSPEND_DEVICE_REASON_SWITCH
     else whenM (curExternalScreenNum > 1) (do {
       PowerOnAllScreens E WAKEUP_DEVICE_SCREEN_CONNECT;
       PowerOffInternalScreen E SUSPEND_DEVICE_REASON_SWITCH }) }"

definition OnConnect :: "env \<Rightarrow> nat \<Rightarrow> unit M" where
  "OnConnect E screenId = do {
     real \<leftarrow> is_real_screen E screenId;
     p \<leftarrow> gets ptrs;
     whenM (real \<and> suspendController p \<and> wakeupController p) (screen_connected E) }"

definition IsVirtualScreen :: "env \<Rightarrow> nat \<Rightarrow> bool M" where
  "IsVirtualScreen E screenId = do {
     info \<leftarrow> ask_bool E (Window (ScreenInfo screenId));
     if \<not> info then State_Monad.return
       ((screenId \<ge> CUSTOM_VIRTUAL_SCREEN_RANGE_BEGIN_ID \<and> screenId \<le> CUSTOM_VIRTUAL_SCREEN_RANGE_END_ID) \<or>
        screenId \<ge> VIRTUAL_SCREEN_START_ID)
     else ask_bool E (Window (ScreenVirtual screenId)) }"

definition screen_disconnected :: "env \<Rightarrow> unit M" where
  "screen_disconnected E = do {
     n \<leftarrow> GetExternalScreenNumber;
     let curExternalScreenNum = max (wrap32 (n - 1)) 0;
     SetExternalScreenNumber curExternalScreenNum;
     isSwitchOpen \<leftarrow> IsLidOrSwitchOpen E;
     isScreenOn \<leftarrow> IsScreenOn E;
     if isSwitchOpen \<and> isScreenOn then refresh_cable E
     else if \<not> isSwitchOpen \<and> isScreenOn then
       (if curExternalScreenNum = 0 then ExecSuspendMonitorByReason E SUSPEND_DEVICE_REASON_SWITCH
        else refresh_cable E)
     else whenM (\<not> isSwitchOpen \<and> \<not> isScreenOn \<and> curExternalScreenNum = 0)
       (ExecSuspendMonitorByReason E SUSPEND_DEVICE_REASON_SWITCH) }"

definition OnDisconnect :: "env \<Rightarrow> nat \<Rightarrow> unit M" where
  "OnDisconnect E screenId = do {
     virtual \<leftarrow> IsVirtualScreen E screenId;
     p \<leftarrow> gets ptrs;
     whenM (\<not> virtual \<and> suspendController p) (screen_disconnected E) }"

definition NotifyAbnormalScreenConnectChange :: "env \<Rightarrow> nat \<Rightarrow> unit M" where
  "NotifyAbnormalScreenConnectChange E screenId = do {
     real \<leftarrow> is_real_screen E screenId;
     p \<leftarrow> gets ptrs;
     whenM (real \<and> suspendController p \<and> wakeupController p) (do {
       isSwitchOpen \<leftarrow> IsLidOrSwitchOpen E;
       isScreenOn \<leftarrow> IsScreenOn E;
       whenM isScreenOn (do {
         PowerOnAllScreens E WAKEUP_DEVICE_ABNORMAL_SCREEN_CONNECT;
         whenM (\<not> isSwitchOpen) (PowerOffInternalScreen E SUSPEND_DEVICE_REASON_SWITCH) }) }) }"

section \<open>Controllers of the service\<close>

text \<open>
  A controller that does not exist yet is created: its members get the values of their initialisers.
  The callbacks of the suspend controller and of its take-over are kept in singletons and stay.
\<close>

definition new_suspend_controller :: "susp_state \<Rightarrow> susp_state" where
  "new_suspend_controller s = s\<lparr>monitorMap := (\<lambda>_. None), sleepDuration := 0, sleepTime := -1,
     sleepReason := SUSPEND_DEVICE_REASON_APPLICATION, sleepAction := 0, sleepType := 0,
     powerkeyDownWhenScreenOff := False, forceSleeping := False, suspendPowerStateCallback := None,
     isWakeupReasonConfigMatched := False, lastForceSuspendStartTime := 0, mouseDebounceTimeAfterSuspend := 1000,
     forceSuspendCallbackPending := False, forceSuspendCallbackFinished := False, forceSuspendSkipHdi := False,
     forceSuspendTag := ''''\<rparr>"

definition SuspendControllerInit :: "env \<Rightarrow> obj \<Rightarrow> unit M" where
  "SuspendControllerInit E callback = do {
     p \<leftarrow> gets ptrs;
     whenM (\<not> suspendController p) (do {
       mod_susp new_suspend_controller;
       mod_ptrs (\<lambda>p. p\<lparr>suspendController := True, suspStateMachine := True, suspTimer := psmTimer p\<rparr>) });
     Init E callback }"

definition WakeupControllerInit :: "env \<Rightarrow> unit M" where
  "WakeupControllerInit E = do {
     p \<leftarrow> gets ptrs;
     whenM (\<not> wakeupController p) (do {
       mod_wake (\<lambda>s. s\<lparr>wakeMonitorMap := (\<lambda>_. None)\<rparr>);
       WakeupController_ctor E;
       mod_ptrs (\<lambda>p. p\<lparr>wakeupController := True\<rparr>) });
     Wakeup_Init E }"

definition HibernateControllerInit :: "unit M" where
  "HibernateControllerInit = mod_ptrs (\<lambda>p. p\<lparr>hibernateController := True\<rparr>)"

definition WakeupActionControllerInit :: "env \<Rightarrow> bool M" where
  "WakeupActionControllerInit E = do {
     mod_ptrs (\<lambda>p. p\<lparr>wakeupActionController := True\<rparr>);
     WakeupAction_Init E }"

section \<open>Common events\<close>

text \<open>A function of the extension library that takes no argument.\<close>

definition ext_call :: "env \<Rightarrow> string \<Rightarrow> unit M" where
  "ext_call E name = do {
     handler \<leftarrow> ask_bool E (Service ExtLibrary);
     whenM handler (do {
       found \<leftarrow> ask_bool E (Service (ExtSymbol name));
       whenM found (log_call (Service (ExtCall name))) }) }"

definition OnChargeStateChanged :: "env \<Rightarrow> unit M" where
  "OnChargeStateChanged E = ext_call E ''OnChargeStateChanged''"

definition Rlm_SubscribeCommonEvent :: "env \<Rightarrow> unit M" where
  "Rlm_SubscribeCommonEvent E = whenM (F_FORCE_SLEEP_BROADCAST E) (do {
     mod_svc (\<lambda>s. s\<lparr>lockEventSubscriber := True\<rparr>);
     _ \<leftarrow> ask_bool E (Event (SubscribeCommonEvent [''COMMON_EVENT_ENTER_FORCE_SLEEP'', ''COMMON_EVENT_EXIT_FORCE_SLEEP'']));
     skip })"

definition Rlm_OnReceiveEvent :: "env \<Rightarrow> string \<Rightarrow> unit M" where
  "Rlm_OnReceiveEvent E action = do {
     p \<leftarrow> gets ptrs;
     if \<not> runningLockMgr p then skip
     else if action = ''COMMON_EVENT_ENTER_FORCE_SLEEP'' then HandleEnterForceSleep E
     else whenM (action = ''COMMON_EVENT_EXIT_FORCE_SLEEP'') (HandleExitForceSleep E) }"

definition Pms_SubscribeCommonEvent :: "env \<Rightarrow> unit M" where
  "Pms_SubscribeCommonEvent E = do {
     mod_svc (\<lambda>s. s\<lparr>commonEventSubscriber := True\<rparr>);
     _ \<leftarrow> ask_bool E (Event (SubscribeCommonEvent (''COMMON_EVENT_USER_SWITCHED'' #
       (if F_CHARGING_TYPE E then [''COMMON_EVENT_POWER_CONNECTED'', ''COMMON_EVENT_POWER_DISCONNECTED''] else []))));
     Rlm_SubscribeCommonEvent E }"

definition UnregisterAllSettingObserver :: "env \<Rightarrow> unit M" where
  "UnregisterAllSettingObserver E = do {
     p \<leftarrow> gets ptrs;
     if \<not> pms p \<or> \<not> suspendController p \<or> \<not> wakeupController p then skip
     else do {
       whenM (F_DOUBLECLICK E) (UnregisterSettingWakeupDoubleObserver E);
       whenM (F_PICKUP E) (UnregisterSettingWakeupPickupObserver E);
       Wakeup_UnregisterSettingsObserver E;
       whenM (F_CHARGING_TYPE E) (do {
         Suspend_UnregisterSettingsObserver E;
         UnregisterDisplayOffTimeObserver E }) } }"

text \<open>The defaults of the state machine (constants of its header).\<close>

definition PSM_DEFAULT_AC_DISPLAY_OFF_TIME_MS :: int where "PSM_DEFAULT_AC_DISPLAY_OFF_TIME_MS = 600000"
definition PSM_DEFAULT_DC_DISPLAY_OFF_TIME_MS :: int where "PSM_DEFAULT_DC_DISPLAY_OFF_TIME_MS = 300000"

definition UpdateSettingInvalidDisplayOffTime :: "env \<Rightarrow> unit M" where
  "UpdateSettingInvalidDisplayOffTime E = do {
     ac \<leftarrow> IsSettingDisplayAcScreenOffTimeValid E;
     whenM (\<not> ac) (SetSettingDisplayAcScreenOffTime E PSM_DEFAULT_AC_DISPLAY_OFF_TIME_MS);
     dc \<leftarrow> IsSettingDisplayDcScreenOffTimeValid E;
     whenM (\<not> dc) (SetSettingDisplayDcScreenOffTime E PSM_DEFAULT_DC_DISPLAY_OFF_TIME_MS) }"

definition RegisterAllSettingObserver :: "env \<Rightarrow> obj \<Rightarrow> unit M" where
  "RegisterAllSettingObserver E callback = do {
     p \<leftarrow> gets ptrs;
     whenM (pms p) (do {
       whenM (F_DOUBLECLICK E) (RegisterSettingWakeupDoubleClickObservers E);
       whenM (F_PICKUP E) (RegisterSettingWakeupPickupGestureObserver E);
       WakeupControllerInit E;
       whenM (F_CHARGING_TYPE E) (do {
         SuspendControllerInit E callback;
         UpdateSettingInvalidDisplayOffTime E;
         RegisterDisplayOffTimeObserver E }) }) }"

definition POWER_CONNECT_AC :: int where "POWER_CONNECT_AC = 1"
definition POWER_CONNECT_DC :: int where "POWER_CONNECT_DC = 0"

definition OnPowerConnectStatusChanged :: "env \<Rightarrow> int \<Rightarrow> unit M" where
  "OnPowerConnectStatusChanged E status = do {
     p \<leftarrow> gets ptrs;
     if \<not> pms p then skip
     else do {
       mod_svc (\<lambda>s. s\<lparr>powerConnectStatus := status\<rparr>);
       if \<not> suspendController p then skip
       else do {
         UpdateSuspendSources E;
         DisplayOffTimeUpdateFunc E;
         OnChargeStateChanged E } } }"

definition Pms_OnReceiveEvent :: "env \<Rightarrow> obj \<Rightarrow> string \<Rightarrow> unit M" where
  "Pms_OnReceiveEvent E callback action = do {
     p \<leftarrow> gets ptrs;
     if \<not> pms p then skip
     else if action = ''COMMON_EVENT_USER_SWITCHED'' then do {
       UnregisterAllSettingObserver E;
       UpdateCurrentUserId E;
       RegisterAllSettingObserver E callback;
       whenM (F_SCREEN_SAVER E \<and> powerScreenSaver p) (RegisterSettingScreenSaverObservers E) }
     else if F_CHARGING_TYPE E \<and> action = ''COMMON_EVENT_POWER_CONNECTED'' then
       OnPowerConnectStatusChanged E POWER_CONNECT_AC
     else whenM (F_CHARGING_TYPE E \<and> action = ''COMMON_EVENT_POWER_DISCONNECTED'')
       (OnPowerConnectStatusChanged E POWER_CONNECT_DC) }"

definition Mode_SubscribeCommonEvent :: "env \<Rightarrow> unit M" where
  "Mode_SubscribeCommonEvent E = do {
     mod_pmode (\<lambda>s. s\<lparr>modeSubscriber := True\<rparr>);
     ok \<leftarrow> ask_bool E (Event (SubscribeCommonEvent [''COMMON_EVENT_DATA_SHARE_READY'']));
     whenM (\<not> ok) (mod_pmode (\<lambda>s. s\<lparr>modeSubscriber := False\<rparr>)) }"

definition Mode_OnReceiveEvent :: "env \<Rightarrow> string \<Rightarrow> unit M" where
  "Mode_OnReceiveEvent E action = do {
     p \<leftarrow> gets ptrs;
     whenM (pms p \<and> action = ''COMMON_EVENT_DATA_SHARE_READY'') (InitPowerMode E) }"


end
