(* ===== verification/Shutdown_Dialog.thy ===== *)
theory Shutdown_Dialog
  imports Source_Config
begin

text \<open>
  The dialog that a long press of the power key shows (\<open>services/native/src/shutdown/shutdown_dialog.cpp\<close>):
  the key subscription with its retries, the configuration, the connection to the system interface
  and the task that sends the request; with the vibrator it starts (\<open>utils/vibrator\<close>).
\<close>

definition mod_dialog :: "(dialog_state \<Rightarrow> dialog_state) \<Rightarrow> unit M" where
  "mod_dialog f = mod_svc (\<lambda>s. s\<lparr>dialog := f (dialog s)\<rparr>)"

definition LONG_PRESS_DELAY_MS :: int where "LONG_PRESS_DELAY_MS = 3000"
definition INIT_LONG_PRESS_RETRY :: int where "INIT_LONG_PRESS_RETRY = 3"
definition RETRY_TIME :: uint32 where "RETRY_TIME = 1000"

section \<open>The vibrator\<close>

definition Vibrator_ParseSourcesProc :: "string \<times> Json \<Rightarrow> VibratorSource option" where
  "Vibrator_ParseSourcesProc m = (case m of (key, valueObj) \<Rightarrow> (case valueObj of
     JObject ms \<Rightarrow>
       (case (map_of ms ''enable'', map_of ms ''type'') of
          (Some (JBool enable), Some (JString type)) \<Rightarrow>
            if \<not> enable \<or> type = [] then None
            else Some \<lparr>vibScene = key, vibEnable = enable, vibType = type\<rparr>
        | _ \<Rightarrow> None)
   | _ \<Rightarrow> None))"

definition Vibrator_ParseSourcesJson :: "env \<Rightarrow> string \<Rightarrow> VibratorSource list" where
  "Vibrator_ParseSourcesJson E jsonStr =
    (if jsonStr = [] then []
     else case cjsonParse E jsonStr of
       None \<Rightarrow> []
     | Some root \<Rightarrow>
         if \<not> IsValidJsonObjectOrJsonArray root then []
         else List.map_filter Vibrator_ParseSourcesProc (json_members root))"

definition Vibrator_ParseSources :: "env \<Rightarrow> string \<Rightarrow> string \<Rightarrow> string \<Rightarrow> VibratorSource list M" where
  "Vibrator_ParseSources E etcPath vendorPath systemPath = do {
     targetPath \<leftarrow> target_path E etcPath vendorPath systemPath;
     case targetPath of
       None \<Rightarrow> State_Monad.return []
     | Some p \<Rightarrow> do {
         fileStringStr \<leftarrow> ask_string E (Settings (FileContents p));
         State_Monad.return (Vibrator_ParseSourcesJson E fileStringStr) } }"

definition LoadConfig :: "env \<Rightarrow> string \<Rightarrow> string \<Rightarrow> string \<Rightarrow> unit M" where
  "LoadConfig E etcPath vendorPath systemPath = do {
     sources \<leftarrow> Vibrator_ParseSources E etcPath vendorPath systemPath;
     mod_svc (\<lambda>s. s\<lparr>vibratorSources := vibratorSources s @ sources\<rparr>) }"

definition VibratorInit :: "env \<Rightarrow> unit M" where
  "VibratorInit E = LoadConfig E ''etc/power_config/power_vibrator.json''
     ''/vendor/etc/power_config/power_vibrator.json'' ''/system/etc/power_config/power_vibrator.json''"

definition PowerVibrator_StartVibrator :: "env \<Rightarrow> string \<Rightarrow> unit M" where
  "PowerVibrator_StartVibrator E scene = whenM (F_VIBRATOR_MODE E) (do {
     sources \<leftarrow> gets (\<lambda>w. vibratorSources (svc w));
     case List.find (\<lambda>src. vibScene src = scene) sources of
       None \<Rightarrow> skip
     | Some source \<Rightarrow>
         if \<not> vibEnable source \<or> vibType source = [] then skip
         else do { _ \<leftarrow> ask_int E (Service (StartVibrator (vibType source))); skip } })"

section \<open>The dialog\<close>

definition dialog_StartVibrator :: "env \<Rightarrow> unit M" where
  "dialog_StartVibrator E = PowerVibrator_StartVibrator E ''shutdown_diag''"

definition OnAbilityConnectDone :: "obj option \<Rightarrow> unit M" where
  "OnAbilityConnectDone remoteObject = (case remoteObject of
     None \<Rightarrow> skip
   | Some r \<Rightarrow> do {
       mod_dialog (\<lambda>d. if dialogRemote d = None then d\<lparr>dialogRemote := Some r\<rparr> else d);
       log_call (Queue (SubmitTask (TaskShowDialog r))) })"

text \<open>The task that \<open>OnAbilityConnectDone\<close> submits.\<close>

definition dialog_parameters :: "string \<Rightarrow> string" where
  "dialog_parameters extension =
     ''{'' @ [CHR 0x22] @ ''ability.want.params.uiExtensionType'' @ [CHR 0x22] @ '':'' @ [CHR 0x22] @ extension @ [CHR 0x22] @
     '','' @ [CHR 0x22] @ ''sysDialogZOrder'' @ [CHR 0x22] @ '':2}''"

definition show_dialog_task :: "env \<Rightarrow> obj \<Rightarrow> unit M" where
  "show_dialog_task E r = do {
     d \<leftarrow> gets (\<lambda>w. dialog (svc w));
     ret \<leftarrow> ask_int E (Service (DialogRequest r (dialogBundle d) (dialogAbility d) (dialog_parameters (uiExtensionType d))));
     if ret \<noteq> 0 then skip
     else do {
       mod_dialog (\<lambda>d. d\<lparr>isDialogShow := True\<rparr>);
       mod_svc (\<lambda>s. s\<lparr>longPressFlag := True\<rparr>);
       p \<leftarrow> gets ptrs;
       whenM (pms p) (do {
         now \<leftarrow> ask_int E (Service WallClock);
         _ \<leftarrow> PmsRefreshActivityInner E now USER_ACTIVITY_TYPE_ATTENTION;
         skip }) } }"

definition OnAbilityDisconnectDone :: "unit M" where
  "OnAbilityDisconnectDone = do {
     mod_dialog (\<lambda>d. d\<lparr>isDialogShow := False, dialogRemote := None\<rparr>);
     mod_svc (\<lambda>s. s\<lparr>longPressFlag := False\<rparr>) }"

definition ConnectSystemUi :: "env \<Rightarrow> bool M" where
  "ConnectSystemUi E = do {
     d \<leftarrow> gets (\<lambda>w. dialog (svc w));
     if isDialogShow d then do {
       OnAbilityConnectDone (dialogRemote d);
       State_Monad.return True }
     else do {
       handler \<leftarrow> ask_bool E (Service DialogLibrary);
       if \<not> handler then State_Monad.return False
       else do {
         found \<leftarrow> ask_bool E (Service DialogSymbol);
         if \<not> found then State_Monad.return False
         else do {
           log_call (Service (PowerConnectAbility (systemBundle d) (systemAbility d)));
           State_Monad.return True } } } }"

definition StartDialog :: "env \<Rightarrow> unit M" where
  "StartDialog E = do {
     forbidden \<leftarrow> gets (\<lambda>w. shutdownDialogForbid (svc w));
     if forbidden then mod_svc (\<lambda>s. s\<lparr>shutdownDialogForbid := False\<rparr>)
     else do {
       _ \<leftarrow> ConnectSystemUi E;
       dialog_StartVibrator E } }"

text \<open>The callback of the subscribed key.\<close>

definition BLOCK_LONG_PRESS :: string where "BLOCK_LONG_PRESS = ''1''"

definition long_press_event :: "env \<Rightarrow> unit M" where
  "long_press_event E = do {
     blocked \<leftarrow> (if F_BLOCK_LONG_PRESS E then do {
       longPress \<leftarrow> GetBlockLongPress E;
       State_Monad.return (longPress = BLOCK_LONG_PRESS) } else State_Monad.return False);
     whenM (\<not> blocked) (StartDialog E) }"

definition Dialog_KeyMonitorInit :: "env \<Rightarrow> unit M" where
  "Dialog_KeyMonitorInit E = whenM (F_MULTIMODAL_INPUT E) (do {
     inputManager \<leftarrow> ask_bool E (Service InputManagerPresent);
     whenM inputManager (do {
       i \<leftarrow> ask_int E (Service (LongPressSubscribe (intParameter E ''const.powerkey.down_duration'' LONG_PRESS_DELAY_MS)));
       mod_dialog (\<lambda>d. d\<lparr>longPressId := i\<rparr>);
       count \<leftarrow> gets (\<lambda>w. dialogRetryCount (dialog (svc w)));
       whenM (i < 0 \<and> count \<le> INIT_LONG_PRESS_RETRY) (do {
         _ \<leftarrow> SubmitDelayTask E SHUTDOWN_DIALOG_QUEUE TaskKeyMonitorInit RETRY_TIME;
         mod_dialog (\<lambda>d. d\<lparr>dialogRetryCount := dialogRetryCount d + 1\<rparr>) }) }) })"

definition Dialog_KeyMonitorCancel :: "env \<Rightarrow> unit M" where
  "Dialog_KeyMonitorCancel E = whenM (F_MULTIMODAL_INPUT E) (do {
     inputManager \<leftarrow> ask_bool E (Service InputManagerPresent);
     whenM inputManager (do {
       i \<leftarrow> gets (\<lambda>w. longPressId (dialog (svc w)));
       whenM (i \<ge> 0) (log_call (Service (InputKeyUnsubscribe i)));
       mod_dialog (\<lambda>d. d\<lparr>longPressId := 0\<rparr>) }) })"

section \<open>Configuration\<close>

definition ParseJsonConfig :: "env \<Rightarrow> string \<Rightarrow> unit M" where
  "ParseJsonConfig E contentStr = (case cjsonParse E contentStr of
     Some (JObject ms) \<Rightarrow>
       (case (map_of ms ''bundleName'', map_of ms ''abilityName'', map_of ms ''uiExtensionType'') of
          (Some (JString bundle), Some (JString ability), Some (JString extension)) \<Rightarrow>
            mod_dialog (\<lambda>d. d\<lparr>dialogBundle := bundle, dialogAbility := ability, uiExtensionType := extension,
              systemBundle := bundle, systemAbility := ''com.ohos.sceneboard.systemdialog''\<rparr>)
        | _ \<Rightarrow> skip)
   | _ \<Rightarrow> skip)"

definition LoadDialogConfig :: "env \<Rightarrow> unit M" where
  "LoadDialogConfig E = do {
     configPath \<leftarrow> ask_string E (Settings (ConfigFile ''etc/systemui/poweroff_config.json''));
     if configPath = [] then skip
     else do {
       contentStr \<leftarrow> ask_string E (Settings (FileContents configPath));
       if contentStr = [] then skip else ParseJsonConfig E contentStr } }"

end
