(* ===== verification/Service_Lifecycle.thy ===== *)
theory Service_Lifecycle
  imports Service_Events Shutdown_Dialog
begin

text \<open>
  The life of the service (\<open>services/native/src/power_mgr_service.cpp\<close>): start, the work after the boot is
  completed, the appearance and loss of the services it depends on, stop; with the driver callbacks of
  \<open>actions/default/system_suspend_controller.cpp\<close> and the requests that only read the state.  Abilities
  are named by their constants.
\<close>

section \<open>The power driver\<close>

definition HDI_RETRY_TIME :: uint32 where "HDI_RETRY_TIME = 1000"
definition HDI_SERVICE_NAME :: string where "HDI_SERVICE_NAME = ''power_interface_service''"

definition RegisterHdiStatusListener :: "env \<Rightarrow> unit M" where
  "RegisterHdiStatusListener E = do {
     hdiServiceMgr \<leftarrow> ask_bool E (Driver HdiServiceManager);
     if \<not> hdiServiceMgr then do {
       _ \<leftarrow> SubmitDelayTask E HDI_QUEUE TaskHdiStatusListener HDI_RETRY_TIME; skip }
     else do {
       status \<leftarrow> ask_int E (Driver HdiStatusListener);
       whenM (status \<noteq> 0) (do {
         _ \<leftarrow> SubmitDelayTask E HDI_QUEUE TaskHdiStatusListener HDI_RETRY_TIME; skip }) } }"

text \<open>The listener: a driver service starts or stops.\<close>

definition hdi_status_event :: "env \<Rightarrow> string \<Rightarrow> int \<Rightarrow> int \<Rightarrow> unit M" where
  "hdi_status_event E serviceName deviceClass status =
    (if serviceName \<noteq> HDI_SERVICE_NAME \<or> deviceClass \<noteq> constant_of E ''DEVICE_CLASS_DEFAULT'' then skip
     else if status = constant_of E ''SERVIE_STATUS_START'' then log_call (Queue (SubmitTask TaskPowerHdiCallback))
     else whenM (status = constant_of E ''SERVIE_STATUS_STOP'') (mod_act (\<lambda>a. a\<lparr>powerInterface := False\<rparr>)))"

definition RegisterPowerHdiCallback :: "env \<Rightarrow> unit M" where
  "RegisterPowerHdiCallback E = do {
     ok \<leftarrow> GetPowerInterface E;
     whenM ok (log_call (Driver (HdiRegisterCallback True))) }"

definition UnRegisterPowerHdiCallback :: "env \<Rightarrow> unit M" where
  "UnRegisterPowerHdiCallback E = do {
     ok \<leftarrow> GetPowerInterface E;
     whenM ok (log_call (Driver (HdiRegisterCallback False))) }"

definition SystemSetPowerConfig :: "env \<Rightarrow> string \<Rightarrow> string \<Rightarrow> bool M" where
  "SystemSetPowerConfig E sceneName value = do {
     ok \<leftarrow> GetPowerInterface E;
     if \<not> ok then State_Monad.return False
     else do {
       ret \<leftarrow> ask_int E (Driver (HdiSetPowerConfig sceneName value));
       State_Monad.return (ret = 0) } }"

definition SystemGetPowerConfig :: "env \<Rightarrow> string \<Rightarrow> string option M" where
  "SystemGetPowerConfig E sceneName = do {
     ok \<leftarrow> GetPowerInterface E;
     if \<not> ok then State_Monad.return None
     else do {
       ret \<leftarrow> ask_int E (Driver (HdiGetPowerConfig sceneName));
       value \<leftarrow> ask_string E (Driver (HdiGetPowerConfig sceneName));
       State_Monad.return (if ret = 0 then Some value else None) } }"

section \<open>Start\<close>

text \<open>A running lock manager that exists keeps its counters; \<open>InitLocks\<close> always succeeds.\<close>

definition Rlm_Init :: "env \<Rightarrow> bool M" where
  "Rlm_Init E = do {
     mod_ptrs (\<lambda>p. p\<lparr>runningLockMgr := True, lockTimer := True\<rparr>);
     InitLocks E;
     State_Monad.return True }"

text \<open>\<open>created\<close>: there was no state machine before; \<open>c\<close> is a fresh state controller.\<close>

definition PowerStateMachineInit :: "env \<Rightarrow> bool \<Rightarrow> StateController \<Rightarrow> bool M" where
  "PowerStateMachineInit E created c = do {
     ok \<leftarrow> (if created then do {
       mod_ptrs (\<lambda>p. p\<lparr>psmTimer := True, stateAction := True\<rparr>);
       PsmInit E c } else State_Monad.return True);
     if \<not> ok then State_Monad.return False
     else do {
       mod_ptrs (\<lambda>p. p\<lparr>powerMgrNotify := True\<rparr>);
       State_Monad.return True } }"

definition POWERKEY_BLOCKED_FOLD_MODE_NONE :: int where "POWERKEY_BLOCKED_FOLD_MODE_NONE = -1"

definition Pms_Init :: "env \<Rightarrow> bool \<Rightarrow> StateController \<Rightarrow> bool M" where
  "Pms_Init E created c = do {
     ok \<leftarrow> Rlm_Init E;
     if \<not> ok then State_Monad.return False
     else do {
       mod_ptrs (\<lambda>p. p\<lparr>shutdownController := True\<rparr>);
       _ \<leftarrow> PowerStateMachineInit E created c;
       p \<leftarrow> gets ptrs;
       whenM (\<not> screenOffPreController p) (do {
         mod_ptrs (\<lambda>p. p\<lparr>screenOffPreController := True\<rparr>);
         mod_pre (\<lambda>s. s\<lparr>preQueue := True\<rparr>) });
       mod_svc (\<lambda>s. s\<lparr>duringCallStateEnable := boolParameter E ''const.power.during_call_state_enable'' False,
         lidCheckEnable := boolParameter E ''const.power.enable_lid_check'' False,
         isExternalScreenWakeup := boolParameter E ''const.power.external_screen_wakeup'' False,
         powerkeyBlockedFoldMode := intParameter E ''const.power.powerkey_blocked_fold_mode'' POWERKEY_BLOCKED_FOLD_MODE_NONE\<rparr>);
       whenM (F_LID_FOLD E) (mod_svc (\<lambda>s. s\<lparr>foldScreen := (strParameter E ''const.window.foldscreen.type'' '''' \<noteq> '''')\<rparr>));
       whenM (F_S4 E) (mod_svc (\<lambda>s. s\<lparr>hibernateEnable := boolParameter E ''const.power.enable_s4'' True\<rparr>));
       State_Monad.return True } }"

definition ability_listeners :: "env \<Rightarrow> string list" where
  "ability_listeners E =
    [''SUSPEND_MANAGER_SYSTEM_ABILITY_ID'', ''DEVICE_STANDBY_SERVICE_SYSTEM_ABILITY_ID'',
     ''DISPLAY_MANAGER_SERVICE_ID'', ''DISPLAY_MANAGER_SERVICE_SA_ID''] @
    (if F_MSDP_MOVEMENT E then [''MSDP_MOVEMENT_SERVICE_ID''] else []) @
    (if F_PICKUP E then [''MSDP_MOTION_SERVICE_ID''] else []) @
    [''COMMON_EVENT_SERVICE_ID'', ''DEVICE_SERVICE_MANAGER_SA_ID'']"

definition OnStart :: "env \<Rightarrow> bool \<Rightarrow> StateController \<Rightarrow> unit M" where
  "OnStart E created c = do {
     ready \<leftarrow> gets (\<lambda>w. serviceReady (svc w));
     if ready then skip
     else do {
       log_call (Service ModuleScan);
       ok \<leftarrow> Pms_Init E created c;
       whenM ok (do {
         for_each (\<lambda>a. log_call (Service (AddAbilityListener a))) (ability_listeners E);
         RegisterHdiStatusListener E;
         log_call (Service ExtWrapperInit);
         published \<leftarrow> ask_bool E (Service PublishAbility);
         whenM published (do {
           mod_svc (\<lambda>s. s\<lparr>serviceReady := True\<rparr>);
           log_call (Shutdown (SetParameter ''bootevent.powermgr.ready'' ''true'')) }) }) } }"

definition RegisterMovementCallback :: "env \<Rightarrow> unit M" where
  "RegisterMovementCallback E = ext_call E ''RegisterMovementCallback''"

definition UnRegisterMovementCallback :: "env \<Rightarrow> unit M" where
  "UnRegisterMovementCallback E = ext_call E ''UnRegisterMovementCallback''"

definition ResetMovementState :: "env \<Rightarrow> unit M" where
  "ResetMovementState E = ext_call E ''ResetMovementState''"

definition RegisterExternalCallback :: "env \<Rightarrow> unit M" where
  "RegisterExternalCallback E = ext_call E ''RegisterExternalCallback''"

definition UnregisterExternalCallback :: "env \<Rightarrow> unit M" where
  "UnregisterExternalCallback E = ext_call E ''UnregisterExternalCallback''"

text \<open>The functions that \<open>RegisterExternalCallback\<close> hands to the library.\<close>

definition external_wakeup :: "env \<Rightarrow> WakeupDeviceType \<Rightarrow> unit M" where
  "external_wakeup E reason = ExecWakeupMonitorByReason E reason"

definition external_suspend :: "env \<Rightarrow> SuspendDeviceType \<Rightarrow> unit M" where
  "external_suspend E reason = ExecSuspendMonitorByReason E reason"

definition external_sync_sleep :: "env \<Rightarrow> bool \<Rightarrow> unit M" where
  "external_sync_sleep E isWakeup = TriggerSyncSleepCallback E isWakeup"

definition PowerExternalAbilityInit :: "env \<Rightarrow> unit M" where
  "PowerExternalAbilityInit E = do {
     p \<leftarrow> gets ptrs;
     whenM (pms p) (do {
       whenM (F_EXTERNAL_SCREEN E) (do {
         UnRegisterExternalScreenListener E;
         RegisterExternalScreenListener E;
         ExternalScreenInit E });
       VibratorInit E;
       whenM (F_DOUBLECLICK E) (RegisterSettingWakeupDoubleClickObservers E);
       whenM (F_PICKUP E) (RegisterSettingWakeupPickupGestureObserver E);
       whenM (\<not> F_FACTORY_MODE E) (RegisterSettingWakeUpLidObserver E);
       RegisterSettingPowerModeObservers E;
       RegisterSettingDuringCallObservers E;
       RegisterExternalCallback E }) }"

section \<open>Boot completed\<close>

definition SETTING_AOD_WATCH_SWITCH_KEY :: string where
  "SETTING_AOD_WATCH_SWITCH_KEY = ''hw_aod_watch_switch''"

definition RegisterAodSwitchObserver :: "env \<Rightarrow> unit M" where
  "RegisterAodSwitchObserver E = do { _ \<leftarrow> RegisterObserver E SETTING_AOD_WATCH_SWITCH_KEY; skip }"

definition PmsSetEnableDoze :: "bool \<Rightarrow> unit M" where
  "PmsSetEnableDoze enable = SetEnableDoze enable"

text \<open>The update function of the observer.\<close>

definition aod_switch_update :: "env \<Rightarrow> string \<Rightarrow> unit M" where
  "aod_switch_update E key =
    (if key \<noteq> SETTING_AOD_WATCH_SWITCH_KEY then skip
     else do {
       r \<leftarrow> GetSettingStringValue E key;
       p \<leftarrow> gets ptrs;
       whenM (pms p) (PmsSetEnableDoze (r = ''1'')) })"

text \<open>
  The callback that runs once the system has booted.  \<open>callback\<close> is the address of the power state
  callback that the suspend controller creates; the answer is \<open>False\<close> if the code dereferences a null
  pointer on the way.
\<close>

definition boot_completed :: "env \<Rightarrow> obj \<Rightarrow> bool M" where
  "boot_completed E callback = do {
     need \<leftarrow> gets (\<lambda>w. needReInit (svc w));
     if \<not> need then State_Monad.return True
     else do {
       mod_svc (\<lambda>s. s\<lparr>needReInit := False\<rparr>);
       p \<leftarrow> gets ptrs;
       if \<not> pms p then State_Monad.return True
       else do {
         whenM (F_PICKUP E) (CopyDataForUpdateScene E);
         UpdateCurrentUserId E;
         whenM (F_CHARGING_TYPE E) (do { PowerConnectStatusInit E; UpdateSettingInvalidDisplayOffTime E });
         RegisterDisplayOffTimeObserver E;
         InitState E;
         RegisterAodSwitchObserver E;
         whenM (F_POWER_DIALOG E) (do { LoadDialogConfig E; Dialog_KeyMonitorInit E });
         SwitchSubscriberInit E;
         InputMonitorInit E;
         SuspendControllerInit E callback;
         WakeupControllerInit E;
         Pms_SubscribeCommonEvent E;
         ok \<leftarrow> (if F_WAKEUP_ACTION E then WakeupActionControllerInit E else State_Monad.return True);
         if \<not> ok then State_Monad.return False
         else do {
           PowerExternalAbilityInit E;
           KeepScreenOnInit E;
           whenM (F_SCREEN_SAVER E) (ScreenSaverInit E);
           mod_svc (\<lambda>s. s\<lparr>bootCompleted := True\<rparr>);
           State_Monad.return True } } } }"

definition RegisterBootCompletedCallback :: "unit M" where
  "RegisterBootCompletedCallback = log_call (Service RegisterBootCompleted)"

section \<open>Other services\<close>

definition OnRemoveSystemAbility :: "env \<Rightarrow> string \<Rightarrow> unit M" where
  "OnRemoveSystemAbility E systemAbilityId = do {
     whenM (systemAbilityId = ''SUSPEND_MANAGER_SYSTEM_ABILITY_ID'' \<or>
            systemAbilityId = ''DEVICE_STANDBY_SERVICE_SYSTEM_ABILITY_ID'') (ProxyResetRunningLocks E);
     p \<leftarrow> gets ptrs;
     if F_MSDP_MOVEMENT E \<and> systemAbilityId = ''MSDP_MOVEMENT_SERVICE_ID'' \<and> \<not> pms p then skip
     else do {
       whenM (F_MSDP_MOVEMENT E \<and> systemAbilityId = ''MSDP_MOVEMENT_SERVICE_ID'') (ResetMovementState E);
       whenM (systemAbilityId = ''DISPLAY_MANAGER_SERVICE_SA_ID'')
         (mod_svc (\<lambda>s. s\<lparr>displayManagerServiceCrash := True\<rparr>));
       removed \<leftarrow> gets (\<lambda>w. hdiRemoved (svc w));
       whenM (systemAbilityId = ''DEVICE_SERVICE_MANAGER_SA_ID'' \<and> \<not> removed) (do {
         ResetHandle;
         mod_svc (\<lambda>s. s\<lparr>hdiRemoved := True\<rparr>) }) } }"

definition OnAddSystemAbilityInner :: "env \<Rightarrow> string \<Rightarrow> unit M" where
  "OnAddSystemAbilityInner E systemAbilityId =
    (if systemAbilityId = ''COMMON_EVENT_SERVICE_ID'' then Mode_SubscribeCommonEvent E
     else do {
       removed \<leftarrow> gets (\<lambda>w. hdiRemoved (svc w));
       whenM (systemAbilityId = ''DEVICE_SERVICE_MANAGER_SA_ID'' \<and> removed) (do {
         RegisterHdiStatusListener E;
         mod_svc (\<lambda>s. s\<lparr>hdiRemoved := False\<rparr>) }) })"

definition OnAddSystemAbility :: "env \<Rightarrow> string \<Rightarrow> unit M" where
  "OnAddSystemAbility E systemAbilityId = do {
     whenM (systemAbilityId = (if F_DISPLAY_MANAGER E then ''DISPLAY_MANAGER_SERVICE_ID''
                               else ''DISPLAY_MANAGER_SERVICE_SA_ID'')) (do {
       mod_svc (\<lambda>s. s\<lparr>needReInit := True\<rparr>);
       RegisterBootCompletedCallback });
     whenM (F_DISPLAY_MANAGER E \<and> systemAbilityId = ''DISPLAY_MANAGER_SERVICE_SA_ID'') (do {
       report_switch_state E;
       crashed \<leftarrow> gets (\<lambda>w. displayManagerServiceCrash (svc w));
       whenM crashed (do {
         mod_svc (\<lambda>s. s\<lparr>needReInit := True\<rparr>);
         RegisterBootCompletedCallback;
         mod_svc (\<lambda>s. s\<lparr>displayManagerServiceCrash := False\<rparr>) }) });
     p \<leftarrow> gets ptrs;
     if F_MSDP_MOVEMENT E \<and> systemAbilityId = ''MSDP_MOVEMENT_SERVICE_ID'' \<and> \<not> pms p then skip
     else do {
       whenM (F_MSDP_MOVEMENT E \<and> systemAbilityId = ''MSDP_MOVEMENT_SERVICE_ID'') (do {
         UnRegisterMovementCallback E;
         RegisterMovementCallback E });
       pickUp \<leftarrow> gets (\<lambda>w. pickUpOpen (svc w));
       whenM (F_PICKUP E \<and> systemAbilityId = ''MSDP_MOTION_SERVICE_ID'' \<and> pickUp) (do {
         PickupConnectMotionConfig E False;
         PickupConnectMotionConfig E True });
       OnAddSystemAbilityInner E systemAbilityId } }"

section \<open>Stop\<close>

text \<open>
  \<open>doubleClickId_\<close> and \<open>monitorId_\<close> of the service start as 0 and are assigned nowhere.
\<close>

definition serviceDoubleClickId :: int where "serviceDoubleClickId = 0"
definition serviceMonitorId :: int where "serviceMonitorId = 0"

definition KeyMonitorCancel :: "env \<Rightarrow> unit M" where
  "KeyMonitorCancel E = whenM (F_MULTIMODAL_INPUT E) (do {
     inputManager \<leftarrow> ask_bool E (Service InputManagerPresent);
     whenM inputManager (do {
       Dialog_KeyMonitorCancel E;
       whenM (serviceDoubleClickId \<ge> 0) (log_call (Service (InputKeyUnsubscribe serviceDoubleClickId)));
       whenM (serviceMonitorId \<ge> 0) (log_call (Service (InputMonitorRemove serviceMonitorId))) }) })"

definition OnStop :: "env \<Rightarrow> unit M" where
  "OnStop E = do {
     ready \<leftarrow> gets (\<lambda>w. serviceReady (svc w));
     if \<not> ready then skip
     else do {
       CancelDelayTimer E CHECK_USER_ACTIVITY_TIMEOUT_MSG;
       CancelDelayTimer E CHECK_USER_ACTIVITY_OFF_TIMEOUT_MSG;
       UnregisterDisplayOffTimeObserver E;
       p \<leftarrow> gets ptrs;
       whenM (suspendController p) (StopSleep E);
       UnRegisterPowerHdiCallback E;
       KeyMonitorCancel E;
       HallSensorSubscriberCancel E;
       whenM (F_EXTERNAL_SCREEN E) (UnRegisterExternalScreenListener E);
       SwitchSubscriberCancel E;
       InputMonitorCancel E;
       mod_svc (\<lambda>s. s\<lparr>serviceReady := False\<rparr>);
       mod_svc (\<lambda>s. s\<lparr>bootCompleted := False\<rparr>);
       for_each (\<lambda>a. log_call (Service (RemoveAbilityListener a)))
         ([''SUSPEND_MANAGER_SYSTEM_ABILITY_ID'', ''DEVICE_STANDBY_SERVICE_SYSTEM_ABILITY_ID'',
           ''DISPLAY_MANAGER_SERVICE_ID''] @
          (if F_MSDP_MOVEMENT E then [''MSDP_MOVEMENT_SERVICE_ID''] else []) @
          (if F_PICKUP E then [''MSDP_MOTION_SERVICE_ID''] else []));
       whenM (F_DOUBLECLICK E) (UnregisterSettingWakeupDoubleObserver E);
       whenM (F_PICKUP E) (UnregisterSettingWakeupPickupObserver E);
       UnRegisterSettingWakeupLidObserver E;
       UnRegisterSettingPowerModeObserver E;
       log_call (Event UnSubscribeCommonEvent);
       whenM (F_MSDP_MOVEMENT E) (UnRegisterMovementCallback E);
       UnregisterExternalCallback E;
       log_call (Service ExtWrapperDeInit);
       log_call (Service ModuleDestroy) } }"

definition Pms_Reset :: "unit M" where
  "Pms_Reset = do {
     PsmReset;
     p \<leftarrow> gets ptrs;
     whenM (suspendController p) SuspReset;
     whenM (screenOffPreController p) Pre_Reset }"

section \<open>Requests that read\<close>

definition GetShutdownReason :: "env \<Rightarrow> (PowerErrors + string) M" where
  "GetShutdownReason E = do {
     system \<leftarrow> ask_bool E (Service PermissionIsSystem);
     State_Monad.return (if \<not> system then Inl ERR_SYSTEM_API_DENIED
       else Inr (strParameter E ''persist.dfx.shutdown_reason'' '''')) }"

definition CheckPowerConfig :: "env \<Rightarrow> PowerErrors option M" where
  "CheckPowerConfig E = do {
     system \<leftarrow> ask_bool E (Service PermissionIsSystem);
     if \<not> system then State_Monad.return (Some ERR_SYSTEM_API_DENIED)
     else do {
       ok \<leftarrow> granted E ''ohos.permission.POWER_CONFIG'';
       State_Monad.return (if ok then None else Some ERR_PERMISSION_DENIED) } }"

definition PmsGetPowerConfig :: "env \<Rightarrow> string \<Rightarrow> (PowerErrors + string) M" where
  "PmsGetPowerConfig E sceneName = do {
     denied \<leftarrow> CheckPowerConfig E;
     case denied of
       Some e \<Rightarrow> State_Monad.return (Inl e)
     | None \<Rightarrow> do {
         r \<leftarrow> SystemGetPowerConfig E sceneName;
         State_Monad.return (case r of None \<Rightarrow> Inl ERR_READ_OPERATION_FAILED | Some v \<Rightarrow> Inr v) } }"

definition PmsSetPowerConfig :: "env \<Rightarrow> string \<Rightarrow> string \<Rightarrow> PowerErrors M" where
  "PmsSetPowerConfig E sceneName configVal = do {
     denied \<leftarrow> CheckPowerConfig E;
     case denied of
       Some e \<Rightarrow> State_Monad.return e
     | None \<Rightarrow> do {
         ok \<leftarrow> SystemSetPowerConfig E sceneName configVal;
         State_Monad.return (if ok then ERR_OK else ERR_WRITE_OPERATION_FAILED) } }"

definition PmsGetState :: "PowerState M" where
  "PmsGetState = gets (\<lambda>w. currentState (psm w))"

definition PmsIsFoldScreenOn :: "env \<Rightarrow> bool M" where
  "PmsIsFoldScreenOn E = IsFoldScreenOn E"

definition PmsIsCollaborationScreenOn :: "bool M" where
  "PmsIsCollaborationScreenOn = IsCollaborationScreenOn"

definition IsForceSleeping :: "env \<Rightarrow> bool M" where
  "IsForceSleeping E = gets (\<lambda>w. suspendController (ptrs w) \<and> F_FORCE_SLEEP_BROADCAST E \<and> forceSleeping (susp w))"

definition IsCollaborationState :: "env \<Rightarrow> bool M" where
  "IsCollaborationState E = do {
     p \<leftarrow> gets ptrs;
     if \<not> pms p then State_Monad.return False else IsRunningLockEnabled E RUNNINGLOCK_COORDINATION }"

definition PmsIsExistAudioStream :: "int \<Rightarrow> bool M" where
  "PmsIsExistAudioStream uid = IsExistAudioStream uid"

definition PmsIsUsed :: "obj \<Rightarrow> bool M" where
  "PmsIsUsed remoteObj = IsUsed remoteObj"

text \<open>\<open>None\<close>: the standby service could not be asked, the variable of the caller keeps its value.\<close>

definition IsStandby :: "env \<Rightarrow> (PowerErrors \<times> bool option) M" where
  "IsStandby E =
    (if \<not> F_DEVICE_STANDBY E then State_Monad.return (ERR_OK, None)
     else do {
       standby \<leftarrow> gets (\<lambda>w. extBool E (Service DeviceInStandby) (trace w));
       code \<leftarrow> ask_int E (Service DeviceInStandby);
       State_Monad.return (if code = 0 then ERR_OK else ERR_FAILURE, Some standby) })"

end
