(* ===== verification/Event_Laws.thy ===== *)
theory Event_Laws
  imports Service_Lifecycle Control_Laws
begin

text \<open>
  Laws of the events of the service: external screens, the retries of the power dialog, the return of
  the display manager and what a stopped service still holds.
\<close>

section \<open>External screens\<close>

abbreviation screens :: "world \<Rightarrow> int" where
  "screens w \<equiv> externalScreenNumber (psm w)"

lemma outer_screens: "outer screens" "beside_locks screens"
  by (simp_all add: outer_def inert_def beside_locks_def ig_defs ig_quiet_def ig_monitor_def ig_customized_def)

lemma keeps_screen_powers:
  assumes "outer f"
  shows "keeps f (PowerOnAllScreens E t)" "keeps f (PowerOffAllScreens E s)" "keeps f (is_real_screen E i)"
    "keeps f (IsVirtualScreen E i)" "keeps f (ExecSuspendMonitorByReason E s)"
  using assms outer_ig [OF assms]
  by (auto simp: PowerOnAllScreens_def PowerOffAllScreens_def is_real_screen_def
      IsVirtualScreen_def ExecSuspendMonitorByReason_def SetDelayTimerTask_def SetTimer_def SubmitDelayTask_def
      trace_app intro!: keeps_intros split: option.split)

lemma keeps_PmsWakeupDevice:
  assumes "beside_locks f"
  shows "keeps f (PmsWakeupDevice E n r d)"
  using beside_locksD [OF assms] outer_ig [OF beside_locksD(1) [OF assms]] outer_psm [OF beside_locksD(1) [OF assms]]
  by (auto simp: PmsWakeupDevice_def CheckCaller_def SetDozeMode_def trace_app
      intro!: keeps_intros keeps_with_background_lock [OF assms])

lemma keeps_screens_refresh: "keeps screens (refresh_cable E)"
  using keeps_refresh(2) [OF outer_screens(1)] outer_ig [OF outer_screens(1)]
  by (auto simp: refresh_cable_def intro!: keeps_intros)

lemma keeps_screens_queries:
  "keeps screens (IsLidOrSwitchOpen E)" "keeps screens (IsScreenOnAcqLock E)" "keeps screens (IsScreenOn E)"
  using outer_ig [OF outer_screens(1)]
  by (auto simp: IsLidOrSwitchOpen_def IsSwitchOpen_def IsScreenOnAcqLock_def intro!: keeps_intros)

lemmas screens_frames = keeps_screens_queries keeps_screens_refresh keeps_PmsWakeupDevice [OF outer_screens(2)]
  keeps_screen_powers [OF outer_screens(1)] keeps_screens [OF outer_screens(1)]

text \<open>
  The number that the state machine reports: on a device with two built-in screens one less than the
  number it keeps.
\<close>

definition shown_screens :: "world \<Rightarrow> int" where
  "shown_screens w = result GetExternalScreenNumber w"

lemma exec_GetExternalScreenNumber [simp]: "exec GetExternalScreenNumber w = w"
  by (simp add: GetExternalScreenNumber_def)

lemma screens_connected: "screens (exec (screen_connected E) w) = wrap32 (shown_screens w + 1)"
  and screens_disconnected: "screens (exec (screen_disconnected E) w) = max (wrap32 (shown_screens w - 1)) 0"
  by (simp_all add: screen_connected_def screen_disconnected_def Let_def whenM_def shown_screens_def
      SetExternalScreenNumber_def access_defs screens_frames [THEN keepsD])

text \<open>With the lid closed the last screen that goes asks for a suspend, whatever the display shows.\<close>

lemma last_screen_suspends:
  assumes "psmTimer (ptrs w)" and "\<not> result (IsLidOrSwitchOpen E) w"
    and zero: "max (wrap32 (result GetExternalScreenNumber w - 1)) 0 = 0"
  shows "hd (trace (exec (screen_disconnected E) w)) =
    Queue (QueueSubmit POWER_TIMER (TaskSuspendMonitor SUSPEND_DEVICE_REASON_SWITCH) 0)"
proof -
  define v where "v = exec (IsScreenOn E) (exec (IsLidOrSwitchOpen E) (exec (SetExternalScreenNumber 0) w))"
  have lid: "result (IsLidOrSwitchOpen E) (exec (SetExternalScreenNumber 0) w) = result (IsLidOrSwitchOpen E) w"
    by (simp add: IsLidOrSwitchOpen_def IsSwitchOpen_def SetExternalScreenNumber_def access_defs)
  have "exec (screen_disconnected E) w = exec (ExecSuspendMonitorByReason E SUSPEND_DEVICE_REASON_SWITCH) v"
    using assms(2) lid by (simp add: screen_disconnected_def v_def whenM_def Let_def zero)
  moreover have "psmTimer (ptrs v)"
  proof -
    have "keeps ptrs (IsScreenOn E)" "keeps ptrs (IsLidOrSwitchOpen E)" "keeps ptrs (SetExternalScreenNumber 0)"
      by (auto simp: IsLidOrSwitchOpen_def IsSwitchOpen_def SetExternalScreenNumber_def ig_defs ig_quiet_def
          intro!: keeps_intros)
    then show ?thesis using assms(1) by (simp add: v_def keepsD)
  qed
  moreover have "find (\<lambda>t. FFRTTimerId_val t = 4) all_timer_ids = Some TIMER_ID_PRE_BRIGHT_AUTH"
    by (simp add: all_timer_ids_def)
  ultimately show ?thesis
    by (simp add: ExecSuspendMonitorByReason_def SetDelayTimerTask_def SWITCH_TRIGGER_WAKEUP_OR_SUSPEND_MSG_def
        SetTimer_def SubmitDelayTask_def access_defs)
qed

lemma shown_screens_queries:
  "shown_screens (exec (is_real_screen E i) w) = shown_screens w" (is ?real)
  "shown_screens (exec (IsVirtualScreen E i) w) = shown_screens w" (is ?virtual)
proof -
  have "keeps psm (is_real_screen E i)" "keeps psm (IsVirtualScreen E i)"
    by (auto simp: is_real_screen_def IsVirtualScreen_def intro!: keeps_intros)
  then show ?real ?virtual
    by (simp_all add: shown_screens_def GetExternalScreenNumber_def keepsD)
qed

text \<open>
  C28: on a device with one built-in screen the number of external screens follows the events: a real screen
  adds one, one that goes takes one away but never below zero, virtual screens and repeated reports change nothing;
  and with the lid closed the last screen that goes asks for a suspend, whatever the display shows.
\<close>

theorem external_screens_counted:
  assumes "suspendController (ptrs w)" and "wakeupController (ptrs w)" and "psmTimer (ptrs w)"
    and "switchAction (psm w) \<noteq> SWITCH_ACTION_DUAL_SCREEN" and "0 \<le> screens w" and "screens w < 2 ^ 31 - 1"
  shows "screens (exec (OnConnect E i) w) = screens w + of_bool (result (is_real_screen E i) w) \<and>
    screens (exec (OnDisconnect E i) w) =
      (if result (IsVirtualScreen E i) w then screens w else max (screens w - 1) 0) \<and>
    screens (exec (NotifyAbnormalScreenConnectChange E i) w) = screens w \<and>
    (\<not> result (IsVirtualScreen E i) w \<and> \<not> result (IsLidOrSwitchOpen E) w \<and> screens w \<le> 1 \<longrightarrow>
      hd (trace (exec (OnDisconnect E i) w)) =
        Queue (QueueSubmit POWER_TIMER (TaskSuspendMonitor SUSPEND_DEVICE_REASON_SWITCH) 0))"
proof -
  have shown: "shown_screens w = screens w"
    using assms(4) by (cases "switchAction (psm w)")
      (simp_all add: shown_screens_def GetExternalScreenNumber_def Let_def DoWakeupInClosedState_def)
  have range: "wrap32 (screens w + 1) = screens w + 1" "wrap32 (screens w - 1) = screens w - 1"
    using assms(5,6) by (auto simp: int32_def intro!: wrap32_id)
  have ptrs: "ptrs (exec (is_real_screen E i) w) = ptrs w" "ptrs (exec (IsVirtualScreen E i) w) = ptrs w"
    by (simp_all add: is_real_screen_def IsVirtualScreen_def access_defs)
  note queries = screens_frames(8,9) [THEN keepsD]
  have connect: "screens (exec (OnConnect E i) w) = screens w + of_bool (result (is_real_screen E i) w)"
    using assms(1,2) shown range
    by (simp add: OnConnect_def whenM_def ptrs screens_connected shown_screens_queries queries)
  have gone: "screens (exec (OnDisconnect E i) w) =
      (if result (IsVirtualScreen E i) w then screens w else max (screens w - 1) 0)"
    using assms(1) shown range
    by (simp add: OnDisconnect_def whenM_def ptrs screens_disconnected shown_screens_queries queries)
  have abnormal: "screens (exec (NotifyAbnormalScreenConnectChange E i) w) = screens w"
    by (simp add: NotifyAbnormalScreenConnectChange_def whenM_def screens_frames [THEN keepsD])
  have last: "hd (trace (exec (OnDisconnect E i) w)) =
        Queue (QueueSubmit POWER_TIMER (TaskSuspendMonitor SUSPEND_DEVICE_REASON_SWITCH) 0)"
    if "\<not> result (IsVirtualScreen E i) w" "\<not> result (IsLidOrSwitchOpen E) w" "screens w \<le> 1"
  proof -
    let ?w = "exec (IsVirtualScreen E i) w"
    have "psm ?w = psm w" "svc ?w = svc w"
      by (simp_all add: IsVirtualScreen_def access_defs)
    then have "\<not> result (IsLidOrSwitchOpen E) ?w"
      using that(2) by (simp add: IsLidOrSwitchOpen_def IsSwitchOpen_def split: if_splits)
    moreover have "max (wrap32 (result GetExternalScreenNumber ?w - 1)) 0 = 0"
      using shown range that(3) shown_screens_queries(2) [of E i w] by (simp add: shown_screens_def)
    ultimately show ?thesis
      using last_screen_suspends [of ?w E] assms(1,3) that(1) ptrs by (simp add: OnDisconnect_def whenM_def)
  qed
  show ?thesis using connect gone abnormal last by simp
qed

text \<open>
  On a device with two built-in screens a connected screen is not counted.  What is read is one less
  than what is kept, and what is kept is set to what is read plus one.
\<close>

lemma dual_screen_connect_not_counted:
  assumes "switchAction (psm w) = SWITCH_ACTION_DUAL_SCREEN" and "1 \<le> screens w" and "screens w < 2 ^ 31"
  shows "screens (exec (OnConnect E i) w) = screens w"
proof -
  have shown: "shown_screens w = screens w - 1"
    using assms by (simp add: shown_screens_def GetExternalScreenNumber_def Let_def DoWakeupInClosedState_def)
  have "wrap32 (screens w) = screens w" using assms by (auto simp: int32_def intro!: wrap32_id)
  then show ?thesis
    using shown by (simp add: OnConnect_def whenM_def screens_connected shown_screens_queries
        screens_frames(8,9) [THEN keepsD])
qed

theorem external_screens_counted_witness:
  "screens (exec (OnConnect sample_env 7) sample_world) = 0 \<and>
   screens (exec (OnDisconnect (sample_env\<lparr>extBool := (\<lambda>_ _. False)\<rparr>) 7) sample_world) = 0"
proof -
  have w: "suspendController (ptrs sample_world)" "wakeupController (ptrs sample_world)" "psmTimer (ptrs sample_world)"
    "switchAction (psm sample_world) \<noteq> SWITCH_ACTION_DUAL_SCREEN" "0 \<le> screens sample_world"
    "screens sample_world < 2 ^ 31 - 1" "screens sample_world = 0"
    by (simp_all add: sample_defs)
  have "\<not> result (is_real_screen sample_env 7) sample_world"
    by (simp add: is_real_screen_def access_defs sample_env_def)
  then show ?thesis
    using external_screens_counted [OF w(1-6), of sample_env 7] w(7)
      external_screens_counted [OF w(1-6), of "sample_env\<lparr>extBool := (\<lambda>_ _. False)\<rparr>" 7] by (simp split: if_splits)
qed

definition dual_screen_world :: world where
  "dual_screen_world = sample_world\<lparr>psm := (psm sample_world)\<lparr>switchAction := SWITCH_ACTION_DUAL_SCREEN,
     externalScreenNumber := 1\<rparr>\<rparr>"

theorem dual_screen_connect_not_counted_witness:
  "screens (exec (OnConnect (sample_env\<lparr>extBool := (\<lambda>c tr. c = Window (ScreenInfo 7))\<rparr>) 7) dual_screen_world) = 1 \<and>
   result (is_real_screen (sample_env\<lparr>extBool := (\<lambda>c tr. c = Window (ScreenInfo 7))\<rparr>) 7) dual_screen_world"
proof -
  have w: "switchAction (psm dual_screen_world) = SWITCH_ACTION_DUAL_SCREEN" "1 \<le> screens dual_screen_world"
    "screens dual_screen_world < 2 ^ 31" "screens dual_screen_world = 1"
    by (simp_all add: dual_screen_world_def)
  have "result (is_real_screen (sample_env\<lparr>extBool := (\<lambda>c tr. c = Window (ScreenInfo 7))\<rparr>) 7) dual_screen_world"
    by (simp add: is_real_screen_def access_defs)
  then show ?thesis using dual_screen_connect_not_counted [OF w(1-3)] w(4) by simp
qed

section \<open>The power dialog\<close>

definition is_retry :: "ext_call \<Rightarrow> bool" where
  "is_retry c = (\<exists>d. c = Queue (QueueSubmit SHUTDOWN_DIALOG_QUEUE TaskKeyMonitorInit d))"

text \<open>The retries that have been submitted, and the counter that limits them.\<close>

definition retry_view :: "world \<Rightarrow> nat \<times> int" where
  "retry_view w = (length (filter is_retry (trace w)), dialogRetryCount (dialog (svc w)))"

inductive dialog_step :: "env \<Rightarrow> world \<Rightarrow> world \<Rightarrow> bool" for E where
  subscribe: "dialog_step E w (exec (Dialog_KeyMonitorInit E) w)"
| cancel: "dialog_step E w (exec (Dialog_KeyMonitorCancel E) w)"
| pressed: "dialog_step E w (exec (long_press_event E) w)"
| load: "dialog_step E w (exec (LoadDialogConfig E) w)"
| elsewhere: "retry_view w' = retry_view w \<Longrightarrow> dialog_step E w w'"

lemma retry_view_simps [simp]:
  "is_retry (Service s) = False" "is_retry (Settings t) = False" "is_retry (Queue (SubmitTask k)) = False"
  "is_retry (Queue (QueueSubmit SHUTDOWN_DIALOG_QUEUE TaskKeyMonitorInit d))"
  by (simp_all add: is_retry_def)

lemma keeps_retry_view:
  "keeps retry_view (Dialog_KeyMonitorCancel E)" "keeps retry_view (long_press_event E)"
  "keeps retry_view (LoadDialogConfig E)"
proof -
  have settings: "ig_settings retry_view" by (simp add: ig_settings_def retry_view_def)
  show "keeps retry_view (Dialog_KeyMonitorCancel E)"
    by (auto simp: Dialog_KeyMonitorCancel_def mod_dialog_def retry_view_def intro!: keeps_intros)
  have "keeps retry_view (OnAbilityConnectDone r)" for r
    by (auto simp: OnAbilityConnectDone_def mod_dialog_def retry_view_def intro!: keeps_intros split: option.split)
  moreover have "keeps retry_view (GetBlockLongPress E)"
    unfolding GetBlockLongPress_def by (intro keeps_bind keeps_return keeps_provider_settings(1) settings)
  ultimately show "keeps retry_view (long_press_event E)"
    by (auto simp: long_press_event_def StartDialog_def ConnectSystemUi_def dialog_StartVibrator_def
        PowerVibrator_StartVibrator_def retry_view_def intro!: keeps_intros split: option.split)
  show "keeps retry_view (LoadDialogConfig E)"
    by (auto simp: LoadDialogConfig_def ParseJsonConfig_def mod_dialog_def retry_view_def
        intro!: keeps_intros split: option.split Json.split prod.split)
qed

lemma Dialog_KeyMonitorInit_view:
  "retry_view (exec (Dialog_KeyMonitorInit E) w) = retry_view w \<or>
   (snd (retry_view w) \<le> 3 \<and>
    retry_view (exec (Dialog_KeyMonitorInit E) w) = (Suc (fst (retry_view w)), snd (retry_view w) + 1))"
  by (simp add: Dialog_KeyMonitorInit_def whenM_def mod_dialog_def SubmitDelayTask_def access_defs retry_view_def
      INIT_LONG_PRESS_RETRY_def)

lemma dialog_step_retries:
  assumes "dialog_step E w w'" and "int (fst (retry_view w)) + 1 = snd (retry_view w)" and "snd (retry_view w) \<le> 4"
  shows "int (fst (retry_view w')) + 1 = snd (retry_view w') \<and> snd (retry_view w') \<le> 4"
  using assms(1)
proof cases
  case subscribe
  then show ?thesis using Dialog_KeyMonitorInit_view [of E w] assms(2,3) by auto
qed (use assms(2,3) keeps_retry_view [THEN keepsD] in auto)

text \<open>
  The subscription of the long press is retried at most three times, in every run of initialisations,
  retries, key events and other work of the service, however often the input service refuses it.
\<close>

lemma long_press_retries_bounded:
  assumes "(dialog_step E)\<^sup>*\<^sup>* w w'" and "retry_view w = (0, 1)"
  shows "length (filter is_retry (trace w')) \<le> 3 \<and>
    dialogRetryCount (dialog (svc w')) = int (length (filter is_retry (trace w'))) + 1"
proof -
  have "int (fst (retry_view w')) + 1 = snd (retry_view w') \<and> snd (retry_view w') \<le> 4"
    using assms(1)
  proof induction
    case base
    then show ?case by (simp add: assms(2))
  next
    case (step y z)
    then show ?case using dialog_step_retries by blast
  qed
  then show ?thesis by (auto simp: retry_view_def)
qed


theorem long_press_retries_bounded_witness:
  "length (filter is_retry (trace (exec (Dialog_KeyMonitorInit (sample_env\<lparr>F_MULTIMODAL_INPUT := True,
     extInt := (\<lambda>_ _. -1)\<rparr>)) sample_world))) \<le> 3 \<and>
   trace (exec (Dialog_KeyMonitorInit (sample_env\<lparr>F_MULTIMODAL_INPUT := True, extInt := (\<lambda>_ _. -1)\<rparr>)) sample_world) \<noteq> []"
proof -
  let ?E = "sample_env\<lparr>F_MULTIMODAL_INPUT := True, extInt := (\<lambda>_ _. -1)\<rparr>"
  have "(dialog_step ?E)\<^sup>*\<^sup>* sample_world (exec (Dialog_KeyMonitorInit ?E) sample_world)"
    by (rule r_into_rtranclp, rule dialog_step.subscribe)
  moreover have "retry_view sample_world = (0, 1)" by (simp add: retry_view_def sample_world_def)
  ultimately have "length (filter is_retry (trace (exec (Dialog_KeyMonitorInit ?E) sample_world))) \<le> 3"
    using long_press_retries_bounded by blast
  then show ?thesis
    by (simp add: Dialog_KeyMonitorInit_def whenM_def mod_dialog_def SubmitDelayTask_def access_defs)
qed

section \<open>The display manager\<close>

lemma keeps_svc_report: "keeps svc (report_switch_state E)"
  by (auto simp: report_switch_state_def DoReportSwitchState_def IsSwitchOpenByPath_def IsFoldScreenOn_def ig_defs ig_quiet_def
      intro!: keeps_intros split: option.split)

text \<open>
  When the display manager returns after a crash, the service asks for its initialisation to run
  again, once: the crash is forgotten.  A display manager that appears without having crashed changes
  neither flag.
\<close>

lemma display_manager_return:
  fixes E :: env and w :: world
  assumes "F_DISPLAY_MANAGER E"
  defines "sa \<equiv> ''DISPLAY_MANAGER_SERVICE_SA_ID''"
  defines "back \<equiv> exec (OnAddSystemAbility E sa) (exec (OnRemoveSystemAbility E sa) w)"
  shows "needReInit (svc back) \<and> \<not> displayManagerServiceCrash (svc back) \<and>
    hd (trace back) = Service RegisterBootCompleted \<and>
    (\<not> displayManagerServiceCrash (svc w) \<longrightarrow> svc (exec (OnAddSystemAbility E sa) w) = svc w)"
proof -
  have gone: "exec (OnRemoveSystemAbility E sa) w = w\<lparr>svc := (svc w)\<lparr>displayManagerServiceCrash := True\<rparr>\<rparr>"
    by (simp add: OnRemoveSystemAbility_def whenM_def access_defs sa_def)
  have add: "exec (OnAddSystemAbility E sa) v =
      (let u = exec (report_switch_state E) v in
       if displayManagerServiceCrash (svc u)
       then u\<lparr>trace := Service RegisterBootCompleted # trace u,
              svc := (svc u)\<lparr>needReInit := True, displayManagerServiceCrash := False\<rparr>\<rparr> else u)" for v
    using assms(1)
    by (simp add: OnAddSystemAbility_def OnAddSystemAbilityInner_def whenM_def RegisterBootCompletedCallback_def
        access_defs sa_def Let_def)
  show ?thesis
    using keepsD [OF keeps_svc_report, of E w]
      keepsD [OF keeps_svc_report, of E "w\<lparr>svc := (svc w)\<lparr>displayManagerServiceCrash := True\<rparr>\<rparr>"]
    unfolding back_def gone add by (simp add: Let_def)
qed


theorem display_manager_return_witness:
  "needReInit (svc (exec (OnAddSystemAbility (sample_env\<lparr>F_DISPLAY_MANAGER := True\<rparr>) ''DISPLAY_MANAGER_SERVICE_SA_ID'')
     (exec (OnRemoveSystemAbility (sample_env\<lparr>F_DISPLAY_MANAGER := True\<rparr>) ''DISPLAY_MANAGER_SERVICE_SA_ID'') sample_world))) \<and>
   \<not> needReInit (svc sample_world)"
proof -
  have "F_DISPLAY_MANAGER (sample_env\<lparr>F_DISPLAY_MANAGER := True\<rparr>)" "\<not> needReInit (svc sample_world)"
    by (simp_all add: sample_world_def)
  with display_manager_return [of "sample_env\<lparr>F_DISPLAY_MANAGER := True\<rparr>" sample_world] show ?thesis by blast
qed

section \<open>Stop\<close>

lemma sensor_listed_svc: "keeps svc (sensor_listed E t n i)"
  by (induction n arbitrary: i) (auto intro!: keeps_intros)

lemma keeps_svc_stop:
  "keeps svc (IsSupportSensor E t)" "keeps svc (UnregisterSettingWakeupDoubleObserver E)"
  "keeps svc (UnregisterSettingWakeupPickupObserver E)" "keeps svc (UnRegisterSettingWakeupLidObserver E)"
  "keeps svc (UnRegisterSettingPowerModeObserver E)" "keeps svc (ext_call E name)"
  by (auto simp: IsSupportSensor_def UnregisterSettingWakeupDoubleObserver_def UnregisterSettingWakeupPickupObserver_def
      UnRegisterSettingWakeupLidObserver_def UnRegisterSettingPowerModeObserver_def ext_call_def
      IsWakeupLidSettingValid_def ig_defs ig_quiet_def
      intro!: keeps_intros sensor_listed_svc)

text \<open>The subscriptions of the service that its state records.\<close>

definition holds_nothing :: "svc_state \<Rightarrow> bool" where
  "holds_nothing s = (switchSubscriberId s < 0 \<and> inputMonitorId s < 0 \<and> \<not> externalScreenListener s \<and>
     \<not> abnormalExScreenListener s)"

lemma stop_subscriptions:
  assumes "F_MULTIMODAL_INPUT E" and "\<forall>tr. extBool E (Service InputManagerPresent) tr" and "F_EXTERNAL_SCREEN E"
  shows "holds_nothing (svc (exec (InputMonitorCancel E) (exec (SwitchSubscriberCancel E)
    (exec (UnRegisterExternalScreenListener E) w))))"
  using assms
  by (simp add: InputMonitorCancel_def SwitchSubscriberCancel_def UnRegisterExternalScreenListener_def whenM_def
      access_defs holds_nothing_def)

text \<open>
  A service that stops gives back its subscriptions to switch events, input events and screens and is
  neither ready nor booted afterwards; stopping it again does nothing.
\<close>

lemma stopped_service_holds_nothing:
  assumes "serviceReady (svc w)" and "F_MULTIMODAL_INPUT E" and "\<forall>tr. extBool E (Service InputManagerPresent) tr"
    and "F_EXTERNAL_SCREEN E"
  shows "holds_nothing (svc (exec (OnStop E) w)) \<and> \<not> serviceReady (svc (exec (OnStop E) w)) \<and>
    \<not> bootCompleted (svc (exec (OnStop E) w)) \<and> exec (OnStop E) (exec (OnStop E) w) = exec (OnStop E) w"
proof -
  have listeners: "keeps svc (for_each (\<lambda>a. log_call (Service (RemoveAbilityListener a))) as)" for as
    by (auto intro!: keeps_intros)
  define v where "v = exec (HallSensorSubscriberCancel E) (exec (KeyMonitorCancel E) (exec (UnRegisterPowerHdiCallback E)
     (exec (whenM (suspendController (ptrs (exec (UnregisterDisplayOffTimeObserver E)
       (exec (CancelDelayTimer E CHECK_USER_ACTIVITY_OFF_TIMEOUT_MSG)
         (exec (CancelDelayTimer E CHECK_USER_ACTIVITY_TIMEOUT_MSG) w))))) (StopSleep E))
       (exec (UnregisterDisplayOffTimeObserver E) (exec (CancelDelayTimer E CHECK_USER_ACTIVITY_OFF_TIMEOUT_MSG)
         (exec (CancelDelayTimer E CHECK_USER_ACTIVITY_TIMEOUT_MSG) w))))))"
  have "svc (exec (OnStop E) w) = (svc (exec (InputMonitorCancel E) (exec (SwitchSubscriberCancel E)
    (exec (UnRegisterExternalScreenListener E) v))))\<lparr>serviceReady := False, bootCompleted := False\<rparr>"
    using assms(1,4)
    by (simp add: OnStop_def whenM_def v_def UnRegisterMovementCallback_def UnregisterExternalCallback_def
        keepsD [OF listeners] keeps_svc_stop [THEN keepsD] mod_svc_def log_call_def)
  moreover have "exec (OnStop E) u = u" if "\<not> serviceReady (svc u)" for u
    using that by (simp add: OnStop_def)
  ultimately show ?thesis
    using stop_subscriptions [OF assms(2-4), of v] by (simp add: holds_nothing_def)
qed


definition input_env :: env where
  "input_env = sample_env\<lparr>F_MULTIMODAL_INPUT := True, F_EXTERNAL_SCREEN := True\<rparr>"

theorem stopped_service_holds_nothing_witness:
  "holds_nothing (svc (exec (OnStop input_env) (sample_world\<lparr>svc := (svc sample_world)\<lparr>inputMonitorId := 4\<rparr>\<rparr>)))"
proof -
  have "serviceReady (svc (sample_world\<lparr>svc := (svc sample_world)\<lparr>inputMonitorId := 4\<rparr>\<rparr>))"
    "F_MULTIMODAL_INPUT input_env" "\<forall>tr. extBool input_env (Service InputManagerPresent) tr" "F_EXTERNAL_SCREEN input_env"
    by (simp_all add: sample_world_def input_env_def sample_env_def)
  from stopped_service_holds_nothing [OF this] show ?thesis by blast
qed

end
