(* ===== verification/Ipc_Adapter.thy ===== *)
theory Ipc_Adapter
  imports Service_Lifecycle Force_Suspend Power_Mode Screen_Saver
begin

text \<open>
  The entry points of the service for requests from other processes: \<open>power_mgr_service_ipc_adapter.cpp\<close>.
  An entry point converts its arguments, calls the method of the service and passes the result on in two ways: the
  integer it returns, and output arguments (here the second component).  Conversions between an
  enumeration and its number are identities and left out; the watchdog \<open>PowerXCollie\<close> only reports.
  Also here: \<open>power_mgr_dumper.cpp\<close>, which serves the request of a shell and which can change the state.
\<close>

section \<open>Results\<close>

definition INIT_VALUE :: int where "INIT_VALUE = -1"
definition MAX_PARAM_NUM :: nat where "MAX_PARAM_NUM = 2000"

primrec PowerErrors_val :: "PowerErrors \<Rightarrow> int" where
    "PowerErrors_val ERR_OK = 0"
  | "PowerErrors_val ERR_FAILURE = 1"
  | "PowerErrors_val ERR_PERMISSION_DENIED = 201"
  | "PowerErrors_val ERR_SYSTEM_API_DENIED = 202"
  | "PowerErrors_val ERR_ENTERPRISE_POLICIES_DENIED = 203"
  | "PowerErrors_val ERR_PARAM_INVALID = 401"
  | "PowerErrors_val ERR_CONNECTION_FAIL = 4900101"
  | "PowerErrors_val ERR_FREQUENT_FUNCTION_CALL = 4900201"
  | "PowerErrors_val ERR_POWER_MODE_TRANSIT_FAILED = 4900301"
  | "PowerErrors_val ERR_SKIP_FUNCTION_CALL = 4900401"
  | "PowerErrors_val ERR_READ_OPERATION_FAILED = 4900501"
  | "PowerErrors_val ERR_USER_PARAM_INVALID = 4900400"
  | "PowerErrors_val ERR_WRITE_OPERATION_FAILED = 4900601"
  | "PowerErrors_val ERR_SCREEN_OFF_BLOCKED = 4900701"
  | "PowerErrors_val ERR_CAPABILITY_NOT_SUPPORTED = 801"

text \<open>A method whose result goes to an output argument, and one whose result is dropped.\<close>

definition ipc_out :: "'a M \<Rightarrow> (int \<times> 'a) M" where
  "ipc_out m = do { r \<leftarrow> m; State_Monad.return (0, r) }"

definition ipc_drop :: "'a M \<Rightarrow> int M" where
  "ipc_drop m = do { _ \<leftarrow> m; State_Monad.return 0 }"

definition ipc_bool :: "bool M \<Rightarrow> int M" where
  "ipc_bool m = do { ok \<leftarrow> m; State_Monad.return (if ok then 0 else INIT_VALUE) }"

section \<open>Device power\<close>

definition RebootDeviceIpc :: "env \<Rightarrow> string \<Rightarrow> (int \<times> PowerErrors) M" where
  "RebootDeviceIpc E reason = ipc_out (PmsRebootDevice E reason)"

definition RebootDeviceForDeprecatedIpc :: "env \<Rightarrow> string \<Rightarrow> (int \<times> PowerErrors) M" where
  "RebootDeviceForDeprecatedIpc E reason = ipc_out (RebootDeviceForDeprecated E reason False)"

definition ForceRebootDeviceIpc :: "env \<Rightarrow> string \<Rightarrow> (int \<times> PowerErrors) M" where
  "ForceRebootDeviceIpc E reason = ipc_out (PmsForceRebootDevice E reason)"

definition ShutDownDeviceIpc :: "env \<Rightarrow> string \<Rightarrow> (int \<times> PowerErrors) M" where
  "ShutDownDeviceIpc E reason = ipc_out (PmsShutDownDevice E reason)"

definition GetShutdownReasonIpc :: "env \<Rightarrow> (int \<times> (PowerErrors + string)) M" where
  "GetShutdownReasonIpc E = ipc_out (GetShutdownReason E)"

definition SetSuspendTagIpc :: "env \<Rightarrow> string \<Rightarrow> (int \<times> PowerErrors) M" where
  "SetSuspendTagIpc E tag = ipc_out (SetSuspendTag E tag)"

definition SuspendDeviceIpc :: "env \<Rightarrow> int \<Rightarrow> SuspendDeviceType \<Rightarrow> bool \<Rightarrow> (int \<times> PowerErrors) M" where
  "SuspendDeviceIpc E callTimeMs reason suspendImmed = ipc_out (PmsSuspendDevice E callTimeMs reason suspendImmed)"

definition WakeupDeviceIpc :: "env \<Rightarrow> int \<Rightarrow> WakeupDeviceType \<Rightarrow> string \<Rightarrow> (int \<times> PowerErrors) M" where
  "WakeupDeviceIpc E callTimeMs reason details = ipc_out (PmsWakeupDevice E callTimeMs reason details)"

definition WakeupDeviceAsyncIpc :: "env \<Rightarrow> int \<Rightarrow> WakeupDeviceType \<Rightarrow> string \<Rightarrow> int M" where
  "WakeupDeviceAsyncIpc E callTimeMs reason details = do {
     e \<leftarrow> PmsWakeupDevice E callTimeMs reason details;
     State_Monad.return (PowerErrors_val e) }"

definition RefreshActivityIpc :: "env \<Rightarrow> int \<Rightarrow> UserActivityType \<Rightarrow> int M" where
  "RefreshActivityIpc E callTimeMs type = ipc_drop (PmsRefreshActivity E callTimeMs type)"

definition RefreshActivityReasonIpc :: "env \<Rightarrow> int \<Rightarrow> UserActivityType \<Rightarrow> (int \<times> PowerErrors) M" where
  "RefreshActivityReasonIpc E callTimeMs type = ipc_out (PmsRefreshActivityReason E callTimeMs type)"

definition OverrideScreenOffTimeIpc :: "env \<Rightarrow> int \<Rightarrow> (int \<times> PowerErrors) M" where
  "OverrideScreenOffTimeIpc E timeout = ipc_out (OverrideScreenOffTime E timeout)"

definition RestoreScreenOffTimeIpc :: "env \<Rightarrow> (int \<times> PowerErrors) M" where
  "RestoreScreenOffTimeIpc E = ipc_out (RestoreScreenOffTime E)"

definition GetStateIpc :: "(int \<times> PowerState) M" where
  "GetStateIpc = ipc_out PmsGetState"

definition IsScreenOnIpc :: "env \<Rightarrow> (int \<times> bool) M" where
  "IsScreenOnIpc E = ipc_out (PmsIsScreenOn E)"

definition IsFoldScreenOnIpc :: "env \<Rightarrow> (int \<times> bool) M" where
  "IsFoldScreenOnIpc E = ipc_out (PmsIsFoldScreenOn E)"

definition IsCollaborationScreenOnIpc :: "(int \<times> bool) M" where
  "IsCollaborationScreenOnIpc = ipc_out PmsIsCollaborationScreenOn"

definition IsForceSleepingIpc :: "env \<Rightarrow> (int \<times> bool) M" where
  "IsForceSleepingIpc E = ipc_out (IsForceSleeping E)"

definition IsStandbyIpc :: "env \<Rightarrow> (int \<times> (PowerErrors \<times> bool option)) M" where
  "IsStandbyIpc E = ipc_out (IsStandby E)"

text \<open>The two requests that are answered by a call back: the replies sent are in the output.\<close>

definition ForceSuspendDeviceIpc :: "env \<Rightarrow> bool \<Rightarrow> (int \<times> int list) M" where
  "ForceSuspendDeviceIpc E powerProxy =
    (if \<not> powerProxy then State_Monad.return (INIT_VALUE, [])
     else do {
       e \<leftarrow> PmsForceSuspendDevice E;
       State_Monad.return (PowerErrors_val e, [PowerErrors_val e]) })"

definition HibernateIpc :: "env \<Rightarrow> bool \<Rightarrow> string \<Rightarrow> bool \<Rightarrow> (int \<times> int list) M" where
  "HibernateIpc E clearMemory reason powerProxy =
    (if \<not> powerProxy then State_Monad.return (INIT_VALUE, [])
     else do {
       e \<leftarrow> PmsHibernate E clearMemory reason;
       State_Monad.return (PowerErrors_val e, [PowerErrors_val e]) })"

text \<open>The forced suspend waits in the middle (theory \<open>Force_Suspend\<close>); so does its entry point.\<close>

definition ForceSuspendDeviceIgnoringWakelockIpc_begin :: "env \<Rightarrow> string \<Rightarrow> int option M" where
  "ForceSuspendDeviceIgnoringWakelockIpc_begin E tag = do {
     r \<leftarrow> ForceSuspendDeviceIgnoringWakelock_begin E tag;
     State_Monad.return (map_option PowerErrors_val r) }"

definition ForceSuspendDeviceIgnoringWakelockIpc_end :: "env \<Rightarrow> string \<Rightarrow> int M" where
  "ForceSuspendDeviceIgnoringWakelockIpc_end E tag = do {
     e \<leftarrow> ForceSuspendDeviceIgnoringWakelock_end E tag;
     State_Monad.return (PowerErrors_val e) }"

definition InterruptForceSuspendIpc :: "env \<Rightarrow> int M" where
  "InterruptForceSuspendIpc E = do {
     e \<leftarrow> InterruptForceSuspend E;
     State_Monad.return (PowerErrors_val e) }"

section \<open>Running locks\<close>

definition CreateRunningLockIpc :: "env \<Rightarrow> obj \<Rightarrow> RunningLockInfo \<Rightarrow> (int \<times> PowerErrors) M" where
  "CreateRunningLockIpc E remoteObj runningLockInfo = ipc_out (PmsCreateRunningLock E remoteObj runningLockInfo)"

definition ReleaseRunningLockIpc :: "env \<Rightarrow> obj \<Rightarrow> string \<Rightarrow> int M" where
  "ReleaseRunningLockIpc E remoteObj name = ipc_drop (PmsReleaseRunningLock E remoteObj name)"

definition UpdateWorkSourceIpc :: "env \<Rightarrow> obj \<Rightarrow> int list \<Rightarrow> int M" where
  "UpdateWorkSourceIpc E remoteObj workSources = ipc_drop (PmsUpdateWorkSource E remoteObj workSources)"

definition LockIpc :: "env \<Rightarrow> obj \<Rightarrow> int \<Rightarrow> (int \<times> PowerErrors) M" where
  "LockIpc E remoteObj timeOutMs = ipc_out (PmsLock E remoteObj timeOutMs)"

definition UnLockIpc :: "env \<Rightarrow> obj \<Rightarrow> string \<Rightarrow> (int \<times> PowerErrors) M" where
  "UnLockIpc E remoteObj name = ipc_out (PmsUnLock E remoteObj name)"

definition IsUsedIpc :: "obj \<Rightarrow> (int \<times> bool) M" where
  "IsUsedIpc remoteObj = ipc_out (PmsIsUsed remoteObj)"

definition IsRunningLockTypeSupportedIpc :: "env \<Rightarrow> RunningLockType \<Rightarrow> (int \<times> bool) M" where
  "IsRunningLockTypeSupportedIpc E type = ipc_out (IsRunningLockTypeSupported E type)"

definition IsRunningLockEnabledIpc :: "env \<Rightarrow> RunningLockType \<Rightarrow> nat \<Rightarrow> (int \<times> (PowerErrors \<times> bool)) M" where
  "IsRunningLockEnabledIpc E type display = ipc_out (PmsIsRunningLockEnabled E type display)"

definition QueryRunningLockListsIpc :: "env \<Rightarrow> nat \<Rightarrow> (int \<times> (string \<times> RunningLockInfo) list) M" where
  "QueryRunningLockListsIpc E display = do {
     r \<leftarrow> PmsQueryRunningLockLists E display;
     let runningLockLists = (case r of None \<Rightarrow> [] | Some ls \<Rightarrow> ls);
     State_Monad.return (if length runningLockLists > MAX_PARAM_NUM then INIT_VALUE else 0, runningLockLists) }"

definition ProxyRunningLockIpc :: "env \<Rightarrow> bool \<Rightarrow> int \<Rightarrow> int \<Rightarrow> int M" where
  "ProxyRunningLockIpc E isProxied pid uid = ipc_bool (PmsProxyRunningLock E isProxied pid uid)"

definition ProxyRunningLocksIpc :: "env \<Rightarrow> bool \<Rightarrow> (int \<times> int) list \<Rightarrow> int M" where
  "ProxyRunningLocksIpc E isProxied processInfos = ipc_bool (PmsProxyRunningLocks E isProxied processInfos)"

definition ResetRunningLocksIpc :: "env \<Rightarrow> int M" where
  "ResetRunningLocksIpc E = ipc_bool (PmsResetRunningLocks E)"

definition RegisterRunningLockCallbackIpc :: "env \<Rightarrow> obj \<Rightarrow> int M" where
  "RegisterRunningLockCallbackIpc E callback = ipc_drop (PmsRegisterRunningLockCallback E callback)"

definition UnRegisterRunningLockCallbackIpc :: "env \<Rightarrow> obj \<Rightarrow> int M" where
  "UnRegisterRunningLockCallbackIpc E callback = ipc_drop (PmsUnRegisterRunningLockCallback E callback)"

text \<open>Without the feature the output argument of the caller keeps its value (\<open>None\<close>).\<close>

definition RegisterRunningLockChangedCallbackIpc :: "env \<Rightarrow> obj option \<Rightarrow> nat \<Rightarrow> (int \<times> PowerErrors option) M" where
  "RegisterRunningLockChangedCallbackIpc E callback display =
    (if F_MONITOR_LOCK_CHANGE E then do {
       e \<leftarrow> PmsRegisterRunningLockChangedCallback E callback display;
       State_Monad.return (0, Some e) }
     else State_Monad.return (0, None))"

definition UnRegisterRunningLockChangedCallbackIpc :: "env \<Rightarrow> obj option \<Rightarrow> nat \<Rightarrow> (int \<times> PowerErrors option) M" where
  "UnRegisterRunningLockChangedCallbackIpc E callback display =
    (if F_MONITOR_LOCK_CHANGE E then do {
       e \<leftarrow> PmsUnRegisterRunningLockChangedCallback E callback display;
       State_Monad.return (0, Some e) }
     else State_Monad.return (0, None))"

section \<open>Registration of callbacks\<close>

definition RegisterPowerStateCallbackIpc :: "env \<Rightarrow> obj \<Rightarrow> bool \<Rightarrow> int M" where
  "RegisterPowerStateCallbackIpc E callback isSync = ipc_drop (PmsRegisterPowerStateCallback E callback isSync)"

definition UnRegisterPowerStateCallbackIpc :: "env \<Rightarrow> obj \<Rightarrow> int M" where
  "UnRegisterPowerStateCallbackIpc E callback = ipc_drop (PmsUnRegisterPowerStateCallback E callback)"

definition RegisterSyncSleepCallbackIpc :: "env \<Rightarrow> obj option \<Rightarrow> SleepPriority \<Rightarrow> int M" where
  "RegisterSyncSleepCallbackIpc E callback priority = ipc_drop (PmsRegisterSyncSleepCallback E callback priority)"

definition UnRegisterSyncSleepCallbackIpc :: "env \<Rightarrow> obj option \<Rightarrow> int M" where
  "UnRegisterSyncSleepCallbackIpc E callback = ipc_drop (PmsUnRegisterSyncSleepCallback E callback)"

definition RegisterSyncHibernateCallbackIpc :: "env \<Rightarrow> obj \<Rightarrow> HibernateCallbackPriority \<Rightarrow> int M" where
  "RegisterSyncHibernateCallbackIpc E callback priority =
     ipc_drop (PmsRegisterSyncHibernateCallback E callback priority)"

definition UnRegisterSyncHibernateCallbackIpc :: "env \<Rightarrow> obj \<Rightarrow> int M" where
  "UnRegisterSyncHibernateCallbackIpc E callback = ipc_drop (PmsUnRegisterSyncHibernateCallback E callback)"

definition RegisterPowerModeCallbackIpc :: "env \<Rightarrow> obj option \<Rightarrow> int M" where
  "RegisterPowerModeCallbackIpc E callback = ipc_drop (RegisterPowerModeCallback E callback)"

definition UnRegisterPowerModeCallbackIpc :: "env \<Rightarrow> obj option \<Rightarrow> int M" where
  "UnRegisterPowerModeCallbackIpc E callback = ipc_drop (UnRegisterPowerModeCallback E callback)"

definition RegisterSuspendTakeoverCallbackIpc :: "env \<Rightarrow> obj option \<Rightarrow> SleepPriority \<Rightarrow> int M" where
  "RegisterSuspendTakeoverCallbackIpc E callback priority =
    (if \<not> F_TAKEOVER_SUSPEND E \<or> callback = None then State_Monad.return INIT_VALUE
     else if priority \<notin> {PRIORITY_LOW, PRIORITY_DEFAULT, PRIORITY_HIGH} then State_Monad.return INIT_VALUE
     else ipc_bool (RegisterSuspendTakeoverCallback E callback priority))"

definition UnRegisterSuspendTakeoverCallbackIpc :: "env \<Rightarrow> obj option \<Rightarrow> int M" where
  "UnRegisterSuspendTakeoverCallbackIpc E callback =
    (if \<not> F_TAKEOVER_SUSPEND E \<or> callback = None then State_Monad.return INIT_VALUE
     else ipc_bool (UnRegisterSuspendTakeoverCallback E callback))"

definition RegisterScreenStateCallbackIpc :: "env \<Rightarrow> int \<Rightarrow> obj option \<Rightarrow> int M" where
  "RegisterScreenStateCallbackIpc E remainTime callback = ipc_drop (RegisterScreenStateCallback E remainTime callback)"

definition UnRegisterScreenStateCallbackIpc :: "env \<Rightarrow> obj option \<Rightarrow> int M" where
  "UnRegisterScreenStateCallbackIpc E callback = ipc_drop (UnRegisterScreenStateCallback E callback)"

text \<open>Three overloaded entry points, one for each kind of shutdown callback.\<close>

definition RegisterShutdownCallbackIpc :: "env \<Rightarrow> ShutdownHolderId \<Rightarrow> obj option \<Rightarrow> ShutdownPriority \<Rightarrow> int M" where
  "RegisterShutdownCallbackIpc E kind callback priority = ipc_drop (PmsRegisterShutdownCallback E kind callback priority)"

definition UnRegisterShutdownCallbackIpc :: "env \<Rightarrow> ShutdownHolderId \<Rightarrow> obj option \<Rightarrow> int M" where
  "UnRegisterShutdownCallbackIpc E kind callback = ipc_drop (PmsUnRegisterShutdownCallback E kind callback)"

definition RegisterAsyncShutdownCallbackIpc :: "env \<Rightarrow> obj option \<Rightarrow> ShutdownPriority \<Rightarrow> (int \<times> PowerErrors) M" where
  "RegisterAsyncShutdownCallbackIpc E callback priority =
     ipc_out (PmsRegisterAsyncShutdownCallback E callback priority)"

definition UnRegisterAsyncShutdownCallbackIpc :: "env \<Rightarrow> obj option \<Rightarrow> (int \<times> PowerErrors) M" where
  "UnRegisterAsyncShutdownCallbackIpc E callback = ipc_out (PmsUnRegisterAsyncShutdownCallback E callback)"

definition RegisterUlsrCallbackIpc :: "env \<Rightarrow> obj option \<Rightarrow> UlsrPriority \<Rightarrow> (int \<times> PowerErrors) M" where
  "RegisterUlsrCallbackIpc E callback priority = ipc_out (RegisterUlsrCallback E callback priority)"

definition UnRegisterUlsrCallbackIpc :: "env \<Rightarrow> obj option \<Rightarrow> (int \<times> PowerErrors) M" where
  "UnRegisterUlsrCallbackIpc E callback = ipc_out (UnRegisterUlsrCallback E callback)"

section \<open>Modes, strategies and configuration\<close>

definition SetDisplaySuspendIpc :: "env \<Rightarrow> bool \<Rightarrow> int M" where
  "SetDisplaySuspendIpc E enable = ipc_drop (PmsSetDisplaySuspend E enable)"

definition SetDeviceModeIpc :: "env \<Rightarrow> nat \<Rightarrow> (int \<times> PowerErrors) M" where
  "SetDeviceModeIpc E mode = ipc_out (SetDeviceMode E mode)"

definition GetDeviceModeIpc :: "(int \<times> nat) M" where
  "GetDeviceModeIpc = ipc_out GetDeviceMode"

definition SetDeviceSubModeIpc :: "env \<Rightarrow> nat \<Rightarrow> int \<Rightarrow> (int \<times> PowerErrors) M" where
  "SetDeviceSubModeIpc E mode subMode = ipc_out (SetDeviceModeAndSubMode E mode subMode)"

definition GetDeviceSubModeIpc :: "(int \<times> int) M" where
  "GetDeviceSubModeIpc = ipc_out GetDeviceSubMode"

definition SetForceTimingOutIpc :: "env \<Rightarrow> bool \<Rightarrow> obj option \<Rightarrow> (int \<times> PowerErrors) M" where
  "SetForceTimingOutIpc E enabled token = ipc_out (PmsSetForceTimingOut E enabled token)"

text \<open>The application id of this entry point is the default of the service, -1.\<close>

definition LockScreenAfterTimingOutIpc :: "env \<Rightarrow> bool \<Rightarrow> bool \<Rightarrow> bool \<Rightarrow> obj option \<Rightarrow> (int \<times> PowerErrors) M" where
  "LockScreenAfterTimingOutIpc E enabledLockScreen checkLock sendScreenOffEvent token =
     ipc_out (PmsLockScreenAfterTimingOut E enabledLockScreen checkLock sendScreenOffEvent token (-1))"

definition LockScreenAfterTimingOutWithAppidIpc :: "env \<Rightarrow> int \<Rightarrow> bool \<Rightarrow> obj option \<Rightarrow> (int \<times> PowerErrors) M" where
  "LockScreenAfterTimingOutWithAppidIpc E appid lockScreen token =
     ipc_out (LockScreenAfterTimingOutWithAppid E appid lockScreen token)"

definition SetPowerKeyFilteringStrategyIpc ::
    "env \<Rightarrow> PowerKeyFilteringStrategy \<Rightarrow> obj option \<Rightarrow> (int \<times> PowerErrors) M" where
  "SetPowerKeyFilteringStrategyIpc E strategy token = ipc_out (SetPowerKeyFilteringStrategy E strategy token)"

definition SetProxFilteringStrategyIpc :: "env \<Rightarrow> nat \<Rightarrow> obj option \<Rightarrow> (int \<times> PowerErrors) M" where
  "SetProxFilteringStrategyIpc E strategy token = ipc_out (PmsSetProxFilteringStrategy E (strategy = 1) token)"

definition SetLidFilteringStrategyIpc :: "env \<Rightarrow> nat \<Rightarrow> obj option \<Rightarrow> (int \<times> PowerErrors) M" where
  "SetLidFilteringStrategyIpc E strategy token = ipc_out (SetLidFilteringStrategy E strategy token)"

definition SetInterfaceCallFilteringStrategyIpc :: "env \<Rightarrow> nat \<Rightarrow> obj option \<Rightarrow> (int \<times> PowerErrors) M" where
  "SetInterfaceCallFilteringStrategyIpc E strategy token = ipc_out (SetInterfaceCallFilteringStrategy E strategy token)"

definition GetPowerConfigIpc :: "env \<Rightarrow> string \<Rightarrow> (int \<times> (PowerErrors + string)) M" where
  "GetPowerConfigIpc E sceneName = ipc_out (PmsGetPowerConfig E sceneName)"

definition SetPowerConfigIpc :: "env \<Rightarrow> string \<Rightarrow> string \<Rightarrow> (int \<times> PowerErrors) M" where
  "SetPowerConfigIpc E sceneName configVal = ipc_out (PmsSetPowerConfig E sceneName configVal)"

section \<open>Dump requests\<close>

text \<open>
  The texts that describe the state machine and the locks are reports; they are arguments here, functions of the
  state.
\<close>

definition DumpArg :: "env \<Rightarrow> string \<Rightarrow> bool M" where
  "DumpArg E arg =
    (if arg = ''-d'' then do { _ \<leftarrow> ConnectSystemUi E; State_Monad.return True }
     else if arg = ''-k'' then do { Dialog_KeyMonitorInit E; State_Monad.return True }
     else if arg = ''-t'' then do { KeepScreenOn E True; State_Monad.return True }
     else if arg = ''-f'' then do { KeepScreenOn E False; State_Monad.return True }
     else State_Monad.return False)"

fun dump_loop :: "string \<Rightarrow> string \<Rightarrow> string list \<Rightarrow> string \<Rightarrow> string" where
    "dump_loop stateInfo lockInfo [] acc = acc"
  | "dump_loop stateInfo lockInfo (arg # args) acc =
      (if arg = ''-r'' then dump_loop stateInfo lockInfo args (acc @ lockInfo)
       else if arg = ''-s'' then dump_loop stateInfo lockInfo args (acc @ stateInfo)
       else if arg = ''-a'' then stateInfo @ lockInfo
       else dump_loop stateInfo lockInfo args acc)"

definition ShowUsage :: string where
  "ShowUsage = ''Power manager dump options:'' @ [CHR 0x0A] @
    ''  [-h] [-runninglock]'' @ [CHR 0x0A] @
    ''  description of the cmd option:'' @ [CHR 0x0A] @
    ''    -a: show dump info of all power modules.'' @ [CHR 0x0A] @
    ''    -h: show this help.'' @ [CHR 0x0A] @
    ''    -r: show the information of runninglock.'' @ [CHR 0x0A] @
    ''    -s: show the information of power state machine.'' @ [CHR 0x0A] @
    ''    -d: show power off dialog.'' @ [CHR 0x0A] @
    ''    -k: subscribe long press powerkey event.'' @ [CHR 0x0A] @
    ''    -t: keep screen on.'' @ [CHR 0x0A] @
    ''    -f: restore screen off time.'' @ [CHR 0x0A]"

definition PowerMgrDumper_Dump ::
    "env \<Rightarrow> (world \<Rightarrow> string) \<Rightarrow> (world \<Rightarrow> string) \<Rightarrow> string list \<Rightarrow> string M" where
  "PowerMgrDumper_Dump E stateInfo lockInfo args = (case args of
     [] \<Rightarrow> State_Monad.return ShowUsage
   | arg # _ \<Rightarrow>
       if arg = ''-h'' then State_Monad.return ShowUsage
       else do {
         p \<leftarrow> gets ptrs;
         if \<not> pms p then State_Monad.return ''''
         else do {
           done \<leftarrow> DumpArg E arg;
           if done then State_Monad.return ''''
           else gets (\<lambda>w. dump_loop (stateInfo w) (lockInfo w) args '''') } })"

definition ShellDump :: "env \<Rightarrow> (world \<Rightarrow> string) \<Rightarrow> (world \<Rightarrow> string) \<Rightarrow> string list \<Rightarrow> string M" where
  "ShellDump E stateInfo lockInfo args = do {
     system \<leftarrow> ask_bool E (Service PermissionIsSystem);
     booted \<leftarrow> gets (\<lambda>w. bootCompleted (svc w));
     if \<not> system \<or> \<not> booted then State_Monad.return ''''
     else do {
       _ \<leftarrow> caller E;
       PowerMgrDumper_Dump E stateInfo lockInfo args } }"

definition ShellDumpIpc :: "env \<Rightarrow> (world \<Rightarrow> string) \<Rightarrow> (world \<Rightarrow> string) \<Rightarrow> string list \<Rightarrow> (int \<times> string) M" where
  "ShellDumpIpc E stateInfo lockInfo args = ipc_out (ShellDump E stateInfo lockInfo args)"

end
