(* ===== verification/Ipc_Parcel.thy ===== *)
theory Ipc_Parcel
  imports World "HOL-Library.Monad_Syntax"
begin

text \<open>
  Data that crosses a process boundary: \<open>RunningLockInfo\<close> and \<open>VectorPair\<close>
  (\<open>running_lock_info.cpp\<close>) and \<open>TakeOverInfo\<close> (\<open>takeover_info.cpp\<close>).  The parcel class and the
  conversions between UTF-8 and UTF-16 belong to other projects; they are the record \<open>parcel_ops\<close>, over
  any type of parcels.  A write may fail, and so may a read; the macros of \<open>power_common.h\<close> then return early.
  What the code relies on is \<open>parcel_laws\<close>: items are read in the order in which they were written.
\<close>

section \<open>Parcels\<close>

datatype item =
    PToken "nat list"
  | PInt32 int
  | PUint32 nat
  | PUint64 nat
  | PBool bool
  | PString string
  | PString16 "nat list"
  | PParcelable  \<comment> \<open>what \<open>WriteParcelable\<close> writes before the object\<close>

datatype item_kind = KToken | KInt32 | KUint32 | KUint64 | KBool | KString | KString16 | KParcelable

primrec kind_of :: "item \<Rightarrow> item_kind" where
    "kind_of (PToken t) = KToken"
  | "kind_of (PInt32 i) = KInt32"
  | "kind_of (PUint32 n) = KUint32"
  | "kind_of (PUint64 n) = KUint64"
  | "kind_of (PBool b) = KBool"
  | "kind_of (PString s) = KString"
  | "kind_of (PString16 s) = KString16"
  | "kind_of PParcelable = KParcelable"

record 'p parcel_ops =
  emptyParcel :: 'p
  writeItem :: "item \<Rightarrow> 'p \<Rightarrow> 'p option"
  readItem :: "item_kind \<Rightarrow> 'p \<Rightarrow> (item \<times> 'p) option"
  Str8ToStr16 :: "string \<Rightarrow> nat list"
  Str16ToStr8 :: "nat list \<Rightarrow> string"

definition parcel_laws :: "'p parcel_ops \<Rightarrow> ('p \<Rightarrow> item list) \<Rightarrow> bool" where
  "parcel_laws P contents \<longleftrightarrow>
     contents (emptyParcel P) = [] \<and>
     (\<forall>x p p'. writeItem P x p = Some p' \<longrightarrow> contents p' = contents p @ [x]) \<and>
     (\<forall>x xs p. contents p = x # xs \<longrightarrow> (\<exists>p'. readItem P (kind_of x) p = Some (x, p') \<and> contents p' = xs))"

fun writeItems :: "'p parcel_ops \<Rightarrow> item list \<Rightarrow> 'p \<Rightarrow> 'p option" where
    "writeItems P [] p = Some p"
  | "writeItems P (x # xs) p = Option.bind (writeItem P x p) (writeItems P xs)"

definition readInt32 :: "'p parcel_ops \<Rightarrow> 'p \<Rightarrow> (int \<times> 'p) option" where
  "readInt32 P p = (case readItem P KInt32 p of Some (PInt32 i, q) \<Rightarrow> Some (i, q) | _ \<Rightarrow> None)"

definition readUint32 :: "'p parcel_ops \<Rightarrow> 'p \<Rightarrow> (nat \<times> 'p) option" where
  "readUint32 P p = (case readItem P KUint32 p of Some (PUint32 i, q) \<Rightarrow> Some (i, q) | _ \<Rightarrow> None)"

definition readUint64 :: "'p parcel_ops \<Rightarrow> 'p \<Rightarrow> (nat \<times> 'p) option" where
  "readUint64 P p = (case readItem P KUint64 p of Some (PUint64 i, q) \<Rightarrow> Some (i, q) | _ \<Rightarrow> None)"

definition readBool :: "'p parcel_ops \<Rightarrow> 'p \<Rightarrow> (bool \<times> 'p) option" where
  "readBool P p = (case readItem P KBool p of Some (PBool b, q) \<Rightarrow> Some (b, q) | _ \<Rightarrow> None)"

definition readString :: "'p parcel_ops \<Rightarrow> 'p \<Rightarrow> (string \<times> 'p) option" where
  "readString P p = (case readItem P KString p of Some (PString s, q) \<Rightarrow> Some (s, q) | _ \<Rightarrow> None)"

definition readString16 :: "'p parcel_ops \<Rightarrow> 'p \<Rightarrow> (nat list \<times> 'p) option" where
  "readString16 P p = (case readItem P KString16 p of Some (PString16 s, q) \<Rightarrow> Some (s, q) | _ \<Rightarrow> None)"

definition readToken :: "'p parcel_ops \<Rightarrow> 'p \<Rightarrow> (nat list \<times> 'p) option" where
  "readToken P p = (case readItem P KToken p of Some (PToken s, q) \<Rightarrow> Some (s, q) | _ \<Rightarrow> None)"

lemmas read_defs = readInt32_def readUint32_def readUint64_def readBool_def readString_def readString16_def
  readToken_def

section \<open>Running lock information\<close>

text \<open>The value of an enumerator; a number that names no enumerator is kept as it is.\<close>

primrec RunningLockType_val :: "RunningLockType \<Rightarrow> nat" where
    "RunningLockType_val RUNNINGLOCK_SCREEN = 0"
  | "RunningLockType_val RUNNINGLOCK_BACKGROUND = 1"
  | "RunningLockType_val RUNNINGLOCK_PROXIMITY_SCREEN_CONTROL = 2"
  | "RunningLockType_val RUNNINGLOCK_COORDINATION = 4"
  | "RunningLockType_val RUNNINGLOCK_BACKGROUND_PHONE = 3"
  | "RunningLockType_val RUNNINGLOCK_BACKGROUND_NOTIFICATION = 5"
  | "RunningLockType_val RUNNINGLOCK_BACKGROUND_AUDIO = 9"
  | "RunningLockType_val RUNNINGLOCK_BACKGROUND_SPORT = 17"
  | "RunningLockType_val RUNNINGLOCK_BACKGROUND_NAVIGATION = 33"
  | "RunningLockType_val RUNNINGLOCK_BACKGROUND_TASK = 65"
  | "RunningLockType_val RUNNINGLOCK_BACKGROUND_USER_IDLE = 129"
  | "RunningLockType_val RUNNINGLOCK_BUTT = 130"
  | "RunningLockType_val (RUNNINGLOCK_RAW n) = n"

definition declared_lock_types :: "RunningLockType list" where
  "declared_lock_types =
    [RUNNINGLOCK_SCREEN, RUNNINGLOCK_BACKGROUND, RUNNINGLOCK_PROXIMITY_SCREEN_CONTROL, RUNNINGLOCK_COORDINATION,
     RUNNINGLOCK_BACKGROUND_PHONE, RUNNINGLOCK_BACKGROUND_NOTIFICATION, RUNNINGLOCK_BACKGROUND_AUDIO,
     RUNNINGLOCK_BACKGROUND_SPORT, RUNNINGLOCK_BACKGROUND_NAVIGATION, RUNNINGLOCK_BACKGROUND_TASK, RUNNINGLOCK_BACKGROUND_USER_IDLE,
     RUNNINGLOCK_BUTT]"

definition RunningLockType_of :: "nat \<Rightarrow> RunningLockType" where
  "RunningLockType_of n = (case find (\<lambda>t. RunningLockType_val t = n) declared_lock_types of
     Some t \<Rightarrow> t | None \<Rightarrow> RUNNINGLOCK_RAW n)"

definition RunningLockInfo_Marshalling :: "'p parcel_ops \<Rightarrow> RunningLockInfo \<Rightarrow> 'p \<Rightarrow> 'p option" where
  "RunningLockInfo_Marshalling P info = writeItems P
     [PString16 (Str8ToStr16 P (infoName info)),
      PUint32 (RunningLockType_val (infoType info)),
      PString16 (Str8ToStr16 P (infoBundleName info)),
      PInt32 (infoPid info),
      PInt32 (infoUid info),
      PUint64 (infoDisplayId info)]"

definition RunningLockInfo_ReadFromParcel :: "'p parcel_ops \<Rightarrow> 'p \<Rightarrow> (RunningLockInfo \<times> 'p) option" where
  "RunningLockInfo_ReadFromParcel P p = do {
     (u16Name, p) \<leftarrow> readString16 P p;
     (readType, p) \<leftarrow> readUint32 P p;
     (u16BundleName, p) \<leftarrow> readString16 P p;
     (readPid, p) \<leftarrow> readInt32 P p;
     (readUid, p) \<leftarrow> readInt32 P p;
     (readDisplayId, p) \<leftarrow> readUint64 P p;
     Some (\<lparr>infoName = Str16ToStr8 P u16Name, infoType = RunningLockType_of readType,
       infoBundleName = Str16ToStr8 P u16BundleName, infoPid = readPid, infoUid = readUid,
       infoDisplayId = readDisplayId\<rparr>, p) }"

text \<open>\<open>Unmarshalling\<close> allocates the object and frees it again when it cannot be read.\<close>

definition RunningLockInfo_Unmarshalling :: "'p parcel_ops \<Rightarrow> 'p \<Rightarrow> (RunningLockInfo \<times> 'p) option" where
  "RunningLockInfo_Unmarshalling P p = RunningLockInfo_ReadFromParcel P p"

section \<open>Lists of processes\<close>

definition MAX_PROXY_RUNNINGLOCK_NUM :: nat where "MAX_PROXY_RUNNINGLOCK_NUM = 2000"

fun pair_items :: "(int \<times> int) list \<Rightarrow> item list" where
    "pair_items [] = []"
  | "pair_items ((pid, uid) # xs) = PInt32 pid # PInt32 uid # pair_items xs"

definition VectorPair_Marshalling :: "'p parcel_ops \<Rightarrow> (int \<times> int) list \<Rightarrow> 'p \<Rightarrow> 'p option" where
  "VectorPair_Marshalling P processInfos p = do {
     p \<leftarrow> writeItem P (PInt32 (wrap32 (int (length processInfos)))) p;
     if length processInfos > MAX_PROXY_RUNNINGLOCK_NUM then None
     else writeItems P (pair_items processInfos) p }"

fun read_pairs :: "'p parcel_ops \<Rightarrow> nat \<Rightarrow> 'p \<Rightarrow> ((int \<times> int) list \<times> 'p) option" where
    "read_pairs P 0 p = Some ([], p)"
  | "read_pairs P (Suc n) p = do {
       (pid, p) \<leftarrow> readInt32 P p;
       (uid, p) \<leftarrow> readInt32 P p;
       (rest, p) \<leftarrow> read_pairs P n p;
       Some ((pid, uid) # rest, p) }"

definition VectorPair_Unmarshalling :: "'p parcel_ops \<Rightarrow> 'p \<Rightarrow> ((int \<times> int) list \<times> 'p) option" where
  "VectorPair_Unmarshalling P p = do {
     (size, p) \<leftarrow> readInt32 P p;
     if size \<le> 0 then None
     else if size > int MAX_PROXY_RUNNINGLOCK_NUM then None
     else read_pairs P (nat size) p }"

section \<open>Take-over information\<close>

record TakeOverInfo =
  takeOverReason :: string
  takeOverIntfParam :: bool

definition TakeOverInfo_Marshalling :: "'p parcel_ops \<Rightarrow> TakeOverInfo \<Rightarrow> 'p \<Rightarrow> 'p option" where
  "TakeOverInfo_Marshalling P info = writeItems P
     [PString16 (Str8ToStr16 P (takeOverReason info)), PBool (takeOverIntfParam info)]"

definition TakeOverInfo_ReadFromParcel :: "'p parcel_ops \<Rightarrow> 'p \<Rightarrow> (TakeOverInfo \<times> 'p) option" where
  "TakeOverInfo_ReadFromParcel P p = do {
     (readReason, p) \<leftarrow> readString16 P p;
     (readFlag, p) \<leftarrow> readBool P p;
     Some (\<lparr>takeOverReason = Str16ToStr8 P readReason, takeOverIntfParam = readFlag\<rparr>, p) }"

definition TakeOverInfo_Unmarshalling :: "'p parcel_ops \<Rightarrow> 'p \<Rightarrow> (TakeOverInfo \<times> 'p) option" where
  "TakeOverInfo_Unmarshalling P p = TakeOverInfo_ReadFromParcel P p"

section \<open>Laws\<close>

lemma contents_writeItems:
  "parcel_laws P contents \<Longrightarrow> writeItems P xs p = Some p' \<Longrightarrow> contents p' = contents p @ xs"
proof (induction xs arbitrary: p)
  case (Cons x xs)
  then obtain q where q: "writeItem P x p = Some q" "writeItems P xs q = Some p'"
    by (auto simp: bind_eq_Some_conv)
  with Cons have "contents p' = contents q @ xs"
    by blast
  moreover have "contents q = contents p @ [x]"
    using Cons.prems(1) q(1) by (auto simp: parcel_laws_def)
  ultimately show ?case
    by simp
qed simp

lemma read_contents:
  assumes "parcel_laws P contents"
  shows "contents p = PInt32 i # xs \<Longrightarrow> \<exists>p'. readInt32 P p = Some (i, p') \<and> contents p' = xs"
    and "contents p = PUint32 n # xs \<Longrightarrow> \<exists>p'. readUint32 P p = Some (n, p') \<and> contents p' = xs"
    and "contents p = PUint64 n # xs \<Longrightarrow> \<exists>p'. readUint64 P p = Some (n, p') \<and> contents p' = xs"
    and "contents p = PBool b # xs \<Longrightarrow> \<exists>p'. readBool P p = Some (b, p') \<and> contents p' = xs"
    and "contents p = PString s # xs \<Longrightarrow> \<exists>p'. readString P p = Some (s, p') \<and> contents p' = xs"
    and "contents p = PString16 u # xs \<Longrightarrow> \<exists>p'. readString16 P p = Some (u, p') \<and> contents p' = xs"
    and "contents p = PToken u # xs \<Longrightarrow> \<exists>p'. readToken P p = Some (u, p') \<and> contents p' = xs"
    and "contents p = PParcelable # xs \<Longrightarrow> \<exists>p'. readItem P KParcelable p = Some (PParcelable, p') \<and> contents p' = xs"
proof -
  have *: "\<exists>p'. readItem P (kind_of x) p = Some (x, p') \<and> contents p' = xs" if "contents p = x # xs" for x
    using that assms by (auto simp: parcel_laws_def)
  show "contents p = PInt32 i # xs \<Longrightarrow> \<exists>p'. readInt32 P p = Some (i, p') \<and> contents p' = xs"
    and "contents p = PUint32 n # xs \<Longrightarrow> \<exists>p'. readUint32 P p = Some (n, p') \<and> contents p' = xs"
    and "contents p = PUint64 n # xs \<Longrightarrow> \<exists>p'. readUint64 P p = Some (n, p') \<and> contents p' = xs"
    and "contents p = PBool b # xs \<Longrightarrow> \<exists>p'. readBool P p = Some (b, p') \<and> contents p' = xs"
    and "contents p = PString s # xs \<Longrightarrow> \<exists>p'. readString P p = Some (s, p') \<and> contents p' = xs"
    and "contents p = PString16 u # xs \<Longrightarrow> \<exists>p'. readString16 P p = Some (u, p') \<and> contents p' = xs"
    and "contents p = PToken u # xs \<Longrightarrow> \<exists>p'. readToken P p = Some (u, p') \<and> contents p' = xs"
    and "contents p = PParcelable # xs \<Longrightarrow> \<exists>p'. readItem P KParcelable p = Some (PParcelable, p') \<and> contents p' = xs"
    by (auto dest!: * simp: read_defs)
qed


lemma RunningLockType_of_val [simp]:
  "(\<forall>n. t \<noteq> RUNNINGLOCK_RAW n) \<Longrightarrow> RunningLockType_of (RunningLockType_val t) = t"
  by (cases t) (simp_all add: RunningLockType_of_def declared_lock_types_def)

lemma read_RunningLockInfo:
  assumes "parcel_laws P contents" and "contents p = [] " and "RunningLockInfo_Marshalling P info p = Some p'"
    and "\<forall>s \<in> {infoName info, infoBundleName info}. Str16ToStr8 P (Str8ToStr16 P s) = s"
    and "\<forall>n. infoType info \<noteq> RUNNINGLOCK_RAW n"
  shows "\<exists>q. RunningLockInfo_Unmarshalling P p' = Some (info, q) \<and> contents q = []"
proof -
  note laws = assms(1)
  have "contents p' = [PString16 (Str8ToStr16 P (infoName info)),
      PUint32 (RunningLockType_val (infoType info)), PString16 (Str8ToStr16 P (infoBundleName info)),
      PInt32 (infoPid info), PInt32 (infoUid info), PUint64 (infoDisplayId info)]"
    using contents_writeItems [OF laws assms(3) [unfolded RunningLockInfo_Marshalling_def]] assms(2) by simp
  then show ?thesis
    using assms(4,5)
    by (auto simp: RunningLockInfo_Unmarshalling_def RunningLockInfo_ReadFromParcel_def
        dest!: read_contents [OF laws])
qed

lemma read_pairs_items:
  "parcel_laws P contents \<Longrightarrow> contents p = pair_items xs @ ys \<Longrightarrow>
    \<exists>q. read_pairs P (length xs) p = Some (xs, q) \<and> contents q = ys"
proof (induction xs arbitrary: p)
  case (Cons x xs)
  obtain i j where x: "x = (i, j)"
    by (cases x)
  with Cons.prems obtain p1 where 1: "readInt32 P p = Some (i, p1)" "contents p1 = PInt32 j # pair_items xs @ ys"
    using read_contents(1) [of P contents p] by auto
  then obtain p2 where 2: "readInt32 P p1 = Some (j, p2)" "contents p2 = pair_items xs @ ys"
    using read_contents(1) [OF Cons.prems(1)] by blast
  with Cons.IH [OF Cons.prems(1)] show ?case
    using 1 x by force
qed simp

lemma read_TakeOverInfo:
  assumes "parcel_laws P contents" and "Str16ToStr8 P (Str8ToStr16 P (takeOverReason info)) = takeOverReason info"
    and "contents p = PString16 (Str8ToStr16 P (takeOverReason info)) # PBool (takeOverIntfParam info) # ys"
  shows "\<exists>q. TakeOverInfo_Unmarshalling P p = Some (info, q) \<and> contents q = ys"
  using assms(2,3)
  by (auto simp: TakeOverInfo_Unmarshalling_def TakeOverInfo_ReadFromParcel_def dest!: read_contents [OF assms(1)])

text \<open>
  A parcel as a list of items, with the identity for the text conversions on ASCII: the laws can hold.
\<close>

definition list_parcel :: "item list parcel_ops" where
  "list_parcel = \<lparr>emptyParcel = [], writeItem = (\<lambda>x p. Some (p @ [x])),
     readItem = (\<lambda>k p. case p of [] \<Rightarrow> None | x # xs \<Rightarrow> if kind_of x = k then Some (x, xs) else None),
     Str8ToStr16 = map of_char, Str16ToStr8 = map char_of\<rparr>"

lemma list_parcel_laws: "parcel_laws list_parcel (\<lambda>p. p)"
  by (auto simp: parcel_laws_def list_parcel_def)

lemma list_parcel_text: "Str16ToStr8 list_parcel (Str8ToStr16 list_parcel s) = s"
  by (simp add: list_parcel_def comp_def)

text \<open>
  C29: what is written for another process is what that process reads.  The information on a running lock
  comes back unchanged.  A list of processes comes back exactly when it is not empty: one of more than 2000 is
  refused by the writer, and an empty one is written but refused by the reader.
\<close>

theorem marshalled_data_read_back:
  fixes P :: "'p parcel_ops" and contents :: "'p \<Rightarrow> item list"
  assumes "parcel_laws P contents" and "contents p = []"
    and "\<forall>s \<in> {infoName info, infoBundleName info}. Str16ToStr8 P (Str8ToStr16 P s) = s"
    and "infoType info \<in> set declared_lock_types"
  shows "(\<forall>p'. RunningLockInfo_Marshalling P info p = Some p' \<longrightarrow>
      (\<exists>q. RunningLockInfo_Unmarshalling P p' = Some (info, q) \<and> contents q = [])) \<and>
    (\<forall>p'. VectorPair_Marshalling P xs p = Some p' \<longrightarrow> length xs \<le> 2000 \<and>
      (if xs = [] then VectorPair_Unmarshalling P p' = None
       else \<exists>q. VectorPair_Unmarshalling P p' = Some (xs, q) \<and> contents q = []))"
proof (intro conjI allI impI)
  fix p' assume m: "RunningLockInfo_Marshalling P info p = Some p'"
  have "\<forall>n. infoType info \<noteq> RUNNINGLOCK_RAW n"
    using assms(4) by (auto simp: declared_lock_types_def)
  then show "\<exists>q. RunningLockInfo_Unmarshalling P p' = Some (info, q) \<and> contents q = []"
    by (rule read_RunningLockInfo [OF assms(1,2) m assms(3)])
next
  fix p' assume m: "VectorPair_Marshalling P xs p = Some p'"
  then show n: "length xs \<le> 2000"
    by (auto simp: VectorPair_Marshalling_def MAX_PROXY_RUNNINGLOCK_NUM_def bind_eq_Some_conv split: if_splits)
  obtain p1 where p1: "writeItem P (PInt32 (int (length xs))) p = Some p1" "writeItems P (pair_items xs) p1 = Some p'"
    using m n by (auto simp: VectorPair_Marshalling_def MAX_PROXY_RUNNINGLOCK_NUM_def bind_eq_Some_conv wrap32_id int32_def)
  have "contents p' = PInt32 (int (length xs)) # pair_items xs"
    using contents_writeItems [OF assms(1) p1(2)] p1(1) assms(1,2) by (auto simp: parcel_laws_def)
  then obtain q where q: "readInt32 P p' = Some (int (length xs), q)" "contents q = pair_items xs"
    using read_contents(1) [OF assms(1)] by blast
  have "VectorPair_Unmarshalling P p' = (if xs = [] then None else read_pairs P (length xs) q)"
    using q(1) n by (simp add: VectorPair_Unmarshalling_def MAX_PROXY_RUNNINGLOCK_NUM_def)
  then show "if xs = [] then VectorPair_Unmarshalling P p' = None
      else \<exists>q. VectorPair_Unmarshalling P p' = Some (xs, q) \<and> contents q = []"
    using read_pairs_items [OF assms(1), of q xs "[]"] q(2) by simp
qed

theorem marshalled_data_read_back_witness:
  "\<exists>p' q. RunningLockInfo_Marshalling list_parcel \<lparr>infoName = ''lock'', infoType = RUNNINGLOCK_SCREEN,
       infoBundleName = ''app'', infoPid = 7, infoUid = 100, infoDisplayId = 0\<rparr> [] = Some p' \<and>
     RunningLockInfo_Unmarshalling list_parcel p' = Some (\<lparr>infoName = ''lock'', infoType = RUNNINGLOCK_SCREEN,
       infoBundleName = ''app'', infoPid = 7, infoUid = 100, infoDisplayId = 0\<rparr>, q) \<and>
     VectorPair_Marshalling list_parcel [(7, 100), (8, -1)] [] \<noteq> None"
proof -
  let ?info = "\<lparr>infoName = ''lock'', infoType = RUNNINGLOCK_SCREEN, infoBundleName = ''app'', infoPid = 7,
    infoUid = 100, infoDisplayId = 0\<rparr>"
  have "\<exists>p'. RunningLockInfo_Marshalling list_parcel ?info [] = Some p'"
    by (simp add: RunningLockInfo_Marshalling_def list_parcel_def)
  moreover have "VectorPair_Marshalling list_parcel [(7, 100), (8, -1)] [] \<noteq> None"
    by (simp add: VectorPair_Marshalling_def list_parcel_def MAX_PROXY_RUNNINGLOCK_NUM_def)
  ultimately show ?thesis
    using marshalled_data_read_back [OF list_parcel_laws, of "[]" ?info "[]"]
    by (auto simp: list_parcel_text declared_lock_types_def)
qed

end
