(* ===== verification/Callback_Ipc.thy ===== *)
theory Callback_Ipc
  imports Ipc_Parcel
begin

text \<open>
  The callbacks by which the service tells its clients what happens: the proxies and stubs of
  \<open>services/zidl\<close>.  A method of a proxy fills a parcel and sends it with a code; the stub in the process of the
  client checks the descriptor, reads the arguments and calls the implementation of the client.
  Arguments of an enumeration are numbers, as in the parcel.  The remote object is there or not
  (\<open>remote\<close>); what \<open>SendRequest\<close> answers is a parameter of the two methods that wait for an answer.
  The watchdog timers of the stubs only report.
\<close>

section \<open>Interfaces\<close>

datatype ErrCode =
    NO_ERROR  \<comment> \<open>\<open>ERR_OK\<close> of \<open>ErrCode\<close>\<close>
  | E_WRITE_PARCEL_ERROR
  | E_READ_PARCEL_ERROR
  | E_GET_SYSTEM_ABILITY_MANAGER_FAILED
  | E_GET_POWER_SERVICE_FAILED
  | E_ADD_DEATH_RECIPIENT_FAILED
  | E_INNER_ERR
  | E_PERMISSION_DENIED
  | E_EXCEED_PARAM_LIMIT
  | ERR_NO_INIT
  | ERR_NO_MEMORY
  | UNKNOWN_CODE  \<comment> \<open>the answer of \<open>IPCObjectStub::OnRemoteRequest\<close> to other codes\<close>

datatype iface =
    IPowerStateCallback
  | ISyncSleepCallback
  | ISyncHibernateCallback
  | IPowerModeCallback
  | IPowerRunninglockCallback
  | IRunningLockChangedCallback
  | IScreenOffPreCallback
  | ITakeOverSuspendCallback
  | IUlsrCallback
  | IAsyncShutdownCallback
  | ISyncShutdownCallback
  | ITakeOverShutdownCallback
  | IPowerMgrAsync

primrec iface_name :: "iface \<Rightarrow> string" where
    "iface_name IPowerStateCallback = ''ohos.powermgr.IPowerStateCallback''"
  | "iface_name ISyncSleepCallback = ''ohos.powermgr.ISyncSleepCallback''"
  | "iface_name ISyncHibernateCallback = ''ohos.powermgr.ISyncHibernateCallback''"
  | "iface_name IPowerModeCallback = ''ohos.powermgr.IPowerModeCallback''"
  | "iface_name IPowerRunninglockCallback = ''ohos.powermgr.IPowerRunninglockCallback''"
  | "iface_name IRunningLockChangedCallback = ''ohos.powermgr.IRunningLockChangedCallback''"
  | "iface_name IScreenOffPreCallback = ''ohos.powermgr.IScreenOffPreCallback''"
  | "iface_name ITakeOverSuspendCallback = ''ohos.powermgr.ITakeOverSuspendCallback''"
  | "iface_name IUlsrCallback = ''ohos.powermgr.IUlsrCallback''"
  | "iface_name IAsyncShutdownCallback = ''ohos.powermgr.IAsyncShutdownCallback''"
  | "iface_name ISyncShutdownCallback = ''ohos.powermgr.ISyncShutdownCallback''"
  | "iface_name ITakeOverShutdownCallback = ''ohos.powermgr.ITakeOverShutdownCallback''"
  | "iface_name IPowerMgrAsync = ''ohos.powermgr.IPowerMgrAsync''"

definition GetDescriptor :: "iface \<Rightarrow> nat list" where
  "GetDescriptor i = map of_char (iface_name i)"

text \<open>Codes of the methods, one enumeration for each interface.\<close>

definition POWER_STATE_CHANGED :: nat where "POWER_STATE_CHANGED = 0"
definition ASYNC_POWER_STATE_CHANGED :: nat where "ASYNC_POWER_STATE_CHANGED = 1"
definition SLEEP_CMD_ON_SYNC_SLEEP :: nat where "SLEEP_CMD_ON_SYNC_SLEEP = 0"
definition SLEEP_CMD_ON_SYNC_WAKEUP :: nat where "SLEEP_CMD_ON_SYNC_WAKEUP = 1"
definition HIBERNATE_CMD_ON_SYNC_HIBERNATE :: nat where "HIBERNATE_CMD_ON_SYNC_HIBERNATE = 0"
definition HIBERNATE_CMD_ON_SYNC_WAKEUP :: nat where "HIBERNATE_CMD_ON_SYNC_WAKEUP = 1"
definition POWER_MODE_CHANGED :: nat where "POWER_MODE_CHANGED = 0"
definition POWER_RUNNINGLOCK_CHANGED :: nat where "POWER_RUNNINGLOCK_CHANGED = 0"
definition RUNNINGLOCK_STATE_CHANGED :: nat where "RUNNINGLOCK_STATE_CHANGED = 0"
definition SCREEN_OFF_PRE_CHANGED :: nat where "SCREEN_OFF_PRE_CHANGED = 0"
definition CMD_ON_TAKEOVER_SUSPEND :: nat where "CMD_ON_TAKEOVER_SUSPEND = 0"
definition CMD_ON_SYNC_ULSR :: nat where "CMD_ON_SYNC_ULSR = 0"
definition CMD_ON_ASYNC_WAKEUP :: nat where "CMD_ON_ASYNC_WAKEUP = 1"
definition CMD_ON_ASYNC_SHUTDOWN :: nat where "CMD_ON_ASYNC_SHUTDOWN = 0"
definition CMD_ON_ASYNC_SHUTDOWN_OR_REBOOT :: nat where "CMD_ON_ASYNC_SHUTDOWN_OR_REBOOT = 1"
definition CMD_ON_SYNC_SHUTDOWN :: nat where "CMD_ON_SYNC_SHUTDOWN = 0"
definition CMD_ON_SYNC_SHUTDOWN_OR_REBOOT :: nat where "CMD_ON_SYNC_SHUTDOWN_OR_REBOOT = 1"
definition CMD_ON_TAKEOVER_SHUTDOWN :: nat where "CMD_ON_TAKEOVER_SHUTDOWN = 0"
definition CMD_ON_TAKEOVER_HIBERNATE :: nat where "CMD_ON_TAKEOVER_HIBERNATE = 1"
definition SEND_ASYNC_REPLY :: nat where "SEND_ASYNC_REPLY = 0"

lemmas code_defs = POWER_STATE_CHANGED_def ASYNC_POWER_STATE_CHANGED_def SLEEP_CMD_ON_SYNC_SLEEP_def
  SLEEP_CMD_ON_SYNC_WAKEUP_def HIBERNATE_CMD_ON_SYNC_HIBERNATE_def HIBERNATE_CMD_ON_SYNC_WAKEUP_def
  POWER_MODE_CHANGED_def POWER_RUNNINGLOCK_CHANGED_def RUNNINGLOCK_STATE_CHANGED_def SCREEN_OFF_PRE_CHANGED_def
  CMD_ON_TAKEOVER_SUSPEND_def CMD_ON_SYNC_ULSR_def CMD_ON_ASYNC_WAKEUP_def CMD_ON_ASYNC_SHUTDOWN_def
  CMD_ON_ASYNC_SHUTDOWN_OR_REBOOT_def CMD_ON_SYNC_SHUTDOWN_def CMD_ON_SYNC_SHUTDOWN_OR_REBOOT_def
  CMD_ON_TAKEOVER_SHUTDOWN_def CMD_ON_TAKEOVER_HIBERNATE_def SEND_ASYNC_REPLY_def

text \<open>The calls that reach the implementation of a client.\<close>

datatype client_call =
    CbPowerStateChanged nat
  | CbAsyncPowerStateChanged nat
  | CbSyncSleep bool
  | CbSyncWakeup bool
  | CbSyncHibernate
  | CbHibernateWakeup bool
  | CbPowerModeChanged nat
  | CbRunningLockMessage string
  | CbScreenRunningLockChanged nat nat
  | CbScreenStateChanged nat
  | CbTakeOverSuspend nat
  | CbSyncUlsr
  | CbAsyncWakeup bool
  | CbAsyncShutdown
  | CbAsyncShutdownOrReboot bool
  | CbSyncShutdown
  | CbSyncShutdownOrReboot bool
  | CbTakeOverShutdown TakeOverInfo
  | CbTakeOverHibernate TakeOverInfo
  | CbSendAsyncReply int

section \<open>Proxies\<close>

record 'p request =
  reqCode :: nat
  reqAsync :: bool
  reqData :: 'p

text \<open>The common part: without a remote object, or when a write fails, nothing is sent.\<close>

definition send_items ::
    "'p parcel_ops \<Rightarrow> bool \<Rightarrow> iface \<Rightarrow> nat \<Rightarrow> bool \<Rightarrow> item list \<Rightarrow> 'p request option" where
  "send_items P remote i code async items = (if \<not> remote then None else
     map_option (\<lambda>d. \<lparr>reqCode = code, reqAsync = async, reqData = d\<rparr>)
       (writeItems P (PToken (GetDescriptor i) # items) (emptyParcel P)))"

definition PowerStateCallbackProxy_OnPowerStateChanged :: "'p parcel_ops \<Rightarrow> bool \<Rightarrow> nat \<Rightarrow> 'p request option" where
  "PowerStateCallbackProxy_OnPowerStateChanged P remote state =
     send_items P remote IPowerStateCallback POWER_STATE_CHANGED False [PUint32 state]"

definition PowerStateCallbackProxy_OnAsyncPowerStateChanged ::
    "'p parcel_ops \<Rightarrow> bool \<Rightarrow> nat \<Rightarrow> 'p request option" where
  "PowerStateCallbackProxy_OnAsyncPowerStateChanged P remote state =
     send_items P remote IPowerStateCallback ASYNC_POWER_STATE_CHANGED True [PUint32 state]"

definition SyncSleepCallbackProxy_OnSyncSleep :: "'p parcel_ops \<Rightarrow> bool \<Rightarrow> bool \<Rightarrow> 'p request option" where
  "SyncSleepCallbackProxy_OnSyncSleep P remote force =
     send_items P remote ISyncSleepCallback SLEEP_CMD_ON_SYNC_SLEEP False [PBool force]"

definition SyncSleepCallbackProxy_OnSyncWakeup :: "'p parcel_ops \<Rightarrow> bool \<Rightarrow> bool \<Rightarrow> 'p request option" where
  "SyncSleepCallbackProxy_OnSyncWakeup P remote force =
     send_items P remote ISyncSleepCallback SLEEP_CMD_ON_SYNC_WAKEUP False [PBool force]"

definition SyncHibernateCallbackProxy_OnSyncHibernate :: "'p parcel_ops \<Rightarrow> bool \<Rightarrow> 'p request option" where
  "SyncHibernateCallbackProxy_OnSyncHibernate P remote =
     send_items P remote ISyncHibernateCallback HIBERNATE_CMD_ON_SYNC_HIBERNATE False []"

definition SyncHibernateCallbackProxy_OnSyncWakeup :: "'p parcel_ops \<Rightarrow> bool \<Rightarrow> bool \<Rightarrow> 'p request option" where
  "SyncHibernateCallbackProxy_OnSyncWakeup P remote hibernateResult =
     send_items P remote ISyncHibernateCallback HIBERNATE_CMD_ON_SYNC_WAKEUP False [PBool hibernateResult]"

definition PowerModeCallbackProxy_OnPowerModeChanged :: "'p parcel_ops \<Rightarrow> bool \<Rightarrow> nat \<Rightarrow> 'p request option" where
  "PowerModeCallbackProxy_OnPowerModeChanged P remote mode =
     send_items P remote IPowerModeCallback POWER_MODE_CHANGED False [PUint32 mode]"

definition PowerRunningLockCallbackProxy_HandleRunningLockMessage ::
    "'p parcel_ops \<Rightarrow> bool \<Rightarrow> string \<Rightarrow> 'p request option" where
  "PowerRunningLockCallbackProxy_HandleRunningLockMessage P remote message =
     send_items P remote IPowerRunninglockCallback POWER_RUNNINGLOCK_CHANGED True [PString message]"

text \<open>This proxy does not test the remote object; it is taken to be there.\<close>

definition RunningLockChangedCallbackProxy_OnAsyncScreenRunningLockChanged ::
    "'p parcel_ops \<Rightarrow> nat \<Rightarrow> nat \<Rightarrow> 'p request option" where
  "RunningLockChangedCallbackProxy_OnAsyncScreenRunningLockChanged P state display =
     send_items P True IRunningLockChangedCallback RUNNINGLOCK_STATE_CHANGED True [PUint32 state, PUint64 display]"

definition ScreenOffPreCallbackProxy_OnScreenStateChanged :: "'p parcel_ops \<Rightarrow> bool \<Rightarrow> nat \<Rightarrow> 'p request option" where
  "ScreenOffPreCallbackProxy_OnScreenStateChanged P remote state =
     send_items P remote IScreenOffPreCallback SCREEN_OFF_PRE_CHANGED False [PUint32 state]"

definition UlsrCallbackProxy_OnSyncUlsr :: "'p parcel_ops \<Rightarrow> bool \<Rightarrow> 'p request option" where
  "UlsrCallbackProxy_OnSyncUlsr P remote = send_items P remote IUlsrCallback CMD_ON_SYNC_ULSR False []"

definition UlsrCallbackProxy_OnAsyncWakeup :: "'p parcel_ops \<Rightarrow> bool \<Rightarrow> bool \<Rightarrow> 'p request option" where
  "UlsrCallbackProxy_OnAsyncWakeup P remote ulsrResult =
     send_items P remote IUlsrCallback CMD_ON_ASYNC_WAKEUP True [PBool ulsrResult]"

definition AsyncShutdownCallbackProxy_OnAsyncShutdown :: "'p parcel_ops \<Rightarrow> bool \<Rightarrow> 'p request option" where
  "AsyncShutdownCallbackProxy_OnAsyncShutdown P remote =
     send_items P remote IAsyncShutdownCallback CMD_ON_ASYNC_SHUTDOWN False []"

definition AsyncShutdownCallbackProxy_OnAsyncShutdownOrReboot ::
    "'p parcel_ops \<Rightarrow> bool \<Rightarrow> bool \<Rightarrow> 'p request option" where
  "AsyncShutdownCallbackProxy_OnAsyncShutdownOrReboot P remote isReboot =
     send_items P remote IAsyncShutdownCallback CMD_ON_ASYNC_SHUTDOWN_OR_REBOOT False [PBool isReboot]"

definition SyncShutdownCallbackProxy_OnSyncShutdown :: "'p parcel_ops \<Rightarrow> bool \<Rightarrow> 'p request option" where
  "SyncShutdownCallbackProxy_OnSyncShutdown P remote =
     send_items P remote ISyncShutdownCallback CMD_ON_SYNC_SHUTDOWN False []"

definition SyncShutdownCallbackProxy_OnSyncShutdownOrReboot ::
    "'p parcel_ops \<Rightarrow> bool \<Rightarrow> bool \<Rightarrow> 'p request option" where
  "SyncShutdownCallbackProxy_OnSyncShutdownOrReboot P remote isReboot =
     send_items P remote ISyncShutdownCallback CMD_ON_SYNC_SHUTDOWN_OR_REBOOT False [PBool isReboot]"

definition PowerMgrProxyAsync_SendAsyncReply :: "'p parcel_ops \<Rightarrow> bool \<Rightarrow> int \<Rightarrow> 'p request option" where
  "PowerMgrProxyAsync_SendAsyncReply P remote replyValue = (if \<not> remote then None else
     map_option (\<lambda>d. \<lparr>reqCode = SEND_ASYNC_REPLY, reqAsync = True,
         reqData = (case writeItem P (PInt32 replyValue) d of Some d' \<Rightarrow> d' | None \<Rightarrow> d)\<rparr>)
       (writeItem P (PToken (GetDescriptor IPowerMgrAsync)) (emptyParcel P)))"

section \<open>Proxies that wait for an answer\<close>

text \<open>\<open>send\<close> is the answer to a request: the result of \<open>SendRequest\<close> and the reply.\<close>

definition ask_client :: "'p parcel_ops \<Rightarrow> ('p request \<Rightarrow> ErrCode \<times> 'p) \<Rightarrow> 'p request option \<Rightarrow> bool" where
  "ask_client P send req = (case req of
     None \<Rightarrow> False
   | Some r \<Rightarrow> (case send r of (ret, reply) \<Rightarrow>
       if ret \<noteq> NO_ERROR then False
       else (case readBool P reply of Some (isTakeOver, _) \<Rightarrow> isTakeOver | None \<Rightarrow> False)))"

definition take_over_suspend_request :: "'p parcel_ops \<Rightarrow> bool \<Rightarrow> nat \<Rightarrow> 'p request option" where
  "take_over_suspend_request P remote type =
     send_items P remote ITakeOverSuspendCallback CMD_ON_TAKEOVER_SUSPEND False [PUint32 type]"

definition TakeOverSuspendCallbackProxy_OnTakeOverSuspend ::
    "'p parcel_ops \<Rightarrow> ('p request \<Rightarrow> ErrCode \<times> 'p) \<Rightarrow> bool \<Rightarrow> nat \<Rightarrow> bool" where
  "TakeOverSuspendCallbackProxy_OnTakeOverSuspend P send remote type =
     ask_client P send (take_over_suspend_request P remote type)"

definition take_over_request ::
    "'p parcel_ops \<Rightarrow> bool \<Rightarrow> nat \<Rightarrow> TakeOverInfo \<Rightarrow> 'p request option" where
  "take_over_request P remote code info = (if \<not> remote then None else do {
     d \<leftarrow> writeItem P (PToken (GetDescriptor ITakeOverShutdownCallback)) (emptyParcel P);
     d \<leftarrow> writeItem P PParcelable d;
     d \<leftarrow> TakeOverInfo_Marshalling P info d;
     Some \<lparr>reqCode = code, reqAsync = False, reqData = d\<rparr> })"

definition TakeOverShutdownCallbackProxy_OnTakeOverShutdown ::
    "'p parcel_ops \<Rightarrow> ('p request \<Rightarrow> ErrCode \<times> 'p) \<Rightarrow> bool \<Rightarrow> TakeOverInfo \<Rightarrow> bool" where
  "TakeOverShutdownCallbackProxy_OnTakeOverShutdown P send remote info =
     ask_client P send (take_over_request P remote CMD_ON_TAKEOVER_SHUTDOWN info)"

definition TakeOverShutdownCallbackProxy_OnTakeOverHibernate ::
    "'p parcel_ops \<Rightarrow> ('p request \<Rightarrow> ErrCode \<times> 'p) \<Rightarrow> bool \<Rightarrow> TakeOverInfo \<Rightarrow> bool" where
  "TakeOverShutdownCallbackProxy_OnTakeOverHibernate P send remote info =
     ask_client P send (take_over_request P remote CMD_ON_TAKEOVER_HIBERNATE info)"

section \<open>Stubs\<close>

text \<open>What \<open>OnRemoteRequest\<close> leads to: its result, the call that reaches the client and the reply.\<close>

record 'p outcome =
  outResult :: ErrCode
  outCall :: "client_call option"
  outReply :: 'p

definition refuse :: "'p parcel_ops \<Rightarrow> ErrCode \<Rightarrow> 'p outcome" where
  "refuse P e = \<lparr>outResult = e, outCall = None, outReply = emptyParcel P\<rparr>"

definition called :: "'p parcel_ops \<Rightarrow> client_call \<Rightarrow> 'p outcome" where
  "called P c = \<lparr>outResult = NO_ERROR, outCall = Some c, outReply = emptyParcel P\<rparr>"

text \<open>The check of the descriptor, common to all stubs.\<close>

definition check_token :: "'p parcel_ops \<Rightarrow> iface \<Rightarrow> 'p \<Rightarrow> ('p \<Rightarrow> 'p outcome) \<Rightarrow> 'p outcome" where
  "check_token P i data handle = (case readToken P data of
     Some (t, d) \<Rightarrow> if t = GetDescriptor i then handle d else refuse P E_GET_POWER_SERVICE_FAILED
   | None \<Rightarrow> refuse P E_GET_POWER_SERVICE_FAILED)"

definition with_uint32 :: "'p parcel_ops \<Rightarrow> 'p \<Rightarrow> (nat \<Rightarrow> 'p outcome) \<Rightarrow> 'p outcome" where
  "with_uint32 P d f = (case readUint32 P d of Some (n, _) \<Rightarrow> f n | None \<Rightarrow> refuse P E_READ_PARCEL_ERROR)"

definition with_bool :: "'p parcel_ops \<Rightarrow> 'p \<Rightarrow> (bool \<Rightarrow> 'p outcome) \<Rightarrow> 'p outcome" where
  "with_bool P d f = (case readBool P d of Some (b, _) \<Rightarrow> f b | None \<Rightarrow> refuse P E_READ_PARCEL_ERROR)"

definition OnPowerStateChangedStub :: "'p parcel_ops \<Rightarrow> 'p \<Rightarrow> 'p outcome" where
  "OnPowerStateChangedStub P d = with_uint32 P d (\<lambda>type. called P (CbPowerStateChanged type))"

definition OnAsyncPowerStateChangedStub :: "'p parcel_ops \<Rightarrow> 'p \<Rightarrow> 'p outcome" where
  "OnAsyncPowerStateChangedStub P d = with_uint32 P d (\<lambda>type. called P (CbAsyncPowerStateChanged type))"

definition PowerStateCallbackStub_OnRemoteRequest :: "'p parcel_ops \<Rightarrow> nat \<Rightarrow> 'p \<Rightarrow> 'p outcome" where
  "PowerStateCallbackStub_OnRemoteRequest P code data = check_token P IPowerStateCallback data (\<lambda>d.
     if code = POWER_STATE_CHANGED then OnPowerStateChangedStub P d
     else if code = ASYNC_POWER_STATE_CHANGED then OnAsyncPowerStateChangedStub P d
     else refuse P UNKNOWN_CODE)"

definition OnSyncSleepStub :: "'p parcel_ops \<Rightarrow> 'p \<Rightarrow> 'p outcome" where
  "OnSyncSleepStub P d = with_bool P d (\<lambda>force. called P (CbSyncSleep force))"

definition OnSyncWakeupStub :: "'p parcel_ops \<Rightarrow> 'p \<Rightarrow> 'p outcome" where
  "OnSyncWakeupStub P d = with_bool P d (\<lambda>force. called P (CbSyncWakeup force))"

definition SyncSleepCallbackStub_OnRemoteRequest :: "'p parcel_ops \<Rightarrow> nat \<Rightarrow> 'p \<Rightarrow> 'p outcome" where
  "SyncSleepCallbackStub_OnRemoteRequest P code data = check_token P ISyncSleepCallback data (\<lambda>d.
     if code = SLEEP_CMD_ON_SYNC_SLEEP then OnSyncSleepStub P d
     else if code = SLEEP_CMD_ON_SYNC_WAKEUP then OnSyncWakeupStub P d
     else refuse P UNKNOWN_CODE)"

definition OnSyncHibernateStub :: "'p parcel_ops \<Rightarrow> 'p outcome" where
  "OnSyncHibernateStub P = called P CbSyncHibernate"

definition Hibernate_OnSyncWakeupStub :: "'p parcel_ops \<Rightarrow> 'p \<Rightarrow> 'p outcome" where
  "Hibernate_OnSyncWakeupStub P d = with_bool P d (\<lambda>hibernateResult. called P (CbHibernateWakeup hibernateResult))"

definition SyncHibernateCallbackStub_OnRemoteRequest :: "'p parcel_ops \<Rightarrow> nat \<Rightarrow> 'p \<Rightarrow> 'p outcome" where
  "SyncHibernateCallbackStub_OnRemoteRequest P code data = check_token P ISyncHibernateCallback data (\<lambda>d.
     if code = HIBERNATE_CMD_ON_SYNC_HIBERNATE then OnSyncHibernateStub P
     else if code = HIBERNATE_CMD_ON_SYNC_WAKEUP then Hibernate_OnSyncWakeupStub P d
     else refuse P UNKNOWN_CODE)"

definition OnPowerModeCallbackStub :: "'p parcel_ops \<Rightarrow> 'p \<Rightarrow> 'p outcome" where
  "OnPowerModeCallbackStub P d = with_uint32 P d (\<lambda>mode. called P (CbPowerModeChanged mode))"

definition PowerModeCallbackStub_OnRemoteRequest :: "'p parcel_ops \<Rightarrow> nat \<Rightarrow> 'p \<Rightarrow> 'p outcome" where
  "PowerModeCallbackStub_OnRemoteRequest P code data = check_token P IPowerModeCallback data (\<lambda>d.
     if code = POWER_MODE_CHANGED then OnPowerModeCallbackStub P d else refuse P UNKNOWN_CODE)"

definition PowerRunningLockCallbackStub_OnRemoteRequest :: "'p parcel_ops \<Rightarrow> nat \<Rightarrow> 'p \<Rightarrow> 'p outcome" where
  "PowerRunningLockCallbackStub_OnRemoteRequest P code data = check_token P IPowerRunninglockCallback data (\<lambda>d.
     if code = POWER_RUNNINGLOCK_CHANGED then
       (case readString P d of
          Some (message, _) \<Rightarrow> called P (CbRunningLockMessage message)
        | None \<Rightarrow> refuse P E_READ_PARCEL_ERROR)
     else refuse P UNKNOWN_CODE)"

definition RunningLockChangedCallbackStub_OnRemoteRequest :: "'p parcel_ops \<Rightarrow> nat \<Rightarrow> 'p \<Rightarrow> 'p outcome" where
  "RunningLockChangedCallbackStub_OnRemoteRequest P code data = check_token P IRunningLockChangedCallback data (\<lambda>d.
     if code = RUNNINGLOCK_STATE_CHANGED then
       (case readUint32 P d of
          None \<Rightarrow> refuse P E_READ_PARCEL_ERROR
        | Some (state, d) \<Rightarrow> (case readUint64 P d of
            None \<Rightarrow> refuse P E_READ_PARCEL_ERROR
          | Some (display, _) \<Rightarrow> called P (CbScreenRunningLockChanged state display)))
     else refuse P UNKNOWN_CODE)"

definition OnScreenStateChangedStub :: "'p parcel_ops \<Rightarrow> 'p \<Rightarrow> 'p outcome" where
  "OnScreenStateChangedStub P d = with_uint32 P d (\<lambda>type. called P (CbScreenStateChanged type))"

definition ScreenOffPreCallbackStub_OnRemoteRequest :: "'p parcel_ops \<Rightarrow> nat \<Rightarrow> 'p \<Rightarrow> 'p outcome" where
  "ScreenOffPreCallbackStub_OnRemoteRequest P code data = check_token P IScreenOffPreCallback data (\<lambda>d.
     if code = SCREEN_OFF_PRE_CHANGED then OnScreenStateChangedStub P d else refuse P UNKNOWN_CODE)"

definition OnSyncUlsrStub :: "'p parcel_ops \<Rightarrow> 'p outcome" where
  "OnSyncUlsrStub P = called P CbSyncUlsr"

definition OnAsyncWakeupStub :: "'p parcel_ops \<Rightarrow> 'p \<Rightarrow> 'p outcome" where
  "OnAsyncWakeupStub P d = with_bool P d (\<lambda>ulsrResult. called P (CbAsyncWakeup ulsrResult))"

definition UlsrCallbackStub_OnRemoteRequest :: "'p parcel_ops \<Rightarrow> nat \<Rightarrow> 'p \<Rightarrow> 'p outcome" where
  "UlsrCallbackStub_OnRemoteRequest P code data = check_token P IUlsrCallback data (\<lambda>d.
     if code = CMD_ON_SYNC_ULSR then OnSyncUlsrStub P
     else if code = CMD_ON_ASYNC_WAKEUP then OnAsyncWakeupStub P d
     else refuse P UNKNOWN_CODE)"

definition OnAsyncShutdownCallbackStub :: "'p parcel_ops \<Rightarrow> 'p outcome" where
  "OnAsyncShutdownCallbackStub P = called P CbAsyncShutdown"

definition OnAsyncShutdownOrRebootCallbackStub :: "'p parcel_ops \<Rightarrow> 'p \<Rightarrow> 'p outcome" where
  "OnAsyncShutdownOrRebootCallbackStub P d = with_bool P d (\<lambda>isReboot. called P (CbAsyncShutdownOrReboot isReboot))"

definition AsyncShutdownCallbackStub_OnRemoteRequest :: "'p parcel_ops \<Rightarrow> nat \<Rightarrow> 'p \<Rightarrow> 'p outcome" where
  "AsyncShutdownCallbackStub_OnRemoteRequest P code data = check_token P IAsyncShutdownCallback data (\<lambda>d.
     if code = CMD_ON_ASYNC_SHUTDOWN_OR_REBOOT then OnAsyncShutdownOrRebootCallbackStub P d
     else if code = CMD_ON_ASYNC_SHUTDOWN then OnAsyncShutdownCallbackStub P
     else refuse P UNKNOWN_CODE)"

definition OnSyncShutdownCallbackStub :: "'p parcel_ops \<Rightarrow> 'p outcome" where
  "OnSyncShutdownCallbackStub P = called P CbSyncShutdown"

definition OnSyncShutdownOrRebootCallbackStub :: "'p parcel_ops \<Rightarrow> 'p \<Rightarrow> 'p outcome" where
  "OnSyncShutdownOrRebootCallbackStub P d = with_bool P d (\<lambda>isReboot. called P (CbSyncShutdownOrReboot isReboot))"

definition SyncShutdownCallbackStub_OnRemoteRequest :: "'p parcel_ops \<Rightarrow> nat \<Rightarrow> 'p \<Rightarrow> 'p outcome" where
  "SyncShutdownCallbackStub_OnRemoteRequest P code data = check_token P ISyncShutdownCallback data (\<lambda>d.
     if code = CMD_ON_SYNC_SHUTDOWN_OR_REBOOT then OnSyncShutdownOrRebootCallbackStub P d
     else if code = CMD_ON_SYNC_SHUTDOWN then OnSyncShutdownCallbackStub P
     else refuse P UNKNOWN_CODE)"

text \<open>\<open>impl\<close> is the implementation of the client: whether it takes the request over.\<close>

definition answer :: "'p parcel_ops \<Rightarrow> client_call option \<Rightarrow> bool \<Rightarrow> 'p outcome" where
  "answer P c isTakeOver = (case writeItem P (PBool isTakeOver) (emptyParcel P) of
     Some reply \<Rightarrow> \<lparr>outResult = NO_ERROR, outCall = c, outReply = reply\<rparr>
   | None \<Rightarrow> \<lparr>outResult = E_WRITE_PARCEL_ERROR, outCall = c, outReply = emptyParcel P\<rparr>)"

definition OnTakeOverSuspendCallbackStub :: "'p parcel_ops \<Rightarrow> (client_call \<Rightarrow> bool) \<Rightarrow> 'p \<Rightarrow> 'p outcome" where
  "OnTakeOverSuspendCallbackStub P impl d = with_uint32 P d (\<lambda>type.
     if \<not> type \<le> SuspendDeviceType_val SUSPEND_DEVICE_REASON_MAX then refuse P E_INNER_ERR
     else answer P (Some (CbTakeOverSuspend type)) (impl (CbTakeOverSuspend type)))"

definition TakeOverSuspendCallbackStub_OnRemoteRequest ::
    "'p parcel_ops \<Rightarrow> (client_call \<Rightarrow> bool) \<Rightarrow> nat \<Rightarrow> 'p \<Rightarrow> 'p outcome" where
  "TakeOverSuspendCallbackStub_OnRemoteRequest P impl code data = check_token P ITakeOverSuspendCallback data (\<lambda>d.
     if code = CMD_ON_TAKEOVER_SUSPEND then OnTakeOverSuspendCallbackStub P impl d else refuse P UNKNOWN_CODE)"

definition read_take_over_info :: "'p parcel_ops \<Rightarrow> 'p \<Rightarrow> TakeOverInfo option" where
  "read_take_over_info P d = do {
     (_, d) \<leftarrow> readItem P KParcelable d;
     (info, _) \<leftarrow> TakeOverInfo_Unmarshalling P d;
     Some info }"

definition OnTakeOverShutdownCallbackStub :: "'p parcel_ops \<Rightarrow> (client_call \<Rightarrow> bool) \<Rightarrow> 'p \<Rightarrow> 'p outcome" where
  "OnTakeOverShutdownCallbackStub P impl d = (case read_take_over_info P d of
     Some info \<Rightarrow> answer P (Some (CbTakeOverShutdown info)) (impl (CbTakeOverShutdown info))
   | None \<Rightarrow> answer P None False)"

definition OnTakeOverHibernateCallbackStub :: "'p parcel_ops \<Rightarrow> (client_call \<Rightarrow> bool) \<Rightarrow> 'p \<Rightarrow> 'p outcome" where
  "OnTakeOverHibernateCallbackStub P impl d = (case read_take_over_info P d of
     Some info \<Rightarrow> answer P (Some (CbTakeOverHibernate info)) (impl (CbTakeOverHibernate info))
   | None \<Rightarrow> answer P None False)"

definition TakeOverShutdownCallbackStub_OnRemoteRequest ::
    "'p parcel_ops \<Rightarrow> (client_call \<Rightarrow> bool) \<Rightarrow> nat \<Rightarrow> 'p \<Rightarrow> 'p outcome" where
  "TakeOverShutdownCallbackStub_OnRemoteRequest P impl code data = check_token P ITakeOverShutdownCallback data (\<lambda>d.
     if code = CMD_ON_TAKEOVER_SHUTDOWN then OnTakeOverShutdownCallbackStub P impl d
     else if code = CMD_ON_TAKEOVER_HIBERNATE then OnTakeOverHibernateCallbackStub P impl d
     else refuse P UNKNOWN_CODE)"

section \<open>Asynchronous replies\<close>

text \<open>
  The object that a client waits on: the value to come and whether it has come.  An unreadable
  reply is read as zero.  A wait ends when the reply has come or with the time-out, and returns
  what is stored then; \<open>replies\<close> are the replies that arrive before it ends.
\<close>

record async_reply =
  asyncReply :: int
  notified :: bool

definition SendAsyncReply :: "int \<Rightarrow> async_reply \<Rightarrow> async_reply" where
  "SendAsyncReply replyValue a = a\<lparr>asyncReply := replyValue, notified := True\<rparr>"

definition WaitForAsyncReply :: "int list \<Rightarrow> async_reply \<Rightarrow> int" where
  "WaitForAsyncReply replies a = (if notified a then asyncReply a
     else case replies of [] \<Rightarrow> asyncReply a | r # _ \<Rightarrow> asyncReply (SendAsyncReply r a))"

definition PowerMgrStubAsync_OnRemoteRequest :: "'p parcel_ops \<Rightarrow> nat \<Rightarrow> 'p \<Rightarrow> 'p outcome" where
  "PowerMgrStubAsync_OnRemoteRequest P code data = check_token P IPowerMgrAsync data (\<lambda>d.
     if code = SEND_ASYNC_REPLY
     then called P (CbSendAsyncReply (case readInt32 P d of Some (i, _) \<Rightarrow> i | None \<Rightarrow> 0))
     else refuse P UNKNOWN_CODE)"

section \<open>Calls arrive\<close>

fun proxy_request :: "'p parcel_ops \<Rightarrow> client_call \<Rightarrow> 'p request option" where
    "proxy_request P (CbPowerStateChanged n) = PowerStateCallbackProxy_OnPowerStateChanged P True n"
  | "proxy_request P (CbAsyncPowerStateChanged n) = PowerStateCallbackProxy_OnAsyncPowerStateChanged P True n"
  | "proxy_request P (CbSyncSleep b) = SyncSleepCallbackProxy_OnSyncSleep P True b"
  | "proxy_request P (CbSyncWakeup b) = SyncSleepCallbackProxy_OnSyncWakeup P True b"
  | "proxy_request P CbSyncHibernate = SyncHibernateCallbackProxy_OnSyncHibernate P True"
  | "proxy_request P (CbHibernateWakeup b) = SyncHibernateCallbackProxy_OnSyncWakeup P True b"
  | "proxy_request P (CbPowerModeChanged n) = PowerModeCallbackProxy_OnPowerModeChanged P True n"
  | "proxy_request P (CbRunningLockMessage s) = PowerRunningLockCallbackProxy_HandleRunningLockMessage P True s"
  | "proxy_request P (CbScreenRunningLockChanged n d) =
       RunningLockChangedCallbackProxy_OnAsyncScreenRunningLockChanged P n d"
  | "proxy_request P (CbScreenStateChanged n) = ScreenOffPreCallbackProxy_OnScreenStateChanged P True n"
  | "proxy_request P (CbTakeOverSuspend n) = take_over_suspend_request P True n"
  | "proxy_request P CbSyncUlsr = UlsrCallbackProxy_OnSyncUlsr P True"
  | "proxy_request P (CbAsyncWakeup b) = UlsrCallbackProxy_OnAsyncWakeup P True b"
  | "proxy_request P CbAsyncShutdown = AsyncShutdownCallbackProxy_OnAsyncShutdown P True"
  | "proxy_request P (CbAsyncShutdownOrReboot b) = AsyncShutdownCallbackProxy_OnAsyncShutdownOrReboot P True b"
  | "proxy_request P CbSyncShutdown = SyncShutdownCallbackProxy_OnSyncShutdown P True"
  | "proxy_request P (CbSyncShutdownOrReboot b) = SyncShutdownCallbackProxy_OnSyncShutdownOrReboot P True b"
  | "proxy_request P (CbTakeOverShutdown info) = take_over_request P True CMD_ON_TAKEOVER_SHUTDOWN info"
  | "proxy_request P (CbTakeOverHibernate info) = take_over_request P True CMD_ON_TAKEOVER_HIBERNATE info"
  | "proxy_request P (CbSendAsyncReply i) = PowerMgrProxyAsync_SendAsyncReply P True i"

fun stub_request :: "'p parcel_ops \<Rightarrow> (client_call \<Rightarrow> bool) \<Rightarrow> iface \<Rightarrow> nat \<Rightarrow> 'p \<Rightarrow> 'p outcome" where
    "stub_request P impl IPowerStateCallback = PowerStateCallbackStub_OnRemoteRequest P"
  | "stub_request P impl ISyncSleepCallback = SyncSleepCallbackStub_OnRemoteRequest P"
  | "stub_request P impl ISyncHibernateCallback = SyncHibernateCallbackStub_OnRemoteRequest P"
  | "stub_request P impl IPowerModeCallback = PowerModeCallbackStub_OnRemoteRequest P"
  | "stub_request P impl IPowerRunninglockCallback = PowerRunningLockCallbackStub_OnRemoteRequest P"
  | "stub_request P impl IRunningLockChangedCallback = RunningLockChangedCallbackStub_OnRemoteRequest P"
  | "stub_request P impl IScreenOffPreCallback = ScreenOffPreCallbackStub_OnRemoteRequest P"
  | "stub_request P impl ITakeOverSuspendCallback = TakeOverSuspendCallbackStub_OnRemoteRequest P impl"
  | "stub_request P impl IUlsrCallback = UlsrCallbackStub_OnRemoteRequest P"
  | "stub_request P impl IAsyncShutdownCallback = AsyncShutdownCallbackStub_OnRemoteRequest P"
  | "stub_request P impl ISyncShutdownCallback = SyncShutdownCallbackStub_OnRemoteRequest P"
  | "stub_request P impl ITakeOverShutdownCallback = TakeOverShutdownCallbackStub_OnRemoteRequest P impl"
  | "stub_request P impl IPowerMgrAsync = PowerMgrStubAsync_OnRemoteRequest P"

fun iface_of :: "client_call \<Rightarrow> iface" where
    "iface_of (CbPowerStateChanged n) = IPowerStateCallback"
  | "iface_of (CbAsyncPowerStateChanged n) = IPowerStateCallback"
  | "iface_of (CbSyncSleep b) = ISyncSleepCallback"
  | "iface_of (CbSyncWakeup b) = ISyncSleepCallback"
  | "iface_of CbSyncHibernate = ISyncHibernateCallback"
  | "iface_of (CbHibernateWakeup b) = ISyncHibernateCallback"
  | "iface_of (CbPowerModeChanged n) = IPowerModeCallback"
  | "iface_of (CbRunningLockMessage s) = IPowerRunninglockCallback"
  | "iface_of (CbScreenRunningLockChanged n d) = IRunningLockChangedCallback"
  | "iface_of (CbScreenStateChanged n) = IScreenOffPreCallback"
  | "iface_of (CbTakeOverSuspend n) = ITakeOverSuspendCallback"
  | "iface_of CbSyncUlsr = IUlsrCallback"
  | "iface_of (CbAsyncWakeup b) = IUlsrCallback"
  | "iface_of CbAsyncShutdown = IAsyncShutdownCallback"
  | "iface_of (CbAsyncShutdownOrReboot b) = IAsyncShutdownCallback"
  | "iface_of CbSyncShutdown = ISyncShutdownCallback"
  | "iface_of (CbSyncShutdownOrReboot b) = ISyncShutdownCallback"
  | "iface_of (CbTakeOverShutdown info) = ITakeOverShutdownCallback"
  | "iface_of (CbTakeOverHibernate info) = ITakeOverShutdownCallback"
  | "iface_of (CbSendAsyncReply i) = IPowerMgrAsync"

fun sendable :: "'p parcel_ops \<Rightarrow> client_call \<Rightarrow> bool" where
    "sendable P (CbTakeOverSuspend n) \<longleftrightarrow> n \<le> SuspendDeviceType_val SUSPEND_DEVICE_REASON_MAX"
  | "sendable P (CbTakeOverShutdown info) \<longleftrightarrow> Str16ToStr8 P (Str8ToStr16 P (takeOverReason info)) = takeOverReason info"
  | "sendable P (CbTakeOverHibernate info) \<longleftrightarrow> Str16ToStr8 P (Str8ToStr16 P (takeOverReason info)) = takeOverReason info"
  | "sendable P _ \<longleftrightarrow> True"

fun needs_answer :: "client_call \<Rightarrow> bool" where
    "needs_answer (CbTakeOverSuspend n) = True"
  | "needs_answer (CbTakeOverShutdown info) = True"
  | "needs_answer (CbTakeOverHibernate info) = True"
  | "needs_answer _ = False"

lemmas proxy_defs = PowerStateCallbackProxy_OnPowerStateChanged_def
  PowerStateCallbackProxy_OnAsyncPowerStateChanged_def SyncSleepCallbackProxy_OnSyncSleep_def
  SyncSleepCallbackProxy_OnSyncWakeup_def SyncHibernateCallbackProxy_OnSyncHibernate_def
  SyncHibernateCallbackProxy_OnSyncWakeup_def PowerModeCallbackProxy_OnPowerModeChanged_def
  PowerRunningLockCallbackProxy_HandleRunningLockMessage_def
  RunningLockChangedCallbackProxy_OnAsyncScreenRunningLockChanged_def
  ScreenOffPreCallbackProxy_OnScreenStateChanged_def take_over_suspend_request_def
  UlsrCallbackProxy_OnSyncUlsr_def UlsrCallbackProxy_OnAsyncWakeup_def
  AsyncShutdownCallbackProxy_OnAsyncShutdown_def AsyncShutdownCallbackProxy_OnAsyncShutdownOrReboot_def
  SyncShutdownCallbackProxy_OnSyncShutdown_def SyncShutdownCallbackProxy_OnSyncShutdownOrReboot_def

lemmas stub_defs = PowerStateCallbackStub_OnRemoteRequest_def SyncSleepCallbackStub_OnRemoteRequest_def
  SyncHibernateCallbackStub_OnRemoteRequest_def PowerModeCallbackStub_OnRemoteRequest_def
  PowerRunningLockCallbackStub_OnRemoteRequest_def RunningLockChangedCallbackStub_OnRemoteRequest_def
  ScreenOffPreCallbackStub_OnRemoteRequest_def TakeOverSuspendCallbackStub_OnRemoteRequest_def
  UlsrCallbackStub_OnRemoteRequest_def AsyncShutdownCallbackStub_OnRemoteRequest_def
  SyncShutdownCallbackStub_OnRemoteRequest_def TakeOverShutdownCallbackStub_OnRemoteRequest_def
  PowerMgrStubAsync_OnRemoteRequest_def

lemmas handler_defs = OnPowerStateChangedStub_def OnAsyncPowerStateChangedStub_def OnSyncSleepStub_def
  OnSyncWakeupStub_def OnSyncHibernateStub_def Hibernate_OnSyncWakeupStub_def OnPowerModeCallbackStub_def
  OnScreenStateChangedStub_def OnSyncUlsrStub_def OnAsyncWakeupStub_def OnAsyncShutdownCallbackStub_def
  OnAsyncShutdownOrRebootCallbackStub_def OnSyncShutdownCallbackStub_def OnSyncShutdownOrRebootCallbackStub_def
  OnTakeOverSuspendCallbackStub_def OnTakeOverShutdownCallbackStub_def OnTakeOverHibernateCallbackStub_def
  with_uint32_def with_bool_def called_def

lemma GetDescriptor_inject [simp]: "GetDescriptor i = GetDescriptor j \<longleftrightarrow> i = j"
proof -
  have "iface_name i = iface_name j \<longleftrightarrow> i = j"
    by (cases i; cases j) simp_all
  then show ?thesis
    by (simp add: GetDescriptor_def inj_map_eq_map inj_on_def)
qed

text \<open>The items of a request after its descriptor.\<close>

fun arguments :: "'p parcel_ops \<Rightarrow> client_call \<Rightarrow> item list" where
    "arguments P (CbPowerStateChanged n) = [PUint32 n]"
  | "arguments P (CbAsyncPowerStateChanged n) = [PUint32 n]"
  | "arguments P (CbSyncSleep b) = [PBool b]"
  | "arguments P (CbSyncWakeup b) = [PBool b]"
  | "arguments P CbSyncHibernate = []"
  | "arguments P (CbHibernateWakeup b) = [PBool b]"
  | "arguments P (CbPowerModeChanged n) = [PUint32 n]"
  | "arguments P (CbRunningLockMessage s) = [PString s]"
  | "arguments P (CbScreenRunningLockChanged n d) = [PUint32 n, PUint64 d]"
  | "arguments P (CbScreenStateChanged n) = [PUint32 n]"
  | "arguments P (CbTakeOverSuspend n) = [PUint32 n]"
  | "arguments P CbSyncUlsr = []"
  | "arguments P (CbAsyncWakeup b) = [PBool b]"
  | "arguments P CbAsyncShutdown = []"
  | "arguments P (CbAsyncShutdownOrReboot b) = [PBool b]"
  | "arguments P CbSyncShutdown = []"
  | "arguments P (CbSyncShutdownOrReboot b) = [PBool b]"
  | "arguments P (CbTakeOverShutdown info) =
       [PParcelable, PString16 (Str8ToStr16 P (takeOverReason info)), PBool (takeOverIntfParam info)]"
  | "arguments P (CbTakeOverHibernate info) =
       [PParcelable, PString16 (Str8ToStr16 P (takeOverReason info)), PBool (takeOverIntfParam info)]"
  | "arguments P (CbSendAsyncReply i) = [PInt32 i]"

definition reliable :: "'p parcel_ops \<Rightarrow> bool" where
  "reliable P \<longleftrightarrow> (\<forall>x p. writeItem P x p \<noteq> None)"

lemma writeItems_reliable: "reliable P \<Longrightarrow> \<exists>p'. writeItems P xs p = Some p'"
proof (induction xs arbitrary: p)
  case (Cons x xs)
  then obtain q where "writeItem P x p = Some q"
    unfolding reliable_def by blast
  with Cons show ?case
    by auto
qed simp

lemma reliable_write:
  assumes "reliable P" and "parcel_laws P contents"
  obtains p' where "writeItem P x p = Some p'" and "contents p' = contents p @ [x]"
  using assms unfolding reliable_def parcel_laws_def by blast

lemma send_items_contents:
  assumes "reliable P" and laws: "parcel_laws P contents"
  shows "\<exists>r. send_items P True i code async xs = Some r \<and> reqCode r = code \<and>
    contents (reqData r) = PToken (GetDescriptor i) # xs"
proof -
  obtain p where p: "writeItems P (PToken (GetDescriptor i) # xs) (emptyParcel P) = Some p"
    using writeItems_reliable [OF assms(1)] by blast
  then have "contents p = PToken (GetDescriptor i) # xs"
    using contents_writeItems [OF laws p] laws by (simp add: parcel_laws_def)
  with p show ?thesis
    by (simp add: send_items_def del: writeItems.simps)
qed

fun code_of :: "client_call \<Rightarrow> nat" where
    "code_of (CbAsyncPowerStateChanged n) = 1"
  | "code_of (CbSyncWakeup b) = 1"
  | "code_of (CbHibernateWakeup b) = 1"
  | "code_of (CbAsyncWakeup b) = 1"
  | "code_of (CbAsyncShutdownOrReboot b) = 1"
  | "code_of (CbSyncShutdownOrReboot b) = 1"
  | "code_of (CbTakeOverHibernate info) = 1"
  | "code_of _ = 0"

lemma take_over_request_contents:
  assumes "reliable P" and laws: "parcel_laws P contents"
  shows "\<exists>r. take_over_request P True code info = Some r \<and> reqCode r = code \<and>
    contents (reqData r) = [PToken (GetDescriptor ITakeOverShutdownCallback), PParcelable,
      PString16 (Str8ToStr16 P (takeOverReason info)), PBool (takeOverIntfParam info)]"
proof -
  obtain d1 where d1: "writeItem P (PToken (GetDescriptor ITakeOverShutdownCallback)) (emptyParcel P) = Some d1"
      "contents d1 = contents (emptyParcel P) @ [PToken (GetDescriptor ITakeOverShutdownCallback)]"
    by (rule reliable_write [OF assms])
  moreover have "contents (emptyParcel P) = []"
    using laws by (simp add: parcel_laws_def)
  ultimately have d1': "contents d1 = [PToken (GetDescriptor ITakeOverShutdownCallback)]"
    by simp
  obtain d2 where d2: "writeItem P PParcelable d1 = Some d2" "contents d2 = contents d1 @ [PParcelable]"
    by (rule reliable_write [OF assms])
  obtain d3 where d3: "TakeOverInfo_Marshalling P info d2 = Some d3"
    unfolding TakeOverInfo_Marshalling_def using writeItems_reliable [OF assms(1)] by blast
  have "contents d3 = contents d2 @ [PString16 (Str8ToStr16 P (takeOverReason info)), PBool (takeOverIntfParam info)]"
    by (rule contents_writeItems [OF laws d3 [unfolded TakeOverInfo_Marshalling_def]])
  with d1(1) d1' d2 d3 show ?thesis
    by (simp add: take_over_request_def)
qed

lemma async_reply_contents:
  assumes "reliable P" and laws: "parcel_laws P contents"
  shows "\<exists>r. PowerMgrProxyAsync_SendAsyncReply P True i = Some r \<and> reqCode r = 0 \<and>
    contents (reqData r) = [PToken (GetDescriptor IPowerMgrAsync), PInt32 i]"
proof -
  obtain d1 where d1: "writeItem P (PToken (GetDescriptor IPowerMgrAsync)) (emptyParcel P) = Some d1"
      "contents d1 = contents (emptyParcel P) @ [PToken (GetDescriptor IPowerMgrAsync)]"
    by (rule reliable_write [OF assms])
  moreover have "contents (emptyParcel P) = []"
    using laws by (simp add: parcel_laws_def)
  ultimately have d1': "contents d1 = [PToken (GetDescriptor IPowerMgrAsync)]"
    by simp
  obtain d2 where d2: "writeItem P (PInt32 i) d1 = Some d2" "contents d2 = contents d1 @ [PInt32 i]"
    by (rule reliable_write [OF assms])
  from d1(1) d1' d2 show ?thesis
    by (simp add: PowerMgrProxyAsync_SendAsyncReply_def SEND_ASYNC_REPLY_def)
qed

lemma proxy_request_contents:
  assumes "reliable P" and "parcel_laws P contents"
  shows "\<exists>r. proxy_request P c = Some r \<and> reqCode r = code_of c \<and>
    contents (reqData r) = PToken (GetDescriptor (iface_of c)) # arguments P c"
  by (cases c) (simp_all add: proxy_defs code_defs send_items_contents [OF assms]
      take_over_request_contents [OF assms] async_reply_contents [OF assms])

lemma stub_other_token:
  assumes "readToken P d = Some (GetDescriptor j, d')" and "i \<noteq> j"
  shows "stub_request P impl i code d = refuse P E_GET_POWER_SERVICE_FAILED"
  using assms by (cases i) (simp_all add: stub_defs check_token_def)

lemma answer_contents:
  assumes "reliable P" and "parcel_laws P contents"
  shows "\<exists>reply. answer P c b = \<lparr>outResult = NO_ERROR, outCall = c, outReply = reply\<rparr> \<and> contents reply = [PBool b]"
proof -
  obtain p where "writeItem P (PBool b) (emptyParcel P) = Some p" "contents p = contents (emptyParcel P) @ [PBool b]"
    by (rule reliable_write [OF assms])
  then show ?thesis
    using assms(2) by (simp add: answer_def parcel_laws_def)
qed

text \<open>What the stub of the right interface does with a request.\<close>

lemma stub_own_token:
  assumes "reliable P" and laws: "parcel_laws P contents" and "sendable P c"
    and token: "readToken P d = Some (GetDescriptor (iface_of c), d')" and args: "contents d' = arguments P c"
  shows "\<exists>reply. stub_request P impl (iface_of c) (code_of c) d =
      \<lparr>outResult = NO_ERROR, outCall = Some c, outReply = reply\<rparr> \<and>
    (needs_answer c \<longrightarrow> contents reply = [PBool (impl c)])"
proof (cases "\<exists>info. c = CbTakeOverShutdown info \<or> c = CbTakeOverHibernate info")
  case True
  then obtain info where c: "c = CbTakeOverShutdown info \<or> c = CbTakeOverHibernate info"
    by blast
  with args have "contents d' = PParcelable #
      [PString16 (Str8ToStr16 P (takeOverReason info)), PBool (takeOverIntfParam info)]"
    by auto
  then obtain d1 where d1: "readItem P KParcelable d' = Some (PParcelable, d1)"
      "contents d1 = [PString16 (Str8ToStr16 P (takeOverReason info)), PBool (takeOverIntfParam info)]"
    using read_contents(8) [OF laws] by blast
  moreover obtain q where "TakeOverInfo_Unmarshalling P d1 = Some (info, q)"
    using read_TakeOverInfo [OF laws, of info d1 "[]"] d1(2) c assms(3) by auto
  ultimately have "read_take_over_info P d' = Some info"
    by (simp add: read_take_over_info_def)
  with c token answer_contents [OF assms(1) laws] show ?thesis
    by (auto simp: stub_defs check_token_def code_defs handler_defs)
next
  case False
  then show ?thesis
    using assms(3) token args answer_contents [OF assms(1) laws]
    by (cases c) (auto simp: stub_defs check_token_def code_defs handler_defs
        dest!: read_contents [OF laws])
qed

text \<open>
  C13: calls to clients arrive.  Each method of a proxy sends a request that the stub of the same interface turns into
  exactly that call with the same arguments, and the stub of any other interface refuses without calling anything; and a
  client that is asked whether it takes a suspend, shutdown or hibernation over is believed: the proxy returns its answer.
  Parcels must not run full, and keep what is written in order.
\<close>

theorem callbacks_arrive:
  fixes P :: "'p parcel_ops" and contents :: "'p \<Rightarrow> item list"
  assumes "reliable P" and laws: "parcel_laws P contents" and "sendable P c"
  shows "\<exists>r reply. proxy_request P c = Some r \<and>
    stub_request P impl (iface_of c) (reqCode r) (reqData r) =
      \<lparr>outResult = NO_ERROR, outCall = Some c, outReply = reply\<rparr> \<and>
    (\<forall>i. i \<noteq> iface_of c \<longrightarrow>
      stub_request P impl i (reqCode r) (reqData r) = refuse P E_GET_POWER_SERVICE_FAILED) \<and>
    (needs_answer c \<longrightarrow> ask_client P
      (\<lambda>r. let out = stub_request P impl (iface_of c) (reqCode r) (reqData r) in (outResult out, outReply out))
      (proxy_request P c) = impl c)"
proof -
  obtain r where r: "proxy_request P c = Some r" "reqCode r = code_of c"
      "contents (reqData r) = PToken (GetDescriptor (iface_of c)) # arguments P c"
    using proxy_request_contents [OF assms(1,2)] by blast
  then obtain d' where token: "readToken P (reqData r) = Some (GetDescriptor (iface_of c), d')" "contents d' = arguments P c"
    using read_contents(7) [OF laws] by blast
  obtain reply where reply: "stub_request P impl (iface_of c) (code_of c) (reqData r) =
      \<lparr>outResult = NO_ERROR, outCall = Some c, outReply = reply\<rparr>"
      "needs_answer c \<longrightarrow> contents reply = [PBool (impl c)]"
    using stub_own_token [OF assms token] by blast
  have "ask_client P (\<lambda>r. let out = stub_request P impl (iface_of c) (reqCode r) (reqData r)
      in (outResult out, outReply out)) (proxy_request P c) = impl c" if na: "needs_answer c"
  proof -
    obtain q where "readBool P reply = Some (impl c, q)"
      using read_contents(4) [OF laws] reply(2) na by blast
    then show ?thesis
      using r(1,2) reply(1) by (simp add: ask_client_def Let_def)
  qed
  with r reply stub_other_token [OF token(1)] show ?thesis
    by auto
qed

theorem callbacks_arrive_witness:
  "reliable list_parcel \<and> (\<exists>r reply. proxy_request list_parcel (CbTakeOverSuspend 4) = Some r \<and>
    stub_request list_parcel (\<lambda>_. True) ITakeOverSuspendCallback (reqCode r) (reqData r) =
      \<lparr>outResult = NO_ERROR, outCall = Some (CbTakeOverSuspend 4), outReply = reply\<rparr>)"
proof -
  have "reliable list_parcel"
    by (simp add: reliable_def list_parcel_def)
  then show ?thesis
    using callbacks_arrive [OF _ list_parcel_laws, of "CbTakeOverSuspend 4" "\<lambda>_. True"] by auto
qed

end
