(* ===== verification/Power_Client.thy ===== *)
theory Power_Client
  imports Ipc_Adapter Callback_Ipc
begin

text \<open>
  The client library: \<open>power_mgr_client.cpp\<close>, \<open>running_lock.cpp\<close>, \<open>client_lifecycle.cpp\<close> and
  \<open>shutdown_client.cpp\<close>.  The state has the client process (its connection, its lock objects), the service it talks
  to and which instance of the service is running.  The code that carries a request over is generated from
  \<open>IPowerMgr.idl\<close>: a request either reaches the entry point of theory \<open>Ipc_Adapter\<close> or fails, leaving output arguments
  as they are.  Whether it arrives, and what the system ability manager answers, is the parameter \<open>cenv\<close>; a request to an
  instance that no longer runs never arrives.  Weak pointers to the proxy can be promoted while the client holds it.
\<close>

section \<open>State\<close>

datatype ccall =
    GetSystemAbilityManager
  | CheckSystemAbility
  | IsProxyObject
  | AddRecipient_call
  | RemoveRecipient_call
  | Sleep_us nat
  | SendRequest string
  | ReplyInTime
  | TickCount
  | OpenBbox
  | IoctlSetReboot int
  | IoctlShutStage string
  | CloseBbox

record cenv =
  answers :: "ccall \<Rightarrow> ccall list \<Rightarrow> bool"
  ticks :: "ccall list \<Rightarrow> int"

record RunningLockObj =
  lockProxy :: "nat option"  \<comment> \<open>the instance its weak pointer refers to\<close>
  lockToken :: obj
  objInfo :: RunningLockInfo

record client_state =
  proxy :: "nat option"  \<comment> \<open>the instance of the service behind the proxy\<close>
  deathRecipient :: bool
  weakLocks :: "nat list"  \<comment> \<open>\<open>runningLocks_\<close>: weak pointers, by object number\<close>
  lockObjects :: "nat \<Rightarrow> RunningLockObj option"  \<comment> \<open>the objects that are alive\<close>
  nextObject :: nat
  lastError :: PowerErrors
  clientToken :: obj
  lcProxy :: "nat option"  \<comment> \<open>\<open>ClientLifeCycle::proxy_\<close>\<close>
  lcRecipient :: bool

record cworld =
  cli :: client_state
  srv :: world
  instance_no :: nat
  clog :: "ccall list"

type_synonym 'a C = "(cworld, 'a) state"

abbreviation mod_cli :: "(client_state \<Rightarrow> client_state) \<Rightarrow> unit C" where
  "mod_cli f \<equiv> modify (\<lambda>w. w\<lparr>cli := f (cli w)\<rparr>)"

abbreviation clog_call :: "ccall \<Rightarrow> unit C" where
  "clog_call c \<equiv> modify (\<lambda>w. w\<lparr>clog := c # clog w\<rparr>)"

definition cask :: "cenv \<Rightarrow> ccall \<Rightarrow> bool C" where
  "cask K c = do { b \<leftarrow> gets (\<lambda>w. answers K c (clog w)); clog_call c; State_Monad.return b }"

definition ClientTick :: "cenv \<Rightarrow> int C" where
  "ClientTick K = do { t \<leftarrow> gets (\<lambda>w. ticks K (clog w)); clog_call TickCount; State_Monad.return t }"

text \<open>A request to the instance \<open>i\<close>: \<open>None\<close> when it does not arrive.\<close>

definition remote :: "cenv \<Rightarrow> nat \<Rightarrow> string \<Rightarrow> 'a M \<Rightarrow> 'a option C" where
  "remote K i name m = do {
     sent \<leftarrow> cask K (SendRequest name);
     alive \<leftarrow> gets (\<lambda>w. instance_no w = i);
     if sent \<and> alive then do {
       r \<leftarrow> gets (\<lambda>w. Prelude.result m (srv w));
       modify (\<lambda>w. w\<lparr>srv := exec m (srv w)\<rparr>);
       State_Monad.return (Some r) }
     else State_Monad.return None }"

section \<open>Connection\<close>

definition CONNECT_RETRY_COUNT :: nat where "CONNECT_RETRY_COUNT = 5"
definition CONNECT_RETRY_MS :: nat where "CONNECT_RETRY_MS = 800000"

definition GetPowerMgrProxy :: "cenv \<Rightarrow> nat option C" where
  "GetPowerMgrProxy K = do {
     p \<leftarrow> gets (\<lambda>w. proxy (cli w));
     if p \<noteq> None then State_Monad.return p
     else do {
       sam \<leftarrow> cask K GetSystemAbilityManager;
       if \<not> sam then State_Monad.return None
       else do {
         remoteObject \<leftarrow> cask K CheckSystemAbility;
         if \<not> remoteObject then State_Monad.return None
         else do {
           isProxy \<leftarrow> cask K IsProxyObject;
           added \<leftarrow> (if isProxy then cask K AddRecipient_call else State_Monad.return True);
           if \<not> added then State_Monad.return None
           else do {
             i \<leftarrow> gets instance_no;
             mod_cli (\<lambda>c. c\<lparr>proxy := Some i, deathRecipient := True\<rparr>);
             State_Monad.return (Some i) } } } } }"

definition ResetProxy :: "nat option \<Rightarrow> unit C" where
  "ResetProxy remoteObject = (case remoteObject of None \<Rightarrow> skip
   | Some i \<Rightarrow> do {
       p \<leftarrow> gets (\<lambda>w. proxy (cli w));
       whenM (p = Some i) (do {
         clog_call RemoveRecipient_call;
         mod_cli (\<lambda>c. c\<lparr>proxy := None\<rparr>) }) })"

text \<open>The loop after the death of the service: sleep and try, at most \<open>CONNECT_RETRY_COUNT\<close> times.\<close>

fun reconnect :: "cenv \<Rightarrow> nat \<Rightarrow> bool C" where
    "reconnect K 0 = State_Monad.return False"
  | "reconnect K (Suc n) = do {
       clog_call (Sleep_us CONNECT_RETRY_MS);
       p \<leftarrow> GetPowerMgrProxy K;
       if p \<noteq> None then State_Monad.return True else reconnect K n }"

section \<open>Lock objects\<close>

definition DEFAULT_TIMEOUT :: int where "DEFAULT_TIMEOUT = 3000"
definition PARAM_MAX_SIZE :: nat where "PARAM_MAX_SIZE = 2000"
definition NOT_USE_TIMEOUT :: int where "NOT_USE_TIMEOUT = -1"
definition MAX_NAME_LEN :: nat where "MAX_NAME_LEN = 256"

text \<open>\<open>proxy_.promote()\<close>: the proxy lives while the client holds it.\<close>

definition promote :: "RunningLockObj \<Rightarrow> nat option C" where
  "promote l = gets (\<lambda>w. if lockProxy l = proxy (cli w) then lockProxy l else None)"

definition RunningLock_Create :: "env \<Rightarrow> cenv \<Rightarrow> RunningLockObj \<Rightarrow> PowerErrors C" where
  "RunningLock_Create E K l = do {
     p \<leftarrow> promote l;
     case p of
       None \<Rightarrow> State_Monad.return ERR_CONNECTION_FAIL
     | Some i \<Rightarrow> do {
         r \<leftarrow> remote K i ''CreateRunningLockIpc'' (CreateRunningLockIpc E (lockToken l) (objInfo l));
         State_Monad.return (case r of None \<Rightarrow> ERR_FAILURE | Some (_, powerError) \<Rightarrow> powerError) } }"

text \<open>\<open>Recover\<close> stores the new proxy in the object first.\<close>

definition RunningLock_Recover :: "env \<Rightarrow> cenv \<Rightarrow> nat \<Rightarrow> nat \<Rightarrow> PowerErrors C" where
  "RunningLock_Recover E K k i = do {
     mod_cli (\<lambda>c. c\<lparr>lockObjects := (lockObjects c)(k := map_option (\<lambda>l. l\<lparr>lockProxy := Some i\<rparr>) (lockObjects c k))\<rparr>);
     l \<leftarrow> gets (\<lambda>w. lockObjects (cli w) k);
     case l of None \<Rightarrow> State_Monad.return ERR_CONNECTION_FAIL | Some l \<Rightarrow> RunningLock_Create E K l }"

definition lock_error :: "PowerErrors \<Rightarrow> ErrCode" where
  "lock_error e = (if e = ERR_OK then NO_ERROR
     else if e = ERR_PERMISSION_DENIED then E_PERMISSION_DENIED else E_INNER_ERR)"

definition RunningLock_Lock :: "env \<Rightarrow> cenv \<Rightarrow> RunningLockObj \<Rightarrow> int \<Rightarrow> ErrCode C" where
  "RunningLock_Lock E K l timeOutMs = do {
     p \<leftarrow> promote l;
     case p of
       None \<Rightarrow> State_Monad.return E_GET_POWER_SERVICE_FAILED
     | Some i \<Rightarrow>
         let t = (if infoType (objInfo l) = RUNNINGLOCK_PROXIMITY_SCREEN_CONTROL then NOT_USE_TIMEOUT else timeOutMs);
             t = (if t = 0 then DEFAULT_TIMEOUT else t) in do {
         r \<leftarrow> remote K i ''LockIpc'' (LockIpc E (lockToken l) t);
         State_Monad.return (lock_error (case r of None \<Rightarrow> ERR_FAILURE | Some (_, powerError) \<Rightarrow> powerError)) } }"

definition RunningLock_UnLock :: "env \<Rightarrow> cenv \<Rightarrow> RunningLockObj \<Rightarrow> ErrCode C" where
  "RunningLock_UnLock E K l = do {
     p \<leftarrow> promote l;
     case p of
       None \<Rightarrow> State_Monad.return E_GET_POWER_SERVICE_FAILED
     | Some i \<Rightarrow> do {
         r \<leftarrow> remote K i ''UnLockIpc'' (UnLockIpc E (lockToken l) (infoName (objInfo l)));
         State_Monad.return (lock_error (case r of None \<Rightarrow> ERR_FAILURE | Some (_, powerError) \<Rightarrow> powerError)) } }"

definition RunningLock_UpdateWorkSource :: "env \<Rightarrow> cenv \<Rightarrow> RunningLockObj \<Rightarrow> int list \<Rightarrow> ErrCode C" where
  "RunningLock_UpdateWorkSource E K l workSources = do {
     p \<leftarrow> promote l;
     case p of
       None \<Rightarrow> State_Monad.return E_GET_POWER_SERVICE_FAILED
     | Some i \<Rightarrow>
         if length workSources > PARAM_MAX_SIZE then State_Monad.return E_INNER_ERR
         else do {
           r \<leftarrow> remote K i ''UpdateWorkSourceIpc'' (UpdateWorkSourceIpc E (lockToken l) workSources);
           State_Monad.return (if r = None then E_INNER_ERR else NO_ERROR) } }"

definition RunningLock_IsUsed :: "cenv \<Rightarrow> RunningLockObj \<Rightarrow> bool C" where
  "RunningLock_IsUsed K l = do {
     p \<leftarrow> promote l;
     case p of
       None \<Rightarrow> State_Monad.return False
     | Some i \<Rightarrow> do {
         r \<leftarrow> remote K i ''IsUsedIpc'' (IsUsedIpc (lockToken l));
         State_Monad.return (case r of None \<Rightarrow> False | Some (_, isUsed) \<Rightarrow> isUsed) } }"

definition RunningLock_Release :: "env \<Rightarrow> cenv \<Rightarrow> RunningLockObj \<Rightarrow> unit C" where
  "RunningLock_Release E K l = do {
     p \<leftarrow> promote l;
     case p of
       None \<Rightarrow> skip
     | Some i \<Rightarrow> do {
         _ \<leftarrow> remote K i ''ReleaseRunningLockIpc'' (ReleaseRunningLockIpc E (lockToken l) (infoName (objInfo l)));
         skip } }"

text \<open>The destructor.\<close>

definition RunningLock_destroy :: "env \<Rightarrow> cenv \<Rightarrow> nat \<Rightarrow> unit C" where
  "RunningLock_destroy E K k = do {
     l \<leftarrow> gets (\<lambda>w. lockObjects (cli w) k);
     case l of
       None \<Rightarrow> skip
     | Some l \<Rightarrow> do {
         RunningLock_Release E K l;
         mod_cli (\<lambda>c. c\<lparr>lockObjects := (lockObjects c)(k := None)\<rparr>) } }"

section \<open>The client\<close>

definition new_lock_name :: "string \<Rightarrow> int \<Rightarrow> string" where
  "new_lock_name name tick = take MAX_NAME_LEN name @ ''_'' @ to_string tick"

text \<open>
  \<open>CreateRunningLock\<close>, both overloads: the one without a display passes the default of the constructor.  When the lock
  cannot be created its object is destroyed on return, which asks the service to release it.
\<close>

definition Client_CreateRunningLock :: "env \<Rightarrow> cenv \<Rightarrow> string \<Rightarrow> RunningLockType \<Rightarrow> nat \<Rightarrow> nat option C" where
  "Client_CreateRunningLock E K name type display = do {
     p \<leftarrow> GetPowerMgrProxy K;
     if p = None then State_Monad.return None
     else do {
       t \<leftarrow> ClientTick K;
       k \<leftarrow> gets (\<lambda>w. nextObject (cli w));
       let l = \<lparr>lockProxy = p, lockToken = k,
         objInfo = \<lparr>infoName = new_lock_name name t, infoType = type, infoBundleName = '''', infoPid = 0, infoUid = 0,
           infoDisplayId = display\<rparr>\<rparr>;
       mod_cli (\<lambda>c. c\<lparr>nextObject := Suc k\<rparr>);
       e \<leftarrow> RunningLock_Create E K l;
       if e \<noteq> ERR_OK then do {
         mod_cli (\<lambda>c. c\<lparr>lastError := e\<rparr>);
         RunningLock_Release E K l;
         State_Monad.return None }
       else do {
         mod_cli (\<lambda>c. c\<lparr>lockObjects := (lockObjects c)(k := Some l), weakLocks := weakLocks c @ [k]\<rparr>);
         State_Monad.return (Some k) } } }"

fun recover_locks :: "env \<Rightarrow> cenv \<Rightarrow> nat list \<Rightarrow> unit C" where
    "recover_locks E K [] = skip"
  | "recover_locks E K (k # ks) = do {
       l \<leftarrow> gets (\<lambda>w. lockObjects (cli w) k);
       if l = None then recover_locks E K ks
       else do {
         p \<leftarrow> GetPowerMgrProxy K;
         case p of
           None \<Rightarrow> skip
         | Some i \<Rightarrow> do {
             _ \<leftarrow> RunningLock_Recover E K k i;
             recover_locks E K ks } } }"

definition RecoverRunningLocks :: "env \<Rightarrow> cenv \<Rightarrow> unit C" where
  "RecoverRunningLocks E K = do {
     ks \<leftarrow> gets (\<lambda>w. weakLocks (cli w));
     recover_locks E K ks }"

definition Client_OnRemoteDied :: "env \<Rightarrow> cenv \<Rightarrow> nat option \<Rightarrow> unit C" where
  "Client_OnRemoteDied E K remoteObject = do {
     ResetProxy remoteObject;
     connected \<leftarrow> reconnect K CONNECT_RETRY_COUNT;
     whenM connected (RecoverRunningLocks E K) }"

definition Client_GetError :: "PowerErrors C" where
  "Client_GetError = do {
     temp \<leftarrow> gets (\<lambda>w. lastError (cli w));
     mod_cli (\<lambda>c. c\<lparr>lastError := ERR_OK\<rparr>);
     State_Monad.return temp }"

text \<open>
  The shapes in which the methods of the client use the service: the error in an output argument, a value in an
  output argument with the default that the method starts from, and the result of the request itself.
\<close>

definition request_error :: "cenv \<Rightarrow> string \<Rightarrow> (int \<times> PowerErrors) M \<Rightarrow> PowerErrors C" where
  "request_error K name m = do {
     p \<leftarrow> GetPowerMgrProxy K;
     case p of
       None \<Rightarrow> State_Monad.return ERR_CONNECTION_FAIL
     | Some i \<Rightarrow> do {
         r \<leftarrow> remote K i name m;
         State_Monad.return (case r of None \<Rightarrow> ERR_CONNECTION_FAIL | Some (_, powerError) \<Rightarrow> powerError) } }"

definition request_value :: "cenv \<Rightarrow> string \<Rightarrow> 'a \<Rightarrow> 'a \<Rightarrow> (int \<times> 'a) M \<Rightarrow> 'a C" where
  "request_value K name unconnected start m = do {
     p \<leftarrow> GetPowerMgrProxy K;
     case p of
       None \<Rightarrow> State_Monad.return unconnected
     | Some i \<Rightarrow> do {
         r \<leftarrow> remote K i name m;
         State_Monad.return (case r of None \<Rightarrow> start | Some (_, v) \<Rightarrow> v) } }"

definition request_ok :: "cenv \<Rightarrow> string \<Rightarrow> int M \<Rightarrow> bool C" where
  "request_ok K name m = do {
     p \<leftarrow> GetPowerMgrProxy K;
     case p of
       None \<Rightarrow> State_Monad.return False
     | Some i \<Rightarrow> do {
         r \<leftarrow> remote K i name m;
         State_Monad.return (r = Some 0) } }"

text \<open>For callbacks: the proxy is fetched first, then both pointers are tested.\<close>

definition request_callback :: "cenv \<Rightarrow> string \<Rightarrow> obj option \<Rightarrow> (obj \<Rightarrow> int M) \<Rightarrow> bool C" where
  "request_callback K name callback m = (case callback of
     None \<Rightarrow> do { _ \<leftarrow> GetPowerMgrProxy K; State_Monad.return False }
   | Some c \<Rightarrow> request_ok K name (m c))"

definition request_callback_error :: "cenv \<Rightarrow> string \<Rightarrow> obj option \<Rightarrow> (int \<times> PowerErrors) M \<Rightarrow> PowerErrors C" where
  "request_callback_error K name callback m = (case callback of
     None \<Rightarrow> do { _ \<leftarrow> GetPowerMgrProxy K; State_Monad.return ERR_PARAM_INVALID }
   | Some c \<Rightarrow> request_error K name m)"

text \<open>
  A request that is answered by a call back: the client waits 100 milliseconds for the reply and returns what the
  reply object holds then, a number that starts at zero.
\<close>

definition new_async_reply :: async_reply where
  "new_async_reply = \<lparr>asyncReply = 0, notified = False\<rparr>"

definition request_reply :: "cenv \<Rightarrow> string \<Rightarrow> (int \<times> int list) M \<Rightarrow> int C" where
  "request_reply K name m = do {
     p \<leftarrow> GetPowerMgrProxy K;
     case p of
       None \<Rightarrow> State_Monad.return (PowerErrors_val ERR_CONNECTION_FAIL)
     | Some i \<Rightarrow> do {
         r \<leftarrow> remote K i name m;
         case r of
           None \<Rightarrow> State_Monad.return (PowerErrors_val ERR_CONNECTION_FAIL)
         | Some (_, replies) \<Rightarrow> do {
             intime \<leftarrow> cask K ReplyInTime;
             State_Monad.return (WaitForAsyncReply (if intime then replies else []) new_async_reply) } } }"

section \<open>Requests about the device\<close>

definition Client_RebootDevice :: "env \<Rightarrow> cenv \<Rightarrow> string \<Rightarrow> PowerErrors C" where
  "Client_RebootDevice E K reason = request_error K ''RebootDeviceIpc'' (RebootDeviceIpc E reason)"

definition Client_RebootDeviceForDeprecated :: "env \<Rightarrow> cenv \<Rightarrow> string \<Rightarrow> PowerErrors C" where
  "Client_RebootDeviceForDeprecated E K reason =
     request_error K ''RebootDeviceForDeprecatedIpc'' (RebootDeviceForDeprecatedIpc E reason)"

definition StartBootTimer :: "cenv \<Rightarrow> bool \<Rightarrow> unit C" where
  "StartBootTimer K isReboot = do {
     fd \<leftarrow> cask K OpenBbox;
     whenM fd (do {
       clog_call (IoctlSetReboot (if isReboot then 1 else 0));
       clog_call (IoctlShutStage ''SHUT_STAGE_FRAMEWORK_START'');
       clog_call (IoctlShutStage ''SHUT_STAGE_FRAMEWORK_FINISH'');
       clog_call CloseBbox }) }"

definition Client_ForceRebootDevice :: "env \<Rightarrow> cenv \<Rightarrow> string \<Rightarrow> PowerErrors C" where
  "Client_ForceRebootDevice E K reason = do {
     StartBootTimer K True;
     request_error K ''ForceRebootDeviceIpc'' (ForceRebootDeviceIpc E reason) }"

definition Client_ShutDownDevice :: "env \<Rightarrow> cenv \<Rightarrow> string \<Rightarrow> PowerErrors C" where
  "Client_ShutDownDevice E K reason = request_error K ''ShutDownDeviceIpc'' (ShutDownDeviceIpc E reason)"

definition Client_SetSuspendTag :: "env \<Rightarrow> cenv \<Rightarrow> string \<Rightarrow> PowerErrors C" where
  "Client_SetSuspendTag E K tag = request_error K ''SetSuspendTagIpc'' (SetSuspendTagIpc E tag)"

text \<open>Output arguments of the caller: \<open>None\<close> when the client leaves them as they were.\<close>

definition request_text :: "cenv \<Rightarrow> string \<Rightarrow> (int \<times> (PowerErrors + string)) M \<Rightarrow> (PowerErrors \<times> string option) C" where
  "request_text K name m = do {
     p \<leftarrow> GetPowerMgrProxy K;
     case p of
       None \<Rightarrow> State_Monad.return (ERR_CONNECTION_FAIL, None)
     | Some i \<Rightarrow> do {
         r \<leftarrow> remote K i name m;
         State_Monad.return (case r of
             None \<Rightarrow> (ERR_CONNECTION_FAIL, None)
           | Some (_, Inl e) \<Rightarrow> (e, None)
           | Some (_, Inr s) \<Rightarrow> (ERR_OK, Some s)) } }"

definition Client_GetShutdownReason :: "env \<Rightarrow> cenv \<Rightarrow> (PowerErrors \<times> string option) C" where
  "Client_GetShutdownReason E K = request_text K ''GetShutdownReasonIpc'' (GetShutdownReasonIpc E)"

text \<open>Arguments of a request are evaluated before it is sent: the time is read in between.\<close>

definition request_error_at :: "cenv \<Rightarrow> string \<Rightarrow> (int \<Rightarrow> (int \<times> PowerErrors) M) \<Rightarrow> PowerErrors C" where
  "request_error_at K name m = do {
     p \<leftarrow> GetPowerMgrProxy K;
     case p of
       None \<Rightarrow> State_Monad.return ERR_CONNECTION_FAIL
     | Some i \<Rightarrow> do {
         now \<leftarrow> ClientTick K;
         r \<leftarrow> remote K i name (m now);
         State_Monad.return (case r of None \<Rightarrow> ERR_CONNECTION_FAIL | Some (_, powerError) \<Rightarrow> powerError) } }"

definition Client_SuspendDevice :: "env \<Rightarrow> cenv \<Rightarrow> SuspendDeviceType \<Rightarrow> bool \<Rightarrow> PowerErrors C" where
  "Client_SuspendDevice E K reason suspendImmed =
     request_error_at K ''SuspendDeviceIpc'' (\<lambda>now. SuspendDeviceIpc E now reason suspendImmed)"

definition Client_WakeupDevice :: "env \<Rightarrow> cenv \<Rightarrow> WakeupDeviceType \<Rightarrow> string \<Rightarrow> PowerErrors C" where
  "Client_WakeupDevice E K reason detail =
     request_error_at K ''WakeupDeviceIpc'' (\<lambda>now. WakeupDeviceIpc E now reason detail)"

definition Client_WakeupDeviceAsync :: "env \<Rightarrow> cenv \<Rightarrow> WakeupDeviceType \<Rightarrow> string \<Rightarrow> unit C" where
  "Client_WakeupDeviceAsync E K reason detail = do {
     p \<leftarrow> GetPowerMgrProxy K;
     case p of
       None \<Rightarrow> skip
     | Some i \<Rightarrow> do {
         now \<leftarrow> ClientTick K;
         _ \<leftarrow> remote K i ''WakeupDeviceAsyncIpc'' (WakeupDeviceAsyncIpc E now reason detail);
         skip } }"

definition Client_RefreshActivity :: "env \<Rightarrow> cenv \<Rightarrow> UserActivityType \<Rightarrow> bool C" where
  "Client_RefreshActivity E K type = do {
     p \<leftarrow> GetPowerMgrProxy K;
     case p of
       None \<Rightarrow> State_Monad.return False
     | Some i \<Rightarrow> do {
         now \<leftarrow> ClientTick K;
         r \<leftarrow> remote K i ''RefreshActivityIpc'' (RefreshActivityIpc E now type);
         State_Monad.return (r = Some 0) } }"

definition Client_RefreshActivityReason :: "env \<Rightarrow> cenv \<Rightarrow> UserActivityType \<Rightarrow> PowerErrors C" where
  "Client_RefreshActivityReason E K type =
     request_error_at K ''RefreshActivityIpc'' (\<lambda>now. RefreshActivityReasonIpc E now type)"

definition Client_OverrideScreenOffTime :: "env \<Rightarrow> cenv \<Rightarrow> int \<Rightarrow> PowerErrors C" where
  "Client_OverrideScreenOffTime E K timeout = (if timeout \<le> 0 then State_Monad.return ERR_PARAM_INVALID
     else request_error K ''OverrideScreenOffTimeIpc'' (OverrideScreenOffTimeIpc E timeout))"

definition Client_RestoreScreenOffTime :: "env \<Rightarrow> cenv \<Rightarrow> PowerErrors C" where
  "Client_RestoreScreenOffTime E K = request_error K ''RestoreScreenOffTimeIpc'' (RestoreScreenOffTimeIpc E)"

definition Client_ForceSuspendDevice :: "env \<Rightarrow> cenv \<Rightarrow> int C" where
  "Client_ForceSuspendDevice E K = do {
     p \<leftarrow> GetPowerMgrProxy K;
     if p = None then State_Monad.return (PowerErrors_val ERR_CONNECTION_FAIL)
     else do {
       _ \<leftarrow> ClientTick K;
       request_reply K ''ForceSuspendDeviceIpc'' (ForceSuspendDeviceIpc E True) } }"

definition Client_Hibernate :: "env \<Rightarrow> cenv \<Rightarrow> bool \<Rightarrow> string \<Rightarrow> int C" where
  "Client_Hibernate E K clearMemory reason = request_reply K ''HibernateIpc'' (HibernateIpc E clearMemory reason True)"

text \<open>
  The forced suspend that ignores locks, up to the point where the service makes the caller wait; \<open>None\<close> is
  that point.  The number is that of the service or of the transport (here -1).
\<close>

definition Client_ForceSuspendDeviceIgnoringWakelock_begin :: "env \<Rightarrow> cenv \<Rightarrow> string \<Rightarrow> int option C" where
  "Client_ForceSuspendDeviceIgnoringWakelock_begin E K tag = do {
     p \<leftarrow> GetPowerMgrProxy K;
     case p of
       None \<Rightarrow> State_Monad.return (Some (PowerErrors_val ERR_CONNECTION_FAIL))
     | Some i \<Rightarrow>
         if tag \<noteq> ''mem'' \<and> tag \<noteq> ''ulsr'' then State_Monad.return (Some (PowerErrors_val ERR_PARAM_INVALID))
         else do {
           r \<leftarrow> remote K i ''ForceSuspendDeviceIgnoringWakelockIpc'' (ForceSuspendDeviceIgnoringWakelockIpc_begin E tag);
           State_Monad.return (case r of None \<Rightarrow> Some (-1) | Some r \<Rightarrow> r) } }"

definition Client_InterruptForceSuspend :: "env \<Rightarrow> cenv \<Rightarrow> int C" where
  "Client_InterruptForceSuspend E K = do {
     p \<leftarrow> GetPowerMgrProxy K;
     case p of
       None \<Rightarrow> State_Monad.return (PowerErrors_val ERR_CONNECTION_FAIL)
     | Some i \<Rightarrow> do {
         r \<leftarrow> remote K i ''InterruptForceSuspendIpc'' (InterruptForceSuspendIpc E);
         State_Monad.return (case r of None \<Rightarrow> -1 | Some r \<Rightarrow> r) } }"

definition Client_IsScreenOn :: "env \<Rightarrow> cenv \<Rightarrow> bool C" where
  "Client_IsScreenOn E K = request_value K ''IsScreenOnIpc'' False False (IsScreenOnIpc E)"

definition Client_IsFoldScreenOn :: "env \<Rightarrow> cenv \<Rightarrow> bool C" where
  "Client_IsFoldScreenOn E K = request_value K ''IsFoldScreenOnIpc'' False False (IsFoldScreenOnIpc E)"

definition Client_IsCollaborationScreenOn :: "cenv \<Rightarrow> bool C" where
  "Client_IsCollaborationScreenOn K = request_value K ''IsCollaborationScreenOnIpc'' False False IsCollaborationScreenOnIpc"

definition Client_IsForceSleeping :: "env \<Rightarrow> cenv \<Rightarrow> bool C" where
  "Client_IsForceSleeping E K = request_value K ''IsForceSleepingIpc'' False False (IsForceSleepingIpc E)"

text \<open>The variable that \<open>GetState\<close> starts from holds \<open>ERR_FAILURE\<close>, whose number is that of \<open>FREEZE\<close>.\<close>

definition Client_GetState :: "cenv \<Rightarrow> PowerState C" where
  "Client_GetState K = request_value K ''GetStateIpc'' UNKNOWN FREEZE GetStateIpc"

definition Client_IsStandby :: "env \<Rightarrow> cenv \<Rightarrow> (PowerErrors \<times> bool option) C" where
  "Client_IsStandby E K =
     request_value K ''IsStandbyIpc'' (ERR_CONNECTION_FAIL, None) (ERR_CONNECTION_FAIL, None) (IsStandbyIpc E)"

section \<open>Requests about locks\<close>

definition Client_IsRunningLockTypeSupported :: "env \<Rightarrow> cenv \<Rightarrow> RunningLockType \<Rightarrow> bool C" where
  "Client_IsRunningLockTypeSupported E K type =
     request_value K ''IsRunningLockTypeSupportedIpc'' False False (IsRunningLockTypeSupportedIpc E type)"

definition Client_IsRunningLockEnabled ::
    "env \<Rightarrow> cenv \<Rightarrow> RunningLockType \<Rightarrow> nat \<Rightarrow> (PowerErrors \<times> bool option) C" where
  "Client_IsRunningLockEnabled E K type display = do {
     p \<leftarrow> GetPowerMgrProxy K;
     case p of
       None \<Rightarrow> State_Monad.return (ERR_CONNECTION_FAIL, None)
     | Some i \<Rightarrow> do {
         r \<leftarrow> remote K i ''IsRunningLockEnabledIpc'' (IsRunningLockEnabledIpc E type display);
         State_Monad.return (case r of None \<Rightarrow> (ERR_CONNECTION_FAIL, None) | Some (_, e, enabled) \<Rightarrow> (e, Some enabled)) } }"

definition Client_QueryRunningLockLists ::
    "env \<Rightarrow> cenv \<Rightarrow> nat \<Rightarrow> (bool \<times> (string \<times> RunningLockInfo) list option) C" where
  "Client_QueryRunningLockLists E K display = do {
     p \<leftarrow> GetPowerMgrProxy K;
     case p of
       None \<Rightarrow> State_Monad.return (False, None)
     | Some i \<Rightarrow> do {
         r \<leftarrow> remote K i ''QueryRunningLockListsIpc'' (QueryRunningLockListsIpc E display);
         State_Monad.return (case r of None \<Rightarrow> (False, None)
           | Some (ret, ls) \<Rightarrow> if ret = 0 then (True, Some ls) else (False, None)) } }"

definition Client_ProxyRunningLock :: "env \<Rightarrow> cenv \<Rightarrow> bool \<Rightarrow> int \<Rightarrow> int \<Rightarrow> bool C" where
  "Client_ProxyRunningLock E K isProxied pid uid =
     request_ok K ''ProxyRunningLockIpc'' (ProxyRunningLockIpc E isProxied pid uid)"

text \<open>The list travels as a \<open>VectorPair\<close>: one that cannot be read on the other side fails the request.\<close>

definition transferable :: "(int \<times> int) list \<Rightarrow> bool" where
  "transferable processInfos = (processInfos \<noteq> [] \<and> length processInfos \<le> MAX_PROXY_RUNNINGLOCK_NUM)"

definition Client_ProxyRunningLocks :: "env \<Rightarrow> cenv \<Rightarrow> bool \<Rightarrow> (int \<times> int) list \<Rightarrow> bool C" where
  "Client_ProxyRunningLocks E K isProxied processInfos =
    (if transferable processInfos
     then request_ok K ''ProxyRunningLocksIpc'' (ProxyRunningLocksIpc E isProxied processInfos)
     else do { _ \<leftarrow> GetPowerMgrProxy K; State_Monad.return False })"

definition Client_ResetRunningLocks :: "env \<Rightarrow> cenv \<Rightarrow> bool C" where
  "Client_ResetRunningLocks E K = request_ok K ''ResetRunningLocksIpc'' (ResetRunningLocksIpc E)"

section \<open>Registration of callbacks\<close>

definition Client_RegisterPowerStateCallback :: "env \<Rightarrow> cenv \<Rightarrow> obj option \<Rightarrow> bool \<Rightarrow> bool C" where
  "Client_RegisterPowerStateCallback E K callback isSync =
     request_callback K ''RegisterPowerStateCallbackIpc'' callback (\<lambda>c. RegisterPowerStateCallbackIpc E c isSync)"

definition Client_UnRegisterPowerStateCallback :: "env \<Rightarrow> cenv \<Rightarrow> obj option \<Rightarrow> bool C" where
  "Client_UnRegisterPowerStateCallback E K callback =
     request_callback K ''UnRegisterPowerStateCallbackIpc'' callback (UnRegisterPowerStateCallbackIpc E)"

definition Client_RegisterSyncSleepCallback :: "env \<Rightarrow> cenv \<Rightarrow> obj option \<Rightarrow> SleepPriority \<Rightarrow> bool C" where
  "Client_RegisterSyncSleepCallback E K callback priority =
     request_callback K ''RegisterSyncSleepCallbackIpc'' callback (\<lambda>c. RegisterSyncSleepCallbackIpc E (Some c) priority)"

definition Client_UnRegisterSyncSleepCallback :: "env \<Rightarrow> cenv \<Rightarrow> obj option \<Rightarrow> bool C" where
  "Client_UnRegisterSyncSleepCallback E K callback =
     request_callback K ''UnRegisterSyncSleepCallbackIpc'' callback (\<lambda>c. UnRegisterSyncSleepCallbackIpc E (Some c))"

definition Client_RegisterSuspendTakeoverCallback :: "env \<Rightarrow> cenv \<Rightarrow> obj option \<Rightarrow> SleepPriority \<Rightarrow> bool C" where
  "Client_RegisterSuspendTakeoverCallback E K callback priority =
     request_callback K ''RegisterSuspendTakeoverCallbackIpc'' callback
       (\<lambda>c. RegisterSuspendTakeoverCallbackIpc E (Some c) priority)"

definition Client_UnRegisterSuspendTakeoverCallback :: "env \<Rightarrow> cenv \<Rightarrow> obj option \<Rightarrow> bool C" where
  "Client_UnRegisterSuspendTakeoverCallback E K callback =
     request_callback K ''UnRegisterSuspendTakeoverCallbackIpc'' callback
       (\<lambda>c. UnRegisterSuspendTakeoverCallbackIpc E (Some c))"

definition Client_RegisterSyncHibernateCallback ::
    "env \<Rightarrow> cenv \<Rightarrow> obj option \<Rightarrow> HibernateCallbackPriority \<Rightarrow> bool C" where
  "Client_RegisterSyncHibernateCallback E K callback priority =
     request_callback K ''RegisterSyncHibernateCallbackIpc'' callback
       (\<lambda>c. RegisterSyncHibernateCallbackIpc E c priority)"

definition Client_UnRegisterSyncHibernateCallback :: "env \<Rightarrow> cenv \<Rightarrow> obj option \<Rightarrow> bool C" where
  "Client_UnRegisterSyncHibernateCallback E K callback =
     request_callback K ''UnRegisterSyncHibernateCallbackIpc'' callback (UnRegisterSyncHibernateCallbackIpc E)"

definition Client_RegisterPowerModeCallback :: "env \<Rightarrow> cenv \<Rightarrow> obj option \<Rightarrow> bool C" where
  "Client_RegisterPowerModeCallback E K callback =
     request_callback K ''RegisterPowerModeCallbackIpc'' callback (\<lambda>c. RegisterPowerModeCallbackIpc E (Some c))"

definition Client_UnRegisterPowerModeCallback :: "env \<Rightarrow> cenv \<Rightarrow> obj option \<Rightarrow> bool C" where
  "Client_UnRegisterPowerModeCallback E K callback =
     request_callback K ''UnRegisterPowerModeCallbackIpc'' callback (\<lambda>c. UnRegisterPowerModeCallbackIpc E (Some c))"

definition Client_RegisterScreenStateCallback :: "env \<Rightarrow> cenv \<Rightarrow> int \<Rightarrow> obj option \<Rightarrow> bool C" where
  "Client_RegisterScreenStateCallback E K remainTime callback =
    (if remainTime \<le> 0 then do { _ \<leftarrow> GetPowerMgrProxy K; State_Monad.return False }
     else request_callback K ''RegisterScreenStateCallbackIpc'' callback
       (\<lambda>c. RegisterScreenStateCallbackIpc E remainTime (Some c)))"

definition Client_UnRegisterScreenStateCallback :: "env \<Rightarrow> cenv \<Rightarrow> obj option \<Rightarrow> bool C" where
  "Client_UnRegisterScreenStateCallback E K callback =
     request_callback K ''UnRegisterScreenStateCallbackIpc'' callback (\<lambda>c. UnRegisterScreenStateCallbackIpc E (Some c))"

definition Client_RegisterRunningLockCallback :: "env \<Rightarrow> cenv \<Rightarrow> obj option \<Rightarrow> bool C" where
  "Client_RegisterRunningLockCallback E K callback =
     request_callback K ''RegisterRunningLockCallbackIpc'' callback (RegisterRunningLockCallbackIpc E)"

definition Client_UnRegisterRunningLockCallback :: "env \<Rightarrow> cenv \<Rightarrow> obj option \<Rightarrow> bool C" where
  "Client_UnRegisterRunningLockCallback E K callback =
     request_callback K ''UnRegisterRunningLockCallbackIpc'' callback (UnRegisterRunningLockCallbackIpc E)"

definition Client_RegisterUlsrCallback :: "env \<Rightarrow> cenv \<Rightarrow> obj option \<Rightarrow> UlsrPriority \<Rightarrow> PowerErrors C" where
  "Client_RegisterUlsrCallback E K callback priority =
     request_callback_error K ''RegisterUlsrCallbackIpc'' callback (RegisterUlsrCallbackIpc E callback priority)"

definition Client_UnRegisterUlsrCallback :: "env \<Rightarrow> cenv \<Rightarrow> obj option \<Rightarrow> PowerErrors C" where
  "Client_UnRegisterUlsrCallback E K callback =
     request_callback_error K ''UnRegisterUlsrCallbackIpc'' callback (UnRegisterUlsrCallbackIpc E callback)"

definition Client_RegisterAsyncShutdownCallback :: "env \<Rightarrow> cenv \<Rightarrow> obj option \<Rightarrow> ShutdownPriority \<Rightarrow> PowerErrors C" where
  "Client_RegisterAsyncShutdownCallback E K callback priority =
     request_callback_error K ''RegisterAsyncShutdownCallbackIpc'' callback
       (RegisterAsyncShutdownCallbackIpc E callback priority)"

definition Client_UnRegisterAsyncShutdownCallback :: "env \<Rightarrow> cenv \<Rightarrow> obj option \<Rightarrow> PowerErrors C" where
  "Client_UnRegisterAsyncShutdownCallback E K callback =
     request_callback_error K ''UnRegisterAsyncShutdownCallbackIpc'' callback
       (UnRegisterAsyncShutdownCallbackIpc E callback)"

text \<open>The entry point leaves the error as it is where the feature is missing; the client starts from \<open>ERR_CONNECTION_FAIL\<close>.\<close>

definition Client_RegisterRunningLockChangedCallback :: "env \<Rightarrow> cenv \<Rightarrow> obj option \<Rightarrow> nat \<Rightarrow> PowerErrors C" where
  "Client_RegisterRunningLockChangedCallback E K callback display =
    (if \<not> F_MONITOR_LOCK_CHANGE E then State_Monad.return ERR_OK
     else do {
       p \<leftarrow> GetPowerMgrProxy K;
       if callback = None then State_Monad.return ERR_PARAM_INVALID
       else case p of
         None \<Rightarrow> State_Monad.return ERR_CONNECTION_FAIL
       | Some i \<Rightarrow> do {
           r \<leftarrow> remote K i ''RegisterRunningLockChangedCallbackIpc'' (RegisterRunningLockChangedCallbackIpc E callback display);
           State_Monad.return (case r of Some (_, Some e) \<Rightarrow> e | _ \<Rightarrow> ERR_CONNECTION_FAIL) } })"

definition Client_UnRegisterRunningLockChangedCallback :: "env \<Rightarrow> cenv \<Rightarrow> obj option \<Rightarrow> nat \<Rightarrow> PowerErrors C" where
  "Client_UnRegisterRunningLockChangedCallback E K callback display =
    (if \<not> F_MONITOR_LOCK_CHANGE E then State_Monad.return ERR_OK
     else do {
       p \<leftarrow> GetPowerMgrProxy K;
       if callback = None then State_Monad.return ERR_PARAM_INVALID
       else case p of
         None \<Rightarrow> State_Monad.return ERR_CONNECTION_FAIL
       | Some i \<Rightarrow> do {
           r \<leftarrow> remote K i ''UnRegisterRunningLockChangedCallbackIpc''
             (UnRegisterRunningLockChangedCallbackIpc E callback display);
           State_Monad.return (case r of Some (_, Some e) \<Rightarrow> e | _ \<Rightarrow> ERR_CONNECTION_FAIL) } })"

section \<open>Modes, strategies and configuration\<close>

definition Client_SetDisplaySuspend :: "env \<Rightarrow> cenv \<Rightarrow> bool \<Rightarrow> bool C" where
  "Client_SetDisplaySuspend E K enable = request_ok K ''SetDisplaySuspendIpc'' (SetDisplaySuspendIpc E enable)"

definition Client_SetDeviceMode :: "env \<Rightarrow> cenv \<Rightarrow> nat \<Rightarrow> PowerErrors C" where
  "Client_SetDeviceMode E K mode = request_error K ''SetDeviceModeIpc'' (SetDeviceModeIpc E mode)"

definition Client_GetDeviceMode :: "cenv \<Rightarrow> nat C" where
  "Client_GetDeviceMode K = request_value K ''GetDeviceModeIpc'' 0 0 GetDeviceModeIpc"

definition Client_SetDeviceSubMode :: "env \<Rightarrow> cenv \<Rightarrow> nat \<Rightarrow> int \<Rightarrow> PowerErrors C" where
  "Client_SetDeviceSubMode E K mode subMode =
    (if mode < POWER_MODE_MIN \<or> mode > POWER_MODE_MAX \<or> (mode > EXTREME_POWER_SAVE_MODE \<and> mode < POWER_MODE_MAX)
     then State_Monad.return ERR_PARAM_INVALID
     else if subMode \<noteq> SUB_MODE_INVALID \<and> subMode \<noteq> SUB_MODE_SUPER_POWER_SAVE \<and> subMode \<noteq> SUB_MODE_EMERGENCY
     then State_Monad.return ERR_PARAM_INVALID
     else request_error K ''SetDeviceSubModeIpc'' (SetDeviceSubModeIpc E mode subMode))"

definition Client_GetDeviceSubMode :: "cenv \<Rightarrow> int C" where
  "Client_GetDeviceSubMode K =
     request_value K ''GetDeviceSubModeIpc'' SUB_MODE_INVALID SUB_MODE_INVALID GetDeviceSubModeIpc"

definition MAX_SCENE_NAME_STRING_SIZE :: nat where "MAX_SCENE_NAME_STRING_SIZE = 128"
definition MAX_CONFIG_VALUE_STRING_SIZE :: nat where "MAX_CONFIG_VALUE_STRING_SIZE = 128"
definition PARAM_MAX_NUM :: nat where "PARAM_MAX_NUM = 10"

definition Client_GetPowerConfig :: "env \<Rightarrow> cenv \<Rightarrow> string \<Rightarrow> (PowerErrors \<times> string option) C" where
  "Client_GetPowerConfig E K sceneName = do {
     p \<leftarrow> GetPowerMgrProxy K;
     if p = None then State_Monad.return (ERR_CONNECTION_FAIL, None)
     else if sceneName = [] \<or> length sceneName > MAX_SCENE_NAME_STRING_SIZE
     then State_Monad.return (ERR_USER_PARAM_INVALID, None)
     else request_text K ''GetPowerConfigIpc'' (GetPowerConfigIpc E sceneName) }"

definition Client_SetPowerConfig :: "env \<Rightarrow> cenv \<Rightarrow> string \<Rightarrow> string \<Rightarrow> PowerErrors C" where
  "Client_SetPowerConfig E K sceneName configVal = do {
     p \<leftarrow> GetPowerMgrProxy K;
     case p of
       None \<Rightarrow> State_Monad.return ERR_CONNECTION_FAIL
     | Some i \<Rightarrow>
         if sceneName = [] \<or> length sceneName > MAX_SCENE_NAME_STRING_SIZE
         then State_Monad.return ERR_USER_PARAM_INVALID
         else if configVal = [] \<or> length configVal > MAX_CONFIG_VALUE_STRING_SIZE
         then State_Monad.return ERR_USER_PARAM_INVALID
         else do {
           r \<leftarrow> remote K i ''SetPowerConfigIpc'' (SetPowerConfigIpc E sceneName configVal);
           State_Monad.return (case r of None \<Rightarrow> ERR_CONNECTION_FAIL | Some (_, e) \<Rightarrow> e) } }"

definition Client_Dump :: "env \<Rightarrow> cenv \<Rightarrow> (world \<Rightarrow> string) \<Rightarrow> (world \<Rightarrow> string) \<Rightarrow> string list \<Rightarrow> string C" where
  "Client_Dump E K stateInfo locksInfo args = do {
     p \<leftarrow> GetPowerMgrProxy K;
     case p of
       None \<Rightarrow> State_Monad.return ''can't connect service''
     | Some i \<Rightarrow>
         if length args \<ge> PARAM_MAX_NUM then State_Monad.return ''remote error''
         else do {
           r \<leftarrow> remote K i ''ShellDumpIpc'' (ShellDumpIpc E stateInfo locksInfo args);
           State_Monad.return (case r of None \<Rightarrow> ''remote error'' | Some (_, s) \<Rightarrow> s) } }"

text \<open>Requests that carry the token of the client.\<close>

definition request_token :: "cenv \<Rightarrow> string \<Rightarrow> (obj option \<Rightarrow> (int \<times> PowerErrors) M) \<Rightarrow> PowerErrors C" where
  "request_token K name m = do {
     token \<leftarrow> gets (\<lambda>w. clientToken (cli w));
     request_error K name (m (Some token)) }"

definition Client_SetForceTimingOut :: "env \<Rightarrow> cenv \<Rightarrow> bool \<Rightarrow> PowerErrors C" where
  "Client_SetForceTimingOut E K enabled = request_token K ''SetForceTimingOutIpc'' (SetForceTimingOutIpc E enabled)"

definition Client_LockScreenAfterTimingOut :: "env \<Rightarrow> cenv \<Rightarrow> bool \<Rightarrow> bool \<Rightarrow> bool \<Rightarrow> PowerErrors C" where
  "Client_LockScreenAfterTimingOut E K enabledLockScreen checkLock sendScreenOffEvent =
     request_token K ''LockScreenAfterTimingOutIpc''
       (LockScreenAfterTimingOutIpc E enabledLockScreen checkLock sendScreenOffEvent)"

definition Client_LockScreenAfterTimingOutWithAppid :: "env \<Rightarrow> cenv \<Rightarrow> int \<Rightarrow> bool \<Rightarrow> PowerErrors C" where
  "Client_LockScreenAfterTimingOutWithAppid E K appid lockScreen =
     request_token K ''LockScreenAfterTimingOutWithAppidIpc'' (LockScreenAfterTimingOutWithAppidIpc E appid lockScreen)"

definition Client_SetPowerKeyFilteringStrategy :: "env \<Rightarrow> cenv \<Rightarrow> PowerKeyFilteringStrategy \<Rightarrow> PowerErrors C" where
  "Client_SetPowerKeyFilteringStrategy E K strategy =
     request_token K ''SetPowerKeyFilteringStrategyIpc'' (SetPowerKeyFilteringStrategyIpc E strategy)"

text \<open>The strategies of two values are checked once the connection stands.\<close>

definition request_strategy :: "cenv \<Rightarrow> string \<Rightarrow> nat \<Rightarrow> (obj option \<Rightarrow> (int \<times> PowerErrors) M) \<Rightarrow> PowerErrors C" where
  "request_strategy K name strategy m = do {
     p \<leftarrow> GetPowerMgrProxy K;
     if p = None then State_Monad.return ERR_CONNECTION_FAIL
     else if strategy \<ge> 2 then State_Monad.return ERR_PARAM_INVALID
     else request_token K name m }"

definition Client_SetProxFilteringStrategy :: "env \<Rightarrow> cenv \<Rightarrow> nat \<Rightarrow> PowerErrors C" where
  "Client_SetProxFilteringStrategy E K strategy =
     request_strategy K ''SetProxFilteringStrategyIpc'' strategy (SetProxFilteringStrategyIpc E strategy)"

definition Client_SetLidFilteringStrategy :: "env \<Rightarrow> cenv \<Rightarrow> nat \<Rightarrow> PowerErrors C" where
  "Client_SetLidFilteringStrategy E K strategy =
     request_strategy K ''SetLidFilteringStrategyIpc'' strategy (SetLidFilteringStrategyIpc E strategy)"

definition Client_SetInterfaceCallFilteringStrategy :: "env \<Rightarrow> cenv \<Rightarrow> nat \<Rightarrow> PowerErrors C" where
  "Client_SetInterfaceCallFilteringStrategy E K strategy =
     request_strategy K ''SetInterfaceCallFilteringStrategyIpc'' strategy (SetInterfaceCallFilteringStrategyIpc E strategy)"

section \<open>The client of shutdown callbacks\<close>

definition LifeCycle_Connect :: "cenv \<Rightarrow> ErrCode C" where
  "LifeCycle_Connect K = do {
     p \<leftarrow> gets (\<lambda>w. lcProxy (cli w));
     if p \<noteq> None then State_Monad.return NO_ERROR
     else do {
       sam \<leftarrow> cask K GetSystemAbilityManager;
       if \<not> sam then State_Monad.return E_GET_SYSTEM_ABILITY_MANAGER_FAILED
       else do {
         remoteObject \<leftarrow> cask K CheckSystemAbility;
         if \<not> remoteObject then State_Monad.return E_GET_POWER_SERVICE_FAILED
         else do {
           mod_cli (\<lambda>c. c\<lparr>lcRecipient := True\<rparr>);
           isProxy \<leftarrow> cask K IsProxyObject;
           added \<leftarrow> (if isProxy then cask K AddRecipient_call else State_Monad.return True);
           if \<not> added then State_Monad.return E_ADD_DEATH_RECIPIENT_FAILED
           else do {
             i \<leftarrow> gets instance_no;
             mod_cli (\<lambda>c. c\<lparr>lcProxy := Some i\<rparr>);
             State_Monad.return NO_ERROR } } } } }"

definition LifeCycle_GetProxy :: "cenv \<Rightarrow> nat option C" where
  "LifeCycle_GetProxy K = do {
     _ \<leftarrow> LifeCycle_Connect K;
     gets (\<lambda>w. lcProxy (cli w)) }"

definition LifeCycle_Reset :: "nat \<Rightarrow> unit C" where
  "LifeCycle_Reset remoteObject = do {
     p \<leftarrow> gets (\<lambda>w. lcProxy (cli w));
     whenM (p = Some remoteObject) (do {
       clog_call RemoveRecipient_call;
       mod_cli (\<lambda>c. c\<lparr>lcProxy := None\<rparr>) }) }"

definition LifeCycle_OnRemoteDied :: "nat option \<Rightarrow> unit C" where
  "LifeCycle_OnRemoteDied remoteObject = (case remoteObject of None \<Rightarrow> skip | Some i \<Rightarrow> LifeCycle_Reset i)"

definition ShutdownClient_Connect :: "cenv \<Rightarrow> nat option C" where
  "ShutdownClient_Connect K = LifeCycle_GetProxy K"

definition ShutdownClient_RegisterShutdownCallback ::
    "env \<Rightarrow> cenv \<Rightarrow> ShutdownHolderId \<Rightarrow> obj option \<Rightarrow> ShutdownPriority \<Rightarrow> unit C" where
  "ShutdownClient_RegisterShutdownCallback E K kind callback priority = do {
     p \<leftarrow> ShutdownClient_Connect K;
     case p of
       None \<Rightarrow> skip
     | Some i \<Rightarrow> do {
         _ \<leftarrow> remote K i ''RegisterShutdownCallbackIpc'' (RegisterShutdownCallbackIpc E kind callback priority);
         skip } }"

definition ShutdownClient_UnRegisterShutdownCallback ::
    "env \<Rightarrow> cenv \<Rightarrow> ShutdownHolderId \<Rightarrow> obj option \<Rightarrow> unit C" where
  "ShutdownClient_UnRegisterShutdownCallback E K kind callback = do {
     p \<leftarrow> ShutdownClient_Connect K;
     case p of
       None \<Rightarrow> skip
     | Some i \<Rightarrow> do {
         _ \<leftarrow> remote K i ''UnRegisterShutdownCallbackIpc'' (UnRegisterShutdownCallbackIpc E kind callback);
         skip } }"

end
