(* ===== verification/Client_Laws.thy ===== *)
theory Client_Laws
  imports Power_Client Lock_Gate
begin

text \<open>
  The client library and the service together: requests of a connected client have the effect and the answer of the
  method of the service; what happens to lock objects when the service dies; and the places where an application is told
  success although the service refused.
\<close>

section \<open>Requests\<close>

text \<open>A client that is connected to the running instance, with a transport that delivers.\<close>

definition connected :: "cenv \<Rightarrow> cworld \<Rightarrow> bool" where
  "connected K w \<longleftrightarrow> proxy (cli w) = Some (instance_no w) \<and> (\<forall>name log. answers K (SendRequest name) log)"

lemma run_cask: "run_state (cask K c) w = (answers K c (clog w), w\<lparr>clog := c # clog w\<rparr>)"
  by (simp add: cask_def)

lemma run_GetPowerMgrProxy [simp]:
  "proxy (cli w) = Some i \<Longrightarrow> run_state (GetPowerMgrProxy K) w = (Some i, w)"
  by (simp add: GetPowerMgrProxy_def)

lemma remote_delivered:
  assumes "\<forall>name log. answers K (SendRequest name) log" and "instance_no w = i"
  shows "Prelude.result (remote K i name m) w = Some (Prelude.result m (srv w))"
    and "exec (remote K i name m) w = w\<lparr>clog := SendRequest name # clog w, srv := exec m (srv w)\<rparr>"
  using assms by (simp_all add: remote_def run_cask Prelude.result_def exec_def)

lemma result_GetPowerMgrProxy [simp]: "proxy (cli w) = Some i \<Longrightarrow> Prelude.result (GetPowerMgrProxy K) w = Some i"
  and exec_GetPowerMgrProxy [simp]: "proxy (cli w) = Some i \<Longrightarrow> exec (GetPowerMgrProxy K) w = w"
  by (simp_all add: Prelude.result_def exec_def)

lemma ipc_out_run [simp]:
  "Prelude.result (ipc_out m) s = (0, Prelude.result m s)" "exec (ipc_out m) s = exec m s"
  by (simp_all add: ipc_out_def)

lemma ipc_drop_run [simp]: "Prelude.result (ipc_drop m) s = 0" "exec (ipc_drop m) s = exec m s"
  by (simp_all add: ipc_drop_def)

lemma ipc_bool_run [simp]:
  "Prelude.result (ipc_bool m) s = 0 \<longleftrightarrow> Prelude.result m s" "exec (ipc_bool m) s = exec m s"
  by (simp_all add: ipc_bool_def INIT_VALUE_def)

lemma request_error_effect:
  assumes "connected K w"
  shows "Prelude.result (request_error K name (ipc_out m)) w = Prelude.result m (srv w)"
    and "exec (request_error K name (ipc_out m)) w =
      w\<lparr>clog := SendRequest name # clog w, srv := exec m (srv w)\<rparr>"
  using assms by (simp_all add: request_error_def connected_def remote_delivered)

lemma request_value_effect:
  assumes "connected K w"
  shows "Prelude.result (request_value K name u v (ipc_out m)) w = Prelude.result m (srv w)"
    and "exec (request_value K name u v (ipc_out m)) w =
      w\<lparr>clog := SendRequest name # clog w, srv := exec m (srv w)\<rparr>"
  using assms by (simp_all add: request_value_def connected_def remote_delivered)

lemma request_ok_effect:
  assumes "connected K w"
  shows "Prelude.result (request_ok K name m) w \<longleftrightarrow> Prelude.result m (srv w) = 0"
    and "exec (request_ok K name m) w = w\<lparr>clog := SendRequest name # clog w, srv := exec m (srv w)\<rparr>"
  using assms by (simp_all add: request_ok_def connected_def remote_delivered)

lemma request_error_at_effect:
  assumes "connected K w"
  shows "Prelude.result (request_error_at K name (\<lambda>t. ipc_out (m t))) w = Prelude.result (m (ticks K (clog w))) (srv w)"
    and "srv (exec (request_error_at K name (\<lambda>t. ipc_out (m t))) w) = exec (m (ticks K (clog w))) (srv w)"
  using assms by (simp_all add: request_error_at_def connected_def remote_delivered ClientTick_def)


section \<open>Lock objects and the death of the service\<close>

text \<open>A caller with the permission that is not an application, so that all declared types but one are open to it.\<close>

definition trusted_caller :: "env \<Rightarrow> bool" where
  "trusted_caller E \<longleftrightarrow> (\<forall>tr. extBool E (Service (PermissionGranted ''ohos.permission.RUNNING_LOCK'')) tr) \<and>
     (\<forall>tr. \<not> extBool E (Service PermissionIsHap) tr)"

definition native_lock_types :: "RunningLockType set" where
  "native_lock_types = {RUNNINGLOCK_SCREEN, RUNNINGLOCK_BACKGROUND, RUNNINGLOCK_PROXIMITY_SCREEN_CONTROL,
     RUNNINGLOCK_COORDINATION, RUNNINGLOCK_BACKGROUND_PHONE, RUNNINGLOCK_BACKGROUND_NOTIFICATION,
     RUNNINGLOCK_BACKGROUND_AUDIO, RUNNINGLOCK_BACKGROUND_SPORT, RUNNINGLOCK_BACKGROUND_NAVIGATION,
     RUNNINGLOCK_BACKGROUND_TASK}"

lemma keeps_rlm_fill:
  "keeps rlm (FillRunningLockParam E info n t)" "keeps rlm (IsRunningLockTypeSupported E ty)"
  by (auto simp: FillRunningLockParam_def FillDisplayIdForMultiScreen_def GetBundleNameByUid_def
      IsRunningLockTypeSupported_def Let_def intro!: keeps_intros)

lemma FillRunningLockParam_name:
  "lockName (Prelude.result (FillRunningLockParam E info n t) w) = infoName info"
  by (simp add: FillRunningLockParam_def FillDisplayIdForMultiScreen_def Let_def)

lemma create_lock_effect:
  assumes "trusted_caller E" and "infoType info \<in> native_lock_types"
  shows "Prelude.result (PmsCreateRunningLock E k info) w = ERR_OK"
    and "\<exists>param. lockName param = infoName info \<and>
      runningLocks (rlm (exec (PmsCreateRunningLock E k info) w)) =
        omap_emplace k \<lparr>runningLockParam = param, lockState = RUNNINGLOCK_STATE_DISABLE, lockTimeMs = 0\<rparr>
          (runningLocks (rlm w))"
proof -
  have supported: "Prelude.result (IsRunningLockTypeSupported E (infoType info)) w'" for w'
    using assms by (auto simp: IsRunningLockTypeSupported_def trusted_caller_def native_lock_types_def ask_bool_def)
  show "Prelude.result (PmsCreateRunningLock E k info) w = ERR_OK"
    using assms(1) supported by (simp add: PmsCreateRunningLock_def trusted_caller_def ask_bool_def)
  show "\<exists>param. lockName param = infoName info \<and>
      runningLocks (rlm (exec (PmsCreateRunningLock E k info) w)) =
        omap_emplace k \<lparr>runningLockParam = param, lockState = RUNNINGLOCK_STATE_DISABLE, lockTimeMs = 0\<rparr>
          (runningLocks (rlm w))"
  proof (intro exI conjI)
    show "runningLocks (rlm (exec (PmsCreateRunningLock E k info) w)) =
        omap_emplace k \<lparr>runningLockParam = Prelude.result (FillRunningLockParam E info (hashPtr E k) (- 1))
            (exec (IsRunningLockTypeSupported E (infoType info))
              (exec (granted E ''ohos.permission.RUNNING_LOCK'') w)),
            lockState = RUNNINGLOCK_STATE_DISABLE, lockTimeMs = 0\<rparr> (runningLocks (rlm w))"
      using assms(1) supported
      by (simp add: PmsCreateRunningLock_def trusted_caller_def CreateRunningLock_def AddRunningLock_def
          ask_bool_def log_call_def mod_rlm_def keepsD [OF keeps_rlm_fill(1)] keepsD [OF keeps_rlm_fill(2)])
  qed (rule FillRunningLockParam_name)
qed

text \<open>What recovering lock objects does to the client and the service.\<close>

definition recovered :: "nat set \<Rightarrow> cworld \<Rightarrow> cworld \<Rightarrow> bool" where
  "recovered ks w w' \<longleftrightarrow> instance_no w' = instance_no w \<and> proxy (cli w') = proxy (cli w) \<and>
     (\<forall>k. lockObjects (cli w') k = (if k \<in> ks
        then map_option (\<lambda>l. l\<lparr>lockProxy := Some (instance_no w)\<rparr>) (lockObjects (cli w) k) else lockObjects (cli w) k)) \<and>
     (\<forall>t x. lock_of (srv w) t = Some x \<longrightarrow> lock_of (srv w') t = Some x) \<and>
     (\<forall>t x. lock_of (srv w) t = None \<longrightarrow> lock_of (srv w') t = Some x \<longrightarrow> lockState x = RUNNINGLOCK_STATE_DISABLE) \<and>
     (\<forall>k \<in> ks. \<forall>l. lockObjects (cli w) k = Some l \<longrightarrow> lock_of (srv w') (lockToken l) \<noteq> None)"

lemma recovered_one:
  assumes "connected K w" and "trusted_caller E" and "lockObjects (cli w) k = Some l"
    and "infoType (objInfo l) \<in> native_lock_types"
  shows "recovered {k} w (exec (RunningLock_Recover E K k (instance_no w)) w)"
proof -
  let ?l = "l\<lparr>lockProxy := Some (instance_no w)\<rparr>"
  obtain param where create: "runningLocks (rlm (exec (PmsCreateRunningLock E (lockToken l) (objInfo l)) (srv w))) =
      omap_emplace (lockToken l) \<lparr>runningLockParam = param, lockState = RUNNINGLOCK_STATE_DISABLE, lockTimeMs = 0\<rparr>
        (runningLocks (rlm (srv w)))"
    using create_lock_effect(2) [OF assms(2,4)] by blast
  have "exec (RunningLock_Recover E K k (instance_no w)) w =
      w\<lparr>cli := (cli w)\<lparr>lockObjects := (lockObjects (cli w))(k \<mapsto> ?l)\<rparr>,
        clog := SendRequest ''CreateRunningLockIpc'' # clog w,
        srv := exec (PmsCreateRunningLock E (lockToken l) (objInfo l)) (srv w)\<rparr>"
    using assms(1,3)
    by (simp add: RunningLock_Recover_def RunningLock_Create_def promote_def connected_def remote_delivered
        CreateRunningLockIpc_def)
  with create show ?thesis
    using assms(3) by (auto simp: recovered_def map_of_omap_emplace split: option.splits)
qed

lemma recovered_nothing: "lockObjects (cli w) k = None \<Longrightarrow> recovered {k} w w"
  by (auto simp: recovered_def)

lemma recovered_trans:
  assumes "recovered A w w1" and "recovered B w1 w2"
  shows "recovered (A \<union> B) w w2"
proof -
  let ?upd = "map_option (\<lambda>l. l\<lparr>lockProxy := Some (instance_no w)\<rparr>)"
  have same: "instance_no w1 = instance_no w" "instance_no w2 = instance_no w"
      "proxy (cli w1) = proxy (cli w)" "proxy (cli w2) = proxy (cli w)"
    using assms by (auto simp: recovered_def)
  have objects: "lockObjects (cli w1) k = (if k \<in> A then ?upd (lockObjects (cli w) k) else lockObjects (cli w) k)"
      "lockObjects (cli w2) k = (if k \<in> B then ?upd (lockObjects (cli w1) k) else lockObjects (cli w1) k)" for k
    using assms same(1) by (auto simp: recovered_def)
  have old: "lock_of (srv w) t = Some x \<Longrightarrow> lock_of (srv w1) t = Some x"
      "lock_of (srv w1) t = Some x \<Longrightarrow> lock_of (srv w2) t = Some x" for t x
    using assms by (auto simp: recovered_def)
  have new: "lock_of (srv w2) t = Some x \<Longrightarrow> lock_of (srv w) t = None \<Longrightarrow> lockState x = RUNNINGLOCK_STATE_DISABLE" for t x
    using assms old by (cases "lock_of (srv w1) t") (auto simp: recovered_def)
  have known: "lock_of (srv w2) (lockToken l) \<noteq> None" if "k \<in> A \<union> B" "lockObjects (cli w) k = Some l" for k l
  proof (cases "k \<in> A")
    case True
    then show ?thesis
      using assms(1) that(2) old(2) by (fastforce simp: recovered_def)
  next
    case False
    then have "k \<in> B" "lockObjects (cli w1) k = Some l"
      using that objects(1) by auto
    then show ?thesis
      using assms(2) by (auto simp: recovered_def)
  qed
  have "lockObjects (cli w2) k = (if k \<in> A \<union> B then ?upd (lockObjects (cli w) k) else lockObjects (cli w) k)" for k
    using objects by (simp add: option.map_comp comp_def)
  then show ?thesis
    using same old new known by (simp add: recovered_def)
qed

lemma recover_locks_effect:
  assumes "connected K w" and "trusted_caller E"
    and "\<forall>k \<in> set ks. \<forall>l. lockObjects (cli w) k = Some l \<longrightarrow> infoType (objInfo l) \<in> native_lock_types"
  shows "recovered (set ks) w (exec (recover_locks E K ks) w)"
  using assms(1,3)
proof (induction ks arbitrary: w)
  case Nil
  then show ?case
    by (simp add: recovered_def)
next
  case (Cons k ks)
  define w1 where "w1 = (if lockObjects (cli w) k = None then w else exec (RunningLock_Recover E K k (instance_no w)) w)"
  have r1: "recovered {k} w w1"
    using recovered_one [OF Cons.prems(1) assms(2)] recovered_nothing Cons.prems(2) by (auto simp: w1_def)
  then have c1: "connected K w1"
    using Cons.prems(1) by (simp add: recovered_def connected_def)
  have "\<forall>k' \<in> set ks. \<forall>l. lockObjects (cli w1) k' = Some l \<longrightarrow> infoType (objInfo l) \<in> native_lock_types"
    using r1 Cons.prems(2) by (auto simp: recovered_def split: if_splits)
  note ih = Cons.IH [OF c1 this]
  have "exec (recover_locks E K (k # ks)) w = exec (recover_locks E K ks) w1"
    using Cons.prems(1) by (auto simp: w1_def connected_def)
  with recovered_trans [OF r1 ih] show ?case
    by simp
qed

lemma reconnect_first:
  assumes "\<forall>c log. answers K c log" and "proxy (cli w) = None"
  shows "Prelude.result (reconnect K (Suc n)) w"
    and "cli (exec (reconnect K (Suc n)) w) = (cli w)\<lparr>proxy := Some (instance_no w), deathRecipient := True\<rparr>"
    and "srv (exec (reconnect K (Suc n)) w) = srv w" and "instance_no (exec (reconnect K (Suc n)) w) = instance_no w"
  using assms by (simp_all add: GetPowerMgrProxy_def cask_def Prelude.result_def exec_def)

lemma held_recovered:
  assumes "recovered ks w w'"
  shows "held_locks (srv w') = held_locks (srv w)"
proof -
  have "t \<in> held_locks (srv w') \<longleftrightarrow> t \<in> held_locks (srv w)" for t
    using assms by (cases "lock_of (srv w) t") (auto simp: recovered_def held_locks_def)
  then show ?thesis
    by blast
qed

text \<open>
  C30: after the death of the service its clients connect to the new instance and register their lock objects again: each lock
  object that lives refers to the new instance, and the service knows its token.  But no lock is taken:
  a lock that was held before the service died is free afterwards, although its application never released it.
\<close>

theorem recovered_locks_not_held:
  assumes "proxy (cli w) = Some old" and "instance_no w \<noteq> old" and "\<forall>c log. answers K c log" and "trusted_caller E"
    and "\<forall>k \<in> set (weakLocks (cli w)). \<forall>l. lockObjects (cli w) k = Some l \<longrightarrow>
      infoType (objInfo l) \<in> native_lock_types \<and> lock_of (srv w) (lockToken l) = None"
  shows "proxy (cli (exec (Client_OnRemoteDied E K (Some old)) w)) = Some (instance_no w) \<and>
    (\<forall>k \<in> set (weakLocks (cli w)). \<forall>l. lockObjects (cli w) k = Some l \<longrightarrow>
      lockObjects (cli (exec (Client_OnRemoteDied E K (Some old)) w)) k = Some (l\<lparr>lockProxy := Some (instance_no w)\<rparr>) \<and>
      lock_of (srv (exec (Client_OnRemoteDied E K (Some old)) w)) (lockToken l) \<noteq> None \<and>
      lockToken l \<notin> held_locks (srv (exec (Client_OnRemoteDied E K (Some old)) w)))"
proof -
  define w1 where "w1 = exec (ResetProxy (Some old)) w"
  define w2 where "w2 = exec (reconnect K CONNECT_RETRY_COUNT) w1"
  have w1: "cli w1 = (cli w)\<lparr>proxy := None\<rparr>" "srv w1 = srv w" "instance_no w1 = instance_no w"
    using assms(1) by (simp_all add: w1_def ResetProxy_def)
  have n: "CONNECT_RETRY_COUNT = Suc 4"
    by (simp add: CONNECT_RETRY_COUNT_def)
  have w2: "Prelude.result (reconnect K CONNECT_RETRY_COUNT) w1"
      "cli w2 = (cli w)\<lparr>proxy := Some (instance_no w), deathRecipient := True\<rparr>" "srv w2 = srv w"
      "instance_no w2 = instance_no w"
    using reconnect_first [OF assms(3), of w1 4] w1 by (simp_all only: w2_def n) simp_all
  have c: "connected K w2"
    using w2 assms(3) by (simp add: connected_def)
  have "recovered (set (weakLocks (cli w))) w2 (exec (recover_locks E K (weakLocks (cli w))) w2)"
    by (rule recover_locks_effect [OF c assms(4)]) (use assms(5) w2 in auto)
  moreover have "exec (Client_OnRemoteDied E K (Some old)) w = exec (recover_locks E K (weakLocks (cli w))) w2"
    using w2 by (simp add: Client_OnRemoteDied_def RecoverRunningLocks_def w1_def [symmetric] w2_def [symmetric])
  ultimately have r: "recovered (set (weakLocks (cli w))) w2 (exec (Client_OnRemoteDied E K (Some old)) w)"
    by simp
  have "lockToken l \<notin> held_locks (srv w)" if "k \<in> set (weakLocks (cli w))" "lockObjects (cli w) k = Some l" for k l
    using assms(5) that by (auto simp: held_locks_def)
  with r w2 held_recovered [OF r] show ?thesis
    unfolding recovered_def by simp
qed

abbreviation sleeps :: "cworld \<Rightarrow> nat" where
  "sleeps w \<equiv> length (filter (\<lambda>c. c = Sleep_us CONNECT_RETRY_MS) (clog w))"

lemma GetPowerMgrProxy_keeps:
  "sleeps (exec (GetPowerMgrProxy K) w) = sleeps w" "srv (exec (GetPowerMgrProxy K) w) = srv w"
  "lockObjects (cli (exec (GetPowerMgrProxy K) w)) = lockObjects (cli w)"
  "Prelude.result (GetPowerMgrProxy K) w = proxy (cli (exec (GetPowerMgrProxy K) w))"
  by (simp_all add: GetPowerMgrProxy_def cask_def)

lemma reconnect_bounded:
  "sleeps (exec (reconnect K n) w) \<le> sleeps w + n \<and> srv (exec (reconnect K n) w) = srv w \<and>
    lockObjects (cli (exec (reconnect K n) w)) = lockObjects (cli w) \<and>
    (Prelude.result (reconnect K n) w \<longrightarrow> proxy (cli (exec (reconnect K n) w)) \<noteq> None)"
proof (induction n arbitrary: w)
  case (Suc n)
  show ?case
    using Suc.IH [of "exec (GetPowerMgrProxy K) (w\<lparr>clog := Sleep_us CONNECT_RETRY_MS # clog w\<rparr>)"]
    by (auto simp: GetPowerMgrProxy_keeps)
qed simp

lemma sleeps_remote: "sleeps (exec (remote K i name m) w) = sleeps w"
  by (simp add: remote_def cask_def)

lemma sleeps_recover: "sleeps (exec (recover_locks E K ks) w) = sleeps w"
proof (induction ks arbitrary: w)
  case (Cons k ks)
  have "sleeps (exec (RunningLock_Recover E K k i) w) = sleeps w" for i w
    by (simp add: RunningLock_Recover_def RunningLock_Create_def promote_def sleeps_remote split: option.split)
  then show ?case
    by (simp add: Cons.IH GetPowerMgrProxy_keeps split: option.split)
qed simp

text \<open>
  C31: a dead service is waited for, but not for ever: whatever the system answers, a client sleeps at most five times after
  the death, and if it has no connection then, its lock objects and the service are as they were.
\<close>

theorem reconnection_bounded:
  "sleeps (exec (Client_OnRemoteDied E K r) w) \<le> sleeps w + 5 \<and>
    (\<not> Prelude.result (reconnect K CONNECT_RETRY_COUNT) (exec (ResetProxy r) w) \<longrightarrow>
      srv (exec (Client_OnRemoteDied E K r) w) = srv w \<and>
      lockObjects (cli (exec (Client_OnRemoteDied E K r) w)) = lockObjects (cli w))"
proof -
  let ?w = "exec (ResetProxy r) w"
  have reset: "sleeps ?w = sleeps w" "srv ?w = srv w" "lockObjects (cli ?w) = lockObjects (cli w)"
    by (simp_all add: ResetProxy_def split: option.split)
  then show ?thesis
    using reconnect_bounded [of K CONNECT_RETRY_COUNT ?w]
    by (auto simp: Client_OnRemoteDied_def RecoverRunningLocks_def sleeps_recover CONNECT_RETRY_COUNT_def)
qed

section \<open>Success that is none\<close>

lemma keeps_locks_timer: "keeps (\<lambda>w. runningLocks (rlm w)) (RegisterRunningLockTimer E k n)"
  by (auto simp: RegisterRunningLockTimer_def UnregisterRunningLockTimer_def GetRunningLockTimerId_def UnregisterTimer_def
      AddRunningLockTimerMap_def RemoveRunningLockTimerMap_def Let_def intro!: keeps_intros)

lemma lock_unknown:
  assumes "lock_of w k = None"
  shows "\<not> Prelude.result (Lock E k) w" and "runningLocks (rlm (exec (Lock E k) w)) = runningLocks (rlm w)"
proof -
  show n: "\<not> Prelude.result (Lock E k) w"
    using locks_after_Lock [of E k w] assms by auto
  then show "runningLocks (rlm (exec (Lock E k) w)) = runningLocks (rlm w)"
    using locks_after_Lock [of E k w] by auto
qed

text \<open>
  C39: an application can be told that it holds a lock which the service does not know.  Locking a token that is not registered, as
  after a restart of the service before the client has recovered, or after a recovery that was refused, changes
  no lock, and the answer is success.
\<close>

theorem unknown_lock_reported_locked:
  assumes "connected K w" and "lockProxy l = proxy (cli w)"
    and "\<forall>tr. extBool E (Service (PermissionGranted ''ohos.permission.RUNNING_LOCK'')) tr"
    and "lock_of (srv w) (lockToken l) = None"
  shows "Prelude.result (RunningLock_Lock E K l timeOutMs) w = NO_ERROR \<and>
    runningLocks (rlm (srv (exec (RunningLock_Lock E K l timeOutMs) w))) = runningLocks (rlm (srv w)) \<and>
    lockToken l \<notin> held_locks (srv (exec (RunningLock_Lock E K l timeOutMs) w))"
proof -
  let ?s = "exec (granted E ''ohos.permission.RUNNING_LOCK'') (srv w)"
  have lock: "runningLocks (rlm (exec (Lock E (lockToken l)) ?s)) = runningLocks (rlm (srv w))"
    using lock_unknown(2) [of ?s "lockToken l" E] assms(4) by (simp add: ask_bool_def log_call_def)
  have pms: "Prelude.result (PmsLock E (lockToken l) t) (srv w) = ERR_OK"
      "runningLocks (rlm (exec (PmsLock E (lockToken l) t) (srv w))) = runningLocks (rlm (srv w))" for t
    using assms(3) lock keepsD [OF keeps_locks_timer] by (simp_all add: PmsLock_def ask_bool_def)
  have client: "Prelude.result (RunningLock_Lock E K l timeOutMs) w = NO_ERROR"
      "runningLocks (rlm (srv (exec (RunningLock_Lock E K l timeOutMs) w))) = runningLocks (rlm (srv w))"
    using assms(1,2) pms
    by (simp_all add: RunningLock_Lock_def promote_def connected_def remote_delivered LockIpc_def lock_error_def Let_def)
  then show ?thesis
    using assms(4) by (simp add: held_locks_def)
qed

text \<open>
  A refused registration is reported as done.  Without the permission the service registers nothing, its state machine stays as
  it was, and the client returns true to the application.
\<close>

lemma refused_registration_reported_done:
  assumes "connected K w"
    and "\<forall>tr. \<not> extBool E (Service (PermissionGranted ''ohos.permission.POWER_MANAGER'')) tr"
  shows "Prelude.result (Client_RegisterPowerStateCallback E K (Some c) isSync) w \<and>
    psm (srv (exec (Client_RegisterPowerStateCallback E K (Some c) isSync) w)) = psm (srv w)"
proof -
  have "psm (exec (PmsRegisterPowerStateCallback E c isSync) s) = psm s" for s
    using assms(2) by (simp add: PmsRegisterPowerStateCallback_def ask_bool_def ask_int_def caller_def log_call_def)
  then show ?thesis
    using assms(1) by (simp add: Client_RegisterPowerStateCallback_def request_callback_def
        RegisterPowerStateCallbackIpc_def request_ok_effect)
qed

text \<open>
  The answer to a request for hibernation is that of the service if it comes within the time the client waits; if it
  comes later, the application is told success whatever the service decided.
\<close>

lemma late_reply_is_success:
  assumes "connected K w"
  shows "Prelude.result (Client_Hibernate E K clear reason) w =
      (if answers K ReplyInTime (SendRequest ''HibernateIpc'' # clog w)
       then PowerErrors_val (Prelude.result (PmsHibernate E clear reason) (srv w))
       else PowerErrors_val ERR_OK) \<and>
    srv (exec (Client_Hibernate E K clear reason) w) = exec (PmsHibernate E clear reason) (srv w)"
  using assms
  by (simp add: Client_Hibernate_def request_reply_def connected_def remote_delivered HibernateIpc_def cask_def
      WaitForAsyncReply_def new_async_reply_def SendAsyncReply_def)

section \<open>Witnesses\<close>

definition sample_cenv :: cenv where
  "sample_cenv = \<lparr>answers = (\<lambda>c log. c \<noteq> ReplyInTime), ticks = (\<lambda>log. 1000)\<rparr>"

definition client_lock :: RunningLockObj where
  "client_lock = \<lparr>lockProxy = Some 1, lockToken = 77,
     objInfo = \<lparr>infoName = ''lock_1'', infoType = RUNNINGLOCK_SCREEN, infoBundleName = '''', infoPid = 0, infoUid = 0,
       infoDisplayId = 0\<rparr>\<rparr>"

definition sample_cworld :: cworld where
  "sample_cworld = \<lparr>cli = \<lparr>proxy = Some 1, deathRecipient = True, weakLocks = [77],
       lockObjects = [77 \<mapsto> client_lock], nextObject = 78, lastError = ERR_OK, clientToken = 5, lcProxy = None,
       lcRecipient = False\<rparr>,
     srv = sample_world, instance_no = 1, clog = []\<rparr>"

definition native_env :: env where
  "native_env = sample_env\<lparr>extBool := (\<lambda>c tr. c \<noteq> Service PermissionIsHap \<and>
     c \<noteq> Service (PermissionGranted ''ohos.permission.POWER_MANAGER''))\<rparr>"

lemma sample_connected: "connected sample_cenv sample_cworld"
  by (simp add: connected_def sample_cenv_def sample_cworld_def)

lemma native_trusted: "trusted_caller native_env"
  by (simp add: trusted_caller_def native_env_def)

lemma sample_unknown: "lock_of (srv sample_cworld) 77 = None"
  by (simp add: sample_cworld_def sample_world_def)


theorem recovered_locks_not_held_witness:
  "let w = sample_cworld\<lparr>instance_no := 2\<rparr>;
       w' = exec (Client_OnRemoteDied native_env \<lparr>answers = (\<lambda>c log. True), ticks = (\<lambda>log. 0)\<rparr> (Some 1)) w
   in lock_of (srv w') 77 \<noteq> None \<and> 77 \<notin> held_locks (srv w')"
proof -
  let ?w = "sample_cworld\<lparr>instance_no := 2\<rparr>"
  have "\<forall>k \<in> set (weakLocks (cli ?w)). \<forall>l. lockObjects (cli ?w) k = Some l \<longrightarrow>
      infoType (objInfo l) \<in> native_lock_types \<and> lock_of (srv ?w) (lockToken l) = None"
    by (simp add: sample_cworld_def client_lock_def native_lock_types_def sample_world_def)
  then show ?thesis
    using recovered_locks_not_held [of ?w 1 "\<lparr>answers = (\<lambda>c log. True), ticks = (\<lambda>log. 0)\<rparr>" native_env] native_trusted
    by (auto simp: Let_def sample_cworld_def client_lock_def)
qed

theorem unknown_lock_reported_locked_witness:
  "Prelude.result (RunningLock_Lock native_env sample_cenv client_lock 0) sample_cworld = NO_ERROR \<and>
    77 \<notin> held_locks (srv (exec (RunningLock_Lock native_env sample_cenv client_lock 0) sample_cworld))"
proof -
  have "lockProxy client_lock = proxy (cli sample_cworld)" "lockToken client_lock = 77"
    by (simp_all add: client_lock_def sample_cworld_def)
  then show ?thesis
    using unknown_lock_reported_locked [OF sample_connected, of client_lock native_env 0] sample_unknown
    by (simp add: native_env_def)
qed

theorem refused_registration_reported_done_witness:
  "Prelude.result (Client_RegisterPowerStateCallback native_env sample_cenv (Some 9) True) sample_cworld"
  using refused_registration_reported_done [OF sample_connected, of native_env 9 True] by (simp add: native_env_def)

theorem late_reply_is_success_witness:
  "Prelude.result (Client_Hibernate native_env sample_cenv True ''test'') sample_cworld = 0"
  using late_reply_is_success [OF sample_connected, of native_env True "''test''"] by (simp add: sample_cenv_def)

theorem reconnection_bounded_witness:
  "sleeps (exec (Client_OnRemoteDied native_env \<lparr>answers = (\<lambda>c log. False), ticks = (\<lambda>log. 0)\<rparr> (Some 1)) sample_cworld) \<le> 5"
proof -
  have "clog sample_cworld = []"
    by (simp add: sample_cworld_def)
  then show ?thesis
    using reconnection_bounded [of native_env "\<lparr>answers = (\<lambda>c log. False), ticks = (\<lambda>log. 0)\<rparr>" "Some 1" sample_cworld] by simp
qed

end
