(* ===== verification/Power_Cli.thy ===== *)
theory Power_Cli
  imports Power_Client
begin

text \<open>
  The command line tool \<open>ohos-powerManager\<close> (\<open>tools/ohos-powerManager/src\<close>): dispatch, help, the five commands with their
  parsers, the output as one JSON object.  The tool is a program of its own over the client library; its commands run in the
  monad of the client.  Building a JSON object may fail for lack of memory at each of five places, which is a parameter;
  the printer of \<open>cJSON\<close> is not modelled, an output is the object that is printed.
\<close>

section \<open>Output\<close>

datatype json_step = CreateData | BuildData | CreateOutput | BuildOutput | PrintOutput

type_synonym json_allocation = "json_step \<Rightarrow> bool"

text \<open>\<open>CliFallback m\<close> is the fixed text of \<open>OutputFallbackError\<close> with the message \<open>m\<close> in it.\<close>

datatype cli_output = CliJson Json | CliText string | CliFallback string

definition OutputFallbackError :: "string \<Rightarrow> cli_output list" where
  "OutputFallbackError message = [CliFallback message]"

definition print_json :: "json_allocation \<Rightarrow> Json \<Rightarrow> cli_output list" where
  "print_json J output = (if J PrintOutput then [CliJson output] else [])"

definition OutputSuccess :: "json_allocation \<Rightarrow> Json \<Rightarrow> cli_output list" where
  "OutputSuccess J data =
    (if \<not> J CreateOutput then OutputFallbackError ''Failed to create JSON output object''
     else if \<not> J BuildOutput then OutputFallbackError ''Failed to build JSON output''
     else print_json J (JObject [(''type'', JString ''result''), (''status'', JString ''success''), (''data'', data)]))"

definition OutputError :: "json_allocation \<Rightarrow> string \<Rightarrow> string \<Rightarrow> string \<Rightarrow> cli_output list" where
  "OutputError J errCode message suggestion =
    (if \<not> J CreateOutput then OutputFallbackError ''Failed to create JSON output object''
     else if \<not> J BuildOutput then OutputFallbackError ''Failed to build JSON output''
     else print_json J (JObject [(''type'', JString ''result''), (''status'', JString ''failed''),
       (''errCode'', JString errCode), (''errMsg'', JString message), (''suggestion'', JString suggestion)]))"

primrec PowerErrorsToErrCode :: "PowerErrors \<Rightarrow> string" where
    "PowerErrorsToErrCode ERR_OK = ''ERR_OK''"
  | "PowerErrorsToErrCode ERR_FAILURE = ''ERR_FAILURE''"
  | "PowerErrorsToErrCode ERR_PERMISSION_DENIED = ''ERR_PERMISSION_DENIED''"
  | "PowerErrorsToErrCode ERR_SYSTEM_API_DENIED = ''ERR_SYSTEM_API_DENIED''"
  | "PowerErrorsToErrCode ERR_PARAM_INVALID = ''ERR_PARAM_INVALID''"
  | "PowerErrorsToErrCode ERR_CONNECTION_FAIL = ''ERR_CONNECTION_FAIL''"
  | "PowerErrorsToErrCode ERR_FREQUENT_FUNCTION_CALL = ''ERR_FREQUENT_FUNCTION_CALL''"
  | "PowerErrorsToErrCode ERR_POWER_MODE_TRANSIT_FAILED = ''ERR_POWER_MODE_TRANSIT_FAILED''"
  | "PowerErrorsToErrCode ERR_SKIP_FUNCTION_CALL = ''ERR_SKIP_FUNCTION_CALL''"
  | "PowerErrorsToErrCode ERR_READ_OPERATION_FAILED = ''ERR_READ_OPERATION_FAILED''"
  | "PowerErrorsToErrCode ERR_USER_PARAM_INVALID = ''ERR_USER_PARAM_INVALID''"
  | "PowerErrorsToErrCode ERR_WRITE_OPERATION_FAILED = ''ERR_WRITE_OPERATION_FAILED''"
  | "PowerErrorsToErrCode ERR_CAPABILITY_NOT_SUPPORTED = ''ERR_CAPABILITY_NOT_SUPPORTED''"
  | "PowerErrorsToErrCode ERR_ENTERPRISE_POLICIES_DENIED = ''ERR_UNKNOWN''"
  | "PowerErrorsToErrCode ERR_SCREEN_OFF_BLOCKED = ''ERR_UNKNOWN''"

primrec PowerErrorsToString :: "PowerErrors \<Rightarrow> string" where
    "PowerErrorsToString ERR_OK = ''Operation succeeded''"
  | "PowerErrorsToString ERR_FAILURE = ''General failure''"
  | "PowerErrorsToString ERR_PERMISSION_DENIED = ''Permission denied''"
  | "PowerErrorsToString ERR_SYSTEM_API_DENIED = ''System API denied''"
  | "PowerErrorsToString ERR_PARAM_INVALID = ''Invalid parameter''"
  | "PowerErrorsToString ERR_CONNECTION_FAIL = ''Connection to power service failed''"
  | "PowerErrorsToString ERR_FREQUENT_FUNCTION_CALL = ''Too frequent function calls''"
  | "PowerErrorsToString ERR_POWER_MODE_TRANSIT_FAILED = ''Power mode transition failed''"
  | "PowerErrorsToString ERR_SKIP_FUNCTION_CALL = ''Function call skipped''"
  | "PowerErrorsToString ERR_READ_OPERATION_FAILED = ''Read operation failed''"
  | "PowerErrorsToString ERR_USER_PARAM_INVALID = ''User parameter value invalid''"
  | "PowerErrorsToString ERR_WRITE_OPERATION_FAILED = ''Write operation failed''"
  | "PowerErrorsToString ERR_CAPABILITY_NOT_SUPPORTED = ''Capability not supported''"
  | "PowerErrorsToString ERR_ENTERPRISE_POLICIES_DENIED = ''Unknown error''"
  | "PowerErrorsToString ERR_SCREEN_OFF_BLOCKED = ''Unknown error''"

definition apostrophe :: string where "apostrophe = [CHR 0x27]"

definition GetSuggestion :: "PowerErrors \<Rightarrow> string" where
  "GetSuggestion err = (case err of
       ERR_PERMISSION_DENIED \<Rightarrow> ''Ensure the caller has the required permission '' @
         ''(ohos.permission.POWER_MANAGER or ohos.permission.POWER_OPTIMIZATION)''
     | ERR_SYSTEM_API_DENIED \<Rightarrow> ''This API is restricted to system applications''
     | ERR_CONNECTION_FAIL \<Rightarrow> ''Check if the power service (powermgr) is running: 'hidumper -s 3301'' @ apostrophe
     | ERR_FREQUENT_FUNCTION_CALL \<Rightarrow> ''Reduce the call frequency and try again later''
     | ERR_POWER_MODE_TRANSIT_FAILED \<Rightarrow> ''Check if the target mode is supported and the device state allows transition''
     | ERR_PARAM_INVALID \<Rightarrow> ''Check the input parameters and refer to 'ohos-powerManager --help'' @ apostrophe
     | ERR_USER_PARAM_INVALID \<Rightarrow> ''Ensure parameter values are within the expected range''
     | ERR_CAPABILITY_NOT_SUPPORTED \<Rightarrow> ''Ensure this capability is supported on the current device''
     | _ \<Rightarrow> ''Run 'ohos-powerManager --help' for usage information'')"

section \<open>Help\<close>

definition double_quote :: string where "double_quote = [CHR 0x22]"

definition text_lines :: "string list \<Rightarrow> string" where
  "text_lines ls = concat (map (\<lambda>l. l @ [CHR 0x0A]) ls)"

definition ShowGlobalHelp :: string where
  "ShowGlobalHelp = text_lines [
     ''ohos-powerManager - Power management CLI tool for HarmonyOS/OHOS'',
     '''',
     ''Usage:'',
     ''  ohos-powerManager <command> [options]'',
     '''',
     ''Commands:'',
     ''  suspend                      Suspend device (turn screen off)'',
     ''  wakeup                       Wake up device (turn screen on)'',
     ''  set-power-mode               Set device power mode'',
     ''  override-screen-off-time     Override screen off timeout'',
     ''  restore-screen-off-time      Restore screen off timeout to default'',
     '''',
     ''Options:'',
     ''  --help                       Show this help message'',
     '''',
     ''Use 'ohos-powerManager <command> --help' for more information on a command.'']"

definition ShowSuspendHelp :: string where
  "ShowSuspendHelp = text_lines [
     ''suspend - Suspend device and turn screen off'',
     '''',
     ''Usage:'',
     ''  ohos-powerManager suspend [--immediately]'',
     '''',
     ''Parameters:'',
     ''  --immediately                Suspend immediately without delay (optional, default: false)'',
     ''  --help                       Display this help message'',
     '''',
     ''Examples:'',
     ''  ohos-powerManager suspend'',
     ''  ohos-powerManager suspend --immediately'',
     '''',
     ''Permission: ohos.permission.POWER_MANAGER'']"

definition ShowWakeupHelp :: string where
  "ShowWakeupHelp = text_lines [
     ''wakeup - Wake up device and turn screen on'',
     '''',
     ''Usage:'',
     ''  ohos-powerManager wakeup [--detail <string>]'',
     '''',
     ''Parameters:'',
     ''  --detail <string>            Wakeup detail string (optional, max 128 chars, default: '' @ double_quote @ ''cli-call'' @ double_quote @ '')'',
     ''  --help                       Display this help message'',
     '''',
     ''Examples:'',
     ''  ohos-powerManager wakeup'',
     ''  ohos-powerManager wakeup --detail '' @ double_quote @ ''user pressed power key'' @ double_quote @ '''',
     '''',
     ''Permission: ohos.permission.POWER_MANAGER'']"

definition ShowSetPowerModeHelp :: string where
  "ShowSetPowerModeHelp = text_lines [
     ''set-power-mode - Set device power mode'',
     '''',
     ''Usage:'',
     ''  ohos-powerManager set-power-mode --mode <mode>'',
     '''',
     ''Parameters:'',
     ''  --mode <mode>                Power mode to set (required, values: [normal, powerSave])'',
     ''  --help                       Display this help message'',
     '''',
     ''Examples:'',
     ''  ohos-powerManager set-power-mode --mode normal'',
     ''  ohos-powerManager set-power-mode --mode powerSave'',
     '''',
     ''Permission: ohos.permission.POWER_OPTIMIZATION'']"

definition ShowOverrideScreenOffTimeHelp :: string where
  "ShowOverrideScreenOffTimeHelp = text_lines [
     ''override-screen-off-time - Override screen off timeout'',
     '''',
     ''Usage:'',
     ''  ohos-powerManager override-screen-off-time --time <timeout_ms>'',
     '''',
     ''Parameters:'',
     ''  --time <timeout_ms>          Screen off timeout in milliseconds (required, must be positive integer)'',
     ''  --help                       Display this help message'',
     '''',
     ''Examples:'',
     ''  ohos-powerManager override-screen-off-time --time 30000'',
     ''  ohos-powerManager override-screen-off-time --time 60000'',
     '''',
     ''Permission: ohos.permission.POWER_MANAGER'']"

definition ShowRestoreScreenOffTimeHelp :: string where
  "ShowRestoreScreenOffTimeHelp = text_lines [
     ''restore-screen-off-time - Restore screen off timeout to system default'',
     '''',
     ''Usage:'',
     ''  ohos-powerManager restore-screen-off-time'',
     '''',
     ''Parameters:'',
     ''  --help                       Display this help message'',
     '''',
     ''Examples:'',
     ''  ohos-powerManager restore-screen-off-time'',
     '''',
     ''Permission: ohos.permission.POWER_MANAGER'']"


section \<open>Parameters\<close>

definition WAKEUP_DETAIL_DEFAULT :: string where "WAKEUP_DETAIL_DEFAULT = ''cli-call''"
definition MAX_DETAIL_LENGTH :: nat where "MAX_DETAIL_LENGTH = 128"

text \<open>Message and suggestion of a refused command line.\<close>

type_synonym refusal = "string \<times> string"

definition see_help :: "string \<Rightarrow> string" where
  "see_help command = ''Run 'ohos-powerManager '' @ command @ '' --help' for usage''"

definition duplicate_parameter :: "string \<Rightarrow> string \<Rightarrow> refusal" where
  "duplicate_parameter command p =
     (''Duplicate parameter: '' @ p, ''Each parameter may only be specified once. '' @ see_help command)"

definition unknown_parameter :: "string \<Rightarrow> string \<Rightarrow> refusal" where
  "unknown_parameter command p = (''Unknown parameter: '' @ p, see_help command)"

fun suspend_loop :: "string list \<Rightarrow> bool \<Rightarrow> refusal + bool" where
  "suspend_loop [] immediately = Inr immediately"
| "suspend_loop (arg # args) immediately =
    (if arg = ''--immediately''
     then if immediately then Inl (duplicate_parameter ''suspend'' ''--immediately'') else suspend_loop args True
     else Inl (unknown_parameter ''suspend'' arg))"

text \<open>The loop of the other commands: one parameter with a value; without a value the old one stays.\<close>

fun value_loop :: "string \<Rightarrow> string \<Rightarrow> string list \<Rightarrow> string \<Rightarrow> bool \<Rightarrow> refusal + string" where
  "value_loop command parameter [] v found = Inr v"
| "value_loop command parameter (arg # args) v found =
    (if arg = parameter
     then if found then Inl (duplicate_parameter command parameter)
       else (case args of
           [] \<Rightarrow> Inr v
         | value # rest \<Rightarrow> value_loop command parameter rest value True)
     else Inl (unknown_parameter command arg))"

definition GetValidPowerModes :: string where "GetValidPowerModes = ''normal, powerSave''"

definition ParsePowerMode :: "string \<Rightarrow> string + nat" where
  "ParsePowerMode str =
    (if str = ''normal'' then Inr NORMAL_MODE
     else if str = ''powerSave'' then Inr POWER_SAVE_MODE
     else Inl (''Invalid power mode: '' @ apostrophe @ str @ apostrophe @ ''. Valid values: '' @ GetValidPowerModes))"

section \<open>Commands\<close>

definition refuse_command :: "json_allocation \<Rightarrow> refusal \<Rightarrow> int \<times> cli_output list" where
  "refuse_command J r =
     (PowerErrors_val ERR_PARAM_INVALID, OutputError J ''ERR_PARAM_INVALID'' (fst r) (snd r))"

text \<open>
  How every command ends: the answer of the client decides.  The object \<open>data\<close> describes the request; its
  numbers are integers here, a double in \<open>cJSON\<close>.
\<close>

definition finish_command :: "json_allocation \<Rightarrow> (string \<times> Json) list \<Rightarrow> PowerErrors \<Rightarrow> int \<times> cli_output list" where
  "finish_command J data ret =
    (if ret = ERR_OK
     then (0,
       if \<not> J CreateData then OutputFallbackError ''Failed to create JSON data object''
       else if \<not> J BuildData then OutputFallbackError ''Failed to build JSON data''
       else OutputSuccess J (JObject data))
     else (PowerErrors_val ret, OutputError J (PowerErrorsToErrCode ret) (PowerErrorsToString ret) (GetSuggestion ret)))"

definition Cli_RunAsSuspendCommand :: "env \<Rightarrow> cenv \<Rightarrow> json_allocation \<Rightarrow> string list \<Rightarrow> (int \<times> cli_output list) C" where
  "Cli_RunAsSuspendCommand E K J args = (case suspend_loop args False of
       Inl r \<Rightarrow> State_Monad.return (refuse_command J r)
     | Inr immediately \<Rightarrow> do {
         ret \<leftarrow> Client_SuspendDevice E K SUSPEND_DEVICE_REASON_APPLICATION immediately;
         State_Monad.return (finish_command J [(''command'', JString ''suspend''), (''reason'', JString ''application''),
           (''immediately'', JBool immediately)] ret) })"

definition Cli_RunAsWakeupCommand :: "env \<Rightarrow> cenv \<Rightarrow> json_allocation \<Rightarrow> string list \<Rightarrow> (int \<times> cli_output list) C" where
  "Cli_RunAsWakeupCommand E K J args = (case value_loop ''wakeup'' ''--detail'' args WAKEUP_DETAIL_DEFAULT False of
       Inl r \<Rightarrow> State_Monad.return (refuse_command J r)
     | Inr detail \<Rightarrow>
         if length detail > MAX_DETAIL_LENGTH
         then State_Monad.return (refuse_command J
           (''Detail string exceeds maximum length of '' @ to_string (int MAX_DETAIL_LENGTH) @ '' characters'',
            ''Use a shorter detail string''))
         else do {
           ret \<leftarrow> Client_WakeupDevice E K WAKEUP_DEVICE_APPLICATION detail;
           State_Monad.return (finish_command J [(''command'', JString ''wakeup''), (''reason'', JString ''application''),
             (''detail'', JString detail)] ret) })"

definition Cli_RunAsSetPowerModeCommand :: "env \<Rightarrow> cenv \<Rightarrow> json_allocation \<Rightarrow> string list \<Rightarrow> (int \<times> cli_output list) C" where
  "Cli_RunAsSetPowerModeCommand E K J args = (case value_loop ''set-power-mode'' ''--mode'' args [] False of
       Inl r \<Rightarrow> State_Monad.return (refuse_command J r)
     | Inr modeStr \<Rightarrow>
         if modeStr = []
         then State_Monad.return (refuse_command J (''Missing required parameter: --mode'',
           ''Usage: ohos-powerManager set-power-mode --mode <mode>. Valid modes: '' @ GetValidPowerModes))
         else (case ParsePowerMode modeStr of
             Inl err \<Rightarrow> State_Monad.return (refuse_command J (err, ''Valid modes: '' @ GetValidPowerModes))
           | Inr mode \<Rightarrow> do {
               ret \<leftarrow> Client_SetDeviceMode E K mode;
               State_Monad.return (finish_command J
                 [(''command'', JString ''set-power-mode''), (''mode'', JString modeStr)] ret) }))"

text \<open>The number that \<open>strtoll\<close> reads to the end of the text, if it is positive.\<close>

definition ParseTimeout :: "string \<Rightarrow> int option" where
  "ParseTimeout timeoutStr = (let (timeout, rest) = strtoll timeoutStr
     in if rest = timeoutStr \<or> rest \<noteq> [] \<or> timeout \<le> 0 then None else Some timeout)"

definition Cli_RunAsOverrideScreenOffTimeCommand ::
    "env \<Rightarrow> cenv \<Rightarrow> json_allocation \<Rightarrow> string list \<Rightarrow> (int \<times> cli_output list) C" where
  "Cli_RunAsOverrideScreenOffTimeCommand E K J args =
    (case value_loop ''override-screen-off-time'' ''--time'' args [] False of
       Inl r \<Rightarrow> State_Monad.return (refuse_command J r)
     | Inr timeoutStr \<Rightarrow>
         if timeoutStr = []
         then State_Monad.return (refuse_command J (''Missing required parameter: --time'',
           ''Usage: ohos-powerManager override-screen-off-time --time <timeout_ms>''))
         else (case ParseTimeout timeoutStr of
             None \<Rightarrow> State_Monad.return (refuse_command J
               (''Invalid timeout value: '' @ apostrophe @ timeoutStr @ apostrophe @
                  ''. Must be a positive integer (milliseconds)'',
                ''Example: ohos-powerManager override-screen-off-time --time 30000''))
           | Some timeout \<Rightarrow> do {
               ret \<leftarrow> Client_OverrideScreenOffTime E K timeout;
               State_Monad.return (finish_command J
                 [(''command'', JString ''override-screen-off-time''), (''timeout'', JNumber timeout)] ret) }))"

definition Cli_RunAsRestoreScreenOffTimeCommand ::
    "env \<Rightarrow> cenv \<Rightarrow> json_allocation \<Rightarrow> string list \<Rightarrow> (int \<times> cli_output list) C" where
  "Cli_RunAsRestoreScreenOffTimeCommand E K J args = (case args of
       arg # _ \<Rightarrow> State_Monad.return (refuse_command J (''Unknown parameter: '' @ arg,
         ''restore-screen-off-time takes no parameters. '' @ see_help ''restore-screen-off-time''))
     | [] \<Rightarrow> do {
         ret \<leftarrow> Client_RestoreScreenOffTime E K;
         State_Monad.return (finish_command J [(''command'', JString ''restore-screen-off-time'')] ret) })"

definition COMMAND_TABLE ::
    "env \<Rightarrow> cenv \<Rightarrow> json_allocation \<Rightarrow> (string \<times> (string list \<Rightarrow> (int \<times> cli_output list) C)) list" where
  "COMMAND_TABLE E K J = [
     (''suspend'', Cli_RunAsSuspendCommand E K J),
     (''wakeup'', Cli_RunAsWakeupCommand E K J),
     (''set-power-mode'', Cli_RunAsSetPowerModeCommand E K J),
     (''override-screen-off-time'', Cli_RunAsOverrideScreenOffTimeCommand E K J),
     (''restore-screen-off-time'', Cli_RunAsRestoreScreenOffTimeCommand E K J)]"

definition COMMAND_HELP_TABLE :: "(string \<times> string) list" where
  "COMMAND_HELP_TABLE = [
     (''suspend'', ShowSuspendHelp),
     (''wakeup'', ShowWakeupHelp),
     (''set-power-mode'', ShowSetPowerModeHelp),
     (''override-screen-off-time'', ShowOverrideScreenOffTimeHelp),
     (''restore-screen-off-time'', ShowRestoreScreenOffTimeHelp)]"

definition HasHelpFlag :: "string list \<Rightarrow> bool" where
  "HasHelpFlag args = (\<exists>arg \<in> set args. arg = ''--help'')"

definition available_commands :: string where
  "available_commands = ''Run 'ohos-powerManager --help' for available commands''"

text \<open>\<open>argv\<close> without the name of the program: \<open>ParseArgs\<close> takes the first as the command.\<close>

definition ParseArgs :: "string list \<Rightarrow> string \<times> string list" where
  "ParseArgs argv = (case argv of [] \<Rightarrow> ([], []) | command # args \<Rightarrow> (command, args))"

definition Cli_Execute :: "env \<Rightarrow> cenv \<Rightarrow> json_allocation \<Rightarrow> string list \<Rightarrow> (int \<times> cli_output list) C" where
  "Cli_Execute E K J argv = (let (command, args) = ParseArgs argv in
     if command = []
     then State_Monad.return (0, OutputError J ''ERR_NO_COMMAND'' ''No command specified'' available_commands)
     else if command = ''--help''
     then State_Monad.return (case args of
         arg # _ \<Rightarrow> refuse_command J (''Unexpected argument after --help: '' @ arg, available_commands)
       | [] \<Rightarrow> (0, [CliText ShowGlobalHelp]))
     else if args = [''--help'']
     then State_Monad.return (case map_of (COMMAND_TABLE E K J) command of
         Some _ \<Rightarrow> (0, [CliText (the (map_of COMMAND_HELP_TABLE command))])
       | None \<Rightarrow> refuse_command J (''Unknown command: '' @ command, available_commands))
     else if HasHelpFlag args
     then State_Monad.return (refuse_command J (''--help must be the only argument'', see_help command))
     else (case map_of (COMMAND_TABLE E K J) command of
         Some run \<Rightarrow> run args
       | None \<Rightarrow> State_Monad.return (refuse_command J (''Unknown command: '' @ command, available_commands))))"


end
