(* ===== verification/Cli_Laws.thy ===== *)
theory Cli_Laws
  imports Power_Cli Client_Laws Setting_Laws
begin

text \<open>
  The command line tool against its grammar: which command lines reach the service and as which request, what the exit
  status and the printed object say.
\<close>

section \<open>The grammar\<close>

datatype cli_request =
    AskSuspend bool
  | AskWakeup string
  | AskMode string nat
  | AskScreenOffTime int
  | AskRestore

text \<open>The command lines that ask for something, with what they ask for.\<close>

inductive asks :: "string list \<Rightarrow> cli_request \<Rightarrow> bool" where
  asks_suspend: "asks [''suspend''] (AskSuspend False)"
| asks_immediately: "asks [''suspend'', ''--immediately''] (AskSuspend True)"
| asks_wakeup: "asks [''wakeup''] (AskWakeup ''cli-call'')"
| asks_no_detail: "asks [''wakeup'', ''--detail''] (AskWakeup ''cli-call'')"
| asks_detail: "length d \<le> 128 \<Longrightarrow> d \<noteq> ''--help'' \<Longrightarrow> asks [''wakeup'', ''--detail'', d] (AskWakeup d)"
| asks_mode: "(m, n) \<in> {(''normal'', 600), (''powerSave'', 601)} \<Longrightarrow>
    asks [''set-power-mode'', ''--mode'', m] (AskMode m n)"
| asks_time: "ParseTimeout t = Some n \<Longrightarrow> asks [''override-screen-off-time'', ''--time'', t] (AskScreenOffTime n)"
| asks_restore: "asks [''restore-screen-off-time''] AskRestore"

primrec client_request :: "env \<Rightarrow> cenv \<Rightarrow> cli_request \<Rightarrow> PowerErrors C" where
  "client_request E K (AskSuspend immediately) = Client_SuspendDevice E K SUSPEND_DEVICE_REASON_APPLICATION immediately"
| "client_request E K (AskWakeup detail) = Client_WakeupDevice E K WAKEUP_DEVICE_APPLICATION detail"
| "client_request E K (AskMode m n) = Client_SetDeviceMode E K n"
| "client_request E K (AskScreenOffTime n) = Client_OverrideScreenOffTime E K n"
| "client_request E K AskRestore = Client_RestoreScreenOffTime E K"

primrec described :: "cli_request \<Rightarrow> (string \<times> Json) list" where
  "described (AskSuspend immediately) =
     [(''command'', JString ''suspend''), (''reason'', JString ''application''), (''immediately'', JBool immediately)]"
| "described (AskWakeup detail) =
     [(''command'', JString ''wakeup''), (''reason'', JString ''application''), (''detail'', JString detail)]"
| "described (AskMode m n) = [(''command'', JString ''set-power-mode''), (''mode'', JString m)]"
| "described (AskScreenOffTime n) = [(''command'', JString ''override-screen-off-time''), (''timeout'', JNumber n)]"
| "described AskRestore = [(''command'', JString ''restore-screen-off-time'')]"

definition asked :: "env \<Rightarrow> cenv \<Rightarrow> json_allocation \<Rightarrow> cli_request \<Rightarrow> (int \<times> cli_output list) C" where
  "asked E K J req = do { ret \<leftarrow> client_request E K req; State_Monad.return (finish_command J (described req) ret) }"

section \<open>The parsers\<close>

lemma suspend_loop_Inr: "suspend_loop args False = Inr b \<longleftrightarrow> (args = [] \<and> \<not> b) \<or> (args = [''--immediately''] \<and> b)"
  by (cases args; cases "tl args") auto

lemma value_loop_found: "value_loop c p args v True = Inr x \<longleftrightarrow> args = [] \<and> x = v"
  by (cases args) auto

lemma value_loop_Inr:
  "value_loop c p args v False = Inr x \<longleftrightarrow> (args \<in> {[], [p]} \<and> x = v) \<or> args = [p, x]"
  by (cases args; cases "tl args") (auto simp: value_loop_found)

lemma ParsePowerMode_Inr: "ParsePowerMode m = Inr n \<longleftrightarrow> (m, n) \<in> {(''normal'', 600), (''powerSave'', 601)}"
  by (auto simp: ParsePowerMode_def NORMAL_MODE_def POWER_SAVE_MODE_def)

lemma ParseTimeout_help: "ParseTimeout ''--help'' = None"
  by (simp add: ParseTimeout_def strtoll_def is_space_def is_digit_def)

lemma ParseTimeout_no_help: "ParseTimeout t = Some n \<Longrightarrow> ''--help'' \<noteq> t"
  using ParseTimeout_help by force

lemma ParseTimeout_empty: "ParseTimeout [] = None"
  by (simp add: ParseTimeout_def strtoll_def)

section \<open>Each command\<close>

text \<open>A handler either asks what the grammar says, or refuses with the status of a wrong parameter.\<close>

definition follows :: "env \<Rightarrow> cenv \<Rightarrow> json_allocation \<Rightarrow> string list \<Rightarrow> (int \<times> cli_output list) C \<Rightarrow> bool" where
  "follows E K J argv m \<longleftrightarrow>
     (\<exists>req. asks argv req \<and> m = asked E K J req) \<or> ((\<nexists>req. asks argv req) \<and> (\<exists>r. m = State_Monad.return r))"

lemma followsI:
  "asks argv req \<Longrightarrow> follows E K J argv (asked E K J req)"
  "(\<And>req. \<not> asks argv req) \<Longrightarrow> follows E K J argv (State_Monad.return r)"
  unfolding follows_def by blast+

lemma returns_intros:
  "\<exists>r. State_Monad.return a = State_Monad.return r"
  "(c \<Longrightarrow> \<exists>r. m = State_Monad.return r) \<Longrightarrow> (\<not> c \<Longrightarrow> \<exists>r. n = State_Monad.return r) \<Longrightarrow>
    \<exists>r. (if c then m else n) = State_Monad.return r"
  "z = None \<Longrightarrow> \<exists>r. (case z of None \<Rightarrow> State_Monad.return a | Some x \<Rightarrow> g x) = State_Monad.return r"
proof -
  show ret: "\<exists>r. State_Monad.return a = State_Monad.return r"
    by blast
  show "\<exists>r. (if c then m else n) = State_Monad.return r"
    if "c \<Longrightarrow> \<exists>r. m = State_Monad.return r" and "\<not> c \<Longrightarrow> \<exists>r. n = State_Monad.return r"
    using that by (cases c) simp_all
  show "\<exists>r. (case z of None \<Rightarrow> State_Monad.return a | Some x \<Rightarrow> g x) = State_Monad.return r" if "z = None"
    using that ret by (simp only: option.case)
qed

lemma asks_suspend_iff:
  "asks (''suspend'' # args) req \<longleftrightarrow>
    (\<exists>b. req = AskSuspend b \<and> suspend_loop args False = Inr b)"
  by (subst asks.simps) (auto simp: suspend_loop_Inr)

lemma asks_wakeup_iff:
  "asks (''wakeup'' # args) req \<longleftrightarrow>
    (\<exists>d. req = AskWakeup d \<and> length d \<le> 128 \<and> args \<noteq> [''--detail'', ''--help''] \<and>
      value_loop ''wakeup'' ''--detail'' args ''cli-call'' False = Inr d)"
  by (subst asks.simps) (auto simp: value_loop_Inr)

lemma asks_mode_iff:
  "asks (''set-power-mode'' # args) req \<longleftrightarrow>
    (\<exists>m n. req = AskMode m n \<and> ParsePowerMode m = Inr n \<and> value_loop ''set-power-mode'' ''--mode'' args [] False = Inr m)"
  by (subst asks.simps) (auto simp: value_loop_Inr ParsePowerMode_Inr)

lemma asks_time_iff:
  "asks (''override-screen-off-time'' # args) req \<longleftrightarrow>
    (\<exists>t n. req = AskScreenOffTime n \<and> ParseTimeout t = Some n \<and>
      value_loop ''override-screen-off-time'' ''--time'' args [] False = Inr t)"
  by (subst asks.simps) (auto simp: value_loop_Inr ParseTimeout_empty)

lemma asks_restore_iff: "asks (''restore-screen-off-time'' # args) req \<longleftrightarrow> args = [] \<and> req = AskRestore"
  by (subst asks.simps) auto

lemma follows_suspend: "follows E K J (''suspend'' # args) (Cli_RunAsSuspendCommand E K J args)"
proof (cases "suspend_loop args False")
  case (Inl r)
  then show ?thesis
    unfolding Cli_RunAsSuspendCommand_def by (simp only: sum.case) (intro followsI(2), simp only: asks_suspend_iff, simp)
next
  case (Inr b)
  then have "Cli_RunAsSuspendCommand E K J args = asked E K J (AskSuspend b)"
    unfolding Cli_RunAsSuspendCommand_def asked_def by (simp only: sum.case client_request.simps described.simps)
  then show ?thesis
    using Inr by (simp only:) (intro followsI(1), simp only: asks_suspend_iff, simp)
qed

lemma follows_wakeup:
  assumes "\<not> HasHelpFlag args"
  shows "follows E K J (''wakeup'' # args) (Cli_RunAsWakeupCommand E K J args)"
proof (cases "value_loop ''wakeup'' ''--detail'' args ''cli-call'' False")
  case (Inl r)
  then show ?thesis
    unfolding Cli_RunAsWakeupCommand_def WAKEUP_DETAIL_DEFAULT_def
    by (simp only: sum.case) (intro followsI(2), simp only: asks_wakeup_iff, simp)
next
  case (Inr d)
  have no_help: "args \<noteq> [''--detail'', ''--help'']"
    using assms by (auto simp: HasHelpFlag_def)
  show ?thesis
  proof (cases "length d \<le> 128")
    case True
    then have "Cli_RunAsWakeupCommand E K J args = asked E K J (AskWakeup d)"
      unfolding Cli_RunAsWakeupCommand_def WAKEUP_DETAIL_DEFAULT_def MAX_DETAIL_LENGTH_def asked_def Inr
      by (simp only: sum.case client_request.simps described.simps not_less [symmetric] if_False)
    then show ?thesis
      using True Inr no_help by (simp only:) (intro followsI(1), simp only: asks_wakeup_iff, simp)
  next
    case False
    then show ?thesis
      unfolding Cli_RunAsWakeupCommand_def WAKEUP_DETAIL_DEFAULT_def MAX_DETAIL_LENGTH_def Inr
      by (simp only: sum.case not_le if_True) (intro followsI(2), simp only: asks_wakeup_iff Inr, simp)
  qed
qed

lemma follows_mode: "follows E K J (''set-power-mode'' # args) (Cli_RunAsSetPowerModeCommand E K J args)"
proof (cases "value_loop ''set-power-mode'' ''--mode'' args [] False")
  case (Inl r)
  then show ?thesis
    unfolding Cli_RunAsSetPowerModeCommand_def
    by (simp only: sum.case) (intro followsI(2), simp only: asks_mode_iff, simp)
next
  case (Inr m)
  show ?thesis
  proof (cases "ParsePowerMode m")
    case (Inl e)
    have "\<exists>r. Cli_RunAsSetPowerModeCommand E K J args = State_Monad.return r"
      unfolding Cli_RunAsSetPowerModeCommand_def Inr sum.case Inl
      by (intro returns_intros)
    then show ?thesis
      using Inl by (elim exE) (simp only:, intro followsI(2), simp only: asks_mode_iff Inr, simp)
  next
    case parsed: (Inr n)
    then have "m \<noteq> []"
      by (auto simp: ParsePowerMode_Inr)
    then have "Cli_RunAsSetPowerModeCommand E K J args = asked E K J (AskMode m n)"
      unfolding Cli_RunAsSetPowerModeCommand_def asked_def Inr sum.case parsed
      by (simp only: if_False client_request.simps described.simps)
    then show ?thesis
      using Inr parsed by (simp only:) (intro followsI(1), simp only: asks_mode_iff, simp)
  qed
qed

lemma follows_time:
  "follows E K J (''override-screen-off-time'' # args) (Cli_RunAsOverrideScreenOffTimeCommand E K J args)"
proof (cases "value_loop ''override-screen-off-time'' ''--time'' args [] False")
  case (Inl r)
  then show ?thesis
    unfolding Cli_RunAsOverrideScreenOffTimeCommand_def
    by (simp only: sum.case) (intro followsI(2), simp only: asks_time_iff, simp)
next
  case (Inr t)
  show ?thesis
  proof (cases "ParseTimeout t")
    case None
    have "\<exists>r. Cli_RunAsOverrideScreenOffTimeCommand E K J args = State_Monad.return r"
      unfolding Cli_RunAsOverrideScreenOffTimeCommand_def Inr sum.case None option.case
      by (intro returns_intros)
    then show ?thesis
      using None by (elim exE) (simp only:, intro followsI(2), simp only: asks_time_iff Inr, simp)
  next
    case (Some n)
    then have "t \<noteq> []"
      by (auto simp: ParseTimeout_empty)
    then have "Cli_RunAsOverrideScreenOffTimeCommand E K J args = asked E K J (AskScreenOffTime n)"
      unfolding Cli_RunAsOverrideScreenOffTimeCommand_def asked_def Inr sum.case Some option.case
      by (simp only: if_False client_request.simps described.simps)
    then show ?thesis
      using Inr Some by (simp only:) (intro followsI(1), simp only: asks_time_iff, simp)
  qed
qed

lemma follows_restore:
  "follows E K J (''restore-screen-off-time'' # args) (Cli_RunAsRestoreScreenOffTimeCommand E K J args)"
proof (cases args)
  case Nil
  then have "Cli_RunAsRestoreScreenOffTimeCommand E K J args = asked E K J AskRestore"
    unfolding Cli_RunAsRestoreScreenOffTimeCommand_def asked_def
    by (simp only: list.case client_request.simps described.simps)
  then show ?thesis
    using Nil by (simp only:) (intro followsI(1) asks_restore)
next
  case (Cons a as)
  then show ?thesis
    unfolding Cli_RunAsRestoreScreenOffTimeCommand_def
    by (simp only: list.case) (intro followsI(2), simp only: asks_restore_iff, simp)
qed


section \<open>The whole tool\<close>

lemma asks_shape:
  assumes "asks argv req"
  obtains c args where "argv = c # args" and "\<not> HasHelpFlag args"
    and "c \<in> {''suspend'', ''wakeup'', ''set-power-mode'', ''override-screen-off-time'', ''restore-screen-off-time''}"
  using assms by (cases rule: asks.cases) (auto simp: HasHelpFlag_def dest: ParseTimeout_no_help)

lemma asks_unique:
  assumes "asks argv r" and "asks argv s"
  shows "r = s"
  using assms(1)
proof (cases rule: asks.cases)
  case asks_mode
  then show ?thesis
    using assms(2) by (auto simp: asks_mode_iff value_loop_Inr ParsePowerMode_Inr)
qed (use assms(2) in \<open>auto simp: asks_suspend_iff asks_wakeup_iff asks_time_iff asks_restore_iff suspend_loop_Inr value_loop_Inr\<close>)

lemma asks_nothing:
  "\<not> asks [] req"
  "HasHelpFlag args \<Longrightarrow> \<not> asks (c # args) req"
  "c \<notin> {''suspend'', ''wakeup'', ''set-power-mode'', ''override-screen-off-time'', ''restore-screen-off-time''} \<Longrightarrow>
    \<not> asks (c # args) req"
  by (auto elim!: asks_shape)

lemma table_follows:
  assumes "map_of (COMMAND_TABLE E K J) c = Some run" and "\<not> HasHelpFlag args"
  shows "follows E K J (c # args) (run args)"
  using assms follows_suspend follows_wakeup follows_mode follows_time follows_restore
  by (auto simp: COMMAND_TABLE_def split: if_splits)

lemma table_unknown:
  assumes "map_of (COMMAND_TABLE E K J) c = None"
  shows "\<not> asks (c # args) req"
  by (rule asks_nothing(3)) (use assms in \<open>auto simp: COMMAND_TABLE_def split: if_splits\<close>)

lemma Cli_Execute_follows: "follows E K J argv (Cli_Execute E K J argv)"
proof (cases argv)
  case Nil
  then have "Cli_Execute E K J argv =
      State_Monad.return (0, OutputError J ''ERR_NO_COMMAND'' ''No command specified'' available_commands)"
    by (simp add: Cli_Execute_def ParseArgs_def)
  then show ?thesis
    using asks_nothing(1) Nil by (simp only:) (intro followsI(2), simp)
next
  case (Cons c args)
  show ?thesis
  proof (cases "c = [] \<or> c = ''--help'' \<or> HasHelpFlag args \<or> map_of (COMMAND_TABLE E K J) c = None")
    case True
    then have "\<not> asks (c # args) req" for req
    proof (elim disjE)
      assume "c = []"
      then show ?thesis
        by (intro asks_nothing(3)) simp
    next
      assume "c = ''--help''"
      then show ?thesis
        by (intro asks_nothing(3)) simp
    qed (intro asks_nothing(2) table_unknown, assumption)+
    moreover have "map_of (COMMAND_TABLE E K J) c = None" if "c \<noteq> []" "c \<noteq> ''--help''" "\<not> HasHelpFlag args"
      using True that by blast
    then have "\<exists>r. Cli_Execute E K J argv = State_Monad.return r"
      unfolding Cli_Execute_def Cons ParseArgs_def list.case Let_def prod.case by (intro returns_intros) assumption
    ultimately show ?thesis
      unfolding Cons by (elim exE) (simp only:, intro followsI(2))
  next
    case False
    then obtain run where run: "map_of (COMMAND_TABLE E K J) c = Some run"
      by blast
    moreover have "args \<noteq> [''--help'']"
      using False by (auto simp: HasHelpFlag_def)
    ultimately have "Cli_Execute E K J argv = run args"
      using False unfolding Cli_Execute_def Cons ParseArgs_def by (simp only: list.case Let_def prod.case option.case) simp
    then show ?thesis
      using table_follows [OF run] False Cons by simp
  qed
qed

lemma exit_status_zero: "PowerErrors_val e mod 256 = 0 \<longleftrightarrow> e = ERR_OK"
  by (cases e) simp_all


text \<open>
  C16: the command line tool obeys its grammar.  A command line of the grammar has exactly the effect of its one request to the client
  library, and the exit status that the system keeps, eight bits of the number returned, is zero exactly when the
  answer is success; every other command line leaves service and client alone.
\<close>

theorem cli_follows_grammar:
  "(\<forall>req. asks argv req \<longrightarrow>
      exec (Cli_Execute E K J argv) w = exec (client_request E K req) w \<and>
      Prelude.result (Cli_Execute E K J argv) w =
        finish_command J (described req) (Prelude.result (client_request E K req) w) \<and>
      (fst (Prelude.result (Cli_Execute E K J argv) w) mod 256 = 0 \<longleftrightarrow> Prelude.result (client_request E K req) w = ERR_OK)) \<and>
    ((\<nexists>req. asks argv req) \<longrightarrow> exec (Cli_Execute E K J argv) w = w)"
proof (intro conjI allI impI)
  fix req assume req: "asks argv req"
  then have eq: "Cli_Execute E K J argv = asked E K J req"
    using Cli_Execute_follows [of E K J argv] asks_unique unfolding follows_def by blast
  show "exec (Cli_Execute E K J argv) w = exec (client_request E K req) w"
    by (simp add: eq asked_def)
  show res: "Prelude.result (Cli_Execute E K J argv) w =
      finish_command J (described req) (Prelude.result (client_request E K req) w)"
    by (simp add: eq asked_def)
  show "fst (Prelude.result (Cli_Execute E K J argv) w) mod 256 = 0 \<longleftrightarrow> Prelude.result (client_request E K req) w = ERR_OK"
    unfolding res finish_command_def by (simp add: exit_status_zero)
next
  assume "\<nexists>req. asks argv req"
  then obtain r where "Cli_Execute E K J argv = State_Monad.return r"
    using Cli_Execute_follows [of E K J argv] unfolding follows_def by blast
  then show "exec (Cli_Execute E K J argv) w = w"
    by simp
qed

text \<open>A number that does not fit 64 bits is not refused: \<open>strtoll\<close> gives the largest one, and \<open>errno\<close> is not asked.\<close>

lemma too_large_time_accepted:
  assumes "2 ^ 63 \<le> n"
  shows "ParseTimeout (to_string n) = Some (2 ^ 63 - 1)"
proof -
  have "to_string n \<noteq> []"
    by (auto simp: to_string_def digits_nonempty)
  then show ?thesis
    using assms by (auto simp: ParseTimeout_def strtoll_to_string clamp64_def)
qed

text \<open>No command at all is reported as failed, with the exit status of success.\<close>

lemma no_command_exits_zero: "fst (Prelude.result (Cli_Execute E K J []) w) = 0"
  by (simp add: Cli_Execute_def ParseArgs_def)

theorem cli_follows_grammar_witness:
  "exec (Cli_Execute sample_env sample_cenv (\<lambda>s. True) [''suspend'']) sample_cworld =
     exec (Client_SuspendDevice sample_env sample_cenv SUSPEND_DEVICE_REASON_APPLICATION False) sample_cworld \<and>
   exec (Cli_Execute sample_env sample_cenv (\<lambda>s. True) [''suspend'', ''now'']) sample_cworld = sample_cworld"
proof -
  have "\<nexists>req. asks [''suspend'', ''now''] req"
    by (simp add: asks_suspend_iff)
  then show ?thesis
    using cli_follows_grammar [of "[''suspend'']" sample_env sample_cenv "\<lambda>s. True" sample_cworld]
      cli_follows_grammar [of "[''suspend'', ''now'']" sample_env sample_cenv "\<lambda>s. True" sample_cworld] asks_suspend
    by simp
qed


end
