(* ===== verification/Power_Shell.thy ===== *)
theory Power_Shell
  imports Power_Cli
begin

text \<open>
  The debugging shell \<open>power-shell\<close> (\<open>utils/shell/src/power_shell_command.cpp\<close>).  The class it derives from, \<open>ShellCommand\<close>
  of another project, splits the command line into the command and its arguments and looks the command up in the table
  that \<open>CreateCommandMap\<close> fills; here a command is a function of these two, and gives the number it returns, the text
  it leaves in \<open>resultReceiver_\<close> and the requests it made to the display manager.  \<open>getopt_long\<close> of the C library is
  modelled for what the commands use: its first call, which gives the first option of the command line.  The option tables are read up to
  their last entry.
\<close>

section \<open>Reading of options and numbers\<close>

text \<open>
  Short options are pairs of character and whether an argument is required, long ones have their name in addition.
  The result is the character of the option (\<open>?\<close> for an error, nothing when no option is left) and \<open>optarg\<close>.
\<close>

definition option_error :: "char option \<times> string option" where
  "option_error = (Some (CHR ''?''), None)"

definition with_argument :: "char \<Rightarrow> bool \<Rightarrow> string option \<Rightarrow> string list \<Rightarrow> char option \<times> string option" where
  "with_argument c required attached rest =
    (if \<not> required then (Some c, None)
     else case attached of
         Some v \<Rightarrow> (Some c, Some v)
       | None \<Rightarrow> (case rest of [] \<Rightarrow> option_error | v # _ \<Rightarrow> (Some c, Some v)))"

definition short_option :: "(char \<times> bool) list \<Rightarrow> string \<Rightarrow> string list \<Rightarrow> char option \<times> string option" where
  "short_option shorts text rest = (case text of
       [] \<Rightarrow> option_error
     | c # value \<Rightarrow> (case map_of shorts c of
           None \<Rightarrow> option_error
         | Some required \<Rightarrow> with_argument c required (if value = [] then None else Some value) rest))"

definition long_option :: "(string \<times> bool \<times> char) list \<Rightarrow> string \<Rightarrow> string list \<Rightarrow> char option \<times> string option" where
  "long_option longs text rest =
    (let name = takeWhile (\<lambda>c. c \<noteq> CHR ''='') text;
         attached = (case dropWhile (\<lambda>c. c \<noteq> CHR ''='') text of [] \<Rightarrow> None | _ # v \<Rightarrow> Some v);
         exact = filter (\<lambda>(n, _). n = name) longs;
         abbreviated = filter (\<lambda>(n, _). take (length name) n = name) longs
     in case (if exact \<noteq> [] then take 1 exact else abbreviated) of
         [(_, required, c)] \<Rightarrow>
           if \<not> required \<and> attached \<noteq> None then option_error else with_argument c required attached rest
       | _ \<Rightarrow> option_error)"

fun getopt_long ::
    "(char \<times> bool) list \<Rightarrow> (string \<times> bool \<times> char) list \<Rightarrow> string list \<Rightarrow> char option \<times> string option" where
  "getopt_long shorts longs [] = (None, None)"
| "getopt_long shorts longs (a # as) =
    (if a = ''--'' then (None, None)
     else if take 2 a = ''--'' then long_option longs (drop 2 a) as
     else if length a > 1 \<and> take 1 a = ''-'' then short_option shorts (drop 1 a) as
     else getopt_long shorts longs as)"

text \<open>\<open>strtol\<close> with base 0: hexadecimal after \<open>0x\<close>, octal after \<open>0\<close>, else decimal.\<close>

definition digit_of :: "char \<Rightarrow> nat" where
  "digit_of c = (let n = of_char c in
     if 48 \<le> n \<and> n \<le> 57 then n - 48
     else if 97 \<le> n \<and> n \<le> 102 then n - 87
     else if 65 \<le> n \<and> n \<le> 70 then n - 55
     else 99)"

definition read_base :: "nat \<Rightarrow> string \<Rightarrow> nat" where
  "read_base b s = foldl (\<lambda>n c. n * b + digit_of c) 0 (takeWhile (\<lambda>c. digit_of c < b) s)"

definition read_prefixed :: "string \<Rightarrow> nat" where
  "read_prefixed s =
    (if take 2 s \<in> {''0x'', ''0X''} \<and> drop 2 s \<noteq> [] \<and> digit_of (hd (drop 2 s)) < 16 then read_base 16 (drop 2 s)
     else if take 1 s = ''0'' then read_base 8 s
     else read_base 10 s)"

definition strtol0 :: "string \<Rightarrow> int" where
  "strtol0 s =
    (let s1 = dropWhile is_space s;
         s2 = (if take 1 s1 \<in> {''-'', ''+''} then drop 1 s1 else s1);
         n = int (read_prefixed s2)
     in clamp64 (if take 1 s1 = ''-'' then - n else n))"

section \<open>Results\<close>

datatype shell_code = SHELL_OK | SHELL_PERMISSION_DENIED

text \<open>Requests to the client of the display manager.  The discount, a double, is kept as the text it is printed as.\<close>

datatype display_request =
    RestoreBrightness
  | SetBrightness nat
  | OverrideBrightness nat
  | BoostBrightness nat
  | CancelBoostBrightness
  | DiscountBrightness string

record shell_result =
  shellCode :: shell_code
  shellText :: string
  shellDisplay :: "display_request list"

text \<open>
  What comes from elsewhere: the developer mode parameter, the answers of the display manager, \<open>StrToInt\<close> of \<open>c_utils\<close>
  (nothing when it fails), the text of a double that was read, and the two information texts of a dump.
\<close>

record shell_env =
  developerMode :: bool
  displayOk :: "display_request \<Rightarrow> bool"
  StrToInt :: "string \<Rightarrow> int option"
  readDouble :: "string \<Rightarrow> string"
  stateInfo :: "world \<Rightarrow> string"
  locksInfo :: "world \<Rightarrow> string"

definition shell_says :: "string \<Rightarrow> shell_result" where
  "shell_says s = \<lparr>shellCode = SHELL_OK, shellText = s, shellDisplay = []\<rparr>"

text \<open>Every command starts with this test.\<close>

definition Shell_IsDeveloperMode :: "shell_env \<Rightarrow> bool" where
  "Shell_IsDeveloperMode S = developerMode S"

definition developer_only :: "shell_env \<Rightarrow> shell_result C \<Rightarrow> shell_result C" where
  "developer_only S m =
    (if \<not> Shell_IsDeveloperMode S
     then State_Monad.return \<lparr>shellCode = SHELL_PERMISSION_DENIED, shellText = [], shellDisplay = []\<rparr>
     else m)"

definition shell_flag :: "string \<Rightarrow> bool" where
  "shell_flag s = (case s of [] \<Rightarrow> True | c # _ \<Rightarrow> c \<noteq> CHR ''0'')"

text \<open>A variable of 32 bits that keeps its 0 when the text is no number.\<close>

definition int_or_zero :: "shell_env \<Rightarrow> string \<Rightarrow> int" where
  "int_or_zero S s = (case StrToInt S s of None \<Rightarrow> 0 | Some n \<Rightarrow> n)"

definition answer_line :: "string \<Rightarrow> bool \<Rightarrow> string" where
  "answer_line s ok = s @ (if ok then [] else '' failed'') @ [CHR 0x0A]"

section \<open>Texts\<close>

text \<open>The commands between are left out of the build for users, \<open>POWER_SHELL_USER\<close>.\<close>

definition HELP_MSG :: "bool \<Rightarrow> string" where
  "HELP_MSG user = text_lines ([
     ''usage: power-shell'',
     ''command list:'',
     ''  setmode :    Set power mode. '',
     ''  wakeup  :    Wakeup system and turn screen on. '',
     ''  suspend :    Suspend system and turn screen off. ''] @ (if user then [] else [
     ''  lock    :    Query running lock lists by bundle app. '',
     ''  proxylock :    Proxy running lock by app uid. '',
     ''  hibernate :    hibernate the device. '',
     ''  display :    Update or Override display brightness. '',
     ''  dump    :    Dump power info. '']) @ [
     ''  timeout :    Override or Restore screen off time. '',
     ''  help    :    Show this help menu. ''])"

definition SETMODE_HELP_MSG :: string where
  "SETMODE_HELP_MSG = text_lines [
     ''usage: power-shell setmode [<options>]'',
     ''setmode <power mode: (value is as below)> '',
     ''  600  :  normal mode'',
     ''  601  :  power save mode'',
     ''  602  :  performance mode'',
     ''  603  :  extreme power save mode'']"

definition DISPLAY_HELP_MSG :: string where
  "DISPLAY_HELP_MSG = text_lines [
     ''usage: power-shell display [<options>] 100'',
     ''display <options are as below> '',
     ''  -h  :  display help'',
     ''  -r  :  retore brightness'',
     ''  -s  :  set brightness'',
     ''  -o  :  override brightness'',
     ''  -b  :  timing maximum brightness'',
     ''  -c  :  cancel the timing maximum brightness'',
     ''  -d  :  discount brightness'']"

definition PROXYLOCK_HELP_MSG :: string where
  "PROXYLOCK_HELP_MSG = text_lines [
     ''usage: power-shell proxylock [<options>] 20020041'',
     ''proxylock <options are as below> '',
     ''  -p  :  proxy runninglock'',
     ''  -u  :  unproxy runninglock'']"

definition HIBERNATE_HELP_MSG :: string where
  "HIBERNATE_HELP_MSG = text_lines [
     ''usage: power-shell hibernate [<options>]'',
     ''  hibernate <options are as below> '',
     ''  the default option is false'',
     ''  true  :  clear memory before hibernate'',
     ''  false :  skip clearing memory before hibernate'']"

definition TIME_OUT_HELP_MSG :: string where
  "TIME_OUT_HELP_MSG = text_lines [
     ''usage: power-shell timeout [<options>] 1000'',
     ''timeout <options are as below> '',
     ''  -o  :  override screen off time'',
     ''  -r  :  restore screen off time'']"

section \<open>Option tables\<close>

definition SET_MODE_OPTIONS :: "(string \<times> bool \<times> char) list" where
  "SET_MODE_OPTIONS = [(''help'', False, CHR ''h'')]"

definition DISPLAY_OPTIONS :: "(string \<times> bool \<times> char) list" where
  "DISPLAY_OPTIONS = [(''help'', False, CHR ''h''),
     (''restore'', False, CHR ''r''),
     (''set'', True, CHR ''s''),
     (''override'', True, CHR ''o''),
     (''boost'', True, CHR ''b''),
     (''cancel'', False, CHR ''c''),
     (''discount'', True, CHR ''d'')]"

definition PROXYLOCK_OPTIONS :: "(string \<times> bool \<times> char) list" where
  "PROXYLOCK_OPTIONS = [(''help'', False, CHR ''h''),
     (''proxy'', True, CHR ''p''),
     (''uproxy'', True, CHR ''u'')]"

definition HIBERNATE_OPTIONS :: "(string \<times> bool \<times> char) list" where
  "HIBERNATE_OPTIONS = [(''help'', False, CHR ''h'')]"

definition TIME_OUT_OPTIONS :: "(string \<times> bool \<times> char) list" where
  "TIME_OUT_OPTIONS = [(''help'', False, CHR ''h''),
     (''restore'', False, CHR ''r''),
     (''override'', True, CHR ''o'')]"

definition WAKE_UP_TYPES :: "(string \<times> bool \<times> char) list" where
  "WAKE_UP_TYPES = [(''pre_bright'', False, CHR ''a''),
     (''pre_bright_auth_success'', False, CHR ''b''),
     (''pre_bright_auth_fail_screen_on'', False, CHR ''c''),
     (''pre_bright_auth_fail_screen_off'', False, CHR ''d''),
     (''default'', False, CHR ''e'')]"


section \<open>Commands\<close>

text \<open>A command sees the whole command line, its own name first, and its arguments.\<close>

type_synonym shell_command = "string list \<Rightarrow> string list \<Rightarrow> shell_result C"

definition RunAsHelpCommand :: "shell_env \<Rightarrow> bool \<Rightarrow> shell_command" where
  "RunAsHelpCommand S user argv argList = developer_only S (State_Monad.return (shell_says (HELP_MSG user)))"

definition RunAsSetModeCommand :: "env \<Rightarrow> cenv \<Rightarrow> shell_env \<Rightarrow> shell_command" where
  "RunAsSetModeCommand E K S argv argList = developer_only S (
     if fst (getopt_long [(CHR ''h'', False)] SET_MODE_OPTIONS argv) = Some (CHR ''h'')
     then State_Monad.return (shell_says SETMODE_HELP_MSG)
     else case argList of
       [] \<Rightarrow> State_Monad.return (shell_says (text_lines [''Error! please input your mode value. ''] @ SETMODE_HELP_MSG))
     | arg # _ \<Rightarrow> do {
         let mode = nat (strtol0 arg mod 2 ^ 32);
         _ \<leftarrow> Client_SetDeviceMode E K mode;
         current \<leftarrow> Client_GetDeviceMode K;
         State_Monad.return (shell_says (text_lines [''Set Mode: '' @ arg,
           if current = mode then ''Set Mode Success!''
           else ''Set Mode Failed, current mode is: '' @ to_string (int current)])) })"

definition wakeup_detail :: "char option \<Rightarrow> string" where
  "wakeup_detail option =
    (if option = Some (CHR ''a'') then ''pre_bright''
     else if option = Some (CHR ''b'') then ''pre_bright_auth_success''
     else if option = Some (CHR ''c'') then ''pre_bright_auth_fail_screen_on''
     else if option = Some (CHR ''d'') then ''pre_bright_auth_fail_screen_off''
     else ''shell'')"

definition RunAsWakeupCommand :: "env \<Rightarrow> cenv \<Rightarrow> shell_env \<Rightarrow> shell_command" where
  "RunAsWakeupCommand E K S argv argList = developer_only S (do {
     let opt = fst (getopt_long (map (\<lambda>c. (c, False)) ''abcde'') WAKE_UP_TYPES argv);
     let detail = wakeup_detail opt;
     let called = (if opt = Some (CHR ''e'') then [''default is called'']
       else if detail \<noteq> ''shell'' then [detail @ '' is called''] else []);
     _ \<leftarrow> Client_WakeupDevice E K WAKEUP_DEVICE_APPLICATION detail;
     State_Monad.return (shell_says (text_lines (called @ [''WakeupDevice is called'']))) })"

definition RunAsSuspendCommand :: "env \<Rightarrow> cenv \<Rightarrow> shell_env \<Rightarrow> shell_command" where
  "RunAsSuspendCommand E K S argv argList = developer_only S (do {
     _ \<leftarrow> Client_SuspendDevice E K SUSPEND_DEVICE_REASON_POWER_KEY False;
     State_Monad.return (shell_says (text_lines [''SuspendDevice is called''])) })"

definition RunAsHibernateCommand :: "env \<Rightarrow> cenv \<Rightarrow> shell_env \<Rightarrow> shell_command" where
  "RunAsHibernateCommand E K S argv argList = developer_only S (
     if fst (getopt_long [(CHR ''h'', False)] HIBERNATE_OPTIONS argv) = Some (CHR ''h'')
     then State_Monad.return (shell_says HIBERNATE_HELP_MSG)
     else if argList \<noteq> [] \<and> hd argList \<noteq> ''false'' \<and> hd argList \<noteq> ''true''
     then State_Monad.return (shell_says (text_lines [''Error! please input your option value. ''] @ HIBERNATE_HELP_MSG))
     else do {
       let clearMemory = (argList \<noteq> [] \<and> hd argList = ''true'');
       _ \<leftarrow> Client_Hibernate E K clearMemory [];
       State_Monad.return (shell_says (text_lines
         [if clearMemory then ''Hibernate true is called'' else ''Hibernate false is called''])) })"

fun GetBundleRunningLockTypeString :: "RunningLockType \<Rightarrow> string" where
  "GetBundleRunningLockTypeString RUNNINGLOCK_SCREEN = ''SCREEN''"
| "GetBundleRunningLockTypeString RUNNINGLOCK_BACKGROUND = ''BACKGROUND''"
| "GetBundleRunningLockTypeString RUNNINGLOCK_PROXIMITY_SCREEN_CONTROL = ''PROXIMITY_SCREEN_CONTROL''"
| "GetBundleRunningLockTypeString RUNNINGLOCK_BACKGROUND_PHONE = ''BACKGROUND_PHONE''"
| "GetBundleRunningLockTypeString RUNNINGLOCK_BACKGROUND_NOTIFICATION = ''BACKGROUND_NOTIFICATION''"
| "GetBundleRunningLockTypeString RUNNINGLOCK_BACKGROUND_AUDIO = ''BACKGROUND_AUDIO''"
| "GetBundleRunningLockTypeString RUNNINGLOCK_BACKGROUND_SPORT = ''BACKGROUND_SPORT''"
| "GetBundleRunningLockTypeString RUNNINGLOCK_BACKGROUND_NAVIGATION = ''BACKGROUND_NAVIGATION''"
| "GetBundleRunningLockTypeString RUNNINGLOCK_BACKGROUND_TASK = ''BACKGROUND_TASK''"
| "GetBundleRunningLockTypeString RUNNINGLOCK_BUTT = ''BUTT''"
| "GetBundleRunningLockTypeString _ = ''UNKNOWN''"

definition lock_line :: "int \<Rightarrow> RunningLockInfo \<Rightarrow> string" where
  "lock_line counter info = to_string counter @ ''. bundleName='' @ infoBundleName info @ '' name='' @ infoName info @
     '' type='' @ GetBundleRunningLockTypeString (infoType info) @ '' pid='' @ to_string (infoPid info) @
     '' uid='' @ to_string (infoUid info) @ ''.''"

primrec lock_lines :: "int \<Rightarrow> (string \<times> RunningLockInfo) list \<Rightarrow> string list" where
  "lock_lines counter [] = []"
| "lock_lines counter (it # rest) = lock_line (counter + 1) (snd it) # lock_lines (counter + 1) rest"

definition RunAsQueryLockCommand :: "env \<Rightarrow> cenv \<Rightarrow> shell_env \<Rightarrow> shell_command" where
  "RunAsQueryLockCommand E K S argv argList = developer_only S (do {
     r \<leftarrow> Client_QueryRunningLockLists E K (2 ^ 64 - 1);
     State_Monad.return (shell_says (text_lines (
       if \<not> fst r then [''failed.'']
       else (let locks = (case snd r of None \<Rightarrow> [] | Some ls \<Rightarrow> ls) in
         [''The locking application information is as follows:'',
          ''The nums of holding lock by bundle app is '' @ to_string (int (length locks)) @ ''.''] @ lock_lines 0 locks)))) })"

definition RunAsProxyLockCommand :: "env \<Rightarrow> cenv \<Rightarrow> shell_env \<Rightarrow> shell_command" where
  "RunAsProxyLockCommand E K S argv argList = developer_only S (
     let (opt, optarg) = getopt_long [(CHR ''h'', False), (CHR ''p'', True), (CHR ''u'', True)] PROXYLOCK_OPTIONS argv in
     if opt = Some (CHR ''h'') then State_Monad.return (shell_says PROXYLOCK_HELP_MSG)
     else case optarg of
       None \<Rightarrow> State_Monad.return (shell_says (text_lines [''Error! please input your app uid.''] @ PROXYLOCK_HELP_MSG))
     | Some text \<Rightarrow>
         let uid = int_or_zero S text in
         if opt = Some (CHR ''p'') then do {
           ok \<leftarrow> Client_ProxyRunningLock E K True (2 ^ 31 - 1) uid;
           State_Monad.return (shell_says (answer_line (''proxy runninglock for'' @ to_string uid) ok)) }
         else if opt = Some (CHR ''u'') then do {
           ok \<leftarrow> Client_ProxyRunningLock E K False (2 ^ 31 - 1) uid;
           State_Monad.return (shell_says (answer_line (''unproxy runninglock for'' @ to_string uid) ok)) }
         else State_Monad.return (shell_says []))"

definition RunAsDumpCommand :: "env \<Rightarrow> cenv \<Rightarrow> shell_env \<Rightarrow> shell_command" where
  "RunAsDumpCommand E K S argv argList = developer_only S (do {
     ret \<leftarrow> Client_Dump E K (stateInfo S) (locksInfo S) argList;
     State_Monad.return (shell_says (text_lines [''Power Dump result: ''] @ ret)) })"

definition RunAsForceTimeOutCommand :: "env \<Rightarrow> cenv \<Rightarrow> shell_env \<Rightarrow> shell_command" where
  "RunAsForceTimeOutCommand E K S argv argList = developer_only S (case argList of
       [] \<Rightarrow> State_Monad.return (shell_says (text_lines [''too few arguments '']))
     | arg # _ \<Rightarrow> do {
         _ \<leftarrow> Client_SetForceTimingOut E K (shell_flag arg);
         State_Monad.return (shell_says []) })"

definition RunAsTimeOutScreenLockCommand :: "env \<Rightarrow> cenv \<Rightarrow> shell_env \<Rightarrow> shell_command" where
  "RunAsTimeOutScreenLockCommand E K S argv argList = developer_only S (case argList of
       a # b # rest \<Rightarrow> do {
         _ \<leftarrow> (if rest = [] \<and> length a > 1
              then Client_LockScreenAfterTimingOutWithAppid E K (int_or_zero S a) (shell_flag b)
              else Client_LockScreenAfterTimingOut E K (shell_flag a) (shell_flag b)
                (case rest of [] \<Rightarrow> True | c # _ \<Rightarrow> shell_flag c));
         State_Monad.return (shell_says []) }
     | _ \<Rightarrow> State_Monad.return (shell_says (text_lines [''too few arguments ''])))"

definition RunAsTimeOutCommand :: "env \<Rightarrow> cenv \<Rightarrow> shell_env \<Rightarrow> shell_command" where
  "RunAsTimeOutCommand E K S argv argList = developer_only S (
     let (opt, optarg) = getopt_long [(CHR ''h'', False), (CHR ''r'', False), (CHR ''o'', True)] TIME_OUT_OPTIONS argv in
     if opt = Some (CHR ''h'') then State_Monad.return (shell_says TIME_OUT_HELP_MSG)
     else if opt = Some (CHR ''r'') then do {
       ret \<leftarrow> Client_RestoreScreenOffTime E K;
       State_Monad.return (shell_says (answer_line ''Restore screen off time'' (ret = ERR_OK))) }
     else case optarg of
       None \<Rightarrow> State_Monad.return (shell_says
         (text_lines [''Error! please input your screen off time.''] @ TIME_OUT_HELP_MSG))
     | Some text \<Rightarrow>
         if opt = Some (CHR ''o'') then do {
           let timeout = int_or_zero S text;
           ret \<leftarrow> Client_OverrideScreenOffTime E K timeout;
           State_Monad.return (shell_says (answer_line (''Override screen off time to '' @ to_string timeout) (ret = ERR_OK))) }
         else State_Monad.return (shell_says []))"


section \<open>Brightness\<close>

text \<open>A request to the display manager and the line that reports its answer.\<close>

definition display_says :: "shell_env \<Rightarrow> display_request \<Rightarrow> string \<Rightarrow> shell_result" where
  "display_says S r s = \<lparr>shellCode = SHELL_OK, shellText = answer_line s (displayOk S r), shellDisplay = [r]\<rparr>"

definition DisplayOptargEmpty :: "string option \<Rightarrow> (string \<Rightarrow> shell_result) \<Rightarrow> shell_result C" where
  "DisplayOptargEmpty optarg f = State_Monad.return (case optarg of
       None \<Rightarrow> shell_says (text_lines [''Error! please input your brightness value.''] @ DISPLAY_HELP_MSG)
     | Some text \<Rightarrow> f text)"

definition uint32_of :: "int \<Rightarrow> nat" where
  "uint32_of n = nat (n mod 2 ^ 32)"

definition RunAsDisplayCommandHelp :: "shell_env \<Rightarrow> string option \<Rightarrow> shell_result C" where
  "RunAsDisplayCommandHelp S optarg = developer_only S (State_Monad.return (shell_says DISPLAY_HELP_MSG))"

definition RunAsDisplayCommandOverride :: "shell_env \<Rightarrow> string option \<Rightarrow> shell_result C" where
  "RunAsDisplayCommandOverride S optarg = developer_only S (DisplayOptargEmpty optarg (\<lambda>text.
     let n = int_or_zero S text
     in display_says S (OverrideBrightness (uint32_of n)) (''Override brightness to '' @ to_string n)))"

definition RunAsDisplayCommandRestore :: "shell_env \<Rightarrow> string option \<Rightarrow> shell_result C" where
  "RunAsDisplayCommandRestore S optarg =
     developer_only S (State_Monad.return (display_says S RestoreBrightness ''Restore brightness''))"

definition RunAsDisplayCommandBoost :: "shell_env \<Rightarrow> string option \<Rightarrow> shell_result C" where
  "RunAsDisplayCommandBoost S optarg = developer_only S (DisplayOptargEmpty optarg (\<lambda>text.
     let n = int_or_zero S text
     in display_says S (BoostBrightness (uint32_of n)) (''Boost brightness timeout '' @ to_string n @ ''ms'')))"

definition RunAsDisplayCommandCancelBoost :: "shell_env \<Rightarrow> string option \<Rightarrow> shell_result C" where
  "RunAsDisplayCommandCancelBoost S optarg =
     developer_only S (State_Monad.return (display_says S CancelBoostBrightness ''Cancel boost brightness''))"

definition RunAsDisplayCommandSetValue :: "shell_env \<Rightarrow> string option \<Rightarrow> shell_result C" where
  "RunAsDisplayCommandSetValue S optarg = developer_only S (DisplayOptargEmpty optarg (\<lambda>text.
     let n = int_or_zero S text
     in display_says S (SetBrightness (uint32_of n)) (''Set brightness to '' @ to_string n)))"

definition RunAsDisplayCommandDiscount :: "shell_env \<Rightarrow> string option \<Rightarrow> shell_result C" where
  "RunAsDisplayCommandDiscount S optarg = developer_only S (DisplayOptargEmpty optarg (\<lambda>text.
     let discount = readDouble S text
     in display_says S (DiscountBrightness discount) (''Set brightness discount to '' @ discount)))"

definition commandDisplay :: "shell_env \<Rightarrow> (char \<times> (string option \<Rightarrow> shell_result C)) list" where
  "commandDisplay S = [
     (CHR ''h'', RunAsDisplayCommandHelp S),
     (CHR ''r'', RunAsDisplayCommandRestore S),
     (CHR ''s'', RunAsDisplayCommandSetValue S),
     (CHR ''o'', RunAsDisplayCommandOverride S),
     (CHR ''b'', RunAsDisplayCommandBoost S),
     (CHR ''c'', RunAsDisplayCommandCancelBoost S),
     (CHR ''d'', RunAsDisplayCommandDiscount S)]"

definition RunAsDisplayCommand :: "shell_env \<Rightarrow> shell_command" where
  "RunAsDisplayCommand S argv argList = developer_only S (
     let (opt, optarg) = getopt_long [(CHR ''h'', False), (CHR ''r'', False), (CHR ''c'', False), (CHR ''s'', True),
           (CHR ''o'', True), (CHR ''b'', True), (CHR ''d'', True)] DISPLAY_OPTIONS argv
     in case (case opt of None \<Rightarrow> None | Some c \<Rightarrow> map_of (commandDisplay S) c) of
         Some run \<Rightarrow> run optarg
       | None \<Rightarrow> State_Monad.return (shell_says DISPLAY_HELP_MSG))"

definition CreateCommandMap :: "env \<Rightarrow> cenv \<Rightarrow> shell_env \<Rightarrow> bool \<Rightarrow> (string \<times> shell_command) list" where
  "CreateCommandMap E K S user = [
     (''help'', RunAsHelpCommand S user),
     (''setmode'', RunAsSetModeCommand E K S),
     (''wakeup'', RunAsWakeupCommand E K S),
     (''suspend'', RunAsSuspendCommand E K S)] @
     (if user then [] else [
     (''hibernate'', RunAsHibernateCommand E K S),
     (''lock'', RunAsQueryLockCommand E K S),
     (''proxylock'', RunAsProxyLockCommand E K S),
     (''forcetimeout'', RunAsForceTimeOutCommand E K S),
     (''timeoutscreenlock'', RunAsTimeOutScreenLockCommand E K S),
     (''display'', RunAsDisplayCommand S),
     (''dump'', RunAsDumpCommand E K S)]) @ [
     (''timeout'', RunAsTimeOutCommand E K S)]"


end
