(* ===== verification/Shell_Laws.thy ===== *)
theory Shell_Laws
  imports Power_Shell Client_Laws
begin

text \<open>
  What the debugging shell does to the device: nothing without developer mode, and the effects of numbers that cannot
  be read.
\<close>

lemma developer_only_refused:
  "\<not> developerMode S \<Longrightarrow>
    developer_only S m = State_Monad.return \<lparr>shellCode = SHELL_PERMISSION_DENIED, shellText = [], shellDisplay = []\<rparr>"
  by (simp add: developer_only_def Shell_IsDeveloperMode_def)

lemmas command_defs = RunAsHelpCommand_def RunAsSetModeCommand_def RunAsWakeupCommand_def RunAsSuspendCommand_def
  RunAsHibernateCommand_def RunAsQueryLockCommand_def RunAsProxyLockCommand_def RunAsForceTimeOutCommand_def
  RunAsTimeOutScreenLockCommand_def RunAsDisplayCommand_def RunAsDumpCommand_def RunAsTimeOutCommand_def

lemma command_refused:
  assumes "(name, run) \<in> set (CreateCommandMap E K S user)" and "\<not> developerMode S"
  shows "run argv argList = State_Monad.return \<lparr>shellCode = SHELL_PERMISSION_DENIED, shellText = [], shellDisplay = []\<rparr>"
proof -
  have "\<forall>p \<in> set (CreateCommandMap E K S user). snd p argv argList =
      State_Monad.return \<lparr>shellCode = SHELL_PERMISSION_DENIED, shellText = [], shellDisplay = []\<rparr>"
    unfolding CreateCommandMap_def command_defs developer_only_refused [OF assms(2)] by simp
  then show ?thesis
    using assms(1) by fastforce
qed

text \<open>
  On a device that is not in developer mode no command of the debugging shell does anything: whichever the build, the command
  and its arguments, service, client and display stay as they are, and the command says that it was denied.
\<close>

lemma shell_needs_developer_mode:
  assumes "(name, run) \<in> set (CreateCommandMap E K S user)" and "\<not> developerMode S"
  shows "exec (run argv argList) w = w \<and>
    shellCode (Prelude.result (run argv argList) w) = SHELL_PERMISSION_DENIED \<and>
    shellDisplay (Prelude.result (run argv argList) w) = []"
  by (simp add: command_refused [OF assms])

text \<open>
  A number that cannot be read is taken for 0.  \<open>proxylock -p\<close> with any text that is no number proxies the running
  locks of user 0, and \<open>timeout -o\<close> overrides the screen-off time with 0, without an error message.
\<close>

lemma unreadable_number_is_zero:
  assumes "developerMode S" and "StrToInt S text = None"
  shows "exec (RunAsProxyLockCommand E K S [''proxylock'', ''-p'', text] args) w =
      exec (Client_ProxyRunningLock E K True (2 ^ 31 - 1) 0) w \<and>
    exec (RunAsTimeOutCommand E K S [''timeout'', ''-o'', text] args) w = exec (Client_OverrideScreenOffTime E K 0) w"
  using assms
  by (simp add: RunAsProxyLockCommand_def RunAsTimeOutCommand_def developer_only_def Shell_IsDeveloperMode_def
      short_option_def with_argument_def int_or_zero_def)

text \<open>A mode that was refused is reported as set when the device was in it before.\<close>

lemma setmode_reports_current:
  assumes "developerMode S" and "getopt_long [(CHR ''h'', False)] SET_MODE_OPTIONS argv = (None, None)"
  shows "shellText (Prelude.result (RunAsSetModeCommand E K S argv (arg # args)) w) =
    text_lines [''Set Mode: '' @ arg,
      (let mode = nat (strtol0 arg mod 2 ^ 32);
           current = Prelude.result (Client_GetDeviceMode K) (exec (Client_SetDeviceMode E K mode) w)
       in if current = mode then ''Set Mode Success!'' else ''Set Mode Failed, current mode is: '' @ to_string (int current))]"
  using assms
  by (simp add: RunAsSetModeCommand_def developer_only_def Shell_IsDeveloperMode_def shell_says_def Let_def)

section \<open>Witnesses\<close>

definition sample_shell :: "bool \<Rightarrow> shell_env" where
  "sample_shell developer = \<lparr>developerMode = developer, displayOk = (\<lambda>r. True), StrToInt = (\<lambda>s. None),
     readDouble = (\<lambda>s. s), stateInfo = (\<lambda>w. []), locksInfo = (\<lambda>w. [])\<rparr>"

theorem shell_needs_developer_mode_witness:
  "exec (RunAsSuspendCommand sample_env sample_cenv (sample_shell False) [''suspend''] []) sample_cworld = sample_cworld"
  using shell_needs_developer_mode [of "''suspend''" "RunAsSuspendCommand sample_env sample_cenv (sample_shell False)"
      sample_env sample_cenv "sample_shell False" False "[''suspend'']" "[]" sample_cworld]
  by (simp add: CreateCommandMap_def sample_shell_def)

theorem unreadable_number_is_zero_witness:
  "exec (RunAsProxyLockCommand sample_env sample_cenv (sample_shell True) [''proxylock'', ''-p'', ''abc''] [''-p'', ''abc'']) sample_cworld =
     exec (Client_ProxyRunningLock sample_env sample_cenv True (2 ^ 31 - 1) 0) sample_cworld"
  using unreadable_number_is_zero [of "sample_shell True" "''abc''" sample_env sample_cenv "[''-p'', ''abc'']" sample_cworld]
  by (simp add: sample_shell_def)

end
