(* ===== verification/Suspend_Hub.thy ===== *)
theory Suspend_Hub
  imports Prelude
begin

text \<open>
  The default device action's own suspend: \<open>actions/default/suspend/suspend_controller.cpp\<close> and
  \<open>running_lock_hub.cpp\<close>.  The hub counts acquisitions per name and tells the controller, whose
  counter holds back the loop that writes the suspend state to the kernel.  The files of the kernel answer as the
  environment says.  The loop runs in a detached thread, which is a program counter here, so that locks may be
  taken and given back between any two of its steps.
\<close>

section \<open>State and environment\<close>

datatype hub_call =
    OpenFile string
  | WriteFile string string
  | ReadFile string
  | RunCallback nat

text \<open>What opening and writing return, and what reading the wakeup count gives (nothing when it fails).\<close>

record hub_env =
  fileOk :: "hub_call \<Rightarrow> hub_call list \<Rightarrow> bool"
  fileText :: "hub_call list \<Rightarrow> string option"

text \<open>Where the thread of \<open>AutoSuspendLoop\<close> is: sleeping, waiting for the counter, about to write the count.\<close>

datatype loop_pc = AtSleep | AtWait string | AtWrite string

record hub_world =
  suspendBlockCounter :: "32 word"
  autoStarted :: bool
  daemon :: "bool option"  \<comment> \<open>\<open>daemon_\<close>: no thread object yet, or whether it can be joined\<close>
  wakeupCountFd :: bool  \<comment> \<open>the descriptor is open\<close>
  suspendStateFd :: "bool option"  \<comment> \<open>the static descriptor of \<open>SuspendEnter\<close>, before the first call or after\<close>
  onSuspendCb :: "nat option"
  onWakeupCb :: "nat option"
  hubFds :: "(bool \<times> bool) option"  \<comment> \<open>\<open>lockFd_\<close> and \<open>unlockFd_\<close>, after \<open>InitFd\<close> has run\<close>
  runningLockMap :: "string \<Rightarrow> 32 word option"
  loops :: "loop_pc list"
  startPending :: nat  \<comment> \<open>calls of \<open>Start\<close> that have detached their thread and not yet set the flag\<close>
  hubLog :: "hub_call list"

type_synonym 'a H = "(hub_world, 'a) state"

definition hub_log :: "hub_call \<Rightarrow> unit H" where
  "hub_log c = modify (\<lambda>w. w\<lparr>hubLog := c # hubLog w\<rparr>)"

definition hub_ask :: "hub_env \<Rightarrow> hub_call \<Rightarrow> bool H" where
  "hub_ask E c = do { log \<leftarrow> gets hubLog; hub_log c; State_Monad.return (fileOk E c log) }"

section \<open>\<open>AutoSuspend\<close>\<close>

definition SUSPEND_STATE :: string where "SUSPEND_STATE = ''mem''"
definition SUSPEND_STATE_PATH :: string where "SUSPEND_STATE_PATH = ''/sys/power/state''"
definition WAKEUP_COUNT_PATH :: string where "WAKEUP_COUNT_PATH = ''/sys/power/wakeup_count''"

definition SuspendEnter :: "hub_env \<Rightarrow> bool H" where
  "SuspendEnter E = do {
     fd \<leftarrow> gets suspendStateFd;
     ok \<leftarrow> (case fd of
         None \<Rightarrow> do {
           ok \<leftarrow> hub_ask E (OpenFile SUSPEND_STATE_PATH);
           modify (\<lambda>w. w\<lparr>suspendStateFd := Some ok\<rparr>);
           State_Monad.return ok }
       | Some ok \<Rightarrow> State_Monad.return ok);
     if \<not> ok then State_Monad.return False
     else hub_ask E (WriteFile SUSPEND_STATE_PATH SUSPEND_STATE) }"

definition WaitWakeupCount :: "hub_env \<Rightarrow> string H" where
  "WaitWakeupCount E = do {
     fd \<leftarrow> gets wakeupCountFd;
     whenM (\<not> fd) (do {
       ok \<leftarrow> hub_ask E (OpenFile WAKEUP_COUNT_PATH);
       modify (\<lambda>w. w\<lparr>wakeupCountFd := ok\<rparr>) });
     fd \<leftarrow> gets wakeupCountFd;
     if \<not> fd then State_Monad.return ''''
     else do {
       log \<leftarrow> gets hubLog;
       hub_log (ReadFile WAKEUP_COUNT_PATH);
       State_Monad.return (case fileText E log of None \<Rightarrow> '''' | Some s \<Rightarrow> s) } }"

definition WriteWakeupCount :: "hub_env \<Rightarrow> string \<Rightarrow> bool H" where
  "WriteWakeupCount E wakeupCount = do {
     fd \<leftarrow> gets wakeupCountFd;
     if \<not> fd then State_Monad.return False
     else hub_ask E (WriteFile WAKEUP_COUNT_PATH wakeupCount) }"

definition run_callback :: "nat option \<Rightarrow> unit H" where
  "run_callback c = (case c of None \<Rightarrow> skip | Some k \<Rightarrow> hub_log (RunCallback k))"

text \<open>The counter of \<open>SuspendController\<close> that the loop waits for.\<close>

definition SuspendConditionSatisfied :: "hub_world \<Rightarrow> bool" where
  "SuspendConditionSatisfied w \<longleftrightarrow> suspendBlockCounter w = 0"

text \<open>
  One step of the loop from where the thread is; \<open>None\<close> when it has ended.  \<open>WaitingSuspendCondition\<close> lets the thread
  go on only when the condition holds; until then its step leaves everything as it is.
\<close>

fun AutoSuspendLoop :: "hub_env \<Rightarrow> loop_pc \<Rightarrow> loop_pc option H" where
  "AutoSuspendLoop E AtSleep = do {
     started \<leftarrow> gets autoStarted;
     if \<not> started then do {
       modify (\<lambda>w. w\<lparr>autoStarted := False\<rparr>);
       State_Monad.return None }
     else do {
       wakeupCount \<leftarrow> WaitWakeupCount E;
       State_Monad.return (Some (if wakeupCount = [] then AtSleep else AtWait wakeupCount)) } }"
| "AutoSuspendLoop E (AtWait wakeupCount) = do {
     satisfied \<leftarrow> gets SuspendConditionSatisfied;
     State_Monad.return (Some (if satisfied then AtWrite wakeupCount else AtWait wakeupCount)) }"
| "AutoSuspendLoop E (AtWrite wakeupCount) = do {
     written \<leftarrow> WriteWakeupCount E wakeupCount;
     if \<not> written then State_Monad.return (Some AtSleep)
     else do {
       onSuspend \<leftarrow> gets onSuspendCb;
       run_callback onSuspend;
       _ \<leftarrow> SuspendEnter E;
       onWakeup \<leftarrow> gets onWakeupCb;
       run_callback onWakeup;
       modify (\<lambda>w. w\<lparr>autoStarted := False\<rparr>);
       State_Monad.return None } }"

text \<open>
  \<open>Start\<close> up to the point where the new thread is detached, and the assignment after it, which the new
  thread may overtake.
\<close>

definition Start_begin :: "nat option \<Rightarrow> nat option \<Rightarrow> unit H" where
  "Start_begin onSuspend onWakeup = do {
     modify (\<lambda>w. w\<lparr>onSuspendCb := onSuspend, onWakeupCb := onWakeup\<rparr>);
     started \<leftarrow> gets autoStarted;
     whenM (\<not> started)
       (modify (\<lambda>w. w\<lparr>daemon := Some False, loops := loops w @ [AtSleep], startPending := startPending w + 1\<rparr>)) }"

definition Start_end :: "unit H" where
  "Start_end = modify (\<lambda>w. if startPending w = 0 then w
     else w\<lparr>autoStarted := True, startPending := startPending w - 1\<rparr>)"

text \<open>\<open>Stop\<close> returns whether it returns: joining a thread that cannot be joined throws, which ends the process.\<close>

definition Stop :: "bool H" where
  "Stop = do {
     started \<leftarrow> gets autoStarted;
     d \<leftarrow> gets daemon;
     case d of
       Some joinable \<Rightarrow>
         if started then do {
           modify (\<lambda>w. w\<lparr>autoStarted := False\<rparr>);
           State_Monad.return joinable }
         else State_Monad.return True
     | None \<Rightarrow> State_Monad.return True }"

section \<open>\<open>SuspendController\<close>\<close>

definition HubSuspend :: "hub_env \<Rightarrow> nat option \<Rightarrow> nat option \<Rightarrow> bool \<Rightarrow> unit H" where
  "HubSuspend E onSuspend onWakeup force =
     (if force then do {
        run_callback onSuspend;
        _ \<leftarrow> SuspendEnter E;
        run_callback onWakeup }
      else Start_begin onSuspend onWakeup)"

definition HubWakeup :: "bool H" where
  "HubWakeup = Stop"

definition IncSuspendBlockCounter :: "hub_world \<Rightarrow> hub_world" where
  "IncSuspendBlockCounter w = w\<lparr>suspendBlockCounter := suspendBlockCounter w + 1\<rparr>"

definition DecSuspendBlockCounter :: "hub_world \<Rightarrow> hub_world" where
  "DecSuspendBlockCounter w = w\<lparr>suspendBlockCounter := suspendBlockCounter w - 1\<rparr>"

section \<open>\<open>RunningLockHub\<close>\<close>

definition LOCK_PATH :: string where "LOCK_PATH = ''/sys/power/wake_lock''"
definition UNLOCK_PATH :: string where "UNLOCK_PATH = ''/sys/power/wake_unlock''"

definition InitFd :: "hub_env \<Rightarrow> bool H" where
  "InitFd E = do {
     fds \<leftarrow> gets hubFds;
     case fds of
       Some (l, u) \<Rightarrow> State_Monad.return (l \<and> u)
     | None \<Rightarrow> do {
         l \<leftarrow> hub_ask E (OpenFile LOCK_PATH);
         u \<leftarrow> hub_ask E (OpenFile UNLOCK_PATH);
         modify (\<lambda>w. w\<lparr>hubFds := Some (l, u)\<rparr>);
         State_Monad.return (l \<and> u) } }"

definition SaveLockFile :: "hub_env \<Rightarrow> string \<Rightarrow> bool \<Rightarrow> bool H" where
  "SaveLockFile E name isAcquire = do {
     ok \<leftarrow> InitFd E;
     if ok then hub_ask E (WriteFile (if isAcquire then LOCK_PATH else UNLOCK_PATH) name)
     else State_Monad.return False }"

definition NotifySuspendCounter :: "bool \<Rightarrow> unit H" where
  "NotifySuspendCounter isAcquire = modify (if isAcquire then IncSuspendBlockCounter else DecSuspendBlockCounter)"

definition map_acquire :: "string \<Rightarrow> (string \<Rightarrow> 32 word option) \<Rightarrow> string \<Rightarrow> 32 word option" where
  "map_acquire name m = m(name \<mapsto> (case m name of None \<Rightarrow> 1 | Some n \<Rightarrow> n + 1))"

definition map_release :: "string \<Rightarrow> (string \<Rightarrow> 32 word option) \<Rightarrow> string \<Rightarrow> 32 word option" where
  "map_release name m = (case m name of
       None \<Rightarrow> m
     | Some n \<Rightarrow> if n - 1 = 0 then m(name := None) else m(name \<mapsto> n - 1))"

definition Hub_Acquire :: "hub_env \<Rightarrow> string \<Rightarrow> unit H" where
  "Hub_Acquire E name = do {
     _ \<leftarrow> SaveLockFile E name True;
     modify (\<lambda>w. w\<lparr>runningLockMap := map_acquire name (runningLockMap w)\<rparr>);
     NotifySuspendCounter True }"

definition Hub_Release :: "hub_env \<Rightarrow> string \<Rightarrow> unit H" where
  "Hub_Release E name = do {
     ok \<leftarrow> InitFd E;
     whenM ok (do { _ \<leftarrow> hub_ask E (WriteFile UNLOCK_PATH name); skip });
     m \<leftarrow> gets runningLockMap;
     if m name = None then skip
     else do {
       modify (\<lambda>w. w\<lparr>runningLockMap := map_release name (runningLockMap w)\<rparr>);
       NotifySuspendCounter False } }"

end
