(* ===== verification/Hub_Laws.thy ===== *)
theory Hub_Laws
  imports Suspend_Hub
begin

text \<open>
  What the hub and the suspend loop guarantee under every interleaving: the counter that holds the loop back is the number
  of acquisitions in force, \<open>Wakeup\<close> cannot end a suspend that was started, and a start that is overtaken by its
  own thread is never made good.
\<close>

section \<open>The counter\<close>

definition total :: "(string \<Rightarrow> 32 word option) \<Rightarrow> nat" where
  "total m = (\<Sum>k \<in> dom m. unat (the (m k)))"

definition counted_map :: "(string \<Rightarrow> 32 word option) \<Rightarrow> bool" where
  "counted_map m \<longleftrightarrow> finite (dom m) \<and> (\<forall>k. m k \<noteq> Some 0)"

lemma total_update:
  assumes "finite (dom m)"
  shows "total (m(k \<mapsto> v)) = unat v + (\<Sum>j \<in> dom m - {k}. unat (the (m j)))"
proof -
  have "(\<Sum>j \<in> dom m - {k}. unat (the ((m(k \<mapsto> v)) j))) = (\<Sum>j \<in> dom m - {k}. unat (the (m j)))"
    by (rule sum.cong) auto
  then show ?thesis
    using assms by (simp add: total_def sum.insert_remove)
qed

lemma total_remove:
  assumes "finite (dom m)"
  shows "total m = (case m k of None \<Rightarrow> 0 | Some n \<Rightarrow> unat n) + (\<Sum>j \<in> dom m - {k}. unat (the (m j)))"
proof (cases "m k")
  case None
  then have "dom m - {k} = dom m"
    by auto
  then show ?thesis
    using None by (simp add: total_def)
next
  case (Some n)
  then show ?thesis
    using assms sum.remove [of "dom m" k "\<lambda>j. unat (the (m j))"] by (simp add: total_def domI)
qed

lemma total_delete:
  assumes "finite (dom m)"
  shows "total (m(k := None)) = (\<Sum>j \<in> dom m - {k}. unat (the (m j)))"
proof -
  have "(\<Sum>j \<in> dom m - {k}. unat (the ((m(k := None)) j))) = (\<Sum>j \<in> dom m - {k}. unat (the (m j)))"
    by (rule sum.cong) auto
  then show ?thesis
    by (simp add: total_def)
qed

lemma total_acquire:
  assumes "counted_map m" and "total m < 2 ^ 32 - 1"
  shows "total (map_acquire name m) = total m + 1" and "counted_map (map_acquire name m)"
proof -
  have le: "unat n \<le> total m" if "m name = Some n" for n
    using total_remove [of m name] assms(1) that by (simp add: counted_map_def)
  have "unat (n + 1) = unat n + 1" if "m name = Some n" for n
    using le [OF that] assms(2) by (simp add: unat_word_ariths)
  then show "total (map_acquire name m) = total m + 1"
    using assms(1) total_remove [of m name]
    by (auto simp: map_acquire_def total_update counted_map_def split: option.split)
  have "n + 1 \<noteq> 0" if "m name = Some n" for n
    using \<open>m name = Some n \<Longrightarrow> unat (n + 1) = unat n + 1\<close> [OF that] by auto
  then show "counted_map (map_acquire name m)"
    using assms(1) by (auto simp: map_acquire_def counted_map_def split: option.split if_splits)
qed

lemma total_release:
  assumes "counted_map m" and "m name = Some n"
  shows "total m = total (map_release name m) + 1" and "counted_map (map_release name m)"
proof -
  have n: "unat n = unat (n - 1) + 1"
  proof -
    have "n \<noteq> 0"
      using assms by (auto simp: counted_map_def)
    then show ?thesis
      by (simp add: unat_minus_one unat_gt_0)
  qed
  then show "total m = total (map_release name m) + 1"
    using assms total_remove [of m name] by (auto simp: map_release_def total_update total_delete counted_map_def)
  show "counted_map (map_release name m)"
    using assms by (auto simp: map_release_def counted_map_def split: if_splits)
qed

text \<open>What the hub relies on: a controller with a counter that is raised and lowered (\<open>ISuspendController\<close>).\<close>

locale suspend_counter =
  fixes inc dec :: "'s \<Rightarrow> 's" and count :: "'s \<Rightarrow> 32 word"
  assumes count_inc: "count (inc s) = count s + 1"
    and count_dec: "count (dec s) = count s - 1"
begin

definition matches :: "'s \<Rightarrow> (string \<Rightarrow> 32 word option) \<Rightarrow> bool" where
  "matches s m \<longleftrightarrow> counted_map m \<and> count s = of_nat (total m)"

lemma acquire_matches:
  assumes "matches s m" and "total m < 2 ^ 32 - 1"
  shows "matches (inc s) (map_acquire name m)"
  using assms total_acquire [of m name] by (simp add: matches_def count_inc)

lemma release_matches:
  assumes "matches s m" and "m name \<noteq> None"
  shows "matches (dec s) (map_release name m)"
  using assms total_release [of m name] by (auto simp: matches_def count_dec)

lemma free_iff_empty:
  assumes "matches s m" and "total m < 2 ^ 32"
  shows "count s = 0 \<longleftrightarrow> m = Map.empty"
proof
  assume free: "count s = 0"
  have "unat (of_nat (total m) :: 32 word) = total m"
    using assms(2) by (simp add: unat_of_nat)
  then have "total m = 0"
    using free assms(1) by (simp add: matches_def)
  then have "\<forall>k \<in> dom m. unat (the (m k)) = 0"
    using assms(1) by (simp add: total_def matches_def counted_map_def)
  then have "m k = None" for k
    using assms(1) by (cases "m k") (auto simp: matches_def counted_map_def domI unat_eq_0 dest: bspec)
  then show "m = Map.empty"
    by blast
next
  assume "m = Map.empty"
  then show "count s = 0"
    using assms by (simp add: matches_def total_def)
qed

end

interpretation hub_counter: suspend_counter IncSuspendBlockCounter DecSuspendBlockCounter suspendBlockCounter
  by unfold_locales (simp_all add: IncSuspendBlockCounter_def DecSuspendBlockCounter_def)

section \<open>Runs\<close>

text \<open>One step of the thread with number \<open>i\<close>; a thread that has ended is taken off the list.\<close>

definition loop_thread :: "hub_env \<Rightarrow> nat \<Rightarrow> unit H" where
  "loop_thread E i = do {
     pcs \<leftarrow> gets loops;
     r \<leftarrow> AutoSuspendLoop E (pcs ! i);
     modify (\<lambda>w. w\<lparr>loops := (case r of
         None \<Rightarrow> take i (loops w) @ drop (i + 1) (loops w)
       | Some pc \<Rightarrow> (loops w)[i := pc])\<rparr>) }"

text \<open>
  \<open>hub_run E w n v\<close>: from \<open>w\<close> the process can reach \<open>v\<close>, with \<open>n\<close> acquisitions on the way.  A \<open>Wakeup\<close>
  that does not return ends the process and has no successor.
\<close>

inductive hub_run :: "hub_env \<Rightarrow> hub_world \<Rightarrow> nat \<Rightarrow> hub_world \<Rightarrow> bool" for E w where
  hub_none: "hub_run E w 0 w"
| hub_acquire: "hub_run E w n v \<Longrightarrow> hub_run E w (Suc n) (exec (Hub_Acquire E name) v)"
| hub_release: "hub_run E w n v \<Longrightarrow> hub_run E w n (exec (Hub_Release E name) v)"
| hub_suspend: "hub_run E w n v \<Longrightarrow> hub_run E w n (exec (HubSuspend E onSuspend onWakeup force) v)"
| hub_started: "hub_run E w n v \<Longrightarrow> hub_run E w n (exec Start_end v)"
| hub_wakeup: "hub_run E w n v \<Longrightarrow> Prelude.result HubWakeup v \<Longrightarrow> hub_run E w n (exec HubWakeup v)"
| hub_thread: "hub_run E w n v \<Longrightarrow> i < length (loops v) \<Longrightarrow> hub_run E w n (exec (loop_thread E i) v)"

definition fresh_hub :: hub_world where
  "fresh_hub = \<lparr>suspendBlockCounter = 0, autoStarted = False, daemon = None, wakeupCountFd = False,
     suspendStateFd = None, onSuspendCb = None, onWakeupCb = None, hubFds = None, runningLockMap = Map.empty,
     loops = [], startPending = 0, hubLog = []\<rparr>"

text \<open>What file operations and callbacks leave alone.\<close>

definition hub_lock_view :: "hub_world \<Rightarrow> 32 word \<times> (string \<Rightarrow> 32 word option)" where
  "hub_lock_view w = (suspendBlockCounter w, runningLockMap w)"

definition thread_view :: "hub_world \<Rightarrow> bool option \<times> nat \<times> loop_pc list" where
  "thread_view w = (daemon w, startPending w, loops w)"

definition quiet_view :: "hub_world \<Rightarrow> (32 word \<times> (string \<Rightarrow> 32 word option)) \<times> (bool option \<times> nat \<times> loop_pc list) \<times> bool" where
  "quiet_view w = (hub_lock_view w, thread_view w, autoStarted w)"

lemmas view_defs = hub_lock_view_def thread_view_def quiet_view_def

lemma keeps_quiet [keeps_intros]:
  "keeps quiet_view (hub_log c)"
  "keeps quiet_view (hub_ask E c)"
  "keeps quiet_view (run_callback cb)"
  "keeps quiet_view (SuspendEnter E)"
  "keeps quiet_view (WaitWakeupCount E)"
  "keeps quiet_view (WriteWakeupCount E s)"
  "keeps quiet_view (InitFd E)"
  "keeps quiet_view (SaveLockFile E name b)"
proof -
  show log: "keeps quiet_view (hub_log c)" for c
    by (simp add: hub_log_def keeps_modify view_defs)
  then show ask: "keeps quiet_view (hub_ask E c)" for c
    unfolding hub_ask_def by (intro keeps_intros)
  show "keeps quiet_view (run_callback cb)"
    unfolding run_callback_def by (intro keeps_intros log)
  show "keeps quiet_view (SuspendEnter E)" "keeps quiet_view (WaitWakeupCount E)" "keeps quiet_view (WriteWakeupCount E s)"
    unfolding SuspendEnter_def WaitWakeupCount_def WriteWakeupCount_def
    by (intro keeps_intros log ask keeps_modify; simp add: view_defs)+
  show init: "keeps quiet_view (InitFd E)"
    unfolding InitFd_def by (intro keeps_intros ask keeps_modify; simp add: view_defs)
  show "keeps quiet_view (SaveLockFile E name b)"
    unfolding SaveLockFile_def by (intro keeps_intros init ask)
qed

lemma quietD:
  assumes "keeps quiet_view m"
  shows "suspendBlockCounter (exec m w) = suspendBlockCounter w" and "runningLockMap (exec m w) = runningLockMap w"
    and "daemon (exec m w) = daemon w" and "startPending (exec m w) = startPending w" and "loops (exec m w) = loops w"
    and "autoStarted (exec m w) = autoStarted w"
  using keepsD [OF assms, of w] by (simp_all add: view_defs)

lemmas quiet = keeps_quiet [THEN quietD(1)] keeps_quiet [THEN quietD(2)] keeps_quiet [THEN quietD(3)]
  keeps_quiet [THEN quietD(4)] keeps_quiet [THEN quietD(5)] keeps_quiet [THEN quietD(6)]

text \<open>A step of the loop: no lock, no thread object; at most the flag falls.\<close>

lemma AutoSuspendLoop_views:
  "hub_lock_view (exec (AutoSuspendLoop E pc) w) = hub_lock_view w"
  "thread_view (exec (AutoSuspendLoop E pc) w) = thread_view w"
  "autoStarted (exec (AutoSuspendLoop E pc) w) \<Longrightarrow> autoStarted w"
  by (cases pc; simp add: view_defs quiet split: if_splits)+

lemma loop_thread_views:
  "hub_lock_view (exec (loop_thread E i) w) = hub_lock_view w"
  "daemon (exec (loop_thread E i) w) = daemon w"
  "startPending (exec (loop_thread E i) w) = startPending w"
  using AutoSuspendLoop_views(1,2) [of E "loops w ! i" w]
  by (simp_all add: loop_thread_def view_defs)


section \<open>The locks hold the loop back\<close>

abbreviation hub_matches :: "hub_world \<Rightarrow> bool" where
  "hub_matches w \<equiv> hub_counter.matches w (runningLockMap w)"

lemma matches_cong:
  assumes "hub_lock_view v = hub_lock_view w" and "hub_matches w \<and> total (runningLockMap w) \<le> n"
  shows "hub_matches v \<and> total (runningLockMap v) \<le> n"
  using assms by (simp add: hub_counter.matches_def view_defs)

lemma acquire_effect:
  "runningLockMap (exec (Hub_Acquire E name) w) = map_acquire name (runningLockMap w)"
  "suspendBlockCounter (exec (Hub_Acquire E name) w) = suspendBlockCounter (IncSuspendBlockCounter w)"
  by (simp_all add: Hub_Acquire_def NotifySuspendCounter_def IncSuspendBlockCounter_def quiet)

lemma release_effect:
  "runningLockMap (exec (Hub_Release E name) w) = map_release name (runningLockMap w)"
  "suspendBlockCounter (exec (Hub_Release E name) w) =
     suspendBlockCounter (if runningLockMap w name = None then w else DecSuspendBlockCounter w)"
  by (auto simp: Hub_Release_def NotifySuspendCounter_def DecSuspendBlockCounter_def map_release_def quiet
      split: option.split)

lemma hub_matches_acquire:
  assumes "hub_matches w" and "total (runningLockMap w) < 2 ^ 32 - 1"
  shows "hub_matches (exec (Hub_Acquire E name) w)"
  using hub_counter.acquire_matches [OF assms, of name] by (simp add: hub_counter.matches_def acquire_effect)

lemma hub_matches_release:
  assumes "hub_matches w"
  shows "hub_matches (exec (Hub_Release E name) w)"
proof (cases "runningLockMap w name")
  case None
  then show ?thesis
    using assms by (simp add: hub_counter.matches_def release_effect map_release_def)
next
  case (Some n)
  then show ?thesis
    using hub_counter.release_matches [OF assms, of name] by (simp add: hub_counter.matches_def release_effect)
qed

lemma hub_lock_view_other:
  "hub_lock_view (exec (HubSuspend E s k force) w) = hub_lock_view w"
  "hub_lock_view (exec Start_end w) = hub_lock_view w"
  "hub_lock_view (exec HubWakeup w) = hub_lock_view w"
  by (auto simp: HubSuspend_def Start_begin_def Start_end_def HubWakeup_def Stop_def view_defs quiet split: option.split)

lemma total_release_le: "counted_map m \<Longrightarrow> total (map_release name m) \<le> total m"
  using total_release(1) [of m name] by (cases "m name") (simp_all add: map_release_def)

lemma hub_run_matches:
  assumes "hub_run E fresh_hub n w" and "n < 2 ^ 32"
  shows "hub_matches w \<and> total (runningLockMap w) \<le> n"
  using assms
proof (induction rule: hub_run.induct)
  case hub_none
  then show ?case
    by (simp add: fresh_hub_def hub_counter.matches_def counted_map_def total_def)
next
  case (hub_acquire n v name)
  then have "hub_matches v" "total (runningLockMap v) \<le> n" "n < 2 ^ 32 - 1"
    by simp_all
  then show ?case
    using hub_matches_acquire [of v E name] total_acquire(1) [of "runningLockMap v" name]
    by (simp add: acquire_effect hub_counter.matches_def)
next
  case (hub_release n v name)
  then show ?case
    using hub_matches_release [of v E name] total_release_le [of "runningLockMap v" name]
    by (simp add: release_effect hub_counter.matches_def)
next
  case (hub_suspend n v s k force)
  then show ?case
    by (intro matches_cong [OF hub_lock_view_other(1)]) simp
next
  case (hub_started n v)
  then show ?case
    by (intro matches_cong [OF hub_lock_view_other(2)]) simp
next
  case (hub_wakeup n v)
  then show ?case
    by (intro matches_cong [OF hub_lock_view_other(3)]) simp
next
  case (hub_thread n v i)
  then show ?case
    by (intro matches_cong [OF loop_thread_views(1)]) simp
qed


section \<open>\<open>Wakeup\<close> and \<open>Start\<close>\<close>

lemma hub_never_joinable:
  assumes "hub_run E w n v" and "daemon w \<noteq> Some True"
  shows "daemon v \<noteq> Some True"
  using assms
  by (induction rule: hub_run.induct)
    (auto simp: Hub_Acquire_def Hub_Release_def NotifySuspendCounter_def IncSuspendBlockCounter_def
      DecSuspendBlockCounter_def HubSuspend_def Start_begin_def Start_end_def HubWakeup_def Stop_def loop_thread_views quiet
      split: option.splits if_splits)

text \<open>
  C40: \<open>Wakeup\<close> cannot call a suspend off.  The thread of the loop is detached as soon as it is made, so in every state the
  process can reach \<open>Wakeup\<close> either changes nothing or does not return: joining a detached thread
  throws.  It does not return exactly when a suspend is under way.
\<close>

theorem wakeup_never_stops_loop:
  assumes "hub_run E fresh_hub n w"
  shows "if autoStarted w \<and> daemon w \<noteq> None then \<not> Prelude.result HubWakeup w
    else Prelude.result HubWakeup w \<and> exec HubWakeup w = w"
proof -
  have "daemon w \<noteq> Some True"
    using hub_never_joinable [OF assms] by (simp add: fresh_hub_def)
  then show ?thesis
    by (auto simp: HubWakeup_def Stop_def split: option.split)
qed


text \<open>The state in which the flag says that a suspend is under way and no thread carries it out.\<close>

definition stuck :: "hub_world \<Rightarrow> bool" where
  "stuck w \<longleftrightarrow> autoStarted w \<and> loops w = [] \<and> startPending w = 0 \<and> daemon w = Some False"

lemma stuck_forever:
  assumes "hub_run E w n v" and "stuck w"
  shows "stuck v"
  using assms
  by (induction rule: hub_run.induct)
    (auto simp: stuck_def Hub_Acquire_def Hub_Release_def NotifySuspendCounter_def IncSuspendBlockCounter_def
      DecSuspendBlockCounter_def HubSuspend_def Start_begin_def Start_end_def HubWakeup_def Stop_def quiet)

definition overtaken :: "hub_env \<Rightarrow> nat option \<Rightarrow> nat option \<Rightarrow> hub_world" where
  "overtaken E onSuspend onWakeup =
     exec Start_end (exec (loop_thread E 0) (exec (HubSuspend E onSuspend onWakeup False) fresh_hub))"

lemma overtaken_reached: "hub_run E fresh_hub 0 (overtaken E onSuspend onWakeup)"
proof -
  have "0 < length (loops (exec (HubSuspend E onSuspend onWakeup False) fresh_hub))"
    by (simp add: HubSuspend_def Start_begin_def fresh_hub_def)
  then show ?thesis
    unfolding overtaken_def by (intro hub_started hub_thread hub_suspend hub_none)
qed

lemma overtaken_stuck: "stuck (overtaken E onSuspend onWakeup)"
  by (simp add: overtaken_def stuck_def HubSuspend_def Start_begin_def fresh_hub_def loop_thread_def Start_end_def)

text \<open>
  A suspend can be lost for good.  \<open>Start\<close> sets its flag only after its thread is running; if that thread has slept and looked at the
  flag before, it ends, and the flag is set afterwards.  From then on, whatever is asked, no
  request that is not forced starts a loop again, and \<open>Wakeup\<close> does not return.
\<close>

lemma overtaken_start_is_lost:
  shows "hub_run E fresh_hub 0 (overtaken E onSuspend onWakeup) \<and>
    (\<forall>n v. hub_run E (overtaken E onSuspend onWakeup) n v \<longrightarrow>
      autoStarted v \<and> loops v = [] \<and> loops (exec (HubSuspend E s k False) v) = [] \<and> \<not> Prelude.result HubWakeup v)"
proof (intro conjI allI impI)
  show "hub_run E fresh_hub 0 (overtaken E onSuspend onWakeup)"
    by (rule overtaken_reached)
next
  fix n v assume "hub_run E (overtaken E onSuspend onWakeup) n v"
  then have "stuck v"
    using overtaken_stuck by (rule stuck_forever)
  then show "autoStarted v" "loops v = []" "loops (exec (HubSuspend E s k False) v) = []" "\<not> Prelude.result HubWakeup v"
    by (simp_all add: stuck_def HubSuspend_def Start_begin_def HubWakeup_def Stop_def)
qed

section \<open>Witnesses\<close>

definition sample_hub_env :: hub_env where
  "sample_hub_env = \<lparr>fileOk = (\<lambda>c log. True), fileText = (\<lambda>log. Some ''7'')\<rparr>"

definition held_hub :: hub_world where
  "held_hub = exec (Hub_Acquire sample_hub_env ''screen'') fresh_hub"

lemma held_hub_reached: "hub_run sample_hub_env fresh_hub 1 held_hub"
  using hub_acquire [OF hub_none] by (simp add: held_hub_def)

lemma held_hub_map: "runningLockMap held_hub = [''screen'' \<mapsto> 1]"
  by (simp add: held_hub_def acquire_effect map_acquire_def fresh_hub_def)


theorem wakeup_never_stops_loop_witness:
  "\<not> Prelude.result HubWakeup (overtaken sample_hub_env None None)"
proof -
  have "autoStarted (overtaken sample_hub_env None None)" "daemon (overtaken sample_hub_env None None) \<noteq> None"
    using overtaken_stuck [of sample_hub_env None None] by (auto simp: stuck_def)
  then show ?thesis
    using wakeup_never_stops_loop [OF overtaken_reached, of sample_hub_env None None] by (simp only: simp_thms if_True)
qed

theorem overtaken_start_is_lost_witness:
  "loops (exec (HubSuspend sample_hub_env None None False) (overtaken sample_hub_env None None)) = []"
  using overtaken_start_is_lost [of sample_hub_env None None None None] hub_none by blast


end
