(* ===== verification/System_Utils.thy ===== *)
theory System_Utils
  imports Containers
begin

text \<open>
  The wrappers of system services: \<open>utils/permission\<close>, \<open>utils/appmgr\<close>, \<open>utils/param\<close>, the loader of extension libraries
  (\<open>utils/lib_loader\<close>, \<open>utils/intf_wrapper\<close>), the screens of users (\<open>multi_user_screen_adapter.cpp\<close>) and the publisher of
  events (\<open>power_mgr_notify.cpp\<close>).  The components of the service see permissions and foreground applications as answers
  of the environment; here is how these answers come about.
\<close>

section \<open>Permissions\<close>

datatype ATokenTypeEnum = TOKEN_INVALID | TOKEN_HAP | TOKEN_NATIVE | TOKEN_SHELL | TOKEN_TYPE_BUTT

text \<open>The caller as the access token service knows it.\<close>

record caller_token =
  tokenType :: ATokenTypeEnum
  verified :: "string \<Rightarrow> bool"  \<comment> \<open>\<open>VerifyAccessToken\<close>\<close>
  systemApp :: bool
  hapApiVersion :: "int option"  \<comment> \<open>\<open>GetHapTokenInfo\<close>, nothing when it fails\<close>

definition IsHap :: "caller_token \<Rightarrow> bool" where
  "IsHap t = (case tokenType t of TOKEN_HAP \<Rightarrow> True | _ \<Rightarrow> False)"

definition IsSystem :: "caller_token \<Rightarrow> bool" where
  "IsSystem t = (case tokenType t of
       TOKEN_HAP \<Rightarrow> systemApp t
     | TOKEN_NATIVE \<Rightarrow> True
     | TOKEN_SHELL \<Rightarrow> True
     | _ \<Rightarrow> False)"

definition IsPermissionGranted :: "caller_token \<Rightarrow> string \<Rightarrow> bool" where
  "IsPermissionGranted t perm = (case tokenType t of
       TOKEN_HAP \<Rightarrow> verified t perm
     | TOKEN_NATIVE \<Rightarrow> True
     | TOKEN_SHELL \<Rightarrow> True
     | _ \<Rightarrow> False)"

definition IsNativePermissionGranted :: "caller_token \<Rightarrow> string \<Rightarrow> bool" where
  "IsNativePermissionGranted t perm = (case tokenType t of
       TOKEN_HAP \<Rightarrow> True
     | TOKEN_NATIVE \<Rightarrow> verified t perm
     | TOKEN_SHELL \<Rightarrow> verified t perm
     | _ \<Rightarrow> False)"

definition API_VERSION_MOD :: int where "API_VERSION_MOD = 1000"

text \<open>The remainder of C keeps the sign of the dividend.\<close>

definition c_rem :: "int \<Rightarrow> int \<Rightarrow> int" where
  "c_rem a b = sgn a * (\<bar>a\<bar> mod \<bar>b\<bar>)"

definition GetCallerApiTargetVersion :: "caller_token \<Rightarrow> int" where
  "GetCallerApiTargetVersion t =
    (if tokenType t \<noteq> TOKEN_HAP then -1
     else case hapApiVersion t of None \<Rightarrow> -1 | Some v \<Rightarrow> c_rem v API_VERSION_MOD)"

text \<open>
  The two checks complement each other: each of them lets through a kind of caller unchecked, and only together do
  they ask the access token service for every caller.
\<close>

lemma both_checks_verify:
  "IsPermissionGranted t perm \<and> IsNativePermissionGranted t perm \<longleftrightarrow>
    verified t perm \<and> tokenType t \<in> {TOKEN_HAP, TOKEN_NATIVE, TOKEN_SHELL}"
  by (cases "tokenType t") (auto simp: IsPermissionGranted_def IsNativePermissionGranted_def)

section \<open>Extension libraries\<close>

definition FAILURE_RETRY_TIMES :: nat where "FAILURE_RETRY_TIMES = 3"
definition MAX_INTERFACE_COUNT :: nat where "MAX_INTERFACE_COUNT = 128"

text \<open>The dynamic linker: whether the given attempt to open succeeds, and the address an attempt to find a symbol gives.\<close>

record linker =
  dlopen :: "nat \<Rightarrow> bool"
  dlsym :: "string \<Rightarrow> nat \<Rightarrow> nat option"

primrec first_success :: "(nat \<Rightarrow> 'a option) \<Rightarrow> nat list \<Rightarrow> 'a option" where
  "first_success f [] = None"
| "first_success f (i # attempts) = (case f i of Some x \<Rightarrow> Some x | None \<Rightarrow> first_success f attempts)"

definition LibraryLoader :: "linker \<Rightarrow> bool" where
  "LibraryLoader L = (first_success (\<lambda>i. if dlopen L i then Some () else None) [0..<FAILURE_RETRY_TIMES] \<noteq> None)"

definition LoadInterface :: "linker \<Rightarrow> bool \<Rightarrow> string \<Rightarrow> nat option" where
  "LoadInterface L libHandle symbol =
    (if \<not> libHandle then None else first_success (dlsym L symbol) [0..<FAILURE_RETRY_TIMES])"

record InterfaceLoader =
  libHandle :: bool
  interfaces :: "string \<Rightarrow> nat option option"  \<comment> \<open>absent, no address, or an address\<close>
  isInited :: bool

definition new_loader :: "linker \<Rightarrow> string list \<Rightarrow> InterfaceLoader" where
  "new_loader L symbolArr = \<lparr>libHandle = LibraryLoader L,
     interfaces = (\<lambda>s. if length symbolArr > MAX_INTERFACE_COUNT \<or> s \<notin> set symbolArr then None else Some None),
     isInited = False\<rparr>"

definition LoadAllInterfaces :: "linker \<Rightarrow> InterfaceLoader \<Rightarrow> InterfaceLoader" where
  "LoadAllInterfaces L l = l\<lparr>interfaces := (\<lambda>s. case interfaces l s of
       None \<Rightarrow> None
     | Some old \<Rightarrow> (case LoadInterface L (libHandle l) s of None \<Rightarrow> Some old | Some p \<Rightarrow> Some (Some p)))\<rparr>"

definition Loader_Init :: "linker \<Rightarrow> InterfaceLoader \<Rightarrow> InterfaceLoader" where
  "Loader_Init L l = (if isInited l then l else (LoadAllInterfaces L l)\<lparr>isInited := True\<rparr>)"

definition Loader_DeInit :: "InterfaceLoader \<Rightarrow> InterfaceLoader" where
  "Loader_DeInit l = (if isInited l then l\<lparr>isInited := False, interfaces := Map.empty\<rparr> else l)"

definition QueryInterface :: "InterfaceLoader \<Rightarrow> string \<Rightarrow> nat option" where
  "QueryInterface l symbol =
    (if \<not> isInited l then None else case interfaces l symbol of Some (Some p) \<Rightarrow> Some p | _ \<Rightarrow> None)"

section \<open>The extension of the power manager\<close>

datatype ExtErrCode = EXT_ERR_OK | EXT_ERR_NOT_FOUND | EXT_ERR_FAILURE

definition ALL_POWER_EXT_INTF_SYMBOL :: "bool \<Rightarrow> string list" where
  "ALL_POWER_EXT_INTF_SYMBOL s4 = (if s4 then [''OnHibernateEnd''] else [])"

definition PowerExt_Instance :: "linker \<Rightarrow> bool \<Rightarrow> InterfaceLoader" where
  "PowerExt_Instance L s4 = new_loader L (ALL_POWER_EXT_INTF_SYMBOL s4)"

text \<open>A wrapper calls the function at the address that was found; what that function returns is \<open>call\<close>.\<close>

definition GetRebootCommand :: "InterfaceLoader \<Rightarrow> (nat \<Rightarrow> string \<Rightarrow> string) \<Rightarrow> string \<Rightarrow> ExtErrCode \<times> string option" where
  "GetRebootCommand l call rebootReason = (case QueryInterface l ''GetRebootCommand'' of
       None \<Rightarrow> (EXT_ERR_NOT_FOUND, None)
     | Some p \<Rightarrow> (EXT_ERR_OK, Some (call p rebootReason)))"

definition ext_wrapper_call :: "InterfaceLoader \<Rightarrow> string \<Rightarrow> ExtErrCode \<times> nat option" where
  "ext_wrapper_call l name = (case QueryInterface l name of
       None \<Rightarrow> (EXT_ERR_NOT_FOUND, None)
     | Some p \<Rightarrow> (EXT_ERR_OK, Some p))"

definition SubscribeScreenLockCommonEvent :: "InterfaceLoader \<Rightarrow> ExtErrCode \<times> nat option" where
  "SubscribeScreenLockCommonEvent l = ext_wrapper_call l ''SubscribeScreenLockCommonEvent''"

definition UnSubscribeScreenLockCommonEvent :: "InterfaceLoader \<Rightarrow> ExtErrCode \<times> nat option" where
  "UnSubscribeScreenLockCommonEvent l = ext_wrapper_call l ''UnSubscribeScreenLockCommonEvent''"

definition BlockHibernateUntilScrLckReady :: "InterfaceLoader \<Rightarrow> ExtErrCode \<times> nat option" where
  "BlockHibernateUntilScrLckReady l = ext_wrapper_call l ''BlockHibernateUntilScrLckReady''"

text \<open>The address of the function that hears of the end of a hibernation, if there is one.\<close>

definition ExtOnHibernateEnd :: "InterfaceLoader \<Rightarrow> nat option" where
  "ExtOnHibernateEnd l = QueryInterface l ''OnHibernateEnd''"

text \<open>The states of the one instance of the process: it is initialised when the service starts and given up when it stops.\<close>

inductive ext_run :: "linker \<Rightarrow> bool \<Rightarrow> nat \<Rightarrow> InterfaceLoader \<Rightarrow> bool" for L s4 where
  ext_new: "ext_run L s4 0 (PowerExt_Instance L s4)"
| ext_init: "ext_run L s4 n l \<Longrightarrow> ext_run L s4 n (Loader_Init L l)"
| ext_deinit: "ext_run L s4 n l \<Longrightarrow> isInited l \<Longrightarrow> ext_run L s4 (Suc n) (Loader_DeInit l)"

text \<open>\<open>n\<close> counts how often the instance was given up.\<close>

lemma ext_interfaces:
  assumes "ext_run L s4 n l"
  shows "interfaces l s \<noteq> None \<longrightarrow> s4 \<and> s = ''OnHibernateEnd'' \<and> n = 0"
  using assms
  by (induction rule: ext_run.induct)
    (auto simp: PowerExt_Instance_def new_loader_def ALL_POWER_EXT_INTF_SYMBOL_def Loader_Init_def LoadAllInterfaces_def
      Loader_DeInit_def split: option.splits if_splits)

text \<open>
  Most of the extension cannot be reached.  Only the symbols of the table are ever looked for, so the reboot command, the screen lock
  subscriptions and the barrier before hibernation are reported as not found whatever the library exports; and since
  giving the instance up empties the table, after the service has stopped and started again in the same process not even
  the end of a hibernation is passed on.
\<close>

lemma extension_mostly_unreachable:
  assumes "ext_run L s4 n l"
  shows "GetRebootCommand l call reason = (EXT_ERR_NOT_FOUND, None) \<and>
    SubscribeScreenLockCommonEvent l = (EXT_ERR_NOT_FOUND, None) \<and>
    UnSubscribeScreenLockCommonEvent l = (EXT_ERR_NOT_FOUND, None) \<and>
    BlockHibernateUntilScrLckReady l = (EXT_ERR_NOT_FOUND, None) \<and>
    (n > 0 \<longrightarrow> ExtOnHibernateEnd l = None)"
proof -
  have "QueryInterface l s = None" if "s \<noteq> ''OnHibernateEnd'' \<or> n > 0" for s
    using ext_interfaces [OF assms, of s] that by (auto simp: QueryInterface_def split: option.split)
  then show ?thesis
    by (simp add: GetRebootCommand_def ext_wrapper_call_def SubscribeScreenLockCommonEvent_def
        UnSubscribeScreenLockCommonEvent_def BlockHibernateUntilScrLckReady_def ExtOnHibernateEnd_def)
qed

text \<open>Before that, the end of a hibernation reaches the library if one of three attempts finds it.\<close>

lemma ext_hibernate_end_found:
  "ExtOnHibernateEnd (Loader_Init L (PowerExt_Instance L True)) =
    LoadInterface L (LibraryLoader L) ''OnHibernateEnd''"
  by (auto simp: ExtOnHibernateEnd_def QueryInterface_def Loader_Init_def LoadAllInterfaces_def PowerExt_Instance_def
      new_loader_def ALL_POWER_EXT_INTF_SYMBOL_def MAX_INTERFACE_COUNT_def split: option.split)

definition sample_linker :: linker where
  "sample_linker = \<lparr>dlopen = (\<lambda>i. True), dlsym = (\<lambda>s i. Some 4096)\<rparr>"

theorem extension_mostly_unreachable_witness:
  "ExtOnHibernateEnd (Loader_Init sample_linker (PowerExt_Instance sample_linker True)) = Some 4096 \<and>
   ExtOnHibernateEnd (Loader_Init sample_linker (Loader_DeInit (Loader_Init sample_linker (PowerExt_Instance sample_linker True)))) = None"
proof
  show "ExtOnHibernateEnd (Loader_Init sample_linker (PowerExt_Instance sample_linker True)) = Some 4096"
    unfolding ext_hibernate_end_found
    by (simp add: LoadInterface_def LibraryLoader_def sample_linker_def FAILURE_RETRY_TIMES_def numeral_3_eq_3)
  have "isInited (Loader_Init sample_linker (PowerExt_Instance sample_linker True))"
    by (simp add: Loader_Init_def)
  then have "ext_run sample_linker True (Suc 0)
      (Loader_Init sample_linker (Loader_DeInit (Loader_Init sample_linker (PowerExt_Instance sample_linker True))))"
    by (intro ext_init ext_deinit ext_new)
  from extension_mostly_unreachable [OF this, of "\<lambda>p s. s" "''''"]
  show "ExtOnHibernateEnd (Loader_Init sample_linker
      (Loader_DeInit (Loader_Init sample_linker (PowerExt_Instance sample_linker True)))) = None"
    by simp
qed

section \<open>Parameters\<close>

text \<open>\<open>GetParameter\<close> gives nothing when it fails; \<open>readInt\<close> stands for \<open>StrToInt\<close> after \<open>TrimStr\<close>, both of \<open>c_utils\<close>.\<close>

definition SysParam_GetIntValue :: "(string \<Rightarrow> string \<Rightarrow> string option) \<Rightarrow> (string \<Rightarrow> int option) \<Rightarrow> string \<Rightarrow> int \<Rightarrow> int" where
  "SysParam_GetIntValue GetParameter readInt key def =
    (case GetParameter key (to_string def) of
       None \<Rightarrow> def
     | Some value \<Rightarrow> (case readInt value of None \<Rightarrow> def | Some n \<Rightarrow> n))"

section \<open>Applications\<close>

record app_env =
  appManagerThere :: bool  \<comment> \<open>the proxy can be obtained\<close>
  foreground :: "string list"  \<comment> \<open>bundle names of \<open>GetForegroundApplications\<close>\<close>
  bundleManagerThere :: "nat \<Rightarrow> bool"  \<comment> \<open>by number of the request\<close>
  apiTargetVersion :: "nat \<Rightarrow> int option"

text \<open>The proxy is kept once it has been obtained.\<close>

definition GetAppManagerInstance :: "app_env \<Rightarrow> bool \<Rightarrow> bool" where
  "GetAppManagerInstance A cached = (cached \<or> appManagerThere A)"

definition GetForegroundApplications :: "app_env \<Rightarrow> bool \<Rightarrow> string list" where
  "GetForegroundApplications A cached = (if GetAppManagerInstance A cached then foreground A else [])"

primrec any_foreground :: "string set \<Rightarrow> string list \<Rightarrow> bool" where
  "any_foreground appNames [] = False"
| "any_foreground appNames (curApp # appsData) = (if curApp \<in> appNames then True else any_foreground appNames appsData)"

definition IsForegroundApplication :: "app_env \<Rightarrow> bool \<Rightarrow> string set \<Rightarrow> bool" where
  "IsForegroundApplication A cached appNames =
    (if appNames = {} then False else any_foreground appNames (GetForegroundApplications A cached))"

lemma IsForegroundApplication_iff:
  "IsForegroundApplication A cached appNames \<longleftrightarrow> appNames \<inter> set (GetForegroundApplications A cached) \<noteq> {}"
proof -
  have "any_foreground appNames apps \<longleftrightarrow> appNames \<inter> set apps \<noteq> {}" for apps
    by (induction apps) auto
  then show ?thesis
    by (simp add: IsForegroundApplication_def)
qed

definition GetForegroundBundleNames :: "app_env \<Rightarrow> bool \<Rightarrow> string set \<Rightarrow> string set" where
  "GetForegroundBundleNames A cached bundleNames = fold insert (GetForegroundApplications A cached) bundleNames"

text \<open>
  The version of the process itself, with the static variable that keeps it: \<open>n\<close> is the number of the request.  A
  failure gives 0 and is not kept.
\<close>

definition GetApiTargetVersion :: "app_env \<Rightarrow> nat \<Rightarrow> int \<Rightarrow> int \<times> int" where
  "GetApiTargetVersion A n kept =
    (if kept \<noteq> -1 then (kept, kept)
     else if \<not> bundleManagerThere A n then (0, kept)
     else case apiTargetVersion A n of
         None \<Rightarrow> (0, kept)
       | Some v \<Rightarrow> (c_rem v API_VERSION_MOD, c_rem v API_VERSION_MOD))"

lemma api_version_kept:
  "GetApiTargetVersion A n kept = (v, kept') \<Longrightarrow> kept' \<noteq> -1 \<Longrightarrow> GetApiTargetVersion A m kept' = (kept', kept') \<and> v = kept'"
  by (auto simp: GetApiTargetVersion_def split: if_splits option.splits)

section \<open>Screens of users\<close>

text \<open>The account service and the display manager.\<close>

record screen_env =
  userOfUid :: "int \<Rightarrow> int option"
  displayOfUser :: "int \<Rightarrow> nat option"
  userOfDisplay :: "nat \<Rightarrow> int option"  \<comment> \<open>by a display number of 32 bits\<close>
  screenState :: "nat \<Rightarrow> nat option"
  allScreenStates :: "(nat \<times> nat) list"
  START_USER_ID :: int
  MAX_USER_ID :: int
  stateOn :: nat
  stateDim :: nat

definition INVALID_USER_ID :: int where "INVALID_USER_ID = -1"
definition INVALID_DISPLAY_ID :: nat where "INVALID_DISPLAY_ID = 2 ^ 64 - 1"

definition Screen_IsSystemAccount :: "screen_env \<Rightarrow> int \<Rightarrow> bool" where
  "Screen_IsSystemAccount D userId = (userId \<ge> START_USER_ID D \<and> userId \<le> MAX_USER_ID D)"

definition Screen_IsValidUserId :: "screen_env \<Rightarrow> int \<Rightarrow> bool" where
  "Screen_IsValidUserId D userId = (userId = 0 \<or> (userId \<ge> START_USER_ID D \<and> userId \<le> MAX_USER_ID D))"

definition GetUserIdFromUid :: "screen_env \<Rightarrow> int \<Rightarrow> int" where
  "GetUserIdFromUid D uid = (case userOfUid D uid of None \<Rightarrow> 0 | Some u \<Rightarrow> u)"

definition GetDisplayIdByUserId :: "screen_env \<Rightarrow> int \<Rightarrow> nat" where
  "GetDisplayIdByUserId D userId = (case displayOfUser D userId of None \<Rightarrow> INVALID_DISPLAY_ID | Some d \<Rightarrow> d)"

definition GetUserIdByDisplayId :: "screen_env \<Rightarrow> nat \<Rightarrow> int" where
  "GetUserIdByDisplayId D display = (case userOfDisplay D (display mod 2 ^ 32) of None \<Rightarrow> INVALID_USER_ID | Some u \<Rightarrow> u)"

definition Screen_IsOnState :: "screen_env \<Rightarrow> nat \<Rightarrow> bool" where
  "Screen_IsOnState D state = (state = stateOn D \<or> state = stateDim D)"

definition IsScreenOnForUser :: "screen_env \<Rightarrow> int \<Rightarrow> bool" where
  "IsScreenOnForUser D userId =
    (let display = GetDisplayIdByUserId D userId in
     if display = INVALID_DISPLAY_ID then False
     else case screenState D display of None \<Rightarrow> False | Some state \<Rightarrow> Screen_IsOnState D state)"

definition IsUserMainScreen :: "screen_env \<Rightarrow> nat \<Rightarrow> bool" where
  "IsUserMainScreen D display =
    (let userId = GetUserIdByDisplayId D display in
     if userId = INVALID_USER_ID then False else GetDisplayIdByUserId D userId = display)"

primrec any_screen_on :: "screen_env \<Rightarrow> (nat \<times> nat) list \<Rightarrow> bool" where
  "any_screen_on D [] = False"
| "any_screen_on D (s # states) =
    (if IsUserMainScreen D (fst s) \<and> Screen_IsOnState D (snd s) then True else any_screen_on D states)"

definition IsAnyScreenOn :: "screen_env \<Rightarrow> bool" where
  "IsAnyScreenOn D = any_screen_on D (allScreenStates D)"

text \<open>
  When the two interfaces of the display manager agree, the machine has a screen on exactly when some user has, whose
  display is known and leads back to that user.
\<close>

lemma any_screen_on_iff: "any_screen_on D ss \<longleftrightarrow> (\<exists>(d, s) \<in> set ss. IsUserMainScreen D d \<and> Screen_IsOnState D s)"
  by (induction ss) auto

lemma any_screen_on_is_some_users:
  assumes "\<forall>d s. (d, s) \<in> set (allScreenStates D) \<longleftrightarrow> screenState D d = Some s"
    and "\<forall>u. GetDisplayIdByUserId D u \<noteq> INVALID_DISPLAY_ID \<longrightarrow> GetUserIdByDisplayId D (GetDisplayIdByUserId D u) = u"
    and "screenState D INVALID_DISPLAY_ID = None"
  shows "IsAnyScreenOn D \<longleftrightarrow> (\<exists>u. u \<noteq> INVALID_USER_ID \<and> IsScreenOnForUser D u)"
proof
  assume "IsAnyScreenOn D"
  then obtain d s where ds: "(d, s) \<in> set (allScreenStates D)" "IsUserMainScreen D d" "Screen_IsOnState D s"
    by (auto simp: IsAnyScreenOn_def any_screen_on_iff)
  then have "screenState D d = Some s" "d \<noteq> INVALID_DISPLAY_ID"
    using assms(1,3) by auto
  then show "\<exists>u. u \<noteq> INVALID_USER_ID \<and> IsScreenOnForUser D u"
    using ds by (intro exI [of _ "GetUserIdByDisplayId D d"])
      (auto simp: IsUserMainScreen_def IsScreenOnForUser_def Let_def split: if_splits)
next
  assume "\<exists>u. u \<noteq> INVALID_USER_ID \<and> IsScreenOnForUser D u"
  then obtain u s where u: "u \<noteq> INVALID_USER_ID" "GetDisplayIdByUserId D u \<noteq> INVALID_DISPLAY_ID"
      "screenState D (GetDisplayIdByUserId D u) = Some s" "Screen_IsOnState D s"
    by (auto simp: IsScreenOnForUser_def Let_def split: if_splits option.splits)
  then have "IsUserMainScreen D (GetDisplayIdByUserId D u)"
    using assms(2) by (simp add: IsUserMainScreen_def Let_def)
  then show "IsAnyScreenOn D"
    using u assms(1) by (auto simp: IsAnyScreenOn_def any_screen_on_iff)
qed

section \<open>Events\<close>

text \<open>An event as it is published: its action, one parameter, and the permissions a subscriber needs.\<close>

datatype want_param = NoParam | TextParam string string | BoolParam string bool

record published =
  action :: string
  param :: want_param
  subscriberPermissions :: "string list"

text \<open>The objects of the notifier; an allocation may fail, and each want keeps the parameter it was last given.\<close>

record notify_state =
  publishInfo :: bool
  screenOffWant :: bool
  screenOnWant :: bool
  enterForceSleepWant :: bool
  exitForceSleepWant :: bool
  enterHibernateWant :: bool
  exitHibernateWant :: bool

record notify_build =
  screenDecoupling :: bool
  forceSleepBroadcast :: bool
  enableS4 :: bool

definition new_notify :: notify_state where
  "new_notify = \<lparr>publishInfo = False, screenOffWant = False, screenOnWant = False, enterForceSleepWant = False,
     exitForceSleepWant = False, enterHibernateWant = False, exitHibernateWant = False\<rparr>"

text \<open>\<open>new (std::nothrow)\<close> for the object with the given number.\<close>

definition RegisterPublishEvents :: "notify_build \<Rightarrow> (nat \<Rightarrow> bool) \<Rightarrow> notify_state \<Rightarrow> notify_state" where
  "RegisterPublishEvents B allocated n =
    (if publishInfo n then n
     else n\<lparr>publishInfo := allocated 0, screenOffWant := allocated 1, screenOnWant := allocated 2,
       enterForceSleepWant := (if forceSleepBroadcast B then allocated 3 else enterForceSleepWant n),
       exitForceSleepWant := (if forceSleepBroadcast B then allocated 4 else exitForceSleepWant n),
       enterHibernateWant := (if enableS4 B then allocated 5 else enterHibernateWant n),
       exitHibernateWant := (if enableS4 B then allocated 6 else exitHibernateWant n)\<rparr>)"

definition PublishEvents :: "notify_state \<Rightarrow> bool \<Rightarrow> string \<Rightarrow> want_param \<Rightarrow> published option" where
  "PublishEvents n want name p =
    (if \<not> want \<or> \<not> publishInfo n then None else Some \<lparr>action = name, param = p, subscriberPermissions = []\<rparr>)"

definition PublishScreenOffEvents :: "notify_build \<Rightarrow> notify_state \<Rightarrow> string \<Rightarrow> published option" where
  "PublishScreenOffEvents B n reason =
    (if screenDecoupling B then None
     else if \<not> screenOffWant n then None
     else PublishEvents n True ''COMMON_EVENT_SCREEN_OFF'' (TextParam ''reason'' reason))"

definition PublishScreenOnEvents :: "notify_build \<Rightarrow> notify_state \<Rightarrow> string \<Rightarrow> published option" where
  "PublishScreenOnEvents B n reason =
    (if screenDecoupling B then None
     else if \<not> screenOnWant n then None
     else PublishEvents n True ''COMMON_EVENT_SCREEN_ON'' (TextParam ''reason'' reason))"

definition PublishEnterForceSleepEvents :: "notify_state \<Rightarrow> published option" where
  "PublishEnterForceSleepEvents n =
    (if \<not> enterForceSleepWant n then None else PublishEvents n True ''COMMON_EVENT_ENTER_FORCE_SLEEP'' NoParam)"

definition PublishExitForceSleepEvents :: "notify_state \<Rightarrow> published option" where
  "PublishExitForceSleepEvents n =
    (if \<not> exitForceSleepWant n then None else PublishEvents n True ''COMMON_EVENT_EXIT_FORCE_SLEEP'' NoParam)"

definition PublishEnterHibernateEvent :: "notify_state \<Rightarrow> bool \<Rightarrow> published option" where
  "PublishEnterHibernateEvent n clearMemory =
    (if \<not> enterHibernateWant n then None
     else PublishEvents n True ''COMMON_EVENT_ENTER_HIBERNATE'' (BoolParam ''clearMemory'' clearMemory))"

definition PublishExitHibernateEvent :: "notify_state \<Rightarrow> bool \<Rightarrow> published option" where
  "PublishExitHibernateEvent n clearMemory =
    (if \<not> exitHibernateWant n then None
     else PublishEvents n True ''COMMON_EVENT_EXIT_HIBERNATE'' (BoolParam ''clearMemory'' clearMemory))"

definition PublishCustomizedEvent :: "string \<Rightarrow> want_param \<Rightarrow> published" where
  "PublishCustomizedEvent name p =
     \<lparr>action = name, param = p, subscriberPermissions = [''ohos.permission.POWER_MANAGER'']\<rparr>"

text \<open>Once registered with memory available, the events of the screen are published unless screens are decoupled.\<close>

lemma registered_events_published:
  assumes "\<forall>i. allocated i"
  shows "PublishScreenOffEvents B (RegisterPublishEvents B allocated new_notify) reason =
      (if screenDecoupling B then None
       else Some \<lparr>action = ''COMMON_EVENT_SCREEN_OFF'', param = TextParam ''reason'' reason, subscriberPermissions = []\<rparr>)"
    and "PublishEnterForceSleepEvents (RegisterPublishEvents B allocated new_notify) =
      (if forceSleepBroadcast B
       then Some \<lparr>action = ''COMMON_EVENT_ENTER_FORCE_SLEEP'', param = NoParam, subscriberPermissions = []\<rparr> else None)"
  using assms
  by (auto simp: PublishScreenOffEvents_def RegisterPublishEvents_def PublishEnterForceSleepEvents_def PublishEvents_def
      new_notify_def)

text \<open>If the first allocation fails, a second registration makes everything anew; if another fails, no registration helps.\<close>

lemma lost_want_stays_lost:
  "publishInfo n \<Longrightarrow> \<not> screenOffWant n \<Longrightarrow> PublishScreenOffEvents B (RegisterPublishEvents B allocated n) reason = None"
  by (simp add: RegisterPublishEvents_def PublishScreenOffEvents_def)


end
