(* ===== verification/Js_Bindings.thy ===== *)
theory Js_Bindings
  imports Power_Client
begin

text \<open>
  The bindings for JavaScript, \<open>frameworks/napi\<close>: checks of the arguments, their conversion, the call of the client library and
  the exception, promise or callback that reports the answer.  The Node-API itself belongs to another project; a
  value is a constructor of \<open>js_value\<close>, its calls do not fail, and numbers are whole numbers, which it cuts to the width
  asked for; functions of scripts return undefined.  Asynchronous work is queued as a value of \<open>napi_work\<close> and run by \<open>run_work\<close>.
\<close>

section \<open>Values\<close>

text \<open>The lock behind a JavaScript object: one of the client library, or the object that stands for an unsupported type.\<close>

datatype js_lock = ServiceLock nat | InvalidLock RunningLockType

datatype js_value =
    JsUndefined
  | JsNull
  | JsBool bool
  | JsNumber int
  | JsString string
  | JsFunction nat
  | JsObject "js_lock option"

datatype napi_valuetype =
  napi_undefined | napi_null | napi_boolean | napi_number | napi_string | napi_function | napi_object

primrec napi_typeof :: "js_value \<Rightarrow> napi_valuetype" where
  "napi_typeof JsUndefined = napi_undefined"
| "napi_typeof JsNull = napi_null"
| "napi_typeof (JsBool b) = napi_boolean"
| "napi_typeof (JsNumber n) = napi_number"
| "napi_typeof (JsString s) = napi_string"
| "napi_typeof (JsFunction f) = napi_function"
| "napi_typeof (JsObject l) = napi_object"

definition CheckValueType :: "js_value \<Rightarrow> napi_valuetype \<Rightarrow> bool" where
  "CheckValueType v t = (napi_typeof v = t)"

text \<open>Arguments that were not passed are undefined.\<close>

definition js_arg :: "js_value list \<Rightarrow> nat \<Rightarrow> js_value" where
  "js_arg argv i = (if i < length argv then argv ! i else JsUndefined)"

definition until_zero :: "string \<Rightarrow> string" where
  "until_zero s = takeWhile (\<lambda>c. c \<noteq> CHR 0x00) s"

text \<open>At most the given number of bytes less one; read as a C string, up to the first zero.\<close>

definition napi_string_utf8 :: "nat \<Rightarrow> js_value \<Rightarrow> string option" where
  "napi_string_utf8 bufsize v = (case v of
       JsString s \<Rightarrow> Some (until_zero (take (bufsize - 1) s))
     | _ \<Rightarrow> None)"

definition MAX_SIZE :: nat where "MAX_SIZE = 255"

definition GetStringFromNapi :: "js_value \<Rightarrow> string" where
  "GetStringFromNapi v = (case napi_string_utf8 (MAX_SIZE - 1) v of None \<Rightarrow> [] | Some s \<Rightarrow> s)"

definition napi_bool :: "js_value \<Rightarrow> bool \<Rightarrow> bool" where
  "napi_bool v start = (case v of JsBool b \<Rightarrow> b | _ \<Rightarrow> start)"

definition napi_int32 :: "js_value \<Rightarrow> int option" where
  "napi_int32 v = (case v of JsNumber n \<Rightarrow> Some (wrap32 n) | _ \<Rightarrow> None)"

definition napi_uint32 :: "js_value \<Rightarrow> nat option" where
  "napi_uint32 v = (case v of JsNumber n \<Rightarrow> Some (nat (n mod 2 ^ 32)) | _ \<Rightarrow> None)"

definition napi_int64 :: "js_value \<Rightarrow> int option" where
  "napi_int64 v = (case v of JsNumber n \<Rightarrow> Some (max (- (2 ^ 63)) (min (2 ^ 63 - 1) n)) | _ \<Rightarrow> None)"

section \<open>Errors\<close>

text \<open>The text of an error, by its number; no text for the others.\<close>

definition GetErrorMessage :: "int \<Rightarrow> string" where
  "GetErrorMessage code = (case map_of [
     (PowerErrors_val ERR_CONNECTION_FAIL, ''Failed to connect to the service.''),
     (PowerErrors_val ERR_PERMISSION_DENIED, ''Permission is denied''),
     (PowerErrors_val ERR_SYSTEM_API_DENIED, ''System permission is denied''),
     (PowerErrors_val ERR_ENTERPRISE_POLICIES_DENIED, ''This function is prohibited by enterprise management policies.''),
     (PowerErrors_val ERR_PARAM_INVALID, ''Invalid input parameter.''),
     (PowerErrors_val ERR_FREQUENT_FUNCTION_CALL, ''Frequent function calls.''),
     (PowerErrors_val ERR_POWER_MODE_TRANSIT_FAILED, ''Setting the power mode failed.''),
     (PowerErrors_val ERR_READ_OPERATION_FAILED, ''Read operation failed.''),
     (PowerErrors_val ERR_USER_PARAM_INVALID, ''Invalid parameter''),
     (PowerErrors_val ERR_WRITE_OPERATION_FAILED, ''Write operation failed.''),
     (PowerErrors_val ERR_SCREEN_OFF_BLOCKED, ''Screen-off is blocked by a registered strategy.''),
     (PowerErrors_val ERR_CAPABILITY_NOT_SUPPORTED, ''Capability not supported.'')] code of
       None \<Rightarrow> [] | Some s \<Rightarrow> s)"

text \<open>An error object: its code and its message.\<close>

type_synonym js_error = "int \<times> string"

text \<open>\<open>ERR_FAILURE\<close> does not count as an error.\<close>

definition IsError :: "int \<Rightarrow> bool" where
  "IsError code \<longleftrightarrow> code \<noteq> PowerErrors_val ERR_OK \<and> code \<noteq> PowerErrors_val ERR_FAILURE"

text \<open>What \<open>GetNapiError\<close> makes of a code: an error object, or the value undefined (\<open>None\<close>).\<close>

definition GetNapiError :: "int \<Rightarrow> js_error option" where
  "GetNapiError code = (if IsError code then Some (code, GetErrorMessage code) else None)"

text \<open>Work that is queued: what it does, and the callback that is called at its end if there is one.\<close>

datatype napi_work =
    WorkMode nat "nat option"
  | WorkSubMode nat int
  | WorkCreate string RunningLockType "nat option"
  | WorkIsScreenOn "nat option"
  | WorkLegacyCreate string RunningLockType "nat option"
  | WorkLegacySupported RunningLockType "nat option"

text \<open>
  What a function does at once: it returns a value (a null pointer is undefined), throws an error object or the value
  undefined, fails an assertion, queues work and returns its promise, or queues work and returns undefined.
\<close>

datatype js_result =
    JsReturn js_value
  | JsThrow "js_error option"
  | JsAssert string
  | JsPromise napi_work
  | JsQueued napi_work

abbreviation js_nothing :: js_result where
  "js_nothing \<equiv> JsReturn JsUndefined"

text \<open>\<open>ThrowError\<close> throws whatever \<open>GetNapiError\<close> makes of the code.\<close>

definition ThrowError :: "int \<Rightarrow> js_result" where
  "ThrowError code = JsThrow (GetNapiError code)"

abbreviation throw_power :: "PowerErrors \<Rightarrow> js_result" where
  "throw_power e \<equiv> ThrowError (PowerErrors_val e)"

definition throw_unless_ok :: "int \<Rightarrow> js_result" where
  "throw_unless_ok code = (if code \<noteq> PowerErrors_val ERR_OK then ThrowError code else js_nothing)"

definition invalid_param :: "js_result C" where
  "invalid_param = State_Monad.return (throw_power ERR_PARAM_INVALID)"

section \<open>Power\<close>

definition SetFrameworkBootStage :: "cenv \<Rightarrow> bool \<Rightarrow> unit C" where
  "SetFrameworkBootStage K isReboot = do {
     fd \<leftarrow> cask K OpenBbox;
     whenM fd (do {
       ok \<leftarrow> cask K (IoctlSetReboot (if isReboot then 1 else 0));
       whenM ok (clog_call (IoctlShutStage ''SHUT_STAGE_FRAMEWORK_START''));
       clog_call CloseBbox }) }"

definition Napi_RebootOrShutdown :: "env \<Rightarrow> cenv \<Rightarrow> bool \<Rightarrow> js_value list \<Rightarrow> js_result C" where
  "Napi_RebootOrShutdown E K isReboot argv = do {
     SetFrameworkBootStage K isReboot;
     if length argv \<noteq> 1 \<or> \<not> CheckValueType (js_arg argv 0) napi_string then invalid_param
     else do {
       let reason = GetStringFromNapi (js_arg argv 0);
       code \<leftarrow> (if isReboot then Client_RebootDevice E K reason else Client_ShutDownDevice E K reason);
       State_Monad.return (if code \<noteq> ERR_OK \<and> code \<noteq> ERR_SKIP_FUNCTION_CALL then throw_power code else js_nothing) } }"

definition Napi_Shutdown :: "env \<Rightarrow> cenv \<Rightarrow> js_value list \<Rightarrow> js_result C" where
  "Napi_Shutdown E K argv = Napi_RebootOrShutdown E K False argv"

definition Napi_Reboot :: "env \<Rightarrow> cenv \<Rightarrow> js_value list \<Rightarrow> js_result C" where
  "Napi_Reboot E K argv = Napi_RebootOrShutdown E K True argv"

definition Napi_IsActive :: "env \<Rightarrow> cenv \<Rightarrow> js_result C" where
  "Napi_IsActive E K = do { isScreen \<leftarrow> Client_IsScreenOn E K; State_Monad.return (JsReturn (JsBool isScreen)) }"

definition Napi_Wakeup :: "env \<Rightarrow> cenv \<Rightarrow> js_value list \<Rightarrow> js_result C" where
  "Napi_Wakeup E K argv =
    (if length argv \<noteq> 1 \<or> \<not> CheckValueType (js_arg argv 0) napi_string then invalid_param
     else do {
       code \<leftarrow> Client_WakeupDevice E K WAKEUP_DEVICE_APPLICATION (GetStringFromNapi (js_arg argv 0));
       State_Monad.return (throw_unless_ok (PowerErrors_val code)) })"

text \<open>The test of \<open>Suspend\<close> and \<open>Hibernate\<close> for a boolean, which lets through what cannot be read as a string.\<close>

definition not_a_flag :: "js_value list \<Rightarrow> bool" where
  "not_a_flag argv \<longleftrightarrow> (length argv \<noteq> 1 \<or> \<not> CheckValueType (js_arg argv 0) napi_boolean) \<and>
     \<not> CheckValueType (js_arg argv 0) napi_undefined \<and> GetStringFromNapi (js_arg argv 0) \<noteq> []"

definition Napi_Suspend :: "env \<Rightarrow> cenv \<Rightarrow> js_value list \<Rightarrow> js_result C" where
  "Napi_Suspend E K argv =
    (if not_a_flag argv then invalid_param
     else if napi_bool (js_arg argv 0) False
     then do { code \<leftarrow> Client_ForceSuspendDevice E K; State_Monad.return (throw_unless_ok code) }
     else do {
       code \<leftarrow> Client_SuspendDevice E K SUSPEND_DEVICE_REASON_APPLICATION False;
       State_Monad.return (throw_unless_ok (PowerErrors_val code)) })"

definition Napi_Hibernate :: "env \<Rightarrow> cenv \<Rightarrow> js_value list \<Rightarrow> js_result C" where
  "Napi_Hibernate E K argv =
    (if not_a_flag argv then invalid_param
     else do {
       code \<leftarrow> Client_Hibernate E K (napi_bool (js_arg argv 0) False) [];
       State_Monad.return (throw_unless_ok code) })"

text \<open>\<open>SetMode\<close> and \<open>SetSubMode\<close> of the data, for values that were checked to be numbers.\<close>

definition js_mode :: "js_value \<Rightarrow> nat" where
  "js_mode v = (case napi_uint32 v of None \<Rightarrow> 0 | Some n \<Rightarrow> n)"

definition js_sub_mode :: "js_value \<Rightarrow> int" where
  "js_sub_mode v = (case napi_uint32 v of None \<Rightarrow> 0 | Some n \<Rightarrow> wrap32 (int n))"

definition Napi_SetPowerSubMode :: "js_value list \<Rightarrow> js_result C" where
  "Napi_SetPowerSubMode argv =
    (if length argv < 2 \<or> length argv > 2 then invalid_param
     else if \<not> CheckValueType (js_arg argv 0) napi_number then invalid_param
     else if \<not> CheckValueType (js_arg argv 1) napi_number then invalid_param
     else State_Monad.return (JsPromise (WorkSubMode (js_mode (js_arg argv 0)) (js_sub_mode (js_arg argv 1)))))"

definition Napi_SetPowerModeCallback :: "js_value list \<Rightarrow> js_result C" where
  "Napi_SetPowerModeCallback argv = (case js_arg argv 1 of
       JsFunction f \<Rightarrow>
         if \<not> CheckValueType (js_arg argv 0) napi_number then invalid_param
         else State_Monad.return (JsQueued (WorkMode (js_mode (js_arg argv 0)) (Some f)))
     | _ \<Rightarrow> invalid_param)"

definition Napi_SetPowerModePromise :: "js_value list \<Rightarrow> js_result C" where
  "Napi_SetPowerModePromise argv =
    (if \<not> CheckValueType (js_arg argv 0) napi_number then invalid_param
     else State_Monad.return (JsPromise (WorkMode (js_mode (js_arg argv 0)) None)))"

definition Napi_SetPowerMode :: "js_value list \<Rightarrow> js_result C" where
  "Napi_SetPowerMode argv =
    (if length argv \<noteq> 2 \<and> length argv \<noteq> 1 then invalid_param
     else if length argv = 2 \<and> CheckValueType (js_arg argv 1) napi_number then Napi_SetPowerSubMode argv
     else if length argv = 2 then Napi_SetPowerModeCallback argv
     else Napi_SetPowerModePromise argv)"

definition Napi_GetPowerMode :: "cenv \<Rightarrow> js_result C" where
  "Napi_GetPowerMode K = do { mode \<leftarrow> Client_GetDeviceMode K; State_Monad.return (JsReturn (JsNumber (int mode))) }"

definition Napi_GetPowerSubMode :: "cenv \<Rightarrow> js_result C" where
  "Napi_GetPowerSubMode K = do { subMode \<leftarrow> Client_GetDeviceSubMode K; State_Monad.return (JsReturn (JsNumber subMode)) }"

definition Napi_GetPowerConfig :: "env \<Rightarrow> cenv \<Rightarrow> js_value list \<Rightarrow> js_result C" where
  "Napi_GetPowerConfig E K argv =
    (if length argv \<noteq> 1 \<or> \<not> CheckValueType (js_arg argv 0) napi_string then invalid_param
     else do {
       r \<leftarrow> Client_GetPowerConfig E K (GetStringFromNapi (js_arg argv 0));
       State_Monad.return (if fst r \<noteq> ERR_OK then throw_power (fst r)
         else JsReturn (JsString (until_zero (case snd r of None \<Rightarrow> [] | Some s \<Rightarrow> s)))) })"

definition Napi_SetPowerConfig :: "env \<Rightarrow> cenv \<Rightarrow> js_value list \<Rightarrow> js_result C" where
  "Napi_SetPowerConfig E K argv =
    (if length argv \<noteq> 2 \<or> \<not> CheckValueType (js_arg argv 0) napi_string \<or> \<not> CheckValueType (js_arg argv 1) napi_string
     then invalid_param
     else do {
       code \<leftarrow> Client_SetPowerConfig E K (GetStringFromNapi (js_arg argv 0)) (GetStringFromNapi (js_arg argv 1));
       State_Monad.return (throw_unless_ok (PowerErrors_val code)) })"

definition RESTORE_DEFAULT_SCREENOFF_TIME :: int where "RESTORE_DEFAULT_SCREENOFF_TIME = -1"

definition Napi_SetScreenOffTime :: "env \<Rightarrow> cenv \<Rightarrow> js_value list \<Rightarrow> js_result C" where
  "Napi_SetScreenOffTime E K argv =
    (if length argv \<noteq> 1 \<or> \<not> CheckValueType (js_arg argv 0) napi_number then invalid_param
     else case napi_int64 (js_arg argv 0) of
       None \<Rightarrow> invalid_param
     | Some timeout \<Rightarrow>
         if timeout = 0 \<or> (timeout < 0 \<and> timeout \<noteq> RESTORE_DEFAULT_SCREENOFF_TIME) then invalid_param
         else do {
           code \<leftarrow> (if timeout = RESTORE_DEFAULT_SCREENOFF_TIME then Client_RestoreScreenOffTime E K
              else Client_OverrideScreenOffTime E K timeout);
           State_Monad.return (throw_unless_ok (PowerErrors_val code)) })"

definition Napi_IsStandby :: "env \<Rightarrow> cenv \<Rightarrow> js_result C" where
  "Napi_IsStandby E K = do {
     r \<leftarrow> Client_IsStandby E K;
     State_Monad.return (if fst r = ERR_OK then JsReturn (JsBool (case snd r of None \<Rightarrow> False | Some b \<Rightarrow> b))
       else throw_power (fst r)) }"

definition Napi_RefreshActivity :: "env \<Rightarrow> cenv \<Rightarrow> js_value list \<Rightarrow> js_result C" where
  "Napi_RefreshActivity E K argv =
    (if length argv \<noteq> 1 \<or> \<not> CheckValueType (js_arg argv 0) napi_string then invalid_param
     else do {
       code \<leftarrow> Client_RefreshActivityReason E K USER_ACTIVITY_TYPE_APPLICATION;
       State_Monad.return (throw_unless_ok (PowerErrors_val code)) })"

definition Napi_SetPowerKeyFilteringStrategy :: "env \<Rightarrow> cenv \<Rightarrow> js_value list \<Rightarrow> js_result C" where
  "Napi_SetPowerKeyFilteringStrategy E K argv =
    (if length argv \<noteq> 1 \<or> \<not> CheckValueType (js_arg argv 0) napi_number then invalid_param
     else case napi_int32 (js_arg argv 0) of
       None \<Rightarrow> invalid_param
     | Some strategy \<Rightarrow>
         if strategy < 0 \<or> strategy \<ge> 2 then invalid_param
         else do {
           code \<leftarrow> Client_SetPowerKeyFilteringStrategy E K
             (if strategy = 0 then DISABLE_LONG_PRESS_FILTERING else LONG_PRESS_FILTERING_ONCE);
           State_Monad.return (throw_unless_ok (PowerErrors_val code)) })"

section \<open>The callback for shutdown\<close>

text \<open>
  The object \<open>g_powerShutdownCallback\<close> of a thread, the events posted to its event loop and the functions called
  there.  The client process is the field \<open>native\<close>.
\<close>

record js_thread =
  native :: cworld
  callbackRef :: "nat option"
  callbackEnv :: bool  \<comment> \<open>\<open>env_\<close> is not null\<close>
  isRebootFlag :: bool
  jsEvents :: nat
  jsCalls :: "(nat \<times> js_value list) list"

type_synonym 'a J = "(js_thread, 'a) state"

definition in_client :: "'a C \<Rightarrow> 'a J" where
  "in_client m = do {
     r \<leftarrow> gets (\<lambda>t. Prelude.result m (native t));
     modify (\<lambda>t. t\<lparr>native := exec m (native t)\<rparr>);
     State_Monad.return r }"

definition js_call :: "nat \<Rightarrow> js_value list \<Rightarrow> unit J" where
  "js_call f args = modify (\<lambda>t. t\<lparr>jsCalls := (f, args) # jsCalls t\<rparr>)"

definition Napi_ReleaseCallback :: "unit J" where
  "Napi_ReleaseCallback = modify (\<lambda>t. t\<lparr>callbackRef := None, callbackEnv := False\<rparr>)"

definition Napi_CreateCallback :: "nat \<Rightarrow> unit J" where
  "Napi_CreateCallback f = modify (\<lambda>t. t\<lparr>callbackRef := Some f, callbackEnv := True\<rparr>)"

text \<open>The call of the service: post an event to the thread and wait for it, at most \<open>SHUTDOWN_CALLBACK_TIMEOUT\<close>.\<close>

definition Napi_OnAsyncShutdownOrReboot :: "bool \<Rightarrow> bool \<Rightarrow> unit J" where
  "Napi_OnAsyncShutdownOrReboot posted isReboot = do {
     modify (\<lambda>t. t\<lparr>isRebootFlag := isReboot\<rparr>);
     e \<leftarrow> gets callbackEnv;
     whenM (e \<and> posted) (modify (\<lambda>t. t\<lparr>jsEvents := Suc (jsEvents t)\<rparr>)) }"

definition Napi_OnShutdownOrReboot :: "unit J" where
  "Napi_OnShutdownOrReboot = do {
     t \<leftarrow> gets (\<lambda>t. t);
     case callbackRef t of
       None \<Rightarrow> skip
     | Some f \<Rightarrow> if \<not> callbackEnv t then skip else js_call f [JsBool (isRebootFlag t)] }"

text \<open>The event loop of the thread takes an event.\<close>

definition Napi_TakeEvent :: "unit J" where
  "Napi_TakeEvent = do {
     n \<leftarrow> gets jsEvents;
     whenM (n > 0) (do {
       modify (\<lambda>t. t\<lparr>jsEvents := n - 1\<rparr>);
       Napi_OnShutdownOrReboot }) }"

text \<open>\<open>stub\<close> is the object that the service calls.\<close>

definition Napi_RegisterShutdownCallback :: "env \<Rightarrow> cenv \<Rightarrow> obj \<Rightarrow> js_value list \<Rightarrow> js_result J" where
  "Napi_RegisterShutdownCallback E K stub argv =
    (case js_arg argv 0 of
       JsFunction f \<Rightarrow>
         if length argv \<noteq> 1 then State_Monad.return (throw_power ERR_PARAM_INVALID)
         else do {
           Napi_ReleaseCallback;
           Napi_CreateCallback f;
           code \<leftarrow> in_client (Client_RegisterAsyncShutdownCallback E K (Some stub) SHUTDOWN_DEFAULT);
           State_Monad.return (throw_unless_ok (PowerErrors_val code)) }
     | _ \<Rightarrow> State_Monad.return (throw_power ERR_PARAM_INVALID))"

text \<open>The arguments are looked at only when the callback is gone.\<close>

definition Napi_UnRegisterShutdownCallback :: "env \<Rightarrow> cenv \<Rightarrow> obj \<Rightarrow> js_value list \<Rightarrow> js_result J" where
  "Napi_UnRegisterShutdownCallback E K stub argv = do {
     Napi_ReleaseCallback;
     code \<leftarrow> in_client (Client_UnRegisterAsyncShutdownCallback E K (Some stub));
     if code \<noteq> ERR_OK then State_Monad.return (throw_power code)
     else if argv = [] then State_Monad.return js_nothing
     else if length argv = 1 \<and> CheckValueType (js_arg argv 0) napi_undefined then State_Monad.return js_nothing
     else case js_arg argv 0 of
       JsFunction f \<Rightarrow>
         if length argv \<noteq> 1 then State_Monad.return (throw_power ERR_PARAM_INVALID)
         else do { js_call f []; State_Monad.return js_nothing }
     | _ \<Rightarrow> State_Monad.return (throw_power ERR_PARAM_INVALID) }"

section \<open>Running locks\<close>

text \<open>\<open>RunningLockType\<close> of a signed number: the cast of an \<open>int32_t\<close>.\<close>

definition js_lock_type :: "js_value \<Rightarrow> RunningLockType" where
  "js_lock_type v = (case napi_int32 v of None \<Rightarrow> RUNNINGLOCK_BUTT
   | Some n \<Rightarrow> RunningLockType_of (nat (n mod 2 ^ 32)))"

text \<open>\<open>SetName\<close> and \<open>SetType\<close> are \<open>GetStringFromNapi\<close> and \<open>js_lock_type\<close>.  The object for an unsupported type has no proxy.\<close>

definition AsyncData_CreateRunningLock :: "env \<Rightarrow> cenv \<Rightarrow> string \<Rightarrow> RunningLockType \<Rightarrow> (PowerErrors \<times> js_lock option) C" where
  "AsyncData_CreateRunningLock E K name type = do {
     unsupported \<leftarrow> (if type = RUNNINGLOCK_BACKGROUND_USER_IDLE
       then do { s \<leftarrow> Client_IsRunningLockTypeSupported E K type; State_Monad.return (\<not> s) }
       else State_Monad.return False);
     if unsupported then State_Monad.return (ERR_OK, Some (InvalidLock type))
     else do {
       runningLock \<leftarrow> Client_CreateRunningLock E K name type RUNNINGLOCK_DISPLAY_ID_ALL;
       error \<leftarrow> Client_GetError;
       State_Monad.return (if runningLock = None then error else ERR_OK, map_option ServiceLock runningLock) } }"

text \<open>The instance of the class: a null pointer (\<open>None\<close>) without a lock.\<close>

definition CreateInstanceForRunningLock :: "js_lock option \<Rightarrow> js_value option" where
  "CreateInstanceForRunningLock l = (case l of None \<Rightarrow> None | Some k \<Rightarrow> Some (JsObject (Some k)))"

definition Napi_Create :: "js_value list \<Rightarrow> js_result" where
  "Napi_Create argv =
    (if length argv \<noteq> 3 \<and> length argv \<noteq> 2 then throw_power ERR_PARAM_INVALID
     else if \<not> CheckValueType (js_arg argv 0) napi_string \<or> \<not> CheckValueType (js_arg argv 1) napi_number
     then throw_power ERR_PARAM_INVALID
     else let name = GetStringFromNapi (js_arg argv 0); type = js_lock_type (js_arg argv 1) in
       if length argv = 3 then (case js_arg argv 2 of
           JsFunction f \<Rightarrow> JsQueued (WorkCreate name type (Some f))
         | _ \<Rightarrow> throw_power ERR_PARAM_INVALID)
       else JsPromise (WorkCreate name type None))"

definition Napi_IsSupported :: "env \<Rightarrow> cenv \<Rightarrow> js_value list \<Rightarrow> js_result C" where
  "Napi_IsSupported E K argv =
    (if length argv \<noteq> 1 \<or> \<not> CheckValueType (js_arg argv 0) napi_number then invalid_param
     else let type = js_lock_type (js_arg argv 0) in
       if type = RUNNINGLOCK_BACKGROUND \<or> type = RUNNINGLOCK_PROXIMITY_SCREEN_CONTROL
       then State_Monad.return (JsReturn (JsBool True))
       else if type = RUNNINGLOCK_BACKGROUND_USER_IDLE
       then do { s \<leftarrow> Client_IsRunningLockTypeSupported E K type; State_Monad.return (JsReturn (JsBool s)) }
       else State_Monad.return (JsReturn (JsBool False)))"

text \<open>\<open>UnwrapRunningLock\<close>: the lock behind an object of the script.\<close>

definition lock_behind :: "js_lock \<Rightarrow> RunningLockObj option C" where
  "lock_behind l = (case l of
       ServiceLock k \<Rightarrow> gets (\<lambda>w. lockObjects (cli w) k)
     | InvalidLock type \<Rightarrow> State_Monad.return (Some \<lparr>lockProxy = None, lockToken = 0,
         objInfo = \<lparr>infoName = ''InvalidLock'', infoType = type, infoBundleName = '''', infoPid = 0, infoUid = 0,
           infoDisplayId = RUNNINGLOCK_DISPLAY_ID_ALL\<rparr>\<rparr>))"

definition UnwrapRunningLock :: "js_value \<Rightarrow> RunningLockObj option C" where
  "UnwrapRunningLock thisArg = (case thisArg of JsObject (Some l) \<Rightarrow> lock_behind l | _ \<Rightarrow> State_Monad.return None)"

definition denied_or_nothing :: "ErrCode \<Rightarrow> js_result" where
  "denied_or_nothing code = (if code = E_PERMISSION_DENIED then throw_power ERR_PERMISSION_DENIED else js_nothing)"

definition Napi_Hold :: "env \<Rightarrow> cenv \<Rightarrow> js_value \<Rightarrow> js_value list \<Rightarrow> js_result C" where
  "Napi_Hold E K thisArg argv =
    (if length argv \<noteq> 1 \<or> \<not> CheckValueType (js_arg argv 0) napi_number then invalid_param
     else case napi_int32 (js_arg argv 0) of
       None \<Rightarrow> State_Monad.return js_nothing
     | Some timeOut \<Rightarrow> do {
         l \<leftarrow> UnwrapRunningLock thisArg;
         case l of
           None \<Rightarrow> State_Monad.return js_nothing
         | Some l \<Rightarrow> do { code \<leftarrow> RunningLock_Lock E K l timeOut; State_Monad.return (denied_or_nothing code) } })"

definition Napi_IsHolding :: "cenv \<Rightarrow> js_value \<Rightarrow> js_result C" where
  "Napi_IsHolding K thisArg = do {
     l \<leftarrow> UnwrapRunningLock thisArg;
     case l of
       None \<Rightarrow> State_Monad.return js_nothing
     | Some l \<Rightarrow> do { isUsed \<leftarrow> RunningLock_IsUsed K l; State_Monad.return (JsReturn (JsBool isUsed)) } }"

definition Napi_UnHold :: "env \<Rightarrow> cenv \<Rightarrow> js_value \<Rightarrow> js_result C" where
  "Napi_UnHold E K thisArg = do {
     l \<leftarrow> UnwrapRunningLock thisArg;
     case l of
       None \<Rightarrow> State_Monad.return js_nothing
     | Some l \<Rightarrow> do { code \<leftarrow> RunningLock_UnLock E K l; State_Monad.return (denied_or_nothing code) } }"

section \<open>The interfaces deprecated since version 9\<close>

text \<open>They report nothing but wrong arguments, and those with \<open>NAPI_ASSERT\<close>.\<close>

definition cb_info_failed :: string where "cb_info_failed = ''Failed to get cb info''"

definition REASON_MAX :: nat where "REASON_MAX = 512"

definition Power_RebootOrShutdown :: "env \<Rightarrow> cenv \<Rightarrow> bool \<Rightarrow> js_value list \<Rightarrow> js_result C" where
  "Power_RebootOrShutdown E K isReboot argv =
    (if length argv < 1 then State_Monad.return (JsAssert cb_info_failed)
     else case napi_string_utf8 (REASON_MAX - 1) (js_arg argv 0) of
       None \<Rightarrow> State_Monad.return (JsAssert ''Wrong argument type. string expected.'')
     | Some reason \<Rightarrow> do {
         _ \<leftarrow> (if isReboot then Client_RebootDeviceForDeprecated E K reason else Client_ShutDownDevice E K reason);
         State_Monad.return js_nothing })"

definition Power_ShutdownDevice :: "env \<Rightarrow> cenv \<Rightarrow> js_value list \<Rightarrow> js_result C" where
  "Power_ShutdownDevice E K argv = Power_RebootOrShutdown E K False argv"

definition Power_RebootDevice :: "env \<Rightarrow> cenv \<Rightarrow> js_value list \<Rightarrow> js_result C" where
  "Power_RebootDevice E K argv = Power_RebootOrShutdown E K True argv"

definition Power_IsScreenOn :: "js_value list \<Rightarrow> js_result" where
  "Power_IsScreenOn argv =
    (if length argv = 1 then (case js_arg argv 0 of
         JsFunction f \<Rightarrow> JsQueued (WorkIsScreenOn (Some f))
       | _ \<Rightarrow> js_nothing)
     else JsPromise (WorkIsScreenOn None))"

definition Power_WakeupDevice :: "env \<Rightarrow> cenv \<Rightarrow> js_value list \<Rightarrow> js_result C" where
  "Power_WakeupDevice E K argv =
    (if length argv < 1 then State_Monad.return (JsAssert cb_info_failed)
     else case napi_string_utf8 (REASON_MAX - 1) (js_arg argv 0) of
       None \<Rightarrow> State_Monad.return (JsAssert ''Wrong argument type. string expected.'')
     | Some reason \<Rightarrow> do {
         _ \<leftarrow> Client_WakeupDevice E K WAKEUP_DEVICE_APPLICATION reason;
         State_Monad.return js_nothing })"

definition Power_SuspendDevice :: "env \<Rightarrow> cenv \<Rightarrow> js_result C" where
  "Power_SuspendDevice E K = do {
     _ \<leftarrow> Client_SuspendDevice E K SUSPEND_DEVICE_REASON_APPLICATION False;
     State_Monad.return js_nothing }"

definition RUNNINGLOCK_NAME_MAX :: nat where "RUNNINGLOCK_NAME_MAX = 512"

definition Legacy_CreateRunningLock :: "js_value list \<Rightarrow> js_result" where
  "Legacy_CreateRunningLock argv =
    (if length argv < 2 then JsAssert cb_info_failed
     else case napi_string_utf8 RUNNINGLOCK_NAME_MAX (js_arg argv 0) of
       None \<Rightarrow> JsAssert ''The input parameter type is not string''
     | Some name \<Rightarrow>
         if \<not> CheckValueType (js_arg argv 1) napi_number then JsAssert ''The input parameter type is not number''
         else let type = js_lock_type (js_arg argv 1) in
           if length argv = 3 then (case js_arg argv 2 of
               JsFunction f \<Rightarrow> JsQueued (WorkLegacyCreate name type (Some f))
             | _ \<Rightarrow> JsAssert ''The input parameter type is not function'')
           else JsPromise (WorkLegacyCreate name type None))"

definition Legacy_IsRunningLockTypeSupported :: "js_value list \<Rightarrow> js_result" where
  "Legacy_IsRunningLockTypeSupported argv =
    (if length argv < 1 then JsAssert cb_info_failed
     else if \<not> CheckValueType (js_arg argv 0) napi_number then JsAssert ''The input parameter type is not number''
     else let type = js_lock_type (js_arg argv 0) in
       if length argv = 2 then (case js_arg argv 1 of
           JsFunction f \<Rightarrow> JsQueued (WorkLegacySupported type (Some f))
         | _ \<Rightarrow> JsAssert ''The input parameter type is not function'')
       else JsPromise (WorkLegacySupported type None))"

definition Legacy_Lock :: "env \<Rightarrow> cenv \<Rightarrow> js_value \<Rightarrow> js_value list \<Rightarrow> js_result C" where
  "Legacy_Lock E K thisArg argv =
    (if length argv < 1 then State_Monad.return (JsAssert cb_info_failed)
     else case napi_int32 (js_arg argv 0) of
       None \<Rightarrow> State_Monad.return (JsAssert ''Wrong argument type. number expected.'')
     | Some timeOut \<Rightarrow> do {
         l \<leftarrow> UnwrapRunningLock thisArg;
         case l of
           None \<Rightarrow> State_Monad.return js_nothing
         | Some l \<Rightarrow> do { _ \<leftarrow> RunningLock_Lock E K l timeOut; State_Monad.return js_nothing } })"

definition Legacy_IsUsed :: "cenv \<Rightarrow> js_value \<Rightarrow> js_result C" where
  "Legacy_IsUsed K thisArg = do {
     l \<leftarrow> UnwrapRunningLock thisArg;
     case l of
       None \<Rightarrow> State_Monad.return (JsReturn (JsBool False))
     | Some l \<Rightarrow> do { isUsed \<leftarrow> RunningLock_IsUsed K l; State_Monad.return (JsReturn (JsBool isUsed)) } }"

definition Legacy_Unlock :: "env \<Rightarrow> cenv \<Rightarrow> js_value \<Rightarrow> js_result C" where
  "Legacy_Unlock E K thisArg = do {
     l \<leftarrow> UnwrapRunningLock thisArg;
     case l of
       None \<Rightarrow> State_Monad.return js_nothing
     | Some l \<Rightarrow> do { _ \<leftarrow> RunningLock_UnLock E K l; State_Monad.return js_nothing } }"

definition Legacy_IsTypeSupported :: "RunningLockType \<Rightarrow> bool" where
  "Legacy_IsTypeSupported type \<longleftrightarrow> type = RUNNINGLOCK_BACKGROUND \<or> type = RUNNINGLOCK_PROXIMITY_SCREEN_CONTROL"

section \<open>Queued work\<close>

text \<open>
  How work ends: the promise is resolved or rejected, or the callback is called with an error (\<open>None\<close> for undefined)
  and a result.  A result \<open>None\<close> is a null pointer, a message without a number an error that has no code.
\<close>

datatype js_failure = Failure js_error | FailureText string

datatype js_settlement =
    Resolve "js_value option"
  | Reject js_failure
  | CallBack nat "js_error option" "js_value option"

text \<open>The completion shared by the newer interfaces: by the error, with a result.\<close>

definition settle :: "nat option \<Rightarrow> PowerErrors \<Rightarrow> js_value option \<Rightarrow> js_settlement" where
  "settle callback code v = (case callback of
       Some f \<Rightarrow> CallBack f (GetNapiError (PowerErrors_val code)) v
     | None \<Rightarrow> (case GetNapiError (PowerErrors_val code) of
         Some e \<Rightarrow> Reject (Failure e)
       | None \<Rightarrow> Resolve v))"

definition run_SetMode :: "env \<Rightarrow> cenv \<Rightarrow> nat \<Rightarrow> nat option \<Rightarrow> js_settlement C" where
  "run_SetMode E K mode callback = do {
     code \<leftarrow> Client_SetDeviceMode E K mode;
     State_Monad.return (settle callback code (if callback = None then Some JsUndefined else None)) }"

definition run_SetSubMode :: "env \<Rightarrow> cenv \<Rightarrow> nat \<Rightarrow> int \<Rightarrow> js_settlement C" where
  "run_SetSubMode E K mode subMode = do {
     code \<leftarrow> Client_SetDeviceSubMode E K mode subMode;
     State_Monad.return (settle None code (Some JsUndefined)) }"

definition run_Create :: "env \<Rightarrow> cenv \<Rightarrow> string \<Rightarrow> RunningLockType \<Rightarrow> nat option \<Rightarrow> js_settlement C" where
  "run_Create E K name type callback = do {
     r \<leftarrow> AsyncData_CreateRunningLock E K name type;
     State_Monad.return (settle callback (fst r) (CreateInstanceForRunningLock (snd r))) }"

text \<open>The older completion: the callback is called with undefined for the error.\<close>

definition settle_legacy :: "nat option \<Rightarrow> js_value option \<Rightarrow> string \<Rightarrow> js_settlement" where
  "settle_legacy callback v message = (case callback of
       Some f \<Rightarrow> CallBack f None v
     | None \<Rightarrow> (case v of None \<Rightarrow> Reject (FailureText message) | Some x \<Rightarrow> Resolve (Some x)))"

definition IsScreenOnCallBack :: "env \<Rightarrow> cenv \<Rightarrow> nat option \<Rightarrow> js_settlement C" where
  "IsScreenOnCallBack E K callback = do {
     screenOn \<leftarrow> Client_IsScreenOn E K;
     State_Monad.return (settle_legacy callback (Some (JsBool screenOn)) []) }"

definition CreateRunningLockCallBack :: "env \<Rightarrow> cenv \<Rightarrow> string \<Rightarrow> RunningLockType \<Rightarrow> nat option \<Rightarrow> js_settlement C" where
  "CreateRunningLockCallBack E K name type callback = do {
     l \<leftarrow> (if Legacy_IsTypeSupported type then Client_CreateRunningLock E K name type RUNNINGLOCK_DISPLAY_ID_ALL else State_Monad.return None);
     State_Monad.return (settle_legacy callback (CreateInstanceForRunningLock (map_option ServiceLock l))
       ''runningLock create failed'') }"

definition IsRunningLockTypeSupportedCallBack :: "RunningLockType \<Rightarrow> nat option \<Rightarrow> js_settlement" where
  "IsRunningLockTypeSupportedCallBack type callback = settle_legacy callback (Some (JsBool (Legacy_IsTypeSupported type))) []"

primrec run_work :: "env \<Rightarrow> cenv \<Rightarrow> napi_work \<Rightarrow> js_settlement C" where
  "run_work E K (WorkMode mode callback) = run_SetMode E K mode callback"
| "run_work E K (WorkSubMode mode subMode) = run_SetSubMode E K mode subMode"
| "run_work E K (WorkCreate name type callback) = run_Create E K name type callback"
| "run_work E K (WorkIsScreenOn callback) = IsScreenOnCallBack E K callback"
| "run_work E K (WorkLegacyCreate name type callback) = CreateRunningLockCallBack E K name type callback"
| "run_work E K (WorkLegacySupported type callback) =
     State_Monad.return (IsRunningLockTypeSupportedCallBack type callback)"

text \<open>A function whose work, if it has any, is run to its end.\<close>

definition js_settle :: "env \<Rightarrow> cenv \<Rightarrow> js_result C \<Rightarrow> js_settlement option C" where
  "js_settle E K m = do {
     r \<leftarrow> m;
     case r of
       JsPromise work \<Rightarrow> do { s \<leftarrow> run_work E K work; State_Monad.return (Some s) }
     | JsQueued work \<Rightarrow> do { s \<leftarrow> run_work E K work; State_Monad.return (Some s) }
     | _ \<Rightarrow> State_Monad.return None }"

section \<open>Exported enumerations\<close>

definition DevicePowerMode :: "(string \<times> nat) list" where
  "DevicePowerMode = [(''MODE_NORMAL'', NORMAL_MODE), (''MODE_POWER_SAVE'', POWER_SAVE_MODE),
     (''MODE_PERFORMANCE'', PERFORMANCE_MODE), (''MODE_EXTREME_POWER_SAVE'', EXTREME_POWER_SAVE_MODE),
     (''MODE_CUSTOM_POWER_SAVE'', CUSTOM_POWER_SAVE_MODE)]"

definition DevicePowerSubMode :: "(string \<times> int) list" where
  "DevicePowerSubMode = [(''SUB_MODE_INVALID'', SUB_MODE_INVALID),
     (''SUB_MODE_SUPER_POWER_SAVE'', SUB_MODE_SUPER_POWER_SAVE), (''SUB_MODE_EMERGENCY'', SUB_MODE_EMERGENCY)]"

definition PowerKeyFilteringStrategies :: "(string \<times> nat) list" where
  "PowerKeyFilteringStrategies = [(''DISABLE_LONG_PRESS_FILTERING'', 0), (''LONG_PRESS_FILTERING_ONCE'', 1)]"

definition js_RunningLockType :: "(string \<times> nat) list" where
  "js_RunningLockType = map (apsnd RunningLockType_val) [(''BACKGROUND'', RUNNINGLOCK_BACKGROUND),
     (''PROXIMITY_SCREEN_CONTROL'', RUNNINGLOCK_PROXIMITY_SCREEN_CONTROL),
     (''BACKGROUND_USER_IDLE'', RUNNINGLOCK_BACKGROUND_USER_IDLE)]"

end
