(* ===== verification/Static_Bindings.thy ===== *)
theory Static_Bindings
  imports Js_Bindings
begin

text \<open>
  The bindings for statically typed ArkTS (\<open>frameworks/ets/taihe\<close>) and for Cangjie (\<open>frameworks/cj\<close>).  The code that converts
  arguments is generated: here they have their types.  A function of the former returns a value and the business error
  it sets, if any.  The table of objects that the latter hands out belongs to its run time; the number of a new object is an
  argument, absent when it cannot be made.
\<close>

section \<open>Statically typed ArkTS: power\<close>

type_synonym 'a ets = "js_error option \<times> 'a"

text \<open>The functions but three keep silent about \<open>ERR_FAILURE\<close>.\<close>

definition business_error :: "int \<Rightarrow> js_error option" where
  "business_error code = (if code \<noteq> PowerErrors_val ERR_OK \<and> code \<noteq> PowerErrors_val ERR_FAILURE
     then Some (code, GetErrorMessage code) else None)"

definition business_error_strict :: "int \<Rightarrow> js_error option" where
  "business_error_strict code = (if code \<noteq> PowerErrors_val ERR_OK then Some (code, GetErrorMessage code) else None)"

abbreviation ets_error :: "PowerErrors \<Rightarrow> unit ets" where
  "ets_error e \<equiv> (business_error (PowerErrors_val e), ())"

abbreviation ets_error_strict :: "PowerErrors \<Rightarrow> unit ets" where
  "ets_error_strict e \<equiv> (business_error_strict (PowerErrors_val e), ())"

definition Ets_Shutdown :: "env \<Rightarrow> cenv \<Rightarrow> string \<Rightarrow> unit ets C" where
  "Ets_Shutdown E K reason = do {
     SetFrameworkBootStage K False;
     code \<leftarrow> Client_ShutDownDevice E K reason;
     State_Monad.return (ets_error code) }"

definition Ets_Reboot :: "env \<Rightarrow> cenv \<Rightarrow> string \<Rightarrow> unit ets C" where
  "Ets_Reboot E K reason = do {
     SetFrameworkBootStage K True;
     code \<leftarrow> Client_RebootDevice E K reason;
     State_Monad.return (ets_error code) }"

definition Ets_IsActive :: "env \<Rightarrow> cenv \<Rightarrow> bool C" where
  "Ets_IsActive E K = Client_IsScreenOn E K"

definition Ets_Wakeup :: "env \<Rightarrow> cenv \<Rightarrow> string \<Rightarrow> unit ets C" where
  "Ets_Wakeup E K detail = do {
     code \<leftarrow> Client_WakeupDevice E K WAKEUP_DEVICE_APPLICATION detail;
     State_Monad.return (ets_error code) }"

definition Ets_Suspend :: "env \<Rightarrow> cenv \<Rightarrow> bool option \<Rightarrow> unit ets C" where
  "Ets_Suspend E K isImmediate = do {
     code \<leftarrow> (if (case isImmediate of None \<Rightarrow> False | Some b \<Rightarrow> b) then Client_ForceSuspendDevice E K
        else do {
          code \<leftarrow> Client_SuspendDevice E K SUSPEND_DEVICE_REASON_APPLICATION False;
          State_Monad.return (PowerErrors_val code) });
     State_Monad.return (business_error code, ()) }"

definition Ets_GetPowerMode :: "cenv \<Rightarrow> nat C" where
  "Ets_GetPowerMode K = do {
     mode \<leftarrow> Client_GetDeviceMode K;
     State_Monad.return (if mode = NORMAL_MODE then NORMAL_MODE
       else if mode = POWER_SAVE_MODE then POWER_SAVE_MODE
       else if mode = PERFORMANCE_MODE then PERFORMANCE_MODE
       else if mode = EXTREME_POWER_SAVE_MODE then EXTREME_POWER_SAVE_MODE
       else if mode = CUSTOM_POWER_SAVE_MODE then CUSTOM_POWER_SAVE_MODE
       else NORMAL_MODE) }"

definition Ets_SetPowerModeSync :: "env \<Rightarrow> cenv \<Rightarrow> nat \<Rightarrow> unit ets C" where
  "Ets_SetPowerModeSync E K mode = do { code \<leftarrow> Client_SetDeviceMode E K mode; State_Monad.return (ets_error code) }"

definition Ets_GetPowerSubMode :: "cenv \<Rightarrow> int C" where
  "Ets_GetPowerSubMode K = do {
     subMode \<leftarrow> Client_GetDeviceSubMode K;
     State_Monad.return (if subMode = SUB_MODE_INVALID then SUB_MODE_INVALID
       else if subMode = SUB_MODE_SUPER_POWER_SAVE then SUB_MODE_SUPER_POWER_SAVE
       else if subMode = SUB_MODE_EMERGENCY then SUB_MODE_EMERGENCY
       else SUB_MODE_INVALID) }"

definition Ets_SetPowerSubModeSync :: "env \<Rightarrow> cenv \<Rightarrow> nat \<Rightarrow> int \<Rightarrow> unit ets C" where
  "Ets_SetPowerSubModeSync E K mode subMode = do {
     code \<leftarrow> Client_SetDeviceSubMode E K mode subMode;
     State_Monad.return (ets_error code) }"

definition Ets_IsStandby :: "env \<Rightarrow> cenv \<Rightarrow> bool ets C" where
  "Ets_IsStandby E K = do {
     r \<leftarrow> Client_IsStandby E K;
     State_Monad.return (business_error (PowerErrors_val (fst r)), case snd r of None \<Rightarrow> False | Some b \<Rightarrow> b) }"

definition Ets_Hibernate :: "env \<Rightarrow> cenv \<Rightarrow> bool \<Rightarrow> unit ets C" where
  "Ets_Hibernate E K clearMemory = do {
     code \<leftarrow> Client_Hibernate E K clearMemory [];
     State_Monad.return (business_error code, ()) }"

definition Ets_SetScreenOffTime :: "env \<Rightarrow> cenv \<Rightarrow> int \<Rightarrow> unit ets C" where
  "Ets_SetScreenOffTime E K timeout =
    (if timeout = 0 \<or> (timeout < 0 \<and> timeout \<noteq> RESTORE_DEFAULT_SCREENOFF_TIME)
     then State_Monad.return (ets_error_strict ERR_PARAM_INVALID)
     else do {
       code \<leftarrow> (if timeout = RESTORE_DEFAULT_SCREENOFF_TIME then Client_RestoreScreenOffTime E K
          else Client_OverrideScreenOffTime E K timeout);
       State_Monad.return (ets_error code) })"

definition Ets_RefreshActivity :: "env \<Rightarrow> cenv \<Rightarrow> unit ets C" where
  "Ets_RefreshActivity E K = do {
     code \<leftarrow> Client_RefreshActivityReason E K USER_ACTIVITY_TYPE_APPLICATION;
     State_Monad.return (ets_error_strict code) }"

definition Ets_SetPowerKeyFilteringStrategy :: "env \<Rightarrow> cenv \<Rightarrow> PowerKeyFilteringStrategy \<Rightarrow> unit ets C" where
  "Ets_SetPowerKeyFilteringStrategy E K strategy = do {
     code \<leftarrow> Client_SetPowerKeyFilteringStrategy E K strategy;
     State_Monad.return (ets_error_strict code) }"

definition Ets_GetPowerConfig :: "env \<Rightarrow> cenv \<Rightarrow> string \<Rightarrow> string ets C" where
  "Ets_GetPowerConfig E K sceneName = do {
     r \<leftarrow> Client_GetPowerConfig E K sceneName;
     State_Monad.return (business_error (PowerErrors_val (fst r)), case snd r of None \<Rightarrow> [] | Some s \<Rightarrow> s) }"

definition Ets_SetPowerConfig :: "env \<Rightarrow> cenv \<Rightarrow> string \<Rightarrow> string \<Rightarrow> unit ets C" where
  "Ets_SetPowerConfig E K sceneName configVal = do {
     code \<leftarrow> Client_SetPowerConfig E K sceneName configVal;
     State_Monad.return (ets_error code) }"

text \<open>Nothing removes the function that \<open>CreateCallback\<close> stores.\<close>

record ets_thread =
  etsNative :: cworld
  etsCallback :: "nat option"
  etsCalls :: "(nat \<times> bool list) list"

type_synonym 'a T = "(ets_thread, 'a) state"

definition in_ets_client :: "'a C \<Rightarrow> 'a T" where
  "in_ets_client m = do {
     r \<leftarrow> gets (\<lambda>t. Prelude.result m (etsNative t));
     modify (\<lambda>t. t\<lparr>etsNative := exec m (etsNative t)\<rparr>);
     State_Monad.return r }"

definition ets_call :: "nat \<Rightarrow> bool list \<Rightarrow> unit T" where
  "ets_call f args = modify (\<lambda>t. t\<lparr>etsCalls := (f, args) # etsCalls t\<rparr>)"

definition Ets_CreateCallback :: "nat \<Rightarrow> unit T" where
  "Ets_CreateCallback f = modify (\<lambda>t. t\<lparr>etsCallback := Some f\<rparr>)"

definition Ets_OnAsyncShutdownOrReboot :: "bool \<Rightarrow> unit T" where
  "Ets_OnAsyncShutdownOrReboot isReboot = do {
     c \<leftarrow> gets etsCallback;
     case c of None \<Rightarrow> skip | Some f \<Rightarrow> ets_call f [isReboot] }"

definition Ets_RegisterShutdownCallback :: "env \<Rightarrow> cenv \<Rightarrow> obj \<Rightarrow> nat \<Rightarrow> unit ets T" where
  "Ets_RegisterShutdownCallback E K stub f = do {
     Ets_CreateCallback f;
     code \<leftarrow> in_ets_client (Client_RegisterAsyncShutdownCallback E K (Some stub) SHUTDOWN_DEFAULT);
     State_Monad.return (ets_error_strict code) }"

definition Ets_UnregisterShutdownCallback :: "env \<Rightarrow> cenv \<Rightarrow> obj \<Rightarrow> nat option \<Rightarrow> unit ets T" where
  "Ets_UnregisterShutdownCallback E K stub callBack = do {
     code \<leftarrow> in_ets_client (Client_UnRegisterAsyncShutdownCallback E K (Some stub));
     if code \<noteq> ERR_OK then State_Monad.return (ets_error_strict code)
     else case callBack of
       None \<Rightarrow> State_Monad.return (None, ())
     | Some f \<Rightarrow> do { ets_call f []; State_Monad.return (None, ()) } }"

section \<open>Statically typed ArkTS: running locks\<close>

text \<open>An object is the number of its lock, or \<open>None\<close> for a null pointer.\<close>

definition Ets_CreateSync :: "env \<Rightarrow> cenv \<Rightarrow> string \<Rightarrow> RunningLockType \<Rightarrow> nat option ets C" where
  "Ets_CreateSync E K name type = do {
     unsupported \<leftarrow> (if type = RUNNINGLOCK_BACKGROUND_USER_IDLE
       then do { s \<leftarrow> Client_IsRunningLockTypeSupported E K type; State_Monad.return (\<not> s) }
       else State_Monad.return False);
     if unsupported then State_Monad.return (None, None)
     else do {
       runLock \<leftarrow> Client_CreateRunningLock E K name type RUNNINGLOCK_DISPLAY_ID_ALL;
       code \<leftarrow> Client_GetError;
       State_Monad.return (if runLock = None then business_error (PowerErrors_val code) else None, runLock) } }"

definition Ets_IsSupported :: "env \<Rightarrow> cenv \<Rightarrow> RunningLockType \<Rightarrow> bool C" where
  "Ets_IsSupported E K type =
    (if type = RUNNINGLOCK_BACKGROUND \<or> type = RUNNINGLOCK_PROXIMITY_SCREEN_CONTROL then State_Monad.return True
     else if type = RUNNINGLOCK_BACKGROUND_USER_IDLE then Client_IsRunningLockTypeSupported E K type
     else State_Monad.return False)"

definition ets_lock :: "nat option \<Rightarrow> RunningLockObj option C" where
  "ets_lock l = (case l of None \<Rightarrow> State_Monad.return None | Some k \<Rightarrow> gets (\<lambda>w. lockObjects (cli w) k))"

definition denied_error :: "ErrCode \<Rightarrow> unit ets" where
  "denied_error code = (if code = E_PERMISSION_DENIED then ets_error_strict ERR_PERMISSION_DENIED else (None, ()))"

definition Ets_Hold :: "env \<Rightarrow> cenv \<Rightarrow> nat option \<Rightarrow> int \<Rightarrow> unit ets C" where
  "Ets_Hold E K lock timeout = do {
     l \<leftarrow> ets_lock lock;
     case l of
       None \<Rightarrow> State_Monad.return (None, ())
     | Some l \<Rightarrow> do { code \<leftarrow> RunningLock_Lock E K l timeout; State_Monad.return (denied_error code) } }"

definition Ets_IsHolding :: "cenv \<Rightarrow> nat option \<Rightarrow> bool C" where
  "Ets_IsHolding K lock = do {
     l \<leftarrow> ets_lock lock;
     case l of None \<Rightarrow> State_Monad.return False | Some l \<Rightarrow> RunningLock_IsUsed K l }"

definition Ets_Unhold :: "env \<Rightarrow> cenv \<Rightarrow> nat option \<Rightarrow> unit ets C" where
  "Ets_Unhold E K lock = do {
     l \<leftarrow> ets_lock lock;
     case l of
       None \<Rightarrow> State_Monad.return (None, ())
     | Some l \<Rightarrow> do { code \<leftarrow> RunningLock_UnLock E K l; State_Monad.return (denied_error code) } }"

section \<open>Cangjie\<close>

definition FfiPowerIsActive :: "env \<Rightarrow> cenv \<Rightarrow> bool C" where
  "FfiPowerIsActive E K = Client_IsScreenOn E K"

definition FfiPowerGetPowerMode :: "cenv \<Rightarrow> nat C" where
  "FfiPowerGetPowerMode K = Client_GetDeviceMode K"

text \<open>Output arguments: \<open>None\<close> when they are left alone.\<close>

definition FfiPowerIsStandby :: "env \<Rightarrow> cenv \<Rightarrow> (int option \<times> bool) C" where
  "FfiPowerIsStandby E K = do {
     r \<leftarrow> Client_IsStandby E K;
     State_Monad.return (if fst r \<noteq> ERR_OK then Some (PowerErrors_val (fst r)) else None,
       case snd r of None \<Rightarrow> False | Some b \<Rightarrow> b) }"

record CJRunningLock =
  runningLockToken :: "nat option"
  cjError :: PowerErrors

definition ERR_OTHER :: int where "ERR_OTHER = -1"
definition INVALID_FFIDATA_ID :: int where "INVALID_FFIDATA_ID = 0"

record cj_process =
  cjNative :: cworld
  ffiData :: "int \<Rightarrow> CJRunningLock option"

type_synonym 'a F = "(cj_process, 'a) state"

definition in_cj_client :: "'a C \<Rightarrow> 'a F" where
  "in_cj_client m = do {
     r \<leftarrow> gets (\<lambda>t. Prelude.result m (cjNative t));
     modify (\<lambda>t. t\<lparr>cjNative := exec m (cjNative t)\<rparr>);
     State_Monad.return r }"

text \<open>The constructor of \<open>CJRunningLock\<close>: it stores the error whether the lock was created or not.\<close>

definition new_CJRunningLock :: "env \<Rightarrow> cenv \<Rightarrow> string \<Rightarrow> int \<Rightarrow> CJRunningLock C" where
  "new_CJRunningLock E K name num_type = do {
     runningLock \<leftarrow> Client_CreateRunningLock E K name (RunningLockType_of (nat (num_type mod 2 ^ 32)))
       RUNNINGLOCK_DISPLAY_ID_ALL;
     error \<leftarrow> Client_GetError;
     State_Monad.return \<lparr>runningLockToken = runningLock, cjError = error\<rparr> }"

definition FfiOHOSRunningLockCreate :: "env \<Rightarrow> cenv \<Rightarrow> int option \<Rightarrow> string option \<Rightarrow> int \<Rightarrow> (int \<times> int) F" where
  "FfiOHOSRunningLockCreate E K newId name num_type = (case name of
       None \<Rightarrow> State_Monad.return (ERR_OTHER, INVALID_FFIDATA_ID)
     | Some name \<Rightarrow> (case newId of
         None \<Rightarrow> State_Monad.return (ERR_OTHER, INVALID_FFIDATA_ID)
       | Some i \<Rightarrow> do {
           native \<leftarrow> in_cj_client (new_CJRunningLock E K name num_type);
           modify (\<lambda>t. t\<lparr>ffiData := (ffiData t)(i := Some native)\<rparr>);
           State_Monad.return (PowerErrors_val (cjError native), i) }))"

text \<open>The lock behind a number: there may be no object, or an object without a lock.\<close>

definition cj_lock :: "int \<Rightarrow> RunningLockObj option F" where
  "cj_lock i = do {
     d \<leftarrow> gets (\<lambda>t. ffiData t i);
     case d of
       None \<Rightarrow> State_Monad.return None
     | Some d \<Rightarrow> (case runningLockToken d of
         None \<Rightarrow> State_Monad.return None
       | Some k \<Rightarrow> gets (\<lambda>t. lockObjects (cli (cjNative t)) k)) }"

definition FfiOHOSRunningLockHold :: "env \<Rightarrow> cenv \<Rightarrow> int \<Rightarrow> int \<Rightarrow> int option F" where
  "FfiOHOSRunningLockHold E K i timeout = do {
     l \<leftarrow> cj_lock i;
     case l of
       None \<Rightarrow> State_Monad.return (Some (PowerErrors_val ERR_PARAM_INVALID))
     | Some l \<Rightarrow> do { _ \<leftarrow> in_cj_client (RunningLock_Lock E K l timeout); State_Monad.return None } }"

definition FfiOHOSRunningLockIsHolding :: "cenv \<Rightarrow> int \<Rightarrow> (int option \<times> bool) F" where
  "FfiOHOSRunningLockIsHolding K i = do {
     l \<leftarrow> cj_lock i;
     case l of
       None \<Rightarrow> State_Monad.return (Some (PowerErrors_val ERR_PARAM_INVALID), False)
     | Some l \<Rightarrow> do { isUsed \<leftarrow> in_cj_client (RunningLock_IsUsed K l); State_Monad.return (None, isUsed) } }"

definition FfiOHOSRunningLockUnhold :: "env \<Rightarrow> cenv \<Rightarrow> int \<Rightarrow> int option F" where
  "FfiOHOSRunningLockUnhold E K i = do {
     l \<leftarrow> cj_lock i;
     case l of
       None \<Rightarrow> State_Monad.return (Some (PowerErrors_val ERR_PARAM_INVALID))
     | Some l \<Rightarrow> do { _ \<leftarrow> in_cj_client (RunningLock_UnLock E K l); State_Monad.return None } }"

definition FfiOHOSRunningLockIsSupported :: "int \<Rightarrow> bool" where
  "FfiOHOSRunningLockIsSupported num_type =
    (let type = RunningLockType_of (nat (num_type mod 2 ^ 32)) in
     type = RUNNINGLOCK_BACKGROUND \<or> type = RUNNINGLOCK_PROXIMITY_SCREEN_CONTROL)"

end
