(* ===== verification/Binding_Laws.thy ===== *)
theory Binding_Laws
  imports Static_Bindings Client_Laws
begin

text \<open>
  Laws of the language bindings, over the client library and the service: the life of a lock that a script creates, the agreement of
  the bindings for JavaScript and for statically typed ArkTS, creation of locks without a service, the callback for
  shutdown and the watchdog of the boot detector.
\<close>

section \<open>Running locks of scripts\<close>


definition driver_works :: "env \<Rightarrow> bool" where
  "driver_works E \<longleftrightarrow> (\<forall>tr. extBool E (Driver HdiGetInterface) tr) \<and>
     (\<forall>p tr. status_of_int (extInt E (Driver (HdiHoldRunningLock p)) tr) = RUNNINGLOCK_SUCCESS) \<and>
     (\<forall>p tr. status_of_int (extInt E (Driver (HdiUnholdRunningLock p)) tr) = RUNNINGLOCK_SUCCESS)"

lemma driver_answers:
  assumes "driver_works E"
  shows "Prelude.result (activate E RUNNINGLOCK_BACKGROUND_TASK b p) w = RUNNINGLOCK_SUCCESS"
  using assms by (simp add: driver_works_def activate_def activate_BACKGROUND_def AcquireRunningLock_def
      ReleaseRunningLock_def GetPowerInterface_def ask_int_def ask_bool_def)

lemma Increase_background:
  "driver_works E \<Longrightarrow> Prelude.result (Increase (activate E RUNNINGLOCK_BACKGROUND_TASK) RUNNINGLOCK_BACKGROUND_TASK p) w = RUNNINGLOCK_SUCCESS"
  "driver_works E \<Longrightarrow> Prelude.result (Decrease (activate E RUNNINGLOCK_BACKGROUND_TASK) RUNNINGLOCK_BACKGROUND_TASK p) w = RUNNINGLOCK_SUCCESS"
  by (simp_all add: Increase_def Decrease_def driver_answers)

lemma background_Lock:
  assumes "driver_works E" and "lock_of w k = Some l" and "lockState l = RUNNINGLOCK_STATE_DISABLE"
    and "lockType (runningLockParam l) = RUNNINGLOCK_BACKGROUND_TASK"
    and "lockCounters (rlm w) RUNNINGLOCK_BACKGROUND_TASK \<noteq> None"
  shows "Prelude.result (Lock E k) w"
proof -
  have "Prelude.result (ValidateLockForEnable k) w = Some l"
    using assms(2-5) by (auto simp: ValidateLockForEnable_def GetRunningLockInner_def IsValidType_def GetState_def IsProxied_def)
  then show ?thesis
    using assms(1,4) by (simp add: Lock_def Let_def Increase_background)
qed

lemma background_UnLock:
  assumes "driver_works E" and "lock_of w k = Some l" and "lockState l = RUNNINGLOCK_STATE_ENABLE"
    and "lockType (runningLockParam l) = RUNNINGLOCK_BACKGROUND_TASK"
    and "lockCounters (rlm w) RUNNINGLOCK_BACKGROUND_TASK \<noteq> None"
  shows "Prelude.result (UnLock E k n) w"
proof -
  have "Prelude.result (FindLock k n) w = Some (k, l)"
    using assms(2) by (simp add: FindLock_def GetRunningLockInner_def)
  moreover have "\<not> IsProxied l" using assms(3) by (simp add: IsProxied_def)
  ultimately show ?thesis
    using assms by (auto simp: UnLock_def Let_def Increase_background)
qed

lemma keeps_lockv_timer: "keeps lockv (RegisterRunningLockTimer E k n)" "keeps lockv (UnregisterRunningLockTimer k)"
  by (auto simp: lockv_def RegisterRunningLockTimer_def UnregisterRunningLockTimer_def GetRunningLockTimerId_def UnregisterTimer_def
      AddRunningLockTimerMap_def RemoveRunningLockTimerMap_def Let_def intro!: keeps_intros)


definition has_lock_permission :: "env \<Rightarrow> bool" where
  "has_lock_permission E \<longleftrightarrow> (\<forall>tr. extBool E (Service (PermissionGranted ''ohos.permission.RUNNING_LOCK'')) tr)"

lemma background_supported: "Prelude.result (IsRunningLockTypeSupported E RUNNINGLOCK_BACKGROUND) w"
  by (simp add: IsRunningLockTypeSupported_def RunningLockType_le_proximity_def)

lemma filled_type:
  "infoType info = RUNNINGLOCK_BACKGROUND \<Longrightarrow>
    lockType (Prelude.result (FillRunningLockParam E info n t) w) = RUNNINGLOCK_BACKGROUND_TASK"
  by (simp add: FillRunningLockParam_def FillDisplayIdForMultiScreen_def Let_def)

lemma background_create:
  assumes "has_lock_permission E" and "infoType info = RUNNINGLOCK_BACKGROUND" and "lock_of w k = None"
  shows "Prelude.result (PmsCreateRunningLock E k info) w = ERR_OK"
    and "\<exists>l. lock_of (exec (PmsCreateRunningLock E k info) w) k = Some l \<and> lockState l = RUNNINGLOCK_STATE_DISABLE \<and>
      lockType (runningLockParam l) = RUNNINGLOCK_BACKGROUND_TASK"
    and "lockCounters (rlm (exec (PmsCreateRunningLock E k info) w)) = lockCounters (rlm w)"
  using assms background_supported filled_type [OF assms(2)]
  by (simp_all add: PmsCreateRunningLock_def has_lock_permission_def CreateRunningLock_def AddRunningLock_def
      ask_bool_def log_call_def mod_rlm_def map_of_omap_emplace keepsD [OF keeps_rlm_fill(1)] keepsD [OF keeps_rlm_fill(2)])

lemma background_PmsLock:
  assumes "has_lock_permission E" and "driver_works E" and "lock_of w k = Some l" and "lockState l = RUNNINGLOCK_STATE_DISABLE"
    and "lockType (runningLockParam l) = RUNNINGLOCK_BACKGROUND_TASK"
    and "lockCounters (rlm w) RUNNINGLOCK_BACKGROUND_TASK \<noteq> None"
    and "w' = exec (PmsLock E k t) w"
  shows "Prelude.result (PmsLock E k t) w = ERR_OK"
    and "lock_of w' k = Some (l\<lparr>lockState := RUNNINGLOCK_STATE_ENABLE\<rparr>)"
    and "lockCounters (rlm w') RUNNINGLOCK_BACKGROUND_TASK \<noteq> None"
proof -
  let ?s = "exec (granted E ''ohos.permission.RUNNING_LOCK'') w"
  have s: "rlm ?s = rlm w" by (simp add: ask_bool_def log_call_def)
  have ok: "Prelude.result (Lock E k) ?s"
    by (rule background_Lock [OF assms(2)]) (use assms(3-6) s in auto)
  have v: "Prelude.result (ValidateLockForEnable k) ?s = Some l"
    using assms(3-6) s by (auto simp: ValidateLockForEnable_def GetRunningLockInner_def IsValidType_def GetState_def IsProxied_def)
  have "lockv w' = lockv (exec (Lock E k) ?s)"
    using assms(1) keepsD [OF keeps_lockv_timer(1)] by (simp add: assms(7) PmsLock_def has_lock_permission_def ask_bool_def)
  then have *: "lockv w' = (set_state k RUNNINGLOCK_STATE_ENABLE (runningLocks (rlm w)),
      after_count (nest RUNNINGLOCK_BACKGROUND_TASK) RUNNINGLOCK_BACKGROUND_TASK True (lockCounters (rlm w)))"
    using lockv_Lock [of E k ?s] ok v assms(5) s by (simp add: Let_def lockv_def)
  show "Prelude.result (PmsLock E k t) w = ERR_OK"
    using assms(1) by (simp add: PmsLock_def has_lock_permission_def ask_bool_def)
  show "lock_of w' k = Some (l\<lparr>lockState := RUNNINGLOCK_STATE_ENABLE\<rparr>)"
    using * assms(3) by (simp add: lockv_def map_of_set_state)
  show "lockCounters (rlm w') RUNNINGLOCK_BACKGROUND_TASK \<noteq> None"
    using * assms(6) by (simp add: lockv_def after_count_None)
qed

lemma background_PmsUnLock:
  assumes "has_lock_permission E" and "driver_works E" and "lock_of w k = Some l" and "lockState l = RUNNINGLOCK_STATE_ENABLE"
    and "lockType (runningLockParam l) = RUNNINGLOCK_BACKGROUND_TASK"
    and "lockCounters (rlm w) RUNNINGLOCK_BACKGROUND_TASK \<noteq> None"
  shows "Prelude.result (PmsUnLock E k n) w = ERR_OK"
    and "lock_of (exec (PmsUnLock E k n) w) k = Some (l\<lparr>lockState := RUNNINGLOCK_STATE_DISABLE\<rparr>)"
proof -
  let ?s = "exec (UnregisterRunningLockTimer k) (exec (granted E ''ohos.permission.RUNNING_LOCK'') w)"
  have s: "runningLocks (rlm ?s) = runningLocks (rlm w)" "lockCounters (rlm ?s) = lockCounters (rlm w)"
    using keepsD [OF keeps_lockv_timer(2), of k "exec (granted E ''ohos.permission.RUNNING_LOCK'') w"]
    by (simp_all add: ask_bool_def log_call_def lockv_def)
  have ok: "Prelude.result (UnLock E k n) ?s"
    by (rule background_UnLock [OF assms(2)]) (use assms(3-6) s in auto)
  have f: "Prelude.result (FindLock k n) ?s = Some (k, l)"
    using assms(3) s by (simp add: FindLock_def GetRunningLockInner_def)
  have "fst (lockv (exec (PmsUnLock E k n) w)) = set_state k RUNNINGLOCK_STATE_DISABLE (runningLocks (rlm w))"
    using assms(1) lockv_UnLock [OF f, of E] ok s
    by (simp add: PmsUnLock_def has_lock_permission_def ask_bool_def lockv_def)
  then show "lock_of (exec (PmsUnLock E k n) w) k = Some (l\<lparr>lockState := RUNNINGLOCK_STATE_DISABLE\<rparr>)"
    using assms(3) by (simp add: lockv_def map_of_set_state)
  show "Prelude.result (PmsUnLock E k n) w = ERR_OK"
    using assms(1) by (simp add: PmsUnLock_def has_lock_permission_def ask_bool_def)
qed


lemma background_type: "js_lock_type (JsNumber 1) = RUNNINGLOCK_BACKGROUND"
  by (simp add: js_lock_type_def napi_int32_def wrap32_def RunningLockType_of_def declared_lock_types_def)

lemma no_error: "GetNapiError 0 = None"
  by (simp add: GetNapiError_def IsError_def)

definition script_lock :: "cworld \<Rightarrow> nat \<Rightarrow> bool" where
  "script_lock w k \<longleftrightarrow> (\<exists>l. lockObjects (cli w) k = Some l \<and> lockProxy l = proxy (cli w) \<and> lockToken l = k \<and>
     infoType (objInfo l) = RUNNINGLOCK_BACKGROUND)"

lemma client_created:
  assumes "connected K w" and "has_lock_permission E" and "lock_of (srv w) (nextObject (cli w)) = None"
  shows "Prelude.result (Client_CreateRunningLock E K name RUNNINGLOCK_BACKGROUND d) w = Some (nextObject (cli w))"
    and "connected K (exec (Client_CreateRunningLock E K name RUNNINGLOCK_BACKGROUND d) w)"
    and "script_lock (exec (Client_CreateRunningLock E K name RUNNINGLOCK_BACKGROUND d) w) (nextObject (cli w))"
    and "\<exists>info. infoType info = RUNNINGLOCK_BACKGROUND \<and>
      srv (exec (Client_CreateRunningLock E K name RUNNINGLOCK_BACKGROUND d) w) =
        exec (PmsCreateRunningLock E (nextObject (cli w)) info) (srv w)"
  using assms background_create(1) [OF assms(2)]
  by (auto simp: Client_CreateRunningLock_def connected_def RunningLock_Create_def promote_def remote_delivered
      CreateRunningLockIpc_def ClientTick_def Let_def script_lock_def intro!: exI)


lemma script_unwrap:
  "script_lock w k \<Longrightarrow> \<exists>l. Prelude.result (UnwrapRunningLock (JsObject (Some (ServiceLock k)))) w = Some l \<and>
     lockProxy l = proxy (cli w) \<and> lockToken l = k \<and> infoType (objInfo l) = RUNNINGLOCK_BACKGROUND"
  "exec (UnwrapRunningLock (JsObject (Some (ServiceLock k)))) w = w"
  by (auto simp: script_lock_def UnwrapRunningLock_def lock_behind_def)

lemma script_hold:
  assumes "connected K w" and "script_lock w k"
  shows "\<exists>t'. Prelude.result (Napi_Hold E K (JsObject (Some (ServiceLock k))) [JsNumber t]) w =
      denied_or_nothing (lock_error (Prelude.result (PmsLock E k t') (srv w))) \<and>
    exec (Napi_Hold E K (JsObject (Some (ServiceLock k))) [JsNumber t]) w =
      w\<lparr>clog := SendRequest ''LockIpc'' # clog w, srv := exec (PmsLock E k t') (srv w)\<rparr>"
proof -
  obtain l where l: "Prelude.result (UnwrapRunningLock (JsObject (Some (ServiceLock k)))) w = Some l"
      "lockProxy l = proxy (cli w)" "lockToken l = k" "infoType (objInfo l) = RUNNINGLOCK_BACKGROUND"
    using script_unwrap(1) [OF assms(2)] by blast
  show ?thesis
    using assms(1) l
    by (simp add: Napi_Hold_def CheckValueType_def js_arg_def napi_int32_def script_unwrap(2) RunningLock_Lock_def promote_def
        connected_def remote_delivered LockIpc_def Let_def) blast
qed

lemma script_unhold:
  assumes "connected K w" and "script_lock w k"
  shows "\<exists>n. Prelude.result (Napi_UnHold E K (JsObject (Some (ServiceLock k)))) w =
      denied_or_nothing (lock_error (Prelude.result (PmsUnLock E k n) (srv w))) \<and>
    srv (exec (Napi_UnHold E K (JsObject (Some (ServiceLock k)))) w) = exec (PmsUnLock E k n) (srv w)"
proof -
  obtain l where l: "Prelude.result (UnwrapRunningLock (JsObject (Some (ServiceLock k)))) w = Some l"
      "lockProxy l = proxy (cli w)" "lockToken l = k"
    using script_unwrap(1) [OF assms(2)] by blast
  show ?thesis
    using assms(1) l
    by (simp add: Napi_UnHold_def script_unwrap(2) RunningLock_UnLock_def promote_def
        connected_def remote_delivered UnLockIpc_def Let_def) blast
qed

lemma script_holding:
  assumes "connected K w" and "script_lock w k"
  shows "Prelude.result (Napi_IsHolding K (JsObject (Some (ServiceLock k)))) w = JsReturn (JsBool (k \<in> held_locks (srv w)))"
proof -
  obtain l where l: "Prelude.result (UnwrapRunningLock (JsObject (Some (ServiceLock k)))) w = Some l"
      "lockProxy l = proxy (cli w)" "lockToken l = k"
    using script_unwrap(1) [OF assms(2)] by blast
  show ?thesis
    using assms(1) l
    by (auto simp: Napi_IsHolding_def script_unwrap(2) RunningLock_IsUsed_def promote_def connected_def remote_delivered
        IsUsedIpc_def PmsIsUsed_def IsUsed_def GetRunningLockInner_def held_locks_def split: option.split)
qed

text \<open>A script creates a lock: its promise is resolved with an object, and the service knows a lock that is not held.\<close>

lemma script_create:
  assumes "connected K w" and "has_lock_permission E" and "lock_of (srv w) (nextObject (cli w)) = None"
    and "lockCounters (rlm (srv w)) RUNNINGLOCK_BACKGROUND_TASK \<noteq> None"
    and "create = js_settle E K (State_Monad.return (Napi_Create [JsString name, JsNumber 1]))"
  shows "Prelude.result create w = Some (Resolve (Some (JsObject (Some (ServiceLock (nextObject (cli w)))))))"
    and "connected K (exec create w)" and "script_lock (exec create w) (nextObject (cli w))"
    and "\<exists>l. lock_of (srv (exec create w)) (nextObject (cli w)) = Some l \<and> lockState l = RUNNINGLOCK_STATE_DISABLE \<and>
      lockType (runningLockParam l) = RUNNINGLOCK_BACKGROUND_TASK"
    and "lockCounters (rlm (srv (exec create w))) RUNNINGLOCK_BACKGROUND_TASK \<noteq> None"
proof -
  define w0 where "w0 = exec (Client_CreateRunningLock E K (GetStringFromNapi (JsString name)) RUNNINGLOCK_BACKGROUND
    RUNNINGLOCK_DISPLAY_ID_ALL) w"
  note c = client_created [OF assms(1-3), of "GetStringFromNapi (JsString name)" RUNNINGLOCK_DISPLAY_ID_ALL, folded w0_def]
  have w1: "exec create w = w0\<lparr>cli := (cli w0)\<lparr>lastError := ERR_OK\<rparr>\<rparr>"
    and "Prelude.result create w = Some (Resolve (Some (JsObject (Some (ServiceLock (nextObject (cli w)))))))"
    using c(1) unfolding w0_def
    by (simp_all add: assms(5) js_settle_def Napi_Create_def js_arg_def CheckValueType_def background_type Let_def
        run_Create_def AsyncData_CreateRunningLock_def Client_GetError_def settle_def no_error
        CreateInstanceForRunningLock_def)
  then show "Prelude.result create w = Some (Resolve (Some (JsObject (Some (ServiceLock (nextObject (cli w)))))))" by simp
  show "connected K (exec create w)" "script_lock (exec create w) (nextObject (cli w))"
    using c(2,3) by (simp_all add: w1 connected_def script_lock_def)
  obtain info where "infoType info = RUNNINGLOCK_BACKGROUND"
      "srv (exec create w) = exec (PmsCreateRunningLock E (nextObject (cli w)) info) (srv w)"
    using c(4) w1 by auto
  then show "\<exists>l. lock_of (srv (exec create w)) (nextObject (cli w)) = Some l \<and> lockState l = RUNNINGLOCK_STATE_DISABLE \<and>
      lockType (runningLockParam l) = RUNNINGLOCK_BACKGROUND_TASK"
    and "lockCounters (rlm (srv (exec create w))) RUNNINGLOCK_BACKGROUND_TASK \<noteq> None"
    using background_create(2,3) [OF assms(2), of info "srv w"] assms(3,4) by simp_all
qed



section \<open>The bindings agree\<close>

text \<open>The functions that both bindings have and that return nothing, with their arguments.\<close>

datatype api_call =
    ApiShutdown string
  | ApiReboot string
  | ApiWakeup string
  | ApiSuspend "bool option"
  | ApiHibernate bool
  | ApiSetScreenOffTime int
  | ApiRefreshActivity string
  | ApiSetPowerConfig string string
  | ApiSetPowerKeyFilteringStrategy bool

primrec js_api :: "env \<Rightarrow> cenv \<Rightarrow> api_call \<Rightarrow> js_result C" where
  "js_api E K (ApiShutdown reason) = Napi_Shutdown E K [JsString reason]"
| "js_api E K (ApiReboot reason) = Napi_Reboot E K [JsString reason]"
| "js_api E K (ApiWakeup detail) = Napi_Wakeup E K [JsString detail]"
| "js_api E K (ApiSuspend isImmediate) = Napi_Suspend E K (case isImmediate of None \<Rightarrow> [] | Some b \<Rightarrow> [JsBool b])"
| "js_api E K (ApiHibernate clearMemory) = Napi_Hibernate E K [JsBool clearMemory]"
| "js_api E K (ApiSetScreenOffTime timeout) = Napi_SetScreenOffTime E K [JsNumber timeout]"
| "js_api E K (ApiRefreshActivity reason) = Napi_RefreshActivity E K [JsString reason]"
| "js_api E K (ApiSetPowerConfig scene v) = Napi_SetPowerConfig E K [JsString scene, JsString v]"
| "js_api E K (ApiSetPowerKeyFilteringStrategy once) =
     Napi_SetPowerKeyFilteringStrategy E K [JsNumber (if once then 1 else 0)]"

primrec ets_api :: "env \<Rightarrow> cenv \<Rightarrow> api_call \<Rightarrow> unit ets C" where
  "ets_api E K (ApiShutdown reason) = Ets_Shutdown E K reason"
| "ets_api E K (ApiReboot reason) = Ets_Reboot E K reason"
| "ets_api E K (ApiWakeup detail) = Ets_Wakeup E K detail"
| "ets_api E K (ApiSuspend isImmediate) = Ets_Suspend E K isImmediate"
| "ets_api E K (ApiHibernate clearMemory) = Ets_Hibernate E K clearMemory"
| "ets_api E K (ApiSetScreenOffTime timeout) = Ets_SetScreenOffTime E K timeout"
| "ets_api E K (ApiRefreshActivity reason) = Ets_RefreshActivity E K"
| "ets_api E K (ApiSetPowerConfig scene v) = Ets_SetPowerConfig E K scene v"
| "ets_api E K (ApiSetPowerKeyFilteringStrategy once) =
     Ets_SetPowerKeyFilteringStrategy E K (if once then LONG_PRESS_FILTERING_ONCE else DISABLE_LONG_PRESS_FILTERING)"

text \<open>Strings that the JavaScript binding carries over in full, and numbers of 64 bits.\<close>

definition plain_string :: "string \<Rightarrow> bool" where
  "plain_string s \<longleftrightarrow> length s \<le> 253 \<and> CHR 0x00 \<notin> set s"

primrec plain_call :: "api_call \<Rightarrow> bool" where
  "plain_call (ApiShutdown reason) = plain_string reason"
| "plain_call (ApiReboot reason) = plain_string reason"
| "plain_call (ApiWakeup detail) = plain_string detail"
| "plain_call (ApiSuspend isImmediate) = True"
| "plain_call (ApiHibernate clearMemory) = True"
| "plain_call (ApiSetScreenOffTime timeout) = (- (2 ^ 63) \<le> timeout \<and> timeout < 2 ^ 63)"
| "plain_call (ApiRefreshActivity reason) = True"
| "plain_call (ApiSetPowerConfig scene v) = (plain_string scene \<and> plain_string v)"
| "plain_call (ApiSetPowerKeyFilteringStrategy once) = True"

lemma GetStringFromNapi_plain: "plain_string s \<Longrightarrow> GetStringFromNapi (JsString s) = s"
  by (auto simp: plain_string_def GetStringFromNapi_def napi_string_utf8_def MAX_SIZE_def until_zero_def
      takeWhile_eq_all_conv)

text \<open>The error object that a call leaves.\<close>

definition reported :: "js_result \<Rightarrow> js_error option" where
  "reported r = (case r of JsThrow e \<Rightarrow> e | _ \<Rightarrow> None)"

lemma reported_unless_ok [simp]: "reported (throw_unless_ok code) = business_error code"
  by (simp add: reported_def throw_unless_ok_def ThrowError_def GetNapiError_def IsError_def business_error_def)

lemma silent_failure:
  "business_error_strict code = business_error code \<or>
    throw_unless_ok code = JsThrow None \<and> business_error_strict code = Some (1, [])"
  by (auto simp: business_error_strict_def business_error_def throw_unless_ok_def ThrowError_def GetNapiError_def
      IsError_def GetErrorMessage_def)

lemma silent_skip:
  "reported (if code \<noteq> ERR_OK \<and> code \<noteq> ERR_SKIP_FUNCTION_CALL then throw_power code else js_nothing) =
      business_error (PowerErrors_val code) \<or>
    code = ERR_SKIP_FUNCTION_CALL \<and> business_error (PowerErrors_val code) = Some (4900401, [])"
  by (cases code) (simp_all add: reported_def ThrowError_def GetNapiError_def IsError_def business_error_def GetErrorMessage_def)

primrec skips_quietly :: "api_call \<Rightarrow> bool" where
  "skips_quietly (ApiShutdown reason) = True"
| "skips_quietly (ApiReboot reason) = True"
| "skips_quietly (ApiWakeup detail) = False"
| "skips_quietly (ApiSuspend isImmediate) = False"
| "skips_quietly (ApiHibernate clearMemory) = False"
| "skips_quietly (ApiSetScreenOffTime timeout) = False"
| "skips_quietly (ApiRefreshActivity reason) = False"
| "skips_quietly (ApiSetPowerConfig scene v) = False"
| "skips_quietly (ApiSetPowerKeyFilteringStrategy once) = False"

text \<open>Agreement of two runs, up to a skipped shutdown and the unnamed error.\<close>

definition agree :: "bool \<Rightarrow> js_result C \<Rightarrow> unit ets C \<Rightarrow> cworld \<Rightarrow> bool" where
  "agree skips js ets w \<longleftrightarrow> exec js w = exec ets w \<and>
     (reported (Prelude.result js w) = fst (Prelude.result ets w) \<or>
      skips \<and> Prelude.result js w = js_nothing \<and> fst (Prelude.result ets w) = Some (4900401, []) \<or>
      Prelude.result js w = JsThrow None \<and> fst (Prelude.result ets w) = Some (1, []))"

lemma agree_bind:
  "(\<And>v. agree s (js v) (ets v) (exec m w)) \<Longrightarrow> agree s (do { v \<leftarrow> m; js v }) (do { v \<leftarrow> m; ets v }) w"
  "agree s js' ets' (exec n w) \<Longrightarrow> agree s (do { n; js' }) (do { n; ets' }) w"
  by (simp_all add: agree_def)

lemma agree_return:
  "agree s (State_Monad.return (throw_unless_ok code)) (State_Monad.return (business_error code, ())) w"
  "agree s (State_Monad.return (throw_unless_ok code)) (State_Monad.return (business_error_strict code, ())) w"
  "agree True (State_Monad.return (if c \<noteq> ERR_OK \<and> c \<noteq> ERR_SKIP_FUNCTION_CALL then throw_power c else js_nothing))
     (State_Monad.return (ets_error c)) w"
  using silent_failure [of code] silent_skip [of c]
  by (auto simp: agree_def)

lemma js_call_checks:
  "length [v] = 1" "js_arg [v] 0 = v" "js_arg [u, v] 0 = u" "js_arg [u, v] (Suc 0) = v" "js_arg [] 0 = JsUndefined"
  "CheckValueType (JsString s) napi_string" "CheckValueType (JsNumber n) napi_number"
  by (simp_all add: js_arg_def CheckValueType_def)

lemma agree_shutdown:
  assumes "plain_string reason"
  shows "agree True (Napi_RebootOrShutdown E K isReboot [JsString reason])
    (if isReboot then Ets_Reboot E K reason else Ets_Shutdown E K reason) w"
  using assms by (cases isReboot) (auto simp: Napi_RebootOrShutdown_def js_call_checks GetStringFromNapi_plain Let_def
      Ets_Reboot_def Ets_Shutdown_def intro!: agree_bind agree_return)

lemma agree_suspend:
  "agree s (Napi_Suspend E K (case isImmediate of None \<Rightarrow> [] | Some b \<Rightarrow> [JsBool b])) (Ets_Suspend E K isImmediate) w"
proof -
  have flag: "\<not> not_a_flag (case isImmediate of None \<Rightarrow> [] | Some b \<Rightarrow> [JsBool b])"
    by (cases isImmediate) (simp_all add: not_a_flag_def js_arg_def CheckValueType_def)
  have "napi_bool (js_arg (case isImmediate of None \<Rightarrow> [] | Some b \<Rightarrow> [JsBool b]) 0) False =
      (case isImmediate of None \<Rightarrow> False | Some b \<Rightarrow> b)"
    by (cases isImmediate) (simp_all add: js_arg_def napi_bool_def)
  with flag show ?thesis
    by (cases "case isImmediate of None \<Rightarrow> False | Some b \<Rightarrow> b") (auto simp: Napi_Suspend_def Ets_Suspend_def agree_def)
qed

lemma agree_screen_off_time:
  assumes "- (2 ^ 63) \<le> timeout" "timeout < 2 ^ 63"
  shows "agree s (Napi_SetScreenOffTime E K [JsNumber timeout]) (Ets_SetScreenOffTime E K timeout) w"
proof -
  have "napi_int64 (JsNumber timeout) = Some timeout"
    using assms by (simp add: napi_int64_def)
  moreover have "throw_power ERR_PARAM_INVALID = throw_unless_ok (PowerErrors_val ERR_PARAM_INVALID)"
    by (simp add: throw_unless_ok_def)
  ultimately show ?thesis
    by (auto simp: Napi_SetScreenOffTime_def Ets_SetScreenOffTime_def js_call_checks invalid_param_def
        intro!: agree_bind agree_return)
qed

lemma agree_simple:
  "plain_string d \<Longrightarrow> agree s (Napi_Wakeup E K [JsString d]) (Ets_Wakeup E K d) w"
  "agree s (Napi_Hibernate E K [JsBool b]) (Ets_Hibernate E K b) w"
  "agree s (Napi_RefreshActivity E K [JsString r]) (Ets_RefreshActivity E K) w"
  by (auto simp: Napi_Wakeup_def Ets_Wakeup_def Napi_Hibernate_def Ets_Hibernate_def Napi_RefreshActivity_def
    Ets_RefreshActivity_def js_call_checks GetStringFromNapi_plain not_a_flag_def napi_bool_def CheckValueType_def
    intro!: agree_bind agree_return)

lemma agree_config:
  assumes "plain_string d" and "plain_string v"
  shows "agree s (Napi_SetPowerConfig E K [JsString d, JsString v]) (Ets_SetPowerConfig E K d v) w"
  using assms
  by (auto simp: Napi_SetPowerConfig_def Ets_SetPowerConfig_def js_call_checks GetStringFromNapi_plain
      intro!: agree_bind agree_return)

lemma agree_key_strategy:
  "agree s (Napi_SetPowerKeyFilteringStrategy E K [JsNumber (if once then 1 else 0)])
    (Ets_SetPowerKeyFilteringStrategy E K (if once then LONG_PRESS_FILTERING_ONCE else DISABLE_LONG_PRESS_FILTERING)) w"
proof -
  have n: "napi_int32 (JsNumber (if once then 1 else 0)) = Some (if once then 1 else 0)"
    by (simp add: napi_int32_def wrap32_def)
  show ?thesis
    by (cases once) (use n in \<open>auto simp: Napi_SetPowerKeyFilteringStrategy_def Ets_SetPowerKeyFilteringStrategy_def
      js_call_checks intro!: agree_bind agree_return\<close>)
qed


text \<open>The first of the two cases: a second shutdown while one is under way, both asked for by permitted callers.\<close>

lemma skipped_shutdown_differs:
  assumes "connected K w" and "plain_string reason"
    and "Prelude.result (PmsShutDownDevice E reason) (srv w) = ERR_SKIP_FUNCTION_CALL"
  shows "Prelude.result (Napi_Shutdown E K [JsString reason]) w = js_nothing \<and>
    fst (Prelude.result (Ets_Shutdown E K reason) w) = Some (4900401, [])"
proof -
  let ?w = "exec (SetFrameworkBootStage K False) w"
  have "cli ?w = cli w" "srv ?w = srv w" "instance_no ?w = instance_no w"
    by (simp_all add: SetFrameworkBootStage_def cask_def)
  then have "connected K ?w" "srv ?w = srv w"
    using assms(1) by (simp_all add: connected_def)
  then have "Prelude.result (Client_ShutDownDevice E K reason) ?w = ERR_SKIP_FUNCTION_CALL"
    using assms(3) by (simp add: Client_ShutDownDevice_def ShutDownDeviceIpc_def request_error_effect)
  then show ?thesis
    using assms(2) by (simp add: Napi_Shutdown_def Napi_RebootOrShutdown_def Ets_Shutdown_def js_call_checks
        GetStringFromNapi_plain business_error_def GetErrorMessage_def)
qed

section \<open>Creation without a service\<close>

lemma unreachable_proxy:
  assumes "proxy (cli w) = None" and "\<forall>log. \<not> answers K CheckSystemAbility log"
  shows "Prelude.result (GetPowerMgrProxy K) w = None" and "cli (exec (GetPowerMgrProxy K) w) = cli w"
  using assms by (simp_all add: GetPowerMgrProxy_def cask_def)

text \<open>
  C36: a lock that could not be created can be reported as created.  When the service cannot be reached, \<open>CreateRunningLock\<close> of
  the client gives up without recording an error.  The promise of \<open>create\<close> is then resolved, with a null pointer
  in place of the object; a callback gets no error and no object; the statically typed binding returns an object without a lock and no
  error; and in Cangjie the error is that of an earlier failure, here none.  The comment in the source
  demands an object that is not null whenever there is no error.
\<close>

theorem unreachable_create_reports_success:
  assumes "proxy (cli w) = None" and "\<forall>log. \<not> answers K CheckSystemAbility log" and "lastError (cli w) = ERR_OK"
    and "type \<noteq> RUNNINGLOCK_BACKGROUND_USER_IDLE"
  shows "Prelude.result (run_work E K (WorkCreate name type None)) w = Resolve None \<and>
    Prelude.result (run_work E K (WorkCreate name type (Some f))) w = CallBack f None None \<and>
    Prelude.result (Ets_CreateSync E K name type) w = (None, None) \<and>
    Prelude.result (new_CJRunningLock E K name n) w = \<lparr>runningLockToken = None, cjError = ERR_OK\<rparr>"
  using assms unreachable_proxy [OF assms(1,2)]
  by (simp add: run_Create_def AsyncData_CreateRunningLock_def Client_CreateRunningLock_def Client_GetError_def settle_def
      no_error CreateInstanceForRunningLock_def Ets_CreateSync_def business_error_def new_CJRunningLock_def)

text \<open>A request that does not arrive has the same outcome: \<open>ERR_FAILURE\<close>, which is no error to the bindings.\<close>

lemma lost_create_reports_success:
  assumes "proxy (cli w) = Some i" and "\<forall>name log. \<not> answers K (SendRequest name) log"
    and "type \<noteq> RUNNINGLOCK_BACKGROUND_USER_IDLE"
  shows "Prelude.result (run_work E K (WorkCreate name type None)) w = Resolve None"
  using assms
  by (simp add: run_Create_def AsyncData_CreateRunningLock_def Client_CreateRunningLock_def Client_GetError_def settle_def
      GetNapiError_def IsError_def CreateInstanceForRunningLock_def RunningLock_Create_def promote_def remote_def cask_def
      RunningLock_Release_def ClientTick_def Let_def)

text \<open>In Cangjie a lock that was created is reported with the error of an earlier failure that nobody fetched.\<close>

lemma cangjie_reports_stale_error:
  assumes "connected K w" and "has_lock_permission E" and "lock_of (srv w) (nextObject (cli w)) = None"
  shows "Prelude.result (new_CJRunningLock E K name 1) w =
    \<lparr>runningLockToken = Some (nextObject (cli w)), cjError = lastError (cli w)\<rparr>"
proof -
  have "RunningLockType_of (nat (1 mod 2 ^ 32)) = RUNNINGLOCK_BACKGROUND"
    by (simp add: RunningLockType_of_def declared_lock_types_def)
  moreover have "lastError (cli (exec (Client_CreateRunningLock E K name RUNNINGLOCK_BACKGROUND d) w)) = lastError (cli w)" for d
    using assms background_create(1) [OF assms(2)]
    by (auto simp: Client_CreateRunningLock_def connected_def RunningLock_Create_def promote_def remote_delivered
        CreateRunningLockIpc_def ClientTick_def Let_def)
  ultimately show ?thesis
    using client_created(1) [OF assms] by (simp add: new_CJRunningLock_def Client_GetError_def)
qed

section \<open>Shutdown\<close>

text \<open>
  The watchdog of the boot detector is armed before anything is checked.  A call of \<open>shutdown\<close> or \<open>reboot\<close> from JavaScript without
  a string throws an exception and asks the service for nothing, and yet it has told the boot detector that a shutdown
  has started, which nothing in the call takes back.
\<close>

lemma rejected_shutdown_arms_watchdog:
  assumes "length argv \<noteq> 1 \<or> \<not> CheckValueType (js_arg argv 0) napi_string"
    and "\<forall>log. answers K OpenBbox log" and "\<forall>n log. answers K (IoctlSetReboot n) log"
  shows "Prelude.result (Napi_RebootOrShutdown E K isReboot argv) w = throw_power ERR_PARAM_INVALID \<and>
    srv (exec (Napi_RebootOrShutdown E K isReboot argv) w) = srv w \<and>
    clog (exec (Napi_RebootOrShutdown E K isReboot argv) w) =
      [CloseBbox, IoctlShutStage ''SHUT_STAGE_FRAMEWORK_START'', IoctlSetReboot (if isReboot then 1 else 0), OpenBbox] @ clog w"
  using assms by (simp add: Napi_RebootOrShutdown_def SetFrameworkBootStage_def cask_def invalid_param_def)

text \<open>What happens to a thread of JavaScript without its doing: the service calls, and the event loop takes an event.\<close>

inductive js_step :: "js_thread \<Rightarrow> js_thread \<Rightarrow> bool" where
  service_calls: "js_step t (exec (Napi_OnAsyncShutdownOrReboot posted isReboot) t)"
| loop_turns: "js_step t (exec Napi_TakeEvent t)"

inductive_cases js_stepE: "js_step t t'"

definition unregistered :: "js_thread \<Rightarrow> bool" where
  "unregistered t \<longleftrightarrow> callbackRef t = None \<and> \<not> callbackEnv t"

lemma unregistered_step:
  assumes "js_step t t'" and "unregistered t"
  shows "unregistered t' \<and> jsCalls t' = jsCalls t"
  using assms
  by (cases "0 < jsEvents t") (auto elim!: js_stepE simp: Napi_OnAsyncShutdownOrReboot_def Napi_TakeEvent_def
      Napi_OnShutdownOrReboot_def unregistered_def)

lemma unregister_without_function: "jsCalls (exec (Napi_UnRegisterShutdownCallback E K stub []) t) = jsCalls t"
  by (simp add: Napi_UnRegisterShutdownCallback_def Napi_ReleaseCallback_def in_client_def)

lemma unregistered_after: "unregistered (exec (Napi_UnRegisterShutdownCallback E K stub argv) t)"
  by (auto simp: Napi_UnRegisterShutdownCallback_def Napi_ReleaseCallback_def unregistered_def in_client_def js_call_def
      split: js_value.split)

text \<open>
  C32: a function that was unregistered is not called any more.  Whatever the arguments and the answer of the service, after
  \<open>unregisterShutdownCallback\<close> no call of the service and no event that was posted before reaches a function of the
  script.
\<close>

theorem unregistered_function_not_called:
  assumes "js_step\<^sup>*\<^sup>* (exec (Napi_UnRegisterShutdownCallback E K stub argv) t) t'"
  shows "jsCalls t' = jsCalls (exec (Napi_UnRegisterShutdownCallback E K stub argv) t)"
proof -
  have "unregistered t' \<and> jsCalls t' = jsCalls (exec (Napi_UnRegisterShutdownCallback E K stub argv) t)"
    using assms by (induction rule: rtranclp_induct) (use unregistered_after unregistered_step in auto)
  then show ?thesis ..
qed

text \<open>The statically typed binding keeps the function: a call of the service that is under way still reaches it.\<close>

lemma static_function_called_after_unregistration:
  assumes "etsCallback t = Some f"
  shows "etsCalls (exec (Ets_OnAsyncShutdownOrReboot isReboot) (exec (Ets_UnregisterShutdownCallback E K stub None) t)) =
    (f, [isReboot]) # etsCalls t"
  using assms by (simp add: Ets_OnAsyncShutdownOrReboot_def Ets_UnregisterShutdownCallback_def in_ets_client_def ets_call_def)

text \<open>A function that is registered is called with the kind of shutdown that was announced last.\<close>

lemma registered_function_called:
  assumes "callbackRef t = Some f" and "callbackEnv t"
  shows "jsCalls (exec Napi_TakeEvent (exec (Napi_OnAsyncShutdownOrReboot True isReboot) t)) = (f, [JsBool isReboot]) # jsCalls t"
  using assms by (simp add: Napi_OnAsyncShutdownOrReboot_def Napi_TakeEvent_def Napi_OnShutdownOrReboot_def js_call_def)

section \<open>Arguments\<close>

text \<open>\<open>suspend\<close> takes a number, an object, null or the empty string for no argument, though only a boolean is documented.\<close>

lemma suspend_takes_any_value:
  "\<not> not_a_flag [v] \<longleftrightarrow> (case v of JsString s \<Rightarrow> GetStringFromNapi (JsString s) = [] | _ \<Rightarrow> True)"
  by (cases v) (auto simp: not_a_flag_def js_arg_def CheckValueType_def GetStringFromNapi_def napi_string_utf8_def)

section \<open>Witnesses\<close>



definition lonely_cenv :: cenv where
  "lonely_cenv = \<lparr>answers = (\<lambda>c log. c \<noteq> CheckSystemAbility), ticks = (\<lambda>log. 0)\<rparr>"

theorem unreachable_create_reports_success_witness:
  "Prelude.result (run_work native_env lonely_cenv (WorkCreate ''music'' RUNNINGLOCK_BACKGROUND None))
    (sample_cworld\<lparr>cli := (cli sample_cworld)\<lparr>proxy := None\<rparr>\<rparr>) = Resolve None"
  using unreachable_create_reports_success [of "sample_cworld\<lparr>cli := (cli sample_cworld)\<lparr>proxy := None\<rparr>\<rparr>" lonely_cenv
      RUNNINGLOCK_BACKGROUND native_env "''music''"]
  by (simp add: lonely_cenv_def sample_cworld_def)

theorem rejected_shutdown_arms_watchdog_witness:
  "clog (exec (Napi_RebootOrShutdown native_env sample_cenv False [JsNumber 1]) sample_cworld) =
    [CloseBbox, IoctlShutStage ''SHUT_STAGE_FRAMEWORK_START'', IoctlSetReboot 0, OpenBbox]"
  using rejected_shutdown_arms_watchdog [of "[JsNumber 1]" sample_cenv native_env False sample_cworld]
  by (simp add: js_arg_def CheckValueType_def sample_cenv_def sample_cworld_def)

definition sample_thread :: js_thread where
  "sample_thread = \<lparr>native = sample_cworld, callbackRef = Some 3, callbackEnv = True, isRebootFlag = True, jsEvents = 1,
     jsCalls = []\<rparr>"

theorem unregistered_function_not_called_witness:
  "jsCalls (exec Napi_TakeEvent (exec (Napi_UnRegisterShutdownCallback native_env sample_cenv 9 []) sample_thread)) = []"
proof -
  let ?t = "exec (Napi_UnRegisterShutdownCallback native_env sample_cenv 9 []) sample_thread"
  have step: "js_step\<^sup>*\<^sup>* ?t (exec Napi_TakeEvent ?t)"
    by (rule r_into_rtranclp, rule loop_turns)
  have "jsCalls ?t = []"
    by (simp only: unregister_without_function) (simp add: sample_thread_def)
  then show ?thesis
    by (simp only: unregistered_function_not_called [OF step])
qed

end
