(* ===== verification/Spec2Isabelle.thy ===== *)
theory Spec2Isabelle
  imports State_Safety Lock_Gate Hibernate_Laws Shutdown_Laws Control_Laws Ulsr_Laws Force_Laws Screen_Lock_Laws Policy_Laws
    Source_Laws Saver_Laws Event_Laws Client_Laws Cli_Laws Shell_Laws Hub_Laws System_Utils Binding_Laws
begin

text \<open>
  Verification of the power manager service of OpenHarmony (\<open>services/native\<close> with the parts of
  \<open>utils\<close> and \<open>interfaces\<close> it rests on).

  \<^bold>\<open>The program.\<close>  \<open>PowerMgrService\<close> receives requests over IPC and owns the components: the
  \<open>PowerStateMachine\<close> (which power state the device is in and when it may change), the
  \<open>RunningLockMgr\<close> (locks by which applications keep the screen or the device on), the
  \<open>SuspendController\<close> and \<open>WakeupController\<close> (which events put the device to sleep and wake it), the
  \<open>HibernateController\<close> and \<open>ShutdownController\<close>, the \<open>PowerModeModule\<close> (which saving mode
  is in force and what it sets), the screen saver, the shutdown dialog, and helpers: the settings, FFRT timers, the device
  action that talks to display and driver, the registry of client deaths.  They call one another directly and
  share the state machine.  Applications link the client library (\<open>frameworks/native\<close>), which finds the service, sends requests
  to its entry points, and is called back through the proxies and stubs of \<open>services/zidl\<close>.

  \<^bold>\<open>The model.\<close>  Every method is a function of the same name in the state monad over the record
  \<open>world\<close> (theory \<open>World\<close>), whose components are the fields of the C++ objects: \<open>psm\<close>, \<open>act\<close>,
  \<open>susp\<close>, \<open>rlm\<close>, \<open>hib\<close>, \<open>shut\<close>, \<open>wake\<close>, \<open>svc\<close>, \<open>ptrs\<close> (which guarded pointers are set),
  \<open>timers\<close>, and \<open>trace\<close>, the calls made to other services, latest first.  What those services answer
  is a parameter, the record \<open>env\<close>: an arbitrary function of the call and of the trace so
  far, so that no assumption ties one answer to another.  The same record holds the features of the build (\<open>F_...\<close>),
  system parameters and the values of constants defined elsewhere.  Where two components have a method
  of the same name the model prefixes one of them (\<open>Pms...\<close> for the service, \<open>Wakeup_...\<close>,
  \<open>Susp_...\<close>, \<open>Shutdown...\<close>).  Machine integers are words of their width or integers
  reduced by \<open>wrap64\<close> where overflow matters.

  \<^bold>\<open>The theories.\<close>
    \<^item> \<open>Prelude\<close>: monad combinators, weakest preconditions (\<open>wp_simps\<close>), frames (\<open>keeps_intros\<close>), words.
      \<open>Containers\<close>: ordered maps and sets as sorted lists, numbers as text.
      \<open>Power_Info\<close>: the enumerations and string tables of \<open>interfaces/inner_api\<close> and \<open>power_utils.cpp\<close>.
    \<^item> \<open>Multi_Invoker\<close>: \<open>multi_invoker_helper\<close>, the merging of boolean requests of several
      clients; it refines a map of requests in force (locale \<open>bounded_refinement\<close>).
    \<^item> \<open>World\<close>, \<open>Ffrt_Timer\<close>, \<open>Device_Action\<close>, \<open>Suspend_Base\<close>: the state, the timers of
      \<open>utils/ffrt\<close>, \<open>system_suspend_controller.cpp\<close> and \<open>device_state_action.cpp\<close>, the sleep timer and sleep callbacks.
    \<^item> \<open>State_Base\<close>, \<open>State_Transit\<close>, \<open>State_Ops\<close>: \<open>power_state_machine.cpp\<close> from its tables to
      \<open>SetState\<close> and the operations built on it.  \<open>State_Frames\<close>, \<open>State_Laws\<close>, \<open>State_Safety\<close>: what
      a transition leaves alone, which transitions can happen, that invalidated time-outs do nothing, that a lock keeps the screen on.
    \<^item> \<open>Running_Lock\<close>, \<open>Lock_Proxy\<close>, \<open>Lock_Service\<close>: \<open>running_lock_mgr.cpp\<close>, \<open>running_lock_proxy.cpp\<close>,
      \<open>running_lock_timer_handler.cpp\<close> and the lock calls of the service.  \<open>Lock_Laws\<close>, \<open>Proxy_Laws\<close>,
      \<open>Proxy_Counts\<close>, \<open>Lock_Gate\<close>: counters balance the enabled locks, round trips, the manager
      refines a set of held locks, proxy counts.
    \<^item> \<open>Service_Calls\<close>, \<open>Client_Requests\<close>: the calls of \<open>power_mgr_service.cpp\<close> with their permission
      checks, and \<open>death_recipient_manager.cpp\<close>.
    \<^item> \<open>Hibernate_Flow\<close>, \<open>Hibernate_Laws\<close>: hibernation with preparation, roll-back and
      restoration; callbacks are paired and ordered, the busy flag is released.
    \<^item> \<open>Shutdown_Control\<close>, \<open>Shutdown_Laws\<close>: \<open>shutdown_controller.cpp\<close>; order of the steps, mutual
      exclusion, and by rule induction over \<open>shutdown_step\<close> that at most one thread is about to cut the power.
    \<^item> \<open>Suspend_Control\<close>, \<open>Wakeup_Control\<close>, \<open>Control_Laws\<close>: the rest of the suspend controller, the
      wakeup controller, wakeup actions and input events; the power key, the sleep timer, key subscription, guards.
    \<^item> \<open>Ulsr\<close>, \<open>Ulsr_Laws\<close>: the callbacks around an ultra-low-power suspend; by rule induction over
      \<open>ulsr_step\<close> a client is told in turn.
    \<^item> \<open>Force_Suspend\<close>, \<open>Force_Laws\<close>: the forced suspend that ignores locks, split where its threads meet; what an
      interruption guarantees, and a flag that outlives its request.
    \<^item> \<open>Screen_Lock_Callbacks\<close>, \<open>Screen_Lock_Laws\<close>: the counters of screen locks per display and their observers;
      the counters equal the enabled locks of each display, observers hear exactly when a number leaves or reaches zero.
    \<^item> \<open>Setting_Provider\<close>, \<open>Setting_Helper\<close>, \<open>Setting_Laws\<close>: \<open>utils/setting\<close> and \<open>setting_helper.cpp\<close> on a
      data share whose content is what the trace of the calls put there; numbers survive the round trip.
    \<^item> \<open>Mode_Policy\<close>, \<open>Power_Mode\<close>, \<open>Mode_Laws\<close>, \<open>Policy_Laws\<close>: \<open>power_mode_policy.cpp\<close>,
      \<open>power_save_mode.cpp\<close> and \<open>power_mode_module.cpp\<close>; which modes may follow one another, entering a mode refines
      a specification on plain maps, the value of the user comes back, also over a restart.
    \<^item> \<open>Screen_Off_Pre\<close>, \<open>Screen_Saver\<close>, \<open>Saver_Laws\<close>: the warning before a screen-off and
      the screen saver; at most one task of the screen saver is outstanding and it respects locks.
    \<^item> \<open>Source_Config\<close>, \<open>Source_Laws\<close>: the parsers of suspend, wakeup and wakeup action sources over trees of
      \<open>cJSON\<close>, and the operations that rewrite the document; monitors are those of the document, a switch changes one source only.
    \<^item> \<open>Service_Events\<close>, \<open>Shutdown_Dialog\<close>, \<open>Service_Lifecycle\<close>, \<open>Event_Laws\<close>: the observers and
      listeners of the service (settings, hall sensor, switch, input, external screens, common events), the dialog of the power
      key and the vibrator, start, stop and the services that come and go; screens are counted, retries are bounded, a stopped
      service holds nothing.
    \<^item> \<open>Ipc_Parcel\<close>, \<open>Callback_Ipc\<close>: the records that cross processes, every callback proxy and stub of
      \<open>services/zidl\<close> and the asynchronous reply, over an abstract parcel (\<open>parcel_ops\<close>) whose law is that items are read in
      the order in which they were written; data is read back, calls arrive as they were made.
    \<^item> \<open>Ipc_Adapter\<close>, \<open>Power_Client\<close>, \<open>Client_Laws\<close>: the entry points of \<open>power_mgr_service_ipc_adapter.cpp\<close> and the
      dumper; \<open>power_mgr_client.cpp\<close>, \<open>running_lock.cpp\<close>, \<open>client_lifecycle.cpp\<close> and \<open>shutdown_client.cpp\<close> in a state
      monad of their own (\<open>cworld\<close>: the client, the service behind it, which instance of the service runs).  Requests are
      transparent, reconnection is bounded, what a restart of the service does to locks, and three answers that claim too much.
    \<^item> \<open>Js_Bindings\<close>, \<open>Static_Bindings\<close>, \<open>Binding_Laws\<close>: the bindings of \<open>frameworks/napi\<close> for JavaScript, of \<open>frameworks/ets\<close>
      for statically typed ArkTS and of \<open>frameworks/cj\<close> for Cangjie, over the client library.  The Node-API is a type of values
      with a few operations, asynchronous work a value that \<open>run_work\<close> runs.  A lock that a script holds is held in the
      service, the first two bindings agree but for two cases, a function that was unregistered is not called, a creation
      that fails for want of a service is reported as done.
    \<^item> \<open>Power_Cli\<close>, \<open>Cli_Laws\<close>, \<open>Power_Shell\<close>, \<open>Shell_Laws\<close>: the command line tool of \<open>tools/ohos-powerManager\<close> and the
      debugging shell of \<open>utils/shell\<close>, over the client library; the tool accepts exactly its grammar, the shell does
      nothing outside developer mode.
    \<^item> \<open>Suspend_Hub\<close>, \<open>Hub_Laws\<close>: \<open>actions/default/suspend\<close>, the loop that suspends the kernel and the counted wake locks, by rule
      induction over \<open>hub_run\<close>; the hub relies on its controller through the locale \<open>suspend_counter\<close>.
    \<^item> \<open>System_Utils\<close>: permission checks, foreground applications, screens of users, the loader of the extension library
      and the publisher of events, as functions of what the system answers.  The other theories do not build on it: there
      these answers are answers of the environment.
    \<^item> \<open>Sample_World\<close>: one concrete environment and world for the witnesses.

  \<^bold>\<open>Bounds.\<close>  Loops run over finite lists and are structural recursions.  The retry loop of the key
  subscription counts its attempts down from the four of the code.

  \<^bold>\<open>Atomicity.\<close>  A method runs without interruption, as its mutex makes it, except where the code
  lets go on purpose or can be overtaken, which is modelled: a screen-off that is cancelled (\<open>TryToCancelScreenOff_begin\<close> and
  \<open>_end\<close>), the power-key press (\<open>powerkey_down_begin\<close>, \<open>powerkey_down_end\<close>), a refresh during dimming
  (\<open>ConcurrentRefresh\<close>), the busy state mutex, the preparation thread of hibernation (begin, end, late), the
  detached shutdown thread, the wait of a forced suspend, and bounded waits for callbacks, after which a first part of them
  has run.  Timer and queue tasks are constructors of type \<open>task\<close>; each has its handler as a definition.
  \<open>InitPowerMode\<close> does not take the mutex that the other operations of the power mode take; it is
  run as if it did.  The flag of the shutdown controller is atomic but its test and its setting are two steps;
  requests that bypass the mutex of the service could interleave there, which is not modelled.

  \<^bold>\<open>Conventions.\<close>  A guarded pointer is a flag in \<open>ptrs\<close>; dereferences the code does not guard
  succeed, and the state machine is always there.  Remote objects are numbers, a cast of a registered object
  succeeds.  Listeners and maps keyed by pointers are lists in some order.  Lock objects are
  identified by their key.  The tables of the state machine (\<open>forbidMap\<close>, \<open>allowMapByReason\<close>, \<open>lockMap\<close>)
  are constants; fields a constructor leaves uninitialised are arguments of the initialisation.
  Builds without the display manager are not considered.  Casts between an enumeration and its number that cross the IPC are
  identities.  A weak pointer to the proxy can be promoted while the client keeps that proxy.

  \<^bold>\<open>Not modelled.\<close>  Logging, HiSysEvent reporting, dumping, \<open>ScreenChangeCheck\<close> and the test doubles of
  \<open>EnableMock\<close>: they only report.  What belongs to other projects is a parameter: the data share, the \<open>cJSON\<close> parser and printer,
  the XML parser that reads the policy of the power modes (its result is an argument), display, input, ability and common event
  services, the parcel and the binder.  The proxy and stub of \<open>IPowerMgr\<close> are generated from \<open>IPowerMgr.idl\<close> by the build; \<open>remote\<close>
  stands for them: a request is run by the entry point or is lost.  The interactive loop of the shell,
  the registration of modules with the Node-API, and the wrappers of hooks and abilities are left out: they pass requests on.
  The handles, scopes and references of the Node-API are not modelled and its calls succeed.  \<open>getopt_long\<close> is modelled for the first option, the
  only one the shell asks for.
\<close>

end
